(* ===== verification/Prelude.thy ===== *)
theory Prelude
  imports Main "HOL-Library.Word"
begin

text \<open>
  The vocabulary every theory of the development shares: machine integers as words, the
  \<open>Result\<close> type of the code as a sum (\<open>Inl\<close> is \<open>Err\<close>), the byte predicates and string
  functions of the Rust standard library the code calls, a small relational layer for the
  SQL statements of the storage crate, and two locales: a transition system whose invariant
  is proved once, and a keyed table whose upsert is read back.
\<close>

section \<open>Machine integers\<close>

text \<open>
  Signed and unsigned integers of one width are the same word type, so the casts \<open>as i64\<close>
  and \<open>as u64\<close> are the identity; a signed comparison is written with \<open>sint\<close>, an unsigned
  one with the order of words. \<open>usize\<close> is only used for lengths and indices: \<open>nat\<close>.
\<close>

type_synonym u8 = "8 word"
type_synonym u32 = "32 word"
type_synonym i32 = "32 word"
type_synonym u64 = "64 word"
type_synonym i64 = "64 word"
type_synonym uuid = "128 word"

abbreviation i64_max :: u64 where
  "i64_max \<equiv> 0x7FFFFFFFFFFFFFFF"

abbreviation i32_max :: int where
  "i32_max \<equiv> 2147483647"

text \<open>\<open>checked_add(1)\<close> on an unsigned and on a signed integer.\<close>

definition checked_succ_u32 :: "u32 \<Rightarrow> u32 option" where
  "checked_succ_u32 n = (if n = - 1 then None else Some (n + 1))"

definition checked_succ_i64 :: "i64 \<Rightarrow> i64 option" where
  "checked_succ_i64 n = (if sint n = 2 ^ 63 - 1 then None else Some (n + 1))"

lemma checked_succ_u32_Some:
  "checked_succ_u32 n = Some m \<Longrightarrow> unat m = Suc (unat n)"
  using unatSuc [of n] by (auto simp: checked_succ_u32_def add.commute eq_neg_iff_add_eq_0 split: if_splits)

lemma sint_bounds_64: "- (2 ^ 63) \<le> sint (n :: 64 word)" "sint (n :: 64 word) < 2 ^ 63"
  using sint_ge [of n] sint_lt [of n] by simp_all

lemma sint_bounds_32: "- (2 ^ 31) \<le> sint (n :: 32 word)" "sint (n :: 32 word) < 2 ^ 31"
  using sint_ge [of n] sint_lt [of n] by simp_all

lemma sint_succ_64: "sint n \<noteq> 2 ^ 63 - 1 \<Longrightarrow> sint (n + 1 :: 64 word) = sint n + 1"
proof -
  assume "sint n \<noteq> 2 ^ 63 - 1"
  with sint_bounds_64 [of n] have "sint n + 1 \<in> {- (2 ^ 63)..<2 ^ 63}" by auto
  then show ?thesis
    by (simp add: sint_word_ariths signed_take_bit_int_eq_self)
qed

lemma checked_succ_i64_Some:
  "checked_succ_i64 n = Some m \<Longrightarrow> sint m = sint n + 1"
  by (auto simp: checked_succ_i64_def sint_succ_64 split: if_splits)

section \<open>Results\<close>

text \<open>\<open>Ok\<close> is \<open>Inr\<close>, \<open>Err\<close> is \<open>Inl\<close>; \<open>?\<close> is \<open>res_bind\<close>, \<open>map_err(|_| e)\<close> is \<open>map_err e\<close>.\<close>

fun res_bind :: "'e + 'a \<Rightarrow> ('a \<Rightarrow> 'e + 'b) \<Rightarrow> 'e + 'b" where
  "res_bind (Inl e) f = Inl e"
| "res_bind (Inr x) f = f x"

fun map_err :: "'e \<Rightarrow> 'd + 'a \<Rightarrow> 'e + 'a" where
  "map_err e (Inl d) = Inl e"
| "map_err e (Inr x) = Inr x"

fun ok_or :: "'e \<Rightarrow> 'a option \<Rightarrow> 'e + 'a" where
  "ok_or e None = Inl e"
| "ok_or e (Some x) = Inr x"

text \<open>\<open>Option::map(f).transpose()\<close> and \<open>collect::<Result<Vec<_>, _>>()\<close>.\<close>

fun traverse_option :: "('a \<Rightarrow> 'e + 'b) \<Rightarrow> 'a option \<Rightarrow> 'e + 'b option" where
  "traverse_option f None = Inr None"
| "traverse_option f (Some x) = res_bind (f x) (\<lambda>y. Inr (Some y))"

fun traverse_list :: "('a \<Rightarrow> 'e + 'b) \<Rightarrow> 'a list \<Rightarrow> 'e + 'b list" where
  "traverse_list f [] = Inr []"
| "traverse_list f (x # xs) =
     res_bind (f x) (\<lambda>y. res_bind (traverse_list f xs) (\<lambda>ys. Inr (y # ys)))"

lemma res_bind_Inr_iff: "res_bind r f = Inr y \<longleftrightarrow> (\<exists>x. r = Inr x \<and> f x = Inr y)"
  by (cases r) auto

lemma map_err_Inr_iff [simp]: "map_err e r = Inr x \<longleftrightarrow> r = Inr x"
  by (cases r) auto

lemma ok_or_Inr_iff [simp]: "ok_or e r = Inr x \<longleftrightarrow> r = Some x"
  by (cases r) auto

lemma traverse_list_all:
  "(\<And>x. x \<in> set xs \<Longrightarrow> f (g x) = Inr x) \<Longrightarrow> traverse_list f (map g xs) = Inr xs"
  by (induction xs) auto

lemma traverse_list_length: "traverse_list f xs = Inr ys \<Longrightarrow> length ys = length xs"
  by (induction xs arbitrary: ys) (auto simp: res_bind_Inr_iff)

lemma traverse_list_Inr_all:
  "traverse_list f xs = Inr ys \<Longrightarrow> y \<in> set ys \<Longrightarrow> \<exists>x \<in> set xs. f x = Inr y"
  by (induction xs arbitrary: ys) (auto simp: res_bind_Inr_iff)

section \<open>Bytes and strings\<close>

text \<open>A Rust \<open>str\<close> is its UTF-8 bytes: one \<open>char\<close> per byte, so \<open>length\<close> is \<open>len()\<close>.\<close>

definition byte :: "char \<Rightarrow> nat" where
  "byte c = of_char c"

definition is_ascii :: "char \<Rightarrow> bool" where
  "is_ascii c \<longleftrightarrow> byte c < 128"

definition is_ascii_control :: "char \<Rightarrow> bool" where
  "is_ascii_control c \<longleftrightarrow> byte c < 32 \<or> byte c = 127"

definition is_ascii_digit :: "char \<Rightarrow> bool" where
  "is_ascii_digit c \<longleftrightarrow> 48 \<le> byte c \<and> byte c \<le> 57"

definition is_ascii_lowercase :: "char \<Rightarrow> bool" where
  "is_ascii_lowercase c \<longleftrightarrow> 97 \<le> byte c \<and> byte c \<le> 122"

definition is_ascii_uppercase :: "char \<Rightarrow> bool" where
  "is_ascii_uppercase c \<longleftrightarrow> 65 \<le> byte c \<and> byte c \<le> 90"

definition is_ascii_alphanumeric :: "char \<Rightarrow> bool" where
  "is_ascii_alphanumeric c \<longleftrightarrow> is_ascii_digit c \<or> is_ascii_lowercase c \<or> is_ascii_uppercase c"

definition is_ascii_hexdigit :: "char \<Rightarrow> bool" where
  "is_ascii_hexdigit c \<longleftrightarrow> is_ascii_digit c \<or> (97 \<le> byte c \<and> byte c \<le> 102)
     \<or> (65 \<le> byte c \<and> byte c \<le> 70)"

definition to_ascii_lowercase :: "char \<Rightarrow> char" where
  "to_ascii_lowercase c = (if is_ascii_uppercase c then char_of (byte c + 32) else c)"

lemmas byte_class_defs =
  is_ascii_def is_ascii_control_def is_ascii_digit_def is_ascii_lowercase_def
  is_ascii_uppercase_def is_ascii_alphanumeric_def is_ascii_hexdigit_def

lemma byte_char_of: "n < 256 \<Longrightarrow> byte (char_of n) = n"
  by (simp add: byte_def)

lemma lowercase_not_uppercase: "\<not> is_ascii_uppercase (to_ascii_lowercase c)"
  by (auto simp: to_ascii_lowercase_def is_ascii_uppercase_def byte_char_of)

lemma to_ascii_lowercase_idem [simp]:
  "to_ascii_lowercase (to_ascii_lowercase c) = to_ascii_lowercase c"
  using lowercase_not_uppercase [of c] by (simp add: to_ascii_lowercase_def)

lemma lowercase_hexdigit: "is_ascii_hexdigit c \<Longrightarrow> is_ascii_hexdigit (to_ascii_lowercase c)"
  by (auto simp: to_ascii_lowercase_def byte_class_defs byte_char_of)

text \<open>\<open>str::split(c)\<close>: the parts between the separators, always at least one.\<close>

fun split_on :: "char \<Rightarrow> string \<Rightarrow> string list" where
  "split_on c [] = [[]]"
| "split_on c (x # xs) =
     (if x = c then [] # split_on c xs
      else (case split_on c xs of [] \<Rightarrow> [[x]] | p # ps \<Rightarrow> (x # p) # ps))"

lemma split_on_not_Nil [simp]: "split_on c s \<noteq> []"
  by (cases s) (auto split: list.splits)

definition starts_with :: "string \<Rightarrow> string \<Rightarrow> bool" where
  "starts_with s p \<longleftrightarrow> take (length p) s = p"

definition ends_with :: "string \<Rightarrow> string \<Rightarrow> bool" where
  "ends_with s p \<longleftrightarrow> starts_with (rev s) (rev p)"

definition strip_suffix :: "string \<Rightarrow> string \<Rightarrow> string option" where
  "strip_suffix s p = (if ends_with s p then Some (take (length s - length p) s) else None)"

definition trim_end_matches :: "char \<Rightarrow> string \<Rightarrow> string" where
  "trim_end_matches c s = rev (dropWhile (\<lambda>x. x = c) (rev s))"

lemma starts_with_iff: "starts_with s p \<longleftrightarrow> (\<exists>t. s = p @ t)"
  by (metis append_eq_conv_conj append_take_drop_id starts_with_def)

lemma ends_with_iff: "ends_with s p \<longleftrightarrow> (\<exists>t. s = t @ p)"
proof -
  have "ends_with s p \<longleftrightarrow> (\<exists>t. rev s = rev p @ t)"
    by (simp add: ends_with_def starts_with_iff)
  also have "\<dots> \<longleftrightarrow> (\<exists>t. s = t @ p)"
    by (metis rev_append rev_rev_ident)
  finally show ?thesis .
qed

lemma strip_suffix_Some_iff: "strip_suffix s p = Some t \<longleftrightarrow> s = t @ p"
  by (auto simp: strip_suffix_def ends_with_iff)

section \<open>A relational layer for the SQL statements\<close>

text \<open>
  A table is a list of rows. An \<open>UPDATE\<close> maps the rows that satisfy its \<open>WHERE\<close>
  clause; \<open>rows_affected()\<close> counts them; \<open>ORDER BY k LIMIT n\<close> is a stable sort and a prefix.
\<close>

definition update_where :: "('r \<Rightarrow> bool) \<Rightarrow> ('r \<Rightarrow> 'r) \<Rightarrow> 'r list \<Rightarrow> 'r list" where
  "update_where p f t = map (\<lambda>r. if p r then f r else r) t"

definition count_where :: "('r \<Rightarrow> bool) \<Rightarrow> 'r list \<Rightarrow> nat" where
  "count_where p t = length (filter p t)"

definition order_limit :: "('r \<Rightarrow> 'k :: linorder) \<Rightarrow> nat \<Rightarrow> 'r list \<Rightarrow> 'r list" where
  "order_limit k n t = take n (sort_key k t)"

definition find_row :: "('r \<Rightarrow> bool) \<Rightarrow> 'r list \<Rightarrow> 'r option" where
  "find_row p t = (case filter p t of [] \<Rightarrow> None | r # _ \<Rightarrow> Some r)"

lemma update_where_Nil [simp]: "update_where p f [] = []"
  and update_where_Cons [simp]:
    "update_where p f (r # t) = (if p r then f r else r) # update_where p f t"
  by (simp_all add: update_where_def)

lemma length_update_where [simp]: "length (update_where p f t) = length t"
  by (simp add: update_where_def)

lemma set_update_where:
  "set (update_where p f t) = {r \<in> set t. \<not> p r} \<union> f ` {r \<in> set t. p r}"
  by (auto simp: update_where_def)

lemma list_all2_update_where:
  "(\<And>r. P r r) \<Longrightarrow> (\<And>r. p r \<Longrightarrow> P r (f r)) \<Longrightarrow> list_all2 P t (update_where p f t)"
  by (induction t) auto

lemma update_where_none: "count_where p t = 0 \<Longrightarrow> update_where p f t = t"
  by (auto simp: update_where_def count_where_def filter_empty_conv intro: map_idI)

lemma map_update_where:
  "(\<And>r. p r \<Longrightarrow> g (f r) = g r) \<Longrightarrow> map g (update_where p f t) = map g t"
  by (auto simp: update_where_def)

lemma filter_update_where_other:
  "(\<And>r. p r \<Longrightarrow> \<not> q r \<and> \<not> q (f r)) \<Longrightarrow> filter q (update_where p f t) = filter q t"
  by (induction t) auto

lemma filter_update_where_stable:
  "(\<And>r. p r \<Longrightarrow> q (f r) = q r) \<Longrightarrow> filter q (update_where p f t) = update_where p f (filter q t)"
  by (induction t) auto

lemma find_row_Some:
  assumes "find_row p t = Some r" shows "r \<in> set t" and "p r"
proof -
  from assms obtain rs where "filter p t = r # rs"
    by (auto simp: find_row_def split: list.splits)
  then have "r \<in> set (filter p t)" by simp
  then show "r \<in> set t" and "p r" by simp_all
qed

lemma find_row_append:
  "find_row p (xs @ ys) = (case find_row p xs of None \<Rightarrow> find_row p ys | Some r \<Rightarrow> Some r)"
  by (simp add: find_row_def split: list.splits)

lemma find_row_None: "find_row p t = None \<longleftrightarrow> (\<forall>r \<in> set t. \<not> p r)"
proof -
  have "find_row p t = None \<longleftrightarrow> filter p t = []"
    by (simp add: find_row_def split: list.splits)
  then show ?thesis by (simp add: filter_empty_conv)
qed

lemma order_limit_1_Cons:
  assumes "order_limit k (Suc 0) t = [r]"
  shows "r \<in> set t" and "x \<in> set t \<Longrightarrow> k r \<le> k x"
proof -
  obtain rest where s: "sort_key k t = r # rest"
    using assms by (cases "sort_key k t") (simp_all add: order_limit_def)
  then show "r \<in> set t" by (metis list.set_intros(1) set_sort)
  assume "x \<in> set t"
  with s have "x \<in> set (r # rest)" by (metis set_sort)
  moreover have "sorted (map k (r # rest))" by (metis s sorted_sort_key)
  ultimately show "k r \<le> k x" by auto
qed

lemma order_limit_1_cases:
  obtains "t = []" "order_limit k (Suc 0) t = []"
    | r where "order_limit k (Suc 0) t = [r]"
proof (cases "sort_key k t")
  case Nil
  then have "t = []" by (metis length_0_conv length_sort)
  with Nil show thesis by (auto simp: order_limit_def intro: that)
next
  case (Cons r rest)
  then show thesis by (auto simp: order_limit_def intro: that)
qed

lemma order_limit_subset: "set (order_limit k n t) \<subseteq> set t"
  by (metis order_limit_def set_sort set_take_subset)

text \<open>With a primary key, an update by key touches at most one row.\<close>

lemma count_where_key_le_1:
  assumes "distinct (map key t)" and "\<And>r. p r \<Longrightarrow> key r = k"
  shows "count_where p t \<le> 1"
  using assms
proof (induction t)
  case Nil
  then show ?case by (simp add: count_where_def)
next
  case (Cons r t)
  then have IH: "count_where p t \<le> 1" by simp
  show ?case
  proof (cases "p r")
    case True
    with Cons.prems have "\<forall>r' \<in> set t. \<not> p r'"
      by (metis (no_types, lifting) distinct.simps(2) image_eqI list.set_map list.simps(9))
    then show ?thesis by (simp add: count_where_def)
  next
    case False
    with IH show ?thesis by (simp add: count_where_def)
  qed
qed

lemma distinct_key_eq:
  "distinct (map key t) \<Longrightarrow> r \<in> set t \<Longrightarrow> r' \<in> set t \<Longrightarrow> key r = key r' \<Longrightarrow> r = r'"
  by (metis distinct_map inj_onD)

section \<open>Decimal text\<close>

fun show_nat :: "nat \<Rightarrow> string" where
  "show_nat n =
     (if n < 10 then [char_of (48 + n)] else show_nat (n div 10) @ [char_of (48 + n mod 10)])"

declare show_nat.simps [simp del]

lemma show_nat_small: "n < 10 \<Longrightarrow> show_nat n = [char_of (48 + n)]"
  by (subst show_nat.simps) simp

lemma show_nat_large:
  "\<not> n < 10 \<Longrightarrow> show_nat n = show_nat (n div 10) @ [char_of (48 + n mod 10)]"
  by (subst show_nat.simps) simp

section \<open>Transition systems\<close>

text \<open>
  The contract a component offers when its operations are the steps of a state machine: an
  invariant that holds at the start and that every step keeps. The client lemma lifts it to
  every state a sequence of steps can reach.
\<close>

locale transition_system =
  fixes initial :: "'s \<Rightarrow> bool"
    and step :: "'s \<Rightarrow> 's \<Rightarrow> bool"
    and invariant :: "'s \<Rightarrow> bool"
  assumes inv_initial: "initial s \<Longrightarrow> invariant s"
    and inv_step: "invariant s \<Longrightarrow> step s t \<Longrightarrow> invariant t"
begin

lemma inv_steps: "step\<^sup>*\<^sup>* s t \<Longrightarrow> invariant s \<Longrightarrow> invariant t"
  by (induction rule: rtranclp_induct) (auto intro: inv_step)

lemma inv_reachable: "initial s \<Longrightarrow> step\<^sup>*\<^sup>* s t \<Longrightarrow> invariant t"
  by (blast intro: inv_steps inv_initial)

lemma frame_steps:
  assumes "step\<^sup>*\<^sup>* s t" and "invariant s" and "P s"
    and "\<And>s t. invariant s \<Longrightarrow> step s t \<Longrightarrow> P s \<Longrightarrow> P t"
  shows "P t"
proof -
  from assms(1) have "invariant t \<and> P t"
    by (induction rule: rtranclp_induct) (use assms inv_step in blast)+
  then show ?thesis by simp
qed

end

section \<open>Keyed tables\<close>

text \<open>
  The contract of a table written by an upsert on its primary key: the row is read back,
  and no other row changes. A store of typed values on top of it decodes what it encoded, up
  to what reading does to a written value: the text of a column need not give back the value.
\<close>

locale keyed_table =
  fixes lookup :: "'s \<Rightarrow> 'k \<Rightarrow> 'r option"
    and upsert :: "'k \<Rightarrow> 'r \<Rightarrow> 's \<Rightarrow> 's"
  assumes lookup_upsert: "lookup (upsert k r s) k = Some r"
    and lookup_upsert_other: "k' \<noteq> k \<Longrightarrow> lookup (upsert k r s) k' = lookup s k'"

locale coded_table = keyed_table lookup upsert
  for lookup :: "'s \<Rightarrow> 'k \<Rightarrow> 'r option"
    and upsert :: "'k \<Rightarrow> 'r \<Rightarrow> 's \<Rightarrow> 's" +
  fixes encode :: "'v \<Rightarrow> 'r"
    and decode :: "'k \<Rightarrow> 'r \<Rightarrow> 'e + 'v"
    and reads :: "'v \<Rightarrow> 'e + 'v"
    and valid :: "'k \<Rightarrow> 'v \<Rightarrow> bool"
  assumes decode_encode: "valid k v \<Longrightarrow> decode k (encode v) = reads v"
    and reads_valid: "valid k v \<Longrightarrow> reads v = Inr w \<Longrightarrow> valid k w"
begin

definition current :: "'s \<Rightarrow> 'k \<Rightarrow> 'e + 'v option" where
  "current s k = traverse_option (decode k) (lookup s k)"

lemma current_upsert:
  "valid k v \<Longrightarrow> current (upsert k (encode v) s) k = res_bind (reads v) (\<lambda>w. Inr (Some w))"
  by (simp add: current_def lookup_upsert decode_encode)

lemma current_upsert_other:
  "k' \<noteq> k \<Longrightarrow> current (upsert k (encode v) s) k' = current s k'"
  by (simp add: current_def lookup_upsert_other)

definition all_valid :: "'s \<Rightarrow> bool" where
  "all_valid s \<longleftrightarrow> (\<forall>k r. lookup s k = Some r \<longrightarrow> (\<exists>v. valid k v \<and> r = encode v))"

lemma all_valid_upsert: "all_valid s \<Longrightarrow> valid k v \<Longrightarrow> all_valid (upsert k (encode v) s)"
  unfolding all_valid_def by (metis lookup_upsert lookup_upsert_other option.inject)

lemma all_valid_current:
  assumes "all_valid s"
  obtains (none) "current s k = Inr None" "lookup s k = None"
    | (unread) v x where "current s k = Inl x" "lookup s k = Some (encode v)" "valid k v" "reads v = Inl x"
    | (read) v w where "current s k = Inr (Some w)" "lookup s k = Some (encode v)" "valid k v"
        "reads v = Inr w" "valid k w"
proof (cases "lookup s k")
  case None
  then show thesis by (intro none) (simp_all add: current_def)
next
  case (Some r)
  with assms obtain v where v: "lookup s k = Some (encode v)" "valid k v" by (auto simp: all_valid_def)
  then have "current s k = res_bind (reads v) (\<lambda>w. Inr (Some w))" by (simp add: current_def decode_encode)
  with v show thesis by (cases "reads v") (simp_all add: unread read reads_valid)
qed

end

section \<open>Text labels\<close>

text \<open>
  The contract of the code's pairs of a label writer and a label parser (\<open>as_str\<close> with
  \<open>parse\<close>, \<open>Display\<close> with \<open>FromStr\<close>): each value that may be written is read back, and
  nothing else is accepted.
\<close>

locale label_codec =
  fixes label :: "'a \<Rightarrow> string"
    and parse :: "string \<Rightarrow> 'e + 'a"
    and writable :: "'a \<Rightarrow> bool"
  assumes parse_label: "writable x \<Longrightarrow> parse (label x) = Inr x"
    and label_parse: "parse s = Inr x \<Longrightarrow> writable x \<and> label x = s"
begin

lemma accepted_iff: "(\<exists>x. parse s = Inr x) \<longleftrightarrow> (\<exists>x. writable x \<and> label x = s)"
  using parse_label label_parse by metis

lemma parse_iff: "parse s = Inr x \<longleftrightarrow> writable x \<and> label x = s"
  using parse_label label_parse by metis

lemma label_inj: "writable x \<Longrightarrow> writable y \<Longrightarrow> label x = label y \<Longrightarrow> x = y"
  by (metis parse_label sum.inject(2))

end

end
