(* ===== verification/Access.thy ===== *)
theory Access
  imports Prelude
begin

text \<open>
  The authorization policy of \<open>backend/crates/yoink-access/src/lib.rs\<close>: the ordered global
  roles with their text form, the principal and its bans, the resolution of a feature grant
  in its order of precedence (\<open>effective_grant\<close>), and the access decision in a chat context
  (\<open>check_access\<close>). A \<open>DateTime<Utc>\<close> is its distance from the epoch, an \<open>int\<close>.
\<close>

type_synonym instant = int

section \<open>Roles\<close>

datatype role = Banned | Restricted | User | Moderator | Admin | Owner

fun role_rank :: "role \<Rightarrow> nat" where
  "role_rank Banned = 0"
| "role_rank Restricted = 1"
| "role_rank User = 2"
| "role_rank Moderator = 3"
| "role_rank Admin = 4"
| "role_rank Owner = 5"

lemma role_rank_inject: "role_rank a = role_rank b \<Longrightarrow> a = b"
  by (cases a; cases b) simp_all

instantiation role :: linorder
begin

definition less_eq_role :: "role \<Rightarrow> role \<Rightarrow> bool" where
  "less_eq_role a b \<longleftrightarrow> role_rank a \<le> role_rank b"

definition less_role :: "role \<Rightarrow> role \<Rightarrow> bool" where
  "less_role a b \<longleftrightarrow> role_rank a < role_rank b"

instance
  by standard (auto simp: less_eq_role_def less_role_def dest: role_rank_inject)

end

lemmas role_order_defs = less_eq_role_def less_role_def

fun role_to_string :: "role \<Rightarrow> string" where
  "role_to_string Banned = ''banned''"
| "role_to_string Restricted = ''restricted''"
| "role_to_string User = ''user''"
| "role_to_string Moderator = ''moderator''"
| "role_to_string Admin = ''admin''"
| "role_to_string Owner = ''owner''"

datatype parse_role_error = ParseRoleError string

definition role_from_str :: "string \<Rightarrow> parse_role_error + role" where
  "role_from_str value =
     (if value = ''banned'' then Inr Banned
      else if value = ''restricted'' then Inr Restricted
      else if value = ''user'' then Inr User
      else if value = ''moderator'' then Inr Moderator
      else if value = ''admin'' then Inr Admin
      else if value = ''owner'' then Inr Owner
      else Inl (ParseRoleError value))"

interpretation role_text: label_codec role_to_string role_from_str "\<lambda>_. True"
proof unfold_locales
  fix x :: role
  show "role_from_str (role_to_string x) = Inr x"
    by (cases x) (simp_all add: role_from_str_def)
next
  fix s x
  show "role_from_str s = Inr x \<Longrightarrow> True \<and> role_to_string x = s"
    by (auto simp: role_from_str_def split: if_splits)
qed

section \<open>Principals and grants\<close>

record principal =
  user_id :: i64
  role :: role
  ban_until :: "instant option"

definition is_blocked :: "principal \<Rightarrow> instant \<Rightarrow> bool" where
  "is_blocked p now \<longleftrightarrow>
     role p = Banned \<or> (case ban_until p of None \<Rightarrow> False | Some until \<Rightarrow> until > now)"

record grant =
  grant_plugin :: string
  grant_feature :: string
  expires_at :: "instant option"

record provider_grant =
  provider_plugin :: string
  provider_feature :: string

record feature_spec =
  spec_plugin :: string
  spec_feature :: string
  default_min_role :: "role option"

datatype grant_source = ByOwner | ByExplicit | ByRole | ByProvider

definition grant_matches :: "feature_spec \<Rightarrow> instant \<Rightarrow> grant \<Rightarrow> bool" where
  "grant_matches spec now g \<longleftrightarrow>
     grant_plugin g = spec_plugin spec \<and> grant_feature g = spec_feature spec
     \<and> (case expires_at g of None \<Rightarrow> True | Some t \<Rightarrow> t > now)"

definition provider_matches :: "feature_spec \<Rightarrow> provider_grant \<Rightarrow> bool" where
  "provider_matches spec g \<longleftrightarrow>
     provider_plugin g = spec_plugin spec \<and> provider_feature g = spec_feature spec"

definition effective_grant ::
  "principal \<Rightarrow> feature_spec \<Rightarrow> grant list \<Rightarrow> provider_grant list \<Rightarrow> instant \<Rightarrow> grant_source option" where
  "effective_grant p spec grants providers now =
     (if sint (user_id p) \<le> 0 \<or> is_blocked p now then None
      else if role p = Owner then Some ByOwner
      else if list_ex (grant_matches spec now) grants then Some ByExplicit
      else if (case default_min_role spec of None \<Rightarrow> False | Some minimum \<Rightarrow> role p \<ge> minimum)
        then Some ByRole
      else if list_ex (provider_matches spec) providers then Some ByProvider
      else None)"

section \<open>Access decisions\<close>

datatype access_scope = PrivateScope | GroupScope

record access_policy =
  min_role :: role
  scopes :: "access_scope list"
  check_group_enabled :: bool
  check_thread_policy :: bool

record access_context =
  scope :: access_scope
  group_enabled :: bool
  thread_allowed :: bool
  group_role_override :: "role option"
  group_auto_grant_role :: "role option"

record access_decision =
  allowed :: bool
  deny_reason :: string
  effective_role :: role

definition denied :: "string \<Rightarrow> role \<Rightarrow> access_decision" where
  "denied reason r = \<lparr>allowed = False, deny_reason = reason, effective_role = r\<rparr>"

definition local_role :: "principal \<Rightarrow> access_context \<Rightarrow> role" where
  "local_role p ctx =
     (if scope ctx = GroupScope then
        (case group_role_override ctx of
           Some r \<Rightarrow> r
         | None \<Rightarrow>
             if role p = Restricted \<and> group_enabled ctx then
               (case group_auto_grant_role ctx of
                  Some r \<Rightarrow> if r > role p then r else role p
                | None \<Rightarrow> role p)
             else role p)
      else role p)"

definition check_access ::
  "principal \<Rightarrow> access_policy \<Rightarrow> access_context \<Rightarrow> instant \<Rightarrow> access_decision" where
  "check_access p policy ctx now =
     (if sint (user_id p) \<le> 0 \<or> is_blocked p now then denied ''blocked'' (role p)
      else let r = local_role p ctx in
        if scope ctx \<notin> set (scopes policy) then
          denied (case scope ctx of PrivateScope \<Rightarrow> ''scope_private_not_allowed''
                  | GroupScope \<Rightarrow> ''scope_group_not_allowed'') r
        else if scope ctx = GroupScope \<and> check_group_enabled policy \<and> \<not> group_enabled ctx then
          denied ''group_not_enabled'' r
        else if scope ctx = GroupScope \<and> check_thread_policy policy \<and> \<not> thread_allowed ctx then
          denied ''thread_not_allowed'' r
        else if r < min_role policy then denied ''role_below_minimum'' r
        else \<lparr>allowed = True, deny_reason = '''', effective_role = r\<rparr>)"

section \<open>Properties\<close>

lemma denied_simps [simp]:
  "allowed (denied m r) = False" "effective_role (denied m r) = r" "deny_reason (denied m r) = m"
  by (simp_all add: denied_def)

lemma effective_grant_granted_iff:
  "effective_grant p spec grants providers now \<noteq> None \<longleftrightarrow>
     0 < sint (user_id p) \<and> \<not> is_blocked p now
     \<and> (role p = Owner
        \<or> (\<exists>g \<in> set grants. grant_matches spec now g)
        \<or> (\<exists>m. default_min_role spec = Some m \<and> m \<le> role p)
        \<or> (\<exists>g \<in> set providers. provider_matches spec g))"
  by (auto simp: effective_grant_def list_ex_iff split: option.splits)

text \<open>A blocked principal, whatever its role, and a principal with an identifier that is not
  positive get no feature from any source and no access in any context.\<close>

theorem blocked_denied_everywhere:
  assumes "is_blocked p now \<or> sint (user_id p) \<le> 0"
  shows "effective_grant p spec grants providers now = None
    \<and> \<not> allowed (check_access p policy ctx now)
    \<and> deny_reason (check_access p policy ctx now) = ''blocked''
    \<and> effective_role (check_access p policy ctx now) = role p"
  using assms by (auto simp: effective_grant_def check_access_def)

theorem blocked_denied_everywhere_witness:
  "let p = \<lparr>user_id = 42, role = Owner, ban_until = Some 2000\<rparr>;
       spec = \<lparr>spec_plugin = ''dl'', spec_feature = ''download'', default_min_role = Some User\<rparr>;
       policy = \<lparr>min_role = User, scopes = [PrivateScope], check_group_enabled = True,
                 check_thread_policy = True\<rparr>;
       ctx = \<lparr>scope = PrivateScope, group_enabled = False, thread_allowed = False,
              group_role_override = None, group_auto_grant_role = None\<rparr>
   in effective_grant p spec [] [] 1000 = None \<and> \<not> allowed (check_access p policy ctx 1000)
      \<and> effective_grant p spec [] [] 2000 = Some ByOwner"
proof -
  let ?p = "\<lparr>user_id = 42, role = Owner, ban_until = Some 2000\<rparr> :: principal"
  have "is_blocked ?p 1000 \<or> sint (user_id ?p) \<le> 0" by (simp add: is_blocked_def)
  note h = blocked_denied_everywhere [OF this]
  show ?thesis unfolding Let_def
    using h by (simp add: effective_grant_def is_blocked_def)
qed

text \<open>The source of a granted feature is the first of owner, explicit, role and provider that
  applies, and a grant is explicit only while some matching grant has not expired
  (an expiry equal to the current time is expired).\<close>

theorem effective_grant_precedence:
  "effective_grant p spec grants providers now = src \<longleftrightarrow>
    (case src of
       None \<Rightarrow> sint (user_id p) \<le> 0 \<or> is_blocked p now
         \<or> (role p \<noteq> Owner \<and> (\<forall>g \<in> set grants. \<not> grant_matches spec now g)
            \<and> (\<forall>m. default_min_role spec = Some m \<longrightarrow> role p < m)
            \<and> (\<forall>g \<in> set providers. \<not> provider_matches spec g))
     | Some s \<Rightarrow> 0 < sint (user_id p) \<and> \<not> is_blocked p now \<and>
         (case s of
            ByOwner \<Rightarrow> role p = Owner
          | ByExplicit \<Rightarrow> role p \<noteq> Owner \<and> (\<exists>g \<in> set grants. grant_matches spec now g)
          | ByRole \<Rightarrow> role p \<noteq> Owner \<and> (\<forall>g \<in> set grants. \<not> grant_matches spec now g)
              \<and> (\<exists>m. default_min_role spec = Some m \<and> m \<le> role p)
          | ByProvider \<Rightarrow> role p \<noteq> Owner \<and> (\<forall>g \<in> set grants. \<not> grant_matches spec now g)
              \<and> (\<forall>m. default_min_role spec = Some m \<longrightarrow> role p < m)
              \<and> (\<exists>g \<in> set providers. provider_matches spec g)))"
  by (cases "default_min_role spec")
    (auto simp: effective_grant_def list_ex_iff not_le not_less
      split: option.splits grant_source.splits)

theorem effective_grant_precedence_witness:
  "effective_grant \<lparr>user_id = 7, role = User, ban_until = None\<rparr>
     \<lparr>spec_plugin = ''dl'', spec_feature = ''download'', default_min_role = Some User\<rparr>
     [\<lparr>grant_plugin = ''dl'', grant_feature = ''download'', expires_at = Some 10\<rparr>] [] 10
   = Some ByRole"
  by (subst effective_grant_precedence)
    (simp add: grant_matches_def is_blocked_def)

text \<open>Access is allowed exactly when the principal is valid and not blocked, the scope is
  listed, a group passes its enabled and thread checks, and the local role reaches the minimum.\<close>

theorem check_access_allowed_iff:
  "allowed (check_access p policy ctx now) \<longleftrightarrow>
     0 < sint (user_id p) \<and> \<not> is_blocked p now \<and> scope ctx \<in> set (scopes policy)
     \<and> \<not> (scope ctx = GroupScope \<and> check_group_enabled policy \<and> \<not> group_enabled ctx)
     \<and> \<not> (scope ctx = GroupScope \<and> check_thread_policy policy \<and> \<not> thread_allowed ctx)
     \<and> min_role policy \<le> local_role p ctx"
  by (auto simp: check_access_def Let_def not_le not_less)

text \<open>Without an explicit override the local role never falls below the global one, and it
  exceeds it only for a restricted principal in an enabled group; in a private chat it is the
  global role.\<close>

theorem local_role_bounds:
  assumes "scope ctx = PrivateScope \<or> group_role_override ctx = None"
  shows "role p \<le> local_role p ctx
    \<and> (local_role p ctx \<noteq> role p \<longrightarrow>
      role p = Restricted \<and> scope ctx = GroupScope \<and> group_enabled ctx
      \<and> group_auto_grant_role ctx = Some (local_role p ctx))"
  using assms by (auto simp: local_role_def split: option.splits if_splits)

theorem local_role_bounds_witness:
  "local_role \<lparr>user_id = 7, role = Restricted, ban_until = None\<rparr>
     \<lparr>scope = GroupScope, group_enabled = True, thread_allowed = True,
      group_role_override = None, group_auto_grant_role = Some User\<rparr> = User
   \<and> Restricted < User"
  using local_role_bounds [of
     "\<lparr>scope = GroupScope, group_enabled = True, thread_allowed = True,
      group_role_override = None, group_auto_grant_role = Some User\<rparr>"
     "\<lparr>user_id = 7, role = Restricted, ban_until = None\<rparr>"]
  by (simp add: local_role_def less_role_def)

end
