(* ===== verification/Network.thy ===== *)
theory Network
  imports Prelude
begin

text \<open>
  The network references of \<open>backend/crates/yoink-domain/src/network.rs\<close>: credential versions
  (a SHA-256 in hexadecimal, kept in lowercase), cookie and proxy references, and the
  selection of a request, which may only name personal credentials of the request's actor.
\<close>

datatype network_reference_error = InvalidVersion | InvalidCookie | InvalidProxy | ActorMismatch

datatype credential_version = CredentialVersion (version_text: string)

definition credential_version_new :: "string \<Rightarrow> network_reference_error + credential_version" where
  "credential_version_new value =
     (if length value \<noteq> 64 \<or> \<not> list_all is_ascii_hexdigit value then Inl InvalidVersion
      else Inr (CredentialVersion (map to_ascii_lowercase value)))"

definition valid_label :: "string \<Rightarrow> bool" where
  "valid_label label \<longleftrightarrow>
     label \<noteq> [] \<and> length label \<le> 63
     \<and> list_all (\<lambda>b. is_ascii_lowercase b \<or> is_ascii_digit b \<or> b = CHR ''-'') label
     \<and> is_ascii_alphanumeric (hd label) \<and> is_ascii_alphanumeric (last label)"

definition valid_domain :: "string \<Rightarrow> bool" where
  "valid_domain value \<longleftrightarrow>
     length value \<le> 253 \<and> value \<noteq> [] \<and> \<not> starts_with value ''.'' \<and> \<not> ends_with value ''.''
     \<and> list_all valid_label (split_on CHR ''.'' value)"

definition valid_actor :: "u64 \<Rightarrow> bool" where
  "valid_actor actor \<longleftrightarrow> \<not> (actor = 0 \<or> actor > i64_max)"

record cookie_reference =
  cookie_id :: i32
  cookie_owner_id :: u64
  cookie_domain :: string
  cookie_is_pool :: bool
  cookie_version :: credential_version

definition cookie_reference_new ::
  "i32 \<Rightarrow> u64 \<Rightarrow> string \<Rightarrow> bool \<Rightarrow> credential_version \<Rightarrow> network_reference_error + cookie_reference" where
  "cookie_reference_new ident owner domain is_pool version =
     (if sint ident \<le> 0 \<or> owner = 0 \<or> owner > i64_max \<or> \<not> valid_domain domain then Inl InvalidCookie
      else Inr \<lparr>cookie_id = ident, cookie_owner_id = owner, cookie_domain = domain,
                cookie_is_pool = is_pool, cookie_version = version\<rparr>)"

datatype proxy_source = PersonalProxy u64 | SystemProxy

record proxy_reference =
  proxy_source :: proxy_source
  proxy_version :: credential_version

definition proxy_reference_new ::
  "proxy_source \<Rightarrow> credential_version \<Rightarrow> network_reference_error + proxy_reference" where
  "proxy_reference_new source version =
     (if (case source of PersonalProxy actor \<Rightarrow> actor = 0 \<or> actor > i64_max | SystemProxy \<Rightarrow> False)
      then Inl InvalidProxy
      else Inr \<lparr>proxy_source = source, proxy_version = version\<rparr>)"

record network_selection =
  cookie :: "cookie_reference option"
  proxy :: "proxy_reference option"

definition network_none :: network_selection where
  "network_none = \<lparr>cookie = None, proxy = None\<rparr>"

definition validate_actor :: "network_selection \<Rightarrow> u64 \<Rightarrow> network_reference_error + unit" where
  "validate_actor n actor =
     (if (case cookie n of None \<Rightarrow> False
          | Some c \<Rightarrow> \<not> cookie_is_pool c \<and> cookie_owner_id c \<noteq> actor)
         \<or> (case map_option proxy_source (proxy n) of
              Some (PersonalProxy owner) \<Rightarrow> owner \<noteq> actor
            | _ \<Rightarrow> False)
      then Inl ActorMismatch
      else Inr ())"

section \<open>What the constructors guarantee\<close>

definition version_wf :: "credential_version \<Rightarrow> bool" where
  "version_wf v \<longleftrightarrow> credential_version_new (version_text v) = Inr v"

definition cookie_wf :: "cookie_reference \<Rightarrow> bool" where
  "cookie_wf c \<longleftrightarrow>
     0 < sint (cookie_id c) \<and> valid_actor (cookie_owner_id c) \<and> valid_domain (cookie_domain c)
     \<and> version_wf (cookie_version c)"

definition proxy_wf :: "proxy_reference \<Rightarrow> bool" where
  "proxy_wf p \<longleftrightarrow>
     (case proxy_source p of PersonalProxy a \<Rightarrow> valid_actor a | SystemProxy \<Rightarrow> True)
     \<and> version_wf (proxy_version p)"

definition network_wf :: "network_selection \<Rightarrow> bool" where
  "network_wf n \<longleftrightarrow> pred_option cookie_wf (cookie n) \<and> pred_option proxy_wf (proxy n)"

lemma credential_version_new_wf:
  assumes "credential_version_new s = Inr v" shows "version_wf v"
proof -
  from assms have "length s = 64" "list_all is_ascii_hexdigit s"
    and v: "v = CredentialVersion (map to_ascii_lowercase s)"
    by (auto simp: credential_version_new_def split: if_splits)
  then show ?thesis
    by (simp add: version_wf_def credential_version_new_def list_all_iff lowercase_hexdigit)
qed

lemma cookie_reference_new_wf:
  "cookie_reference_new i ow d pl v = Inr c \<Longrightarrow> version_wf v \<Longrightarrow> cookie_wf c"
  by (auto simp: cookie_reference_new_def cookie_wf_def valid_actor_def split: if_splits)

lemma cookie_wf_rebuild:
  "cookie_wf c \<Longrightarrow>
    cookie_reference_new (cookie_id c) (cookie_owner_id c) (cookie_domain c) (cookie_is_pool c)
      (cookie_version c) = Inr c"
  by (simp add: cookie_wf_def cookie_reference_new_def valid_actor_def not_le)

lemma proxy_reference_new_wf:
  "proxy_reference_new src v = Inr p \<Longrightarrow> version_wf v \<Longrightarrow> proxy_wf p"
  by (auto simp: proxy_reference_new_def proxy_wf_def valid_actor_def
      split: if_splits proxy_source.splits)

lemma proxy_wf_rebuild:
  "proxy_wf p \<Longrightarrow> proxy_reference_new (proxy_source p) (proxy_version p) = Inr p"
  by (auto simp: proxy_wf_def proxy_reference_new_def valid_actor_def split: proxy_source.splits)

lemma network_none_wf [simp]: "network_wf network_none"
  by (simp add: network_wf_def network_none_def)

lemma validate_actor_none [simp]: "validate_actor network_none a = Inr ()"
  by (simp add: validate_actor_def network_none_def)

text \<open>A selection passes the actor check exactly when every personal credential it names
  belongs to that actor: a foreign cookie must come from the pool, a foreign proxy must be the
  system's.\<close>

theorem validate_actor_iff:
  "validate_actor n actor = Inr () \<longleftrightarrow>
     (\<forall>c. cookie n = Some c \<longrightarrow> cookie_is_pool c \<or> cookie_owner_id c = actor)
     \<and> (\<forall>p owner. proxy n = Some p \<longrightarrow> proxy_source p = PersonalProxy owner \<longrightarrow> owner = actor)"
  by (auto simp: validate_actor_def split: option.splits proxy_source.splits)

theorem validate_actor_iff_witness:
  "validate_actor \<lparr>cookie = None,
      proxy = Some \<lparr>proxy_source = PersonalProxy 8, proxy_version = CredentialVersion ''a''\<rparr>\<rparr> 7 \<noteq> Inr ()
   \<and> validate_actor \<lparr>cookie = None,
      proxy = Some \<lparr>proxy_source = PersonalProxy 8, proxy_version = CredentialVersion ''a''\<rparr>\<rparr> 8 = Inr ()"
  by (simp add: validate_actor_iff)

end
