(* ===== verification/Float64.thy ===== *)
theory Float64
  imports Complex_Main Prelude "HOL-Library.Log_Nat"
begin

text \<open>
  The Rust type \<open>f64\<close>, as far as the program uses it: comparison, \<open>is_finite\<close>, addition and
  multiplication, with rounding to the nearest 53-bit value, ties to even, overflow to
  infinity and gradual underflow. A finite value is the rational it denotes; the two zeros,
  which compare equal and are never told apart by the program, are one value.
\<close>

datatype f64 = NaN | Inf (negative: bool) | Fin rat

fun f64_is_finite :: "f64 \<Rightarrow> bool" where
  "f64_is_finite (Fin _) = True"
| "f64_is_finite _ = False"

fun f64_less :: "f64 \<Rightarrow> f64 \<Rightarrow> bool" where
  "f64_less NaN _ = False"
| "f64_less _ NaN = False"
| "f64_less (Fin a) (Fin b) = (a < b)"
| "f64_less (Inf s) (Inf t) = (s \<and> \<not> t)"
| "f64_less (Inf s) (Fin _) = s"
| "f64_less (Fin _) (Inf s) = (\<not> s)"

fun f64_le :: "f64 \<Rightarrow> f64 \<Rightarrow> bool" where
  "f64_le NaN _ = False"
| "f64_le _ NaN = False"
| "f64_le a b = (\<not> f64_less b a)"

section \<open>Rounding\<close>

definition round_half_even :: "rat \<Rightarrow> int" where
  "round_half_even x =
     (let n = \<lfloor>x\<rfloor>; d = x - of_int n in
      if d < 1 / 2 then n else if d > 1 / 2 then n + 1 else if even n then n else n + 1)"

definition pow2 :: "int \<Rightarrow> rat" where
  "pow2 e = (if 0 \<le> e then 2 ^ nat e else 1 / 2 ^ nat (- e))"

text \<open>The binary exponent of a positive rational: from the bit lengths of its quotient.\<close>

definition binary_exponent :: "rat \<Rightarrow> int" where
  "binary_exponent q =
     (let (n, d) = quotient_of q; k = bitlen n - bitlen d in
      if pow2 k \<le> q then k else k - 1)"

definition ulp_exponent :: "rat \<Rightarrow> int" where
  "ulp_exponent q = max (binary_exponent q - 52) (- 1074)"

definition round_f64 :: "rat \<Rightarrow> f64" where
  "round_f64 q =
     (if q = 0 then Fin 0
      else
        let e = ulp_exponent \<bar>q\<bar>;
            v = of_int (round_half_even (\<bar>q\<bar> / pow2 e)) * pow2 e
        in if 2 ^ 1024 \<le> v then Inf (q < 0) else Fin (sgn q * v))"

fun f64_add :: "f64 \<Rightarrow> f64 \<Rightarrow> f64" where
  "f64_add NaN _ = NaN"
| "f64_add _ NaN = NaN"
| "f64_add (Fin a) (Fin b) = round_f64 (a + b)"
| "f64_add (Inf s) (Inf t) = (if s = t then Inf s else NaN)"
| "f64_add (Inf s) (Fin _) = Inf s"
| "f64_add (Fin _) (Inf s) = Inf s"

fun f64_mul :: "f64 \<Rightarrow> f64 \<Rightarrow> f64" where
  "f64_mul NaN _ = NaN"
| "f64_mul _ NaN = NaN"
| "f64_mul (Fin a) (Fin b) = round_f64 (a * b)"
| "f64_mul (Inf s) (Inf t) = Inf (s \<noteq> t)"
| "f64_mul (Inf s) (Fin b) = (if b = 0 then NaN else Inf (s \<noteq> (b < 0)))"
| "f64_mul (Fin a) (Inf s) = (if a = 0 then NaN else Inf (s \<noteq> (a < 0)))"

section \<open>Facts\<close>

lemma round_half_even_of_int [simp]: "round_half_even (of_int n) = n"
  by (simp add: round_half_even_def)

lemma pow2_pos: "0 < pow2 e"
  by (simp add: pow2_def)

lemma pow2_nonneg_exponent: "0 \<le> e \<Longrightarrow> pow2 e = of_int (2 ^ nat e)"
  by (simp add: pow2_def)

lemma f64_le_Fin [simp]: "f64_le (Fin a) (Fin b) \<longleftrightarrow> a \<le> b"
  by (simp add: not_less)

lemma f64_less_finite:
  "f64_is_finite a \<Longrightarrow> f64_is_finite b \<Longrightarrow> \<exists>x y. a = Fin x \<and> b = Fin y \<and> f64_less a b = (x < y)"
  by (cases a; cases b) simp_all

lemma quotient_of_pos: "0 < q \<Longrightarrow> quotient_of q = (n, d) \<Longrightarrow> 0 < n \<and> 0 < d"
  using quotient_of_denom_pos [of q n d] quotient_of_div [of q n d]
  by (auto simp: zero_less_divide_iff)

text \<open>A value whose unit in the last place is an integral multiple is not rounded.\<close>

lemma round_f64_exact:
  assumes "q \<noteq> 0" and "\<bar>q\<bar> = of_int m * pow2 (ulp_exponent \<bar>q\<bar>)" and "\<bar>q\<bar> < 2 ^ 1024"
  shows "round_f64 q = Fin q"
proof -
  let ?e = "ulp_exponent \<bar>q\<bar>"
  have "\<bar>q\<bar> / pow2 ?e = of_int m"
    using assms(2) pow2_pos [of ?e] by (simp add: field_simps)
  then have "of_int (round_half_even (\<bar>q\<bar> / pow2 ?e)) * pow2 ?e = \<bar>q\<bar>"
    using assms(2) by simp
  then show ?thesis
    using assms(1,3) by (simp add: round_f64_def Let_def mult_sgn_abs not_le)
qed

text \<open>Natural numbers below 2 to the 53 are represented exactly, so adding whole seconds is exact.\<close>

lemma bitlen_le_53: "0 < n \<Longrightarrow> n < 2 ^ 53 \<Longrightarrow> bitlen n \<le> 53"
  using bitlen_le_iff_power [of n 53] by simp

lemma ulp_exponent_of_nat:
  assumes "0 < n" and "n < 2 ^ 53"
  shows "ulp_exponent (of_int n) \<le> 0" and "- 1074 \<le> ulp_exponent (of_int n)"
proof -
  have "binary_exponent (of_int n) \<le> bitlen n - 1 + (if pow2 (bitlen n - 1) \<le> of_int n then 0 else -1)"
    if "bitlen (1 :: int) = 1"
    using that by (auto simp: binary_exponent_def Let_def quotient_of_int)
  moreover have "bitlen (1 :: int) = 1" by (simp add: bitlen_def floorlog_def)
  moreover have "bitlen n \<le> 53" using assms by (rule bitlen_le_53)
  ultimately show "ulp_exponent (of_int n) \<le> 0"
    by (auto simp: ulp_exponent_def split: if_splits)
  show "- 1074 \<le> ulp_exponent (of_int n)" by (simp add: ulp_exponent_def)
qed

lemma round_f64_int:
  assumes "0 \<le> n" and "n < 2 ^ 53"
  shows "round_f64 (of_int n) = Fin (of_int n)"
proof (cases "n = 0")
  case True
  then show ?thesis by (simp add: round_f64_def)
next
  case False
  with assms have n: "0 < n" by simp
  let ?e = "ulp_exponent (of_int n)"
  have e: "?e \<le> 0" using ulp_exponent_of_nat n assms(2) by blast
  have "of_int n = of_int (n * 2 ^ nat (- ?e)) * pow2 ?e"
    using e by (auto simp: pow2_def)
  moreover have "(of_int n :: rat) < 2 ^ 1024"
  proof -
    have "n < 2 ^ 1024" using assms(2) by simp
    then have "(of_int n :: rat) < of_int (2 ^ 1024)" by (simp only: of_int_less_iff)
    then show ?thesis by simp
  qed
  ultimately show ?thesis
    using n by (intro round_f64_exact [where m = "n * 2 ^ nat (- ?e)"]) simp_all
qed

lemma f64_add_int:
  assumes "0 \<le> a" and "0 \<le> b" and "a + b < 2 ^ 53"
  shows "f64_add (Fin (of_int a)) (Fin (of_int b)) = Fin (of_int (a + b))"
  using round_f64_int [of "a + b"] assms by simp

end
