(* ===== verification/Requests.thy ===== *)
theory Requests
  imports Float64 Network
begin

text \<open>
  The download request of \<open>backend/crates/yoink-domain/src/lib.rs\<close>: the option types with
  their validating constructors, the parameters and their mode rules, the request with its
  builders, and the frozen provider routing. The parser of the \<open>url\<close> crate is the parameter
  \<open>parse\<close> of the constructors; a parsed URL is the record of the parts the code reads.
\<close>

section \<open>Options\<close>

datatype request_error =
  InvalidActorId | InvalidSourceUrl | InvalidClipRange | InvalidParameters
| InvalidDeliveryTarget | NetworkActorMismatch

datatype media_mode = Video | Audio | Image | Subtitles | Formats | Links | AudioLinks

datatype video_codec = H264 | H265 | Av1 | Vp9 | AnyVideo

datatype audio_codec = BestAudio | Aac | Mp3 | Opus

datatype container = Mp4 | Mkv | Webm

datatype engine = Auto | YtDlp | Gallery | AutoYtDlpV1 | AutoGalleryV1 | AutoFallbackV1

record playlist_range =
  pr_start :: i32
  pr_end :: "i32 option"

definition unsigned_distance :: "i32 \<Rightarrow> i32 \<Rightarrow> nat" where
  "unsigned_distance b a = nat \<bar>sint b - sint a\<bar>"

definition playlist_range_new :: "i32 \<Rightarrow> i32 option \<Rightarrow> request_error + playlist_range" where
  "playlist_range_new start stop =
     (if start = 0 \<or> stop = Some 0 \<or> (stop = None \<and> sint start < - 100) then Inl InvalidParameters
      else (case stop of
              None \<Rightarrow> Inr \<lparr>pr_start = start, pr_end = stop\<rparr>
            | Some e \<Rightarrow>
                let count = unsigned_distance e start + 1 in
                if ((0 < sint start) \<noteq> (0 < sint e)) \<or> count > 100 then Inl InvalidParameters
                else Inr \<lparr>pr_start = start, pr_end = stop\<rparr>))"

definition entry_count :: "playlist_range \<Rightarrow> nat" where
  "entry_count r =
     (case pr_end r of
        Some e \<Rightarrow> unsigned_distance e (pr_start r) + 1
      | None \<Rightarrow> if 0 < sint (pr_start r) then 1 else nat \<bar>sint (pr_start r)\<bar>)"

record delivery_target =
  bot_id :: i64
  chat_id :: i64
  thread_id :: "i64 option"
  reply_to_message_id :: "i32 option"

definition delivery_target_new ::
  "i64 \<Rightarrow> i64 \<Rightarrow> i64 option \<Rightarrow> i32 option \<Rightarrow> request_error + delivery_target" where
  "delivery_target_new b chat thread reply =
     (if sint b \<le> 0 \<or> chat = 0
         \<or> (case thread of None \<Rightarrow> False | Some i \<Rightarrow> sint i \<le> 0)
         \<or> (case reply of None \<Rightarrow> False | Some i \<Rightarrow> sint i \<le> 0)
      then Inl InvalidDeliveryTarget
      else Inr \<lparr>bot_id = b, chat_id = chat, thread_id = thread, reply_to_message_id = reply\<rparr>)"

record clip_range =
  start_seconds :: f64
  end_seconds :: f64

definition clip_range_new :: "f64 \<Rightarrow> f64 \<Rightarrow> request_error + clip_range" where
  "clip_range_new s e =
     (if \<not> f64_is_finite s \<or> \<not> f64_is_finite e \<or> f64_less s (Fin 0) \<or> f64_less e (Fin 0)
         \<or> f64_le e s
      then Inl InvalidClipRange
      else Inr \<lparr>start_seconds = s, end_seconds = e\<rparr>)"

record subtitle_options =
  language :: string
  automatic :: bool

definition subtitle_options_default :: subtitle_options where
  "subtitle_options_default = \<lparr>language = ''en'', automatic = False\<rparr>"

definition subtitle_options_new :: "string \<Rightarrow> bool \<Rightarrow> request_error + subtitle_options" where
  "subtitle_options_new lang auto =
     (let parts = split_on CHR ''-'' lang in
      if length lang > 16 \<or> length parts > 2
         \<or> \<not> (2 \<le> length (parts ! 0) \<and> length (parts ! 0) \<le> 3)
         \<or> \<not> list_all is_ascii_lowercase (parts ! 0)
         \<or> (1 < length parts
            \<and> (\<not> (2 \<le> length (parts ! 1) \<and> length (parts ! 1) \<le> 8)
               \<or> \<not> list_all is_ascii_alphanumeric (parts ! 1)))
      then Inl InvalidParameters
      else Inr \<lparr>language = lang, automatic = auto\<rparr>)"

record download_preference_overrides =
  o_max_height :: "u32 option option"
  o_video_codec :: "video_codec option"
  o_audio_codec :: "audio_codec option"
  o_container :: "container option"
  o_send_as_file :: "bool option"
  o_gallery_zip :: "bool option"
  o_subtitle_language :: "string option"
  o_subtitle_automatic :: "bool option"

section \<open>Parameters\<close>

record download_params =
  max_height :: "u32 option"
  video_codec :: video_codec
  audio_codec :: audio_codec
  container :: container
  engine :: engine
  playlist :: "playlist_range option"
  clips :: "clip_range list"
  send_as_file :: bool
  gallery_zip :: bool
  subtitles :: "subtitle_options option"
  media_info :: bool

definition download_params_default :: download_params where
  "download_params_default =
     \<lparr>max_height = None, video_codec = H264, audio_codec = BestAudio, container = Mp4,
      engine = Auto, playlist = None, clips = [], send_as_file = False, gallery_zip = False,
      subtitles = None, media_info = False\<rparr>"

definition download_params_new :: "u32 option \<Rightarrow> request_error + download_params" where
  "download_params_new h =
     (if h = Some 0 then Inl InvalidParameters else Inr (download_params_default\<lparr>max_height := h\<rparr>))"

definition with_max_height :: "u32 option \<Rightarrow> download_params \<Rightarrow> request_error + download_params" where
  "with_max_height value p =
     (if value = Some 0 then Inl InvalidParameters else Inr (p\<lparr>max_height := value\<rparr>))"

definition with_clips :: "clip_range list \<Rightarrow> download_params \<Rightarrow> request_error + download_params" where
  "with_clips value p =
     (if length value > 20 then Inl InvalidParameters else Inr (p\<lparr>clips := value\<rparr>))"

definition link_engine :: "engine \<Rightarrow> bool" where
  "link_engine e \<longleftrightarrow> e = Auto \<or> e = YtDlp \<or> e = AutoYtDlpV1"

definition gallery_engine :: "engine \<Rightarrow> bool" where
  "gallery_engine e \<longleftrightarrow> e = Gallery \<or> e = AutoGalleryV1 \<or> e = AutoFallbackV1"

definition validate_mode ::
  "download_params \<Rightarrow> media_mode \<Rightarrow> clip_range option \<Rightarrow> request_error + unit" where
  "validate_mode p mode clip =
     (if mode = Links \<or> mode = AudioLinks then
        (if clip \<noteq> None
            \<or> \<not> (max_height p = None \<or> max_height p = Some 720 \<or> max_height p = Some 1080
                 \<or> max_height p = Some 480 \<or> max_height p = Some 360)
            \<or> video_codec p \<noteq> H264 \<or> audio_codec p \<noteq> BestAudio \<or> container p \<noteq> Mp4
            \<or> \<not> send_as_file p \<or> \<not> link_engine (engine p)
            \<or> playlist p \<noteq> None \<or> clips p \<noteq> [] \<or> gallery_zip p \<or> subtitles p \<noteq> None
            \<or> (mode = AudioLinks \<and> max_height p \<noteq> None)
         then Inl InvalidParameters else Inr ())
      else if mode = Formats then
        (if clip \<noteq> None \<or> max_height p \<noteq> None
            \<or> video_codec p \<noteq> H264 \<or> audio_codec p \<noteq> BestAudio \<or> container p \<noteq> Mp4
            \<or> \<not> send_as_file p \<or> gallery_engine (engine p)
            \<or> playlist p \<noteq> None \<or> clips p \<noteq> [] \<or> gallery_zip p \<or> subtitles p \<noteq> None
         then Inl InvalidParameters else Inr ())
      else if mode = Subtitles then
        (if clip \<noteq> None \<or> max_height p \<noteq> None
            \<or> video_codec p \<noteq> H264 \<or> audio_codec p \<noteq> BestAudio \<or> container p \<noteq> Mp4
            \<or> gallery_engine (engine p)
            \<or> playlist p \<noteq> None \<or> clips p \<noteq> [] \<or> gallery_zip p
         then Inl InvalidParameters else Inr ())
      else if subtitles p \<noteq> None then Inl InvalidParameters
      else Inr ())"

section \<open>Requests\<close>

record url =
  url_text :: string
  url_scheme :: string
  url_host :: "string option"
  url_username :: string
  url_password :: "string option"
  url_path :: string

type_synonym url_parser = "string \<Rightarrow> url option"

record downloader_settings =
  download_retries :: u32
  download_timeout :: u64
  max_file_size_mb :: u64
  rate_limit_per_minute :: u32
  rate_limit_per_hour :: u32
  rate_limit_per_day :: u32
  max_playlist_count :: nat

definition rate_limit_ok :: "u32 \<Rightarrow> bool" where
  "rate_limit_ok v \<longleftrightarrow> 1 \<le> v \<and> v \<le> 1000000"

definition settings_validate :: "downloader_settings \<Rightarrow> string + downloader_settings" where
  "settings_validate s =
     (if \<not> (1 \<le> download_retries s \<and> download_retries s \<le> 10)
         \<or> \<not> (60 \<le> download_timeout s \<and> download_timeout s \<le> 86400)
         \<or> \<not> (1 \<le> max_file_size_mb s \<and> max_file_size_mb s \<le> 2048)
         \<or> \<not> (1 \<le> max_playlist_count s \<and> max_playlist_count s \<le> 500)
         \<or> list_ex (\<lambda>v. \<not> rate_limit_ok v)
             [rate_limit_per_minute s, rate_limit_per_hour s, rate_limit_per_day s]
      then Inl ''Invalid downloader limits''
      else Inr s)"

record download_request =
  actor_id :: u64
  source_url :: url
  media_mode :: media_mode
  clip_range :: "clip_range option"
  params :: download_params
  target :: "delivery_target option"
  network :: network_selection
  preference_overrides :: "download_preference_overrides option"
  downloader_settings :: "downloader_settings option"
  force_nsfw :: bool

definition insert_default_subtitles :: "media_mode \<Rightarrow> download_params \<Rightarrow> download_params" where
  "insert_default_subtitles mode p =
     (if mode = Subtitles \<and> subtitles p = None
      then p\<lparr>subtitles := Some subtitle_options_default\<rparr> else p)"

definition url_acceptable :: "url \<Rightarrow> bool" where
  "url_acceptable u \<longleftrightarrow>
     (url_scheme u = ''http'' \<or> url_scheme u = ''https'') \<and> url_host u \<noteq> None
     \<and> url_username u = [] \<and> url_password u = None"

definition download_request_new ::
  "url_parser \<Rightarrow> u64 \<Rightarrow> string \<Rightarrow> media_mode \<Rightarrow> clip_range option \<Rightarrow> download_params
    \<Rightarrow> request_error + download_request" where
  "download_request_new parse actor src mode clip p =
     (if actor = 0 \<or> actor > i64_max then Inl InvalidActorId
      else (case parse src of
              None \<Rightarrow> Inl InvalidSourceUrl
            | Some u \<Rightarrow>
                if \<not> url_acceptable u then Inl InvalidSourceUrl
                else if clip \<noteq> None \<and> clips p \<noteq> [] then Inl InvalidParameters
                else res_bind (validate_mode p mode clip) (\<lambda>_.
                  Inr \<lparr>actor_id = actor, source_url = u, media_mode = mode, clip_range = clip,
                       params = insert_default_subtitles mode p, target = None,
                       network = network_none, preference_overrides = None,
                       downloader_settings = None, force_nsfw = False\<rparr>)))"

definition with_params :: "download_params \<Rightarrow> download_request \<Rightarrow> request_error + download_request" where
  "with_params p r =
     (if clip_range r \<noteq> None \<and> clips p \<noteq> [] then Inl InvalidParameters
      else res_bind (validate_mode p (media_mode r) (clip_range r)) (\<lambda>_.
        Inr (r\<lparr>params := insert_default_subtitles (media_mode r) p\<rparr>)))"

definition with_network :: "network_selection \<Rightarrow> download_request \<Rightarrow> request_error + download_request" where
  "with_network n r =
     res_bind (map_err NetworkActorMismatch (validate_actor n (actor_id r))) (\<lambda>_.
       Inr (r\<lparr>network := n\<rparr>))"

definition with_target :: "delivery_target \<Rightarrow> download_request \<Rightarrow> request_error + download_request" where
  "with_target t r =
     (if 0 < sint (chat_id t) \<and> chat_id t \<noteq> actor_id r then Inl InvalidDeliveryTarget
      else Inr (r\<lparr>target := Some t\<rparr>))"

definition with_downloader_settings ::
  "downloader_settings option \<Rightarrow> download_request \<Rightarrow> request_error + download_request" where
  "with_downloader_settings s r =
     res_bind (case s of None \<Rightarrow> Inr () | Some x \<Rightarrow>
         res_bind (map_err InvalidParameters (settings_validate x)) (\<lambda>_. Inr ()))
       (\<lambda>_. Inr (r\<lparr>downloader_settings := s\<rparr>))"

definition with_force_nsfw :: "bool \<Rightarrow> download_request \<Rightarrow> download_request" where
  "with_force_nsfw forced r = r\<lparr>force_nsfw := forced\<rparr>"

definition with_preference_overrides ::
  "download_preference_overrides \<Rightarrow> download_request \<Rightarrow> download_request" where
  "with_preference_overrides ov r = r\<lparr>preference_overrides := Some ov\<rparr>"

section \<open>Provider routing\<close>

definition domain_matches :: "string \<Rightarrow> string \<Rightarrow> bool" where
  "domain_matches host domain \<longleftrightarrow>
     host = domain
     \<or> (case strip_suffix host domain of None \<Rightarrow> False | Some prefix \<Rightarrow> ends_with prefix ''.'')"

definition gallery_domains :: "string list" where
  "gallery_domains =
     [''2ch.su'', ''4chan.org'', ''e-hentai.org'', ''e621.net'', ''gelbooru.com'', ''kemono.cr'',
      ''kemono.party'', ''coomer.party'', ''nhentai.net'', ''civitai.com'', ''wallhaven.cc'']"

definition automatic_provider_v1 :: "url \<Rightarrow> media_mode \<Rightarrow> engine" where
  "automatic_provider_v1 u mode =
     (if mode = Image then AutoGalleryV1
      else if mode = Subtitles \<or> mode = Formats \<or> mode = Links \<or> mode = AudioLinks
        then AutoYtDlpV1
      else
        let host = trim_end_matches CHR ''.'' (case url_host u of None \<Rightarrow> [] | Some h \<Rightarrow> h) in
        if list_ex (domain_matches host) [''youtube.com'', ''youtu.be''] then AutoYtDlpV1
        else if list_ex (domain_matches host) gallery_domains
             \<or> (domain_matches host ''vk.com''
                \<and> list_ex (starts_with (url_path u)) [''/wall-'', ''/album-''])
        then AutoGalleryV1
        else if domain_matches host ''instagram.com'' \<or> domain_matches host ''tiktok.com''
        then AutoFallbackV1
        else AutoYtDlpV1)"

definition freeze_provider_routing :: "download_request \<Rightarrow> download_request" where
  "freeze_provider_routing r =
     (if engine (params r) = Auto
      then r\<lparr>params := (params r)\<lparr>engine := automatic_provider_v1 (source_url r) (media_mode r)\<rparr>\<rparr>
      else r)"

end
