(* ===== verification/Settings.thy ===== *)
theory Settings
  imports Requests
begin

text \<open>
  The runtime downloader settings of \<open>backend/crates/yoink-domain/src/downloader_settings.rs\<close>:
  reading them from the text values of the settings table, and the patch that writes them.
  The number parsers of the Rust standard library are modelled on bytes; a \<open>BTreeMap\<close> is a
  partial map.
\<close>

section \<open>Numbers as text\<close>

definition digit_value :: "char \<Rightarrow> nat" where
  "digit_value c = byte c - 48"

definition parse_digits :: "string \<Rightarrow> nat option" where
  "parse_digits s =
     (if s = [] \<or> \<not> list_all is_ascii_digit s then None
      else Some (foldl (\<lambda>n c. n * 10 + digit_value c) 0 s))"

text \<open>\<open>str::parse\<close> to an unsigned integer below a bound: an optional plus sign, then digits.\<close>

definition parse_unsigned :: "nat \<Rightarrow> string \<Rightarrow> nat option" where
  "parse_unsigned bound s =
     (let d = (case s of c # t \<Rightarrow> if c = CHR ''+'' then t else s | [] \<Rightarrow> s) in
      case parse_digits d of None \<Rightarrow> None | Some n \<Rightarrow> if n < bound then Some n else None)"

text \<open>\<open>to_string\<close> of an unsigned integer.\<close>

definition span_digits :: "string \<Rightarrow> string \<times> string" where
  "span_digits s = (takeWhile is_ascii_digit s, dropWhile is_ascii_digit s)"

definition strip_sign :: "string \<Rightarrow> bool \<times> string" where
  "strip_sign s =
     (case s of c # t \<Rightarrow> if c = CHR ''-'' then (True, t) else if c = CHR ''+'' then (False, t)
                       else (False, s)
      | [] \<Rightarrow> (False, s))"

definition parse_exponent :: "string \<Rightarrow> int option" where
  "parse_exponent s =
     (case s of
        [] \<Rightarrow> Some 0
      | c # t \<Rightarrow>
          if c \<noteq> CHR ''e'' \<and> c \<noteq> CHR ''E'' then None
          else (let (neg, d) = strip_sign t in
                map_option (\<lambda>n. if neg then - int n else int n) (parse_digits d)))"

definition pow10 :: "int \<Rightarrow> rat" where
  "pow10 e = (if 0 \<le> e then 10 ^ nat e else 1 / 10 ^ nat (- e))"

text \<open>\<open>str::parse::<f64>\<close>: a sign, then a special name or decimal digits with an exponent.\<close>

definition parse_f64 :: "string \<Rightarrow> f64 option" where
  "parse_f64 s =
     (let (neg, t) = strip_sign s; l = map to_ascii_lowercase t in
      if l = ''nan'' then Some NaN
      else if l = ''inf'' \<or> l = ''infinity'' then Some (Inf neg)
      else
        let (whole, rest) = span_digits t;
            (frac, rest) = (case rest of c # r \<Rightarrow> if c = CHR ''.'' then span_digits r else ([], rest)
                            | [] \<Rightarrow> ([], rest)) in
        case (parse_digits (whole @ frac), parse_exponent rest) of
          (Some n, Some x) \<Rightarrow>
            (let q = of_nat n * pow10 (x - int (length frac)) in
             Some (round_f64 (if neg then - q else q)))
        | _ \<Rightarrow> None)"

section \<open>Reading\<close>

definition downloader_settings_default :: downloader_settings where
  "downloader_settings_default =
     \<lparr>download_retries = 3, download_timeout = 1200, max_file_size_mb = 2048,
      rate_limit_per_minute = 5, rate_limit_per_hour = 30, rate_limit_per_day = 100,
      max_playlist_count = 50\<rparr>"

abbreviation invalid_limits :: string where
  "invalid_limits \<equiv> ''Invalid downloader limits''"

type_synonym settings_values = "string \<Rightarrow> string option"

definition read_u32 :: "string option \<Rightarrow> u32 \<Rightarrow> string + u32" where
  "read_u32 value current =
     (case value of None \<Rightarrow> Inr current
      | Some v \<Rightarrow> ok_or invalid_limits (map_option of_nat (parse_unsigned (2 ^ 32) v)))"

definition read_u64 :: "string option \<Rightarrow> u64 \<Rightarrow> string + u64" where
  "read_u64 value current =
     (case value of None \<Rightarrow> Inr current
      | Some v \<Rightarrow> ok_or invalid_limits (map_option of_nat (parse_unsigned (2 ^ 64) v)))"

definition read_usize :: "string option \<Rightarrow> nat \<Rightarrow> string + nat" where
  "read_usize value current =
     (case value of None \<Rightarrow> Inr current
      | Some v \<Rightarrow> ok_or invalid_limits (parse_unsigned (2 ^ 64) v))"

text \<open>\<open>mb as u64\<close> of a finite value in range: truncation.\<close>

definition gigabytes_to_mb :: "string \<Rightarrow> string + u64" where
  "gigabytes_to_mb gb =
     (case parse_f64 gb of
        None \<Rightarrow> Inl invalid_limits
      | Some x \<Rightarrow>
          (let mb = f64_mul x (Fin 1024) in
           if \<not> f64_is_finite mb \<or> \<not> (f64_le (Fin 1) mb \<and> f64_le mb (Fin 2048))
           then Inl invalid_limits
           else (case mb of Fin q \<Rightarrow> Inr (of_int \<lfloor>q\<rfloor>) | _ \<Rightarrow> Inl invalid_limits)))"

definition from_settings :: "settings_values \<Rightarrow> string + downloader_settings" where
  "from_settings values =
     (let d = downloader_settings_default in
      res_bind (read_u32 (values ''dl.download_retries'') (download_retries d)) (\<lambda>retries.
      res_bind (read_u64 (values ''dl.download_timeout'') (download_timeout d)) (\<lambda>timeout.
      res_bind (read_u64 (values ''dl.max_file_size_mb'') (max_file_size_mb d)) (\<lambda>size_mb.
      res_bind (read_u32 (values ''dl.rate_limit_per_minute'') (rate_limit_per_minute d)) (\<lambda>minute.
      res_bind (read_u32 (values ''dl.rate_limit_per_hour'') (rate_limit_per_hour d)) (\<lambda>hour.
      res_bind (read_u32 (values ''dl.rate_limit_per_day'') (rate_limit_per_day d)) (\<lambda>day.
      res_bind (read_usize (values ''dl.max_playlist_count'') (max_playlist_count d)) (\<lambda>playlist.
      res_bind (case (values ''dl.max_file_size_mb'', values ''dl.max_file_size_gb'') of
          (None, Some gb) \<Rightarrow> gigabytes_to_mb gb
        | _ \<Rightarrow> Inr size_mb) (\<lambda>size_mb.
      settings_validate
        \<lparr>download_retries = retries, download_timeout = timeout, max_file_size_mb = size_mb,
         rate_limit_per_minute = minute, rate_limit_per_hour = hour, rate_limit_per_day = day,
         max_playlist_count = playlist\<rparr>)))))))))"

section \<open>Writing\<close>

record settings_patch =
  p_download_retries :: "u32 option"
  p_download_timeout :: "u64 option"
  p_max_file_size_mb :: "u64 option"
  p_rate_limit_per_minute :: "u32 option"
  p_rate_limit_per_hour :: "u32 option"
  p_rate_limit_per_day :: "u32 option"
  p_max_playlist_count :: "nat option"

definition insert_value :: "string \<Rightarrow> nat option \<Rightarrow> settings_values \<Rightarrow> settings_values" where
  "insert_value key v m = (case v of None \<Rightarrow> m | Some n \<Rightarrow> m(key \<mapsto> show_nat n))"

definition patch_values :: "settings_patch \<Rightarrow> settings_values" where
  "patch_values p =
     insert_value ''dl.max_playlist_count'' (p_max_playlist_count p)
     (insert_value ''dl.rate_limit_per_day'' (map_option unat (p_rate_limit_per_day p))
     (insert_value ''dl.rate_limit_per_hour'' (map_option unat (p_rate_limit_per_hour p))
     (insert_value ''dl.rate_limit_per_minute'' (map_option unat (p_rate_limit_per_minute p))
     (insert_value ''dl.max_file_size_mb'' (map_option unat (p_max_file_size_mb p))
     (insert_value ''dl.download_timeout'' (map_option unat (p_download_timeout p))
     (insert_value ''dl.download_retries'' (map_option unat (p_download_retries p)) Map.empty))))))"

section \<open>What was written is read back\<close>

lemma byte_digit: "n < 10 \<Longrightarrow> byte (char_of (48 + n)) = 48 + n"
  by (rule byte_char_of) simp

lemma show_nat_digits: "list_all is_ascii_digit (show_nat n) \<and> show_nat n \<noteq> []"
proof (induction n rule: show_nat.induct)
  case (1 n)
  then show ?case
    by (cases "n < 10")
      (simp_all add: show_nat_small show_nat_large is_ascii_digit_def byte_digit)
qed

lemma show_nat_value: "foldl (\<lambda>m c. m * 10 + digit_value c) 0 (show_nat n) = n"
proof (induction n rule: show_nat.induct)
  case (1 n)
  then show ?case
    by (cases "n < 10") (simp_all add: show_nat_small show_nat_large digit_value_def byte_digit)
qed

lemma parse_show_digits: "parse_digits (show_nat n) = Some n"
  using show_nat_digits [of n] by (simp add: parse_digits_def show_nat_value)

lemma parse_show_nat: "n < bound \<Longrightarrow> parse_unsigned bound (show_nat n) = Some n"
proof -
  assume n: "n < bound"
  obtain c t where s: "show_nat n = c # t" using show_nat_digits [of n] by (cases "show_nat n") auto
  have "is_ascii_digit c" using show_nat_digits [of n] s by simp
  then have "c \<noteq> CHR ''+''" by (auto simp: is_ascii_digit_def byte_def)
  then show ?thesis using n by (simp add: parse_unsigned_def Let_def s parse_show_digits [of n, unfolded s])
qed

definition patched :: "settings_patch \<Rightarrow> downloader_settings" where
  "patched p =
     (let d = downloader_settings_default in
      \<lparr>download_retries = case_option (download_retries d) id (p_download_retries p),
       download_timeout = case_option (download_timeout d) id (p_download_timeout p),
       max_file_size_mb = case_option (max_file_size_mb d) id (p_max_file_size_mb p),
       rate_limit_per_minute = case_option (rate_limit_per_minute d) id (p_rate_limit_per_minute p),
       rate_limit_per_hour = case_option (rate_limit_per_hour d) id (p_rate_limit_per_hour p),
       rate_limit_per_day = case_option (rate_limit_per_day d) id (p_rate_limit_per_day p),
       max_playlist_count = case_option (max_playlist_count d) id (p_max_playlist_count p)\<rparr>)"

lemma read_u32_patch:
  "read_u32 (map_option show_nat (map_option unat v)) d = Inr (case_option d id v)"
proof (cases v)
  case (Some w)
  have "unat w < 2 ^ LENGTH(32)" by (rule unsigned_less)
  then show ?thesis using Some by (simp add: read_u32_def parse_show_nat)
qed (simp add: read_u32_def)

lemma read_u64_patch:
  "read_u64 (map_option show_nat (map_option unat v)) d = Inr (case_option d id v)"
proof (cases v)
  case (Some w)
  have "unat w < 2 ^ LENGTH(64)" by (rule unsigned_less)
  then show ?thesis using Some by (simp add: read_u64_def parse_show_nat)
qed (simp add: read_u64_def)

lemma read_usize_patch:
  "pred_option (\<lambda>n. n < 2 ^ 64) v \<Longrightarrow>
    read_usize (map_option show_nat v) d = Inr (case_option d id v)"
  by (cases v) (simp_all add: read_usize_def parse_show_nat)

lemma insert_value_same [simp]: "m k = None \<Longrightarrow> insert_value k v m k = map_option show_nat v"
  by (cases v) (simp_all add: insert_value_def)

lemma insert_value_other [simp]: "k' \<noteq> k \<Longrightarrow> insert_value k v m k' = m k'"
  by (cases v) (simp_all add: insert_value_def)

lemma patch_values_lookup:
  "patch_values p ''dl.download_retries'' = map_option show_nat (map_option unat (p_download_retries p))"
  "patch_values p ''dl.download_timeout'' = map_option show_nat (map_option unat (p_download_timeout p))"
  "patch_values p ''dl.max_file_size_mb'' = map_option show_nat (map_option unat (p_max_file_size_mb p))"
  "patch_values p ''dl.max_file_size_gb'' = None"
  "patch_values p ''dl.rate_limit_per_minute''
     = map_option show_nat (map_option unat (p_rate_limit_per_minute p))"
  "patch_values p ''dl.rate_limit_per_hour''
     = map_option show_nat (map_option unat (p_rate_limit_per_hour p))"
  "patch_values p ''dl.rate_limit_per_day''
     = map_option show_nat (map_option unat (p_rate_limit_per_day p))"
  "patch_values p ''dl.max_playlist_count'' = map_option show_nat (p_max_playlist_count p)"
  by (simp_all add: patch_values_def del: map_option.compositionality option.map_comp)

text \<open>Settings written by a patch are read back as the defaults with the patched fields replaced,
  and refused exactly when that combination is outside the limits: no text form of a number
  changes its value, and a field that was not patched keeps its default.\<close>

theorem patch_roundtrip:
  assumes "pred_option (\<lambda>n. n < 2 ^ 64) (p_max_playlist_count p)"
  shows "from_settings (patch_values p) = settings_validate (patched p)"
proof -
  have "(case (patch_values p ''dl.max_file_size_mb'', patch_values p ''dl.max_file_size_gb'') of
      (None, Some gb) \<Rightarrow> gigabytes_to_mb gb | _ \<Rightarrow> Inr x) = Inr x" for x
    by (simp add: patch_values_lookup split: option.splits)
  then show ?thesis
    unfolding from_settings_def Let_def
    by (simp only: patch_values_lookup read_u32_patch read_u64_patch read_usize_patch [OF assms]
        res_bind.simps patched_def Let_def)
qed

theorem patch_roundtrip_witness:
  "from_settings (patch_values \<lparr>p_download_retries = Some 7, p_download_timeout = None,
      p_max_file_size_mb = Some 512, p_rate_limit_per_minute = None, p_rate_limit_per_hour = None,
      p_rate_limit_per_day = None, p_max_playlist_count = Some 20\<rparr>)
   = Inr \<lparr>download_retries = 7, download_timeout = 1200, max_file_size_mb = 512,
      rate_limit_per_minute = 5, rate_limit_per_hour = 30, rate_limit_per_day = 100,
      max_playlist_count = 20\<rparr>"
  by (subst patch_roundtrip)
    (simp_all add: patched_def downloader_settings_default_def settings_validate_def rate_limit_ok_def)

text \<open>Whatever text the settings table holds, settings that are read are within the limits.\<close>

theorem from_settings_valid:
  assumes "from_settings values = Inr x"
  shows "settings_validate x = Inr x"
proof -
  from assms obtain y where "settings_validate y = Inr x"
    unfolding from_settings_def Let_def res_bind_Inr_iff by blast
  then show ?thesis by (auto simp: settings_validate_def split: if_splits)
qed

definition example_values :: settings_values where
  "example_values = [''dl.max_file_size_gb'' \<mapsto> ''1'']"

lemma example_gigabytes: "gigabytes_to_mb ''1'' = Inr 1024"
proof -
  have one: "round_f64 1 = Fin 1" using round_f64_int [of 1] by simp
  have kilo: "round_f64 1024 = Fin 1024" using round_f64_int [of 1024] by simp
  have "parse_f64 ''1'' = Some (Fin 1)"
    by (simp add: parse_f64_def strip_sign_def to_ascii_lowercase_def span_digits_def
        byte_class_defs byte_def parse_digits_def digit_value_def parse_exponent_def pow10_def one
        Let_def)
  then show ?thesis by (simp add: gigabytes_to_mb_def kilo)
qed

lemma example_settings:
  "from_settings example_values = Inr (downloader_settings_default\<lparr>max_file_size_mb := 1024\<rparr>)"
  by (simp add: from_settings_def example_values_def read_u32_def read_u64_def read_usize_def
      example_gigabytes Let_def settings_validate_def downloader_settings_default_def
      rate_limit_ok_def)

theorem from_settings_valid_witness:
  "from_settings example_values = Inr (downloader_settings_default\<lparr>max_file_size_mb := 1024\<rparr>)
   \<and> settings_validate (downloader_settings_default\<lparr>max_file_size_mb := 1024\<rparr>)
     = Inr (downloader_settings_default\<lparr>max_file_size_mb := 1024\<rparr>)"
  using from_settings_valid [OF example_settings] example_settings by simp

end
