(* ===== verification/Request_Facts.thy ===== *)
theory Request_Facts
  imports Requests
begin

text \<open>
  What the constructors and builders of a download request guarantee. \<open>built\<close> is the set of
  requests the public interface can produce; \<open>request_wf\<close> the invariant it keeps. The
  \<open>url\<close> crate enters by the law \<open>reparses\<close>: the text of a parsed URL parses to itself.
\<close>

section \<open>Playlist ranges\<close>

text \<open>A validated playlist range names between one and one hundred entries, whichever
  direction it runs and whether it has an end.\<close>

theorem playlist_entry_count_bounds:
  assumes "playlist_range_new s e = Inr r"
  shows "1 \<le> entry_count r \<and> entry_count r \<le> 100"
proof (cases e)
  case None
  with assms have "s \<noteq> 0" "- 100 \<le> sint s" "r = \<lparr>pr_start = s, pr_end = None\<rparr>"
    by (auto simp: playlist_range_new_def split: if_splits)
  moreover from this(1) have "sint s \<noteq> 0" by (metis signed_0 signed_word_eqI)
  ultimately show ?thesis by (auto simp: entry_count_def)
next
  case (Some stop)
  with assms show ?thesis
    by (auto simp: playlist_range_new_def entry_count_def Let_def split: if_splits)
qed

theorem playlist_entry_count_bounds_witness:
  "1 \<le> entry_count \<lparr>pr_start = - 100, pr_end = None\<rparr>
   \<and> entry_count \<lparr>pr_start = - 100, pr_end = None\<rparr> \<le> 100
   \<and> (\<exists>e. playlist_range_new 1 (Some 101) = Inl e)"
proof -
  have "playlist_range_new (- 100) None = Inr \<lparr>pr_start = - 100, pr_end = None\<rparr>"
    by (simp add: playlist_range_new_def)
  from playlist_entry_count_bounds [OF this] show ?thesis
    by (simp add: playlist_range_new_def unsigned_distance_def)
qed

section \<open>Clips\<close>

definition clip_wf :: "clip_range \<Rightarrow> bool" where
  "clip_wf c \<longleftrightarrow> clip_range_new (start_seconds c) (end_seconds c) = Inr c"

text \<open>A clip range is accepted exactly when both bounds are finite, the start is not negative
  and the end is strictly later; NaN and infinities are refused.\<close>

theorem clip_range_new_iff:
  "(\<exists>c. clip_range_new s e = Inr c) \<longleftrightarrow>
    (\<exists>a b. s = Fin a \<and> e = Fin b \<and> 0 \<le> a \<and> a < b)"
  by (cases s; cases e) (auto simp: clip_range_new_def not_le)

lemma clip_range_newD:
  assumes "clip_range_new s e = Inr c"
  shows "c = \<lparr>start_seconds = s, end_seconds = e\<rparr>" "clip_wf c"
  using assms by (auto simp: clip_range_new_def clip_wf_def split: if_splits)

lemma clip_wf_cases:
  assumes "clip_wf c"
  obtains a b where "start_seconds c = Fin a" "end_seconds c = Fin b" "0 \<le> a" "a < b"
proof -
  from assms have "\<exists>d. clip_range_new (start_seconds c) (end_seconds c) = Inr d"
    by (auto simp: clip_wf_def)
  then show thesis using that by (auto simp: clip_range_new_iff)
qed

section \<open>The request invariant\<close>

definition playlist_wf :: "playlist_range \<Rightarrow> bool" where
  "playlist_wf r \<longleftrightarrow> playlist_range_new (pr_start r) (pr_end r) = Inr r"

definition target_wf :: "delivery_target \<Rightarrow> bool" where
  "target_wf t \<longleftrightarrow>
     delivery_target_new (bot_id t) (chat_id t) (thread_id t) (reply_to_message_id t) = Inr t"

definition subtitles_wf :: "subtitle_options \<Rightarrow> bool" where
  "subtitles_wf s \<longleftrightarrow> subtitle_options_new (language s) (automatic s) = Inr s"

definition settings_wf :: "downloader_settings \<Rightarrow> bool" where
  "settings_wf s \<longleftrightarrow> settings_validate s = Inr s"

definition params_wf :: "download_params \<Rightarrow> bool" where
  "params_wf p \<longleftrightarrow>
     max_height p \<noteq> Some 0 \<and> length (clips p) \<le> 20 \<and> list_all clip_wf (clips p)
     \<and> pred_option playlist_wf (playlist p) \<and> pred_option subtitles_wf (subtitles p)"

definition reparses :: "url_parser \<Rightarrow> bool" where
  "reparses parse \<longleftrightarrow> (\<forall>s u. parse s = Some u \<longrightarrow> parse (url_text u) = Some u)"

definition own_chat :: "u64 \<Rightarrow> delivery_target \<Rightarrow> bool" where
  "own_chat actor t \<longleftrightarrow> (0 < sint (chat_id t) \<longrightarrow> chat_id t = actor)"

definition request_wf :: "url_parser \<Rightarrow> download_request \<Rightarrow> bool" where
  "request_wf parse r \<longleftrightarrow>
     valid_actor (actor_id r)
     \<and> parse (url_text (source_url r)) = Some (source_url r) \<and> url_acceptable (source_url r)
     \<and> pred_option clip_wf (clip_range r) \<and> (clip_range r = None \<or> clips (params r) = [])
     \<and> params_wf (params r)
     \<and> validate_mode (params r) (media_mode r) (clip_range r) = Inr ()
     \<and> (media_mode r = Subtitles \<longrightarrow> subtitles (params r) \<noteq> None)
     \<and> pred_option target_wf (target r)
     \<and> pred_option (own_chat (actor_id r)) (target r)
     \<and> network_wf (network r) \<and> validate_actor (network r) (actor_id r) = Inr ()
     \<and> pred_option settings_wf (downloader_settings r)"

lemma subtitle_default_wf [simp]: "subtitles_wf subtitle_options_default"
  by (simp add: subtitles_wf_def subtitle_options_new_def subtitle_options_default_def Let_def
      is_ascii_lowercase_def byte_def)

lemma params_wf_default [simp]: "params_wf download_params_default"
  by (simp add: params_wf_def download_params_default_def)

lemma params_wf_insert: "params_wf p \<Longrightarrow> params_wf (insert_default_subtitles m p)"
  by (auto simp: params_wf_def insert_default_subtitles_def)

lemma insert_default_subtitles_clips [simp]: "clips (insert_default_subtitles m p) = clips p"
  by (simp add: insert_default_subtitles_def)

lemma validate_mode_insert:
  "validate_mode (insert_default_subtitles m p) m c = validate_mode p m c"
  by (cases m) (auto simp: insert_default_subtitles_def validate_mode_def)

lemma insert_default_subtitles_some:
  "\<exists>y. subtitles (insert_default_subtitles Subtitles p) = Some y"
  by (auto simp: insert_default_subtitles_def)

lemma download_request_newE:
  assumes "download_request_new parse a src m c p = Inr r"
  obtains u where "valid_actor a" "parse src = Some u" "url_acceptable u"
    "c = None \<or> clips p = []" "validate_mode p m c = Inr ()"
    "r = \<lparr>actor_id = a, source_url = u, media_mode = m, clip_range = c,
          params = insert_default_subtitles m p, target = None, network = network_none,
          preference_overrides = None, downloader_settings = None, force_nsfw = False\<rparr>"
  using assms
  by (auto simp: download_request_new_def valid_actor_def res_bind_Inr_iff
      split: if_splits option.splits)

lemma download_request_new_wf:
  assumes "download_request_new parse a src m c p = Inr r"
    and "reparses parse" and "params_wf p" and "pred_option clip_wf c"
  shows "request_wf parse r"
  using assms(1)
proof (rule download_request_newE)
  fix u
  assume h: "valid_actor a" "parse src = Some u" "url_acceptable u"
    "c = None \<or> clips p = []" "validate_mode p m c = Inr ()"
    "r = \<lparr>actor_id = a, source_url = u, media_mode = m, clip_range = c,
          params = insert_default_subtitles m p, target = None, network = network_none,
          preference_overrides = None, downloader_settings = None, force_nsfw = False\<rparr>"
  from h(2) assms(2) have "parse (url_text u) = Some u" by (auto simp: reparses_def)
  with h assms(3,4) show "request_wf parse r"
    by (simp add: request_wf_def params_wf_insert validate_mode_insert
        insert_default_subtitles_some)
qed

lemma with_params_wf:
  "request_wf parse r \<Longrightarrow> params_wf p \<Longrightarrow> with_params p r = Inr r' \<Longrightarrow> request_wf parse r'"
  by (auto simp: with_params_def request_wf_def res_bind_Inr_iff params_wf_insert
      validate_mode_insert insert_default_subtitles_some split: if_splits)

lemma with_network_wf:
  "request_wf parse r \<Longrightarrow> network_wf n \<Longrightarrow> with_network n r = Inr r' \<Longrightarrow> request_wf parse r'"
  by (auto simp: with_network_def request_wf_def res_bind_Inr_iff)

lemma with_target_wf:
  "request_wf parse r \<Longrightarrow> target_wf t \<Longrightarrow> with_target t r = Inr r' \<Longrightarrow> request_wf parse r'"
  by (auto simp: with_target_def request_wf_def own_chat_def split: if_splits)

lemma settings_validate_Inr: "settings_validate s = Inr s' \<Longrightarrow> s' = s \<and> settings_wf s"
  by (auto simp: settings_validate_def settings_wf_def split: if_splits)

lemma with_downloader_settings_wf:
  "request_wf parse r \<Longrightarrow> with_downloader_settings s r = Inr r' \<Longrightarrow> request_wf parse r'"
  by (cases s) (auto simp: with_downloader_settings_def request_wf_def res_bind_Inr_iff
      dest: settings_validate_Inr)

lemma with_downloader_settings_None [simp]:
  "with_downloader_settings None r = Inr (r\<lparr>downloader_settings := None\<rparr>)"
  by (simp add: with_downloader_settings_def)

lemma with_force_nsfw_wf: "request_wf parse r \<Longrightarrow> request_wf parse (with_force_nsfw f r)"
  by (simp add: request_wf_def with_force_nsfw_def)

lemma with_preference_overrides_wf:
  "request_wf parse r \<Longrightarrow> request_wf parse (with_preference_overrides ov r)"
  by (simp add: request_wf_def with_preference_overrides_def)

lemma automatic_provider_modes:
  "m = Links \<or> m = AudioLinks \<or> m = Formats \<or> m = Subtitles \<Longrightarrow>
    automatic_provider_v1 u m = AutoYtDlpV1"
  by (auto simp: automatic_provider_v1_def)

lemma freeze_provider_routing_wf:
  assumes "request_wf parse r" shows "request_wf parse (freeze_provider_routing r)"
proof -
  let ?p = "(params r)\<lparr>engine := automatic_provider_v1 (source_url r) (media_mode r)\<rparr>"
  have "validate_mode ?p (media_mode r) (clip_range r) = Inr ()"
    using assms automatic_provider_modes [of "media_mode r" "source_url r"]
    by (cases "media_mode r")
      (auto simp: request_wf_def validate_mode_def link_engine_def gallery_engine_def
        split: if_splits)
  moreover have "params_wf ?p" using assms by (simp add: request_wf_def params_wf_def)
  ultimately show ?thesis
    using assms by (auto simp: freeze_provider_routing_def request_wf_def)
qed

section \<open>The requests the interface can build\<close>

inductive built :: "url_parser \<Rightarrow> download_request \<Rightarrow> bool" for parse where
  new: "download_request_new parse a src m c p = Inr r \<Longrightarrow> params_wf p \<Longrightarrow>
    pred_option clip_wf c \<Longrightarrow> built parse r"
| params: "built parse r \<Longrightarrow> with_params p r = Inr r' \<Longrightarrow> params_wf p \<Longrightarrow> built parse r'"
| network: "built parse r \<Longrightarrow> with_network n r = Inr r' \<Longrightarrow> network_wf n \<Longrightarrow> built parse r'"
| target: "built parse r \<Longrightarrow> with_target t r = Inr r' \<Longrightarrow> target_wf t \<Longrightarrow> built parse r'"
| settings: "built parse r \<Longrightarrow> with_downloader_settings s r = Inr r' \<Longrightarrow> built parse r'"
| nsfw: "built parse r \<Longrightarrow> built parse (with_force_nsfw f r)"
| overrides: "built parse r \<Longrightarrow> built parse (with_preference_overrides ov r)"
| freeze: "built parse r \<Longrightarrow> built parse (freeze_provider_routing r)"

definition example_url :: url where
  "example_url = \<lparr>url_text = ''https://example.com/a'', url_scheme = ''https'',
     url_host = Some ''example.com'', url_username = [], url_password = None, url_path = ''/a''\<rparr>"

definition example_parser :: url_parser where
  "example_parser s = (if s = url_text example_url then Some example_url else None)"

lemma example_parser_reparses: "reparses example_parser"
  by (simp add: reparses_def example_parser_def)

definition example_request :: download_request where
  "example_request =
     \<lparr>actor_id = 42, source_url = example_url, media_mode = Video, clip_range = None,
      params = download_params_default, target = None, network = network_none,
      preference_overrides = None, downloader_settings = None, force_nsfw = False\<rparr>"

lemma example_request_new:
  "download_request_new example_parser 42 (url_text example_url) Video None
     download_params_default = Inr example_request"
  by (simp add: download_request_new_def example_parser_def url_acceptable_def example_url_def
      validate_mode_def download_params_default_def insert_default_subtitles_def
      example_request_def)

text \<open>Every request the constructors and builders can produce satisfies the request
  invariant: a valid actor, an HTTP(S) source without credentials, valid clips, parameters that
  fit the mode, a target that is the actor's own chat when it is private, and only the actor's
  own or shared credentials.\<close>

theorem built_request_wf:
  assumes "reparses parse" and "built parse r"
  shows "request_wf parse r"
  using assms(2)
  by (induction rule: built.induct)
    (blast intro: download_request_new_wf [OF _ assms(1)] with_params_wf with_network_wf
      with_target_wf with_downloader_settings_wf with_force_nsfw_wf with_preference_overrides_wf
      freeze_provider_routing_wf)+

theorem built_request_wf_witness:
  "request_wf example_parser (freeze_provider_routing example_request)
   \<and> engine (params (freeze_provider_routing example_request)) = AutoYtDlpV1"
proof -
  have "built example_parser (freeze_provider_routing example_request)"
    by (rule built.freeze, rule built.new [OF example_request_new]) simp_all
  from built_request_wf [OF example_parser_reparses this] show ?thesis
    by (simp add: freeze_provider_routing_def example_request_def download_params_default_def
        automatic_provider_v1_def example_url_def trim_end_matches_def domain_matches_def
        strip_suffix_def ends_with_def starts_with_def gallery_domains_def)
qed

section \<open>Routing\<close>

definition subdomain_of :: "string \<Rightarrow> string \<Rightarrow> bool" where
  "subdomain_of host d \<longleftrightarrow> host = d \<or> (\<exists>p. host = p @ ''.'' @ d)"

lemma domain_matches_iff: "domain_matches host d \<longleftrightarrow> subdomain_of host d"
proof -
  have "(case strip_suffix host d of None \<Rightarrow> False | Some q \<Rightarrow> ends_with q ''.'')
    \<longleftrightarrow> (\<exists>q. strip_suffix host d = Some q \<and> ends_with q ''.'')"
    by (auto split: option.splits)
  also have "\<dots> \<longleftrightarrow> (\<exists>p. host = p @ ''.'' @ d)"
    by (auto simp: strip_suffix_Some_iff ends_with_iff)
  finally show ?thesis by (simp add: domain_matches_def subdomain_of_def)
qed

lemma domain_matches_eq: "domain_matches = subdomain_of"
  by (simp add: fun_eq_iff domain_matches_iff)

lemma starts_with_both:
  "starts_with s a \<Longrightarrow> starts_with s b \<Longrightarrow> starts_with a b \<or> starts_with b a"
  by (auto simp: starts_with_iff append_eq_append_conv2)

lemma subdomain_suffix: "subdomain_of h d \<Longrightarrow> ends_with (CHR ''.'' # h) (CHR ''.'' # d)"
  by (auto simp: subdomain_of_def ends_with_iff)

lemma subdomain_disjoint:
  assumes "subdomain_of h a" and "subdomain_of h b"
  shows "ends_with (CHR ''.'' # a) (CHR ''.'' # b) \<or> ends_with (CHR ''.'' # b) (CHR ''.'' # a)"
  using starts_with_both subdomain_suffix [OF assms(1)] subdomain_suffix [OF assms(2)]
  unfolding ends_with_def by blast

lemma unrelated_domains:
  assumes "list_all (\<lambda>d. \<not> ends_with (CHR ''.'' # a) (CHR ''.'' # d)
      \<and> \<not> ends_with (CHR ''.'' # d) (CHR ''.'' # a)) ds"
    and "subdomain_of h a"
  shows "\<not> list_ex (subdomain_of h) ds"
  using assms subdomain_disjoint by (fastforce simp: list_all_iff list_ex_iff)

lemma fallback_domain_others:
  assumes "subdomain_of h ''instagram.com'' \<or> subdomain_of h ''tiktok.com''"
  shows "\<not> list_ex (subdomain_of h) ([''youtube.com'', ''youtu.be'', ''vk.com''] @ gallery_domains)"
  using assms
proof
  show "subdomain_of h ''instagram.com'' \<Longrightarrow> ?thesis"
    by (erule unrelated_domains [rotated]) code_simp
  show "subdomain_of h ''tiktok.com'' \<Longrightarrow> ?thesis"
    by (erule unrelated_domains [rotated]) code_simp
qed

definition request_host :: "url \<Rightarrow> string" where
  "request_host u = trim_end_matches CHR ''.'' (case url_host u of None \<Rightarrow> [] | Some h \<Rightarrow> h)"

lemma routing_table:
  "e = (if m = Image then AutoGalleryV1
     else if m = Subtitles \<or> m = Formats \<or> m = Links \<or> m = AudioLinks then AutoYtDlpV1
     else if yt then AutoYtDlpV1 else if gallery then AutoGalleryV1
     else if fallback then AutoFallbackV1 else AutoYtDlpV1) \<Longrightarrow>
   (fallback \<Longrightarrow> \<not> yt \<and> \<not> gallery) \<Longrightarrow>
   e = AutoFallbackV1 \<longleftrightarrow> (m = Video \<or> m = Audio) \<and> fallback"
  by (cases m) auto

text \<open>The fallback engine is chosen for a video or audio request exactly when the host, without
  trailing dots, is instagram.com or tiktok.com or a subdomain of one: a host that only ends
  in the same letters, or that carries the name elsewhere in the URL, is not routed there.\<close>

theorem fallback_routing_iff:
  "automatic_provider_v1 u mode = AutoFallbackV1 \<longleftrightarrow>
     (mode = Video \<or> mode = Audio)
     \<and> (subdomain_of (request_host u) ''instagram.com'' \<or> subdomain_of (request_host u) ''tiktok.com'')"
proof -
  let ?h = "request_host u"
  let ?fallback = "subdomain_of ?h ''instagram.com'' \<or> subdomain_of ?h ''tiktok.com''"
  let ?yt = "list_ex (subdomain_of ?h) [''youtube.com'', ''youtu.be'']"
  let ?gallery = "list_ex (subdomain_of ?h) gallery_domains
    \<or> (subdomain_of ?h ''vk.com'' \<and> list_ex (starts_with (url_path u)) [''/wall-'', ''/album-''])"
  have "automatic_provider_v1 u mode =
    (if mode = Image then AutoGalleryV1
     else if mode = Subtitles \<or> mode = Formats \<or> mode = Links \<or> mode = AudioLinks then AutoYtDlpV1
     else if ?yt then AutoYtDlpV1 else if ?gallery then AutoGalleryV1
     else if ?fallback then AutoFallbackV1 else AutoYtDlpV1)"
    by (simp only: automatic_provider_v1_def Let_def domain_matches_eq request_host_def)
  moreover have "?fallback \<Longrightarrow> \<not> ?yt \<and> \<not> ?gallery"
    using fallback_domain_others [of ?h] by auto
  ultimately show ?thesis by (rule routing_table)
qed

text \<open>Freezing the routing never leaves the automatic engine, changes nothing but the engine,
  respects an explicit engine, and is idempotent.\<close>

theorem freeze_provider_routing_spec:
  "engine (params (freeze_provider_routing r)) \<noteq> Auto
   \<and> freeze_provider_routing (freeze_provider_routing r) = freeze_provider_routing r
   \<and> (engine (params r) \<noteq> Auto \<longrightarrow> freeze_provider_routing r = r)
   \<and> (freeze_provider_routing r)\<lparr>params := (params (freeze_provider_routing r))\<lparr>engine := engine (params r)\<rparr>\<rparr> = r"
proof -
  have "automatic_provider_v1 u m \<noteq> Auto" for u m
    by (simp add: automatic_provider_v1_def Let_def)
  then show ?thesis by (simp add: freeze_provider_routing_def)
qed

theorem freeze_provider_routing_spec_witness:
  "freeze_provider_routing (example_request\<lparr>params := download_params_default\<lparr>engine := YtDlp\<rparr>\<rparr>)
     = example_request\<lparr>params := download_params_default\<lparr>engine := YtDlp\<rparr>\<rparr>"
  using freeze_provider_routing_spec
    [of "example_request\<lparr>params := download_params_default\<lparr>engine := YtDlp\<rparr>\<rparr>"]
  by simp

end
