(* ===== verification/Lifecycle.thy ===== *)
theory Lifecycle
  imports Request_Facts
begin

text \<open>
  The in-memory lifecycle of one download operation,
  \<open>backend/crates/yoink-domain/src/lib.rs\<close> from \<open>FailureClass\<close> to \<open>is_terminal\<close>. A method
  that takes \<open>&mut self\<close> returns the new value, or the error with the value unchanged;
  the random identifier of \<open>OperationId::new\<close> is an argument.
\<close>

datatype failure_class =
  InvalidInputFailure | UnsupportedSource | SourceUnavailable | RateLimited | ProcessingFailed
| ResourceLimit | InternalFailure

datatype operation_failure = OperationFailure (failure_of: failure_class)

datatype operation_state =
  OpQueued | OpRunning | OpSucceeded | OpFailed operation_failure | OpCancelled

datatype transition_error =
  NotQueued | NotRunning | Terminal | CancellationNotRequested | NotFailed | AttemptsExhausted

record operation =
  op_uuid :: uuid
  op_attempt :: u32
  op_request :: download_request
  op_state :: operation_state
  op_cancel_requested :: bool

definition operation_new :: "uuid \<Rightarrow> download_request \<Rightarrow> operation" where
  "operation_new ident request =
     \<lparr>op_uuid = ident, op_attempt = 1, op_request = request, op_state = OpQueued,
      op_cancel_requested = False\<rparr>"

fun is_terminal :: "operation_state \<Rightarrow> bool" where
  "is_terminal OpSucceeded = True"
| "is_terminal (OpFailed _) = True"
| "is_terminal OpCancelled = True"
| "is_terminal _ = False"

definition start :: "operation \<Rightarrow> transition_error + operation" where
  "start s =
     (if op_state s \<noteq> OpQueued then Inl (if is_terminal (op_state s) then Terminal else NotQueued)
      else Inr (s\<lparr>op_state := OpRunning\<rparr>))"

definition require_running :: "operation \<Rightarrow> transition_error + unit" where
  "require_running s =
     (if op_state s = OpRunning then Inr ()
      else if is_terminal (op_state s) then Inl Terminal
      else Inl NotRunning)"

definition succeed :: "operation \<Rightarrow> transition_error + operation" where
  "succeed s = res_bind (require_running s) (\<lambda>_. Inr (s\<lparr>op_state := OpSucceeded\<rparr>))"

definition fail :: "operation_failure \<Rightarrow> operation \<Rightarrow> transition_error + operation" where
  "fail failure s = res_bind (require_running s) (\<lambda>_. Inr (s\<lparr>op_state := OpFailed failure\<rparr>))"

definition request_cancel :: "operation \<Rightarrow> transition_error + operation" where
  "request_cancel s =
     (if is_terminal (op_state s) then Inl Terminal else Inr (s\<lparr>op_cancel_requested := True\<rparr>))"

definition acknowledge_cancel :: "operation \<Rightarrow> transition_error + operation" where
  "acknowledge_cancel s =
     (if is_terminal (op_state s) then Inl Terminal
      else if \<not> op_cancel_requested s then Inl CancellationNotRequested
      else Inr (s\<lparr>op_state := OpCancelled\<rparr>))"

definition new_attempt :: "operation \<Rightarrow> transition_error + operation" where
  "new_attempt s =
     (case op_state s of
        OpFailed _ \<Rightarrow>
          res_bind (ok_or AttemptsExhausted (checked_succ_u32 (op_attempt s))) (\<lambda>attempt.
            Inr \<lparr>op_uuid = op_uuid s, op_attempt = attempt, op_request = op_request s,
                 op_state = OpQueued, op_cancel_requested = False\<rparr>)
      | _ \<Rightarrow> Inl NotFailed)"

lemmas lifecycle_defs =
  start_def require_running_def succeed_def fail_def request_cancel_def acknowledge_cancel_def

section \<open>The lifecycle as a transition system\<close>

inductive op_step :: "operation \<Rightarrow> operation \<Rightarrow> bool" where
  start: "start s = Inr t \<Longrightarrow> op_step s t"
| succeed: "succeed s = Inr t \<Longrightarrow> op_step s t"
| fail: "fail f s = Inr t \<Longrightarrow> op_step s t"
| request_cancel: "request_cancel s = Inr t \<Longrightarrow> op_step s t"
| acknowledge_cancel: "acknowledge_cancel s = Inr t \<Longrightarrow> op_step s t"

inductive_cases op_stepE: "op_step s t"

definition op_initial :: "operation \<Rightarrow> bool" where
  "op_initial s \<longleftrightarrow>
     (\<exists>i r. s = operation_new i r) \<or> (\<exists>p. new_attempt p = Inr s)"

definition op_inv :: "operation \<Rightarrow> bool" where
  "op_inv s \<longleftrightarrow> (op_state s = OpCancelled \<longrightarrow> op_cancel_requested s)"

lemma op_step_cases:
  assumes "op_step s t"
  shows "\<not> is_terminal (op_state s) \<and>
    (op_state s = OpQueued \<and> t = s\<lparr>op_state := OpRunning\<rparr>
     \<or> op_state s = OpRunning \<and> t = s\<lparr>op_state := OpSucceeded\<rparr>
     \<or> op_state s = OpRunning \<and> (\<exists>f. t = s\<lparr>op_state := OpFailed f\<rparr>)
     \<or> t = s\<lparr>op_cancel_requested := True\<rparr>
     \<or> op_cancel_requested s \<and> t = s\<lparr>op_state := OpCancelled\<rparr>)"
  using assms
  by (cases rule: op_step.cases)
    (auto simp: lifecycle_defs res_bind_Inr_iff split: if_splits)

lemma new_attempt_Inr:
  "new_attempt s = Inr t \<Longrightarrow>
    op_state t = OpQueued \<and> \<not> op_cancel_requested t \<and> op_uuid t = op_uuid s
    \<and> op_request t = op_request s \<and> unat (op_attempt t) = Suc (unat (op_attempt s))
    \<and> (\<exists>f. op_state s = OpFailed f)"
  by (auto simp: new_attempt_def res_bind_Inr_iff dest: checked_succ_u32_Some
      split: operation_state.splits)

lemma op_initial_fresh: "op_initial s \<Longrightarrow> op_state s = OpQueued \<and> \<not> op_cancel_requested s"
  by (auto simp: op_initial_def operation_new_def dest: new_attempt_Inr)

interpretation lifecycle: transition_system op_initial op_step op_inv
proof unfold_locales
  fix s show "op_initial s \<Longrightarrow> op_inv s"
    by (simp add: op_inv_def op_initial_fresh)
next
  fix s t assume "op_inv s" "op_step s t"
  then show "op_inv t"
    using op_step_cases [of s t] by (auto simp: op_inv_def)
qed

text \<open>In a terminal state every lifecycle operation is refused with \<open>Terminal\<close>: the five
  mutating methods have no effect, and only a failed operation may start a new attempt.\<close>

theorem terminal_rejects_mutation:
  assumes "is_terminal (op_state s)"
  shows "start s = Inl Terminal \<and> succeed s = Inl Terminal \<and> fail f s = Inl Terminal
    \<and> request_cancel s = Inl Terminal \<and> acknowledge_cancel s = Inl Terminal
    \<and> ((\<exists>t. new_attempt s = Inr t) \<longrightarrow> (\<exists>g. op_state s = OpFailed g))"
  using assms
  by (cases "op_state s") (auto simp: lifecycle_defs dest: new_attempt_Inr)

theorem terminal_rejects_mutation_witness:
  "start ((operation_new 1 example_request)\<lparr>op_state := OpSucceeded\<rparr>) = Inl Terminal
   \<and> (\<exists>t. start (operation_new 1 example_request) = Inr t)"
  using terminal_rejects_mutation
    [of "(operation_new 1 example_request)\<lparr>op_state := OpSucceeded\<rparr>"]
  by (simp add: operation_new_def lifecycle_defs)

text \<open>An operation that ends cancelled had its cancellation requested first, and no sequence of
  lifecycle operations changes its identifier, attempt number or request.\<close>

theorem lifecycle_reachable:
  assumes "op_initial s" and "op_step\<^sup>*\<^sup>* s t"
  shows "(op_state t = OpCancelled \<longrightarrow> op_cancel_requested t)
    \<and> op_uuid t = op_uuid s \<and> op_attempt t = op_attempt s \<and> op_request t = op_request s"
proof -
  have "op_inv s" using assms(1) by (rule lifecycle.inv_initial)
  then have "op_inv t \<and> (op_uuid t = op_uuid s \<and> op_attempt t = op_attempt s
      \<and> op_request t = op_request s)"
    using lifecycle.inv_steps [OF assms(2)]
      lifecycle.frame_steps [OF assms(2), where P = "\<lambda>t. op_uuid t = op_uuid s
        \<and> op_attempt t = op_attempt s \<and> op_request t = op_request s"]
      op_step_cases by fastforce
  then show ?thesis by (simp add: op_inv_def)
qed

theorem lifecycle_reachable_witness:
  "let s = operation_new 1 example_request; t = s\<lparr>op_cancel_requested := True, op_state := OpCancelled\<rparr>
   in op_step\<^sup>*\<^sup>* s t \<and> op_state t = OpCancelled \<and> op_cancel_requested t \<and> op_attempt t = 1"
proof -
  let ?s = "operation_new 1 example_request"
  let ?u = "?s\<lparr>op_cancel_requested := True\<rparr>" and ?t = "?s\<lparr>op_cancel_requested := True, op_state := OpCancelled\<rparr>"
  have "op_step ?s ?u"
    by (rule op_step.request_cancel) (simp add: request_cancel_def operation_new_def)
  moreover have "op_step ?u ?t"
    by (rule op_step.acknowledge_cancel) (simp add: acknowledge_cancel_def operation_new_def)
  ultimately have steps: "op_step\<^sup>*\<^sup>* ?s ?t" by (meson rtranclp.rtrancl_refl rtranclp.rtrancl_into_rtrancl)
  have "op_initial ?s" by (auto simp: op_initial_def)
  from lifecycle_reachable [OF this steps] steps show ?thesis
    by (simp add: operation_new_def)
qed

text \<open>A new attempt keeps the operation's identifier and request, is queued with no
  cancellation, and carries the next attempt number: at the last 32-bit number it is refused
  instead of wrapping.\<close>

theorem new_attempt_spec:
  "new_attempt s =
    (if \<not> (\<exists>f. op_state s = OpFailed f) then Inl NotFailed
     else if unat (op_attempt s) = 2 ^ 32 - 1 then Inl AttemptsExhausted
     else Inr (s\<lparr>op_attempt := word_of_nat (Suc (unat (op_attempt s))), op_state := OpQueued,
                op_cancel_requested := False\<rparr>))"
proof -
  have "op_attempt s = - 1 \<longleftrightarrow> unat (op_attempt s) = 2 ^ 32 - 1"
  proof -
    have "(- 1 :: u32) = 0xFFFFFFFF" by simp
    then show ?thesis by (simp add: word_unat_eq_iff)
  qed
  then show ?thesis
    by (auto simp: new_attempt_def checked_succ_u32_def add.commute split: operation_state.splits)
qed

end
