(* ===== verification/Store_Model.thy ===== *)
theory Store_Model
  imports Requests Access
begin

text \<open>
  The shared types of the storage crate: the error type of
  \<open>backend/crates/yoink-storage/src/error.rs\<close>, the policies and results of \<open>model.rs\<close>, and
  the input checks of \<open>store.rs\<close>. A \<open>Duration\<close> is its whole seconds and its sub-second
  nanoseconds, as \<open>as_secs\<close> and \<open>subsec_nanos\<close> read it.
\<close>

datatype store_error =
  InvalidInput | Conflict | Capacity | QuotaExceeded (retry_after_secs: nat) | NotFoundOrStale
| Unauthorized | Database | Migration int string | Schema | InvalidStoredData

datatype progress_stage = Fetching | Processing | WritingArtifact

datatype operation_status =
  Queued | Running | Delivering | DeliveryUnknown | DeliveryPartial | Succeeded | Failed | Cancelled

record duration =
  as_secs :: nat
  subsec_nanos :: nat

definition secs :: "nat \<Rightarrow> duration" where
  "secs n = \<lparr>as_secs = n, subsec_nanos = 0\<rparr>"

definition duration_le :: "duration \<Rightarrow> duration \<Rightarrow> bool" where
  "duration_le a b \<longleftrightarrow>
     as_secs a < as_secs b \<or> (as_secs a = as_secs b \<and> subsec_nanos a \<le> subsec_nanos b)"

record admission_policy =
  max_attempts :: u32
  retry_delay :: duration
  max_pending_global :: u32
  max_pending_actor :: u32

record quota_limits =
  limit_minute :: u32
  limit_hour :: u32
  limit_day :: u32

definition quota_limits_default :: quota_limits where
  "quota_limits_default = \<lparr>limit_minute = 5, limit_hour = 30, limit_day = 100\<rparr>"

definition quota_limits_validate :: "quota_limits \<Rightarrow> store_error + unit" where
  "quota_limits_validate q =
     (if list_ex (\<lambda>n. \<not> (1 \<le> n \<and> n \<le> 1000000)) [limit_minute q, limit_hour q, limit_day q]
      then Inl InvalidInput else Inr ())"

record claim_policy =
  max_active_actor :: u32

definition claim_policy_validate :: "claim_policy \<Rightarrow> store_error + unit" where
  "claim_policy_validate p =
     (if \<not> (1 \<le> max_active_actor p \<and> max_active_actor p \<le> 100) then Inl InvalidInput else Inr ())"

record admission =
  admitted_id :: uuid
  created :: bool

record claim =
  operation_id :: uuid
  attempt :: u32
  lease_token :: uuid
  worker_id :: string
  request :: download_request
  claim_cancel_requested :: bool
  claim_cache_bypassed :: bool
  lease_expires_at :: instant

record lease_heartbeat =
  heartbeat_expires_at :: instant
  heartbeat_cancel_requested :: bool

datatype stop_delivery_reason = StopCancel | Denied | NsfwBlocked | NsfwPolicyUnavailable | Shutdown

section \<open>Input checks\<close>

definition valid_token :: "string \<Rightarrow> bool" where
  "valid_token s \<longleftrightarrow>
     \<not> (s = [] \<or> length s > 128 \<or> \<not> list_all is_ascii s \<or> list_ex is_ascii_control s)"

definition validate_key :: "string \<Rightarrow> store_error + unit" where
  "validate_key key =
     (if key = [] \<or> length key > 128 \<or> \<not> list_all is_ascii key \<or> list_ex is_ascii_control key
      then Inl InvalidInput else Inr ())"

definition validate_worker :: "string \<Rightarrow> store_error + unit" where
  "validate_worker w =
     (if w = [] \<or> length w > 128 \<or> \<not> list_all is_ascii w \<or> list_ex is_ascii_control w
      then Inl InvalidInput else Inr ())"

definition validate_lease :: "duration \<Rightarrow> store_error + unit" where
  "validate_lease lease =
     (if \<not> duration_le (secs 1) lease \<or> \<not> duration_le lease (secs 300)
      then Inl InvalidInput else Inr ())"

definition validate_claim :: "claim \<Rightarrow> store_error + unit" where
  "validate_claim c =
     res_bind (validate_worker (worker_id c)) (\<lambda>_.
       if attempt c = 0 \<or> attempt c > 0x7FFFFFFF then Inl InvalidInput else Inr ())"

definition validate_policy :: "admission_policy \<Rightarrow> store_error + unit" where
  "validate_policy p =
     (if \<not> (1 \<le> max_attempts p \<and> max_attempts p \<le> 100)
         \<or> subsec_nanos (retry_delay p) \<noteq> 0
         \<or> \<not> duration_le (retry_delay p) (secs 300)
         \<or> \<not> (1 \<le> max_pending_global p \<and> max_pending_global p \<le> 10000)
         \<or> \<not> (1 \<le> max_pending_actor p \<and> max_pending_actor p \<le> 10000)
      then Inl InvalidInput else Inr ())"

definition retry_after_seconds :: "duration \<Rightarrow> store_error + int" where
  "retry_after_seconds delay =
     (let seconds = as_secs delay + (if subsec_nanos delay > 0 then 1 else 0) in
      if seconds \<ge> 2 ^ 64 \<or> int seconds > i32_max then Inl InvalidInput else Inr (int seconds))"

lemma validate_lease_bounds:
  "validate_lease d = Inr () \<Longrightarrow> 1 \<le> as_secs d \<and> as_secs d \<le> 300"
  by (auto simp: validate_lease_def duration_le_def secs_def split: if_splits)

lemma validate_policy_bounds:
  assumes "validate_policy p = Inr ()"
  shows "1 \<le> uint (max_attempts p) \<and> uint (max_attempts p) \<le> 100
    \<and> subsec_nanos (retry_delay p) = 0 \<and> as_secs (retry_delay p) \<le> 300
    \<and> 1 \<le> uint (max_pending_global p) \<and> 1 \<le> uint (max_pending_actor p)"
  using assms
  by (auto simp: validate_policy_def duration_le_def secs_def word_le_def split: if_splits)

lemma validate_claim_attempt:
  assumes "validate_claim c = Inr ()"
  shows "sint (attempt c) = uint (attempt c)" and "1 \<le> uint (attempt c)"
proof -
  from assms have a: "attempt c \<noteq> 0" "attempt c \<le> 0x7FFFFFFF"
    by (auto simp: validate_claim_def res_bind_Inr_iff not_less split: if_splits)
  from a(2) have "uint (attempt c) \<le> 0x7FFFFFFF" by (simp add: word_le_def)
  moreover have "- (2 ^ 31) \<le> uint (attempt c)" by (rule order_trans [of _ 0]) simp_all
  ultimately show "sint (attempt c) = uint (attempt c)"
    unfolding sint_uint by (intro signed_take_bit_int_eq_self) simp_all
  have "uint (attempt c) \<noteq> 0" using a(1) by (simp add: uint_0_iff)
  moreover have "0 \<le> uint (attempt c)" by simp
  ultimately show "1 \<le> uint (attempt c)" by linarith
qed

lemma retry_after_seconds_nonneg: "retry_after_seconds d = Inr n \<Longrightarrow> 0 \<le> n \<and> n \<le> i32_max"
  by (auto simp: retry_after_seconds_def Let_def split: if_splits)

end
