(* ===== verification/Codec.thy ===== *)
theory Codec
  imports Request_Facts Store_Model
begin

text \<open>
  The stored form of a request: \<open>backend/crates/yoink-storage/src/codec.rs\<close> and
  \<open>codec/network.rs\<close>. A stored request is the \<open>RequestData\<close> structure; that
  \<open>serde_json::from_value\<close> reads back what \<open>to_value\<close> wrote from it is serde's, so the JSON
  column of the tables holds the structure itself. \<open>encode\<close> and \<open>decode\<close> are the code's two
  functions between the structure and the validated domain request.
\<close>

section \<open>The stored structures\<close>

datatype media_mode_data =
  VideoData | AudioData | ImageData | SubtitlesData | FormatsData | LinksData | AudioLinksData

datatype video_codec_data = H264Data | H265Data | Av1Data | Vp9Data | AnyVideoData

datatype audio_codec_data = BestAudioData | AacData | Mp3Data | OpusData

datatype container_data = Mp4Data | MkvData | WebmData

datatype engine_data =
  AutoData | YtDlpData | GalleryData | AutoYtDlpV1Data | AutoGalleryV1Data | AutoFallbackV1Data

record subtitle_options_data =
  sd_language :: string
  sd_automatic :: bool

record playlist_range_data =
  pd_start :: i32
  pd_end :: "i32 option"

record clip_range_data =
  cd_start_seconds :: f64
  cd_end_seconds :: f64

record delivery_target_data =
  td_bot_id :: i64
  td_chat_id :: i64
  td_thread_id :: "i64 option"
  td_reply_to_message_id :: "i32 option"

record preference_overrides_data =
  od_max_height :: "u32 option option"
  od_video_codec :: "video_codec_data option"
  od_audio_codec :: "audio_codec_data option"
  od_container :: "container_data option"
  od_send_as_file :: "bool option"
  od_gallery_zip :: "bool option"
  od_subtitle_language :: "string option"
  od_subtitle_automatic :: "bool option"

record download_params_data =
  dp_max_height :: "u32 option"
  dp_video_codec :: video_codec_data
  dp_audio_codec :: audio_codec_data
  dp_container :: container_data
  dp_engine :: engine_data
  dp_playlist :: "playlist_range_data option"
  dp_clips :: "clip_range_data list"
  dp_send_as_file :: bool
  dp_gallery_zip :: bool
  dp_media_info :: bool
  dp_subtitles :: "subtitle_options_data option"

record cookie_data =
  ck_id :: i32
  ck_owner_id :: u64
  ck_domain :: string
  ck_is_pool :: bool
  ck_version :: string

datatype proxy_source_data = PersonalData u64 | SystemData

record proxy_data =
  px_source :: proxy_source_data
  px_version :: string

record network_selection_data =
  nd_cookie :: "cookie_data option"
  nd_proxy :: "proxy_data option"

record request_data =
  rd_downloader_settings :: "downloader_settings option"
  rd_force_nsfw :: bool
  rd_actor_id :: u64
  rd_source_url :: string
  rd_media_mode :: media_mode_data
  rd_clip_range :: "clip_range_data option"
  rd_params :: download_params_data
  rd_target :: "delivery_target_data option"
  rd_network :: network_selection_data
  rd_max_height :: "u32 option"
  rd_preference_overrides :: "preference_overrides_data option"

section \<open>Enumerations\<close>

fun encode_mode :: "media_mode \<Rightarrow> media_mode_data" where
  "encode_mode Video = VideoData" | "encode_mode Audio = AudioData"
| "encode_mode Image = ImageData" | "encode_mode Subtitles = SubtitlesData"
| "encode_mode Formats = FormatsData" | "encode_mode Links = LinksData"
| "encode_mode AudioLinks = AudioLinksData"

fun decode_mode :: "media_mode_data \<Rightarrow> media_mode" where
  "decode_mode VideoData = Video" | "decode_mode AudioData = Audio"
| "decode_mode ImageData = Image" | "decode_mode SubtitlesData = Subtitles"
| "decode_mode FormatsData = Formats" | "decode_mode LinksData = Links"
| "decode_mode AudioLinksData = AudioLinks"

fun encode_video :: "video_codec \<Rightarrow> video_codec_data" where
  "encode_video H264 = H264Data" | "encode_video H265 = H265Data" | "encode_video Av1 = Av1Data"
| "encode_video Vp9 = Vp9Data" | "encode_video AnyVideo = AnyVideoData"

fun decode_video :: "video_codec_data \<Rightarrow> video_codec" where
  "decode_video H264Data = H264" | "decode_video H265Data = H265" | "decode_video Av1Data = Av1"
| "decode_video Vp9Data = Vp9" | "decode_video AnyVideoData = AnyVideo"

fun encode_audio :: "audio_codec \<Rightarrow> audio_codec_data" where
  "encode_audio BestAudio = BestAudioData" | "encode_audio Aac = AacData"
| "encode_audio Mp3 = Mp3Data" | "encode_audio Opus = OpusData"

fun decode_audio :: "audio_codec_data \<Rightarrow> audio_codec" where
  "decode_audio BestAudioData = BestAudio" | "decode_audio AacData = Aac"
| "decode_audio Mp3Data = Mp3" | "decode_audio OpusData = Opus"

fun encode_container :: "container \<Rightarrow> container_data" where
  "encode_container Mp4 = Mp4Data" | "encode_container Mkv = MkvData"
| "encode_container Webm = WebmData"

fun decode_container :: "container_data \<Rightarrow> container" where
  "decode_container Mp4Data = Mp4" | "decode_container MkvData = Mkv"
| "decode_container WebmData = Webm"

fun encode_engine :: "engine \<Rightarrow> engine_data" where
  "encode_engine Auto = AutoData" | "encode_engine YtDlp = YtDlpData"
| "encode_engine AutoYtDlpV1 = AutoYtDlpV1Data" | "encode_engine AutoGalleryV1 = AutoGalleryV1Data"
| "encode_engine AutoFallbackV1 = AutoFallbackV1Data" | "encode_engine Gallery = GalleryData"

fun decode_engine :: "engine_data \<Rightarrow> engine" where
  "decode_engine AutoData = Auto" | "decode_engine YtDlpData = YtDlp"
| "decode_engine AutoYtDlpV1Data = AutoYtDlpV1" | "decode_engine AutoGalleryV1Data = AutoGalleryV1"
| "decode_engine AutoFallbackV1Data = AutoFallbackV1" | "decode_engine GalleryData = Gallery"

lemma mode_roundtrip [simp]: "decode_mode (encode_mode m) = m" by (cases m) simp_all
lemma video_roundtrip [simp]: "decode_video (encode_video v) = v" by (cases v) simp_all
lemma audio_roundtrip [simp]: "decode_audio (encode_audio a) = a" by (cases a) simp_all
lemma container_roundtrip [simp]: "decode_container (encode_container c) = c" by (cases c) simp_all
lemma engine_roundtrip [simp]: "decode_engine (encode_engine e) = e" by (cases e) simp_all

section \<open>Network references\<close>

definition encode_network :: "network_selection \<Rightarrow> network_selection_data" where
  "encode_network n =
     \<lparr>nd_cookie = map_option (\<lambda>c.
        \<lparr>ck_id = cookie_id c, ck_owner_id = cookie_owner_id c, ck_domain = cookie_domain c,
         ck_is_pool = cookie_is_pool c, ck_version = version_text (cookie_version c)\<rparr>) (cookie n),
      nd_proxy = map_option (\<lambda>p.
        \<lparr>px_source = (case proxy_source p of PersonalProxy a \<Rightarrow> PersonalData a
                      | SystemProxy \<Rightarrow> SystemData),
         px_version = version_text (proxy_version p)\<rparr>) (proxy n)\<rparr>"

definition decode_cookie :: "cookie_data \<Rightarrow> store_error + cookie_reference" where
  "decode_cookie c =
     res_bind (map_err InvalidStoredData (credential_version_new (ck_version c))) (\<lambda>version.
       map_err InvalidStoredData
         (cookie_reference_new (ck_id c) (ck_owner_id c) (ck_domain c) (ck_is_pool c) version))"

definition decode_proxy :: "proxy_data \<Rightarrow> store_error + proxy_reference" where
  "decode_proxy p =
     (let source = (case px_source p of PersonalData a \<Rightarrow> PersonalProxy a
                    | SystemData \<Rightarrow> SystemProxy) in
      res_bind (map_err InvalidStoredData (credential_version_new (px_version p))) (\<lambda>version.
        map_err InvalidStoredData (proxy_reference_new source version)))"

definition decode_network :: "network_selection_data \<Rightarrow> store_error + network_selection" where
  "decode_network d =
     res_bind (traverse_option decode_cookie (nd_cookie d)) (\<lambda>c.
       res_bind (traverse_option decode_proxy (nd_proxy d)) (\<lambda>p.
         Inr \<lparr>cookie = c, proxy = p\<rparr>))"

section \<open>Requests\<close>

definition encode_clip :: "clip_range \<Rightarrow> clip_range_data" where
  "encode_clip r = \<lparr>cd_start_seconds = start_seconds r, cd_end_seconds = end_seconds r\<rparr>"

definition decode_clip :: "clip_range_data \<Rightarrow> store_error + clip_range" where
  "decode_clip r =
     map_err InvalidStoredData (clip_range_new (cd_start_seconds r) (cd_end_seconds r))"

definition encode_params :: "download_params \<Rightarrow> download_params_data" where
  "encode_params p =
     \<lparr>dp_max_height = max_height p,
      dp_video_codec = encode_video (video_codec p),
      dp_audio_codec = encode_audio (audio_codec p),
      dp_container = encode_container (container p),
      dp_engine = encode_engine (engine p),
      dp_playlist = map_option (\<lambda>r. \<lparr>pd_start = pr_start r, pd_end = pr_end r\<rparr>) (playlist p),
      dp_clips = map encode_clip (clips p),
      dp_send_as_file = send_as_file p, dp_gallery_zip = gallery_zip p,
      dp_media_info = media_info p,
      dp_subtitles = map_option (\<lambda>s. \<lparr>sd_language = language s, sd_automatic = automatic s\<rparr>)
        (subtitles p)\<rparr>"

definition encode_overrides :: "download_preference_overrides \<Rightarrow> preference_overrides_data" where
  "encode_overrides ov =
     \<lparr>od_max_height = o_max_height ov,
      od_video_codec = map_option encode_video (o_video_codec ov),
      od_audio_codec = map_option encode_audio (o_audio_codec ov),
      od_container = map_option encode_container (o_container ov),
      od_send_as_file = o_send_as_file ov, od_gallery_zip = o_gallery_zip ov,
      od_subtitle_language = o_subtitle_language ov,
      od_subtitle_automatic = o_subtitle_automatic ov\<rparr>"

definition encode :: "download_request \<Rightarrow> request_data" where
  "encode r =
     \<lparr>rd_downloader_settings = downloader_settings r,
      rd_force_nsfw = force_nsfw r,
      rd_actor_id = actor_id r,
      rd_source_url = url_text (source_url r),
      rd_media_mode = encode_mode (media_mode r),
      rd_clip_range = map_option encode_clip (clip_range r),
      rd_params = encode_params (params r),
      rd_target = map_option (\<lambda>t.
        \<lparr>td_bot_id = bot_id t, td_chat_id = chat_id t, td_thread_id = thread_id t,
         td_reply_to_message_id = reply_to_message_id t\<rparr>) (target r),
      rd_network = encode_network (network r),
      rd_max_height = None,
      rd_preference_overrides = map_option encode_overrides (preference_overrides r)\<rparr>"

definition decode_params :: "u32 option \<Rightarrow> download_params_data \<Rightarrow> store_error + download_params" where
  "decode_params legacy_height p =
     (let h = (if dp_max_height p = None then legacy_height else dp_max_height p) in
      res_bind (map_err InvalidStoredData (download_params_new h)) (\<lambda>base.
      res_bind (traverse_option (\<lambda>r.
          map_err InvalidStoredData (playlist_range_new (pd_start r) (pd_end r))) (dp_playlist p))
        (\<lambda>range.
      let ps = base\<lparr>video_codec := decode_video (dp_video_codec p),
                    audio_codec := decode_audio (dp_audio_codec p),
                    container := decode_container (dp_container p),
                    engine := decode_engine (dp_engine p), playlist := range\<rparr> in
      res_bind (traverse_list decode_clip (dp_clips p)) (\<lambda>cs.
      res_bind (map_err InvalidStoredData (with_clips cs ps)) (\<lambda>ps.
      res_bind (map_err InvalidStoredData (traverse_option (\<lambda>s.
          subtitle_options_new (sd_language s) (sd_automatic s)) (dp_subtitles p))) (\<lambda>subs.
        Inr (ps\<lparr>send_as_file := dp_send_as_file p, gallery_zip := dp_gallery_zip p,
                media_info := dp_media_info p, subtitles := subs\<rparr>)))))))"

definition decode_target :: "delivery_target_data \<Rightarrow> store_error + delivery_target" where
  "decode_target t =
     map_err InvalidStoredData
       (delivery_target_new (td_bot_id t) (td_chat_id t) (td_thread_id t) (td_reply_to_message_id t))"

definition override_height_ok :: "u32 option option \<Rightarrow> bool" where
  "override_height_ok h \<longleftrightarrow>
     (case h of Some (Some height) \<Rightarrow> \<not> (height = 0 \<or> height > 100000) | _ \<Rightarrow> True)"

definition decode_overrides ::
  "preference_overrides_data \<Rightarrow> store_error + download_preference_overrides" where
  "decode_overrides d =
     (if \<not> override_height_ok (od_max_height d) then Inl InvalidStoredData
      else Inr
        \<lparr>o_max_height = od_max_height d,
         o_video_codec = map_option decode_video (od_video_codec d),
         o_audio_codec = map_option decode_audio (od_audio_codec d),
         o_container = map_option decode_container (od_container d),
         o_send_as_file = od_send_as_file d, o_gallery_zip = od_gallery_zip d,
         o_subtitle_language = od_subtitle_language d,
         o_subtitle_automatic = od_subtitle_automatic d\<rparr>)"

definition decode :: "url_parser \<Rightarrow> request_data \<Rightarrow> store_error + download_request" where
  "decode parse d =
     res_bind (traverse_option decode_clip (rd_clip_range d)) (\<lambda>range.
     res_bind (decode_params (rd_max_height d) (rd_params d)) (\<lambda>ps.
     res_bind (map_err InvalidStoredData
       (download_request_new parse (rd_actor_id d) (rd_source_url d) (decode_mode (rd_media_mode d))
          range ps)) (\<lambda>r.
     res_bind (case rd_target d of None \<Rightarrow> Inr r
       | Some t \<Rightarrow> res_bind (decode_target t) (\<lambda>t. map_err InvalidStoredData (with_target t r)))
       (\<lambda>r.
     res_bind (case rd_preference_overrides d of None \<Rightarrow> Inr r
       | Some ov \<Rightarrow> res_bind (decode_overrides ov) (\<lambda>ov. Inr (with_preference_overrides ov r)))
       (\<lambda>r.
     res_bind (map_err InvalidStoredData (with_downloader_settings (rd_downloader_settings d) r))
       (\<lambda>r.
     res_bind (decode_network (rd_network d)) (\<lambda>n.
       map_err InvalidStoredData (with_network n (with_force_nsfw (rd_force_nsfw d) r)))))))))"

section \<open>Reading back what was written\<close>

lemma decode_clip_encode [simp]: "clip_wf c \<Longrightarrow> decode_clip (encode_clip c) = Inr c"
  by (simp add: decode_clip_def encode_clip_def clip_wf_def)

lemma decode_clips_encode:
  "list_all clip_wf cs \<Longrightarrow> traverse_list decode_clip (map encode_clip cs) = Inr cs"
  by (rule traverse_list_all) (auto simp: list_all_iff)

lemma version_wf_text: "version_wf v \<Longrightarrow> credential_version_new (version_text v) = Inr v"
  by (simp add: version_wf_def)

lemma decode_encode_network: 
  assumes "network_wf n" shows "decode_network (encode_network n) = Inr n"
proof -
  have c: "decode_cookie \<lparr>ck_id = cookie_id c, ck_owner_id = cookie_owner_id c,
      ck_domain = cookie_domain c, ck_is_pool = cookie_is_pool c,
      ck_version = version_text (cookie_version c)\<rparr> = Inr c" if "cookie_wf c" for c
    using that cookie_wf_rebuild [OF that]
    by (simp add: decode_cookie_def cookie_wf_def version_wf_text)
  have p: "decode_proxy \<lparr>px_source = (case proxy_source p of PersonalProxy a \<Rightarrow> PersonalData a
      | SystemProxy \<Rightarrow> SystemData), px_version = version_text (proxy_version p)\<rparr> = Inr p"
    if "proxy_wf p" for p
    using that proxy_wf_rebuild [OF that]
    by (cases "proxy_source p") (simp_all add: decode_proxy_def proxy_wf_def version_wf_text)
  show ?thesis
    using assms
    by (cases n; cases "cookie n"; cases "proxy n")
      (simp_all add: network_wf_def decode_network_def encode_network_def c p)
qed

lemma decode_encode_target:
  "target_wf t \<Longrightarrow>
    decode_target \<lparr>td_bot_id = bot_id t, td_chat_id = chat_id t, td_thread_id = thread_id t,
      td_reply_to_message_id = reply_to_message_id t\<rparr> = Inr t"
  by (simp add: decode_target_def target_wf_def)

lemma decode_encode_params:
  assumes "params_wf p" shows "decode_params None (encode_params p) = Inr p"
proof -
  have pl: "traverse_option (\<lambda>r. map_err InvalidStoredData (playlist_range_new (pd_start r) (pd_end r)))
      (map_option (\<lambda>r. \<lparr>pd_start = pr_start r, pd_end = pr_end r\<rparr>) (playlist p)) = Inr (playlist p)"
    using assms by (cases "playlist p") (simp_all add: params_wf_def playlist_wf_def)
  have sb: "traverse_option (\<lambda>s. subtitle_options_new (sd_language s) (sd_automatic s))
      (map_option (\<lambda>s. \<lparr>sd_language = language s, sd_automatic = automatic s\<rparr>) (subtitles p))
      = Inr (subtitles p)"
    using assms by (cases "subtitles p") (simp_all add: params_wf_def subtitles_wf_def)
  have new: "download_params_new (max_height p) = Inr (download_params_default\<lparr>max_height := max_height p\<rparr>)"
    using assms by (simp add: download_params_new_def params_wf_def)
  show ?thesis
    using assms new
    by (cases "max_height p") (simp_all add: decode_params_def encode_params_def Let_def pl sb decode_clips_encode
        params_wf_def with_clips_def download_params_default_def)
qed

lemma decode_encode_overrides:
  "decode_overrides (encode_overrides ov) =
     (if override_height_ok (o_max_height ov) then Inr ov else Inl InvalidStoredData)"
  by (simp add: decode_overrides_def encode_overrides_def option.map_comp comp_def option.map_ident)

definition storable :: "download_request \<Rightarrow> bool" where
  "storable r \<longleftrightarrow> pred_option (\<lambda>ov. override_height_ok (o_max_height ov)) (preference_overrides r)"

lemma insert_default_subtitles_id:
  "(m = Subtitles \<longrightarrow> subtitles p \<noteq> None) \<Longrightarrow> insert_default_subtitles m p = p"
  by (auto simp: insert_default_subtitles_def)

lemma download_request_rebuild:
  assumes "request_wf parse r"
  shows "download_request_new parse (actor_id r) (url_text (source_url r)) (media_mode r)
    (clip_range r) (params r) = Inr (r\<lparr>target := None, network := network_none,
      preference_overrides := None, downloader_settings := None, force_nsfw := False\<rparr>)"
proof -
  have "insert_default_subtitles (media_mode r) (params r) = params r"
    using assms by (intro insert_default_subtitles_id) (simp add: request_wf_def)
  then show ?thesis
    using assms by (auto simp: request_wf_def download_request_new_def valid_actor_def not_le)
qed

lemma decode_encode_clip_range:
  "pred_option clip_wf c \<Longrightarrow> traverse_option decode_clip (map_option encode_clip c) = Inr c"
  by (cases c) simp_all

lemma decode_target_stage:
  assumes "pred_option target_wf t" and "pred_option (own_chat (actor_id b)) t" and "target b = None"
  shows "(case map_option (\<lambda>t. \<lparr>td_bot_id = bot_id t, td_chat_id = chat_id t,
         td_thread_id = thread_id t, td_reply_to_message_id = reply_to_message_id t\<rparr>) t of
        None \<Rightarrow> Inr b
      | Some t \<Rightarrow> res_bind (decode_target t) (\<lambda>t. map_err InvalidStoredData (with_target t b)))
    = Inr (b\<lparr>target := t\<rparr>)"
  using assms by (cases t) (simp_all add: decode_encode_target with_target_def own_chat_def)

lemma decode_overrides_stage:
  assumes "preference_overrides b = None"
  shows "(case map_option encode_overrides ov of None \<Rightarrow> Inr b
       | Some ov \<Rightarrow> res_bind (decode_overrides ov) (\<lambda>ov. Inr (with_preference_overrides ov b)))
    = (if pred_option (\<lambda>ov. override_height_ok (o_max_height ov)) ov
       then Inr (b\<lparr>preference_overrides := ov\<rparr>) else Inl InvalidStoredData)"
  using assms by (cases ov) (simp_all add: decode_encode_overrides with_preference_overrides_def)

lemma decode_settings_stage:
  "pred_option settings_wf s \<Longrightarrow>
    with_downloader_settings s b = Inr (b\<lparr>downloader_settings := s\<rparr>)"
  by (cases s) (simp_all add: with_downloader_settings_def settings_wf_def)

lemma with_network_stage:
  "validate_actor n (actor_id b) = Inr () \<Longrightarrow> with_network n b = Inr (b\<lparr>network := n\<rparr>)"
  by (simp add: with_network_def)

lemmas decode_stages =
  decode_encode_clip_range decode_encode_params decode_target_stage decode_overrides_stage
  decode_settings_stage decode_encode_network with_network_stage

lemma decode_encode_stored:
  assumes "request_wf parse r"
  shows "decode parse (encode r) = (if storable r then Inr r else Inl InvalidStoredData)"
proof -
  have wf: "params_wf (params r)" "network_wf (network r)" "pred_option target_wf (target r)"
    "pred_option clip_wf (clip_range r)" "pred_option settings_wf (downloader_settings r)"
    "pred_option (own_chat (actor_id r)) (target r)"
    "validate_actor (network r) (actor_id r) = Inr ()"
    using assms by (simp_all add: request_wf_def)
  show ?thesis
    by (simp add: decode_def encode_def download_request_rebuild [OF assms] wf decode_stages
        storable_def with_force_nsfw_def del: case_map_option)
qed


lemma decode_encode_request_ok:
  "request_wf parse r \<Longrightarrow> storable r \<Longrightarrow> decode parse (encode r) = Inr r"
  by (simp add: decode_encode_stored)

definition unstorable_overrides :: download_preference_overrides where
  "unstorable_overrides =
     \<lparr>o_max_height = Some (Some 0), o_video_codec = None, o_audio_codec = None,
      o_container = None, o_send_as_file = None, o_gallery_zip = None,
      o_subtitle_language = None, o_subtitle_automatic = None\<rparr>"

lemma example_request_wf: "request_wf example_parser example_request"
  by (rule download_request_new_wf [OF example_request_new example_parser_reparses]) simp_all

text \<open>C40. A request that satisfies the request invariant is read back from its stored form unchanged,
  every field included, exactly when its preference overrides carry no height outside 1 to
  100000; otherwise its row is refused as invalid stored data on every read, although the
  builders accepted the request.\<close>

theorem decode_encode_request:
  assumes "request_wf parse r"
  shows "decode parse (encode r) = (if storable r then Inr r else Inl InvalidStoredData)"
  by (rule decode_encode_stored [OF assms])

theorem decode_encode_request_witness:
  "decode example_parser (encode example_request) = Inr example_request
   \<and> decode example_parser (encode (with_preference_overrides unstorable_overrides example_request))
     = Inl InvalidStoredData"
  using decode_encode_request [OF example_request_wf]
    decode_encode_request [OF with_preference_overrides_wf [OF example_request_wf],
      of unstorable_overrides]
  by (simp add: storable_def example_request_def with_preference_overrides_def
      unstorable_overrides_def override_height_ok_def)

section \<open>What a stored row can decode to\<close>

lemma playlist_range_new_wf: "playlist_range_new s e = Inr r \<Longrightarrow> playlist_wf r"
  by (auto simp: playlist_range_new_def playlist_wf_def Let_def split: if_splits option.splits)

lemma subtitle_options_new_wf: "subtitle_options_new l a = Inr s \<Longrightarrow> subtitles_wf s"
  by (auto simp: subtitle_options_new_def subtitles_wf_def Let_def split: if_splits)

lemma delivery_target_new_wf: "delivery_target_new b c t r = Inr x \<Longrightarrow> target_wf x"
  by (auto simp: delivery_target_new_def target_wf_def split: if_splits)

lemma decode_clip_wf: "decode_clip d = Inr c \<Longrightarrow> clip_wf c"
  by (auto simp: decode_clip_def dest: clip_range_newD)

lemma traverse_option_pred:
  "traverse_option f x = Inr y \<Longrightarrow> (\<And>a b. f a = Inr b \<Longrightarrow> P b) \<Longrightarrow> pred_option P y"
  by (cases x) (auto simp: res_bind_Inr_iff)

lemma traverse_list_pred:
  "traverse_list f xs = Inr ys \<Longrightarrow> (\<And>a b. f a = Inr b \<Longrightarrow> P b) \<Longrightarrow> list_all P ys"
  by (auto simp: list_all_iff dest: traverse_list_Inr_all)

lemma decode_params_wf:
  assumes "decode_params h d = Inr p" shows "params_wf p"
proof -
  from assms obtain base range cs ps subs where
    d: "download_params_new (if dp_max_height d = None then h else dp_max_height d) = Inr base"
    "traverse_option (\<lambda>r. map_err InvalidStoredData (playlist_range_new (pd_start r) (pd_end r)))
       (dp_playlist d) = Inr range"
    "traverse_list decode_clip (dp_clips d) = Inr cs"
    "with_clips cs (base\<lparr>video_codec := decode_video (dp_video_codec d),
       audio_codec := decode_audio (dp_audio_codec d), container := decode_container (dp_container d),
       engine := decode_engine (dp_engine d), playlist := range\<rparr>) = Inr ps"
    "traverse_option (\<lambda>s. subtitle_options_new (sd_language s) (sd_automatic s)) (dp_subtitles d)
       = Inr subs"
    "p = ps\<lparr>send_as_file := dp_send_as_file d, gallery_zip := dp_gallery_zip d,
       media_info := dp_media_info d, subtitles := subs\<rparr>"
    unfolding decode_params_def Let_def res_bind_Inr_iff map_err_Inr_iff by blast
  have "pred_option playlist_wf range"
    by (rule traverse_option_pred [OF d(2)]) (auto intro: playlist_range_new_wf)
  moreover have "pred_option subtitles_wf subs"
    by (rule traverse_option_pred [OF d(5)]) (auto intro: subtitle_options_new_wf)
  moreover have "list_all clip_wf cs"
    by (rule traverse_list_pred [OF d(3)]) (rule decode_clip_wf)
  ultimately show ?thesis
    using d(1,4,6) by (auto simp: params_wf_def with_clips_def download_params_new_def
        download_params_default_def split: if_splits)
qed

lemma decode_network_wf:
  assumes "decode_network d = Inr n" shows "network_wf n"
proof -
  from assms obtain c p where d: "traverse_option decode_cookie (nd_cookie d) = Inr c"
    "traverse_option decode_proxy (nd_proxy d) = Inr p" "n = \<lparr>cookie = c, proxy = p\<rparr>"
    by (auto simp: decode_network_def res_bind_Inr_iff)
  have "pred_option cookie_wf c"
    by (rule traverse_option_pred [OF d(1)])
      (auto simp: decode_cookie_def res_bind_Inr_iff
        intro: cookie_reference_new_wf credential_version_new_wf)
  moreover have "pred_option proxy_wf p"
    by (rule traverse_option_pred [OF d(2)])
      (auto simp: decode_proxy_def res_bind_Inr_iff
        intro: proxy_reference_new_wf credential_version_new_wf)
  ultimately show ?thesis by (simp add: network_wf_def d(3))
qed

lemma decode_overrides_storable:
  "decode_overrides d = Inr ov \<Longrightarrow> override_height_ok (o_max_height ov)"
  by (auto simp: decode_overrides_def split: if_splits)

text \<open>Whatever a stored row decodes to is a request the domain's constructors would accept, and
  writing it back stores a row that decodes to the same request, so a decoded request never
  needs to be validated again.\<close>

theorem decode_sound:
  assumes "reparses parse" and "decode parse d = Inr r"
  shows "request_wf parse r \<and> decode parse (encode r) = Inr r"
proof -
  from assms(2) obtain range ps r1 r2 r3 r4 n where
    d: "traverse_option decode_clip (rd_clip_range d) = Inr range"
    "decode_params (rd_max_height d) (rd_params d) = Inr ps"
    "download_request_new parse (rd_actor_id d) (rd_source_url d) (decode_mode (rd_media_mode d))
       range ps = Inr r1"
    "(case rd_target d of None \<Rightarrow> Inr r1
       | Some t \<Rightarrow> res_bind (decode_target t) (\<lambda>t. map_err InvalidStoredData (with_target t r1)))
       = Inr r2"
    "(case rd_preference_overrides d of None \<Rightarrow> Inr r2
       | Some ov \<Rightarrow> res_bind (decode_overrides ov) (\<lambda>ov. Inr (with_preference_overrides ov r2)))
       = Inr r3"
    "with_downloader_settings (rd_downloader_settings d) r3 = Inr r4"
    "decode_network (rd_network d) = Inr n"
    "with_network n (with_force_nsfw (rd_force_nsfw d) r4) = Inr r"
    unfolding decode_def res_bind_Inr_iff map_err_Inr_iff by blast
  have range: "pred_option clip_wf range"
    by (rule traverse_option_pred [OF d(1)]) (rule decode_clip_wf)
  have r1: "request_wf parse r1" "preference_overrides r1 = None"
    using download_request_new_wf [OF d(3) assms(1) decode_params_wf [OF d(2)] range] d(3)
    by (auto elim: download_request_newE)
  have r2: "request_wf parse r2" "preference_overrides r2 = None"
    using d(4) r1
    by (auto simp: res_bind_Inr_iff decode_target_def split: option.splits
        intro: with_target_wf delivery_target_new_wf)
      (auto simp: with_target_def split: if_splits)
  have r3: "request_wf parse r3" "storable r3"
    using d(5) r2
    by (auto simp: res_bind_Inr_iff with_preference_overrides_wf storable_def
        with_preference_overrides_def request_wf_def dest: decode_overrides_storable
        split: option.splits)
  have r4: "request_wf parse r4" "storable r4"
    using with_downloader_settings_wf [OF r3(1) d(6)] d(6) r3(2)
    by (auto simp: with_downloader_settings_def res_bind_Inr_iff storable_def split: option.splits)
  have r: "request_wf parse r" "storable r"
    using with_network_wf [OF with_force_nsfw_wf [OF r4(1)] decode_network_wf [OF d(7)] d(8)] d(8) r4(2)
    by (auto simp: with_network_def res_bind_Inr_iff storable_def with_force_nsfw_def)
  then show ?thesis by (simp add: decode_encode_request_ok)
qed

theorem decode_sound_witness:
  "request_wf example_parser example_request
   \<and> decode example_parser (encode example_request) = Inr example_request"
proof -
  have "decode example_parser (encode example_request) = Inr example_request"
    by (rule decode_encode_request_ok [OF example_request_wf])
      (simp add: storable_def example_request_def)
  from decode_sound [OF example_parser_reparses this] show ?thesis .
qed

section \<open>Errors of decoding\<close>

definition only_invalid :: "store_error + 'a \<Rightarrow> bool" where
  "only_invalid x \<longleftrightarrow> (\<forall>e. x = Inl e \<longrightarrow> e = InvalidStoredData)"

lemma only_invalid_Inr: "only_invalid (Inr a)"
  by (simp add: only_invalid_def)

lemma only_invalid_Inl: "only_invalid (Inl InvalidStoredData)"
  by (simp add: only_invalid_def)

lemma only_invalid_map_err: "only_invalid (map_err InvalidStoredData m)"
  by (cases m) (simp_all add: only_invalid_def)

lemma only_invalid_res_bind:
  "only_invalid x \<Longrightarrow> (\<And>a. only_invalid (f a)) \<Longrightarrow> only_invalid (res_bind x f)"
  by (cases x) (simp_all add: only_invalid_def)

lemma only_invalid_traverse_option:
  "(\<And>a. only_invalid (h a)) \<Longrightarrow> only_invalid (traverse_option h x)"
  by (cases x) (simp_all add: only_invalid_Inr only_invalid_res_bind)

lemmas only_invalid_intros =
  only_invalid_Inr only_invalid_Inl only_invalid_map_err only_invalid_res_bind
  only_invalid_traverse_option

lemma only_invalid_traverse_list:
  "(\<And>a. only_invalid (h a)) \<Longrightarrow> only_invalid (traverse_list h xs)"
  by (induction xs) (simp_all add: only_invalid_intros)

lemma decode_error:
  assumes "decode parse d = Inl x" shows "x = InvalidStoredData"
proof -
  have "only_invalid (decode parse d)"
    unfolding decode_def decode_params_def decode_network_def Let_def
    by (intro only_invalid_intros only_invalid_traverse_list)
      (auto simp: decode_clip_def decode_target_def decode_overrides_def decode_cookie_def
        decode_proxy_def Let_def intro!: only_invalid_intros split: option.splits)
  with assms show ?thesis by (simp add: only_invalid_def)
qed

end
