(* ===== verification/Json.thy ===== *)
theory Json
  imports Prelude
begin

text \<open>
  JSON values as \<open>serde_json::Value\<close> holds them, their compact text as \<open>serde_json::to_vec\<close> writes
  it, and the accessors the code uses. The text of a number that is not an integer is kept as it
  is: the code only compares it and measures its length. A string is its UTF-8 bytes.
\<close>

datatype json =
  JNull
| JBool bool
| JPosInt u64
| JNegInt i64
| JFloat string
| JString string
| JArray "json list"
| JObject "(string \<times> json) list"

section \<open>Text\<close>

definition hex_digit :: "nat \<Rightarrow> char" where
  "hex_digit n = (if n < 10 then char_of (48 + n) else char_of (87 + n))"

definition json_escape :: "char \<Rightarrow> string" where
  "json_escape c =
     (let b = byte c in
      if b = 34 then [CHR 0x5C, CHR 0x22] else if b = 92 then [CHR 0x5C, CHR 0x5C]
      else if b = 8 then [CHR 0x5C, CHR ''b''] else if b = 9 then [CHR 0x5C, CHR ''t'']
      else if b = 10 then [CHR 0x5C, CHR ''n''] else if b = 12 then [CHR 0x5C, CHR ''f'']
      else if b = 13 then [CHR 0x5C, CHR ''r'']
      else if b < 32 then [CHR 0x5C, CHR ''u'', CHR ''0'', CHR ''0'', hex_digit (b div 16), hex_digit (b mod 16)]
      else [c])"

definition json_string :: "string \<Rightarrow> string" where
  "json_string s = CHR 0x22 # concat (map json_escape s) @ [CHR 0x22]"

fun json_text :: "json \<Rightarrow> string"
  and json_items :: "json list \<Rightarrow> string"
  and json_fields :: "(string \<times> json) list \<Rightarrow> string" where
  "json_text JNull = ''null''"
| "json_text (JBool b) = (if b then ''true'' else ''false'')"
| "json_text (JPosInt n) = show_nat (unat n)"
| "json_text (JNegInt n) = CHR ''-'' # show_nat (nat (- sint n))"
| "json_text (JFloat t) = t"
| "json_text (JString s) = json_string s"
| "json_text (JArray xs) = ''['' @ json_items xs @ '']''"
| "json_text (JObject fs) = ''{'' @ json_fields fs @ ''}''"
| "json_items [] = []"
| "json_items [x] = json_text x"
| "json_items (x # y # xs) = json_text x @ '','' @ json_items (y # xs)"
| "json_fields [] = []"
| "json_fields [(k, v)] = json_string k @ '':'' @ json_text v"
| "json_fields ((k, v) # f # fs) = json_string k @ '':'' @ json_text v @ '','' @ json_fields (f # fs)"

section \<open>Accessors\<close>

fun as_array :: "json \<Rightarrow> json list option" where
  "as_array (JArray xs) = Some xs" | "as_array _ = None"

fun as_object :: "json \<Rightarrow> (string \<times> json) list option" where
  "as_object (JObject fs) = Some fs" | "as_object _ = None"

fun as_str :: "json \<Rightarrow> string option" where
  "as_str (JString s) = Some s" | "as_str _ = None"

fun as_u64 :: "json \<Rightarrow> u64 option" where
  "as_u64 (JPosInt n) = Some n" | "as_u64 _ = None"

fun as_bool :: "json \<Rightarrow> bool option" where
  "as_bool (JBool b) = Some b" | "as_bool _ = None"

text \<open>\<open>str::chars().count()\<close> of UTF-8 bytes: the bytes that do not continue a character.\<close>

definition chars_count :: "string \<Rightarrow> nat" where
  "chars_count s = length (filter (\<lambda>c. byte c < 128 \<or> 192 \<le> byte c) s)"

lemma chars_count_le: "chars_count s \<le> length s"
  by (simp add: chars_count_def)

end
