(* ===== verification/Tables.thy ===== *)
theory Tables
  imports Codec Json "HOL-Library.Product_Lexorder"
begin

text \<open>
  The durable state of the download queue: the rows of the tables of
  \<open>backend/crates/yoink-storage/migrations-turso\<close> with their \<open>CHECK\<close> constraints, and how a
  statement runs on them. An integer column holds an \<open>int\<close>, a timestamp microseconds, the
  \<open>request\<close> column the stored request. A statement that would break a \<open>CHECK\<close> or a key is an
  error of the database, and a transaction that ends with an error leaves the state it began
  with. \<open>env\<close> is what a call meets: the clock its statements read, in order, whether the
  database answers, and the identifiers \<open>Uuid::new_v4\<close> draws.
\<close>

section \<open>Rows\<close>

record op_row =
  op_id :: uuid
  op_actor :: int
  op_key :: string
  op_request :: request_data
  op_status :: operation_status
  op_attempt :: int
  op_max_attempts :: int
  op_cancel_requested :: bool
  op_worker :: "string option"
  op_token :: "uuid option"
  op_expires :: "int option"
  op_created_at :: int
  op_updated_at :: int
  op_available_at :: int
  op_retry_delay :: int
  op_message_id :: "int option"
  op_delivery_started_at :: "int option"
  op_progress_percent :: "int option"
  op_progress_stage :: "progress_stage option"
  op_planned :: "int option"
  op_delivered :: int
  op_cache_bypassed :: bool
  op_cache_key :: "string option"
  op_content_failure :: "string option"
  op_failure_code :: "string option"

datatype unit_status = Sending | Sent | Rejected | UnknownSend

record unit_row =
  u_op :: uuid
  u_attempt :: int
  u_ordinal :: int
  u_count :: int
  u_status :: unit_status
  u_messages :: "int list option"
  u_updated_at :: int

record user_row =
  usr_id :: int
  usr_role :: string
  usr_ban_until :: "int option"

record rate_row =
  rl_user :: int
  rl_window :: string
  rl_count :: int
  rl_reset_at :: int

record deferred_row =
  df_actor :: int
  df_bot :: int
  df_chat :: int
  df_message :: int
  df_mode :: "string option"

record notice_row =
  n_op :: uuid
  n_actor :: int
  n_bot :: int
  n_chat :: int
  n_message :: int
  n_language :: string
  n_last_text :: "string option"
  n_finished :: bool
  n_next_attempt_at :: int

record cache_row =
  c_actor :: int
  c_bot :: int
  c_key :: string
  c_revision :: uuid
  c_media :: json
  c_expires_at :: int

record db =
  ops :: "op_row list"
  units :: "unit_row list"
  users :: "user_row list"
  rate_limits :: "rate_row list"
  bot_settings :: "(string \<times> string option) list"
  nsfw_marks :: "int list"
  deferred :: "deferred_row list"
  notices :: "notice_row list"
  media_intents :: "(uuid \<times> request_data) list"
  media_cache :: "cache_row list"
  clear_marks :: "((int \<times> int) \<times> int) list"

section \<open>Constraints\<close>

fun active :: "operation_status \<Rightarrow> bool" where
  "active Running = True" | "active Delivering = True" | "active _ = False"

fun pending :: "operation_status \<Rightarrow> bool" where
  "pending Queued = True" | "pending Running = True" | "pending Delivering = True"
| "pending _ = False"

definition leased :: "op_row \<Rightarrow> bool" where
  "leased r \<longleftrightarrow> op_worker r \<noteq> None \<and> op_token r \<noteq> None \<and> op_expires r \<noteq> None"

definition unleased :: "op_row \<Rightarrow> bool" where
  "unleased r \<longleftrightarrow> op_worker r = None \<and> op_token r = None \<and> op_expires r = None"

definition failure_codes :: "string list" where
  "failure_codes =
     [''unsupported_source'', ''source_unavailable'', ''rate_limited'', ''invalid_media'',
      ''processing_failed'', ''resource_limit'', ''cookie_required'', ''geo_blocked'',
      ''age_restricted'', ''private_content'', ''live_stream'', ''no_media'',
      ''media_timeout'', ''network_denied'', ''content_unavailable'', ''source_blocked'']"

definition cache_key_check :: "string \<Rightarrow> bool" where
  "cache_key_check k \<longleftrightarrow>
     length k = 67 \<and> take 3 k = ''v1:''
     \<and> list_all (\<lambda>c. is_ascii_digit c \<or> (97 \<le> byte c \<and> byte c \<le> 102)) (drop 3 k)"

definition op_checks :: "op_row \<Rightarrow> bool" where
  "op_checks r \<longleftrightarrow>
     0 < op_actor r \<and> 1 \<le> length (op_key r) \<and> length (op_key r) \<le> 128
     \<and> 0 \<le> op_attempt r \<and> 1 \<le> op_max_attempts r \<and> op_max_attempts r \<le> 101
     \<and> 0 \<le> op_retry_delay r \<and> op_retry_delay r \<le> 300
     \<and> pred_option (\<lambda>p. 0 \<le> p \<and> p \<le> 100) (op_progress_percent r)
     \<and> pred_option (\<lambda>p. 1 \<le> p \<and> p \<le> 100) (op_planned r)
     \<and> 0 \<le> op_delivered r \<and> op_delivered r \<le> 100
     \<and> pred_option cache_key_check (op_cache_key r)
     \<and> pred_option (\<lambda>c. c \<in> {''nsfw_blocked'', ''nsfw_policy_unavailable''}) (op_content_failure r)
     \<and> pred_option (\<lambda>c. c \<in> set failure_codes) (op_failure_code r)
     \<and> (active (op_status r) \<longrightarrow> leased r) \<and> (\<not> active (op_status r) \<longrightarrow> unleased r)
     \<and> (op_status r = Succeeded \<longrightarrow> pred_option (\<lambda>m. 0 < m) (op_message_id r))
     \<and> (op_status r \<noteq> Succeeded \<longrightarrow> op_message_id r = None)"

definition unit_checks :: "unit_row \<Rightarrow> bool" where
  "unit_checks u \<longleftrightarrow>
     0 < u_attempt u \<and> 0 \<le> u_ordinal u \<and> u_ordinal u \<le> 99 \<and> 1 \<le> u_count u \<and> u_count u \<le> 10
     \<and> (if u_status u = Sent
        then (case u_messages u of None \<Rightarrow> False | Some ms \<Rightarrow> int (length ms) = u_count u)
        else u_messages u = None)"

definition unit_key :: "unit_row \<Rightarrow> uuid \<times> int \<times> int" where
  "unit_key u = (u_op u, u_attempt u, u_ordinal u)"

section \<open>Statements and transactions\<close>

record env =
  clock :: "nat \<Rightarrow> int"
  up :: bool
  fresh_id :: uuid

type_synonym 'a outcome = "(store_error + 'a) \<times> db"

definition update_ops ::
  "(op_row \<Rightarrow> bool) \<Rightarrow> (op_row \<Rightarrow> op_row) \<Rightarrow> db \<Rightarrow> store_error + nat \<times> db" where
  "update_ops p f s =
     (if list_all (\<lambda>r. p r \<longrightarrow> op_checks (f r)) (ops s)
      then Inr (count_where p (ops s), s\<lparr>ops := update_where p f (ops s)\<rparr>)
      else Inl Database)"

definition update_units ::
  "(unit_row \<Rightarrow> bool) \<Rightarrow> (unit_row \<Rightarrow> unit_row) \<Rightarrow> db \<Rightarrow> store_error + nat \<times> db" where
  "update_units p f s =
     (if list_all (\<lambda>u. p u \<longrightarrow> unit_checks (f u)) (units s)
      then Inr (count_where p (units s), s\<lparr>units := update_where p f (units s)\<rparr>)
      else Inl Database)"

text \<open>A call that is one statement on the connection, and a call that is a transaction.\<close>

definition execute ::
  "env \<Rightarrow> (db \<Rightarrow> store_error + nat \<times> db) \<Rightarrow> db \<Rightarrow> nat outcome" where
  "execute e stmt s =
     (if \<not> up e then (Inl Database, s)
      else (case stmt s of Inl x \<Rightarrow> (Inl x, s) | Inr (n, s') \<Rightarrow> (Inr n, s')))"

definition transaction ::
  "env \<Rightarrow> ('s \<Rightarrow> store_error + 'a \<times> 's) \<Rightarrow> 's \<Rightarrow> (store_error + 'a) \<times> 's" where
  "transaction e body s =
     (if \<not> up e then (Inl Database, s)
      else (case body s of Inl x \<Rightarrow> (Inl x, s) | Inr (a, s') \<Rightarrow> (Inr a, s')))"

text \<open>\<open>?\<close> before a statement, and the two ways the code reads \<open>rows_affected\<close>.\<close>

definition checked ::
  "store_error + unit \<Rightarrow> ('s \<Rightarrow> (store_error + 'a) \<times> 's) \<Rightarrow> 's \<Rightarrow> (store_error + 'a) \<times> 's" where
  "checked v f s = (case v of Inl x \<Rightarrow> (Inl x, s) | Inr _ \<Rightarrow> f s)"

definition or_stale :: "nat outcome \<Rightarrow> unit outcome" where
  "or_stale o' =
     (case o' of (Inl x, s) \<Rightarrow> (Inl x, s)
      | (Inr n, s) \<Rightarrow> if n = 0 then (Inl NotFoundOrStale, s) else (Inr (), s))"

definition is_one :: "nat outcome \<Rightarrow> bool outcome" where
  "is_one o' = (case o' of (Inl x, s) \<Rightarrow> (Inl x, s) | (Inr n, s) \<Rightarrow> (Inr (n = 1), s))"

definition is_some_row :: "nat outcome \<Rightarrow> bool outcome" where
  "is_some_row o' = (case o' of (Inl x, s) \<Rightarrow> (Inl x, s) | (Inr n, s) \<Rightarrow> (Inr (0 < n), s))"

lemma update_ops_Inr:
  "update_ops p f s = Inr (n, s') \<longleftrightarrow>
     (\<forall>r \<in> set (ops s). p r \<longrightarrow> op_checks (f r)) \<and> n = count_where p (ops s)
     \<and> s' = s\<lparr>ops := update_where p f (ops s)\<rparr>"
  by (auto simp: update_ops_def list_all_iff)

lemma update_units_Inr:
  "update_units p f s = Inr (n, s') \<longleftrightarrow>
     (\<forall>u \<in> set (units s). p u \<longrightarrow> unit_checks (f u)) \<and> n = count_where p (units s)
     \<and> s' = s\<lparr>units := update_where p f (units s)\<rparr>"
  by (auto simp: update_units_def list_all_iff)

lemma update_ops_Inl: "update_ops p f s = Inl x \<Longrightarrow> x = Database"
  by (auto simp: update_ops_def split: if_splits)

lemma update_units_Inl: "update_units p f s = Inl x \<Longrightarrow> x = Database"
  by (auto simp: update_units_def split: if_splits)

lemma transaction_Inr:
  "transaction e body s = (Inr a, t) \<longleftrightarrow> up e \<and> body s = Inr (a, t)"
  by (cases "body s") (auto simp: transaction_def)

lemma checked_Inr: "checked v f s = (Inr a, t) \<longleftrightarrow> v = Inr () \<and> f s = (Inr a, t)"
  by (cases v) (auto simp: checked_def)

end
