(* ===== verification/Quota.thy ===== *)
theory Quota
  imports Tables
begin

text \<open>
  The anchored quotas of \<open>backend/crates/yoink-storage/src/quota.rs\<close>: a counter per actor and
  window in \<open>rate_limits\<close>, charged inside the transaction of a new admission. Times are
  microseconds of type \<open>i64\<close>; the overflow checks of the code are the bounds on \<open>int\<close>.
\<close>

definition quota_windows :: "quota_limits \<Rightarrow> (string \<times> int \<times> u32) list" where
  "quota_windows q =
     [(''minute'', 60, limit_minute q), (''hour'', 3600, limit_hour q), (''day'', 86400, limit_day q)]"

definition i64_ok :: "int \<Rightarrow> bool" where
  "i64_ok n \<longleftrightarrow> - (2 ^ 63) \<le> n \<and> n < 2 ^ 63"

definition checked_i64 :: "store_error \<Rightarrow> int \<Rightarrow> store_error + int" where
  "checked_i64 err n = (if i64_ok n then Inr n else Inl err)"

definition sql_quota_get :: "int \<Rightarrow> string \<Rightarrow> db \<Rightarrow> rate_row option" where
  "sql_quota_get actor window s =
     find_row (\<lambda>r. rl_user r = actor \<and> rl_window r = window) (rate_limits s)"

definition sql_quota_put :: "int \<Rightarrow> string \<Rightarrow> int \<Rightarrow> int \<Rightarrow> db \<Rightarrow> db" where
  "sql_quota_put actor window count reset_at s =
     (if sql_quota_get actor window s = None
      then s\<lparr>rate_limits := rate_limits s @
             [\<lparr>rl_user = actor, rl_window = window, rl_count = count, rl_reset_at = reset_at\<rparr>]\<rparr>
      else s\<lparr>rate_limits := update_where (\<lambda>r. rl_user r = actor \<and> rl_window r = window)
             (\<lambda>r. r\<lparr>rl_count := count, rl_reset_at := reset_at\<rparr>) (rate_limits s)\<rparr>)"

text \<open>One turn of the first loop: the counter that holds now, and the wait it asks for.\<close>

definition read_window ::
  "int \<Rightarrow> int \<Rightarrow> string \<Rightarrow> int \<Rightarrow> db \<Rightarrow> store_error + int \<times> int" where
  "read_window actor now window duration s =
     (case sql_quota_get actor window s of
        Some r \<Rightarrow>
          if rl_count r < 0 then Inl InvalidStoredData
          else if rl_reset_at r > now then Inr (rl_count r, rl_reset_at r)
          else res_bind (checked_i64 InvalidInput (now + duration * 1000000)) (\<lambda>t. Inr (0, t))
      | None \<Rightarrow> res_bind (checked_i64 InvalidInput (now + duration * 1000000)) (\<lambda>t. Inr (0, t)))"

definition div_ceil :: "int \<Rightarrow> int \<Rightarrow> int" where
  "div_ceil a b = (a + b - 1) div b"

definition window_wait :: "int \<Rightarrow> int \<Rightarrow> u32 \<Rightarrow> int \<Rightarrow> store_error + int" where
  "window_wait now count limit reset_at =
     (if count \<ge> uint limit
      then res_bind (checked_i64 InvalidStoredData (reset_at - now)) (\<lambda>d. Inr (div_ceil d 1000000))
      else Inr 0)"

fun read_windows ::
  "int \<Rightarrow> int \<Rightarrow> (string \<times> int \<times> u32) list \<Rightarrow> int \<Rightarrow> (string \<times> int \<times> int) list \<Rightarrow> db
    \<Rightarrow> store_error + int \<times> (string \<times> int \<times> int) list" where
  "read_windows actor now [] retry counters s = Inr (retry, counters)"
| "read_windows actor now ((window, duration, limit) # ws) retry counters s =
     res_bind (read_window actor now window duration s) (\<lambda>(count, reset_at).
     res_bind (window_wait now count limit reset_at) (\<lambda>wait.
       read_windows actor now ws (max retry wait) (counters @ [(window, count, reset_at)]) s))"

fun put_windows :: "int \<Rightarrow> (string \<times> int \<times> int) list \<Rightarrow> db \<Rightarrow> db" where
  "put_windows actor [] s = s"
| "put_windows actor ((window, count, reset_at) # ws) s =
     put_windows actor ws (sql_quota_put actor window (count + 1) reset_at s)"

definition charge ::
  "u64 \<Rightarrow> quota_limits \<Rightarrow> i64 option \<Rightarrow> int \<Rightarrow> db \<Rightarrow> store_error + db" where
  "charge actor limits owner now s =
     res_bind (quota_limits_validate limits) (\<lambda>_.
       if owner = Some actor then Inr s
       else res_bind (read_windows (sint actor) now (quota_windows limits) 0 [] s) (\<lambda>(retry, counters).
         if retry \<noteq> 0 then Inl (QuotaExceeded (nat retry))
         else Inr (put_windows (sint actor) counters s)))"

section \<open>What a charge does\<close>

text \<open>The counter of a window as it holds at a time, and whether the window is exhausted.\<close>

definition window_count :: "int \<Rightarrow> int \<Rightarrow> string \<Rightarrow> db \<Rightarrow> int" where
  "window_count actor now window s =
     (case sql_quota_get actor window s of
        Some r \<Rightarrow> if rl_reset_at r > now then rl_count r else 0 | None \<Rightarrow> 0)"

definition window_reset :: "int \<Rightarrow> int \<Rightarrow> string \<Rightarrow> int \<Rightarrow> db \<Rightarrow> int" where
  "window_reset actor now window duration s =
     (case sql_quota_get actor window s of
        Some r \<Rightarrow> if rl_reset_at r > now then rl_reset_at r else now + duration * 1000000
      | None \<Rightarrow> now + duration * 1000000)"

definition exhausted :: "int \<Rightarrow> int \<Rightarrow> db \<Rightarrow> string \<times> int \<times> u32 \<Rightarrow> bool" where
  "exhausted actor now s w \<longleftrightarrow>
     (case w of (window, duration, limit) \<Rightarrow> window_count actor now window s \<ge> uint limit)"

text \<open>Stored counters and a clock for which no arithmetic of the code overflows.\<close>

definition quota_sane :: "int \<Rightarrow> int \<Rightarrow> db \<Rightarrow> bool" where
  "quota_sane actor now s \<longleftrightarrow>
     0 \<le> now \<and> now + 86400 * 1000000 < 2 ^ 63
     \<and> list_all (\<lambda>r. rl_user r = actor \<longrightarrow> 0 \<le> rl_count r \<and> rl_reset_at r < 2 ^ 63) (rate_limits s)"

lemma quota_get_mem: "sql_quota_get a w s = Some r \<Longrightarrow> r \<in> set (rate_limits s) \<and> rl_user r = a"
  unfolding sql_quota_get_def using find_row_Some by force

lemma read_window_sane:
  assumes "quota_sane actor now s" and "0 \<le> d" and "d \<le> 86400"
  shows "read_window actor now window d s
    = Inr (window_count actor now window s, window_reset actor now window d s)"
proof (cases "sql_quota_get actor window s")
  case None
  with assms show ?thesis
    by (simp add: read_window_def window_count_def window_reset_def checked_i64_def i64_ok_def
        quota_sane_def)
next
  case (Some r)
  then have "0 \<le> rl_count r"
    using assms(1) quota_get_mem [OF Some] by (auto simp: quota_sane_def list_all_iff)
  with Some assms show ?thesis
    by (simp add: read_window_def window_count_def window_reset_def checked_i64_def i64_ok_def
        quota_sane_def)
qed

lemma window_reset_bounds:
  assumes "quota_sane actor now s" and "0 < d" and "d \<le> 86400"
  shows "now < window_reset actor now window d s" and "window_reset actor now window d s < 2 ^ 63"
proof -
  show "now < window_reset actor now window d s"
    using assms by (cases "sql_quota_get actor window s") (auto simp: window_reset_def)
  show "window_reset actor now window d s < 2 ^ 63"
    using assms quota_get_mem [of actor window s]
    by (cases "sql_quota_get actor window s")
      (auto simp: window_reset_def quota_sane_def list_all_iff)
qed

definition wait_of :: "int \<Rightarrow> int \<Rightarrow> db \<Rightarrow> string \<times> int \<times> u32 \<Rightarrow> int" where
  "wait_of actor now s w =
     (case w of (window, duration, limit) \<Rightarrow>
        if exhausted actor now s w
        then div_ceil (window_reset actor now window duration s - now) 1000000 else 0)"

definition counter_of :: "int \<Rightarrow> int \<Rightarrow> db \<Rightarrow> string \<times> int \<times> u32 \<Rightarrow> string \<times> int \<times> int" where
  "counter_of actor now s w =
     (case w of (window, duration, limit) \<Rightarrow>
        (window, window_count actor now window s, window_reset actor now window duration s))"

lemma read_windows_sane:
  assumes "quota_sane actor now s" and "\<forall>(w, d, l) \<in> set ws. 0 < d \<and> d \<le> 86400"
  shows "read_windows actor now ws retry counters s =
    Inr (foldl (\<lambda>m w. max m (wait_of actor now s w)) retry ws,
      counters @ map (counter_of actor now s) ws)"
  using assms(2)
proof (induction ws arbitrary: retry counters)
  case (Cons x ws)
  obtain w d l where x: "x = (w, d, l)" by (cases x)
  with Cons.prems have d: "0 < d" "d \<le> 86400" by auto
  have "window_wait now (window_count actor now w s) l (window_reset actor now w d s)
      = Inr (wait_of actor now s x)"
    using window_reset_bounds [OF assms(1) d, of w] assms(1)
    by (simp add: window_wait_def wait_of_def x exhausted_def checked_i64_def i64_ok_def quota_sane_def)
  then show ?case
    using Cons d by (simp add: x read_window_sane [OF assms(1)] counter_of_def)
qed simp

lemma quota_windows_durations: "\<forall>(w, d, l) \<in> set (quota_windows q). 0 < d \<and> d \<le> 86400"
  by (simp add: quota_windows_def)

definition quota_wait :: "int \<Rightarrow> int \<Rightarrow> quota_limits \<Rightarrow> db \<Rightarrow> int" where
  "quota_wait actor now q s =
     foldl (\<lambda>m w. max m (wait_of actor now s w)) 0 (quota_windows q)"

lemma charge_sane:
  assumes "quota_sane (sint actor) now s" and "quota_limits_validate q = Inr ()"
    and "owner \<noteq> Some actor"
  shows "charge actor q owner now s =
    (if quota_wait (sint actor) now q s \<noteq> 0
     then Inl (QuotaExceeded (nat (quota_wait (sint actor) now q s)))
     else Inr (put_windows (sint actor) (map (counter_of (sint actor) now s) (quota_windows q)) s))"
  using assms by (simp add: charge_def quota_wait_def
      read_windows_sane [OF assms(1) quota_windows_durations])

lemma div_ceil_le_iff: "0 < b \<Longrightarrow> div_ceil a b \<le> n \<longleftrightarrow> a \<le> n * b"
proof -
  assume b: "0 < b"
  have "(a + b - 1) div b \<le> n \<longleftrightarrow> a \<le> n * b"
  proof
    assume "(a + b - 1) div b \<le> n"
    then have "b * ((a + b - 1) div b) \<le> b * n" using b by simp
    moreover have "a + b - 1 = b * ((a + b - 1) div b) + (a + b - 1) mod b" by simp
    moreover have "(a + b - 1) mod b < b" using b by simp
    ultimately have "a \<le> b * n" by linarith
    then show "a \<le> n * b" by (simp add: mult.commute)
  next
    assume "a \<le> n * b"
    then have "(a + b - 1) div b \<le> (n * b + (b - 1)) div b" using b by (intro zdiv_mono1) simp_all
    also have "\<dots> = n" using b by (simp add: div_pos_pos_trivial)
    finally show "(a + b - 1) div b \<le> n" .
  qed
  then show ?thesis by (simp add: div_ceil_def)
qed

section \<open>The wait the code reports\<close>

lemma foldl_max_le: "foldl (\<lambda>m w. max m (f w)) (a :: int) ws \<le> n \<longleftrightarrow> a \<le> n \<and> (\<forall>w \<in> set ws. f w \<le> n)"
  by (induction ws arbitrary: a) auto

lemma quota_wait_le:
  "quota_wait actor now q s \<le> n \<longleftrightarrow>
    0 \<le> n \<and> (\<forall>w \<in> set (quota_windows q). wait_of actor now s w \<le> n)"
  by (simp add: quota_wait_def foldl_max_le)

lemma quota_wait_nonneg: "0 \<le> quota_wait actor now q s"
  using quota_wait_le [of actor now q s "quota_wait actor now q s"] by simp

lemma wait_of_le:
  assumes "quota_sane actor now s" and "w \<in> set (quota_windows q)" and "0 \<le> n"
  shows "wait_of actor now s w \<le> n \<longleftrightarrow>
    (exhausted actor now s w \<longrightarrow>
      window_reset actor now (fst w) (fst (snd w)) s \<le> now + n * 1000000)"
  using assms(3) by (cases w) (auto simp: wait_of_def div_ceil_le_iff)

lemma quota_limits_pos:
  "quota_limits_validate q = Inr () \<Longrightarrow> (w, d, l) \<in> set (quota_windows q) \<Longrightarrow> 1 \<le> uint l"
  by (auto simp: quota_limits_validate_def quota_windows_def word_le_def split: if_splits)

text \<open>As time passes a window stays exhausted until its reset, and is free from then on.\<close>

lemma exhausted_later:
  assumes "quota_limits_validate q = Inr ()" and "w \<in> set (quota_windows q)" and "now \<le> now'"
  shows "exhausted actor now' s w \<longleftrightarrow>
    exhausted actor now s w \<and> now' < window_reset actor now (fst w) (fst (snd w)) s"
proof -
  obtain a d l where w: "w = (a, d, l)" by (cases w)
  have "1 \<le> uint l" using quota_limits_pos [OF assms(1)] assms(2) w by blast
  then show ?thesis
    using assms(3) by (cases "sql_quota_get actor a s")
      (auto simp: w exhausted_def window_count_def window_reset_def)
qed

lemma quota_wait_0_iff:
  assumes "quota_sane actor now s"
  shows "quota_wait actor now q s = 0 \<longleftrightarrow> (\<forall>w \<in> set (quota_windows q). \<not> exhausted actor now s w)"
proof -
  have "quota_wait actor now q s = 0 \<longleftrightarrow> quota_wait actor now q s \<le> 0"
    using quota_wait_nonneg [of actor now q s] by simp
  also have "\<dots> \<longleftrightarrow> (\<forall>w \<in> set (quota_windows q). \<not> exhausted actor now s w)"
  proof -
    have "wait_of actor now s w \<le> 0 \<longleftrightarrow> \<not> exhausted actor now s w"
      if m: "w \<in> set (quota_windows q)" for w
    proof -
      obtain a d l where w: "w = (a, d, l)" by (cases w)
      with m have "0 < d" "d \<le> 86400" using quota_windows_durations [of q] by auto
      from window_reset_bounds(1) [OF assms this, of a] show ?thesis
        using wait_of_le [OF assms m, of 0] by (auto simp: w)
    qed
    then show ?thesis by (simp add: quota_wait_le)
  qed
  finally show ?thesis .
qed

text \<open>The wait that a refused charge reports is exact to the second: an admission repeated that
  many seconds later is charged, and one repeated more than a second earlier than that, at any
  time since the refusal, is refused again.\<close>

theorem quota_retry_exact:
  assumes "charge actor q owner now s = Inl (QuotaExceeded n)"
    and "quota_sane (sint actor) now s" and "now \<le> later"
    and "quota_sane (sint actor) later s"
  shows "(now + int n * 1000000 \<le> later \<longrightarrow> (\<exists>s'. charge actor q owner later s = Inr s'))
    \<and> (later \<le> now + (int n - 1) * 1000000 \<longrightarrow>
        (\<exists>m. charge actor q owner later s = Inl (QuotaExceeded m)))"
proof -
  let ?a = "sint actor"
  have v: "quota_limits_validate q = Inr ()" and o: "owner \<noteq> Some actor"
  proof -
    have "quota_limits_validate q = Inl InvalidInput \<or> quota_limits_validate q = Inr ()"
      by (simp add: quota_limits_validate_def)
    with assms(1) show "quota_limits_validate q = Inr ()" "owner \<noteq> Some actor"
      by (auto simp: charge_def)
  qed
  let ?w = "quota_wait ?a now q s"
  have n: "?w = int n" "?w \<noteq> 0"
    using assms(1) charge_sane [OF assms(2) v o] quota_wait_nonneg [of ?a now q s]
    by (auto split: if_splits)
  have later: "charge actor q owner later s =
    (if (\<forall>w \<in> set (quota_windows q). \<not> exhausted ?a later s w)
     then Inr (put_windows ?a (map (counter_of ?a later s) (quota_windows q)) s)
     else Inl (QuotaExceeded (nat (quota_wait ?a later q s))))"
    unfolding charge_sane [OF assms(4) v o] by (simp add: quota_wait_0_iff [OF assms(4)])
  have "\<not> exhausted ?a later s w" if w: "w \<in> set (quota_windows q)" "now + int n * 1000000 \<le> later" for w
  proof -
    have "wait_of ?a now s w \<le> int n" using quota_wait_le [of ?a now q s "int n"] n w by simp
    then show ?thesis
      using wait_of_le [OF assms(2) w(1), of "int n"] exhausted_later [OF v w(1) assms(3)] w(2) by auto
  qed
  moreover have "\<exists>w \<in> set (quota_windows q). exhausted ?a later s w"
    if l: "later \<le> now + (int n - 1) * 1000000"
  proof -
    have pos: "0 \<le> int n - 1" using n by simp
    have "\<not> ?w \<le> int n - 1" using n by simp
    then obtain w where w: "w \<in> set (quota_windows q)" "\<not> wait_of ?a now s w \<le> int n - 1"
      using pos unfolding quota_wait_le by blast
    then show ?thesis
      using wait_of_le [OF assms(2) w(1) pos] exhausted_later [OF v w(1) assms(3)] l by fastforce
  qed
  ultimately show ?thesis using later by auto
qed

definition spent_db :: db where
  "spent_db =
     \<lparr>ops = [], units = [], users = [],
      rate_limits = [\<lparr>rl_user = 42, rl_window = ''minute'', rl_count = 5, rl_reset_at = 60000000\<rparr>],
      bot_settings = [], nsfw_marks = [], deferred = [], notices = [], media_intents = [],
      media_cache = [], clear_marks = []\<rparr>"

theorem quota_retry_exact_witness:
  "charge 42 quota_limits_default None 30500000 spent_db = Inl (QuotaExceeded 30)
   \<and> (\<exists>s'. charge 42 quota_limits_default None 60500000 spent_db = Inr s')"
proof -
  have sane: "quota_sane (sint (42 :: u64)) t spent_db" if "0 \<le> t" "t \<le> 100000000" for t
    using that by (simp add: quota_sane_def spent_db_def)
  have now: "charge 42 quota_limits_default None 30500000 spent_db = Inl (QuotaExceeded 30)"
    by (simp add: charge_def quota_limits_validate_def quota_limits_default_def quota_windows_def
        read_window_def sql_quota_get_def find_row_def spent_db_def checked_i64_def i64_ok_def
        window_wait_def div_ceil_def)
  from quota_retry_exact [OF this sane _ sane, of 60500000] now show ?thesis by simp
qed

section \<open>The counters after a charge\<close>

text \<open>The table, by actor and window, with the columns the code writes.\<close>

definition quota_lookup :: "db \<Rightarrow> int \<times> string \<Rightarrow> (int \<times> int) option" where
  "quota_lookup s k = map_option (\<lambda>r. (rl_count r, rl_reset_at r)) (sql_quota_get (fst k) (snd k) s)"

definition quota_upsert :: "int \<times> string \<Rightarrow> int \<times> int \<Rightarrow> db \<Rightarrow> db" where
  "quota_upsert k v s = sql_quota_put (fst k) (snd k) (fst v) (snd v) s"

lemma find_row_update_other:
  "(\<And>r. q r \<Longrightarrow> \<not> p r \<and> \<not> p (f r)) \<Longrightarrow> find_row p (update_where q f t) = find_row p t"
  by (simp add: find_row_def filter_update_where_other)

lemma find_row_update_same:
  "(\<And>r. p r \<Longrightarrow> p (f r)) \<Longrightarrow> find_row p (update_where p f t) = map_option f (find_row p t)"
proof -
  assume f: "\<And>r. p r \<Longrightarrow> p (f r)"
  have "filter p (update_where p f t) = map f (filter p t)"
    using f by (induction t) auto
  then show ?thesis by (simp add: find_row_def split: list.splits)
qed

interpretation quota_table: keyed_table quota_lookup quota_upsert
proof
  fix s :: db and k k' :: "int \<times> string" and v :: "int \<times> int"
  show "quota_lookup (quota_upsert k v s) k = Some v"
    by (cases "sql_quota_get (fst k) (snd k) s")
      (simp_all add: quota_lookup_def quota_upsert_def sql_quota_put_def sql_quota_get_def
        find_row_append find_row_update_same, simp add: find_row_def)
  assume "k' \<noteq> k"
  then have "\<not> (fst k' = fst k \<and> snd k' = snd k)" by (auto simp: prod_eq_iff)
  then show "quota_lookup (quota_upsert k v s) k' = quota_lookup s k'"
  proof (cases "sql_quota_get (fst k) (snd k) s")
    case None
    then show ?thesis
      using \<open>\<not> (fst k' = fst k \<and> snd k' = snd k)\<close>
      by (auto simp: quota_lookup_def quota_upsert_def sql_quota_put_def sql_quota_get_def
          find_row_append split: option.splits) (auto simp: find_row_def)
  next
    case (Some r)
    have "sql_quota_get (fst k') (snd k') (quota_upsert k v s) = sql_quota_get (fst k') (snd k') s"
      unfolding quota_upsert_def sql_quota_put_def sql_quota_get_def
      using Some \<open>\<not> (fst k' = fst k \<and> snd k' = snd k)\<close>
      by (simp add: sql_quota_get_def) (rule find_row_update_other, auto)
    then show ?thesis by (simp add: quota_lookup_def)
  qed
qed

lemma put_windows_Cons:
  "put_windows a ((w, c, t) # ws) s = put_windows a ws (quota_upsert (a, w) (c + 1, t) s)"
  by (simp add: quota_upsert_def)

lemma put_windows_other:
  "w \<notin> fst ` set ws \<or> a' \<noteq> a \<Longrightarrow> quota_lookup (put_windows a ws s) (a', w) = quota_lookup s (a', w)"
proof (induction ws arbitrary: s)
  case (Cons x ws)
  obtain v c t where x: "x = (v, c, t)" by (cases x)
  have "quota_lookup (put_windows a ws (quota_upsert (a, v) (c + 1, t) s)) (a', w)
      = quota_lookup (quota_upsert (a, v) (c + 1, t) s) (a', w)"
    using Cons.prems by (intro Cons.IH) auto
  also have "\<dots> = quota_lookup s (a', w)"
    using Cons.prems x by (intro quota_table.lookup_upsert_other) auto
  finally show ?case by (simp add: x quota_upsert_def)
qed simp

lemma put_windows_lookup:
  "distinct (map fst ws) \<Longrightarrow> (w, c, t) \<in> set ws \<Longrightarrow>
    quota_lookup (put_windows a ws s) (a, w) = Some (c + 1, t)"
proof (induction ws arbitrary: s)
  case (Cons x ws)
  obtain v d u where x: "x = (v, d, u)" by (cases x)
  show ?case
  proof (cases "(w, c, t) = x")
    case True
    then have "w \<notin> fst ` set ws" using Cons.prems by (force simp: x)
    from put_windows_other [of w ws a a, OF disjI1, OF this] show ?thesis
      using True by (simp only: x put_windows_Cons quota_table.lookup_upsert) (simp add: quota_table.lookup_upsert)
  next
    case False
    then have "(w, c, t) \<in> set ws" using Cons.prems(2) by auto
    with Cons.IH Cons.prems(1) show ?thesis by (simp add: x)
  qed
qed simp

text \<open>A charge that succeeds adds one to the counter of each of the three windows, starts the
  windows that had ended anew at the time of the charge and leaves the end of the others where
  it was; after it no counter exceeds its limit, and no other actor's counter has changed.\<close>

theorem charge_counts:
  assumes "charge actor q owner now s = Inr s'" and "owner \<noteq> Some actor"
    and "quota_sane (sint actor) now s"
  shows "(\<forall>(w, d, l) \<in> set (quota_windows q).
      quota_lookup s' (sint actor, w) =
        Some (window_count (sint actor) now w s + 1, window_reset (sint actor) now w d s)
      \<and> window_count (sint actor) now w s + 1 \<le> uint l)
    \<and> (\<forall>a w. a \<noteq> sint actor \<longrightarrow> quota_lookup s' (a, w) = quota_lookup s (a, w))"
proof -
  let ?a = "sint actor"
  let ?ws = "map (counter_of ?a now s) (quota_windows q)"
  have v: "quota_limits_validate q = Inr ()" using assms(1) by (auto simp: charge_def res_bind_Inr_iff)
  note ch = charge_sane [OF assms(3) v assms(2)] assms(1)
  have w0: "quota_wait ?a now q s = 0" and s': "s' = put_windows ?a ?ws s"
    using ch by (auto split: if_splits)
  have ex: "\<not> exhausted ?a now s w" if "w \<in> set (quota_windows q)" for w
    using w0 that by (simp add: quota_wait_0_iff [OF assms(3)])
  have d: "distinct (map fst ?ws)" by (simp add: quota_windows_def counter_of_def)
  have "quota_lookup s' (?a, w) = Some (window_count ?a now w s + 1, window_reset ?a now w d s)
      \<and> window_count ?a now w s + 1 \<le> uint l" if m: "(w, d, l) \<in> set (quota_windows q)" for w d l
  proof -
    have "counter_of ?a now s (w, d, l) \<in> set ?ws" using m by simp
    then have "(w, window_count ?a now w s, window_reset ?a now w d s) \<in> set ?ws"
      by (simp add: counter_of_def)
    from put_windows_lookup [OF d this] ex [OF m] show ?thesis by (simp add: s' exhausted_def)
  qed
  moreover have "quota_lookup s' (a, w) = quota_lookup s (a, w)" if "a \<noteq> ?a" for a w
    unfolding s' by (rule put_windows_other) (use that in simp)
  ultimately show ?thesis by blast
qed

theorem charge_counts_witness:
  "quota_lookup (put_windows 42 [(''minute'', 0, 120500000), (''hour'', 0, 3660500000),
      (''day'', 0, 86460500000)] spent_db) (42, ''minute'') = Some (1, 120500000)"
proof -
  have c: "charge 42 quota_limits_default None 60500000 spent_db
    = Inr (put_windows 42 [(''minute'', 0, 120500000), (''hour'', 0, 3660500000),
        (''day'', 0, 86460500000)] spent_db)"
    by (simp add: charge_def quota_limits_validate_def quota_limits_default_def quota_windows_def
        read_window_def sql_quota_get_def find_row_def spent_db_def checked_i64_def i64_ok_def
        window_wait_def)
  have "quota_sane (sint (42 :: u64)) 60500000 spent_db"
    by (simp add: quota_sane_def spent_db_def)
  from charge_counts [OF c _ this] show ?thesis
    by (simp add: quota_windows_def window_count_def window_reset_def sql_quota_get_def
        find_row_def spent_db_def)
qed

end
