(* ===== verification/Cache_Key.thy ===== *)
theory Cache_Key
  imports Tables
begin

text \<open>
  The media cache identity of \<open>backend/crates/yoink-storage/src/cache_key.rs\<close>. The hashed
  material is the stored request with the fields removed that do not change the media:
  preference overrides, the forced classification, the local diagnostic report, and of the
  target everything but the bot. The hash and the byte form it reads (\<open>sha2\<close> over
  \<open>serde_json::to_vec\<close>) are the parameter \<open>digest\<close>; what the code relies on is that it
  writes 64 lowercase hexadecimal digits and does not collide on the material at hand.
\<close>

record cache_material =
  cm_bot_id :: i64
  cm_request :: request_data

type_synonym digester = "cache_material \<Rightarrow> string"

definition cache_material_of :: "delivery_target \<Rightarrow> download_request \<Rightarrow> cache_material" where
  "cache_material_of t r =
     (let d = encode r in
      \<lparr>cm_bot_id = bot_id t,
       cm_request = d\<lparr>rd_preference_overrides := None, rd_force_nsfw := False,
                      rd_params := (rd_params d)\<lparr>dp_media_info := False\<rparr>,
                      rd_target := None\<rparr>\<rparr>)"

definition media_cache_key :: "digester \<Rightarrow> download_request \<Rightarrow> store_error + string" where
  "media_cache_key digest r =
     res_bind (ok_or InvalidInput (target r)) (\<lambda>t.
       Inr (''v1:'' @ digest (cache_material_of t r)))"

text \<open>What the code relies on of the hash: its form, and that it tells the hashed material apart.\<close>

definition digest_hex :: "digester \<Rightarrow> bool" where
  "digest_hex digest \<longleftrightarrow> (\<forall>m. cache_key_check (''v1:'' @ digest m))"

definition no_collision :: "digester \<Rightarrow> cache_material set \<Rightarrow> bool" where
  "no_collision digest A \<longleftrightarrow> inj_on digest A"

lemma media_cache_key_Inr:
  "media_cache_key digest r = Inr k \<longleftrightarrow>
     (\<exists>t. target r = Some t \<and> k = ''v1:'' @ digest (cache_material_of t r))"
  by (auto simp: media_cache_key_def res_bind_Inr_iff)

lemma media_cache_key_check:
  "digest_hex digest \<Longrightarrow> media_cache_key digest r = Inr k \<Longrightarrow> cache_key_check k"
  by (auto simp: media_cache_key_Inr digest_hex_def)

end
