(* ===== verification/Admission.thy ===== *)
theory Admission
  imports Settings Quota Cache_Key
begin

text \<open>
  Admitting a request, of \<open>backend/crates/yoink-storage/src/store.rs\<close>, with the runtime settings
  of \<open>downloader_settings.rs\<close> and the deferred media state of \<open>deferred_media.rs\<close>: replay of an
  idempotency key, capacity, quota, the one-shot content mark, the insertion and the records
  that go with it, in one transaction.
\<close>

record store_config =
  store_quota_limits :: quota_limits
  quota_owner_id :: "i64 option"
  dialog_authorization :: "i64 option option"

definition store_from_database :: store_config where
  "store_from_database = \<lparr>store_quota_limits = quota_limits_default, quota_owner_id = None,
     dialog_authorization = None\<rparr>"

definition with_quotas :: "quota_limits \<Rightarrow> i64 option \<Rightarrow> store_config \<Rightarrow> store_error + store_config" where
  "with_quotas limits owner cfg =
     res_bind (quota_limits_validate limits) (\<lambda>_.
       if pred_option (\<lambda>i. 0 < sint i) owner
       then Inr (cfg\<lparr>store_quota_limits := limits, quota_owner_id := owner\<rparr>)
       else Inl InvalidInput)"

definition with_dialog_authorization :: "i64 option \<Rightarrow> store_config \<Rightarrow> store_config" where
  "with_dialog_authorization owner cfg = cfg\<lparr>dialog_authorization := Some owner\<rparr>"

section \<open>Intent\<close>

definition without_network :: "download_request \<Rightarrow> store_error + download_request" where
  "without_network r = map_err InvalidInput (with_network network_none (with_force_nsfw False r))"

definition normalize_route :: "download_request \<Rightarrow> store_error + download_request" where
  "normalize_route r =
     res_bind (without_network r) (\<lambda>r.
     res_bind (map_err InvalidStoredData (with_downloader_settings None r)) (\<lambda>r.
       let e = (if engine (params r) \<in> {AutoYtDlpV1, AutoGalleryV1, AutoFallbackV1} then Auto
                else engine (params r)) in
       map_err InvalidInput (with_params ((params r)\<lparr>engine := e, media_info := False\<rparr>) r)))"

definition default_format :: "download_params \<Rightarrow> store_error + download_params" where
  "default_format p =
     (let d = download_params_default in
      res_bind (map_err InvalidInput (with_max_height (max_height d) p)) (\<lambda>p.
        Inr (p\<lparr>video_codec := video_codec d, audio_codec := audio_codec d, container := container d,
               send_as_file := send_as_file d, gallery_zip := gallery_zip d, subtitles := None\<rparr>)))"

definition normalize_format :: "download_request \<Rightarrow> store_error + download_request" where
  "normalize_format r =
     res_bind (default_format (params r)) (\<lambda>p. map_err InvalidInput (with_params p r))"

definition same_request_intent :: "download_request \<Rightarrow> download_request \<Rightarrow> store_error + bool" where
  "same_request_intent current requested =
     res_bind (normalize_route current) (\<lambda>current.
     res_bind (normalize_route requested) (\<lambda>requested.
       if preference_overrides current \<noteq> preference_overrides requested then Inr False
       else if preference_overrides current \<noteq> None then
         res_bind (normalize_format current) (\<lambda>c.
         res_bind (normalize_format requested) (\<lambda>r. Inr (c = r)))
       else Inr (current = requested)))"

section \<open>Replay\<close>

definition sql_admit_existing :: "u64 \<Rightarrow> string \<Rightarrow> db \<Rightarrow> op_row option" where
  "sql_admit_existing actor key s =
     find_row (\<lambda>r. op_actor r = sint actor \<and> op_key r = key) (ops s)"

text \<open>The intent joined with the operation that carries the actor and the key.\<close>

definition sql_telegram_media_intent_read :: "u64 \<Rightarrow> string \<Rightarrow> db \<Rightarrow> request_data option" where
  "sql_telegram_media_intent_read actor key s =
     map_option snd (find_row (\<lambda>i. list_ex (\<lambda>r. op_id r = fst i \<and> op_actor r = sint actor
         \<and> op_key r = key) (ops s)) (media_intents s))"

definition replay_network_admission ::
  "url_parser \<Rightarrow> env \<Rightarrow> download_request \<Rightarrow> string \<Rightarrow> db \<Rightarrow> store_error + admission option" where
  "replay_network_admission parse e r key s =
     res_bind (validate_key key) (\<lambda>_.
       if network r \<noteq> network_none then Inl InvalidInput
       else if \<not> up e then Inl Database
       else (case sql_admit_existing (actor_id r) key s of
               None \<Rightarrow> Inr None
             | Some row \<Rightarrow>
                 res_bind (decode parse (op_request row)) (\<lambda>current.
                 res_bind (same_request_intent current r) (\<lambda>same.
                   if \<not> same then Inl Conflict
                   else Inr (Some \<lparr>admitted_id = op_id row, created = False\<rparr>)))))"

definition replay_telegram_media ::
  "url_parser \<Rightarrow> env \<Rightarrow> download_request \<Rightarrow> string \<Rightarrow> db \<Rightarrow> store_error + admission option" where
  "replay_telegram_media parse e original key s =
     res_bind (validate_key key) (\<lambda>_.
       if \<not> up e then Inl Database
       else (case sql_telegram_media_intent_read (actor_id original) key s of
               Some intent \<Rightarrow>
                 res_bind (decode parse intent) (\<lambda>i.
                   if i \<noteq> original then Inl Conflict
                   else (case sql_admit_existing (actor_id original) key s of
                           None \<Rightarrow> Inl Database
                         | Some row \<Rightarrow> Inr (Some \<lparr>admitted_id = op_id row, created = False\<rparr>)))
             | None \<Rightarrow> replay_network_admission parse e original key s))"

section \<open>Deferred media\<close>

record deferred_state =
  ds_message_id :: int
  ds_mode :: "media_mode option"

record telegram_admission =
  tm_original :: download_request
  tm_message_id :: i32
  tm_expected :: "deferred_state option"

definition mode_text :: "media_mode \<Rightarrow> store_error + string" where
  "mode_text m =
     (case m of Video \<Rightarrow> Inr ''video'' | Audio \<Rightarrow> Inr ''audio'' | Image \<Rightarrow> Inr ''image''
      | _ \<Rightarrow> Inl InvalidInput)"

definition deferred_mode :: "string option \<Rightarrow> store_error + media_mode option" where
  "deferred_mode m =
     (case m of None \<Rightarrow> Inr None
      | Some t \<Rightarrow>
          if t = ''video'' then Inr (Some Video) else if t = ''audio'' then Inr (Some Audio)
          else if t = ''image'' then Inr (Some Image) else Inl Database)"

definition deferred_key :: "u64 \<Rightarrow> delivery_target \<Rightarrow> deferred_row \<Rightarrow> bool" where
  "deferred_key actor t d \<longleftrightarrow>
     df_actor d = sint actor \<and> df_bot d = sint (bot_id t) \<and> df_chat d = sint (chat_id t)"

definition read_state :: "u64 \<Rightarrow> delivery_target \<Rightarrow> db \<Rightarrow> store_error + deferred_state option" where
  "read_state actor t s =
     traverse_option (\<lambda>d. res_bind (deferred_mode (df_mode d)) (\<lambda>m.
         Inr \<lparr>ds_message_id = df_message d, ds_mode = m\<rparr>))
       (find_row (deferred_key actor t) (deferred s))"

definition deferred_media_state ::
  "env \<Rightarrow> u64 \<Rightarrow> delivery_target \<Rightarrow> db \<Rightarrow> store_error + deferred_state option" where
  "deferred_media_state e actor t s = (if \<not> up e then Inl Database else read_state actor t s)"

text \<open>The role and ban check that the write transactions repeat (\<open>deferred_media_authorize.sql\<close>).\<close>

definition sql_deferred_media_authorize :: "u64 \<Rightarrow> int \<Rightarrow> bool \<Rightarrow> db \<Rightarrow> bool" where
  "sql_deferred_media_authorize actor now owner s \<longleftrightarrow>
     list_ex (\<lambda>u. usr_id u = sint actor
       \<and> (usr_role u \<in> {''user'', ''moderator'', ''admin'', ''owner''}
          \<or> (owner \<and> usr_role u = ''restricted''))
       \<and> (case usr_ban_until u of None \<Rightarrow> True | Some t \<Rightarrow> t \<le> now)) (users s)"

definition deferred_checks :: "deferred_row \<Rightarrow> bool" where
  "deferred_checks d \<longleftrightarrow>
     0 < df_bot d \<and> 0 < df_chat d \<and> df_chat d = df_actor d \<and> 0 < df_message d
     \<and> pred_option (\<lambda>m. m \<in> {''video'', ''audio'', ''image''}) (df_mode d)"

text \<open>The upsert guarded by the message watermark, of \<open>deferred_media_arm.sql\<close> and \<open>_consume.sql\<close>.\<close>

definition put_deferred ::
  "u64 \<Rightarrow> delivery_target \<Rightarrow> int \<Rightarrow> string option \<Rightarrow> db \<Rightarrow> store_error + db" where
  "put_deferred actor t message mode s =
     (let row = \<lparr>df_actor = sint actor, df_bot = sint (bot_id t), df_chat = sint (chat_id t),
                 df_message = message, df_mode = mode\<rparr> in
      if \<not> deferred_checks row then Inl Database
      else if find_row (deferred_key actor t) (deferred s) = None
      then Inr (s\<lparr>deferred := deferred s @ [row]\<rparr>)
      else Inr (s\<lparr>deferred := update_where (\<lambda>d. deferred_key actor t d \<and> df_message d < message)
             (\<lambda>d. d\<lparr>df_message := message, df_mode := mode\<rparr>) (deferred s)\<rparr>))"

definition arm_deferred_media ::
  "env \<Rightarrow> u64 \<Rightarrow> delivery_target \<Rightarrow> i32 \<Rightarrow> media_mode \<Rightarrow> bool \<Rightarrow> db \<Rightarrow> unit outcome" where
  "arm_deferred_media e actor t message mode configured_owner =
     checked (if chat_id t \<noteq> actor \<or> sint (chat_id t) \<le> 0 \<or> thread_id t \<noteq> None \<or> sint message \<le> 0
              then Inl InvalidInput else Inr ())
       (case mode_text mode of
          Inl x \<Rightarrow> (\<lambda>s. (Inl x, s))
        | Inr m \<Rightarrow>
            transaction e (\<lambda>s.
              if \<not> sql_deferred_media_authorize actor (clock e 0) configured_owner s
              then Inl Unauthorized
              else res_bind (put_deferred actor t (sint message) (Some m) s) (\<lambda>s. Inr ((), s))))"

section \<open>Runtime settings at admission\<close>

text \<open>\<open>key LIKE 'dl.%'\<close> compares letters without case.\<close>

definition settings_key :: "string \<Rightarrow> bool" where
  "settings_key k \<longleftrightarrow> map to_ascii_lowercase (take 3 k) = ''dl.''"

definition settings_of :: "db \<Rightarrow> store_error + settings_values" where
  "settings_of s =
     (let rows = filter (\<lambda>kv. settings_key (fst kv)) (bot_settings s) in
      if list_ex (\<lambda>kv. snd kv = None) rows then Inl Database
      else Inr (\<lambda>k. case map_of rows k of None \<Rightarrow> None | Some v \<Rightarrow> v))"

definition settings_active :: "settings_values \<Rightarrow> bool" where
  "settings_active values \<longleftrightarrow>
     list_ex (\<lambda>k. values k \<noteq> None)
       [''dl.download_timeout'', ''dl.max_file_size_mb'', ''dl.max_file_size_gb'',
        ''dl.max_playlist_count'']"

definition overridden :: "settings_values \<Rightarrow> string \<Rightarrow> 'a \<Rightarrow> 'a \<Rightarrow> 'a" where
  "overridden values key x y = (if values key \<noteq> None then x else y)"

definition admission_settings ::
  "download_request \<Rightarrow> admission_policy \<Rightarrow> quota_limits \<Rightarrow> db
    \<Rightarrow> store_error + download_request \<times> admission_policy \<times> quota_limits" where
  "admission_settings r policy quotas s =
     res_bind (settings_of s) (\<lambda>values.
     res_bind (map_err InvalidStoredData (from_settings values)) (\<lambda>settings.
       let policy = policy\<lparr>max_attempts := overridden values ''dl.download_retries''
                      (download_retries settings) (max_attempts policy)\<rparr>;
           quotas = quotas\<lparr>
               limit_minute := overridden values ''dl.rate_limit_per_minute''
                 (rate_limit_per_minute settings) (limit_minute quotas),
               limit_hour := overridden values ''dl.rate_limit_per_hour''
                 (rate_limit_per_hour settings) (limit_hour quotas),
               limit_day := overridden values ''dl.rate_limit_per_day''
                 (rate_limit_per_day settings) (limit_day quotas)\<rparr>;
           act = settings_active values in
       res_bind (map_err InvalidStoredData
           (with_downloader_settings (if act then Some settings else None) r)) (\<lambda>r.
         if act \<and> (case playlist (params r) of None \<Rightarrow> False
                    | Some entries \<Rightarrow> entry_count entries > max_playlist_count settings)
         then Inl InvalidInput
         else Inr (r, policy, quotas))))"

section \<open>Admission\<close>

definition pending_count :: "db \<Rightarrow> nat" where
  "pending_count s = count_where (\<lambda>r. pending (op_status r)) (ops s)"

definition pending_actor_count :: "u64 \<Rightarrow> db \<Rightarrow> nat" where
  "pending_actor_count actor s =
     count_where (\<lambda>r. op_actor r = sint actor \<and> pending (op_status r)) (ops s)"

definition sql_nsfw_mark_consume :: "u64 \<Rightarrow> db \<Rightarrow> bool \<times> db" where
  "sql_nsfw_mark_consume actor s =
     (sint actor \<in> set (nsfw_marks s),
      s\<lparr>nsfw_marks := filter (\<lambda>a. a \<noteq> sint actor) (nsfw_marks s)\<rparr>)"

definition admitted_row ::
  "uuid \<Rightarrow> u64 \<Rightarrow> string \<Rightarrow> request_data \<Rightarrow> int \<Rightarrow> int \<Rightarrow> string option \<Rightarrow> int \<Rightarrow> op_row" where
  "admitted_row i actor key data attempts delay ck now =
     \<lparr>op_id = i, op_actor = sint actor, op_key = key, op_request = data, op_status = Queued,
      op_attempt = 0, op_max_attempts = attempts, op_cancel_requested = False, op_worker = None,
      op_token = None, op_expires = None, op_created_at = now, op_updated_at = now,
      op_available_at = now, op_retry_delay = delay, op_message_id = None,
      op_delivery_started_at = None, op_progress_percent = None, op_progress_stage = None,
      op_planned = None, op_delivered = 0, op_cache_bypassed = False, op_cache_key = ck,
      op_content_failure = None, op_failure_code = None\<rparr>"

text \<open>The insertion read with \<open>fetch_one\<close>: a taken key returns no row, a taken identifier fails.\<close>

definition sql_admit_insert :: "op_row \<Rightarrow> db \<Rightarrow> store_error + db" where
  "sql_admit_insert row s =
     (if \<not> op_checks row \<or> op_id row \<in> op_id ` set (ops s)
         \<or> (op_actor row, op_key row) \<in> (\<lambda>r. (op_actor r, op_key r)) ` set (ops s)
      then Inl Database
      else Inr (s\<lparr>ops := ops s @ [row]\<rparr>))"

definition input_only_notice :: string where
  "input_only_notice = ''[pending-input-cleanup]''"

definition notice_checks :: "notice_row \<Rightarrow> bool" where
  "notice_checks n \<longleftrightarrow>
     0 < n_actor n \<and> 0 < n_bot n \<and> n_chat n \<noteq> 0 \<and> 1 \<le> n_message n \<and> n_message n \<le> i32_max
     \<and> n_language n \<in> {''en'', ''ru''}
     \<and> pred_option (\<lambda>t. length t \<le> 4096) (n_last_text n)"

definition input_notice :: "op_row \<Rightarrow> int \<Rightarrow> notice_row option" where
  "input_notice r now =
     (case rd_target (op_request r) of
        None \<Rightarrow> None
      | Some t \<Rightarrow>
          (case td_reply_to_message_id t of
             None \<Rightarrow> None
           | Some m \<Rightarrow>
               if sint (td_chat_id t) = op_actor r \<and> td_thread_id t = None \<and> 0 < sint m
               then Some \<lparr>n_op = op_id r, n_actor = op_actor r, n_bot = sint (td_bot_id t),
                          n_chat = sint (td_chat_id t), n_message = sint m, n_language = ''en'',
                          n_last_text = Some input_only_notice, n_finished = False,
                          n_next_attempt_at = now\<rparr>
               else None))"

definition sql_register_input_cleanup :: "uuid \<Rightarrow> int \<Rightarrow> db \<Rightarrow> store_error + db" where
  "sql_register_input_cleanup i now s =
     (case find_row (\<lambda>r. op_id r = i) (ops s) of
        None \<Rightarrow> Inr s
      | Some r \<Rightarrow>
          (case input_notice r now of
             None \<Rightarrow> Inr s
           | Some n \<Rightarrow>
               if \<not> notice_checks n then Inl Database
               else if n_op n \<in> n_op ` set (notices s) then Inr s
               else Inr (s\<lparr>notices := notices s @ [n]\<rparr>)))"

definition sql_telegram_media_intent_insert :: "uuid \<Rightarrow> request_data \<Rightarrow> db \<Rightarrow> store_error + db" where
  "sql_telegram_media_intent_insert i d s =
     (if i \<in> fst ` set (media_intents s) then Inl Database
      else Inr (s\<lparr>media_intents := media_intents s @ [(i, d)]\<rparr>))"

text \<open>The checks of a Telegram admission that is new.\<close>

definition telegram_checks ::
  "store_config \<Rightarrow> env \<Rightarrow> download_request \<Rightarrow> telegram_admission \<Rightarrow> db \<Rightarrow> store_error + unit" where
  "telegram_checks cfg e r ctx s =
     res_bind (ok_or InvalidInput (target r)) (\<lambda>t.
       if chat_id t \<noteq> actor_id r \<or> thread_id t \<noteq> None then Inl InvalidInput
       else if actor_id (tm_original ctx) \<noteq> actor_id r \<or> target (tm_original ctx) \<noteq> target r
          \<or> sint (tm_message_id ctx) \<le> 0 then Inl InvalidInput
       else res_bind (read_state (actor_id r) t s) (\<lambda>st.
         if st \<noteq> tm_expected ctx then Inl Conflict
         else if \<not> sql_deferred_media_authorize (actor_id r) (clock e 0)
                (quota_owner_id cfg = Some (actor_id r)) s then Inl Unauthorized
         else Inr ()))"

definition replay_existing ::
  "url_parser \<Rightarrow> download_request \<Rightarrow> string \<Rightarrow> bool \<Rightarrow> telegram_admission option \<Rightarrow> op_row \<Rightarrow> db
    \<Rightarrow> store_error + admission" where
  "replay_existing parse r key preserve telegram row s =
     res_bind (decode parse (op_request row)) (\<lambda>current.
     res_bind (case telegram of
         Some ctx \<Rightarrow>
           res_bind (ok_or Conflict (sql_telegram_media_intent_read (actor_id r) key s)) (\<lambda>i.
           res_bind (decode parse i) (\<lambda>i. Inr (i = tm_original ctx)))
       | None \<Rightarrow>
           if preserve then same_request_intent current r
           else res_bind (map_err InvalidStoredData
               (with_downloader_settings None (with_force_nsfw False current)))
             (\<lambda>c. Inr (c = r))) (\<lambda>same.
       if \<not> same then Inl Conflict
       else Inr \<lparr>admitted_id = op_id row, created = False\<rparr>))"

definition finish_telegram ::
  "download_request \<Rightarrow> uuid \<Rightarrow> telegram_admission option \<Rightarrow> db \<Rightarrow> store_error + db" where
  "finish_telegram r i telegram s =
     (case telegram of
        None \<Rightarrow> Inr s
      | Some ctx \<Rightarrow>
          res_bind (ok_or InvalidInput (target r)) (\<lambda>t.
          res_bind (put_deferred (actor_id r) t (sint (tm_message_id ctx)) None s) (\<lambda>s.
            sql_telegram_media_intent_insert i (encode (tm_original ctx)) s)))"

definition admit_new ::
  "store_config \<Rightarrow> env \<Rightarrow> download_request \<Rightarrow> string \<Rightarrow> admission_policy \<Rightarrow> string option
    \<Rightarrow> int option \<Rightarrow> telegram_admission option \<Rightarrow> db \<Rightarrow> store_error + admission \<times> db" where
  "admit_new cfg e r key policy ck now_override telegram s =
     res_bind (case telegram of None \<Rightarrow> Inr () | Some ctx \<Rightarrow> telegram_checks cfg e r ctx s) (\<lambda>_.
     res_bind (admission_settings r policy (store_quota_limits cfg) s) (\<lambda>(r, policy, quotas).
       if int (pending_count s) \<ge> uint (max_pending_global policy)
          \<or> int (pending_actor_count (actor_id r) s) \<ge> uint (max_pending_actor policy)
       then Inl Capacity
       else
         let now = (case now_override of Some t \<Rightarrow> t | None \<Rightarrow> clock e 1) in
         res_bind (charge (actor_id r) quotas (quota_owner_id cfg) now s) (\<lambda>s.
         let (forced, s) = sql_nsfw_mark_consume (actor_id r) s;
             row = admitted_row (fresh_id e) (actor_id r) key (encode (with_force_nsfw forced r))
               (uint (max_attempts policy)) (int (as_secs (retry_delay policy))) ck (clock e 2) in
         res_bind (sql_admit_insert row s) (\<lambda>s.
         res_bind (sql_register_input_cleanup (fresh_id e) (clock e 3) s) (\<lambda>s.
         res_bind (finish_telegram r (fresh_id e) telegram s) (\<lambda>s.
           Inr (\<lparr>admitted_id = fresh_id e, created = True\<rparr>, s)))))))"

definition admit_body ::
  "url_parser \<Rightarrow> store_config \<Rightarrow> env \<Rightarrow> download_request \<Rightarrow> string \<Rightarrow> admission_policy \<Rightarrow> bool
    \<Rightarrow> string option \<Rightarrow> int option \<Rightarrow> telegram_admission option \<Rightarrow> db
    \<Rightarrow> store_error + admission \<times> db" where
  "admit_body parse cfg e r key policy preserve ck now_override telegram s =
     (case sql_admit_existing (actor_id r) key s of
        Some row \<Rightarrow>
          res_bind (replay_existing parse r key preserve telegram row s) (\<lambda>a. Inr (a, s))
      | None \<Rightarrow> admit_new cfg e r key policy ck now_override telegram s)"

definition admit_inner ::
  "url_parser \<Rightarrow> digester \<Rightarrow> store_config \<Rightarrow> env \<Rightarrow> download_request \<Rightarrow> string \<Rightarrow> admission_policy
    \<Rightarrow> bool \<Rightarrow> int option \<Rightarrow> telegram_admission option \<Rightarrow> db \<Rightarrow> admission outcome" where
  "admit_inner parse digest cfg e r key policy preserve now_override telegram =
     checked (validate_key key) (checked (validate_policy policy)
       (checked (if downloader_settings r \<noteq> None then Inl InvalidInput else Inr ())
         (let r = with_force_nsfw False r in
          case traverse_option (\<lambda>_. media_cache_key digest r) (target r) of
            Inl x \<Rightarrow> (\<lambda>s. (Inl x, s))
          | Inr ck \<Rightarrow>
              transaction e (admit_body parse cfg e r key policy preserve ck now_override telegram))))"

definition admit_network_snapshot ::
  "url_parser \<Rightarrow> digester \<Rightarrow> store_config \<Rightarrow> env \<Rightarrow> download_request \<Rightarrow> string \<Rightarrow> admission_policy
    \<Rightarrow> db \<Rightarrow> admission outcome" where
  "admit_network_snapshot parse digest cfg e r key policy =
     admit_inner parse digest cfg e r key policy True None None"

definition admit_bounded ::
  "url_parser \<Rightarrow> digester \<Rightarrow> store_config \<Rightarrow> env \<Rightarrow> download_request \<Rightarrow> string \<Rightarrow> admission_policy
    \<Rightarrow> db \<Rightarrow> admission outcome" where
  "admit_bounded parse digest cfg e r key policy =
     admit_inner parse digest cfg e r key policy False None None"

definition admit_telegram_media_snapshot ::
  "url_parser \<Rightarrow> digester \<Rightarrow> store_config \<Rightarrow> env \<Rightarrow> download_request \<Rightarrow> string \<Rightarrow> admission_policy
    \<Rightarrow> telegram_admission \<Rightarrow> db \<Rightarrow> admission outcome" where
  "admit_telegram_media_snapshot parse digest cfg e r key policy ctx =
     admit_inner parse digest cfg e r key policy True None (Some ctx)"

definition admit ::
  "url_parser \<Rightarrow> digester \<Rightarrow> store_config \<Rightarrow> env \<Rightarrow> download_request \<Rightarrow> string \<Rightarrow> u32
    \<Rightarrow> db \<Rightarrow> admission outcome" where
  "admit parse digest cfg e r key attempts =
     admit_bounded parse digest cfg e r key
       \<lparr>max_attempts = attempts, retry_delay = secs 0, max_pending_global = 1000,
        max_pending_actor = 100\<rparr>"

end
