(* ===== verification/Queue.thy ===== *)
theory Queue
  imports Tables
begin

text \<open>
  The queue of \<open>backend/crates/yoink-storage/src/store.rs\<close>: claiming with lease expiry,
  progress, heartbeat, completion, failure, cancellation and reading. A definition named
  \<open>sql_<file>\<close> is the statement of \<open>sql/<file>.sql\<close>; the others are the functions of the
  code. Each statement reads the clock once; the k-th statement of a call reads \<open>clock e k\<close>.
\<close>

section \<open>Columns the statements read and write together\<close>

definition expired :: "int \<Rightarrow> op_row \<Rightarrow> bool" where
  "expired now r \<longleftrightarrow> (case op_expires r of None \<Rightarrow> False | Some t \<Rightarrow> t \<le> now)"

definition lease_live :: "int \<Rightarrow> op_row \<Rightarrow> bool" where
  "lease_live now r \<longleftrightarrow> (case op_expires r of None \<Rightarrow> False | Some t \<Rightarrow> now < t)"

text \<open>\<open>fenced_query\<close>: the four bound columns, with the lease still running.\<close>

definition fenced :: "claim \<Rightarrow> int \<Rightarrow> op_row \<Rightarrow> bool" where
  "fenced c now r \<longleftrightarrow>
     op_id r = operation_id c \<and> op_attempt r = sint (attempt c)
     \<and> op_token r = Some (lease_token c) \<and> op_worker r = Some (worker_id c) \<and> lease_live now r"

definition release :: "op_row \<Rightarrow> op_row" where
  "release r = r\<lparr>op_worker := None, op_token := None, op_expires := None\<rparr>"

definition clear_progress :: "op_row \<Rightarrow> op_row" where
  "clear_progress r = r\<lparr>op_progress_percent := None, op_progress_stage := None\<rparr>"

definition request_bot :: "op_row \<Rightarrow> int option" where
  "request_bot r = map_option (\<lambda>t. sint (td_bot_id t)) (rd_target (op_request r))"

definition has_unit :: "uuid \<Rightarrow> int \<Rightarrow> unit_status \<Rightarrow> db \<Rightarrow> bool" where
  "has_unit i a st s \<longleftrightarrow>
     list_ex (\<lambda>u. u_op u = i \<and> u_attempt u = a \<and> u_status u = st) (units s)"

definition active_count :: "int \<Rightarrow> db \<Rightarrow> nat" where
  "active_count actor s = count_where (\<lambda>r. op_actor r = actor \<and> active (op_status r)) (ops s)"

section \<open>Lease expiry\<close>

definition sql_expire_leases_select :: "int \<Rightarrow> db \<Rightarrow> op_row list" where
  "sql_expire_leases_select now s =
     order_limit (\<lambda>r. (the (op_expires r), op_id r)) 100
       (filter (\<lambda>r. active (op_status r) \<and> expired now r) (ops s))"

definition sql_expire_lease_units :: "uuid \<Rightarrow> int \<Rightarrow> int \<Rightarrow> db \<Rightarrow> store_error + nat \<times> db" where
  "sql_expire_lease_units i a now =
     update_units (\<lambda>u. u_op u = i \<and> u_attempt u = a \<and> u_status u = Sending)
       (\<lambda>u. u\<lparr>u_status := UnknownSend, u_updated_at := now\<rparr>)"

definition expired_status :: "bool \<Rightarrow> op_row \<Rightarrow> operation_status" where
  "expired_status unknown r =
     (if op_status r = Delivering \<and> unknown then DeliveryUnknown
      else if op_status r = Delivering \<and> op_delivered r > 0 then DeliveryPartial
      else if op_status r = Delivering \<and> op_planned r = None then DeliveryUnknown
      else if op_cancel_requested r then Cancelled
      else if op_attempt r \<ge> op_max_attempts r then Failed
      else Queued)"

definition expired_retries :: "bool \<Rightarrow> op_row \<Rightarrow> bool" where
  "expired_retries unknown r \<longleftrightarrow>
     (op_status r = Running
      \<or> (op_status r = Delivering \<and> op_delivered r = 0 \<and> op_planned r \<noteq> None \<and> \<not> unknown))
     \<and> \<not> op_cancel_requested r \<and> op_attempt r < op_max_attempts r"

definition expire_row :: "bool \<Rightarrow> int \<Rightarrow> op_row \<Rightarrow> op_row" where
  "expire_row unknown now r =
     clear_progress (release
       (r\<lparr>op_status := expired_status unknown r,
          op_available_at := (if expired_retries unknown r then now + op_retry_delay r * 1000000
                              else op_available_at r),
          op_updated_at := now\<rparr>))"

definition sql_expire_lease_operation ::
  "uuid \<Rightarrow> int \<Rightarrow> int \<Rightarrow> db \<Rightarrow> store_error + nat \<times> db" where
  "sql_expire_lease_operation i a now s =
     update_ops (\<lambda>r. op_id r = i \<and> op_attempt r = a \<and> active (op_status r) \<and> expired now r)
       (expire_row (has_unit i a UnknownSend s) now) s"

fun expire_leases :: "(nat \<Rightarrow> int) \<Rightarrow> nat \<Rightarrow> op_row list \<Rightarrow> db \<Rightarrow> store_error + db" where
  "expire_leases clk k [] s = Inr s"
| "expire_leases clk k (r # rs) s =
     res_bind (sql_expire_lease_units (op_id r) (op_attempt r) (clk k) s) (\<lambda>(_, s).
     res_bind (sql_expire_lease_operation (op_id r) (op_attempt r) (clk (k + 1)) s) (\<lambda>(n, s).
       if n \<noteq> 1 then Inl NotFoundOrStale else expire_leases clk (k + 2) rs s))"

section \<open>Claiming\<close>

definition claimable :: "int \<Rightarrow> op_row \<Rightarrow> bool" where
  "claimable now r \<longleftrightarrow>
     op_status r = Queued \<and> op_available_at r \<le> now \<and> \<not> op_cancel_requested r
     \<and> op_attempt r < op_max_attempts r"

definition for_bot :: "i64 option \<Rightarrow> op_row \<Rightarrow> bool" where
  "for_bot own_bot r \<longleftrightarrow> (case own_bot of None \<Rightarrow> True | Some b \<Rightarrow> request_bot r = Some (sint b))"

definition eligible :: "i64 option \<Rightarrow> claim_policy \<Rightarrow> int \<Rightarrow> db \<Rightarrow> op_row \<Rightarrow> bool" where
  "eligible own_bot policy now s r \<longleftrightarrow>
     claimable now r \<and> for_bot own_bot r
     \<and> int (active_count (op_actor r) s) < uint (max_active_actor policy)"

definition claim_order :: "op_row \<Rightarrow> int \<times> int \<times> uuid" where
  "claim_order r = (op_available_at r, op_created_at r, op_id r)"

definition sql_claim_select :: "claim_policy \<Rightarrow> int \<Rightarrow> db \<Rightarrow> op_row option" where
  "sql_claim_select policy now s =
     (case order_limit claim_order 1 (filter (eligible None policy now s) (ops s)) of
        [] \<Rightarrow> None | r # _ \<Rightarrow> Some r)"

definition sql_claim_for_bot_select :: "i64 \<Rightarrow> claim_policy \<Rightarrow> int \<Rightarrow> db \<Rightarrow> op_row option" where
  "sql_claim_for_bot_select b policy now s =
     (case order_limit claim_order 1 (filter (eligible (Some b) policy now s) (ops s)) of
        [] \<Rightarrow> None | r # _ \<Rightarrow> Some r)"

definition claimed_row :: "string \<Rightarrow> nat \<Rightarrow> uuid \<Rightarrow> int \<Rightarrow> op_row \<Rightarrow> op_row" where
  "claimed_row w lease_secs tok now r =
     clear_progress
       (r\<lparr>op_status := Running, op_attempt := op_attempt r + 1, op_worker := Some w,
          op_token := Some tok, op_expires := Some (now + int lease_secs * 1000000),
          op_updated_at := now, op_planned := None, op_delivered := 0\<rparr>)"

text \<open>\<open>UPDATE ... RETURNING\<close> read with \<open>fetch_one\<close>: no row is an error of the database.\<close>

definition update_returning ::
  "(op_row \<Rightarrow> bool) \<Rightarrow> (op_row \<Rightarrow> op_row) \<Rightarrow> db \<Rightarrow> store_error + op_row option \<times> db" where
  "update_returning p f s =
     res_bind (update_ops p f s) (\<lambda>(_, s'). Inr (map_option f (find_row p (ops s)), s'))"

definition sql_claim_update ::
  "string \<Rightarrow> nat \<Rightarrow> uuid \<Rightarrow> uuid \<Rightarrow> int \<Rightarrow> db \<Rightarrow> store_error + op_row option \<times> db" where
  "sql_claim_update w lease_secs tok i now =
     update_returning (\<lambda>r. op_id r = i \<and> claimable now r)
       (\<lambda>r. (claimed_row w lease_secs tok now r)\<lparr>op_failure_code := None\<rparr>)"

definition sql_claim_for_bot_update ::
  "string \<Rightarrow> nat \<Rightarrow> i64 \<Rightarrow> uuid \<Rightarrow> uuid \<Rightarrow> int \<Rightarrow> db \<Rightarrow> store_error + op_row option \<times> db" where
  "sql_claim_for_bot_update w lease_secs b tok i now =
     update_returning (\<lambda>r. op_id r = i \<and> claimable now r \<and> for_bot (Some b) r)
       (claimed_row w lease_secs tok now)"

definition claim_of_row :: "download_request \<Rightarrow> op_row \<Rightarrow> claim" where
  "claim_of_row req r =
     \<lparr>operation_id = op_id r, attempt = of_int (op_attempt r), lease_token = the (op_token r),
      worker_id = the (op_worker r), request = req,
      claim_cancel_requested = op_cancel_requested r, claim_cache_bypassed = op_cache_bypassed r,
      lease_expires_at = the (op_expires r)\<rparr>"

definition claim_filtered_body ::
  "url_parser \<Rightarrow> env \<Rightarrow> string \<Rightarrow> duration \<Rightarrow> i64 option \<Rightarrow> claim_policy \<Rightarrow> db
    \<Rightarrow> store_error + claim option \<times> db" where
  "claim_filtered_body parse e w lease own_bot policy s =
     (let expired_rows = sql_expire_leases_select (clock e 0) s;
          k = 1 + 2 * length expired_rows in
      res_bind (expire_leases (clock e) 1 expired_rows s) (\<lambda>s.
      let selected = (case own_bot of Some b \<Rightarrow> sql_claim_for_bot_select b policy (clock e k) s
                      | None \<Rightarrow> sql_claim_select policy (clock e k) s) in
      case selected of
        None \<Rightarrow> Inr (None, s)
      | Some r \<Rightarrow>
          res_bind (case own_bot of
              Some b \<Rightarrow> sql_claim_for_bot_update w (as_secs lease) b (fresh_id e) (op_id r)
                (clock e (k + 1)) s
            | None \<Rightarrow> sql_claim_update w (as_secs lease) (fresh_id e) (op_id r) (clock e (k + 1)) s)
            (\<lambda>(row, s).
              case row of
                None \<Rightarrow> Inl Database
              | Some row \<Rightarrow>
                  res_bind (decode parse (op_request row)) (\<lambda>req.
                    Inr (Some (claim_of_row req row), s)))))"

definition claim_filtered ::
  "url_parser \<Rightarrow> env \<Rightarrow> string \<Rightarrow> duration \<Rightarrow> i64 option \<Rightarrow> claim_policy \<Rightarrow> db
    \<Rightarrow> claim option outcome" where
  "claim_filtered parse e w lease own_bot policy =
     checked (claim_policy_validate policy) (checked (validate_worker w)
       (checked (validate_lease lease)
         (transaction e (claim_filtered_body parse e w lease own_bot policy))))"

definition claim_policy_default :: claim_policy where
  "claim_policy_default = \<lparr>max_active_actor = 3\<rparr>"

definition claim ::
  "url_parser \<Rightarrow> env \<Rightarrow> string \<Rightarrow> duration \<Rightarrow> db \<Rightarrow> claim option outcome" where
  "claim parse e w lease = claim_filtered parse e w lease None claim_policy_default"

definition claim_for_bot_bounded ::
  "url_parser \<Rightarrow> env \<Rightarrow> string \<Rightarrow> duration \<Rightarrow> i64 \<Rightarrow> claim_policy \<Rightarrow> db \<Rightarrow> claim option outcome" where
  "claim_for_bot_bounded parse e w lease b policy =
     checked (if sint b \<le> 0 then Inl InvalidInput else Inr ())
       (claim_filtered parse e w lease (Some b) policy)"

definition claim_for_bot ::
  "url_parser \<Rightarrow> env \<Rightarrow> string \<Rightarrow> duration \<Rightarrow> i64 \<Rightarrow> db \<Rightarrow> claim option outcome" where
  "claim_for_bot parse e w lease b =
     checked (if sint b \<le> 0 then Inl InvalidInput else Inr ())
       (claim_for_bot_bounded parse e w lease b claim_policy_default)"

section \<open>Working on a claim\<close>

definition sql_update_progress ::
  "claim \<Rightarrow> u8 \<Rightarrow> progress_stage \<Rightarrow> int \<Rightarrow> db \<Rightarrow> store_error + nat \<times> db" where
  "sql_update_progress c percent stage now =
     update_ops (\<lambda>r. fenced c now r \<and> op_status r = Running \<and> \<not> op_cancel_requested r)
       (\<lambda>r. r\<lparr>op_progress_percent := Some (uint percent), op_progress_stage := Some stage,
              op_updated_at := now\<rparr>)"

definition update_progress ::
  "env \<Rightarrow> claim \<Rightarrow> u8 \<Rightarrow> progress_stage \<Rightarrow> db \<Rightarrow> unit outcome" where
  "update_progress e c percent stage =
     checked (validate_claim c) (checked (if percent > 100 then Inl InvalidInput else Inr ())
       (\<lambda>s. or_stale (execute e (sql_update_progress c percent stage (clock e 0)) s)))"

definition sql_heartbeat ::
  "claim \<Rightarrow> nat \<Rightarrow> int \<Rightarrow> db \<Rightarrow> store_error + op_row option \<times> db" where
  "sql_heartbeat c lease_secs now =
     update_returning (\<lambda>r. fenced c now r \<and> active (op_status r))
       (\<lambda>r. r\<lparr>op_expires := Some (now + int lease_secs * 1000000), op_updated_at := now\<rparr>)"

definition heartbeat_state ::
  "env \<Rightarrow> claim \<Rightarrow> duration \<Rightarrow> db \<Rightarrow> lease_heartbeat outcome" where
  "heartbeat_state e c lease =
     checked (validate_claim c) (checked (validate_lease lease)
       (transaction e (\<lambda>s.
         res_bind (sql_heartbeat c (as_secs lease) (clock e 0) s) (\<lambda>(row, s).
           res_bind (ok_or NotFoundOrStale row) (\<lambda>r.
             Inr (\<lparr>heartbeat_expires_at = the (op_expires r),
                   heartbeat_cancel_requested = op_cancel_requested r\<rparr>, s))))))"

definition heartbeat :: "env \<Rightarrow> claim \<Rightarrow> duration \<Rightarrow> db \<Rightarrow> int outcome" where
  "heartbeat e c lease s =
     (case heartbeat_state e c lease s of
        (Inl x, s) \<Rightarrow> (Inl x, s) | (Inr h, s) \<Rightarrow> (Inr (heartbeat_expires_at h), s))"

definition sql_complete :: "claim \<Rightarrow> int \<Rightarrow> db \<Rightarrow> store_error + nat \<times> db" where
  "sql_complete c now =
     update_ops (\<lambda>r. fenced c now r \<and> op_status r = Running)
       (\<lambda>r. release (r\<lparr>op_status := Succeeded, op_updated_at := now\<rparr>))"

definition complete :: "env \<Rightarrow> claim \<Rightarrow> db \<Rightarrow> unit outcome" where
  "complete e c =
     checked (validate_claim c) (\<lambda>s. or_stale (execute e (sql_complete c (clock e 0)) s))"

definition failed_row :: "bool \<Rightarrow> string option \<Rightarrow> int \<Rightarrow> op_row \<Rightarrow> op_row" where
  "failed_row retryable code now r =
     clear_progress (release
       (r\<lparr>op_status := (if op_cancel_requested r then Cancelled
                        else if retryable \<and> op_attempt r < op_max_attempts r then Queued
                        else Failed),
          op_available_at := (if retryable \<and> op_attempt r < op_max_attempts r
                                 \<and> \<not> op_cancel_requested r
                              then now + op_retry_delay r * 1000000 else op_available_at r),
          op_failure_code := (if op_cancel_requested r then None else code),
          op_updated_at := now\<rparr>))"

definition sql_fail ::
  "claim \<Rightarrow> bool \<Rightarrow> string option \<Rightarrow> int \<Rightarrow> db \<Rightarrow> store_error + nat \<times> db" where
  "sql_fail c retryable code now =
     update_ops (\<lambda>r. fenced c now r \<and> op_status r = Running) (failed_row retryable code now)"

definition fail_with_code ::
  "env \<Rightarrow> claim \<Rightarrow> bool \<Rightarrow> string option \<Rightarrow> db \<Rightarrow> unit outcome" where
  "fail_with_code e c retryable code =
     checked (validate_claim c)
       (checked (if \<not> pred_option (\<lambda>x. x \<in> set failure_codes) code then Inl InvalidInput else Inr ())
         (\<lambda>s. or_stale (execute e (sql_fail c retryable code (clock e 0)) s)))"

definition fail :: "env \<Rightarrow> claim \<Rightarrow> bool \<Rightarrow> db \<Rightarrow> unit outcome" where
  "fail e c retryable = fail_with_code e c retryable None"

section \<open>Cancelling and reading\<close>

definition sql_cancel :: "int \<Rightarrow> uuid \<Rightarrow> int \<Rightarrow> db \<Rightarrow> store_error + nat \<times> db" where
  "sql_cancel actor i now =
     update_ops (\<lambda>r. op_actor r = actor \<and> op_id r = i \<and> pending (op_status r))
       (\<lambda>r. r\<lparr>op_status := (if op_status r = Queued then Cancelled else op_status r),
              op_cancel_requested := True, op_updated_at := now\<rparr>)"

definition actor_check :: "u64 \<Rightarrow> store_error + unit" where
  "actor_check actor = (if actor = 0 \<or> actor > i64_max then Inl InvalidInput else Inr ())"

definition request_cancel :: "env \<Rightarrow> u64 \<Rightarrow> uuid \<Rightarrow> db \<Rightarrow> bool outcome" where
  "request_cancel e actor i =
     checked (actor_check actor)
       (\<lambda>s. is_some_row (execute e (sql_cancel (sint actor) i (clock e 0)) s))"

definition sql_ack_cancel :: "claim \<Rightarrow> int \<Rightarrow> db \<Rightarrow> store_error + nat \<times> db" where
  "sql_ack_cancel c now =
     update_ops (\<lambda>r. fenced c now r \<and> op_status r = Running \<and> op_cancel_requested r)
       (\<lambda>r. release (r\<lparr>op_status := Cancelled, op_updated_at := now\<rparr>))"

definition acknowledge_cancel :: "env \<Rightarrow> claim \<Rightarrow> db \<Rightarrow> unit outcome" where
  "acknowledge_cancel e c =
     checked (validate_claim c) (\<lambda>s. or_stale (execute e (sql_ack_cancel c (clock e 0)) s))"

record operation_record =
  rec_content_failure :: "string option"
  rec_failure_code :: "string option"
  rec_operation_id :: uuid
  rec_actor_id :: u64
  rec_target :: "delivery_target option"
  rec_status :: operation_status
  rec_attempt :: u32
  rec_max_attempts :: u32
  rec_cancel_requested :: bool
  rec_cache_bypassed :: bool
  rec_available_at :: instant
  rec_delivered_message_id :: "i64 option"
  rec_planned_artifact_count :: "u32 option"
  rec_delivered_artifact_count :: u32
  rec_delivery_started_at :: "instant option"
  rec_progress_percent :: "u8 option"
  rec_progress_stage :: "progress_stage option"
  rec_created_at :: instant
  rec_updated_at :: instant

text \<open>\<open>u32::try_from\<close> and \<open>u8::try_from\<close> on an integer column.\<close>

definition u32_try_from :: "int \<Rightarrow> store_error + u32" where
  "u32_try_from n = (if 0 \<le> n \<and> n < 2 ^ 32 then Inr (of_int n) else Inl InvalidStoredData)"

definition u8_try_from :: "int \<Rightarrow> store_error + u8" where
  "u8_try_from n = (if 0 \<le> n \<and> n < 256 then Inr (of_int n) else Inl InvalidStoredData)"

definition record_of_row :: "url_parser \<Rightarrow> op_row \<Rightarrow> store_error + operation_record" where
  "record_of_row parse r =
     res_bind (decode parse (op_request r)) (\<lambda>req.
     res_bind (traverse_option u32_try_from (op_planned r)) (\<lambda>planned.
     res_bind (u32_try_from (op_delivered r)) (\<lambda>delivered.
     res_bind (traverse_option u8_try_from (op_progress_percent r)) (\<lambda>percent.
       Inr \<lparr>rec_content_failure = op_content_failure r, rec_failure_code = op_failure_code r,
            rec_operation_id = op_id r, rec_actor_id = of_int (op_actor r),
            rec_target = target req, rec_status = op_status r,
            rec_attempt = of_int (op_attempt r), rec_max_attempts = of_int (op_max_attempts r),
            rec_cancel_requested = op_cancel_requested r,
            rec_cache_bypassed = op_cache_bypassed r, rec_available_at = op_available_at r,
            rec_delivered_message_id = map_option of_int (op_message_id r),
            rec_planned_artifact_count = planned, rec_delivered_artifact_count = delivered,
            rec_delivery_started_at = op_delivery_started_at r,
            rec_progress_percent = percent, rec_progress_stage = op_progress_stage r,
            rec_created_at = op_created_at r, rec_updated_at = op_updated_at r\<rparr>))))"

definition get ::
  "url_parser \<Rightarrow> env \<Rightarrow> u64 \<Rightarrow> uuid \<Rightarrow> db \<Rightarrow> store_error + operation_record option" where
  "get parse e actor i s =
     res_bind (actor_check actor) (\<lambda>_.
       if \<not> up e then Inl Database
       else traverse_option (record_of_row parse)
         (find_row (\<lambda>r. op_actor r = sint actor \<and> op_id r = i) (ops s)))"

end
