(* ===== verification/Delivery.thy ===== *)
theory Delivery
  imports Queue Cache_Key
begin

text \<open>
  Delivering a claimed operation, of \<open>backend/crates/yoink-storage/src/store.rs\<close> and
  \<open>cache.rs\<close>: the single-message path, the batch with its units, stopping a batch, and the
  requeue that rejects a stale cached batch before anything was sent. A definition named
  \<open>sql_<file>\<close> is the statement of \<open>sql/<file>.sql\<close>.
\<close>

section \<open>One message\<close>

definition sql_begin_delivery :: "claim \<Rightarrow> int \<Rightarrow> db \<Rightarrow> store_error + nat \<times> db" where
  "sql_begin_delivery c now =
     update_ops (\<lambda>r. fenced c now r \<and> op_status r = Running \<and> \<not> op_cancel_requested r)
       (\<lambda>r. r\<lparr>op_status := Delivering, op_delivery_started_at := Some now, op_updated_at := now\<rparr>)"

definition begin_delivery :: "env \<Rightarrow> claim \<Rightarrow> db \<Rightarrow> unit outcome" where
  "begin_delivery e c =
     checked (validate_claim c) (\<lambda>s. or_stale (execute e (sql_begin_delivery c (clock e 0)) s))"

definition sql_complete_delivery :: "claim \<Rightarrow> int \<Rightarrow> int \<Rightarrow> db \<Rightarrow> store_error + nat \<times> db" where
  "sql_complete_delivery c message now =
     update_ops (\<lambda>r. fenced c now r \<and> op_status r = Delivering)
       (\<lambda>r. release (r\<lparr>op_status := Succeeded, op_message_id := Some message,
                      op_updated_at := now\<rparr>))"

definition complete_delivery :: "env \<Rightarrow> claim \<Rightarrow> i32 \<Rightarrow> db \<Rightarrow> unit outcome" where
  "complete_delivery e c message =
     checked (validate_claim c) (checked (if sint message \<le> 0 then Inl InvalidInput else Inr ())
       (\<lambda>s. or_stale (execute e (sql_complete_delivery c (sint message) (clock e 0)) s)))"

definition sql_delivery_unknown :: "claim \<Rightarrow> int \<Rightarrow> db \<Rightarrow> store_error + nat \<times> db" where
  "sql_delivery_unknown c now =
     update_ops (\<lambda>r. fenced c now r \<and> op_status r = Delivering)
       (\<lambda>r. release (r\<lparr>op_status := DeliveryUnknown, op_updated_at := now\<rparr>))"

definition delivery_unknown :: "env \<Rightarrow> claim \<Rightarrow> db \<Rightarrow> unit outcome" where
  "delivery_unknown e c =
     checked (validate_claim c) (\<lambda>s. or_stale (execute e (sql_delivery_unknown c (clock e 0)) s))"

definition sql_reject_delivery :: "claim \<Rightarrow> int \<Rightarrow> db \<Rightarrow> store_error + nat \<times> db" where
  "sql_reject_delivery c now =
     update_ops (\<lambda>r. fenced c now r \<and> op_status r = Delivering)
       (\<lambda>r. release (r\<lparr>op_status := Failed, op_updated_at := now\<rparr>))"

definition reject_delivery :: "env \<Rightarrow> claim \<Rightarrow> db \<Rightarrow> unit outcome" where
  "reject_delivery e c =
     checked (validate_claim c) (\<lambda>s. or_stale (execute e (sql_reject_delivery c (clock e 0)) s))"

section \<open>A batch\<close>

definition sql_begin_delivery_batch :: "claim \<Rightarrow> int \<Rightarrow> int \<Rightarrow> db \<Rightarrow> store_error + nat \<times> db" where
  "sql_begin_delivery_batch c artifacts now =
     update_ops (\<lambda>r. fenced c now r \<and> op_status r = Running \<and> \<not> op_cancel_requested r)
       (\<lambda>r. r\<lparr>op_status := Delivering, op_planned := Some artifacts, op_delivered := 0,
              op_delivery_started_at := Some now, op_updated_at := now\<rparr>)"

definition begin_delivery_batch :: "env \<Rightarrow> claim \<Rightarrow> u32 \<Rightarrow> db \<Rightarrow> bool outcome" where
  "begin_delivery_batch e c artifacts =
     checked (validate_claim c)
       (checked (if \<not> (1 \<le> artifacts \<and> artifacts \<le> 100) then Inl InvalidInput else Inr ())
         (\<lambda>s. is_one (execute e (sql_begin_delivery_batch c (uint artifacts) (clock e 0)) s)))"

definition attempt_units :: "uuid \<Rightarrow> int \<Rightarrow> db \<Rightarrow> unit_row list" where
  "attempt_units i a s = filter (\<lambda>u. u_op u = i \<and> u_attempt u = a) (units s)"

definition next_ordinal :: "unit_row list \<Rightarrow> int" where
  "next_ordinal us = (if us = [] then 0 else Max (set (map u_ordinal us)) + 1)"

definition sent_sum :: "unit_row list \<Rightarrow> int" where
  "sent_sum us = sum_list (map u_count (filter (\<lambda>u. u_status u = Sent) us))"

definition unit_ready :: "claim \<Rightarrow> int \<Rightarrow> int \<Rightarrow> int \<Rightarrow> db \<Rightarrow> op_row \<Rightarrow> bool" where
  "unit_ready c ordinal count now s r \<longleftrightarrow>
     fenced c now r \<and> op_status r = Delivering \<and> \<not> op_cancel_requested r
     \<and> (let us = attempt_units (op_id r) (op_attempt r) s in
        ordinal = next_ordinal us \<and> op_delivered r = sent_sum us \<and> count \<le> 10
        \<and> (case op_planned r of None \<Rightarrow> False | Some p \<Rightarrow> count \<le> p - op_delivered r)
        \<and> list_all (\<lambda>u. u_status u = Sent) us)"

definition new_unit :: "claim \<Rightarrow> int \<Rightarrow> int \<Rightarrow> int \<Rightarrow> unit_row" where
  "new_unit c ordinal count now =
     \<lparr>u_op = operation_id c, u_attempt = sint (attempt c), u_ordinal = ordinal, u_count = count,
      u_status = Sending, u_messages = None, u_updated_at = now\<rparr>"

definition sql_begin_delivery_unit ::
  "claim \<Rightarrow> int \<Rightarrow> int \<Rightarrow> int \<Rightarrow> db \<Rightarrow> store_error + nat \<times> db" where
  "sql_begin_delivery_unit c ordinal count now s =
     (let u = new_unit c ordinal count now in
      if \<not> list_ex (unit_ready c ordinal count now s) (ops s) then Inr (0, s)
      else if \<not> unit_checks u then Inl Database
      else if unit_key u \<in> set (map unit_key (units s)) then Inr (0, s)
      else Inr (1, s\<lparr>units := units s @ [u]\<rparr>))"

definition begin_delivery_unit :: "env \<Rightarrow> claim \<Rightarrow> u32 \<Rightarrow> u32 \<Rightarrow> db \<Rightarrow> bool outcome" where
  "begin_delivery_unit e c ordinal count =
     checked (validate_claim c)
       (checked (if ordinal > 99 \<or> \<not> (1 \<le> count \<and> count \<le> 10) then Inl InvalidInput else Inr ())
         (\<lambda>s. is_one (execute e
           (sql_begin_delivery_unit c (uint ordinal) (uint count) (clock e 0)) s)))"

text \<open>\<open>EXISTS(... runtime_operations ...)\<close> with the fence, as the unit statements have it.\<close>

definition delivering :: "claim \<Rightarrow> int \<Rightarrow> db \<Rightarrow> bool" where
  "delivering c now s \<longleftrightarrow> list_ex (\<lambda>r. fenced c now r \<and> op_status r = Delivering) (ops s)"

definition this_unit :: "claim \<Rightarrow> int \<Rightarrow> unit_status \<Rightarrow> unit_row \<Rightarrow> bool" where
  "this_unit c ordinal st u \<longleftrightarrow>
     u_op u = operation_id c \<and> u_attempt u = sint (attempt c) \<and> u_ordinal u = ordinal
     \<and> u_status u = st"

definition update_delivery_unit ::
  "env \<Rightarrow> (db \<Rightarrow> store_error + nat \<times> db) \<Rightarrow> (db \<Rightarrow> store_error + nat \<times> db) \<Rightarrow> db \<Rightarrow> bool outcome" where
  "update_delivery_unit e unit operation =
     transaction e (\<lambda>s.
       res_bind (unit s) (\<lambda>(n, s1).
         if n \<noteq> 1 then Inr (False, s)
         else res_bind (operation s1) (\<lambda>(m, s2).
           if m \<noteq> 1 then Inr (False, s) else Inr (True, s2))))"

definition sql_complete_delivery_unit ::
  "claim \<Rightarrow> int \<Rightarrow> int list \<Rightarrow> int \<Rightarrow> db \<Rightarrow> store_error + nat \<times> db" where
  "sql_complete_delivery_unit c ordinal ids now s =
     update_units (\<lambda>u. this_unit c ordinal Sending u \<and> int (length ids) = u_count u
         \<and> int (length (remdups ids)) = u_count u
         \<and> list_all (\<lambda>i. \<not> (i \<le> 0 \<or> i > i32_max)) ids \<and> delivering c now s)
       (\<lambda>u. u\<lparr>u_status := Sent, u_messages := Some ids, u_updated_at := now\<rparr>) s"

definition sent_row :: "int \<Rightarrow> int \<Rightarrow> int \<Rightarrow> op_row \<Rightarrow> op_row" where
  "sent_row count last_id now r =
     (let artifacts = op_delivered r + count; finished = (op_planned r = Some artifacts) in
      (if finished then release r else r)
        \<lparr>op_delivered := artifacts,
         op_message_id := (if finished then Some last_id else None),
         op_status := (if finished then Succeeded else Delivering),
         op_updated_at := now\<rparr>)"

definition sql_complete_delivery_unit_operation ::
  "claim \<Rightarrow> int \<Rightarrow> int \<Rightarrow> int \<Rightarrow> db \<Rightarrow> store_error + nat \<times> db" where
  "sql_complete_delivery_unit_operation c ordinal last_id now s =
     (case find_row (this_unit c ordinal Sent) (units s) of
        None \<Rightarrow> Inr (0, s)
      | Some u \<Rightarrow>
          update_ops (\<lambda>r. fenced c now r \<and> op_status r = Delivering
              \<and> op_delivered r
                = sent_sum (filter (\<lambda>v. u_ordinal v \<noteq> ordinal)
                    (attempt_units (operation_id c) (sint (attempt c)) s)))
            (sent_row (u_count u) last_id now) s)"

definition complete_delivery_unit ::
  "env \<Rightarrow> claim \<Rightarrow> u32 \<Rightarrow> i64 list \<Rightarrow> db \<Rightarrow> bool outcome" where
  "complete_delivery_unit e c ordinal message_ids =
     checked (validate_claim c)
       (checked (if ordinal > 99 \<or> message_ids = [] \<or> length message_ids > 10
             \<or> list_ex (\<lambda>i. sint i \<le> 0 \<or> sint i > i32_max) message_ids
           then Inl InvalidInput else Inr ())
         (checked (if \<not> distinct message_ids then Inl InvalidInput else Inr ())
           (let ids = map sint message_ids in
            update_delivery_unit e
              (sql_complete_delivery_unit c (uint ordinal) ids (clock e 0))
              (sql_complete_delivery_unit_operation c (uint ordinal) (last ids) (clock e 1)))))"

definition sql_reject_delivery_unit :: "claim \<Rightarrow> int \<Rightarrow> int \<Rightarrow> db \<Rightarrow> store_error + nat \<times> db" where
  "sql_reject_delivery_unit c ordinal now s =
     update_units (\<lambda>u. this_unit c ordinal Sending u \<and> delivering c now s)
       (\<lambda>u. u\<lparr>u_status := Rejected, u_updated_at := now\<rparr>) s"

definition rejected_row :: "int option \<Rightarrow> int \<Rightarrow> op_row \<Rightarrow> op_row" where
  "rejected_row retry_after now r =
     clear_progress (release
       (r\<lparr>op_status := (if op_delivered r > 0 then DeliveryPartial
                        else if op_cancel_requested r then Cancelled
                        else if retry_after \<noteq> None \<and> op_attempt r < op_max_attempts r then Queued
                        else Failed),
          op_available_at := (case retry_after of
              None \<Rightarrow> op_available_at r
            | Some wait \<Rightarrow>
                if op_delivered r = 0 \<and> \<not> op_cancel_requested r
                   \<and> op_attempt r < op_max_attempts r
                then now + max (op_retry_delay r) wait * 1000000 else op_available_at r),
          op_updated_at := now\<rparr>))"

definition sql_reject_delivery_unit_operation ::
  "claim \<Rightarrow> int \<Rightarrow> int option \<Rightarrow> int \<Rightarrow> db \<Rightarrow> store_error + nat \<times> db" where
  "sql_reject_delivery_unit_operation c ordinal retry_after now s =
     update_ops (\<lambda>r. fenced c now r \<and> op_status r = Delivering
         \<and> list_ex (this_unit c ordinal Rejected) (units s))
       (rejected_row retry_after now) s"

definition reject_delivery_unit ::
  "env \<Rightarrow> claim \<Rightarrow> u32 \<Rightarrow> duration option \<Rightarrow> db \<Rightarrow> bool outcome" where
  "reject_delivery_unit e c ordinal retry_after =
     checked (validate_claim c) (checked (if ordinal > 99 then Inl InvalidInput else Inr ())
       (case traverse_option retry_after_seconds retry_after of
          Inl x \<Rightarrow> (\<lambda>s. (Inl x, s))
        | Inr wait \<Rightarrow>
            update_delivery_unit e
              (sql_reject_delivery_unit c (uint ordinal) (clock e 0))
              (sql_reject_delivery_unit_operation c (uint ordinal) wait (clock e 1))))"

definition sql_unknown_delivery_unit :: "claim \<Rightarrow> int \<Rightarrow> int \<Rightarrow> db \<Rightarrow> store_error + nat \<times> db" where
  "sql_unknown_delivery_unit c ordinal now s =
     update_units (\<lambda>u. this_unit c ordinal Sending u \<and> delivering c now s)
       (\<lambda>u. u\<lparr>u_status := UnknownSend, u_updated_at := now\<rparr>) s"

definition sql_unknown_delivery_unit_operation ::
  "claim \<Rightarrow> int \<Rightarrow> int \<Rightarrow> db \<Rightarrow> store_error + nat \<times> db" where
  "sql_unknown_delivery_unit_operation c ordinal now s =
     update_ops (\<lambda>r. fenced c now r \<and> op_status r = Delivering
         \<and> list_ex (this_unit c ordinal UnknownSend) (units s))
       (\<lambda>r. release (r\<lparr>op_status := DeliveryUnknown, op_updated_at := now\<rparr>)) s"

definition unknown_delivery_unit :: "env \<Rightarrow> claim \<Rightarrow> u32 \<Rightarrow> db \<Rightarrow> bool outcome" where
  "unknown_delivery_unit e c ordinal =
     checked (validate_claim c) (checked (if ordinal > 99 then Inl InvalidInput else Inr ())
       (update_delivery_unit e
         (sql_unknown_delivery_unit c (uint ordinal) (clock e 0))
         (sql_unknown_delivery_unit_operation c (uint ordinal) (clock e 1))))"

section \<open>Stopping a batch\<close>

fun policy_stop :: "stop_delivery_reason \<Rightarrow> bool" where
  "policy_stop Denied = True" | "policy_stop NsfwBlocked = True"
| "policy_stop NsfwPolicyUnavailable = True" | "policy_stop _ = False"

fun content_failure_of :: "stop_delivery_reason \<Rightarrow> string option" where
  "content_failure_of NsfwBlocked = Some ''nsfw_blocked''"
| "content_failure_of NsfwPolicyUnavailable = Some ''nsfw_policy_unavailable''"
| "content_failure_of _ = None"

definition sql_stop_delivery_batch_mark ::
  "claim \<Rightarrow> stop_delivery_reason \<Rightarrow> int \<Rightarrow> db \<Rightarrow> store_error + nat \<times> db" where
  "sql_stop_delivery_batch_mark c reason now s =
     update_units (\<lambda>u. u_op u = operation_id c \<and> u_attempt u = sint (attempt c)
         \<and> u_status u = Sending
         \<and> list_ex (\<lambda>r. fenced c now r \<and> op_status r = Delivering
              \<and> (reason \<noteq> StopCancel \<or> op_cancel_requested r)) (ops s))
       (\<lambda>u. u\<lparr>u_status := UnknownSend, u_updated_at := now\<rparr>) s"

definition stopped_row :: "bool \<Rightarrow> stop_delivery_reason \<Rightarrow> int \<Rightarrow> op_row \<Rightarrow> op_row" where
  "stopped_row unknown reason now r =
     clear_progress (release
       (r\<lparr>op_status :=
            (if unknown then DeliveryUnknown
             else if op_delivered r > 0 then DeliveryPartial
             else if op_cancel_requested r \<or> reason = StopCancel then Cancelled
             else if policy_stop reason then Failed
             else if op_attempt r < op_max_attempts r then Queued
             else Failed),
          op_available_at :=
            (if op_delivered r = 0 \<and> \<not> op_cancel_requested r \<and> reason = Shutdown
                \<and> op_attempt r < op_max_attempts r
             then now + op_retry_delay r * 1000000 else op_available_at r),
          op_content_failure :=
            (if content_failure_of reason \<noteq> None then content_failure_of reason
             else op_content_failure r),
          op_updated_at := now\<rparr>))"

definition sql_stop_delivery_batch ::
  "claim \<Rightarrow> stop_delivery_reason \<Rightarrow> int \<Rightarrow> db \<Rightarrow> store_error + nat \<times> db" where
  "sql_stop_delivery_batch c reason now s =
     update_ops (\<lambda>r. fenced c now r \<and> op_status r = Delivering)
       (stopped_row (has_unit (operation_id c) (sint (attempt c)) UnknownSend s) reason now) s"

definition stop_delivery_batch :: "env \<Rightarrow> claim \<Rightarrow> stop_delivery_reason \<Rightarrow> db \<Rightarrow> bool outcome" where
  "stop_delivery_batch e c reason =
     checked (validate_claim c)
       (transaction e (\<lambda>s.
         res_bind (sql_stop_delivery_batch_mark c reason (clock e 0) s) (\<lambda>(_, s1).
         res_bind (sql_stop_delivery_batch c reason (clock e 1) s1) (\<lambda>(n, s2).
           if n \<noteq> 1 then Inr (False, s) else Inr (True, s2)))))"

section \<open>Requeueing a stale cached batch\<close>

definition validate_claim_cache :: "claim \<Rightarrow> store_error + unit" where
  "validate_claim_cache c =
     (if attempt c = 0 \<or> attempt c > 0x7FFFFFFF \<or> worker_id c = [] \<or> length (worker_id c) > 128
         \<or> \<not> list_all is_ascii (worker_id c) \<or> list_ex is_ascii_control (worker_id c)
      then Inl InvalidInput
      else if target (request c) = None then Inl InvalidInput else Inr ())"

definition sql_requeue_invalid_cache_mark ::
  "claim \<Rightarrow> string \<Rightarrow> i64 \<Rightarrow> int \<Rightarrow> db \<Rightarrow> store_error + nat \<times> db" where
  "sql_requeue_invalid_cache_mark c key b now s =
     (let us = attempt_units (operation_id c) (sint (attempt c)) s in
      update_units (\<lambda>u. this_unit c 0 Sending u
          \<and> \<not> list_ex (\<lambda>v. u_status v \<in> {Sending, UnknownSend} \<and> u_ordinal v \<noteq> 0) us
          \<and> list_ex (\<lambda>r. fenced c now r \<and> op_status r = Delivering \<and> \<not> op_cancel_requested r
               \<and> \<not> op_cache_bypassed r \<and> op_delivered r = 0
               \<and> uint (rd_actor_id (op_request r)) = op_actor r
               \<and> request_bot r = Some (sint b) \<and> op_cache_key r = Some key
               \<and> \<not> list_ex (\<lambda>v. u_status v = Sent) us) (ops s))
        (\<lambda>u. u\<lparr>u_status := Rejected, u_updated_at := now\<rparr>) s)"

definition requeued_row :: "int \<Rightarrow> op_row \<Rightarrow> op_row" where
  "requeued_row now r =
     clear_progress (release
       (r\<lparr>op_status := Queued, op_max_attempts := op_max_attempts r + 1, op_available_at := now,
          op_cache_bypassed := True, op_planned := None, op_delivered := 0,
          op_message_id := None, op_delivery_started_at := None, op_updated_at := now\<rparr>))"

definition sql_requeue_invalid_cache_operation ::
  "claim \<Rightarrow> int \<Rightarrow> db \<Rightarrow> store_error + nat \<times> db" where
  "sql_requeue_invalid_cache_operation c now s =
     update_ops (\<lambda>r. fenced c now r \<and> op_status r = Delivering
         \<and> list_ex (this_unit c 0 Rejected) (units s))
       (requeued_row now) s"

definition sql_requeue_invalid_cache_evict :: "claim \<Rightarrow> string \<Rightarrow> uuid \<Rightarrow> db \<Rightarrow> db" where
  "sql_requeue_invalid_cache_evict c key revision s =
     s\<lparr>media_cache := filter (\<lambda>m. \<not> (c_key m = key \<and> c_revision m = revision
         \<and> list_ex (\<lambda>r. op_id r = operation_id c \<and> op_attempt r = sint (attempt c)
              \<and> request_bot r = Some (c_bot m) \<and> op_actor r = c_actor m) (ops s)))
       (media_cache s)\<rparr>"

definition requeue_invalid_cache ::
  "digester \<Rightarrow> env \<Rightarrow> claim \<Rightarrow> u32 \<Rightarrow> uuid \<Rightarrow> db \<Rightarrow> bool outcome" where
  "requeue_invalid_cache digest e c ordinal revision s =
     checked (validate_claim_cache c) (\<lambda>s.
       if ordinal \<noteq> 0 then (Inr False, s)
       else (case res_bind (ok_or InvalidInput (target (request c))) (\<lambda>t.
                   res_bind (media_cache_key digest (request c)) (\<lambda>key. Inr (t, key))) of
               Inl x \<Rightarrow> (Inl x, s)
             | Inr (t, key) \<Rightarrow>
                 transaction e (\<lambda>s.
                   res_bind (sql_requeue_invalid_cache_mark c key (bot_id t) (clock e 0) s)
                     (\<lambda>(n, s1).
                   if n \<noteq> 1 then Inr (False, s)
                   else res_bind (sql_requeue_invalid_cache_operation c (clock e 1) s1) (\<lambda>(m, s2).
                     if m \<noteq> 1 then Inr (False, s)
                     else Inr (True, sql_requeue_invalid_cache_evict c key revision s2)))) s)) s"

end
