(* ===== verification/Queue_Invariant.thy ===== *)
theory Queue_Invariant
  imports Delivery
begin

text \<open>
  The invariant of the queue tables. A row keeps its constraints and its bounds; a queued or
  running operation has only rejected units, so nothing of it may have reached the chat; a
  delivering operation accounts for every unit of its current attempt and has at most one
  that is being sent.
\<close>

section \<open>The invariant\<close>

definition counts_sum :: "unit_row list \<Rightarrow> int" where
  "counts_sum us = sum_list (map u_count us)"

definition all_rejected :: "unit_row list \<Rightarrow> bool" where
  "all_rejected us \<longleftrightarrow> (\<forall>u \<in> set us. u_status u = Rejected)"

definition batch_inv :: "op_row \<Rightarrow> unit_row list \<Rightarrow> bool" where
  "batch_inv r cur \<longleftrightarrow>
     op_delivered r = sent_sum cur
     \<and> (\<forall>u \<in> set cur. u_status u = Sent \<or> u_status u = Sending)
     \<and> (\<forall>u \<in> set cur. \<forall>v \<in> set cur.
          u_status u = Sending \<longrightarrow> u_status v = Sending \<longrightarrow> u_ordinal u = u_ordinal v)
     \<and> (case op_planned r of None \<Rightarrow> cur = [] | Some p \<Rightarrow> counts_sum cur \<le> p)"

definition this_attempt :: "op_row \<Rightarrow> unit_row list \<Rightarrow> unit_row list" where
  "this_attempt r us = filter (\<lambda>u. u_attempt u = op_attempt r) us"

definition bounds_inv :: "op_row \<Rightarrow> bool" where
  "bounds_inv r \<longleftrightarrow>
     op_attempt r \<le> op_max_attempts r
     \<and> op_max_attempts r \<le> 100 + (if op_cache_bypassed r then 1 else 0)"

definition units_inv :: "op_row \<Rightarrow> unit_row list \<Rightarrow> bool" where
  "units_inv r us \<longleftrightarrow>
     (\<forall>u \<in> set us. unit_checks u \<and> u_attempt u \<le> op_attempt r
        \<and> (u_attempt u < op_attempt r \<longrightarrow> u_status u = Rejected))"

fun status_inv :: "operation_status \<Rightarrow> op_row \<Rightarrow> unit_row list \<Rightarrow> bool" where
  "status_inv Queued r us \<longleftrightarrow> \<not> op_cancel_requested r \<and> all_rejected us"
| "status_inv Running r us \<longleftrightarrow>
     op_planned r = None \<and> op_delivered r = 0 \<and> all_rejected us \<and> this_attempt r us = []
     \<and> 0 < op_attempt r"
| "status_inv Delivering r us \<longleftrightarrow> batch_inv r (this_attempt r us) \<and> 0 < op_attempt r"
| "status_inv _ r us \<longleftrightarrow> True"

definition row_inv :: "op_row \<Rightarrow> unit_row list \<Rightarrow> bool" where
  "row_inv r us \<longleftrightarrow>
     op_checks r \<and> bounds_inv r \<and> units_inv r us \<and> status_inv (op_status r) r us"

definition units_of :: "uuid \<Rightarrow> db \<Rightarrow> unit_row list" where
  "units_of i s = filter (\<lambda>u. u_op u = i) (units s)"

definition op_unique :: "op_row \<Rightarrow> int \<times> string" where
  "op_unique r = (op_actor r, op_key r)"

definition db_inv :: "db \<Rightarrow> bool" where
  "db_inv s \<longleftrightarrow>
     distinct (map op_id (ops s)) \<and> distinct (map op_unique (ops s))
     \<and> distinct (map unit_key (units s))
     \<and> (\<forall>u \<in> set (units s). u_op u \<in> op_id ` set (ops s))
     \<and> (\<forall>r \<in> set (ops s). row_inv r (units_of (op_id r) s))"

lemma db_inv_row: "db_inv s \<Longrightarrow> r \<in> set (ops s) \<Longrightarrow> row_inv r (units_of (op_id r) s)"
  by (simp add: db_inv_def)

lemma db_inv_same_id:
  "db_inv s \<Longrightarrow> r \<in> set (ops s) \<Longrightarrow> r' \<in> set (ops s) \<Longrightarrow> op_id r = op_id r' \<Longrightarrow> r = r'"
  unfolding db_inv_def by (blast intro: distinct_key_eq)

section \<open>Changing the rows of one operation\<close>

text \<open>Every transaction of the queue changes one operation and units of it, and no key.\<close>

lemma units_of_update:
  assumes "\<And>u. q u \<Longrightarrow> unit_key (g u) = unit_key u"
  shows "filter (\<lambda>u. u_op u = i) (update_where q g us) = update_where q g (filter (\<lambda>u. u_op u = i) us)"
proof (rule filter_update_where_stable)
  fix u assume "q u"
  from assms [OF this] show "(u_op (g u) = i) = (u_op u = i)" by (simp add: unit_key_def)
qed

lemma update_where_id: "(\<And>r. r \<in> set t \<Longrightarrow> \<not> p r) \<Longrightarrow> update_where p f t = t"
  by (induction t) auto

lemma db_inv_change:
  assumes inv: "db_inv s"
    and ops: "ops s' = update_where p f (ops s)"
    and units: "units s' = update_where q g (units s)"
    and p: "\<And>r. p r \<Longrightarrow> op_id r = i" and q: "\<And>u. q u \<Longrightarrow> u_op u = i"
    and f: "\<And>r. p r \<Longrightarrow> op_id (f r) = op_id r \<and> op_unique (f r) = op_unique r"
    and g: "\<And>u. q u \<Longrightarrow> unit_key (g u) = unit_key u"
    and row: "\<And>r. r \<in> set (ops s) \<Longrightarrow> op_id r = i \<Longrightarrow>
      row_inv (if p r then f r else r) (update_where q g (units_of i s))"
  shows "db_inv s'"
proof -
  have ids: "map op_id (ops s') = map op_id (ops s)"
    unfolding ops by (rule map_update_where) (simp add: f)
  have uniq: "map op_unique (ops s') = map op_unique (ops s)"
    unfolding ops by (rule map_update_where) (simp add: f)
  have keys: "map unit_key (units s') = map unit_key (units s)"
    unfolding units by (rule map_update_where) (simp add: g)
  have own: "u_op u \<in> op_id ` set (ops s')" if "u \<in> set (units s')" for u
  proof -
    from that have "unit_key u \<in> set (map unit_key (units s'))" by simp
    then have "unit_key u \<in> set (map unit_key (units s))" by (simp only: keys)
    then obtain v where "v \<in> set (units s)" "unit_key v = unit_key u" by auto
    moreover from this have "u_op v \<in> op_id ` set (ops s)" using inv by (simp add: db_inv_def)
    moreover have "op_id ` set (ops s') = op_id ` set (ops s)" using ids by (metis set_map)
    ultimately show ?thesis by (simp add: unit_key_def)
  qed
  have rows: "row_inv r' (units_of (op_id r') s')" if "r' \<in> set (ops s')" for r'
  proof -
    from that obtain r where r: "r \<in> set (ops s)" "r' = (if p r then f r else r)"
      unfolding ops update_where_def by auto
    have id: "op_id r' = op_id r" using r(2) f by auto
    have us: "units_of (op_id r) s' = update_where q g (units_of (op_id r) s)"
      unfolding units_of_def units by (rule units_of_update) (rule g)
    show ?thesis
    proof (cases "op_id r = i")
      case True
      with row [OF r(1)] r(2) id us show ?thesis by simp
    next
      case False
      then have "r' = r" using r(2) p by auto
      moreover have "update_where q g (units_of (op_id r) s) = units_of (op_id r) s"
        by (rule update_where_id) (use q False in \<open>auto simp: units_of_def\<close>)
      ultimately show ?thesis using us id db_inv_row [OF inv r(1)] by simp
    qed
  qed
  show ?thesis
    using inv own rows unfolding db_inv_def ids uniq keys by blast
qed

lemma db_inv_ops_only:
  assumes "db_inv s" and "units s' = units s" and "ops s' = update_where p f (ops s)"
    and "\<And>r. p r \<Longrightarrow> op_id r = i"
    and "\<And>r. p r \<Longrightarrow> op_id (f r) = op_id r \<and> op_unique (f r) = op_unique r"
    and "\<And>r us. p r \<Longrightarrow> row_inv r us \<Longrightarrow> row_inv (f r) us"
  shows "db_inv s'"
proof (rule db_inv_change [where q = "\<lambda>_. False" and g = id, OF assms(1,3)])
  show "units s' = update_where (\<lambda>_. False) id (units s)" by (simp add: assms(2) update_where_def)
  fix r assume "r \<in> set (ops s)" "op_id r = i"
  then show "row_inv (if p r then f r else r) (update_where (\<lambda>_. False) id (units_of i s))"
    using db_inv_row [OF assms(1)] assms(6) by (auto simp: update_where_def)
qed (use assms in simp_all)

text \<open>A statement on the operations alone: it cannot break a constraint, and it keeps the invariant.\<close>

lemma update_ops_keeps:
  assumes inv: "db_inv s"
    and p: "\<And>r. p r \<Longrightarrow> op_id r = i"
    and f: "\<And>r. p r \<Longrightarrow> op_id (f r) = op_id r \<and> op_unique (f r) = op_unique r"
    and row: "\<And>r us. p r \<Longrightarrow> row_inv r us \<Longrightarrow> row_inv (f r) us"
  obtains s' where "update_ops p f s = Inr (count_where p (ops s), s')" "db_inv s'"
    "s' = s\<lparr>ops := update_where p f (ops s)\<rparr>"
proof -
  have "list_all (\<lambda>r. p r \<longrightarrow> op_checks (f r)) (ops s)"
    using db_inv_row [OF inv] row by (auto simp: list_all_iff row_inv_def)
  moreover have "db_inv (s\<lparr>ops := update_where p f (ops s)\<rparr>)"
    by (rule db_inv_ops_only [OF inv _ _ p f row]) simp_all
  ultimately show thesis using that by (simp add: update_ops_def)
qed

section \<open>Rows\<close>

lemma release_simps [simp]:
  "op_id (release r) = op_id r" "op_actor (release r) = op_actor r" "op_key (release r) = op_key r"
  "op_status (release r) = op_status r" "op_attempt (release r) = op_attempt r"
  "op_max_attempts (release r) = op_max_attempts r"
  "op_cancel_requested (release r) = op_cancel_requested r"
  "op_cache_bypassed (release r) = op_cache_bypassed r"
  "op_planned (release r) = op_planned r" "op_delivered (release r) = op_delivered r"
  "op_request (release r) = op_request r" "op_message_id (release r) = op_message_id r"
  by (simp_all add: release_def)

lemma clear_progress_simps [simp]:
  "op_id (clear_progress r) = op_id r" "op_actor (clear_progress r) = op_actor r"
  "op_key (clear_progress r) = op_key r"
  "op_status (clear_progress r) = op_status r" "op_attempt (clear_progress r) = op_attempt r"
  "op_max_attempts (clear_progress r) = op_max_attempts r"
  "op_cancel_requested (clear_progress r) = op_cancel_requested r"
  "op_cache_bypassed (clear_progress r) = op_cache_bypassed r"
  "op_planned (clear_progress r) = op_planned r" "op_delivered (clear_progress r) = op_delivered r"
  "op_request (clear_progress r) = op_request r" "op_message_id (clear_progress r) = op_message_id r"
  by (simp_all add: clear_progress_def)

lemmas row_defs = op_checks_def leased_def unleased_def release_def clear_progress_def

lemma status_inv_ended: "\<not> pending st \<Longrightarrow> status_inv st r us"
  by (cases st) simp_all

lemma units_inv_same: "op_attempt r' = op_attempt r \<Longrightarrow> units_inv r us \<Longrightarrow> units_inv r' us"
  by (simp add: units_inv_def)

lemma row_inv_ended:
  assumes "row_inv r us" and "op_checks r'" and "\<not> pending (op_status r')"
    and "op_attempt r' = op_attempt r" and "op_max_attempts r' = op_max_attempts r"
    and "op_cache_bypassed r' = op_cache_bypassed r"
  shows "row_inv r' us"
  using assms by (simp add: row_inv_def bounds_inv_def status_inv_ended units_inv_same [OF assms(4)])

text \<open>A change of the columns the invariant does not read, under an unchanged status.\<close>

lemma batch_inv_same:
  "op_planned r' = op_planned r \<Longrightarrow> op_delivered r' = op_delivered r \<Longrightarrow>
    batch_inv r' cur = batch_inv r cur"
  by (simp only: batch_inv_def)

lemma this_attempt_same: "op_attempt r' = op_attempt r \<Longrightarrow> this_attempt r' us = this_attempt r us"
  by (simp only: this_attempt_def)

lemma status_inv_frame:
  assumes "status_inv st r us" and "op_attempt r' = op_attempt r"
    and "op_planned r' = op_planned r" and "op_delivered r' = op_delivered r"
    and "st = Queued \<longrightarrow> op_cancel_requested r' = op_cancel_requested r"
  shows "status_inv st r' us"
  using assms
  by (cases st) (simp_all add: this_attempt_same [OF assms(2)] batch_inv_same [OF assms(3,4)])

lemma row_inv_frame:
  assumes "row_inv r us" and "op_checks r'" and "op_status r' = op_status r"
    and "op_attempt r' = op_attempt r" and "op_max_attempts r' = op_max_attempts r"
    and "op_cache_bypassed r' = op_cache_bypassed r" and "op_planned r' = op_planned r"
    and "op_delivered r' = op_delivered r"
    and "op_status r = Queued \<longrightarrow> op_cancel_requested r' = op_cancel_requested r"
  shows "row_inv r' us"
proof -
  have "status_inv (op_status r) r us" "units_inv r us" "bounds_inv r"
    using assms(1) by (simp_all add: row_inv_def)
  then have "status_inv (op_status r) r' us" "units_inv r' us" "bounds_inv r'"
    by (auto intro: status_inv_frame [OF _ assms(4,7,8,9)] units_inv_same [OF assms(4)])
      (simp add: bounds_inv_def assms)
  with assms(2,3) show ?thesis by (simp add: row_inv_def)
qed

lemma running_all_rejected: "row_inv r us \<Longrightarrow> op_status r = Running \<Longrightarrow> all_rejected us"
  by (simp add: row_inv_def)

lemma sent_sum_nonneg: "\<forall>u \<in> set us. unit_checks u \<Longrightarrow> 0 \<le> sent_sum us"
  unfolding sent_sum_def by (rule sum_list_nonneg) (auto simp: unit_checks_def)

lemma sent_sum_0_iff:
  "\<forall>u \<in> set us. unit_checks u \<Longrightarrow> sent_sum us = 0 \<longleftrightarrow> (\<forall>u \<in> set us. u_status u \<noteq> Sent)"
proof (induction us)
  case Nil
  then show ?case by (simp add: sent_sum_def)
next
  case (Cons u us)
  then have "0 \<le> sent_sum us" by (intro sent_sum_nonneg) simp
  moreover have "1 \<le> u_count u" using Cons.prems by (simp add: unit_checks_def)
  ultimately show ?case using Cons by (auto simp: sent_sum_def)
qed

end
