(* ===== verification/Queue_Steps.thy ===== *)
theory Queue_Steps
  imports Queue_Invariant
begin

text \<open>
  Every call of the queue and of the delivery keeps the invariant of \<open>Queue_Invariant\<close>, and
  none of its statements breaks a constraint of the tables: a call that reaches the database
  does not come back with a database error.
\<close>

named_theorems keeps_intros

definition sound_stmt :: "(db \<Rightarrow> store_error + nat \<times> db) \<Rightarrow> bool" where
  "sound_stmt stmt \<longleftrightarrow> (\<forall>s. db_inv s \<longrightarrow> (\<exists>n s'. stmt s = Inr (n, s') \<and> db_inv s'))"

definition keeps :: "env \<Rightarrow> (db \<Rightarrow> 'a outcome) \<Rightarrow> bool" where
  "keeps e h \<longleftrightarrow>
     (\<forall>s. db_inv s \<longrightarrow> db_inv (snd (h s)) \<and> (up e \<longrightarrow> fst (h s) \<noteq> Inl Database))"

lemma keepsD: "keeps e h \<Longrightarrow> db_inv s \<Longrightarrow> db_inv (snd (h s))"
  by (simp add: keeps_def)

lemma keeps_no_error: "keeps e h \<Longrightarrow> db_inv s \<Longrightarrow> up e \<Longrightarrow> fst (h s) \<noteq> Inl Database"
  by (simp add: keeps_def)

lemma keeps_checked [keeps_intros]:
  "v \<noteq> Inl Database \<Longrightarrow> (v = Inr () \<Longrightarrow> keeps e h) \<Longrightarrow> keeps e (checked v h)"
  by (cases v) (auto simp: keeps_def checked_def)

lemma execute_sound:
  assumes "sound_stmt stmt" and "db_inv s"
  obtains "\<not> up e" "execute e stmt s = (Inl Database, s)"
    | n s' where "up e" "execute e stmt s = (Inr n, s')" "db_inv s'"
proof (cases "up e")
  case True
  from assms obtain n s' where "stmt s = Inr (n, s')" "db_inv s'" by (auto simp: sound_stmt_def)
  with True show thesis by (intro that(2) [of n s']) (simp_all add: execute_def)
next
  case False
  then show thesis by (intro that(1)) (simp_all add: execute_def)
qed

lemma keeps_or_stale [keeps_intros]: "sound_stmt stmt \<Longrightarrow> keeps e (\<lambda>s. or_stale (execute e stmt s))"
  unfolding keeps_def by (intro allI impI, erule (1) execute_sound) (auto simp: or_stale_def split: if_splits)

lemma keeps_is_one [keeps_intros]: "sound_stmt stmt \<Longrightarrow> keeps e (\<lambda>s. is_one (execute e stmt s))"
  unfolding keeps_def by (intro allI impI, erule (1) execute_sound) (auto simp: is_one_def)

lemma keeps_is_some_row [keeps_intros]:
  "sound_stmt stmt \<Longrightarrow> keeps e (\<lambda>s. is_some_row (execute e stmt s))"
  unfolding keeps_def by (intro allI impI, erule (1) execute_sound) (auto simp: is_some_row_def)

lemma keeps_transaction:
  assumes "\<And>s x. db_inv s \<Longrightarrow> body s = Inl x \<Longrightarrow> x \<noteq> Database"
    and "\<And>s a s'. db_inv s \<Longrightarrow> body s = Inr (a, s') \<Longrightarrow> db_inv s'"
  shows "keeps e (transaction e body)"
  using assms by (auto simp: keeps_def transaction_def split: sum.splits)

lemma sound_update_ops:
  assumes "\<And>r. p r \<Longrightarrow> op_id r = i"
    and "\<And>r. p r \<Longrightarrow> op_id (f r) = op_id r \<and> op_unique (f r) = op_unique r"
    and "\<And>r us. p r \<Longrightarrow> row_inv r us \<Longrightarrow> row_inv (f r) us"
  shows "sound_stmt (update_ops p f)"
  unfolding sound_stmt_def using update_ops_keeps [where p = p and f = f, OF _ assms] by metis

lemma validate_not_database [simp]:
  "validate_claim c \<noteq> Inl Database" "validate_worker w \<noteq> Inl Database"
  "validate_lease l \<noteq> Inl Database" "claim_policy_validate p \<noteq> Inl Database"
  "actor_check a \<noteq> Inl Database" "validate_claim_cache c \<noteq> Inl Database"
  by (auto simp: validate_claim_def validate_worker_def validate_lease_def
      claim_policy_validate_def actor_check_def validate_claim_cache_def)

lemma fencedD:
  "fenced c now r \<Longrightarrow> op_id r = operation_id c \<and> op_attempt r = sint (attempt c) \<and> lease_live now r"
  by (simp add: fenced_def)

section \<open>Working on a claim\<close>

lemma update_progress_keeps:
  assumes "percent \<le> 100" shows "sound_stmt (sql_update_progress c percent stage now)"
  unfolding sql_update_progress_def
proof (rule sound_update_ops [where i = "operation_id c"])
  fix r us
  assume inv: "row_inv r us"
  show "row_inv (r\<lparr>op_progress_percent := Some (uint percent), op_progress_stage := Some stage,
      op_updated_at := now\<rparr>) us"
    by (rule row_inv_frame [OF inv])
      (use inv assms in \<open>simp_all add: row_inv_def op_checks_def leased_def unleased_def word_le_def\<close>)
qed (auto simp: fenced_def op_unique_def)

lemma heartbeat_row:
  assumes inv: "row_inv r us" and "active (op_status r)"
  shows "row_inv (r\<lparr>op_expires := Some t, op_updated_at := now\<rparr>) us"
  by (rule row_inv_frame [OF inv])
    (use assms in \<open>simp_all add: row_inv_def op_checks_def leased_def unleased_def\<close>)

lemma complete_keeps: "sound_stmt (sql_complete c now)"
  unfolding sql_complete_def
  by (rule sound_update_ops [where i = "operation_id c"])
    (auto simp: fenced_def op_unique_def row_inv_def row_defs bounds_inv_def units_inv_def)

lemma failed_row_inv:
  assumes "row_inv r us" and "op_status r = Running" and "pred_option (\<lambda>x. x \<in> set failure_codes) code"
  shows "row_inv (failed_row retryable code now r) us"
  using assms by (auto simp: failed_row_def row_inv_def row_defs bounds_inv_def units_inv_def)

lemma fail_keeps:
  "pred_option (\<lambda>x. x \<in> set failure_codes) code \<Longrightarrow> sound_stmt (sql_fail c retryable code now)"
  unfolding sql_fail_def
  by (rule sound_update_ops [where i = "operation_id c"])
    (auto simp: fenced_def op_unique_def failed_row_inv, simp_all add: failed_row_def)

lemma cancelled_row:
  assumes inv: "row_inv r us" and "pending (op_status r)"
  shows "row_inv (r\<lparr>op_status := (if op_status r = Queued then Cancelled else op_status r),
      op_cancel_requested := True, op_updated_at := now\<rparr>) us"
proof (cases "op_status r = Queued")
  case True
  show ?thesis
    by (rule row_inv_ended [OF inv])
      (use inv True in \<open>simp_all add: row_inv_def op_checks_def leased_def unleased_def\<close>)
next
  case False
  show ?thesis
    by (rule row_inv_frame [OF inv])
      (use inv False in \<open>simp_all add: row_inv_def op_checks_def leased_def unleased_def\<close>)
qed

lemma cancel_keeps: "sound_stmt (sql_cancel actor i now)"
  unfolding sql_cancel_def
  by (rule sound_update_ops [where i = i]) (simp_all add: op_unique_def cancelled_row)

lemma ack_cancel_keeps: "sound_stmt (sql_ack_cancel c now)"
  unfolding sql_ack_cancel_def
  by (rule sound_update_ops [where i = "operation_id c"])
    (auto simp: fenced_def op_unique_def row_inv_def row_defs bounds_inv_def units_inv_def)

section \<open>Delivery of one message, and the start of a batch\<close>

lemma running_to_delivering:
  assumes "row_inv r us" and "op_status r = Running" and "pred_option (\<lambda>p. 1 \<le> p \<and> p \<le> 100) planned"
  shows "row_inv (r\<lparr>op_status := Delivering, op_planned := planned, op_delivered := 0,
    op_delivery_started_at := Some now, op_updated_at := now\<rparr>) us"
  using assms
  by (auto simp: row_inv_def row_defs bounds_inv_def units_inv_def this_attempt_def batch_inv_def
      sent_sum_def counts_sum_def split: option.splits)

lemma begin_delivery_keeps: "sound_stmt (sql_begin_delivery c now)"
  unfolding sql_begin_delivery_def
proof (rule sound_update_ops [where i = "operation_id c"])
  fix r us
  assume p: "fenced c now r \<and> op_status r = Running \<and> \<not> op_cancel_requested r"
    and inv: "row_inv r us"
  then have "r\<lparr>op_status := Delivering, op_delivery_started_at := Some now, op_updated_at := now\<rparr>
    = r\<lparr>op_status := Delivering, op_planned := None, op_delivered := 0,
        op_delivery_started_at := Some now, op_updated_at := now\<rparr>"
    by (simp add: row_inv_def)
  with running_to_delivering [OF inv, of None] p
  show "row_inv (r\<lparr>op_status := Delivering, op_delivery_started_at := Some now,
      op_updated_at := now\<rparr>) us" by simp
qed (auto simp: fenced_def op_unique_def)

lemma begin_delivery_batch_keeps:
  "1 \<le> n \<Longrightarrow> n \<le> 100 \<Longrightarrow> sound_stmt (sql_begin_delivery_batch c n now)"
  unfolding sql_begin_delivery_batch_def
  by (rule sound_update_ops [where i = "operation_id c"])
    (use running_to_delivering [where planned = "Some n"] in \<open>auto simp: fenced_def op_unique_def\<close>)

lemma delivering_ended:
  assumes "row_inv r us" and "op_status r = Delivering" and "\<not> pending st"
    and "if st = Succeeded then pred_option (\<lambda>m. 0 < m) message else message = None"
  shows "row_inv (release (r\<lparr>op_status := st, op_message_id := message, op_updated_at := now\<rparr>)) us"
  using assms(1)
proof (rule row_inv_ended)
  show "op_checks (release (r\<lparr>op_status := st, op_message_id := message, op_updated_at := now\<rparr>))"
    using assms by (cases st) (auto simp: row_inv_def row_defs)
qed (use assms in simp_all)

lemma complete_delivery_keeps: "0 < message \<Longrightarrow> sound_stmt (sql_complete_delivery c message now)"
  unfolding sql_complete_delivery_def
  by (rule sound_update_ops [where i = "operation_id c"])
    (use delivering_ended [where st = Succeeded and message = "Some message"]
      in \<open>auto simp: fenced_def op_unique_def\<close>)

lemma delivery_unknown_keeps: "sound_stmt (sql_delivery_unknown c now)"
  unfolding sql_delivery_unknown_def
proof (rule sound_update_ops [where i = "operation_id c"])
  fix r us
  assume p: "fenced c now r \<and> op_status r = Delivering" and inv: "row_inv r us"
  show "row_inv (release (r\<lparr>op_status := DeliveryUnknown, op_updated_at := now\<rparr>)) us"
    by (rule row_inv_ended [OF inv])
      (use p inv in \<open>simp_all add: row_inv_def op_checks_def unleased_def release_def\<close>)
qed (auto simp: fenced_def op_unique_def)

lemma reject_delivery_keeps: "sound_stmt (sql_reject_delivery c now)"
  unfolding sql_reject_delivery_def
proof (rule sound_update_ops [where i = "operation_id c"])
  fix r us
  assume p: "fenced c now r \<and> op_status r = Delivering" and inv: "row_inv r us"
  show "row_inv (release (r\<lparr>op_status := Failed, op_updated_at := now\<rparr>)) us"
    by (rule row_inv_ended [OF inv])
      (use p inv in \<open>simp_all add: row_inv_def op_checks_def unleased_def release_def\<close>)
qed (auto simp: fenced_def op_unique_def)

end
