(* ===== verification/Delivery_Steps.thy ===== *)
theory Delivery_Steps
  imports Queue_Steps
begin

text \<open>
  The batch transactions keep the invariant: sending, confirming, rejecting and losing a unit,
  stopping a batch and requeueing a stale cached one. The arithmetic of the units of one
  attempt comes first.
\<close>

section \<open>The units of one attempt\<close>

lemma attempt_units_eq:
  "attempt_units (op_id r) (op_attempt r) s = this_attempt r (units_of (op_id r) s)"
  by (simp add: attempt_units_def this_attempt_def units_of_def)

lemma distinct_ordinals:
  assumes "distinct (map unit_key (units s))"
  shows "distinct (map u_ordinal (attempt_units i a s))"
proof -
  have "distinct (map unit_key (attempt_units i a s))"
    using assms by (simp add: attempt_units_def distinct_map_filter)
  then show ?thesis
    by (auto simp: distinct_map inj_on_def attempt_units_def unit_key_def)
qed

lemma sent_sum_simps [simp]:
  "sent_sum [] = 0"
  "sent_sum (u # us) = (if u_status u = Sent then u_count u else 0) + sent_sum us"
  by (simp_all add: sent_sum_def)

lemma counts_sum_simps [simp]:
  "counts_sum [] = 0" "counts_sum (u # us) = u_count u + counts_sum us"
  by (simp_all add: counts_sum_def)

lemma sent_sum_append [simp]: "sent_sum (us @ vs) = sent_sum us + sent_sum vs"
  by (simp add: sent_sum_def)

lemma counts_sum_append [simp]: "counts_sum (us @ vs) = counts_sum us + counts_sum vs"
  by (simp add: counts_sum_def)

lemma unit_checks_count: "unit_checks u \<Longrightarrow> 1 \<le> u_count u \<and> u_count u \<le> 10"
  and unit_checks_ordinal: "unit_checks u \<Longrightarrow> 0 \<le> u_ordinal u"
  by (simp_all add: unit_checks_def)

lemma sent_sum_le_counts: "\<forall>u \<in> set us. unit_checks u \<Longrightarrow> sent_sum us \<le> counts_sum us"
  by (induction us) (auto dest: unit_checks_count)

lemma sent_sum_all: "\<forall>u \<in> set us. u_status u = Sent \<Longrightarrow> sent_sum us = counts_sum us"
  by (induction us) auto

lemma counts_sum_update:
  "(\<And>u. q u \<Longrightarrow> u_count (g u) = u_count u) \<Longrightarrow> counts_sum (update_where q g us) = counts_sum us"
  by (induction us) auto

lemma sent_sum_split:
  assumes "distinct (map u_ordinal us)" and "u \<in> set us" and "u_status u = Sent"
  shows "sent_sum us = sent_sum (filter (\<lambda>v. u_ordinal v \<noteq> u_ordinal u) us) + u_count u"
  using assms
proof (induction us)
  case (Cons v us)
  show ?case
  proof (cases "v = u")
    case True
    with Cons.prems(1) have "u_ordinal u \<notin> u_ordinal ` set us" by simp
    then have "\<forall>w \<in> set us. u_ordinal w \<noteq> u_ordinal u" by (metis image_eqI)
    then have "filter (\<lambda>w. u_ordinal w \<noteq> u_ordinal u) us = us" by (simp add: filter_id_conv)
    with True Cons.prems show ?thesis by simp
  next
    case False
    with Cons.prems have "u \<in> set us" "u_ordinal v \<noteq> u_ordinal u" by force+
    with Cons show ?thesis by simp
  qed
qed simp

lemma next_ordinal_fresh:
  assumes "u \<in> set us" shows "u_ordinal u < next_ordinal us"
proof -
  have "u_ordinal u \<le> Max (set (map u_ordinal us))" using assms by (intro Max_ge) simp_all
  then show ?thesis using assms by (auto simp: next_ordinal_def)
qed

lemma next_ordinal_nonneg: "\<forall>u \<in> set us. unit_checks u \<Longrightarrow> 0 \<le> next_ordinal us"
proof (cases us)
  case (Cons u vs)
  assume "\<forall>u \<in> set us. unit_checks u"
  then have "0 \<le> u_ordinal u" using Cons by (simp add: unit_checks_ordinal)
  moreover have "u_ordinal u < next_ordinal us" using Cons by (intro next_ordinal_fresh) simp
  ultimately show ?thesis by simp
qed (simp add: next_ordinal_def)

lemma row_units_checks:
  "row_inv r us \<Longrightarrow> \<forall>u \<in> set (this_attempt r us). unit_checks u"
  by (auto simp: row_inv_def units_inv_def this_attempt_def)

lemma delivering_batch: "row_inv r us \<Longrightarrow> op_status r = Delivering \<Longrightarrow> batch_inv r (this_attempt r us)"
  by (simp add: row_inv_def)

lemma delivering_attempt: "row_inv r us \<Longrightarrow> op_status r = Delivering \<Longrightarrow> 0 < op_attempt r"
  by (simp add: row_inv_def)

section \<open>Marking units\<close>

text \<open>
  A mark moves units of the row's current attempt from sending to another status. With the
  row's new status it re-establishes the row's invariant.
\<close>

definition marks :: "op_row \<Rightarrow> (unit_row \<Rightarrow> bool) \<Rightarrow> (unit_row \<Rightarrow> unit_row) \<Rightarrow> bool" where
  "marks r q g \<longleftrightarrow>
     (\<forall>u. q u \<longrightarrow> u_op u = op_id r \<and> u_attempt u = op_attempt r \<and> u_status u = Sending
        \<and> unit_key (g u) = unit_key u \<and> u_count (g u) = u_count u
        \<and> (unit_checks u \<longrightarrow> unit_checks (g u)))"

lemma marks_attempt: "marks r q g \<Longrightarrow> q u \<Longrightarrow> u_attempt (g u) = u_attempt u"
  by (auto simp: marks_def unit_key_def)

lemma units_inv_marked:
  assumes "units_inv r us" and "marks r q g" shows "units_inv r (update_where q g us)"
  using assms marks_attempt [OF assms(2)]
  unfolding units_inv_def set_update_where marks_def by fastforce

lemma this_attempt_marked:
  assumes "marks r q g"
  shows "this_attempt r (update_where q g us) = update_where q g (this_attempt r us)"
  unfolding this_attempt_def
  by (rule filter_update_where_stable) (use marks_attempt [OF assms] in simp)

lemma row_inv_marked_ended:
  assumes "row_inv r us" and "marks r q g" and "op_checks r'" and "bounds_inv r'"
    and "\<not> pending (op_status r')" and "op_attempt r' = op_attempt r"
  shows "row_inv r' (update_where q g us)"
  using assms units_inv_same [OF assms(6) units_inv_marked [OF _ assms(2)]]
  by (simp add: row_inv_def status_inv_ended)

lemma row_inv_marked_queued:
  assumes "row_inv r us" and "marks r q g" and "op_checks r'" and "bounds_inv r'"
    and "op_status r' = Queued" and "op_attempt r' = op_attempt r" and "\<not> op_cancel_requested r'"
    and "\<And>u. u \<in> set (this_attempt r us) \<Longrightarrow> q u \<and> u_status (g u) = Rejected \<or> u_status u = Rejected"
  shows "row_inv r' (update_where q g us)"
proof -
  have u: "units_inv r us" using assms(1) by (simp add: row_inv_def)
  have "u_status v = Rejected" if "v \<in> set (update_where q g us)" for v
  proof -
    from that obtain u where m: "u \<in> set us" "v = (if q u then g u else u)"
      by (auto simp: update_where_def)
    show ?thesis
    proof (cases "u_attempt u = op_attempt r")
      case True
      with m(1) have "u \<in> set (this_attempt r us)" by (simp add: this_attempt_def)
      from assms(8) [OF this] m(2) assms(2) show ?thesis by (auto simp: marks_def)
    next
      case False
      with u m(1) have "u_status u = Rejected" by (force simp: units_inv_def)
      with m(2) assms(2) show ?thesis by (auto simp: marks_def)
    qed
  qed
  then show ?thesis
    using assms units_inv_same [OF assms(6) units_inv_marked [OF u assms(2)]]
    by (simp add: row_inv_def all_rejected_def)
qed

text \<open>A unit transaction: mark, then change the operation; no other outcome keeps a change.\<close>

lemma keeps_unit_transaction:
  assumes inv: "db_inv s"
    and unit: "update_units q g s = Inr (n, s1)"
    and op: "update_ops p f s1 = Inr (Suc 0, s2)"
    and q: "\<And>u. q u \<Longrightarrow> u_op u = i" and p: "\<And>r. p r \<Longrightarrow> op_id r = i"
    and f: "\<And>r. p r \<Longrightarrow> op_id (f r) = op_id r \<and> op_unique (f r) = op_unique r"
    and g: "\<And>u. q u \<Longrightarrow> unit_key (g u) = unit_key u"
    and row: "\<And>r. r \<in> set (ops s) \<Longrightarrow> p r \<Longrightarrow> op_checks (f r) \<Longrightarrow> row_inv r (units_of (op_id r) s) \<Longrightarrow>
      row_inv (f r) (update_where q g (units_of (op_id r) s))"
  shows "db_inv s2"
proof -
  have s1: "s1 = s\<lparr>units := update_where q g (units s)\<rparr>" using unit by (simp add: update_units_Inr)
  have s2: "s2 = s1\<lparr>ops := update_where p f (ops s)\<rparr>"
    and n: "count_where p (ops s) = Suc 0"
    and ck: "\<And>r. r \<in> set (ops s) \<Longrightarrow> p r \<Longrightarrow> op_checks (f r)"
    using op by (auto simp: update_ops_Inr s1)
  from n obtain r0 where "filter p (ops s) = [r0]"
    by (auto simp: count_where_def length_Suc_conv)
  then have "r0 \<in> set (filter p (ops s))" by simp
  then have r0: "r0 \<in> set (ops s)" "p r0" by simp_all
  show ?thesis
  proof (rule db_inv_change [OF inv _ _ p q f g])
    show "ops s2 = update_where p f (ops s)" by (simp add: s2)
    show "units s2 = update_where q g (units s)" by (simp add: s2 s1)
    fix r assume r: "r \<in> set (ops s)" "op_id r = i"
    with r0 p have "r = r0" by (intro db_inv_same_id [OF inv]) simp_all
    with row [OF r0(1,2) ck [OF r0(1,2)] db_inv_row [OF inv r0(1)]] r0 r
    show "row_inv (if p r then f r else r) (update_where q g (units_of i s))" by simp
  qed
qed

lemma keeps_update_delivery_unit:
  assumes "\<And>s n s1. db_inv s \<Longrightarrow> unit s = Inr (n, s1) \<Longrightarrow> n = Suc 0 \<Longrightarrow>
      operation s1 \<noteq> Inl Database \<and> (\<forall>s2. operation s1 = Inr (Suc 0, s2) \<longrightarrow> db_inv s2)"
    and "\<And>s. db_inv s \<Longrightarrow> unit s \<noteq> Inl Database"
  shows "keeps e (update_delivery_unit e unit operation)"
  unfolding update_delivery_unit_def
proof (rule keeps_transaction)
  fix s x
  let ?body = "res_bind (unit s) (\<lambda>(n, s1). if n \<noteq> 1 then Inr (False, s)
    else res_bind (operation s1) (\<lambda>(m, s2). if m \<noteq> 1 then Inr (False, s) else Inr (True, s2)))"
  assume inv: "db_inv s"
  show "x \<noteq> Database" if "?body = Inl x"
    using that assms(2) [OF inv] assms(1) [OF inv]
    by (cases "unit s") (auto simp: split: prod.splits if_splits elim!: res_bind.elims)
  fix a s'
  show "db_inv s'" if "?body = Inr (a, s')"
    using that inv assms(1) [OF inv] by (auto simp: res_bind_Inr_iff split: if_splits)
qed

end
