(* ===== verification/Batch_Steps.thy ===== *)
theory Batch_Steps
  imports Delivery_Steps
begin

text \<open>
  The batch calls, one lemma each, over the marking lemmas of \<open>Delivery_Steps\<close>. The calls
  with two statements assume that the clock does not run backwards within the call.
\<close>

definition steady :: "env \<Rightarrow> bool" where
  "steady e \<longleftrightarrow> mono (clock e)"

lemma lease_live_mono: "lease_live t r \<Longrightarrow> t' \<le> t \<Longrightarrow> lease_live t' r"
  by (auto simp: lease_live_def split: option.splits)

lemma fenced_mono: "fenced c t r \<Longrightarrow> t' \<le> t \<Longrightarrow> fenced c t' r"
  by (auto simp: fenced_def intro: lease_live_mono)

lemma update_ops_not_database:
  "(\<And>r. r \<in> set (ops s) \<Longrightarrow> p r \<Longrightarrow> op_checks (f r)) \<Longrightarrow> update_ops p f s \<noteq> Inl x"
  by (auto simp: update_ops_def list_all_iff)

lemma update_units_not_database:
  "(\<And>u. u \<in> set (units s) \<Longrightarrow> q u \<Longrightarrow> unit_checks (g u)) \<Longrightarrow> update_units q g s \<noteq> Inl x"
  by (auto simp: update_units_def list_all_iff)

lemma db_inv_unit:
  assumes "db_inv s" and "u \<in> set (units s)" shows "unit_checks u"
proof -
  from assms obtain r where r: "r \<in> set (ops s)" "op_id r = u_op u" by (force simp: db_inv_def)
  from db_inv_row [OF assms(1) r(1)] have "units_inv r (units_of (op_id r) s)"
    by (simp add: row_inv_def)
  then show ?thesis using assms(2) r(2) by (simp add: units_inv_def units_of_def)
qed

lemma checks_released:
  assumes "op_checks r" and "active (op_status r)" and "\<not> active st" and "st \<noteq> Succeeded"
  shows "op_checks (release (r\<lparr>op_status := st, op_available_at := a, op_content_failure := cf,
           op_updated_at := now\<rparr>))
    \<longleftrightarrow> pred_option (\<lambda>c. c \<in> {''nsfw_blocked'', ''nsfw_policy_unavailable''}) cf"
  using assms by (auto simp: op_checks_def release_def unleased_def)

lemma checks_clear_progress: "op_checks r \<Longrightarrow> op_checks (clear_progress r)"
  by (simp add: op_checks_def clear_progress_def leased_def unleased_def)

lemma content_failure_check:
  "op_checks r \<Longrightarrow>
    pred_option (\<lambda>c. c \<in> {''nsfw_blocked'', ''nsfw_policy_unavailable''}) (op_content_failure r)"
  by (simp add: op_checks_def)

section \<open>Sending a unit\<close>

lemma begin_unit_row:
  assumes inv: "row_inv r us" and st: "op_status r = Delivering"
    and u: "u_attempt u = op_attempt r" "u_status u = Sending" "unit_checks u"
    and cur: "this_attempt r us = cur" "list_all (\<lambda>v. u_status v = Sent) cur"
    and room: "op_planned r = Some p" "u_count u \<le> p - op_delivered r"
    and ord: "u_ordinal u = next_ordinal cur"
  shows "row_inv r (us @ [u])"
proof -
  have b: "batch_inv r cur" and ui: "units_inv r us"
    using delivering_batch [OF inv st] cur(1) inv by (simp_all add: row_inv_def)
  have all: "\<forall>v \<in> set cur. u_status v = Sent" using cur(2) by (simp add: list_all_iff)
  have "op_delivered r = counts_sum cur"
    using b sent_sum_all [OF all] by (simp add: batch_inv_def)
  moreover have "op_delivered r = sent_sum cur" using b by (simp add: batch_inv_def)
  ultimately have "batch_inv r (cur @ [u])"
    using all u(2) room by (auto simp: batch_inv_def)
  moreover have "this_attempt r (us @ [u]) = cur @ [u]"
    using cur(1) u(1) by (simp add: this_attempt_def)
  moreover have "units_inv r (us @ [u])" using ui u by (auto simp: units_inv_def)
  ultimately show ?thesis using inv st by (simp add: row_inv_def)
qed

lemma db_inv_new_unit:
  assumes inv: "db_inv s" and r: "r \<in> set (ops s)" "op_id r = u_op u"
    and new: "unit_key u \<notin> set (map unit_key (units s))"
    and row: "row_inv r (units_of (op_id r) s @ [u])"
  shows "db_inv (s\<lparr>units := units s @ [u]\<rparr>)"
proof -
  have "row_inv r' (units_of (op_id r') (s\<lparr>units := units s @ [u]\<rparr>))" if "r' \<in> set (ops s)" for r'
  proof (cases "op_id r' = u_op u")
    case True
    then have "r' = r" using that r by (intro db_inv_same_id [OF inv]) simp_all
    with row r show ?thesis by (simp add: units_of_def)
  next
    case False
    then have "units_of (op_id r') (s\<lparr>units := units s @ [u]\<rparr>) = units_of (op_id r') s"
      by (simp add: units_of_def)
    with db_inv_row [OF inv that] show ?thesis by simp
  qed
  moreover have "u_op u \<in> op_id ` set (ops s)" using r by force
  ultimately show ?thesis using inv new by (auto simp: db_inv_def)
qed

lemma begin_delivery_unit_keeps_stmt:
  assumes "1 \<le> count" and "count \<le> 10" and "0 \<le> ordinal" and "ordinal \<le> 99"
    and "0 < sint (attempt c)"
  shows "sound_stmt (sql_begin_delivery_unit c ordinal count now)"
  unfolding sound_stmt_def
proof (intro allI impI)
  fix s assume inv: "db_inv s"
  let ?u = "new_unit c ordinal count now"
  have chk: "unit_checks ?u" using assms by (simp add: unit_checks_def new_unit_def)
  show "\<exists>n s'. sql_begin_delivery_unit c ordinal count now s = Inr (n, s') \<and> db_inv s'"
  proof (cases "list_ex (unit_ready c ordinal count now s) (ops s)
      \<and> unit_key ?u \<notin> set (map unit_key (units s))")
    case False
    then show ?thesis using inv chk by (auto simp: sql_begin_delivery_unit_def Let_def)
  next
    case True
    then obtain r where r: "r \<in> set (ops s)" and ready: "unit_ready c ordinal count now s r"
      by (auto simp: list_ex_iff)
    from ready obtain p where h: "op_id r = operation_id c" "op_attempt r = sint (attempt c)"
      "op_status r = Delivering" "op_planned r = Some p" "count \<le> p - op_delivered r"
      "ordinal = next_ordinal (this_attempt r (units_of (op_id r) s))"
      "list_all (\<lambda>u. u_status u = Sent) (this_attempt r (units_of (op_id r) s))"
      by (auto simp: unit_ready_def Let_def attempt_units_eq fenced_def split: option.splits)
    have "row_inv r (units_of (op_id r) s @ [?u])"
      by (rule begin_unit_row [OF db_inv_row [OF inv r] h(3) _ _ chk refl h(7) h(4)])
        (use h in \<open>simp_all add: new_unit_def\<close>)
    then have "db_inv (s\<lparr>units := units s @ [?u]\<rparr>)"
      using True h(1) by (intro db_inv_new_unit [OF inv r]) (simp_all add: new_unit_def)
    with True chk show ?thesis by (auto simp: sql_begin_delivery_unit_def Let_def)
  qed
qed

section \<open>Losing, rejecting and confirming a unit\<close>

lemma unsent_checks:
  "unit_checks u \<Longrightarrow> u_status u = Sending \<Longrightarrow> st \<noteq> Sent \<Longrightarrow>
    unit_checks (u\<lparr>u_status := st, u_updated_at := now\<rparr>)"
  by (simp add: unit_checks_def)

lemma db_inv_checks: "db_inv s \<Longrightarrow> r \<in> set (ops s) \<Longrightarrow> op_checks r"
  using db_inv_row by (auto simp: row_inv_def)

text \<open>
  The two statements of a unit call, as one rule: a mark of sending units of the claim, then a
  change of the delivering operation of the claim. What is left to show is the row after both.
\<close>

definition marked :: "(unit_row \<Rightarrow> bool) \<Rightarrow> (unit_row \<Rightarrow> unit_row) \<Rightarrow> db \<Rightarrow> db" where
  "marked q g s = s\<lparr>units := update_where q g (units s)\<rparr>"

definition marking ::
  "claim \<Rightarrow> (db \<Rightarrow> unit_row \<Rightarrow> bool) \<Rightarrow> (unit_row \<Rightarrow> unit_row) \<Rightarrow> (db \<Rightarrow> op_row \<Rightarrow> bool)
    \<Rightarrow> (db \<Rightarrow> op_row \<Rightarrow> op_row) \<Rightarrow> bool" where
  "marking c q g p f \<longleftrightarrow>
     (\<forall>s u. q s u \<longrightarrow> u_op u = operation_id c \<and> u_attempt u = sint (attempt c)
        \<and> u_status u = Sending \<and> unit_key (g u) = unit_key u \<and> u_count (g u) = u_count u
        \<and> (unit_checks u \<longrightarrow> unit_checks (g u)))
     \<and> (\<forall>s r. p s r \<longrightarrow> op_id r = operation_id c \<and> op_attempt r = sint (attempt c)
        \<and> op_status r = Delivering
        \<and> op_id (f s r) = op_id r \<and> op_unique (f s r) = op_unique r)
     \<and> (\<forall>s r. db_inv s \<longrightarrow> r \<in> set (ops s) \<longrightarrow> p (marked (q s) g s) r \<longrightarrow>
        row_inv r (units_of (op_id r) s) \<longrightarrow> marks r (q s) g \<longrightarrow>
        row_inv (f (marked (q s) g s) r) (update_where (q s) g (units_of (op_id r) s)))"

lemma marking_marks:
  "marking c q g p f \<Longrightarrow> p s' r \<Longrightarrow> marks r (q s) g"
  unfolding marking_def marks_def by metis

lemma marking_row:
  assumes m: "marking c q g p f" and inv: "db_inv s" and r: "r \<in> set (ops s)"
    and p: "p (marked (q s) g s) r"
  shows "row_inv (f (marked (q s) g s) r) (update_where (q s) g (units_of (op_id r) s))"
  using m inv r p marking_marks [OF m p] db_inv_row [OF inv r] unfolding marking_def by blast

lemma marking_unit:
  assumes m: "marking c q g p f" and inv: "db_inv s"
  shows "update_units (q s) g s = Inr (count_where (q s) (units s), marked (q s) g s)"
proof -
  have "list_all (\<lambda>u. q s u \<longrightarrow> unit_checks (g u)) (units s)"
    using m db_inv_unit [OF inv] by (auto simp: list_all_iff marking_def)
  then show ?thesis by (simp add: update_units_def marked_def)
qed

lemma marking_operation:
  assumes m: "marking c q g p f" and inv: "db_inv s" and s1: "s1 = marked (q s) g s"
  shows "\<exists>n s2. update_ops (p s1) (f s1) s1 = Inr (n, s2) \<and> (n = Suc 0 \<longrightarrow> db_inv s2)"
proof -
  have ops: "ops (marked (q s) g s) = ops s" by (simp add: marked_def)
  have "list_all (\<lambda>r. p s1 r \<longrightarrow> op_checks (f s1 r)) (ops s1)"
    using marking_row [OF m inv] by (auto simp: list_all_iff row_inv_def ops s1)
  then obtain n s2 where o2: "update_ops (p s1) (f s1) s1 = Inr (n, s2)"
    by (simp add: update_ops_def)
  have "db_inv s2" if "n = Suc 0"
  proof (rule keeps_unit_transaction [OF inv marking_unit [OF m inv, folded s1] o2 [unfolded that]])
    show "row_inv (f s1 r) (update_where (q s) g (units_of (op_id r) s))"
      if "r \<in> set (ops s)" "p s1 r" for r
      using marking_row [OF m inv that(1)] that(2) s1 by simp
  qed (use m in \<open>auto simp: marking_def\<close>)
  with o2 show ?thesis by blast
qed

lemma keeps_marking:
  assumes m: "marking c q g p f" and "\<And>s. unit s = update_units (q s) g s"
    and "\<And>s. operation s = update_ops (p s) (f s) s"
  shows "keeps e (update_delivery_unit e unit operation)"
proof (rule keeps_update_delivery_unit)
  fix s assume inv: "db_inv s"
  show "unit s \<noteq> Inl Database" using marking_unit [OF m inv] assms(2) by simp
  fix n s1 assume "unit s = Inr (n, s1)"
  then have "s1 = marked (q s) g s" using marking_unit [OF m inv] assms(2) by simp
  from marking_operation [OF m inv this] assms(3)
  show "operation s1 \<noteq> Inl Database \<and> (\<forall>s2. operation s1 = Inr (Suc 0, s2) \<longrightarrow> db_inv s2)"
    by auto
qed

lemmas marking_simps =
  marking_def fenced_def this_unit_def unsent_checks unit_key_def op_unique_def

lemma unknown_unit_keeps:
  "keeps e (update_delivery_unit e (sql_unknown_delivery_unit c ordinal t0)
     (sql_unknown_delivery_unit_operation c ordinal t1))"
proof (rule keeps_marking)
  let ?q = "\<lambda>s u. this_unit c ordinal Sending u \<and> delivering c t0 s"
  let ?g = "\<lambda>u. u\<lparr>u_status := UnknownSend, u_updated_at := t0\<rparr>"
  let ?p = "\<lambda>s r. fenced c t1 r \<and> op_status r = Delivering
         \<and> list_ex (this_unit c ordinal UnknownSend) (units s)"
  let ?f = "\<lambda>s r. release (r\<lparr>op_status := DeliveryUnknown, op_updated_at := t1\<rparr>)"
  have "row_inv (?f s r) (update_where (?q s') ?g us)"
    if "row_inv r us" "marks r (?q s') ?g" "op_status r = Delivering" for s s' r us
    by (rule row_inv_marked_ended [OF that(1,2)])
      (use that in \<open>simp_all add: row_inv_def op_checks_def release_def unleased_def bounds_inv_def\<close>)
  then show "marking c ?q ?g ?p ?f" by (auto simp: marking_simps)
qed (simp_all add: sql_unknown_delivery_unit_def sql_unknown_delivery_unit_operation_def)

lemma rejected_cases:
  assumes b: "batch_inv r cur" and cur: "\<forall>u \<in> set cur. unit_checks u" and "op_delivered r = 0"
    and u: "u \<in> set cur"
  shows "u_status u = Sending"
proof -
  have "sent_sum cur = 0" using b assms(3) by (simp add: batch_inv_def)
  then have "u_status u \<noteq> Sent" using sent_sum_0_iff [OF cur] u by blast
  then show ?thesis using b u by (auto simp: batch_inv_def)
qed

lemma delivered_nonneg: "op_checks r \<Longrightarrow> \<not> 0 < op_delivered r \<Longrightarrow> op_delivered r = 0"
  by (simp add: op_checks_def)

lemma rejected_row_checks:
  "op_checks r \<Longrightarrow> op_status r = Delivering \<Longrightarrow> op_checks (rejected_row wait now r)"
  by (simp add: rejected_row_def op_checks_def release_def clear_progress_def unleased_def)

lemma row_inv_rejected:
  assumes inv: "row_inv r us" and st: "op_status r = Delivering" and m: "marks r q g"
    and all: "\<And>u. u \<in> set (this_attempt r us) \<Longrightarrow> u_status u = Sending \<Longrightarrow> q u \<and> u_status (g u) = Rejected"
  shows "row_inv (rejected_row wait now r) (update_where q g us)"
proof -
  let ?r = "rejected_row wait now r"
  have c: "op_checks ?r" using inv st by (simp add: row_inv_def rejected_row_checks)
  have bi: "bounds_inv ?r" using inv by (simp add: row_inv_def bounds_inv_def rejected_row_def)
  have at: "op_attempt ?r = op_attempt r" by (simp add: rejected_row_def)
  show ?thesis
  proof (cases "op_status ?r = Queued")
    case True
    then have h: "\<not> 0 < op_delivered r" "\<not> op_cancel_requested r"
      by (auto simp: rejected_row_def split: if_splits)
    have d0: "op_delivered r = 0" using h inv by (intro delivered_nonneg) (simp_all add: row_inv_def)
    show ?thesis
    proof (rule row_inv_marked_queued [OF inv m c bi True at])
      show "\<not> op_cancel_requested ?r" using h by (simp add: rejected_row_def)
      fix u assume u: "u \<in> set (this_attempt r us)"
      show "q u \<and> u_status (g u) = Rejected \<or> u_status u = Rejected"
        using all [OF u rejected_cases [OF delivering_batch [OF inv st] row_units_checks [OF inv] d0 u]]
        by blast
    qed
  next
    case False
    then have "\<not> pending (op_status ?r)" by (auto simp: rejected_row_def split: if_splits)
    then show ?thesis by (rule row_inv_marked_ended [OF inv m c bi _ at])
  qed
qed

lemma one_sending:
  "batch_inv r cur \<Longrightarrow> u \<in> set cur \<Longrightarrow> v \<in> set cur \<Longrightarrow> u_status u = Sending \<Longrightarrow>
    u_status v = Sending \<Longrightarrow> u_ordinal v = u_ordinal u"
  unfolding batch_inv_def by blast

text \<open>When a mark of one ordinal is found in the units after it, every sending unit has that ordinal.\<close>

lemma marked_found:
  assumes inv: "db_inv s" and r: "r \<in> set (ops s)" "op_status r = Delivering"
    and id: "op_id r = operation_id c" "op_attempt r = sint (attempt c)"
    and found: "list_ex (this_unit c ordinal st) (update_where q g (units s))"
    and st: "st \<noteq> Sent" "st \<noteq> Sending" and q: "\<And>u. q u \<Longrightarrow> this_unit c ordinal Sending u"
    and u: "u \<in> set (this_attempt r (units_of (op_id r) s))" "u_status u = Sending"
  shows "this_unit c ordinal Sending u"
proof -
  have b: "batch_inv r (this_attempt r (units_of (op_id r) s))"
    using db_inv_row [OF inv r(1)] r(2) by (rule delivering_batch)
  from found obtain w where w: "w \<in> set (units s)" "this_unit c ordinal st (if q w then g w else w)"
    by (auto simp: list_ex_iff update_where_def)
  have mem: "v \<in> set (this_attempt r (units_of (op_id r) s))"
    if "v \<in> set (units s)" "this_unit c ordinal x v" for v x
    using that id by (simp add: this_unit_def this_attempt_def units_of_def)
  have "this_unit c ordinal Sending w"
  proof (cases "q w")
    case True
    then show ?thesis by (rule q)
  next
    case False
    with w have "w \<in> set (this_attempt r (units_of (op_id r) s))" "u_status w = st"
      by (auto intro: mem simp: this_unit_def)
    with b st show ?thesis by (auto simp: batch_inv_def)
  qed
  then have "u_ordinal u = ordinal"
    using one_sending [OF b mem [OF w(1)] u(1) _ u(2)] by (auto simp: this_unit_def)
  with u id show ?thesis by (simp add: this_unit_def this_attempt_def units_of_def)
qed

lemma reject_unit_keeps:
  "keeps e (update_delivery_unit e (sql_reject_delivery_unit c ordinal t0)
     (sql_reject_delivery_unit_operation c ordinal wait t1))"
proof (rule keeps_marking)
  let ?q = "\<lambda>s u. this_unit c ordinal Sending u \<and> delivering c t0 s"
  let ?g = "\<lambda>u. u\<lparr>u_status := Rejected, u_updated_at := t0\<rparr>"
  let ?p = "\<lambda>s r. fenced c t1 r \<and> op_status r = Delivering
         \<and> list_ex (this_unit c ordinal Rejected) (units s)"
  let ?f = "\<lambda>s r. rejected_row wait t1 r"
  have "row_inv (rejected_row wait t1 r) (update_where (?q s) ?g (units_of (op_id r) s))"
    if inv: "db_inv s" and r: "r \<in> set (ops s)" and p: "?p (marked (?q s) ?g s) r"
      and ri: "row_inv r (units_of (op_id r) s)" and m: "marks r (?q s) ?g" for s r
  proof (rule row_inv_rejected [OF ri _ m])
    show st: "op_status r = Delivering" using p by simp
    have id: "op_id r = operation_id c" "op_attempt r = sint (attempt c)"
      using p by (simp_all add: fenced_def)
    have found: "list_ex (this_unit c ordinal Rejected) (update_where (?q s) ?g (units s))"
      using p by (simp add: marked_def)
    fix u assume u: "u \<in> set (this_attempt r (units_of (op_id r) s))" "u_status u = Sending"
    have tu: "this_unit c ordinal Sending u"
      by (rule marked_found [OF inv r st id found _ _ _ u]) simp_all
    have "delivering c t0 s"
    proof (rule ccontr)
      assume "\<not> delivering c t0 s"
      then have "list_ex (this_unit c ordinal Rejected) (units s)"
        using found by (simp add: update_where_def)
      then obtain v where v: "v \<in> set (units s)" "this_unit c ordinal Rejected v"
        by (auto simp: list_ex_iff)
      then have "v \<in> set (this_attempt r (units_of (op_id r) s))" "u_status v = Rejected"
        using id by (simp_all add: this_unit_def this_attempt_def units_of_def)
      with delivering_batch [OF ri st] show False by (force simp: batch_inv_def)
    qed
    with tu show "?q s u \<and> u_status (?g u) = Rejected" by simp
  qed
  then show "marking c ?q ?g ?p ?f"
    unfolding marking_def
    by (auto simp: fenced_def this_unit_def unsent_checks unit_key_def op_unique_def rejected_row_def)
qed (simp_all add: sql_reject_delivery_unit_def sql_reject_delivery_unit_operation_def)

section \<open>Confirming a unit\<close>

lemma unit_checks_marked:
  assumes "marks r q g" and "\<forall>u \<in> set cur. unit_checks u"
  shows "\<forall>u \<in> set (update_where q g cur). unit_checks u"
  using assms by (auto simp: set_update_where marks_def)

lemma batch_inv_sent:
  assumes b: "batch_inv r cur" and m: "marks r q g" and g: "\<And>u. q u \<Longrightarrow> u_status (g u) = Sent"
    and d: "op_delivered r' = sent_sum (update_where q g cur)" and pl: "op_planned r' = op_planned r"
  shows "batch_inv r' (update_where q g cur)"
proof -
  have old: "u \<in> set cur" if "u \<in> set (update_where q g cur)" "u_status u = Sending" for u
    using that g by (auto simp: set_update_where)
  have "counts_sum (update_where q g cur) = counts_sum cur"
    by (rule counts_sum_update) (use m in \<open>simp add: marks_def\<close>)
  moreover have "case op_planned r of None \<Rightarrow> cur = [] | Some p \<Rightarrow> counts_sum cur \<le> p"
    using b by (simp only: batch_inv_def)
  ultimately have "case op_planned r of None \<Rightarrow> update_where q g cur = []
      | Some p \<Rightarrow> counts_sum (update_where q g cur) \<le> p"
    by (cases "op_planned r") simp_all
  moreover have "\<forall>u \<in> set (update_where q g cur). u_status u = Sent \<or> u_status u = Sending"
    using b g unfolding set_update_where batch_inv_def by blast
  moreover have "\<forall>u \<in> set (update_where q g cur). \<forall>v \<in> set (update_where q g cur).
      u_status u = Sending \<longrightarrow> u_status v = Sending \<longrightarrow> u_ordinal u = u_ordinal v"
    using b old unfolding batch_inv_def by blast
  ultimately show ?thesis
    unfolding batch_inv_def d pl by blast
qed

lemma sent_row_simps:
  "op_delivered (sent_row n m t r) = op_delivered r + n" "op_planned (sent_row n m t r) = op_planned r"
  "op_attempt (sent_row n m t r) = op_attempt r" "op_max_attempts (sent_row n m t r) = op_max_attempts r"
  "op_cache_bypassed (sent_row n m t r) = op_cache_bypassed r" "op_id (sent_row n m t r) = op_id r"
  "op_actor (sent_row n m t r) = op_actor r" "op_key (sent_row n m t r) = op_key r"
  "op_status (sent_row n m t r) = (if op_planned r = Some (op_delivered r + n) then Succeeded else Delivering)"
  by (simp_all add: sent_row_def Let_def)

lemma sent_row_checks:
  assumes "op_checks r" and "op_status r = Delivering" and "0 < m"
    and "0 \<le> op_delivered r + n" and "op_delivered r + n \<le> 100"
  shows "op_checks (sent_row n m t r)"
  using assms
  by (cases "op_planned r")
    (auto simp: op_checks_def sent_row_def Let_def release_def leased_def unleased_def)

lemma row_inv_sent:
  assumes ri: "row_inv r us" and st: "op_status r = Delivering" and m: "marks r q g"
    and g: "\<And>u. q u \<Longrightarrow> u_status (g u) = Sent"
    and us': "us' = update_where q g us" and cur: "cur = this_attempt r us'"
    and d: "distinct (map u_ordinal cur)" and u: "u \<in> set cur" "u_status u = Sent"
    and old: "op_delivered r = sent_sum (filter (\<lambda>v. u_ordinal v \<noteq> u_ordinal u) cur)"
    and last: "0 < message"
  shows "row_inv (sent_row (u_count u) message t r) us'"
proof -
  let ?r = "sent_row (u_count u) message t r"
  let ?cur = "this_attempt r us"
  have b: "batch_inv r ?cur" by (rule delivering_batch [OF ri st])
  have ui: "units_inv r us" using ri by (simp add: row_inv_def)
  have cur': "cur = update_where q g ?cur" unfolding cur us' by (rule this_attempt_marked [OF m])
  have sum: "op_delivered r + u_count u = sent_sum cur"
    using sent_sum_split [OF d u] old by simp
  have b': "batch_inv ?r cur"
    unfolding cur' by (rule batch_inv_sent [OF b m g]) (simp_all add: sent_row_simps sum cur')
  have chk: "\<forall>v \<in> set cur. unit_checks v"
    unfolding cur' by (rule unit_checks_marked [OF m row_units_checks [OF ri]])
  obtain n where n: "op_planned r = Some n" "counts_sum cur \<le> n"
    using b' u(1) by (cases "op_planned r") (auto simp: batch_inv_def sent_row_simps)
  have "n \<le> 100" using ri n by (simp add: row_inv_def op_checks_def)
  then have "op_checks ?r"
    using sent_sum_nonneg [OF chk] sent_sum_le_counts [OF chk] n ri st last sum
    by (intro sent_row_checks) (simp_all add: row_inv_def)
  moreover have "bounds_inv ?r" using ri by (simp add: row_inv_def bounds_inv_def sent_row_simps)
  moreover have "units_inv ?r us'"
    unfolding us' by (rule units_inv_same [OF _ units_inv_marked [OF ui m]]) (simp add: sent_row_simps)
  moreover have "this_attempt ?r us' = cur" by (simp add: cur this_attempt_def sent_row_simps)
  ultimately show ?thesis
    using b' delivering_attempt [OF ri st] by (simp add: row_inv_def sent_row_simps)
qed

lemma complete_unit_keeps:
  assumes "0 < message"
  shows "keeps e (update_delivery_unit e (sql_complete_delivery_unit c ordinal ids t0)
     (sql_complete_delivery_unit_operation c ordinal message t1))"
proof (rule keeps_marking)
  let ?q = "\<lambda>s u. this_unit c ordinal Sending u \<and> int (length ids) = u_count u
         \<and> int (length (remdups ids)) = u_count u
         \<and> list_all (\<lambda>i. \<not> (i \<le> 0 \<or> i > i32_max)) ids \<and> delivering c t0 s"
  let ?g = "\<lambda>u. u\<lparr>u_status := Sent, u_messages := Some ids, u_updated_at := t0\<rparr>"
  let ?u = "\<lambda>s. find_row (this_unit c ordinal Sent) (units s)"
  let ?p = "\<lambda>s r. ?u s \<noteq> None \<and> fenced c t1 r \<and> op_status r = Delivering
      \<and> op_delivered r = sent_sum (filter (\<lambda>v. u_ordinal v \<noteq> ordinal)
          (attempt_units (operation_id c) (sint (attempt c)) s))"
  let ?f = "\<lambda>s. sent_row (u_count (the (?u s))) message t1"
  show "sql_complete_delivery_unit_operation c ordinal message t1 s = update_ops (?p s) (?f s) s" for s
    by (cases "?u s")
      (simp_all add: sql_complete_delivery_unit_operation_def update_ops_def count_where_def
        update_where_def list_all_iff)
  have "row_inv (?f (marked (?q s) ?g s) r) (update_where (?q s) ?g (units_of (op_id r) s))"
    if inv: "db_inv s" and p: "?p (marked (?q s) ?g s) r"
      and ri: "row_inv r (units_of (op_id r) s)" and m: "marks r (?q s) ?g" for s r
  proof -
    let ?s1 = "marked (?q s) ?g s"
    have st: "op_status r = Delivering" and id: "operation_id c = op_id r" "sint (attempt c) = op_attempt r"
      using p by (simp_all add: fenced_def)
    obtain u where u: "?u ?s1 = Some u" using p by blast
    have us: "units_of (op_id r) ?s1 = update_where (?q s) ?g (units_of (op_id r) s)"
      unfolding units_of_def marked_def by (simp, rule units_of_update) (simp add: unit_key_def)
    have tu: "this_unit c ordinal Sent u" "u \<in> set (units ?s1)" using find_row_Some [OF u] by simp_all
    have "distinct (map unit_key (units ?s1))"
      unfolding marked_def using inv
      by (simp add: db_inv_def) (subst map_update_where, simp_all add: unit_key_def)
    then have d: "distinct (map u_ordinal (this_attempt r (units_of (op_id r) ?s1)))"
      unfolding attempt_units_eq [symmetric] by (rule distinct_ordinals)
    have cur: "u \<in> set (this_attempt r (units_of (op_id r) ?s1))"
      using tu id by (simp add: this_unit_def this_attempt_def units_of_def)
    have old: "op_delivered r = sent_sum (filter (\<lambda>v. u_ordinal v \<noteq> u_ordinal u)
        (this_attempt r (units_of (op_id r) ?s1)))"
      using p tu(1) by (simp add: attempt_units_eq id this_unit_def)
    have "row_inv (sent_row (u_count u) message t1 r) (units_of (op_id r) ?s1)"
      by (rule row_inv_sent [OF ri st m _ us refl d cur _ old assms])
        (use tu(1) in \<open>simp_all add: this_unit_def\<close>)
    then show ?thesis unfolding us u option.sel .
  qed
  then show "marking c ?q ?g ?p ?f"
    unfolding marking_def
    by (auto simp: fenced_def this_unit_def unit_key_def op_unique_def sent_row_simps unit_checks_def)
qed (simp add: sql_complete_delivery_unit_def)

section \<open>Stopping a batch\<close>

lemma stopped_row_checks:
  "op_checks r \<Longrightarrow> op_status r = Delivering \<Longrightarrow> op_checks (stopped_row unknown reason now r)"
  by (cases reason)
    (auto simp: stopped_row_def op_checks_def release_def clear_progress_def unleased_def)

lemma has_unit_marked:
  assumes "u \<in> set (units s)" and "q u"
    and "u_op (g u) = i" and "u_attempt (g u) = a" and "u_status (g u) = st"
  shows "has_unit i a st (marked q g s)"
proof -
  have "g u \<in> set (units (marked q g s))"
    using assms(1,2) by (auto simp: marked_def set_update_where)
  with assms(3-5) show ?thesis by (auto simp: has_unit_def list_ex_iff)
qed

lemma stop_marking:
  assumes "t0 \<le> t1"
  shows "marking c
    (\<lambda>s u. u_op u = operation_id c \<and> u_attempt u = sint (attempt c) \<and> u_status u = Sending
       \<and> list_ex (\<lambda>r. fenced c t0 r \<and> op_status r = Delivering
            \<and> (reason \<noteq> StopCancel \<or> op_cancel_requested r)) (ops s))
    (\<lambda>u. u\<lparr>u_status := UnknownSend, u_updated_at := t0\<rparr>)
    (\<lambda>s r. fenced c t1 r \<and> op_status r = Delivering)
    (\<lambda>s. stopped_row (has_unit (operation_id c) (sint (attempt c)) UnknownSend s) reason t1)"
    (is "marking c ?q ?g ?p ?f")
proof -
  have "row_inv (?f (marked (?q s) ?g s) r) (update_where (?q s) ?g (units_of (op_id r) s))"
    if r: "r \<in> set (ops s)" and p: "fenced c t1 r" and st: "op_status r = Delivering"
      and ri: "row_inv r (units_of (op_id r) s)" and m: "marks r (?q s) ?g" for s r
  proof -
    let ?unknown = "has_unit (operation_id c) (sint (attempt c)) UnknownSend (marked (?q s) ?g s)"
    let ?r = "stopped_row ?unknown reason t1 r"
    have c: "op_checks ?r" using ri st by (simp add: row_inv_def stopped_row_checks)
    have bi: "bounds_inv ?r" using ri by (simp add: row_inv_def bounds_inv_def stopped_row_def)
    have at: "op_attempt ?r = op_attempt r" by (simp add: stopped_row_def)
    have id: "op_id r = operation_id c" "op_attempt r = sint (attempt c)"
      using p by (simp_all add: fenced_def)
    show ?thesis
    proof (cases "op_status ?r = Queued")
      case True
      then have h: "\<not> ?unknown" "\<not> 0 < op_delivered r" "\<not> op_cancel_requested r"
        "reason \<noteq> StopCancel"
        by (auto simp: stopped_row_def split: if_splits)
      have d0: "op_delivered r = 0" using h ri by (intro delivered_nonneg) (simp_all add: row_inv_def)
      have none: False if u: "u \<in> set (this_attempt r (units_of (op_id r) s))" for u
      proof -
        have "u_status u = Sending"
          by (rule rejected_cases [OF delivering_batch [OF ri st] row_units_checks [OF ri] d0 u])
        moreover have "u_op u = operation_id c" "u_attempt u = sint (attempt c)" "u \<in> set (units s)"
          using u id by (simp_all add: this_attempt_def units_of_def)
        moreover have "list_ex (\<lambda>r. fenced c t0 r \<and> op_status r = Delivering
            \<and> (reason \<noteq> StopCancel \<or> op_cancel_requested r)) (ops s)"
          using r fenced_mono [OF p assms] st h(4) by (auto simp: list_ex_iff)
        ultimately have "?unknown" by (intro has_unit_marked [of u]) simp_all
        with h(1) show False by simp
      qed
      show ?thesis
        by (rule row_inv_marked_queued [OF ri m c bi True at])
          (use h none in \<open>auto simp: stopped_row_def\<close>)
    next
      case False
      then have "\<not> pending (op_status ?r)" by (auto simp: stopped_row_def split: if_splits)
      then show ?thesis by (rule row_inv_marked_ended [OF ri m c bi _ at])
    qed
  qed
  then show ?thesis
    unfolding marking_def
    by (auto simp: fenced_def unsent_checks unit_key_def op_unique_def stopped_row_def)
qed

lemma stop_delivery_batch_keeps:
  assumes "steady e" shows "keeps e (stop_delivery_batch e c reason)"
  unfolding stop_delivery_batch_def
proof (rule keeps_checked, simp, rule keeps_transaction)
  have t: "clock e 0 \<le> clock e 1" using assms by (auto simp: steady_def mono_def)
  fix s assume inv: "db_inv s"
  note m = stop_marking [OF t, of c reason]
  from marking_unit [OF m inv] obtain n s1 where
    s1: "sql_stop_delivery_batch_mark c reason (clock e 0) s = Inr (n, s1)"
    by (simp add: sql_stop_delivery_batch_mark_def)
  from marking_operation [OF m inv] marking_unit [OF m inv] s1
  obtain k s2 where s2: "sql_stop_delivery_batch c reason (clock e 1) s1 = Inr (k, s2)"
    "k = Suc 0 \<longrightarrow> db_inv s2"
    by (auto simp: sql_stop_delivery_batch_mark_def sql_stop_delivery_batch_def)
  let ?body = "res_bind (sql_stop_delivery_batch_mark c reason (clock e 0) s) (\<lambda>(_, s1).
    res_bind (sql_stop_delivery_batch c reason (clock e 1) s1) (\<lambda>(n, s2).
      if n \<noteq> 1 then Inr (False, s) else Inr (True, s2)))"
  show "x \<noteq> Database" if "?body = Inl x" for x
    using that s1 s2 by (simp split: if_splits)
  show "db_inv s'" if "?body = Inr (a, s')" for a s'
    using that s1 s2 inv by (simp split: if_splits)
qed

section \<open>Requeueing a stale cached batch\<close>

lemma db_inv_media_cache [simp]: "db_inv (s\<lparr>media_cache := x\<rparr>) = db_inv s"
  by (simp add: db_inv_def units_of_def)

lemma requeued_row_checks:
  "op_checks r \<Longrightarrow> op_max_attempts r \<le> 100 \<Longrightarrow> op_checks (requeued_row now r)"
  by (simp add: requeued_row_def op_checks_def release_def clear_progress_def unleased_def)

lemma requeue_marking:
  "marking c
    (\<lambda>s u. this_unit c 0 Sending u
       \<and> \<not> list_ex (\<lambda>v. u_status v \<in> {Sending, UnknownSend} \<and> u_ordinal v \<noteq> 0)
           (attempt_units (operation_id c) (sint (attempt c)) s)
       \<and> list_ex (\<lambda>r. fenced c t0 r \<and> op_status r = Delivering \<and> \<not> op_cancel_requested r
            \<and> \<not> op_cache_bypassed r \<and> op_delivered r = 0
            \<and> uint (rd_actor_id (op_request r)) = op_actor r
            \<and> request_bot r = Some (sint b) \<and> op_cache_key r = Some key
            \<and> \<not> list_ex (\<lambda>v. u_status v = Sent)
                (attempt_units (operation_id c) (sint (attempt c)) s)) (ops s))
    (\<lambda>u. u\<lparr>u_status := Rejected, u_updated_at := t0\<rparr>)
    (\<lambda>s r. fenced c t1 r \<and> op_status r = Delivering \<and> list_ex (this_unit c 0 Rejected) (units s))
    (\<lambda>s. requeued_row t1)" (is "marking c ?q ?g ?p ?f")
proof -
  have "row_inv (requeued_row t1 r) (update_where (?q s) ?g (units_of (op_id r) s))"
    if inv: "db_inv s" and r: "r \<in> set (ops s)" and p: "fenced c t1 r"
      and st: "op_status r = Delivering"
      and found: "list_ex (this_unit c 0 Rejected) (update_where (?q s) ?g (units s))"
      and ri: "row_inv r (units_of (op_id r) s)" and m: "marks r (?q s) ?g" for s r
  proof -
    let ?r = "requeued_row t1 r"
    have id: "op_id r = operation_id c" "op_attempt r = sint (attempt c)"
      using p by (simp_all add: fenced_def)
    have b: "batch_inv r (this_attempt r (units_of (op_id r) s))" by (rule delivering_batch [OF ri st])
    have "\<exists>w. ?q s w"
    proof (rule ccontr)
      assume "\<nexists>w. ?q s w"
      then have "update_where (?q s) ?g (units s) = units s" by (intro update_where_id) blast
      with found have "list_ex (this_unit c 0 Rejected) (units s)" by (simp only:)
      then obtain v where v: "v \<in> set (units s)" "this_unit c 0 Rejected v" by (auto simp: list_ex_iff)
      then have "v \<in> set (this_attempt r (units_of (op_id r) s))" "u_status v = Rejected"
        using id by (simp_all add: this_unit_def this_attempt_def units_of_def)
      with b show False by (force simp: batch_inv_def)
    qed
    then obtain w where w: "?q s w" ..
    then obtain r' where r': "r' \<in> set (ops s)" "fenced c t0 r'" "\<not> op_cancel_requested r'"
      "\<not> op_cache_bypassed r'" "op_delivered r' = 0"
      by (auto simp: list_ex_iff)
    have "r' = r" using r' r id by (intro db_inv_same_id [OF inv]) (simp_all add: fenced_def)
    with r' have h: "\<not> op_cancel_requested r" "\<not> op_cache_bypassed r" "op_delivered r = 0" by simp_all
    have q: "?q s u" if u: "u \<in> set (this_attempt r (units_of (op_id r) s))" for u
    proof -
      have s: "u_status u = Sending"
        by (rule rejected_cases [OF b row_units_checks [OF ri] h(3) u])
      have "this_unit c 0 Sending u"
        by (rule marked_found [OF inv r st id found _ _ _ u s]) simp_all
      with w show ?thesis by blast
    qed
    have bnd: "op_max_attempts r \<le> 100" "op_attempt r \<le> op_max_attempts r"
      using ri h by (simp_all add: row_inv_def bounds_inv_def)
    show ?thesis
    proof (rule row_inv_marked_queued [OF ri m])
      show "op_checks ?r" using ri bnd by (simp add: row_inv_def requeued_row_checks)
      show "bounds_inv ?r" using bnd by (simp add: bounds_inv_def requeued_row_def)
      show "\<not> op_cancel_requested ?r" using h by (simp add: requeued_row_def)
      show "?q s u \<and> u_status (?g u) = Rejected \<or> u_status u = Rejected"
        if "u \<in> set (this_attempt r (units_of (op_id r) s))" for u
        using q [OF that] by simp
    qed (simp_all add: requeued_row_def)
  qed
  then show ?thesis
    unfolding marking_def marked_def
    by (auto simp: fenced_def this_unit_def unsent_checks unit_key_def op_unique_def requeued_row_def)
qed

lemma requeue_invalid_cache_keeps: "keeps e (requeue_invalid_cache digest e c ordinal revision)"
  unfolding keeps_def
proof (intro allI impI)
  fix s assume inv: "db_inv s"
  let ?h = "requeue_invalid_cache digest e c ordinal revision s"
  show "db_inv (snd ?h) \<and> (up e \<longrightarrow> fst ?h \<noteq> Inl Database)"
  proof (cases "\<exists>t key. validate_claim_cache c = Inr () \<and> ordinal = 0 \<and> up e
      \<and> target (request c) = Some t \<and> media_cache_key digest (request c) = Inr key")
    case False
    then show ?thesis
      using inv by (cases "target (request c)")
        (auto simp: requeue_invalid_cache_def checked_def transaction_def media_cache_key_def
          validate_claim_cache_def split: sum.splits)
  next
    case True
    then obtain t key where h: "validate_claim_cache c = Inr ()" "ordinal = 0" "up e"
      "target (request c) = Some t" "media_cache_key digest (request c) = Inr key" by blast
    note m = requeue_marking [of c "clock e 0" "bot_id t" key "clock e 1"]
    from marking_unit [OF m inv] obtain n s1 where
      s1: "sql_requeue_invalid_cache_mark c key (bot_id t) (clock e 0) s = Inr (n, s1)"
      by (simp add: sql_requeue_invalid_cache_mark_def Let_def)
    from marking_operation [OF m inv] marking_unit [OF m inv] s1
    obtain k s2 where s2: "sql_requeue_invalid_cache_operation c (clock e 1) s1 = Inr (k, s2)"
      "k = Suc 0 \<longrightarrow> db_inv s2"
      by (auto simp: sql_requeue_invalid_cache_mark_def sql_requeue_invalid_cache_operation_def Let_def)
    show ?thesis
      using h s1 s2 inv
      by (simp add: requeue_invalid_cache_def checked_def transaction_def
          sql_requeue_invalid_cache_evict_def split: if_splits)
  qed
qed

end
