(* ===== verification/Admission_Facts.thy ===== *)
theory Admission_Facts
  imports Admission Batch_Steps
begin

text \<open>
  What an admission guarantees: the row it writes and that it keeps the queue invariant, the
  answer to a repeated admission, and the cache identity it stores.
\<close>

section \<open>Statements that leave the queue tables alone\<close>

definition same_queue :: "db \<Rightarrow> db \<Rightarrow> bool" where
  "same_queue s t \<longleftrightarrow> ops t = ops s \<and> units t = units s"

lemma same_queue_refl [simp]: "same_queue s s"
  by (simp add: same_queue_def)

lemma same_queue_trans: "same_queue s t \<Longrightarrow> same_queue t u \<Longrightarrow> same_queue s u"
  by (simp add: same_queue_def)

lemma same_queue_inv: "same_queue s t \<Longrightarrow> db_inv t = db_inv s"
  by (simp add: same_queue_def db_inv_def units_of_def)

lemma put_windows_same: "same_queue s (put_windows a ws s)"
proof (induction ws arbitrary: s)
  case (Cons x ws)
  obtain w c t where x: "x = (w, c, t)" by (cases x)
  have "same_queue s (sql_quota_put a w (c + 1) t s)"
    by (simp add: sql_quota_put_def same_queue_def)
  with Cons.IH show ?case by (simp add: x) (blast intro: same_queue_trans)
qed simp

lemma charge_same: "charge a q owner now s = Inr t \<Longrightarrow> same_queue s t"
  by (auto simp: charge_def res_bind_Inr_iff put_windows_same split: if_splits)

lemma consume_same: "sql_nsfw_mark_consume a s = (f, t) \<Longrightarrow> same_queue s t"
  by (auto simp: sql_nsfw_mark_consume_def same_queue_def)

lemma register_same: "sql_register_input_cleanup i now s = Inr t \<Longrightarrow> same_queue s t"
  by (auto simp: sql_register_input_cleanup_def same_queue_def split: option.splits if_splits)

lemma put_deferred_same: "put_deferred a t m mode s = Inr u \<Longrightarrow> same_queue s u"
  by (auto simp: put_deferred_def Let_def same_queue_def split: if_splits)

lemma finish_telegram_same: "finish_telegram r i tg s = Inr t \<Longrightarrow> same_queue s t"
  by (auto simp: finish_telegram_def res_bind_Inr_iff sql_telegram_media_intent_insert_def
      same_queue_def dest!: put_deferred_same split: option.splits if_splits)

section \<open>What a new admission writes\<close>

lemma admission_settings_Inr:
  assumes "admission_settings r policy quotas s = Inr (r', policy', quotas')"
  obtains vals settings where "settings_of s = Inr vals" "from_settings vals = Inr settings"
    "r' = r\<lparr>downloader_settings := (if settings_active vals then Some settings else None)\<rparr>"
    "max_pending_global policy' = max_pending_global policy"
    "max_pending_actor policy' = max_pending_actor policy"
    "retry_delay policy' = retry_delay policy"
    "max_attempts policy' = max_attempts policy \<or> max_attempts policy' = download_retries settings"
proof -
  from assms obtain vals settings where v: "settings_of s = Inr vals" "from_settings vals = Inr settings"
    unfolding admission_settings_def res_bind_Inr_iff map_err_Inr_iff by blast
  show thesis
  proof (rule that [OF v])
    show "r' = r\<lparr>downloader_settings := (if settings_active vals then Some settings else None)\<rparr>"
      using assms by (auto simp: admission_settings_def v Let_def res_bind_Inr_iff
          with_downloader_settings_def split: if_splits)
  qed (use assms in \<open>auto simp: admission_settings_def v Let_def res_bind_Inr_iff overridden_def
        split: if_splits\<close>)
qed

definition stored_request :: "db \<Rightarrow> download_request \<Rightarrow> download_request" where
  "stored_request s r =
     r\<lparr>downloader_settings :=
         (case settings_of s of Inl _ \<Rightarrow> None
          | Inr vals \<Rightarrow> if settings_active vals
              then (case from_settings vals of Inl _ \<Rightarrow> None | Inr x \<Rightarrow> Some x) else None),
       force_nsfw := sint (actor_id r) \<in> set (nsfw_marks s)\<rparr>"

lemma charge_marks: "charge a q owner now s = Inr t \<Longrightarrow> nsfw_marks t = nsfw_marks s"
proof -
  have put: "nsfw_marks (put_windows a ws s) = nsfw_marks s" for a ws and s :: db
    by (induction ws arbitrary: s) (auto simp: sql_quota_put_def)
  show "charge a q owner now s = Inr t \<Longrightarrow> nsfw_marks t = nsfw_marks s"
    by (auto simp: charge_def res_bind_Inr_iff put split: if_splits)
qed

lemma admit_new_Inr:
  assumes "admit_new cfg e r key policy ck now_override tg s = Inr (a, s')"
  obtains attempts row where
    "row = admitted_row (fresh_id e) (actor_id r) key (encode (stored_request s r)) (uint attempts)
       (int (as_secs (retry_delay policy))) ck (clock e 2)"
    "a = \<lparr>admitted_id = fresh_id e, created = True\<rparr>"
    "ops s' = ops s @ [row]" "units s' = units s" "op_checks row"
    "op_id row \<notin> op_id ` set (ops s)" "op_unique row \<notin> op_unique ` set (ops s)"
    "attempts = max_attempts policy \<or> uint attempts \<le> 10"
    "int (pending_count s) < uint (max_pending_global policy)"
    "int (pending_actor_count (actor_id r) s) < uint (max_pending_actor policy)"
    "pred_option settings_wf (downloader_settings (stored_request s r))"
proof -
  from assms obtain r1 p1 q1 where st: "admission_settings r policy (store_quota_limits cfg) s
      = Inr (r1, p1, q1)"
    by (auto simp: admit_new_def res_bind_Inr_iff)
  from admission_settings_Inr [OF st] obtain vals settings where v: "settings_of s = Inr vals"
    "from_settings vals = Inr settings"
    "r1 = r\<lparr>downloader_settings := (if settings_active vals then Some settings else None)\<rparr>"
    "max_pending_global p1 = max_pending_global policy"
    "max_pending_actor p1 = max_pending_actor policy" "retry_delay p1 = retry_delay policy"
    "max_attempts p1 = max_attempts policy \<or> max_attempts p1 = download_retries settings" .
  from assms st v obtain s1 s2 f s3 s4 where h:
    "\<not> int (pending_count s) \<ge> uint (max_pending_global policy)"
    "\<not> int (pending_actor_count (actor_id r) s) \<ge> uint (max_pending_actor policy)"
    "charge (actor_id r) q1 (quota_owner_id cfg)
       (case now_override of Some t \<Rightarrow> t | None \<Rightarrow> clock e 1) s = Inr s1"
    "sql_nsfw_mark_consume (actor_id r) s1 = (f, s2)"
    "sql_admit_insert (admitted_row (fresh_id e) (actor_id r) key (encode (with_force_nsfw f r1))
       (uint (max_attempts p1)) (int (as_secs (retry_delay policy))) ck (clock e 2)) s2 = Inr s3"
    "sql_register_input_cleanup (fresh_id e) (clock e 3) s3 = Inr s4"
    "finish_telegram r1 (fresh_id e) tg s4 = Inr s'"
    "a = \<lparr>admitted_id = fresh_id e, created = True\<rparr>"
    by (auto simp: admit_new_def res_bind_Inr_iff Let_def split: if_splits prod.splits)
  let ?row = "admitted_row (fresh_id e) (actor_id r) key (encode (with_force_nsfw f r1))
       (uint (max_attempts p1)) (int (as_secs (retry_delay policy))) ck (clock e 2)"
  have f: "f = (sint (actor_id r) \<in> set (nsfw_marks s))"
    using h(4) charge_marks [OF h(3)] by (simp add: sql_nsfw_mark_consume_def)
  have sr: "with_force_nsfw f r1 = stored_request s r"
    by (simp add: stored_request_def v with_force_nsfw_def f)
  have same: "same_queue s s2" using charge_same [OF h(3)] consume_same [OF h(4)]
    by (rule same_queue_trans)
  have same': "same_queue s3 s'" using register_same [OF h(6)] finish_telegram_same [OF h(7)]
    by (rule same_queue_trans)
  have valid: "settings_wf settings"
    using v(2) unfolding from_settings_def Let_def res_bind_Inr_iff
    by (auto dest: settings_validate_Inr)
  then have ten: "uint (download_retries settings) \<le> 10"
    by (auto simp: settings_wf_def settings_validate_def word_le_def split: if_splits)
  have ins: "op_checks ?row" "op_id ?row \<notin> op_id ` set (ops s)"
    "op_unique ?row \<notin> op_unique ` set (ops s)" "ops s3 = ops s @ [?row]" "units s3 = units s"
    using h(5) same by (auto simp: sql_admit_insert_def same_queue_def op_unique_def split: if_splits)
  show thesis
  proof (rule that [of "admitted_row (fresh_id e) (actor_id r) key (encode (stored_request s r))
       (uint (max_attempts p1)) (int (as_secs (retry_delay policy))) ck (clock e 2)" "max_attempts p1"])
    show "pred_option settings_wf (downloader_settings (stored_request s r))"
      using valid by (simp add: stored_request_def v)
  qed (use ins same' sr h v(7) ten in \<open>auto simp: same_queue_def\<close>)
qed

lemma admitted_row_inv:
  assumes "op_checks (admitted_row i a key d n delay ck now)" and "n \<le> 100"
  shows "row_inv (admitted_row i a key d n delay ck now) []"
  using assms by (simp add: row_inv_def bounds_inv_def units_inv_def all_rejected_def
      admitted_row_def op_checks_def)

lemma db_inv_insert:
  assumes inv: "db_inv s" and ops: "ops s' = ops s @ [row]" and units: "units s' = units s"
    and new: "op_id row \<notin> op_id ` set (ops s)" "op_unique row \<notin> op_unique ` set (ops s)"
    and row: "row_inv row []"
  shows "db_inv s'"
proof -
  have "units_of (op_id row) s = []"
    using inv new(1) unfolding db_inv_def units_of_def filter_empty_conv by metis
  moreover have "units_of i s' = units_of i s" for i by (simp add: units_of_def units)
  ultimately show ?thesis
    using inv new row by (auto simp: db_inv_def ops units)
qed

lemma admit_new_inv:
  assumes inv: "db_inv s" and policy: "validate_policy policy = Inr ()"
    and new: "admit_new cfg e r key policy ck now_override tg s = Inr (a, s')"
  shows "db_inv s'"
  using new
proof (rule admit_new_Inr)
  fix attempts row
  assume h: "row = admitted_row (fresh_id e) (actor_id r) key (encode (stored_request s r))
      (uint attempts) (int (as_secs (retry_delay policy))) ck (clock e 2)"
    "ops s' = ops s @ [row]" "units s' = units s" "op_checks row"
    "op_id row \<notin> op_id ` set (ops s)" "op_unique row \<notin> op_unique ` set (ops s)"
    "attempts = max_attempts policy \<or> uint attempts \<le> 10"
  have "uint attempts \<le> 100" using h(7) validate_policy_bounds [OF policy] by auto
  then have "row_inv row []" using h(1,4) admitted_row_inv by simp
  with h show ?thesis by (intro db_inv_insert [OF inv])
qed

lemma admit_inner_cases:
  obtains x where "admit_inner parse digest cfg e r key policy preserve now tg s = (Inl x, s)"
    | a s' ck where "admit_inner parse digest cfg e r key policy preserve now tg s = (Inr a, s')"
      "validate_policy policy = Inr ()" "up e" "downloader_settings r = None"
      "traverse_option (\<lambda>_. media_cache_key digest (with_force_nsfw False r)) (target r) = Inr ck"
      "admit_body parse cfg e (with_force_nsfw False r) key policy preserve ck now tg s = Inr (a, s')"
proof -
  let ?h = "admit_inner parse digest cfg e r key policy preserve now tg s"
  show thesis
  proof (cases "\<exists>a s'. ?h = (Inr a, s')")
    case True
    then obtain a s' where h: "?h = (Inr a, s')" by blast
    then have "\<exists>ck. validate_policy policy = Inr () \<and> up e \<and> downloader_settings r = None
      \<and> traverse_option (\<lambda>_. media_cache_key digest (with_force_nsfw False r)) (target r) = Inr ck
      \<and> admit_body parse cfg e (with_force_nsfw False r) key policy preserve ck now tg s = Inr (a, s')"
      by (auto simp: admit_inner_def checked_def transaction_def Let_def with_force_nsfw_def
          split: sum.splits if_splits)
    with h show thesis by (elim exE conjE) (rule that(2))
  next
    case False
    then show thesis
      by (intro that(1) [of "projl (fst ?h)"])
        (auto simp: admit_inner_def checked_def transaction_def Let_def split: sum.splits if_splits)
  qed
qed

lemma admit_inner_inv:
  assumes "db_inv s"
  shows "db_inv (snd (admit_inner parse digest cfg e r key policy preserve now tg s))"
proof (cases rule: admit_inner_cases [of parse digest cfg e r key policy preserve now tg s])
  case 1
  with assms show ?thesis by simp
next
  case (2 a s' ck)
  then show ?thesis
    using assms admit_new_inv [OF assms 2(2)]
    by (auto simp: admit_body_def res_bind_Inr_iff split: option.splits)
qed

end
