(* ===== verification/Claim_Steps.thy ===== *)
theory Claim_Steps
  imports Batch_Steps
begin

text \<open>
  Claiming keeps the invariant: the expiry of abandoned leases, one operation at a time, and
  the claim itself. With a clock that does not run backwards the expiry never meets a row that
  changed under it, and the update of the claim always finds the row the select chose.
\<close>

section \<open>Expiry\<close>

lemma expired_status_cases: "active (op_status r) \<Longrightarrow> \<not> active (expired_status unknown r)"
  by (auto simp: expired_status_def)

lemma expired_status_values:
  "expired_status b r \<in> {DeliveryUnknown, DeliveryPartial, Cancelled, Failed, Queued}"
  by (simp add: expired_status_def)

lemma expire_row_simps [simp]:
  "op_id (expire_row b t r) = op_id r" "op_unique (expire_row b t r) = op_unique r"
  "op_attempt (expire_row b t r) = op_attempt r"
  "op_max_attempts (expire_row b t r) = op_max_attempts r"
  "op_cancel_requested (expire_row b t r) = op_cancel_requested r"
  "op_cache_bypassed (expire_row b t r) = op_cache_bypassed r"
  "op_status (expire_row b t r) = expired_status b r"
  by (simp_all add: expire_row_def op_unique_def)

lemma expire_row_checks: "op_checks r \<Longrightarrow> active (op_status r) \<Longrightarrow> op_checks (expire_row b t r)"
  by (cases "op_status r")
    (auto simp: expire_row_def op_checks_def release_def clear_progress_def unleased_def
      expired_status_def)

lemma expired_queued:
  assumes "expired_status unknown r = Queued" and "op_status r = Delivering"
  shows "\<not> unknown \<and> \<not> 0 < op_delivered r \<and> \<not> op_cancel_requested r"
  using assms by (auto simp: expired_status_def split: if_splits)

definition sending_of :: "uuid \<Rightarrow> int \<Rightarrow> unit_row \<Rightarrow> bool" where
  "sending_of i a u \<longleftrightarrow> u_op u = i \<and> u_attempt u = a \<and> u_status u = Sending"

abbreviation lose_unit :: "int \<Rightarrow> unit_row \<Rightarrow> unit_row" where
  "lose_unit now \<equiv> \<lambda>u. u\<lparr>u_status := UnknownSend, u_updated_at := now\<rparr>"

lemma sending_marks: "marks r (sending_of (op_id r) (op_attempt r)) (lose_unit now)"
  by (auto simp: marks_def sending_of_def unit_key_def unsent_checks)

lemma expired_row_inv:
  assumes ri: "row_inv r (units_of (op_id r) s)" and act: "active (op_status r)"
    and s1: "s1 = marked (sending_of (op_id r) (op_attempt r)) (lose_unit t0) s"
  shows "row_inv (expire_row (has_unit (op_id r) (op_attempt r) UnknownSend s1) t1 r)
    (update_where (sending_of (op_id r) (op_attempt r)) (lose_unit t0) (units_of (op_id r) s))"
    (is "row_inv (expire_row ?unknown t1 r) (update_where ?q ?g ?us)")
proof -
  let ?r = "expire_row ?unknown t1 r"
  have c: "op_checks ?r" using ri act by (intro expire_row_checks) (simp_all add: row_inv_def)
  have bi: "bounds_inv ?r" using ri by (simp add: row_inv_def bounds_inv_def)
  show ?thesis
  proof (cases "op_status ?r = Queued")
    case True
    have none: False if u: "u \<in> set (this_attempt r ?us)" for u
    proof (cases "op_status r = Delivering")
      case True
      with expired_queued [of ?unknown r] \<open>op_status ?r = Queued\<close>
      have h: "\<not> ?unknown" "op_delivered r = 0"
        using ri delivered_nonneg by (auto simp: row_inv_def)
      have "u_status u = Sending"
        by (rule rejected_cases [OF delivering_batch [OF ri True] row_units_checks [OF ri] h(2) u])
      with u have "?unknown"
        unfolding s1 by (intro has_unit_marked [of u])
          (simp_all add: this_attempt_def units_of_def sending_of_def)
      with h(1) show False by simp
    next
      case False
      with act have "op_status r = Running" by (cases "op_status r") simp_all
      with ri u show False by (simp add: row_inv_def)
    qed
    have "\<not> op_cancel_requested r"
      using True act by (cases "op_status r") (auto simp: expired_status_def split: if_splits)
    then show ?thesis
      using none by (intro row_inv_marked_queued [OF ri sending_marks c bi True]) auto
  next
    case False
    with expired_status_values [of ?unknown r] have "\<not> pending (op_status ?r)" by auto
    then show ?thesis by (intro row_inv_marked_ended [OF ri sending_marks c bi]) simp_all
  qed
qed

lemma sending_of_eq:
  "(\<lambda>u. u_op u = i \<and> u_attempt u = a \<and> u_status u = Sending) = sending_of i a"
  by (simp add: fun_eq_iff sending_of_def)

lemma expire_units_stmt:
  assumes "db_inv s"
  shows "sql_expire_lease_units i a t s
    = Inr (count_where (sending_of i a) (units s), marked (sending_of i a) (lose_unit t) s)"
proof -
  have "list_all (\<lambda>u. sending_of i a u \<longrightarrow> unit_checks (lose_unit t u)) (units s)"
    using db_inv_unit [OF assms] by (auto simp: list_all_iff sending_of_def unsent_checks)
  then show ?thesis
    by (simp add: sql_expire_lease_units_def update_units_def marked_def sending_of_eq)
qed

lemma expire_operation_keeps:
  assumes inv: "db_inv s" and s1: "s1 = marked (sending_of i a) (lose_unit t0) s"
  shows "\<exists>n s2. sql_expire_lease_operation i a t1 s1 = Inr (n, s2) \<and> (n = Suc 0 \<longrightarrow> db_inv s2)
    \<and> n = count_where (\<lambda>r. op_id r = i \<and> op_attempt r = a \<and> active (op_status r) \<and> expired t1 r) (ops s)
    \<and> ops s2 = update_where (\<lambda>r. op_id r = i \<and> op_attempt r = a \<and> active (op_status r) \<and> expired t1 r)
        (expire_row (has_unit i a UnknownSend s1) t1) (ops s)"
proof -
  let ?p = "\<lambda>r. op_id r = i \<and> op_attempt r = a \<and> active (op_status r) \<and> expired t1 r"
  let ?f = "expire_row (has_unit i a UnknownSend s1) t1"
  have ops: "ops s1 = ops s" by (simp add: s1 marked_def)
  have row: "row_inv (?f r) (update_where (sending_of i a) (lose_unit t0) (units_of (op_id r) s))"
    if r: "r \<in> set (ops s)" "?p r" for r
    using expired_row_inv [OF db_inv_row [OF inv r(1)], of s1 t0 t1] r(2) s1 by auto
  then have "list_all (\<lambda>r. ?p r \<longrightarrow> op_checks (?f r)) (ops s1)"
    by (simp add: list_all_iff row_inv_def ops)
  then obtain s2 where o2: "sql_expire_lease_operation i a t1 s1 = Inr (count_where ?p (ops s), s2)"
    "ops s2 = update_where ?p ?f (ops s)"
    by (simp add: sql_expire_lease_operation_def update_ops_def ops)
  have unit: "update_units (sending_of i a) (lose_unit t0) s
      = Inr (count_where (sending_of i a) (units s), s1)"
    using expire_units_stmt [OF inv, of i a t0]
    by (simp add: sql_expire_lease_units_def sending_of_def [abs_def] s1)
  have "db_inv s2" if "count_where ?p (ops s) = Suc 0"
    by (rule keeps_unit_transaction [OF inv unit
          o2(1) [unfolded sql_expire_lease_operation_def that]])
      (use row in \<open>auto simp: sending_of_def unit_key_def\<close>)
  with o2 show ?thesis by blast
qed

lemma expire_leases_keeps:
  "db_inv s \<Longrightarrow> (\<forall>x. expire_leases clk k rs s = Inl x \<longrightarrow> x = NotFoundOrStale)
    \<and> (\<forall>s'. expire_leases clk k rs s = Inr s' \<longrightarrow> db_inv s')"
proof (induction rs arbitrary: k s)
  case (Cons r rs)
  let ?s1 = "marked (sending_of (op_id r) (op_attempt r)) (lose_unit (clk k)) s"
  obtain n s2 where s2: "sql_expire_lease_operation (op_id r) (op_attempt r) (clk (k + 1)) ?s1
      = Inr (n, s2)" "n = Suc 0 \<longrightarrow> db_inv s2"
    using expire_operation_keeps
      [OF Cons.prems refl, where i = "op_id r" and a = "op_attempt r" and ?t0.0 = "clk k"
        and ?t1.0 = "clk (k + 1)"] by blast
  have step: "expire_leases clk k (r # rs) s
      = (if n \<noteq> 1 then Inl NotFoundOrStale else expire_leases clk (k + 2) rs s2)"
    by (simp only: expire_leases.simps expire_units_stmt [OF Cons.prems] res_bind.simps
        prod.case s2(1))
  show ?case
  proof (cases "n = 1")
    case True
    with Cons.IH [of s2 "k + 2"] s2(2) step show ?thesis by simp
  next
    case False
    with step show ?thesis by simp
  qed
qed simp

section \<open>The expiry never fails under a steady clock\<close>

lemma expired_later: "expired t r \<Longrightarrow> t \<le> t' \<Longrightarrow> expired t' r"
  by (auto simp: expired_def split: option.splits)

lemma count_where_one:
  assumes "distinct (map key t)" and "r \<in> set t" and "p r" and "\<And>x. p x \<Longrightarrow> key x = key r"
  shows "count_where p t = Suc 0"
proof -
  have "count_where p t \<le> 1" by (rule count_where_key_le_1 [OF assms(1)]) (rule assms(4))
  moreover have "count_where p t \<noteq> 0" using assms(2,3) by (auto simp: count_where_def filter_empty_conv)
  ultimately show ?thesis by simp
qed

lemma expire_leases_succeeds:
  assumes "db_inv s" and "mono clk" and "distinct (map op_id rs)" and "set rs \<subseteq> set (ops s)"
    and "\<forall>r \<in> set rs. active (op_status r) \<and> expired (clk 0) r"
  shows "\<exists>s'. expire_leases clk k rs s = Inr s'"
  using assms
proof (induction rs arbitrary: k s)
  case (Cons r rs)
  let ?i = "op_id r" and ?a = "op_attempt r" and ?t = "clk (k + 1)"
  let ?s1 = "marked (sending_of ?i ?a) (lose_unit (clk k)) s"
  let ?p = "\<lambda>x. op_id x = ?i \<and> op_attempt x = ?a \<and> active (op_status x) \<and> expired ?t x"
  from expire_operation_keeps [OF Cons.prems(1) refl, where i = ?i and a = ?a and ?t0.0 = "clk k"
      and ?t1.0 = ?t]
  obtain n s2 where s2: "sql_expire_lease_operation ?i ?a ?t ?s1 = Inr (n, s2)"
    "n = Suc 0 \<longrightarrow> db_inv s2" "n = count_where ?p (ops s)"
    "ops s2 = update_where ?p (expire_row (has_unit ?i ?a UnknownSend ?s1) ?t) (ops s)"
    by blast
  have "clk 0 \<le> ?t" using Cons.prems(2) by (simp add: mono_def)
  then have "?p r" using Cons.prems(5) expired_later [of "clk 0" r] by auto
  then have n: "n = Suc 0"
    unfolding s2(3) using Cons.prems(1,4)
    by (intro count_where_one [where key = op_id and r = r]) (simp_all add: db_inv_def)
  have "x \<in> set (ops s2)" if "x \<in> set rs" for x
  proof -
    have "\<not> ?p x" using that Cons.prems(3) by (metis distinct.simps(2) image_eqI list.set_map list.simps(9))
    moreover have "x \<in> set (ops s)" using that Cons.prems(4) by auto
    ultimately show ?thesis unfolding s2(4) set_update_where by blast
  qed
  with Cons.IH [of s2 "k + 2"] Cons.prems n s2(2)
  obtain s' where "expire_leases clk (k + 2) rs s2 = Inr s'" by auto
  then have "expire_leases clk k (r # rs) s = Inr s'"
    by (simp only: expire_leases.simps expire_units_stmt [OF Cons.prems(1)] res_bind.simps
        prod.case s2(1) n) simp
  then show ?case ..
qed simp

lemma expired_rows:
  assumes "db_inv s" and rs_def: "rs = sql_expire_leases_select t s"
  shows "distinct (map op_id rs)" and "set rs \<subseteq> set (ops s)"
    and "\<forall>r \<in> set rs. active (op_status r) \<and> expired t r"
proof -
  let ?f = "filter (\<lambda>r. active (op_status r) \<and> expired t r) (ops s)"
  let ?k = "\<lambda>r. (the (op_expires r), op_id r)"
  have sub: "set rs \<subseteq> set ?f"
    unfolding rs_def sql_expire_leases_select_def by (rule order_limit_subset)
  then show "set rs \<subseteq> set (ops s)" and "\<forall>r \<in> set rs. active (op_status r) \<and> expired t r" by auto
  have "distinct (map op_id ?f)" using assms by (simp add: db_inv_def distinct_map_filter)
  then have "distinct ?f" "inj_on op_id (set ?f)" by (simp_all add: distinct_map)
  then have "distinct (sort_key ?k ?f)" by simp
  then have "distinct rs" by (simp add: rs_def sql_expire_leases_select_def order_limit_def)
  moreover have "inj_on op_id (set rs)" using \<open>inj_on op_id (set ?f)\<close> sub by (rule inj_on_subset)
  ultimately show "distinct (map op_id rs)" by (simp add: distinct_map)
qed

lemma expire_steady:
  assumes "db_inv s" and "steady e"
  obtains s' where
    "expire_leases (clock e) 1 (sql_expire_leases_select (clock e 0) s) s = Inr s'" "db_inv s'"
  using expire_leases_succeeds [OF assms(1) _ expired_rows [OF assms(1) refl], of "clock e" 1] assms
    expire_leases_keeps [OF assms(1)] by (auto simp: steady_def)

section \<open>The claim\<close>

lemma claimed_row_simps [simp]:
  "op_id (claimed_row w l k t r) = op_id r" "op_unique (claimed_row w l k t r) = op_unique r"
  "op_actor (claimed_row w l k t r) = op_actor r" "op_request (claimed_row w l k t r) = op_request r"
  "op_status (claimed_row w l k t r) = Running"
  "op_attempt (claimed_row w l k t r) = op_attempt r + 1"
  "op_token (claimed_row w l k t r) = Some k" "op_worker (claimed_row w l k t r) = Some w"
  "op_expires (claimed_row w l k t r) = Some (t + int l * 1000000)"
  "op_cancel_requested (claimed_row w l k t r) = op_cancel_requested r"
  "op_cache_bypassed (claimed_row w l k t r) = op_cache_bypassed r"
  by (simp_all add: claimed_row_def op_unique_def) (simp_all add: clear_progress_def)

lemma claimed_row_inv:
  assumes "row_inv r us" and "claimable now r" and "pred_option (\<lambda>c. c \<in> set failure_codes) code"
  shows "row_inv ((claimed_row w l k t r)\<lparr>op_failure_code := code\<rparr>) us"
proof -
  let ?r = "(claimed_row w l k t r)\<lparr>op_failure_code := code\<rparr>"
  have st: "op_status r = Queued" and room: "op_attempt r < op_max_attempts r"
    using assms(2) by (simp_all add: claimable_def)
  have old: "\<forall>u \<in> set us. unit_checks u \<and> u_attempt u \<le> op_attempt r" "all_rejected us"
    using assms(1) st by (simp_all add: row_inv_def units_inv_def)
  have "op_checks ?r"
    using assms(1,3) st by (simp add: row_inv_def op_checks_def claimed_row_def clear_progress_def
        leased_def unleased_def)
  moreover have "bounds_inv ?r"
    using assms(1) room by (simp add: row_inv_def bounds_inv_def claimed_row_def)
  moreover have "units_inv ?r us"
    using old by (auto simp: units_inv_def all_rejected_def)
  moreover have "this_attempt ?r us = []"
    using old by (auto simp: this_attempt_def filter_empty_conv)
  moreover have "0 < op_attempt ?r" using assms(1) by (simp add: row_inv_def op_checks_def)
  ultimately show ?thesis
    using old(2) by (simp add: row_inv_def) (simp add: claimed_row_def)
qed

lemma claimed_row_same:
  "claimed_row w l k t r = (claimed_row w l k t r)\<lparr>op_failure_code := op_failure_code r\<rparr>"
  by (simp add: claimed_row_def clear_progress_def)

lemma claimed_row_inv':
  "row_inv r us \<Longrightarrow> claimable now r \<Longrightarrow> row_inv (claimed_row w l k t r) us"
  by (subst claimed_row_same) (rule claimed_row_inv, simp_all add: row_inv_def op_checks_def)

text \<open>The two update statements of a claim, as one.\<close>

definition claim_statement ::
  "string \<Rightarrow> nat \<Rightarrow> i64 option \<Rightarrow> uuid \<Rightarrow> uuid \<Rightarrow> int \<Rightarrow> db \<Rightarrow> store_error + op_row option \<times> db" where
  "claim_statement w l b tok i now =
     (case b of Some b \<Rightarrow> sql_claim_for_bot_update w l b tok i now
      | None \<Rightarrow> sql_claim_update w l tok i now)"

definition claim_columns :: "string \<Rightarrow> nat \<Rightarrow> i64 option \<Rightarrow> uuid \<Rightarrow> int \<Rightarrow> op_row \<Rightarrow> op_row" where
  "claim_columns w l b tok now r =
     (case b of Some _ \<Rightarrow> claimed_row w l tok now r
      | None \<Rightarrow> (claimed_row w l tok now r)\<lparr>op_failure_code := None\<rparr>)"

lemma claim_statement_eq:
  "claim_statement w l b tok i now =
     update_returning (\<lambda>r. op_id r = i \<and> claimable now r \<and> for_bot b r) (claim_columns w l b tok now)"
  by (cases b) (simp_all add: claim_statement_def sql_claim_for_bot_update_def sql_claim_update_def
      claim_columns_def [abs_def] for_bot_def)

lemma claim_columns_simps [simp]:
  "op_id (claim_columns w l b k t r) = op_id r" "op_unique (claim_columns w l b k t r) = op_unique r"
  "op_actor (claim_columns w l b k t r) = op_actor r"
  "op_request (claim_columns w l b k t r) = op_request r"
  "op_status (claim_columns w l b k t r) = Running"
  "op_attempt (claim_columns w l b k t r) = op_attempt r + 1"
  "op_token (claim_columns w l b k t r) = Some k" "op_worker (claim_columns w l b k t r) = Some w"
  "op_expires (claim_columns w l b k t r) = Some (t + int l * 1000000)"
  "op_cancel_requested (claim_columns w l b k t r) = op_cancel_requested r"
  by (cases b; simp add: claim_columns_def op_unique_def; simp add: claimed_row_def)+

lemma claim_columns_inv:
  "row_inv r us \<Longrightarrow> claimable now r \<Longrightarrow> row_inv (claim_columns w l b tok t r) us"
  by (cases b) (simp_all add: claim_columns_def claimed_row_inv claimed_row_inv')

lemma find_row_key:
  assumes "distinct (map key t)" and "r \<in> set t" and "p r" and "\<And>x. p x \<Longrightarrow> key x = key r"
  shows "find_row p t = Some r"
proof (cases "find_row p t")
  case None
  with assms(2,3) show ?thesis by (auto simp: find_row_None)
next
  case (Some x)
  from find_row_Some [OF Some] assms show ?thesis by (metis Some distinct_key_eq)
qed

lemma claim_statement_keeps:
  assumes inv: "db_inv s"
  obtains s' where "claim_statement w l b tok i now s =
      Inr (map_option (claim_columns w l b tok now)
        (find_row (\<lambda>r. op_id r = i \<and> claimable now r \<and> for_bot b r) (ops s)), s')" "db_inv s'"
    "s' = s\<lparr>ops := update_where (\<lambda>r. op_id r = i \<and> claimable now r \<and> for_bot b r)
        (claim_columns w l b tok now) (ops s)\<rparr>"
proof -
  let ?p = "\<lambda>r. op_id r = i \<and> claimable now r \<and> for_bot b r"
  obtain s' where "update_ops ?p (claim_columns w l b tok now) s = Inr (count_where ?p (ops s), s')"
    "db_inv s'" "s' = s\<lparr>ops := update_where ?p (claim_columns w l b tok now) (ops s)\<rparr>"
    by (rule update_ops_keeps [OF inv, where p = ?p and i = i and f = "claim_columns w l b tok now"])
      (auto intro: claim_columns_inv)
  then show thesis by (intro that) (simp_all add: claim_statement_eq update_returning_def)
qed

definition claim_selected :: "i64 option \<Rightarrow> claim_policy \<Rightarrow> int \<Rightarrow> db \<Rightarrow> op_row option" where
  "claim_selected b policy now s =
     (case b of Some b \<Rightarrow> sql_claim_for_bot_select b policy now s
      | None \<Rightarrow> sql_claim_select policy now s)"

lemma claim_selected_eq:
  "claim_selected b policy now s =
     (case order_limit claim_order 1 (filter (eligible b policy now s) (ops s)) of
        [] \<Rightarrow> None | r # _ \<Rightarrow> Some r)"
  by (cases b) (simp_all add: claim_selected_def sql_claim_for_bot_select_def sql_claim_select_def)

lemma claim_selected_Some:
  assumes "claim_selected b policy now s = Some r"
  shows "r \<in> set (ops s)" and "eligible b policy now s r"
    and "\<forall>x \<in> set (ops s). eligible b policy now s x \<longrightarrow> claim_order r \<le> claim_order x"
proof -
  let ?f = "filter (eligible b policy now s) (ops s)"
  have one: "order_limit claim_order (Suc 0) ?f = [r]"
    using assms by (cases rule: order_limit_1_cases [of ?f claim_order])
      (auto simp: claim_selected_eq)
  from order_limit_1_Cons(1) [OF one] show "r \<in> set (ops s)" "eligible b policy now s r" by simp_all
  from order_limit_1_Cons(2) [OF one]
  show "\<forall>x \<in> set (ops s). eligible b policy now s x \<longrightarrow> claim_order r \<le> claim_order x" by simp
qed

lemma claim_selected_None:
  assumes "claim_selected b policy now s = None" and "r \<in> set (ops s)"
  shows "\<not> eligible b policy now s r"
proof -
  let ?f = "filter (eligible b policy now s) (ops s)"
  have "?f = []"
    using assms(1) by (cases rule: order_limit_1_cases [of ?f claim_order])
      (auto simp: claim_selected_eq)
  with assms(2) show ?thesis by (simp add: filter_empty_conv)
qed

lemma eligible_mono:
  "eligible b policy now s r \<Longrightarrow> now \<le> now' \<Longrightarrow> claimable now' r \<and> for_bot b r"
  by (auto simp: eligible_def claimable_def)

section \<open>Every outcome of a claim\<close>

text \<open>The statement at which a claim selects, after the expiry of the leases it found.\<close>

definition claim_index :: "env \<Rightarrow> db \<Rightarrow> nat" where
  "claim_index e s = 1 + 2 * length (sql_expire_leases_select (clock e 0) s)"

definition expire_all :: "env \<Rightarrow> db \<Rightarrow> store_error + db" where
  "expire_all e s = expire_leases (clock e) 1 (sql_expire_leases_select (clock e 0) s) s"

definition claim_result ::
  "url_parser \<Rightarrow> (op_row \<Rightarrow> op_row) \<Rightarrow> op_row \<Rightarrow> db \<Rightarrow> store_error + claim option \<times> db" where
  "claim_result parse f r s =
     res_bind (decode parse (op_request r)) (\<lambda>req.
       Inr (Some (claim_of_row req (f r)),
         s\<lparr>ops := update_where (\<lambda>x. op_id x = op_id r) f (ops s)\<rparr>))"

lemma claim_body_eq:
  "claim_filtered_body parse e w lease b policy s =
     res_bind (expire_all e s) (\<lambda>s1.
       case claim_selected b policy (clock e (claim_index e s)) s1 of
         None \<Rightarrow> Inr (None, s1)
       | Some r \<Rightarrow>
           res_bind (claim_statement w (as_secs lease) b (fresh_id e) (op_id r)
               (clock e (claim_index e s + 1)) s1)
             (\<lambda>(row, s). case row of None \<Rightarrow> Inl Database
               | Some row \<Rightarrow> res_bind (decode parse (op_request row)) (\<lambda>req.
                    Inr (Some (claim_of_row req row), s))))"
  unfolding claim_filtered_body_def claim_selected_def claim_statement_def expire_all_def Let_def
    claim_index_def
  by (cases b) (simp_all only: option.case)

lemma claim_body_cases:
  assumes inv: "db_inv s" and st: "steady e"
  obtains (none) s1 where "expire_all e s = Inr s1" "db_inv s1"
      "claim_selected b policy (clock e (claim_index e s)) s1 = None"
      "claim_filtered_body parse e w lease b policy s = Inr (None, s1)"
    | (row) s1 r where "expire_all e s = Inr s1" "db_inv s1"
      "claim_selected b policy (clock e (claim_index e s)) s1 = Some r"
      "claim_filtered_body parse e w lease b policy s = claim_result parse
        (claim_columns w (as_secs lease) b (fresh_id e) (clock e (claim_index e s + 1))) r s1"
proof -
  let ?k = "claim_index e s"
  let ?t = "clock e (?k + 1)"
  let ?f = "claim_columns w (as_secs lease) b (fresh_id e) ?t"
  obtain s1 where s1: "expire_all e s = Inr s1" and inv1: "db_inv s1"
    unfolding expire_all_def by (rule expire_steady [OF inv st])
  show thesis
  proof (cases "claim_selected b policy (clock e ?k) s1")
    case None
    with none [OF s1 inv1] claim_body_eq [of parse e w lease b policy s] s1 show thesis by simp
  next
    case (Some r)
    let ?p = "\<lambda>x. op_id x = op_id r \<and> claimable ?t x \<and> for_bot b x"
    note r = claim_selected_Some(1,2) [OF Some]
    have "clock e ?k \<le> ?t" using st by (simp add: steady_def mono_def)
    then have pr: "?p r" using eligible_mono [OF r(2)] by simp
    then have found: "find_row ?p (ops s1) = Some r"
      using inv1 r(1) by (intro find_row_key [where key = op_id]) (simp_all add: db_inv_def)
    have same: "update_where ?p ?f (ops s1) = update_where (\<lambda>x. op_id x = op_id r) ?f (ops s1)"
      unfolding update_where_def
      by (rule map_cong [OF refl]) (use pr r(1) db_inv_same_id [OF inv1] in metis)
    obtain s2 where s2: "claim_statement w (as_secs lease) b (fresh_id e) (op_id r) ?t s1 =
        Inr (map_option ?f (find_row ?p (ops s1)), s2)"
      "s2 = s1\<lparr>ops := update_where ?p ?f (ops s1)\<rparr>"
      by (rule claim_statement_keeps [OF inv1])
    have "claim_filtered_body parse e w lease b policy s = claim_result parse ?f r s1"
      unfolding claim_body_eq s1 res_bind.simps Some option.case s2(1) prod.case found
        option.map claim_result_def s2(2) same claim_columns_simps ..
    with row [OF s1 inv1 Some] show thesis by blast
  qed
qed

lemma claim_result_inv:
  assumes "db_inv s1" and "r \<in> set (ops s1)" and "claimable t r"
  shows "db_inv (s1\<lparr>ops := update_where (\<lambda>x. op_id x = op_id r)
    (claim_columns w l b tok now) (ops s1)\<rparr>)"
proof -
  let ?p = "\<lambda>x. x = r"
  have "update_where (\<lambda>x. op_id x = op_id r) (claim_columns w l b tok now) (ops s1)
      = update_where ?p (claim_columns w l b tok now) (ops s1)"
    unfolding update_where_def
    by (rule map_cong [OF refl]) (use db_inv_same_id [OF assms(1)] assms(2) in metis)
  note eq = this
  show ?thesis
    unfolding eq
  proof (rule db_inv_ops_only [where p = ?p and i = "op_id r" and f = "claim_columns w l b tok now",
        OF assms(1)])
    show "row_inv (claim_columns w l b tok now x) us" if "x = r" "row_inv x us" for x us
      using claim_columns_inv [OF that(2)] that(1) assms(3) by blast
  qed simp_all
qed

lemma claim_filtered_keeps:
  assumes "steady e" shows "keeps e (claim_filtered parse e w lease b policy)"
  unfolding claim_filtered_def
proof (intro keeps_checked validate_not_database, rule keeps_transaction)
  fix s assume inv: "db_inv s"
  show "x \<noteq> Database" if "claim_filtered_body parse e w lease b policy s = Inl x" for x
    using inv assms
  proof (cases rule: claim_body_cases [where b = b and policy = policy and parse = parse
        and w = w and lease = lease])
    case none
    with that show ?thesis by simp
  next
    case (row s1 r)
    with that have "decode parse (op_request r) = Inl x"
      by (auto simp: claim_result_def elim!: res_bind.elims)
    from decode_error [OF this] show ?thesis by simp
  qed
  show "db_inv s'" if "claim_filtered_body parse e w lease b policy s = Inr (a, s')" for a s'
    using inv assms
  proof (cases rule: claim_body_cases [where b = b and policy = policy and parse = parse
        and w = w and lease = lease])
    case none
    with that show ?thesis by simp
  next
    case (row s1 r)
    note r = claim_selected_Some(1,2) [OF row(3)]
    from r(2) have "claimable (clock e (claim_index e s)) r" by (simp add: eligible_def)
    from claim_result_inv [OF row(2) r(1) this] that row(4) show ?thesis
      by (auto simp: claim_result_def res_bind_Inr_iff)
  qed
qed

end
