(* ===== verification/Queue_System.thy ===== *)
theory Queue_System
  imports Admission_Facts Claim_Steps
begin

text \<open>
  The queue as one state machine: every call of the store that writes the queue tables is a
  step, in any order and by any number of workers, each call with its own clock readings,
  database faults and fresh identifiers. The invariant holds in every state the calls can
  reach, and a row keeps its identity and its request for ever.
\<close>

section \<open>Calls and steps\<close>

datatype worker_call =
  UpdateProgress u8 progress_stage
| Heartbeat duration
| Complete
| Fail bool "string option"
| AcknowledgeCancel
| BeginDelivery
| CompleteDelivery i32
| MarkUnknown
| RejectDelivery
| BeginBatch u32
| BeginUnit u32 u32
| CompleteUnit u32 "i64 list"
| RejectUnit u32 "duration option"
| UnknownUnit u32
| StopBatch stop_delivery_reason
| RequeueInvalidCache u32 uuid

datatype queue_call =
  Admit store_config download_request string admission_policy bool "int option" "telegram_admission option"
| ClaimNext string duration "i64 option" claim_policy
| RequestCancel u64 uuid
| OnClaim claim worker_call

text \<open>The answer of a call on a claim: whether it took effect, or its error.\<close>

definition took_effect :: "('a \<Rightarrow> bool) \<Rightarrow> 'a outcome \<Rightarrow> bool outcome" where
  "took_effect f o' =
     (case o' of (Inl x, s) \<Rightarrow> (Inl x, s) | (Inr a, s) \<Rightarrow> (Inr (f a), s))"

fun run_worker :: "digester \<Rightarrow> env \<Rightarrow> claim \<Rightarrow> worker_call \<Rightarrow> (db \<Rightarrow> bool outcome)" where
  "run_worker digest e c (UpdateProgress percent stage) =
     (\<lambda>s. took_effect (\<lambda>_. True) (update_progress e c percent stage s))"
| "run_worker digest e c (Heartbeat lease) =
     (\<lambda>s. took_effect (\<lambda>_. True) (heartbeat_state e c lease s))"
| "run_worker digest e c Complete =
     (\<lambda>s. took_effect (\<lambda>_. True) (complete e c s))"
| "run_worker digest e c (Fail retryable code) =
     (\<lambda>s. took_effect (\<lambda>_. True) (fail_with_code e c retryable code s))"
| "run_worker digest e c AcknowledgeCancel =
     (\<lambda>s. took_effect (\<lambda>_. True) (acknowledge_cancel e c s))"
| "run_worker digest e c BeginDelivery =
     (\<lambda>s. took_effect (\<lambda>_. True) (begin_delivery e c s))"
| "run_worker digest e c (CompleteDelivery m) =
     (\<lambda>s. took_effect (\<lambda>_. True) (complete_delivery e c m s))"
| "run_worker digest e c MarkUnknown =
     (\<lambda>s. took_effect (\<lambda>_. True) (delivery_unknown e c s))"
| "run_worker digest e c RejectDelivery =
     (\<lambda>s. took_effect (\<lambda>_. True) (reject_delivery e c s))"
| "run_worker digest e c (BeginBatch n) = begin_delivery_batch e c n"
| "run_worker digest e c (BeginUnit k n) = begin_delivery_unit e c k n"
| "run_worker digest e c (CompleteUnit k ids) = complete_delivery_unit e c k ids"
| "run_worker digest e c (RejectUnit k wait) = reject_delivery_unit e c k wait"
| "run_worker digest e c (UnknownUnit k) = unknown_delivery_unit e c k"
| "run_worker digest e c (StopBatch reason) = stop_delivery_batch e c reason"
| "run_worker digest e c (RequeueInvalidCache k revision) = requeue_invalid_cache digest e c k revision"

fun run_call :: "url_parser \<Rightarrow> digester \<Rightarrow> env \<Rightarrow> queue_call \<Rightarrow> db \<Rightarrow> db" where
  "run_call parse digest e (Admit cfg r key policy preserve now tg) s =
     snd (admit_inner parse digest cfg e r key policy preserve now tg s)"
| "run_call parse digest e (ClaimNext w lease b policy) s =
     snd (claim_filtered parse e w lease b policy s)"
| "run_call parse digest e (RequestCancel actor i) s = snd (request_cancel e actor i s)"
| "run_call parse digest e (OnClaim c wc) s = snd (run_worker digest e c wc s)"

inductive queue_step :: "url_parser \<Rightarrow> digester \<Rightarrow> db \<Rightarrow> db \<Rightarrow> bool" for parse digest where
  call: "steady e \<Longrightarrow> queue_step parse digest s (run_call parse digest e q s)"

inductive_cases queue_stepE: "queue_step parse digest s t"

definition empty_queue :: "db \<Rightarrow> bool" where
  "empty_queue s \<longleftrightarrow> ops s = [] \<and> units s = []"

section \<open>The invariant of the whole\<close>

lemma snd_took_effect [simp]: "snd (took_effect f o') = snd o'"
  by (cases o'; cases "fst o'") (auto simp: took_effect_def)

lemma took_effect_error: "fst (took_effect f o') = Inl x \<longleftrightarrow> fst o' = Inl x"
  by (cases o'; cases "fst o'") (auto simp: took_effect_def)

lemma keeps_took_effect: "keeps e h \<Longrightarrow> keeps e (\<lambda>s. took_effect f (h s))"
  by (simp add: keeps_def took_effect_error)

lemma word_100: "\<not> n > (100 :: 'a :: len word) \<longleftrightarrow> n \<le> 100"
  by auto

lemma heartbeat_state_keeps: "keeps e (heartbeat_state e c lease)"
  unfolding heartbeat_state_def
proof (intro keeps_checked validate_not_database, rule keeps_transaction)
  let ?p = "\<lambda>r. fenced c (clock e 0) r \<and> active (op_status r)"
  let ?f = "\<lambda>r. r\<lparr>op_expires := Some (clock e 0 + int (as_secs lease) * 1000000),
      op_updated_at := clock e 0\<rparr>"
  fix s assume inv: "db_inv s"
  obtain s1 where s1: "update_ops ?p ?f s = Inr (count_where ?p (ops s), s1)" "db_inv s1"
    by (rule update_ops_keeps [OF inv, where p = ?p and f = ?f and i = "operation_id c"])
      (auto simp: fenced_def op_unique_def heartbeat_row)
  let ?body = "res_bind (sql_heartbeat c (as_secs lease) (clock e 0) s) (\<lambda>(row, s).
    res_bind (ok_or NotFoundOrStale row) (\<lambda>r. Inr (\<lparr>heartbeat_expires_at = the (op_expires r),
      heartbeat_cancel_requested = op_cancel_requested r\<rparr>, s)))"
  show "x \<noteq> Database" if "?body = Inl x" for x
    using that s1 by (cases "find_row ?p (ops s)") (auto simp: sql_heartbeat_def update_returning_def)
  show "db_inv s'" if "?body = Inr (a, s')" for a s'
    using that s1 by (cases "find_row ?p (ops s)") (auto simp: sql_heartbeat_def update_returning_def)
qed

lemma i64_words_distinct: "distinct xs \<Longrightarrow> distinct (map sint (xs :: i64 list))"
  by (simp add: distinct_map inj_on_def signed_word_eqI)

lemma complete_delivery_unit_keeps: "keeps e (complete_delivery_unit e c ordinal ids)"
  unfolding complete_delivery_unit_def Let_def
proof (rule keeps_checked, simp, rule keeps_checked, simp, rule keeps_checked, simp)
  assume "(if ordinal > 99 \<or> ids = [] \<or> length ids > 10
      \<or> list_ex (\<lambda>i. sint i \<le> 0 \<or> sint i > i32_max) ids then Inl InvalidInput else Inr ()) = Inr ()"
  then have "ids \<noteq> []" "\<forall>i \<in> set ids. 0 < sint i"
    by (auto simp: list_ex_iff split: if_splits)
  then have "0 < last (map sint ids)" by (simp add: last_map)
  then show "keeps e (update_delivery_unit e
      (sql_complete_delivery_unit c (uint ordinal) (map sint ids) (clock e 0))
      (sql_complete_delivery_unit_operation c (uint ordinal) (last (map sint ids)) (clock e 1)))"
    by (rule complete_unit_keeps)
qed

lemma retry_after_not_database: "traverse_option retry_after_seconds w \<noteq> Inl Database"
  by (cases w) (auto simp: retry_after_seconds_def Let_def)

lemma reject_delivery_unit_keeps: "keeps e (reject_delivery_unit e c ordinal wait)"
  unfolding reject_delivery_unit_def
  by (intro keeps_checked validate_not_database, simp, cases "traverse_option retry_after_seconds wait")
    (use retry_after_not_database [of wait] in
      \<open>auto simp: keeps_def reject_unit_keeps [unfolded keeps_def]\<close>)

lemma begin_delivery_unit_keeps: "keeps e (begin_delivery_unit e c ordinal count)"
  unfolding begin_delivery_unit_def
proof (rule keeps_checked, simp, rule keeps_checked, simp)
  assume c: "validate_claim c = Inr ()"
    and "(if ordinal > 99 \<or> \<not> (1 \<le> count \<and> count \<le> 10) then Inl InvalidInput else Inr ()) = Inr ()"
  then have h: "ordinal \<le> 99" "1 \<le> count" "count \<le> 10" by (auto split: if_splits)
  have "0 < sint (attempt c)" using validate_claim_attempt [OF c] by simp
  with h show "keeps e (\<lambda>s. is_one (execute e
      (sql_begin_delivery_unit c (uint ordinal) (uint count) (clock e 0)) s))"
    by (intro keeps_is_one begin_delivery_unit_keeps_stmt) (simp_all add: word_le_def)
qed

lemma begin_delivery_batch_call_keeps: "keeps e (begin_delivery_batch e c n)"
  unfolding begin_delivery_batch_def
proof (rule keeps_checked, simp, rule keeps_checked, simp)
  assume "(if \<not> (1 \<le> n \<and> n \<le> 100) then Inl InvalidInput else Inr ()) = Inr ()"
  then have h: "1 \<le> n" "n \<le> 100" by (auto split: if_splits)
  then show "keeps e (\<lambda>s. is_one (execute e (sql_begin_delivery_batch c (uint n) (clock e 0)) s))"
    by (intro keeps_is_one begin_delivery_batch_keeps) (simp_all add: word_le_def)
qed

lemma run_worker_keeps: "steady e \<Longrightarrow> keeps e (run_worker digest e c wc)"
proof (cases wc)
  case (UpdateProgress percent stage)
  have "keeps e (update_progress e c percent stage)"
    unfolding update_progress_def
    by (intro keeps_checked validate_not_database keeps_or_stale update_progress_keeps)
      (auto split: if_splits)
  then show ?thesis using keeps_took_effect [of e _ "\<lambda>_. True"] by (simp add: UpdateProgress)
next
  case (Fail retryable code)
  have "keeps e (fail_with_code e c retryable code)"
    unfolding fail_with_code_def
    by (intro keeps_checked validate_not_database keeps_or_stale fail_keeps) (auto split: if_splits)
  then show ?thesis using keeps_took_effect [of e _ "\<lambda>_. True"] by (simp add: Fail)
next
  case (CompleteDelivery m)
  have "keeps e (complete_delivery e c m)"
    unfolding complete_delivery_def
    by (intro keeps_checked validate_not_database keeps_or_stale complete_delivery_keeps)
      (auto split: if_splits)
  then show ?thesis using keeps_took_effect [of e _ "\<lambda>_. True"] by (simp add: CompleteDelivery)
next
  case (UnknownUnit k)
  have "keeps e (unknown_delivery_unit e c k)"
    unfolding unknown_delivery_unit_def
    by (intro keeps_checked validate_not_database unknown_unit_keeps) (auto split: if_splits)
  then show ?thesis by (simp add: UnknownUnit)
qed (simp_all add: keeps_took_effect heartbeat_state_keeps complete_delivery_unit_keeps
    reject_delivery_unit_keeps begin_delivery_unit_keeps begin_delivery_batch_call_keeps
    stop_delivery_batch_keeps requeue_invalid_cache_keeps
    complete_def acknowledge_cancel_def begin_delivery_def delivery_unknown_def reject_delivery_def
    keeps_checked keeps_or_stale complete_keeps ack_cancel_keeps begin_delivery_keeps
    delivery_unknown_keeps reject_delivery_keeps)

lemma run_call_inv: "steady e \<Longrightarrow> db_inv s \<Longrightarrow> db_inv (run_call parse digest e q s)"
proof (cases q)
  case (RequestCancel actor i)
  have "keeps e (request_cancel e actor i)"
    unfolding request_cancel_def
    by (intro keeps_checked validate_not_database keeps_is_some_row cancel_keeps)
  then show "db_inv s \<Longrightarrow> ?thesis" by (simp add: RequestCancel keepsD)
qed (auto simp: admit_inner_inv intro: keepsD claim_filtered_keeps run_worker_keeps)

interpretation queue: transition_system empty_queue "queue_step parse digest" db_inv
  for parse digest
proof
  show "empty_queue s \<Longrightarrow> db_inv s" for s by (simp add: empty_queue_def db_inv_def)
  show "db_inv s \<Longrightarrow> queue_step parse digest s t \<Longrightarrow> db_inv t" for s t
    by (auto elim!: queue_stepE simp: run_call_inv)
qed

end
