(* ===== verification/Queue_Frame.thy ===== *)
theory Queue_Frame
  imports Queue_System
begin

text \<open>
  What no call of the queue may change: the identity and the request of an operation, an ended
  operation, a delivery unit that is no longer being sent. Each statement changes the rows it
  matches by a relation that composes, so the frame of a call, and of any sequence of calls,
  follows from the frame of its statements.
\<close>

section \<open>How a row may change\<close>

definition same_identity :: "op_row \<Rightarrow> op_row \<Rightarrow> bool" where
  "same_identity r r' \<longleftrightarrow>
     op_id r' = op_id r \<and> op_actor r' = op_actor r \<and> op_key r' = op_key r
     \<and> op_request r' = op_request r \<and> op_cache_key r' = op_cache_key r
     \<and> op_created_at r' = op_created_at r \<and> op_retry_delay r' = op_retry_delay r"

definition evolves :: "op_row \<Rightarrow> op_row \<Rightarrow> bool" where
  "evolves r r' \<longleftrightarrow>
     same_identity r r' \<and> op_attempt r \<le> op_attempt r'
     \<and> (op_cancel_requested r \<longrightarrow> op_cancel_requested r' \<and> op_attempt r' = op_attempt r)
     \<and> (op_cache_bypassed r \<longrightarrow> op_cache_bypassed r')
     \<and> (\<not> pending (op_status r) \<longrightarrow> r' = r)"

text \<open>A change that starts no attempt.\<close>

definition works :: "op_row \<Rightarrow> op_row \<Rightarrow> bool" where
  "works r r' \<longleftrightarrow>
     evolves r r' \<and> op_attempt r' = op_attempt r \<and> (active (op_status r') \<longrightarrow> active (op_status r))"

definition unit_evolves :: "unit_row \<Rightarrow> unit_row \<Rightarrow> bool" where
  "unit_evolves u u' \<longleftrightarrow>
     unit_key u' = unit_key u \<and> u_count u' = u_count u \<and> (u_status u \<noteq> Sending \<longrightarrow> u' = u)"

lemma active_pending: "active st \<Longrightarrow> pending st"
  by (cases st) simp_all

lemma evolves_refl [simp]: "evolves r r"
  by (simp add: evolves_def same_identity_def)

lemma evolves_trans: "evolves r r' \<Longrightarrow> evolves r' r'' \<Longrightarrow> evolves r r''"
  by (cases "pending (op_status r)"; cases "pending (op_status r')")
    (auto simp: evolves_def same_identity_def)

lemma works_refl [simp]: "works r r"
  by (simp add: works_def)

lemma works_trans: "works r r' \<Longrightarrow> works r' r'' \<Longrightarrow> works r r''"
  unfolding works_def by (auto intro: evolves_trans)

lemma unit_evolves_refl [simp]: "unit_evolves u u"
  by (simp add: unit_evolves_def)

lemma unit_evolves_trans: "unit_evolves u u' \<Longrightarrow> unit_evolves u' u'' \<Longrightarrow> unit_evolves u u''"
  by (cases "u_status u = Sending"; cases "u_status u' = Sending") (auto simp: unit_evolves_def)

section \<open>How the tables may change\<close>

definition units_grow :: "unit_row list \<Rightarrow> unit_row list \<Rightarrow> bool" where
  "units_grow us ws \<longleftrightarrow> list_all2 unit_evolves us (take (length us) ws)"

lemma units_grow_refl [simp]: "units_grow us us"
  by (simp add: units_grow_def list_all2_refl)

lemma units_grow_append [simp]: "units_grow us (us @ vs)"
  by (simp add: units_grow_def list_all2_refl)

lemma units_grow_length: "units_grow us ws \<Longrightarrow> length us \<le> length ws"
  by (auto simp: units_grow_def dest: list_all2_lengthD)

lemma units_grow_trans:
  assumes "units_grow us vs" and "units_grow vs ws" shows "units_grow us ws"
proof -
  have "length us \<le> length vs" using assms(1) by (rule units_grow_length)
  moreover have "list_all2 unit_evolves (take (length us) vs)
      (take (length us) (take (length vs) ws))"
    using assms(2) by (intro list_all2_takeI) (simp add: units_grow_def)
  ultimately have "list_all2 unit_evolves (take (length us) vs) (take (length us) ws)"
    by (simp add: min_def)
  with assms(1) show ?thesis
    unfolding units_grow_def by (rule list_all2_trans [rotated]) (rule unit_evolves_trans)
qed

definition frame :: "(op_row \<Rightarrow> op_row \<Rightarrow> bool) \<Rightarrow> db \<Rightarrow> db \<Rightarrow> bool" where
  "frame P s t \<longleftrightarrow>
     list_all2 P (ops s) (ops t)
     \<and> units_grow (units s) (units t)"

lemma frame_refl: "(\<And>r. P r r) \<Longrightarrow> frame P s s"
  by (auto simp: frame_def list_all2_refl)

lemma frame_trans:
  assumes "\<And>r r' r''. P r r' \<Longrightarrow> P r' r'' \<Longrightarrow> P r r''" and "frame P s t" and "frame P t u"
  shows "frame P s u"
proof -
  have "list_all2 P (ops s) (ops t)" "list_all2 P (ops t) (ops u)"
    using assms(2,3) by (simp_all add: frame_def)
  then have "list_all2 P (ops s) (ops u)" by (rule list_all2_trans [rotated]) (rule assms(1))
  with assms(2,3) show ?thesis by (auto simp: frame_def intro: units_grow_trans)
qed

lemma frame_mono: "(\<And>r r'. P r r' \<Longrightarrow> Q r r') \<Longrightarrow> frame P s t \<Longrightarrow> frame Q s t"
  unfolding frame_def using list_all2_mono [of P _ _ Q] by blast

lemma frame_update_ops:
  assumes "update_ops p f s = Inr (n, s')" and "\<And>r. P r r" and "\<And>r. p r \<Longrightarrow> P r (f r)"
  shows "frame P s s'"
  using assms list_all2_update_where [of P p f "ops s"]
  by (auto simp: update_ops_Inr frame_def list_all2_refl)

lemma frame_update_units:
  assumes "update_units q g s = Inr (n, s')" and "\<And>r. P r r"
    and "\<And>u. q u \<Longrightarrow> u_status u = Sending \<and> unit_key (g u) = unit_key u \<and> u_count (g u) = u_count u"
  shows "frame P s s'"
proof -
  have "list_all2 unit_evolves (units s) (update_where q g (units s))"
    by (rule list_all2_update_where) (use assms(3) in \<open>simp_all add: unit_evolves_def\<close>)
  then have "units_grow (units s) (update_where q g (units s))" by (simp add: units_grow_def)
  then show ?thesis
    using assms(1,2) by (auto simp: update_units_Inr frame_def list_all2_refl)
qed

lemma frame_same_queue: "(\<And>r. P r r) \<Longrightarrow> ops t = ops s \<Longrightarrow> units t = units s \<Longrightarrow> frame P s t"
  by (auto simp: frame_def list_all2_refl)

section \<open>Statements and calls\<close>

abbreviation working :: "(db \<Rightarrow> store_error + nat \<times> db) \<Rightarrow> bool" where
  "working stmt \<equiv> (\<forall>s n s'. stmt s = Inr (n, s') \<longrightarrow> frame works s s')"

definition framed :: "(db \<Rightarrow> 'a outcome) \<Rightarrow> bool" where
  "framed h \<longleftrightarrow> (\<forall>s. frame works s (snd (h s)))"

lemma frame_works_refl [simp]: "frame works s s"
  by (simp add: frame_refl)

lemma frame_works_trans: "frame works s t \<Longrightarrow> frame works t u \<Longrightarrow> frame works s u"
  by (rule frame_trans [OF works_trans])

lemma framed_took_effect [simp]: "framed (\<lambda>s. took_effect f (h s)) = framed h"
  by (simp add: framed_def)

lemma framed_answer [simp]: "framed (Pair x)"
  by (simp add: framed_def)

lemma framed_checked: "framed h \<Longrightarrow> framed (checked v h)"
  by (cases v) (auto simp: framed_def checked_def)

lemma snd_execute: "working stmt \<Longrightarrow> frame works s (snd (execute e stmt s))"
  by (cases "stmt s") (auto simp: execute_def)

lemma snd_or_stale [simp]: "snd (or_stale o') = snd o'"
  by (cases o'; cases "fst o'") (auto simp: or_stale_def)

lemma snd_is_one [simp]: "snd (is_one o') = snd o'"
  by (cases o'; cases "fst o'") (auto simp: is_one_def)

lemma snd_is_some_row [simp]: "snd (is_some_row o') = snd o'"
  by (cases o'; cases "fst o'") (auto simp: is_some_row_def)

lemma framed_statement:
  assumes "working stmt"
  shows "framed (\<lambda>s. or_stale (execute e stmt s))" "framed (\<lambda>s. is_one (execute e stmt s))"
    "framed (\<lambda>s. is_some_row (execute e stmt s))"
  using snd_execute [OF assms] by (simp_all add: framed_def)

lemma framed_transaction:
  "(\<And>s a s'. body s = Inr (a, s') \<Longrightarrow> frame works s s') \<Longrightarrow> framed (transaction e body)"
  by (auto simp: framed_def transaction_def split: sum.splits)

lemma framed_unit_transaction:
  assumes "working unit" and "working operation"
  shows "framed (update_delivery_unit e unit operation)"
  unfolding update_delivery_unit_def
proof (rule framed_transaction)
  fix s a s'
  assume "res_bind (unit s) (\<lambda>(n, s1). if n \<noteq> 1 then Inr (False, s)
      else res_bind (operation s1) (\<lambda>(m, s2). if m \<noteq> 1 then Inr (False, s) else Inr (True, s2)))
    = Inr (a, s')"
  then show "frame works s s'"
    using assms by (auto simp: res_bind_Inr_iff split: if_splits) (metis frame_works_trans)+
qed

lemma working_update_ops: "(\<And>r. p r \<Longrightarrow> works r (f r)) \<Longrightarrow> working (update_ops p f)"
  by (auto intro: frame_update_ops)

lemma working_update_units:
  "(\<And>u. q u \<Longrightarrow> u_status u = Sending \<and> unit_key (g u) = unit_key u \<and> u_count (g u) = u_count u)
    \<Longrightarrow> working (update_units q g)"
  by (auto intro: frame_update_units)

section \<open>The calls of a worker\<close>

lemmas works_defs = works_def evolves_def same_identity_def

lemma working_progress: "working (sql_update_progress c percent stage now)"
  unfolding sql_update_progress_def by (rule working_update_ops) (auto simp: works_defs)

lemma working_complete: "working (sql_complete c now)"
  unfolding sql_complete_def
  by (rule working_update_ops) (auto simp: works_defs release_def)

lemma working_fail: "working (sql_fail c retryable code now)"
  unfolding sql_fail_def
  by (rule working_update_ops) (auto simp: works_defs release_def clear_progress_def failed_row_def)

lemma working_ack_cancel: "working (sql_ack_cancel c now)"
  unfolding sql_ack_cancel_def by (rule working_update_ops) (auto simp: works_defs release_def)

lemma working_cancel: "working (sql_cancel actor i now)"
  unfolding sql_cancel_def by (rule working_update_ops) (auto simp: works_defs)

lemma working_begin_delivery: "working (sql_begin_delivery c now)"
  unfolding sql_begin_delivery_def by (rule working_update_ops) (auto simp: works_defs)

lemma working_complete_delivery: "working (sql_complete_delivery c m now)"
  unfolding sql_complete_delivery_def by (rule working_update_ops) (auto simp: works_defs release_def)

lemma working_delivery_unknown: "working (sql_delivery_unknown c now)"
  unfolding sql_delivery_unknown_def by (rule working_update_ops) (auto simp: works_defs release_def)

lemma working_reject_delivery: "working (sql_reject_delivery c now)"
  unfolding sql_reject_delivery_def by (rule working_update_ops) (auto simp: works_defs release_def)

lemma working_begin_batch: "working (sql_begin_delivery_batch c n now)"
  unfolding sql_begin_delivery_batch_def by (rule working_update_ops) (auto simp: works_defs)

lemma working_begin_unit: "working (sql_begin_delivery_unit c ordinal count now)"
  by (auto simp: sql_begin_delivery_unit_def Let_def frame_def list_all2_refl split: if_splits)

lemma working_heartbeat:
  "sql_heartbeat c l now s = Inr (row, s') \<Longrightarrow> frame works s s'"
  unfolding sql_heartbeat_def update_returning_def res_bind_Inr_iff
  by (clarsimp, rule frame_update_ops, assumption, simp_all) (auto simp: works_defs dest: active_pending)

lemma working_units:
  "working (sql_complete_delivery_unit c k ids now)" "working (sql_reject_delivery_unit c k now)"
  "working (sql_unknown_delivery_unit c k now)" "working (sql_stop_delivery_batch_mark c reason now)"
  "working (sql_requeue_invalid_cache_mark c key b now)" "working (sql_expire_lease_units i a now)"
  unfolding sql_complete_delivery_unit_def sql_reject_delivery_unit_def sql_unknown_delivery_unit_def
    sql_stop_delivery_batch_mark_def sql_requeue_invalid_cache_mark_def sql_expire_lease_units_def Let_def
  by (auto simp: this_unit_def unit_key_def elim!: frame_update_units)

lemma working_sent: "working (sql_complete_delivery_unit_operation c k m now)"
  unfolding sql_complete_delivery_unit_operation_def
  by (auto simp: works_defs sent_row_def Let_def release_def split: option.splits
      elim!: frame_update_ops)

lemma working_rejected: "working (sql_reject_delivery_unit_operation c k wait now)"
  unfolding sql_reject_delivery_unit_operation_def
  by (auto simp: works_defs rejected_row_def release_def clear_progress_def elim!: frame_update_ops)

lemma working_unknown: "working (sql_unknown_delivery_unit_operation c k now)"
  unfolding sql_unknown_delivery_unit_operation_def
  by (auto simp: works_defs release_def elim!: frame_update_ops)

lemma working_stopped: "working (sql_stop_delivery_batch c reason now)"
  unfolding sql_stop_delivery_batch_def
  by (auto simp: works_defs stopped_row_def release_def clear_progress_def elim!: frame_update_ops)

lemma working_requeued: "working (sql_requeue_invalid_cache_operation c now)"
  unfolding sql_requeue_invalid_cache_operation_def
  by (auto simp: works_defs requeued_row_def release_def clear_progress_def elim!: frame_update_ops)

lemma working_expired: "working (sql_expire_lease_operation i a now)"
  unfolding sql_expire_lease_operation_def
  by (auto simp: works_defs expire_row_def release_def clear_progress_def active_pending
      elim!: frame_update_ops)

lemma run_worker_framed: "framed (run_worker digest e c wc)"
proof (cases wc)
  case (UpdateProgress percent stage)
  then show ?thesis
    by (simp add: update_progress_def framed_checked framed_statement [OF working_progress])
next
  case (Heartbeat lease)
  have "framed (heartbeat_state e c lease)"
    unfolding heartbeat_state_def
    by (intro framed_checked framed_transaction) (auto simp: res_bind_Inr_iff elim!: working_heartbeat)
  then show ?thesis by (simp add: Heartbeat)
next
  case (RejectUnit k wait)
  show ?thesis
    by (cases "traverse_option retry_after_seconds wait")
      (auto simp: RejectUnit reject_delivery_unit_def
        intro!: framed_checked framed_unit_transaction working_units working_rejected)
next
  case (StopBatch reason)
  have "framed (stop_delivery_batch e c reason)"
    unfolding stop_delivery_batch_def
  proof (intro framed_checked framed_transaction)
    fix s a s'
    assume "res_bind (sql_stop_delivery_batch_mark c reason (clock e 0) s) (\<lambda>(_, s1).
        res_bind (sql_stop_delivery_batch c reason (clock e 1) s1) (\<lambda>(n, s2).
          if n \<noteq> 1 then Inr (False, s) else Inr (True, s2))) = Inr (a, s')"
    then show "frame works s s'"
      using working_units(4) [of c reason "clock e 0"] working_stopped [of c reason "clock e 1"]
      by (auto simp: res_bind_Inr_iff split: if_splits) (metis frame_works_trans)+
  qed
  then show ?thesis by (simp add: StopBatch)
next
  case (RequeueInvalidCache k revision)
  show ?thesis
    unfolding framed_def
  proof
    fix s
    let ?h = "requeue_invalid_cache digest e c k revision s"
    have evict: "frame works t (sql_requeue_invalid_cache_evict c key revision t)" for key and t :: db
      by (rule frame_same_queue) (simp_all add: sql_requeue_invalid_cache_evict_def)
    have "frame works s s'" if h: "sql_requeue_invalid_cache_mark c key b (clock e 0) s = Inr (n, s1)"
      "sql_requeue_invalid_cache_operation c (clock e 1) s1 = Inr (m, s2)"
      "s' = sql_requeue_invalid_cache_evict c key revision s2" for key b n s1 m s2 s'
      using h working_units(5) [of c key b "clock e 0"] working_requeued [of c "clock e 1"] evict
      by (metis frame_works_trans)
    then show "frame works s (snd (run_worker digest e c wc s))"
      by (auto simp: RequeueInvalidCache requeue_invalid_cache_def checked_def transaction_def
          res_bind_Inr_iff split: sum.splits if_splits)
  qed
qed (auto simp: complete_def fail_with_code_def acknowledge_cancel_def begin_delivery_def
    complete_delivery_def delivery_unknown_def reject_delivery_def begin_delivery_batch_def
    begin_delivery_unit_def complete_delivery_unit_def unknown_delivery_unit_def Let_def
    intro!: framed_checked framed_statement framed_unit_transaction
    working_complete working_fail working_ack_cancel working_begin_delivery
    working_complete_delivery working_delivery_unknown working_reject_delivery working_begin_batch
    working_begin_unit working_units working_sent working_unknown)

lemma request_cancel_framed: "framed (request_cancel e actor i)"
  unfolding request_cancel_def by (intro framed_checked framed_statement working_cancel)

section \<open>Claiming and admission\<close>

lemma expire_leases_frame: "expire_leases clk k rs s = Inr s' \<Longrightarrow> frame works s s'"
proof (induction rs arbitrary: k s)
  case (Cons r rs)
  from Cons.prems obtain n1 s1 n s2 where h:
    "sql_expire_lease_units (op_id r) (op_attempt r) (clk k) s = Inr (n1, s1)"
    "sql_expire_lease_operation (op_id r) (op_attempt r) (clk (k + 1)) s1 = Inr (n, s2)"
    "expire_leases clk (k + 2) rs s2 = Inr s'"
    by (auto simp: res_bind_Inr_iff split: if_splits)
  have "frame works s s1" using working_units(6) h(1) by blast
  moreover have "frame works s1 s2" using working_expired h(2) by blast
  ultimately show ?case using Cons.IH [OF h(3)] by (metis frame_works_trans)
qed simp

lemma frame_works_evolves: "frame works s t \<Longrightarrow> frame evolves s t"
  by (rule frame_mono) (simp_all add: works_def)

lemma frame_evolves_trans: "frame evolves s t \<Longrightarrow> frame evolves t u \<Longrightarrow> frame evolves s u"
  by (rule frame_trans [OF evolves_trans])

lemma claim_columns_evolves: "claimable now r \<Longrightarrow> evolves r (claim_columns w l b tok t r)"
  by (cases b) (auto simp: evolves_def same_identity_def claimable_def claim_columns_def
      claimed_row_def clear_progress_def)

lemma claim_filtered_frame: "frame evolves s (snd (claim_filtered parse e w lease b policy s))"
proof -
  have "frame evolves s s'" if "claim_filtered_body parse e w lease b policy s = Inr (a, s')" for a s'
  proof -
    from that obtain s1 where s1: "expire_all e s = Inr s1"
      and upd: "s' = s1 \<or> (\<exists>i t row. claim_statement w (as_secs lease) b (fresh_id e) i t s1
        = Inr (row, s'))"
      unfolding claim_body_eq by (auto simp: res_bind_Inr_iff split: option.splits) blast+
    have f1: "frame evolves s s1"
      using s1 unfolding expire_all_def by (intro frame_works_evolves expire_leases_frame)
    have "frame evolves s1 s2"
      if "claim_statement w l b tok i now s1 = Inr (row, s2)" for l tok i now row s2
    proof -
      from that obtain n where "update_ops (\<lambda>r. op_id r = i \<and> claimable now r \<and> for_bot b r)
          (claim_columns w l b tok now) s1 = Inr (n, s2)"
        by (auto simp: claim_statement_eq update_returning_def res_bind_Inr_iff)
      then show ?thesis by (rule frame_update_ops) (auto intro: claim_columns_evolves)
    qed
    with f1 upd show ?thesis by (metis frame_evolves_trans)
  qed
  then show ?thesis
    by (auto simp: claim_filtered_def checked_def transaction_def frame_refl split: sum.splits)
qed

lemma admit_inner_ops:
  "ops (snd (admit_inner parse digest cfg e r key policy preserve now tg s)) = ops s
      \<and> units (snd (admit_inner parse digest cfg e r key policy preserve now tg s)) = units s
    \<or> (\<exists>row. ops (snd (admit_inner parse digest cfg e r key policy preserve now tg s)) = ops s @ [row]
      \<and> units (snd (admit_inner parse digest cfg e r key policy preserve now tg s)) = units s
      \<and> op_status row = Queued \<and> op_actor row = sint (actor_id r)
      \<and> int (pending_count s) < uint (max_pending_global policy)
      \<and> int (pending_actor_count (actor_id r) s) < uint (max_pending_actor policy))"
proof (cases rule: admit_inner_cases [of parse digest cfg e r key policy preserve now tg s])
  case (2 a s' ck)
  show ?thesis
  proof (cases "sql_admit_existing (actor_id r) key s")
    case None
    with 2 have "admit_new cfg e (with_force_nsfw False r) key policy ck now tg s = Inr (a, s')"
      by (simp add: admit_body_def with_force_nsfw_def)
    then show ?thesis
      by (rule admit_new_Inr) (use 2(1) in \<open>auto simp: admitted_row_def with_force_nsfw_def\<close>)
  next
    case (Some row)
    with 2 show ?thesis
      by (auto simp: admit_body_def with_force_nsfw_def res_bind_Inr_iff)
  qed
qed simp

section \<open>Every sequence of calls\<close>

text \<open>The tables after some calls: the old operations, changed, and then the new ones.\<close>

definition extends :: "db \<Rightarrow> db \<Rightarrow> bool" where
  "extends s t \<longleftrightarrow>
     length (ops s) \<le> length (ops t)
     \<and> list_all2 evolves (ops s) (take (length (ops s)) (ops t)) \<and> units_grow (units s) (units t)"

lemma extends_frame: "frame evolves s t \<Longrightarrow> extends s t"
  by (auto simp: extends_def frame_def list_all2_lengthD)

lemma extends_refl: "extends s s"
  by (simp add: extends_frame frame_refl)

lemma extends_trans:
  assumes "extends s t" and "extends t u" shows "extends s u"
proof -
  have "list_all2 evolves (ops s) (take (length (ops s)) (ops t))"
    using assms(1) by (simp add: extends_def)
  moreover have "list_all2 evolves (take (length (ops s)) (ops t)) (take (length (ops s)) (ops u))"
    using assms list_all2_takeI [of evolves "ops t" "take (length (ops t)) (ops u)" "length (ops s)"]
    by (simp add: extends_def min_def)
  ultimately have "list_all2 evolves (ops s) (take (length (ops s)) (ops u))"
    by (rule list_all2_trans [rotated]) (rule evolves_trans)
  with assms show ?thesis by (auto simp: extends_def intro: units_grow_trans)
qed

lemma run_call_extends: "extends s (run_call parse digest e q s)"
proof (cases q)
  case (Admit cfg r key policy preserve now tg)
  with admit_inner_ops [of parse digest cfg e r key policy preserve now tg s] show ?thesis
    by (auto simp: extends_def list_all2_refl)
next
  case (ClaimNext w lease b policy)
  then show ?thesis using claim_filtered_frame extends_frame by simp
next
  case (RequestCancel actor i)
  then show ?thesis
    using request_cancel_framed [of e actor i] by (simp add: framed_def extends_frame frame_works_evolves)
next
  case (OnClaim c wc)
  then show ?thesis
    using run_worker_framed [of digest e c wc] by (simp add: framed_def extends_frame frame_works_evolves)
qed

lemma steps_extend: "(queue_step parse digest)\<^sup>*\<^sup>* s t \<Longrightarrow> extends s t"
proof (induction rule: rtranclp_induct)
  case base
  show ?case by (rule extends_refl)
next
  case (step t u)
  from step.hyps(2) have "extends t u" by (auto elim!: queue_stepE simp: run_call_extends)
  with step.IH show ?case by (rule extends_trans)
qed

lemma extends_row:
  assumes "extends s t" and "r \<in> set (ops s)"
  obtains r' where "r' \<in> set (ops t)" "evolves r r'"
proof -
  from assms(2) obtain n where n: "n < length (ops s)" "ops s ! n = r" by (auto simp: in_set_conv_nth)
  have "list_all2 evolves (ops s) (take (length (ops s)) (ops t))"
    using assms(1) by (simp add: extends_def)
  from list_all2_nthD [OF this n(1)] have "evolves r (ops t ! n)" using n by simp
  with n assms(1) show thesis by (intro that [of "ops t ! n"]) (auto simp: extends_def)
qed

lemma extends_unit:
  assumes "extends s t" and "u \<in> set (units s)"
  obtains u' where "u' \<in> set (units t)" "unit_evolves u u'"
proof -
  from assms(2) obtain n where n: "n < length (units s)" "units s ! n = u" by (auto simp: in_set_conv_nth)
  have g: "units_grow (units s) (units t)" using assms(1) by (simp add: extends_def)
  then have "list_all2 unit_evolves (units s) (take (length (units s)) (units t))"
    by (simp add: units_grow_def)
  from list_all2_nthD [OF this n(1)] have "unit_evolves u (units t ! n)" using n by simp
  with n units_grow_length [OF g] show thesis by (intro that [of "units t ! n"]) auto
qed

end
