(* ===== verification/Queue_Example.thy ===== *)
theory Queue_Example
  imports Queue_Frame
begin

text \<open>
  A run of the queue on concrete data: one operation is admitted, claimed, and delivered unit
  by unit. The states are what the calls compute; the witnesses of the queue properties use
  them.
\<close>

definition example_digest :: digester where
  "example_digest = (\<lambda>_. replicate 64 (CHR ''0''))"

definition example_env :: "int \<Rightarrow> uuid \<Rightarrow> env" where
  "example_env t i = \<lparr>clock = (\<lambda>_. t), up = True, fresh_id = i\<rparr>"

definition example_config :: store_config where
  "example_config = \<lparr>store_quota_limits = quota_limits_default, quota_owner_id = Some 42,
     dialog_authorization = None\<rparr>"

definition example_policy :: admission_policy where
  "example_policy = \<lparr>max_attempts = 3, retry_delay = secs 0, max_pending_global = 10,
     max_pending_actor = 5\<rparr>"

definition empty_db :: db where
  "empty_db = \<lparr>ops = [], units = [], users = [], rate_limits = [], bot_settings = [],
     nsfw_marks = [], deferred = [], notices = [], media_intents = [], media_cache = [], clear_marks = []\<rparr>"

definition example_claim :: claim where
  "example_claim = \<lparr>operation_id = 7, attempt = 1, lease_token = 8, worker_id = ''w'',
     request = example_request, claim_cancel_requested = False, claim_cache_bypassed = False,
     lease_expires_at = 32000000\<rparr>"

abbreviation example_run :: "int \<Rightarrow> uuid \<Rightarrow> queue_call \<Rightarrow> db \<Rightarrow> db" where
  "example_run t i q \<equiv> run_call example_parser example_digest (example_env t i) q"

definition admitted_db :: db where
  "admitted_db = example_run 1000000 7
     (Admit example_config example_request ''k'' example_policy False None None) empty_db"

definition claimed_db :: db where
  "claimed_db = example_run 2000000 8 (ClaimNext ''w'' (secs 30) None claim_policy_default) admitted_db"

definition batch_db :: db where
  "batch_db = example_run 3000000 9 (OnClaim example_claim (BeginBatch 2)) claimed_db"

definition sending_db :: db where
  "sending_db = example_run 4000000 9 (OnClaim example_claim (BeginUnit 0 1)) batch_db"

definition sent_db :: db where
  "sent_db = example_run 5000000 9 (OnClaim example_claim (CompleteUnit 0 [100])) sending_db"

lemma steady_example [simp]: "steady (example_env t i)"
  by (simp add: steady_def example_env_def mono_def)

abbreviation example_steps :: "db \<Rightarrow> db \<Rightarrow> bool" where
  "example_steps \<equiv> (queue_step example_parser example_digest)\<^sup>*\<^sup>*"

lemma example_step: "example_steps s t \<Longrightarrow> example_steps s (example_run k i q t)"
  by (rule rtranclp.rtrancl_into_rtrancl) (auto intro: queue_step.call)

lemma example_reached:
  "example_steps empty_db admitted_db" "example_steps empty_db claimed_db"
  "example_steps empty_db batch_db" "example_steps empty_db sending_db"
  "example_steps empty_db sent_db" "example_steps admitted_db sent_db"
  "example_steps sending_db sent_db" "example_steps sent_db sent_db"
  unfolding admitted_db_def claimed_db_def batch_db_def sending_db_def sent_db_def
  by (intro example_step rtranclp.rtrancl_refl)+

lemma empty_db_empty [simp]: "empty_queue empty_db"
  by (simp add: empty_queue_def empty_db_def)

lemma admitted_new:
  "admit_new example_config (example_env 1000000 7) example_request ''k'' example_policy None None None
     empty_db
   = Inr (\<lparr>admitted_id = 7, created = True\<rparr>, empty_db\<lparr>ops :=
       [admitted_row 7 42 ''k'' (encode example_request) 3 0 None 1000000]\<rparr>)"
proof -
  have st: "settings_of empty_db = Inr (\<lambda>_. None)" by (simp add: settings_of_def empty_db_def)
  have dflt: "from_settings (\<lambda>_. None) = Inr downloader_settings_default"
    by (simp add: from_settings_def read_u32_def read_u64_def read_usize_def Let_def
        settings_validate_def downloader_settings_default_def rate_limit_ok_def)
  have adm: "admission_settings example_request example_policy (store_quota_limits example_config)
      empty_db = Inr (example_request, example_policy, quota_limits_default)"
    by (simp add: admission_settings_def st dflt settings_active_def overridden_def
        with_downloader_settings_def example_request_def Let_def example_config_def)
  have charge: "charge 42 quota_limits_default (Some 42) t s = Inr s" for t s
    by (simp add: charge_def quota_limits_validate_def quota_limits_default_def)
  have none: "pending_count empty_db = 0" "pending_actor_count a empty_db = 0"
    "sql_nsfw_mark_consume a empty_db = (False, empty_db)" for a
    by (simp_all add: pending_count_def pending_actor_count_def count_where_def empty_db_def
        sql_nsfw_mark_consume_def)
  have forced: "with_force_nsfw False example_request = example_request"
    by (simp add: with_force_nsfw_def example_request_def)
  let ?row = "admitted_row 7 42 ''k'' (encode example_request) 3 0 None 1000000"
  have "op_checks ?row" by (simp add: op_checks_def admitted_row_def unleased_def)
  then have ins: "sql_admit_insert ?row empty_db = Inr (empty_db\<lparr>ops := [?row]\<rparr>)"
    by (simp add: sql_admit_insert_def empty_db_def)
  have reg: "sql_register_input_cleanup 7 t (empty_db\<lparr>ops := [?row]\<rparr>) = Inr (empty_db\<lparr>ops := [?row]\<rparr>)" for t
    by (simp add: sql_register_input_cleanup_def find_row_def admitted_row_def input_notice_def
        encode_def example_request_def)
  have actor: "actor_id example_request = 42" by (simp add: example_request_def)
  show ?thesis
    by (simp add: admit_new_def adm charge none forced actor)
      (simp add: example_policy_def example_env_def example_config_def secs_def ins reg
        charge none forced finish_telegram_def)
qed

lemma admitted_call:
  "admit_inner example_parser example_digest example_config (example_env 1000000 7) example_request
     ''k'' example_policy False None None empty_db
   = (Inr \<lparr>admitted_id = 7, created = True\<rparr>,
      empty_db\<lparr>ops := [admitted_row 7 42 ''k'' (encode example_request) 3 0 None 1000000]\<rparr>)"
proof -
  have v: "validate_key ''k'' = Inr ()" "validate_policy example_policy = Inr ()"
    by (simp_all add: validate_key_def byte_def is_ascii_def is_ascii_control_def validate_policy_def
        example_policy_def duration_le_def secs_def)
  have forced: "with_force_nsfw False example_request = example_request"
    by (simp add: with_force_nsfw_def example_request_def)
  have none: "sql_admit_existing a k empty_db = None" for a k
    by (simp add: sql_admit_existing_def empty_db_def find_row_def)
  have "downloader_settings example_request = None" "target example_request = None"
    "up (example_env t i)" for t i
    by (simp_all add: example_request_def example_env_def)
  then show ?thesis
    by (simp add: admit_inner_def checked_def transaction_def v forced none admit_body_def admitted_new)
qed

lemma admitted_ops:
  "admitted_db = empty_db\<lparr>ops := [admitted_row 7 42 ''k'' (encode example_request) 3 0 None 1000000]\<rparr>"
  by (simp add: admitted_db_def admitted_call)


definition queued_row :: op_row where
  "queued_row = admitted_row 7 42 ''k'' (encode example_request) 3 0 None 1000000"

definition running_row :: op_row where
  "running_row = queued_row\<lparr>op_status := Running, op_attempt := 1, op_worker := Some ''w'',
     op_token := Some 8, op_expires := Some 32000000, op_updated_at := 2000000\<rparr>"

lemma worker_ok: "validate_worker ''w'' = Inr ()" "validate_lease (secs 30) = Inr ()"
  "validate_claim example_claim = Inr ()" "claim_policy_validate claim_policy_default = Inr ()"
  by (simp_all add: validate_worker_def validate_lease_def validate_claim_def duration_le_def secs_def
      byte_def is_ascii_def is_ascii_control_def example_claim_def claim_policy_validate_def
      claim_policy_default_def)

lemma decoded: "decode example_parser (encode example_request) = Inr example_request"
  by (rule decode_encode_request_ok [OF example_request_wf]) (simp add: storable_def example_request_def)

lemma claimed_call:
  "claim_filtered example_parser (example_env 2000000 8) ''w'' (secs 30) None claim_policy_default
     admitted_db
   = (Inr (Some example_claim), empty_db\<lparr>ops := [running_row]\<rparr>)"
proof -
  let ?e = "example_env 2000000 8" and ?s = "empty_db\<lparr>ops := [queued_row]\<rparr>"
  have q: "op_status queued_row = Queued" "op_id queued_row = 7" "op_actor queued_row = 42"
    "op_available_at queued_row = 1000000" "\<not> op_cancel_requested queued_row"
    "op_attempt queued_row = 0" "op_max_attempts queued_row = 3"
    "op_request queued_row = encode example_request"
    by (simp_all add: queued_row_def admitted_row_def)
  have ck: "op_checks running_row"
    by (simp add: running_row_def queued_row_def admitted_row_def op_checks_def leased_def)
  have ex: "sql_expire_leases_select t ?s = []" for t
    by (simp add: sql_expire_leases_select_def q order_limit_def)
  have sel: "sql_claim_select claim_policy_default 2000000 ?s = Some queued_row"
    by (simp add: sql_claim_select_def eligible_def claimable_def for_bot_def active_count_def
        count_where_def q order_limit_def claim_policy_default_def)
  have upd: "sql_claim_update ''w'' 30 8 7 2000000 ?s
      = Inr (Some running_row, empty_db\<lparr>ops := [running_row]\<rparr>)"
  proof -
    have "(claimed_row ''w'' 30 8 2000000 queued_row)\<lparr>op_failure_code := None\<rparr> = running_row"
      by (simp add: running_row_def queued_row_def admitted_row_def claimed_row_def clear_progress_def)
    with ck show ?thesis
      by (simp add: sql_claim_update_def update_returning_def update_ops_def find_row_def q claimable_def)
  qed
  have "decode example_parser (op_request running_row) = Inr example_request"
    using decoded by (simp add: running_row_def q)
  moreover have "claim_of_row example_request running_row = example_claim"
    by (simp add: claim_of_row_def running_row_def queued_row_def admitted_row_def example_claim_def)
  ultimately show ?thesis
    using ex sel upd
    by (simp add: admitted_ops queued_row_def [symmetric] claim_filtered_def
        checked_def transaction_def claim_filtered_body_def example_env_def q secs_def
        worker_ok [unfolded secs_def])
qed

lemma claimed_ops: "claimed_db = empty_db\<lparr>ops := [running_row]\<rparr>"
  by (simp add: claimed_db_def claimed_call)


definition delivering_row :: op_row where
  "delivering_row = running_row\<lparr>op_status := Delivering, op_planned := Some 2,
     op_delivery_started_at := Some 3000000, op_updated_at := 3000000\<rparr>"

definition sending_unit :: unit_row where
  "sending_unit = \<lparr>u_op = 7, u_attempt = 1, u_ordinal = 0, u_count = 1, u_status = Sending,
     u_messages = None, u_updated_at = 4000000\<rparr>"

lemmas row_states = delivering_row_def running_row_def queued_row_def admitted_row_def

lemma example_fenced: "t < 32000000 \<Longrightarrow> fenced example_claim t running_row"
  "t < 32000000 \<Longrightarrow> fenced example_claim t delivering_row"
  by (simp_all add: fenced_def example_claim_def row_states lease_live_def)

lemma delivering_checks: "op_checks delivering_row"
  by (simp add: row_states op_checks_def leased_def)

lemma batch_call:
  "begin_delivery_batch (example_env 3000000 9) example_claim 2 claimed_db
     = (Inr True, empty_db\<lparr>ops := [delivering_row]\<rparr>)"
proof -
  have "sql_begin_delivery_batch example_claim 2 3000000 (empty_db\<lparr>ops := [running_row]\<rparr>)
      = Inr (1, empty_db\<lparr>ops := [delivering_row]\<rparr>)"
  proof -
    have "running_row\<lparr>op_status := Delivering, op_planned := Some 2, op_delivered := 0,
        op_delivery_started_at := Some 3000000, op_updated_at := 3000000\<rparr> = delivering_row"
      by (simp add: row_states)
    moreover have "op_status running_row = Running" "\<not> op_cancel_requested running_row"
      by (simp_all add: row_states)
    ultimately show ?thesis
      using delivering_checks
      by (simp add: sql_begin_delivery_batch_def update_ops_def example_fenced count_where_def)
  qed
  then show ?thesis
    by (simp add: claimed_ops begin_delivery_batch_def checked_def worker_ok execute_def
        example_env_def is_one_def)
qed

lemma batch_ops: "batch_db = empty_db\<lparr>ops := [delivering_row]\<rparr>"
  by (simp add: batch_db_def batch_call)

lemma sending_call:
  "begin_delivery_unit (example_env 4000000 9) example_claim 0 1 batch_db
     = (Inr True, empty_db\<lparr>ops := [delivering_row], units := [sending_unit]\<rparr>)"
proof -
  let ?s = "empty_db\<lparr>ops := [delivering_row]\<rparr>"
  have "unit_ready example_claim 0 1 4000000 ?s delivering_row"
    using example_fenced(2) [of 4000000]
    by (simp add: unit_ready_def) (simp add: row_states attempt_units_def next_ordinal_def sent_sum_def empty_db_def)
  moreover have "new_unit example_claim 0 1 4000000 = sending_unit" "unit_checks sending_unit"
    by (simp_all add: new_unit_def sending_unit_def example_claim_def unit_checks_def)
  ultimately show ?thesis
    by (simp add: batch_ops begin_delivery_unit_def checked_def worker_ok execute_def
        example_env_def is_one_def sql_begin_delivery_unit_def Let_def empty_db_def)
qed

lemma sending_ops: "sending_db = empty_db\<lparr>ops := [delivering_row], units := [sending_unit]\<rparr>"
  by (simp add: sending_db_def sending_call)

definition sent_unit :: unit_row where
  "sent_unit = sending_unit\<lparr>u_status := Sent, u_messages := Some [100], u_updated_at := 5000000\<rparr>"

definition counted_row :: op_row where
  "counted_row = delivering_row\<lparr>op_delivered := 1, op_updated_at := 5000000\<rparr>"

lemma sent_ops: "sent_db = empty_db\<lparr>ops := [counted_row], units := [sent_unit]\<rparr>"
proof -
  let ?s = "empty_db\<lparr>ops := [delivering_row], units := [sending_unit]\<rparr>"
  let ?t = "empty_db\<lparr>ops := [delivering_row], units := [sent_unit]\<rparr>"
  have d: "op_status delivering_row = Delivering" by (simp add: row_states)
  have unit: "this_unit example_claim 0 Sending sending_unit" "u_count sending_unit = 1"
    by (simp_all add: this_unit_def sending_unit_def example_claim_def)
  have "unit_checks sent_unit" by (simp add: unit_checks_def sent_unit_def sending_unit_def)
  moreover have "delivering example_claim 5000000 ?s"
    using example_fenced(2) [of 5000000] by (simp add: delivering_def d)
  ultimately have u: "sql_complete_delivery_unit example_claim 0 [100] 5000000 ?s = Inr (1, ?t)"
    by (simp add: sql_complete_delivery_unit_def update_units_def unit count_where_def
        sent_unit_def empty_db_def)
  have "op_delivered delivering_row = 0" "op_planned delivering_row = Some 2"
    "op_message_id delivering_row = None"
    by (simp_all add: row_states)
  then have row: "sent_row 1 100 5000000 delivering_row = counted_row"
    by (simp add: sent_row_def counted_row_def d)
  have "op_checks counted_row"
    by (simp add: counted_row_def row_states op_checks_def leased_def)
  moreover have "find_row (this_unit example_claim 0 Sent) (units ?t) = Some sent_unit"
    "u_count sent_unit = 1" "u_ordinal sent_unit = 0"
    by (simp_all add: find_row_def this_unit_def sent_unit_def sending_unit_def example_claim_def)
  ultimately have o: "sql_complete_delivery_unit_operation example_claim 0 100 5000000 ?t
      = Inr (1, empty_db\<lparr>ops := [counted_row], units := [sent_unit]\<rparr>)"
    using row example_fenced(2) [of 5000000] \<open>op_delivered delivering_row = 0\<close>
    by (simp add: sql_complete_delivery_unit_operation_def update_ops_def count_where_def d
        attempt_units_def sent_sum_def empty_db_def)
  show ?thesis
    by (simp add: sent_db_def sending_ops complete_delivery_unit_def checked_def worker_ok
        update_delivery_unit_def transaction_def example_env_def u o Let_def)
qed

text \<open>The other end of the same operation: cancelled while it waits.\<close>

definition cancelled_db :: db where
  "cancelled_db = example_run 2000000 0 (RequestCancel 42 7) admitted_db"

lemma cancelled_reached: "example_steps empty_db cancelled_db" "example_steps cancelled_db cancelled_db"
  "example_steps admitted_db cancelled_db"
  unfolding cancelled_db_def by (intro example_step example_reached(1) rtranclp.rtrancl_refl)+

definition cancelled_row :: op_row where
  "cancelled_row = queued_row\<lparr>op_status := Cancelled, op_cancel_requested := True,
     op_updated_at := 2000000\<rparr>"

lemma cancelled_ops: "cancelled_db = empty_db\<lparr>ops := [cancelled_row]\<rparr>"
proof -
  have "op_checks cancelled_row"
    by (simp add: cancelled_row_def row_states op_checks_def unleased_def)
  then show ?thesis
    by (simp add: cancelled_db_def admitted_ops queued_row_def [symmetric] request_cancel_def
        actor_check_def checked_def execute_def example_env_def is_some_row_def sql_cancel_def
        update_ops_def) (simp add: cancelled_row_def row_states)
qed

end
