(* ===== verification/Queue_Safety.thy ===== *)
theory Queue_Safety
  imports Queue_Example
begin

text \<open>
  What the state machine of \<open>Queue_System\<close> promises beyond its invariant: a worker without the
  lease changes nothing, an ended operation stays as it ended, nothing that may have been sent
  is sent again by another attempt, and a claim takes the oldest operation the limits allow.
\<close>

section \<open>Fencing\<close>

definition holds_lease :: "env \<Rightarrow> claim \<Rightarrow> db \<Rightarrow> bool" where
  "holds_lease e c s \<longleftrightarrow> list_ex (\<lambda>r. fenced c (clock e 0) r \<and> active (op_status r)) (ops s)"

lemma update_ops_none: "(\<And>r. r \<in> set (ops s) \<Longrightarrow> \<not> p r) \<Longrightarrow> update_ops p f s = Inr (0, s)"
  by (auto simp: update_ops_def list_all_iff count_where_def filter_empty_conv update_where_id)

lemma update_units_none: "(\<And>u. u \<in> set (units s) \<Longrightarrow> \<not> q u) \<Longrightarrow> update_units q g s = Inr (0, s)"
  by (auto simp: update_units_def list_all_iff count_where_def filter_empty_conv update_where_id)

lemma not_held:
  assumes "\<not> holds_lease e c s" and "steady e" and "r \<in> set (ops s)"
  shows "\<not> (fenced c (clock e n) r \<and> active (op_status r))"
proof -
  have "clock e 0 \<le> clock e n" using assms(2) by (simp add: steady_def mono_def)
  then show ?thesis using assms(1,3) fenced_mono by (auto simp: holds_lease_def list_ex_iff)
qed

lemma stale_no_delivering:
  assumes "\<not> holds_lease e c s" and "steady e"
  shows "\<not> delivering c (clock e n) s"
proof
  assume "delivering c (clock e n) s"
  then obtain r where "r \<in> set (ops s)" "fenced c (clock e n) r" "op_status r = Delivering"
    by (auto simp: delivering_def list_ex_iff)
  with not_held [OF assms this(1), of n] show False by simp
qed

definition no_effect :: "bool outcome \<Rightarrow> db \<Rightarrow> bool" where
  "no_effect o' s \<longleftrightarrow> snd o' = s \<and> fst o' \<noteq> Inr True"

lemma no_effect_checked: "(v = Inr () \<Longrightarrow> no_effect (h s) s) \<Longrightarrow> no_effect (checked v h s) s"
  by (cases v) (simp_all add: checked_def no_effect_def)

lemma took_effect_checked: "took_effect f (checked v h s) = checked v (\<lambda>s. took_effect f (h s)) s"
  by (cases v) (simp_all add: checked_def took_effect_def)

lemma no_effect_or_stale:
  "stmt s = Inr (0, s) \<Longrightarrow> no_effect (took_effect f (or_stale (execute e stmt s))) s"
  by (simp add: no_effect_def execute_def or_stale_def took_effect_def)

lemma no_effect_is_one: "stmt s = Inr (0, s) \<Longrightarrow> no_effect (is_one (execute e stmt s)) s"
  by (simp add: no_effect_def execute_def is_one_def)

lemma no_effect_unit:
  "unit s = Inr (0, s) \<Longrightarrow> no_effect (update_delivery_unit e unit operation s) s"
  by (simp add: no_effect_def update_delivery_unit_def transaction_def)

lemma stale_begin_unit:
  assumes "\<And>r. r \<in> set (ops s) \<Longrightarrow> \<not> (fenced c now r \<and> active (op_status r))"
  shows "sql_begin_delivery_unit c ordinal count now s = Inr (0, s)"
proof -
  have "\<not> unit_ready c ordinal count now s r" if "r \<in> set (ops s)" for r
    using assms [OF that] by (auto simp: unit_ready_def)
  then have "\<not> list_ex (unit_ready c ordinal count now s) (ops s)" by (simp add: list_ex_iff)
  then show ?thesis by (simp add: sql_begin_delivery_unit_def Let_def)
qed

lemma stale_heartbeat:
  assumes "\<And>r. r \<in> set (ops s) \<Longrightarrow> \<not> (fenced c (clock e 0) r \<and> active (op_status r))"
  shows "no_effect (took_effect f (heartbeat_state e c lease s)) s"
proof -
  have "sql_heartbeat c (as_secs lease) (clock e 0) s = Inr (None, s)"
    using assms by (simp add: sql_heartbeat_def update_returning_def update_ops_none find_row_None)
  then show ?thesis
    by (auto simp: heartbeat_state_def no_effect_def checked_def transaction_def took_effect_def
        split: sum.splits)
qed

lemma run_worker_stale:
  assumes "\<not> holds_lease e c s" and "steady e"
  shows "no_effect (run_worker digest e c wc s) s"
proof -
  note n0 = not_held [OF assms]
  have n: "\<not> (fenced c (clock e n) r \<and> op_status r = st)"
    if "r \<in> set (ops s)" "active st" for r n st
    using n0 [OF that(1), of n] that(2) by auto
  note simps = took_effect_checked no_effect_checked no_effect_or_stale no_effect_is_one
    no_effect_unit update_ops_none update_units_none
  show ?thesis
  proof (cases wc)
    case (Heartbeat lease)
    then show ?thesis using stale_heartbeat n0 by simp
  next
    case (BeginUnit k m)
    then show ?thesis
      using stale_begin_unit n0 by (simp add: begin_delivery_unit_def no_effect_checked no_effect_is_one)
  next
    case (StopBatch reason)
    have "sql_stop_delivery_batch_mark c reason (clock e 0) s = Inr (0, s)"
      unfolding sql_stop_delivery_batch_mark_def
      by (rule update_units_none) (use n [where st = Delivering] in \<open>auto simp: list_ex_iff\<close>)
    moreover have "sql_stop_delivery_batch c reason (clock e 1) s = Inr (0, s)"
      unfolding sql_stop_delivery_batch_def
      by (rule update_ops_none) (use n [where st = Delivering] in auto)
    ultimately show ?thesis
      by (simp add: StopBatch stop_delivery_batch_def no_effect_def checked_def transaction_def
          split: sum.splits)
  next
    case (RequeueInvalidCache k revision)
    have "sql_requeue_invalid_cache_mark c key b (clock e 0) s = Inr (0, s)" for key b
      unfolding sql_requeue_invalid_cache_mark_def Let_def
      by (rule update_units_none) (use n [where st = Delivering] in \<open>auto simp: list_ex_iff\<close>)
    then show ?thesis
      by (auto simp: RequeueInvalidCache requeue_invalid_cache_def no_effect_def checked_def
          transaction_def split: sum.splits)
  next
    case (RejectUnit k wait)
    have "sql_reject_delivery_unit c (uint k) (clock e 0) s = Inr (0, s)"
      unfolding sql_reject_delivery_unit_def
      by (rule update_units_none) (use stale_no_delivering [OF assms] in auto)
    then show ?thesis
      by (cases "traverse_option retry_after_seconds wait")
        (auto simp: RejectUnit reject_delivery_unit_def intro!: no_effect_checked no_effect_unit,
          simp add: no_effect_def)
  next
    case (CompleteUnit k ids)
    have "sql_complete_delivery_unit c (uint k) (map sint ids) (clock e 0) s = Inr (0, s)"
      unfolding sql_complete_delivery_unit_def
      by (rule update_units_none) (use stale_no_delivering [OF assms] in auto)
    then show ?thesis
      by (simp add: CompleteUnit complete_delivery_unit_def Let_def no_effect_checked no_effect_unit)
  next
    case (UnknownUnit k)
    have "sql_unknown_delivery_unit c (uint k) (clock e 0) s = Inr (0, s)"
      unfolding sql_unknown_delivery_unit_def
      by (rule update_units_none) (use stale_no_delivering [OF assms] in auto)
    then show ?thesis
      by (simp add: UnknownUnit unknown_delivery_unit_def no_effect_checked no_effect_unit)
  qed (use n [where st = Running] n [where st = Delivering] in
      \<open>auto simp: simps update_progress_def sql_update_progress_def complete_def sql_complete_def
        fail_with_code_def sql_fail_def acknowledge_cancel_def sql_ack_cancel_def
        begin_delivery_def sql_begin_delivery_def complete_delivery_def sql_complete_delivery_def
        delivery_unknown_def sql_delivery_unknown_def reject_delivery_def sql_reject_delivery_def
        begin_delivery_batch_def sql_begin_delivery_batch_def
        intro!: no_effect_checked no_effect_or_stale no_effect_is_one update_ops_none\<close>)
qed


text \<open>C34. A worker that does not hold the lease it claims changes nothing: whatever call it makes
  with a stale claim, the tables stay as they are and the call does not report success.\<close>

theorem stale_worker_has_no_effect:
  assumes "\<not> holds_lease e c s" and "steady e"
  shows "snd (run_worker digest e c wc s) = s \<and> fst (run_worker digest e c wc s) \<noteq> Inr True"
  using run_worker_stale [OF assms] by (simp add: no_effect_def)

lemma expired_example: "\<not> holds_lease (example_env 40000000 9) example_claim batch_db"
  by (simp add: holds_lease_def batch_ops fenced_def lease_live_def row_states example_env_def)

theorem stale_worker_has_no_effect_witness:
  "snd (run_worker example_digest (example_env 40000000 9) example_claim (BeginUnit 0 1) batch_db)
     = batch_db
   \<and> snd (run_worker example_digest (example_env 4000000 9) example_claim (BeginUnit 0 1) batch_db)
     \<noteq> batch_db"
proof -
  have "sending_db \<noteq> batch_db" by (simp add: sending_ops batch_ops empty_db_def)
  then have "snd (run_worker example_digest (example_env 4000000 9) example_claim (BeginUnit 0 1)
      batch_db) \<noteq> batch_db"
    by (simp only: sending_db_def run_call.simps not_False_eq_True)
  with stale_worker_has_no_effect [OF expired_example steady_example] show ?thesis by blast
qed

section \<open>What stays\<close>

lemma reachable_inv:
  "empty_queue s0 \<Longrightarrow> (queue_step parse digest)\<^sup>*\<^sup>* s0 s \<Longrightarrow> db_inv s"
  by (rule queue.inv_reachable)

text \<open>C33. Whatever calls follow, an operation keeps its identifier, actor, idempotency key,
  request, cache key and times of creation; its attempts only grow, and not any more once a
  cancellation was requested; and an operation that has ended never changes again.\<close>

theorem operation_history:
  assumes "(queue_step parse digest)\<^sup>*\<^sup>* s t" and "r \<in> set (ops s)"
  shows "\<exists>r' \<in> set (ops t). same_identity r r' \<and> op_attempt r \<le> op_attempt r'
    \<and> (op_cancel_requested r \<longrightarrow> op_cancel_requested r' \<and> op_attempt r' = op_attempt r)
    \<and> (\<not> pending (op_status r) \<longrightarrow> r' = r)"
proof -
  obtain r' where "r' \<in> set (ops t)" "evolves r r'"
    by (rule extends_row [OF steps_extend [OF assms(1)] assms(2)])
  then show ?thesis by (auto simp: evolves_def)
qed

theorem operation_history_witness:
  "\<exists>r' \<in> set (ops sent_db). same_identity queued_row r' \<and> 0 \<le> op_attempt r'"
proof -
  have "queued_row \<in> set (ops admitted_db)" by (simp add: admitted_ops queued_row_def)
  from operation_history [OF example_reached(6) this]
  show ?thesis by (simp add: queued_row_def admitted_row_def)
qed

lemma worker_superseded:
  assumes inv: "db_inv t" and r: "r \<in> set (ops t)" and id: "op_id r = operation_id c"
    and old: "sint (attempt c) < op_attempt r \<or> \<not> pending (op_status r)"
  shows "\<not> holds_lease e c t"
proof
  assume "holds_lease e c t"
  then obtain x where x: "x \<in> set (ops t)" "fenced c (clock e 0) x" "active (op_status x)"
    by (auto simp: holds_lease_def list_ex_iff)
  from x(2) id have "op_id x = op_id r" by (simp add: fenced_def)
  from db_inv_same_id [OF inv x(1) r this] have "x = r" .
  with x(2,3) old show False by (auto simp: fenced_def dest: active_pending)
qed

text \<open>C28. Once an operation has been claimed again, or has ended, no call of an earlier claim takes
  effect, at any later time and whatever the clock of its worker reads.\<close>

theorem superseded_claim_is_dead:
  assumes "empty_queue s0" and "(queue_step parse digest)\<^sup>*\<^sup>* s0 s"
    and "(queue_step parse digest)\<^sup>*\<^sup>* s t" and "r \<in> set (ops s)" and "op_id r = operation_id c"
    and "sint (attempt c) < op_attempt r \<or> \<not> pending (op_status r)" and "steady e"
  shows "snd (run_worker digest e c wc t) = t \<and> fst (run_worker digest e c wc t) \<noteq> Inr True"
proof -
  have inv: "db_inv t" using assms(1-3) reachable_inv rtranclp_trans by metis
  obtain r' where r': "r' \<in> set (ops t)" "evolves r r'"
    by (rule extends_row [OF steps_extend [OF assms(3)] assms(4)])
  then have "op_id r' = operation_id c" "sint (attempt c) < op_attempt r' \<or> \<not> pending (op_status r')"
    using assms(5,6) by (auto simp: evolves_def same_identity_def)
  from worker_superseded [OF inv r'(1) this] run_worker_stale [OF _ assms(7)]
  show ?thesis by (simp add: no_effect_def)
qed

theorem superseded_claim_is_dead_witness:
  "snd (run_worker example_digest (example_env 3000000 9) example_claim Complete cancelled_db)
     = cancelled_db
   \<and> fst (run_worker example_digest (example_env 3000000 9) example_claim Complete cancelled_db)
     \<noteq> Inr True"
proof -
  have r: "cancelled_row \<in> set (ops cancelled_db)" by (simp add: cancelled_ops)
  have h: "op_id cancelled_row = operation_id example_claim"
    "sint (attempt example_claim) < op_attempt cancelled_row \<or> \<not> pending (op_status cancelled_row)"
    by (simp_all add: row_states cancelled_row_def example_claim_def)
  show ?thesis
    by (rule superseded_claim_is_dead [OF empty_db_empty cancelled_reached(1,2) r h steady_example])
qed

section \<open>Nothing is sent twice\<close>

text \<open>C27. A unit that was sent, or may have been, is never sent again by another attempt: in every
  later state it is still recorded as it was, its operation is still at the attempt that sent
  it, and the operation is neither queued nor running.\<close>

theorem sent_is_never_resent:
  assumes "empty_queue s0" and "(queue_step parse digest)\<^sup>*\<^sup>* s0 s"
    and "(queue_step parse digest)\<^sup>*\<^sup>* s t"
    and "u \<in> set (units s)" and "u_status u \<in> {Sent, UnknownSend}"
    and "r \<in> set (ops t)" and "op_id r = u_op u"
  shows "u \<in> set (units t) \<and> op_attempt r = u_attempt u \<and> op_status r \<notin> {Queued, Running}"
proof -
  have inv: "db_inv t" using assms(1-3) reachable_inv rtranclp_trans by metis
  obtain u' where u': "u' \<in> set (units t)" "unit_evolves u u'"
    by (rule extends_unit [OF steps_extend [OF assms(3)] assms(4)])
  then have u: "u \<in> set (units t)" using assms(5) by (auto simp: unit_evolves_def)
  then have mem: "u \<in> set (units_of (op_id r) t)" using assms(7) by (simp add: units_of_def)
  have ri: "row_inv r (units_of (op_id r) t)" using inv assms(6) by (rule db_inv_row)
  then have "op_attempt r = u_attempt u"
    using mem assms(5) by (auto simp: row_inv_def units_inv_def)
  moreover have "op_status r \<notin> {Queued, Running}"
    using ri mem assms(5) by (auto simp: row_inv_def all_rejected_def)
  ultimately show ?thesis using u by simp
qed

theorem sent_is_never_resent_witness:
  "sent_unit \<in> set (units sent_db) \<and> op_attempt counted_row = u_attempt sent_unit
   \<and> op_status counted_row \<notin> {Queued, Running}"
proof -
  have u: "sent_unit \<in> set (units sent_db)" and r: "counted_row \<in> set (ops sent_db)"
    by (simp_all add: sent_ops)
  have h: "u_status sent_unit \<in> {Sent, UnknownSend}" "op_id counted_row = u_op sent_unit"
    by (simp_all add: sent_unit_def sending_unit_def counted_row_def row_states)
  show ?thesis
    by (rule sent_is_never_resent [OF empty_db_empty example_reached(5,8) u h(1) r h(2)])
qed

end
