(* ===== verification/Claim_Safety.thy ===== *)
theory Claim_Safety
  imports Queue_Safety
begin

text \<open>
  What a claim returns, in every case, what the lease it grants is good for, what becomes of the
  leases it finds expired, and the limits that admissions and claims keep.
\<close>

section \<open>The outcome of a claim\<close>

definition none_eligible :: "i64 option \<Rightarrow> claim_policy \<Rightarrow> int \<Rightarrow> db \<Rightarrow> bool" where
  "none_eligible b policy now s \<longleftrightarrow> (\<forall>x \<in> set (ops s). \<not> eligible b policy now s x)"

definition first_eligible :: "i64 option \<Rightarrow> claim_policy \<Rightarrow> int \<Rightarrow> db \<Rightarrow> op_row \<Rightarrow> bool" where
  "first_eligible b policy now s r \<longleftrightarrow>
     r \<in> set (ops s) \<and> eligible b policy now s r
     \<and> (\<forall>x \<in> set (ops s). eligible b policy now s x \<longrightarrow> claim_order r \<le> claim_order x)"

text \<open>C29. A claim first ends or requeues the expired leases it finds. Then it takes the operation
  that is first by availability, creation and identifier among those the limits allow, and
  returns it as a new attempt with the lease in its row; it returns nothing exactly when no
  operation may be claimed; and when the stored request of the first operation cannot be read
  it fails and changes nothing, the expiry included.\<close>

theorem claim_outcome:
  assumes "empty_queue s0" and "(queue_step parse digest)\<^sup>*\<^sup>* s0 s"
    and "steady e" and "up e" and "claim_policy_validate policy = Inr ()"
    and "validate_worker w = Inr ()" and "validate_lease lease = Inr ()"
  shows "\<exists>s1. expire_all e s = Inr s1 \<and>
    (none_eligible b policy (clock e (claim_index e s)) s1
       \<and> claim_filtered parse e w lease b policy s = (Inr None, s1)
     \<or> (\<exists>r. first_eligible b policy (clock e (claim_index e s)) s1 r
       \<and> claim_filtered parse e w lease b policy s =
          (case decode parse (op_request r) of
             Inl _ \<Rightarrow> (Inl InvalidStoredData, s)
           | Inr req \<Rightarrow>
               (let f = claim_columns w (as_secs lease) b (fresh_id e)
                          (clock e (claim_index e s + 1)) in
                (Inr (Some (claim_of_row req (f r))),
                 s1\<lparr>ops := update_where (\<lambda>x. op_id x = op_id r) f (ops s1)\<rparr>)))))"
proof -
  have inv: "db_inv s" using assms(1,2) by (rule reachable_inv)
  have call: "claim_filtered parse e w lease b policy s
      = transaction e (claim_filtered_body parse e w lease b policy) s"
    by (simp add: claim_filtered_def checked_def assms)
  show ?thesis
    using inv assms(3)
  proof (cases rule: claim_body_cases [where b = b and policy = policy and parse = parse
        and w = w and lease = lease])
    case (none s1)
    then show ?thesis
      using claim_selected_None [OF none(3)] assms(4)
      by (auto simp: call transaction_def none_eligible_def)
  next
    case (row s1 r)
    have "first_eligible b policy (clock e (claim_index e s)) s1 r"
      using claim_selected_Some [OF row(3)] by (simp add: first_eligible_def)
    moreover have "claim_filtered parse e w lease b policy s =
        (case decode parse (op_request r) of
           Inl _ \<Rightarrow> (Inl InvalidStoredData, s)
         | Inr req \<Rightarrow>
             (let f = claim_columns w (as_secs lease) b (fresh_id e)
                        (clock e (claim_index e s + 1)) in
              (Inr (Some (claim_of_row req (f r))),
               s1\<lparr>ops := update_where (\<lambda>x. op_id x = op_id r) f (ops s1)\<rparr>)))"
      using row(4) assms(4) decode_error [of parse "op_request r"]
      by (cases "decode parse (op_request r)")
        (simp_all add: call transaction_def claim_result_def Let_def)
    ultimately show ?thesis using row(1) by blast
  qed
qed

theorem claim_outcome_witness:
  "\<exists>s1 r. expire_all (example_env 2000000 8) admitted_db = Inr s1
     \<and> first_eligible None claim_policy_default
         (clock (example_env 2000000 8) (claim_index (example_env 2000000 8) admitted_db)) s1 r"
proof -
  have up: "up (example_env 2000000 8)" by (simp add: example_env_def)
  show ?thesis
    using claim_outcome [OF empty_db_empty example_reached(1) steady_example up worker_ok(4,1,2),
        where b = None] claimed_call by force
qed

section \<open>The lease of a claim\<close>

lemma claim_of_row_attempt:
  assumes "bounds_inv r" and "op_checks r" and "op_attempt r < op_max_attempts r"
  shows "sint (of_int (op_attempt r + 1) :: u32) = op_attempt r + 1"
    and "uint (of_int (op_attempt r + 1) :: u32) = op_attempt r + 1"
proof -
  have b: "0 \<le> op_attempt r" "op_attempt r + 1 \<le> 101"
    using assms by (auto simp: bounds_inv_def op_checks_def split: if_splits)
  then show "sint (of_int (op_attempt r + 1) :: u32) = op_attempt r + 1"
    by (simp add: signed_of_int signed_take_bit_int_eq_self del: of_int_add)
  from b show "uint (of_int (op_attempt r + 1) :: u32) = op_attempt r + 1"
    by (simp add: unsigned_of_int take_bit_int_eq_self del: of_int_add)
qed

text \<open>A claim that is returned can be used: it passes the checks of every call on a claim, its
  operation is running at the attempt it names, and its worker holds the lease until it
  expires, which is the lease asked for after the clock reading of the claim.\<close>

theorem claim_grants_lease:
  assumes "empty_queue s0" and "(queue_step parse digest)\<^sup>*\<^sup>* s0 s" and "steady e"
    and "claim_filtered parse e w lease b policy s = (Inr (Some c), t)"
    and "clock e' 0 < lease_expires_at c"
  shows "validate_claim c = Inr () \<and> holds_lease e' c t
    \<and> lease_expires_at c
        = clock e (claim_index e s + 1) + int (as_secs lease) * 1000000
    \<and> (\<exists>r \<in> set (ops t). op_id r = operation_id c \<and> op_status r = Running
        \<and> op_attempt r = sint (attempt c) \<and> decode parse (op_request r) = Inr (request c))"
proof -
  have inv: "db_inv s" using assms(1,2) by (rule reachable_inv)
  have ok: "up e" "claim_policy_validate policy = Inr ()" "validate_worker w = Inr ()"
    "validate_lease lease = Inr ()"
    using assms(4) by (auto simp: claim_filtered_def checked_def transaction_def split: sum.splits if_splits)
  let ?f = "claim_columns w (as_secs lease) b (fresh_id e) (clock e (claim_index e s + 1))"
  from claim_outcome [OF assms(1-3) ok, of b] assms(4)
  obtain s1 r where s1: "expire_all e s = Inr s1"
    "first_eligible b policy (clock e (claim_index e s)) s1 r"
    "(Inr (Some c), t) = (case decode parse (op_request r) of
       Inl _ \<Rightarrow> (Inl InvalidStoredData, s)
     | Inr req \<Rightarrow> (let f = ?f in (Inr (Some (claim_of_row req (f r))),
         s1\<lparr>ops := update_where (\<lambda>x. op_id x = op_id r) f (ops s1)\<rparr>)))"
    by force
  then obtain req where h: "expire_all e s = Inr s1"
    "first_eligible b policy (clock e (claim_index e s)) s1 r"
    "decode parse (op_request r) = Inr req" "c = claim_of_row req (?f r)"
    "t = s1\<lparr>ops := update_where (\<lambda>x. op_id x = op_id r) ?f (ops s1)\<rparr>"
    by (cases "decode parse (op_request r)") (simp_all add: Let_def)
  have "db_inv s1" using expire_leases_keeps [OF inv] h(1) by (auto simp: expire_all_def)
  moreover have r: "r \<in> set (ops s1)" "claimable (clock e (claim_index e s)) r"
    using h(2) by (simp_all add: first_eligible_def eligible_def)
  ultimately have "row_inv r (units_of (op_id r) s1)" by (simp add: db_inv_row)
  then have b: "bounds_inv r" "op_checks r" by (simp_all add: row_inv_def)
  have room: "op_attempt r < op_max_attempts r" using r(2) by (simp add: claimable_def)
  note att = claim_of_row_attempt [OF b room]
  have row: "?f r \<in> set (ops t)" using r(1) h(5) by (auto simp: update_where_def)
  have c: "operation_id c = op_id r" "attempt c = of_int (op_attempt r + 1)"
    "lease_token c = fresh_id e" "worker_id c = w" "request c = req"
    "lease_expires_at c = clock e (claim_index e s + 1) + int (as_secs lease) * 1000000"
    by (simp_all add: h(4) claim_of_row_def)
  have "fenced c (clock e' 0) (?f r)"
    using assms(5) by (simp add: fenced_def c att lease_live_def del: of_int_add)
  with row have "holds_lease e' c t" by (auto simp: holds_lease_def list_ex_iff)
  moreover have "validate_claim c = Inr ()"
  proof -
    have "uint (attempt c) = op_attempt r + 1" "0 \<le> op_attempt r" "op_attempt r + 1 \<le> 101"
      using b room c(2) att by (auto simp: bounds_inv_def op_checks_def split: if_splits)
    then have "attempt c \<noteq> 0" "\<not> attempt c > 0x7FFFFFFF"
      by (auto simp: word_less_def uint_0_iff [symmetric] simp del: uint_0_iff)
    then show ?thesis using ok(3) c(4) by (simp add: validate_claim_def)
  qed
  moreover have "op_id (?f r) = operation_id c" "op_status (?f r) = Running"
    "op_attempt (?f r) = sint (attempt c)" "decode parse (op_request (?f r)) = Inr (request c)"
    by (simp_all add: c att h(3) del: of_int_add)
  ultimately show ?thesis using row c(6) by blast
qed

theorem claim_grants_lease_witness:
  "validate_claim example_claim = Inr () \<and> holds_lease (example_env 3000000 9) example_claim claimed_db"
proof -
  have t: "clock (example_env 3000000 9) 0 < lease_expires_at example_claim"
    by (simp add: example_env_def example_claim_def)
  from claim_grants_lease [OF empty_db_empty example_reached(1) steady_example claimed_call t]
  show ?thesis by (simp add: claimed_ops)
qed

end
