(* ===== verification/Queue_Limits.thy ===== *)
theory Queue_Limits
  imports Claim_Safety
begin

text \<open>
  The limits of the queue. A claim never gives an actor more active operations than its policy
  allows, and an admission never more pending ones; no other call adds to either. So the
  bounds hold in every state the calls can reach under the limits.
\<close>

lemma count_where_list_all2:
  "list_all2 P xs ys \<Longrightarrow> (\<And>x y. P x y \<Longrightarrow> q y \<Longrightarrow> q x) \<Longrightarrow> count_where q ys \<le> count_where q xs"
proof (induction rule: list_all2_induct)
  case (Cons x xs y ys)
  then show ?case by (auto simp: count_where_def)
qed simp

lemma count_where_update_le: "count_where q (update_where p f t) \<le> count_where q t + count_where p t"
  by (induction t) (auto simp: count_where_def)

lemma count_where_update_same:
  "(\<And>x. x \<in> set t \<Longrightarrow> p x \<Longrightarrow> q (f x) = q x) \<Longrightarrow> count_where q (update_where p f t) = count_where q t"
  by (induction t) (auto simp: count_where_def)

lemma works_active: "works r r' \<Longrightarrow> op_actor r' = a \<and> active (op_status r') \<Longrightarrow>
    op_actor r = a \<and> active (op_status r)"
  by (auto simp: works_defs)

lemma evolves_pending: "evolves r r' \<Longrightarrow> pending (op_status r') \<Longrightarrow> pending (op_status r)"
  by (auto simp: evolves_def)

lemma frame_active: "frame works s t \<Longrightarrow> active_count a t \<le> active_count a s"
  unfolding active_count_def frame_def by (rule count_where_list_all2 [of works]) (auto dest: works_active)

lemma frame_pending:
  assumes "frame evolves s t"
  shows "pending_count t \<le> pending_count s" and "pending_actor_count a t \<le> pending_actor_count a s"
  using assms unfolding pending_count_def pending_actor_count_def frame_def
  by (auto intro!: count_where_list_all2 [of evolves] dest: evolves_pending
      simp: evolves_def same_identity_def)

lemma claimed_active:
  assumes inv: "db_inv s" and r: "r \<in> set (ops s)" "eligible b policy now s r"
  shows "int (active_count a (s\<lparr>ops := update_where (\<lambda>x. op_id x = op_id r)
      (claim_columns w l b' tok t) (ops s)\<rparr>))
    \<le> max (int (active_count a s)) (uint (max_active_actor policy))"
proof -
  let ?p = "\<lambda>x. op_id x = op_id r" and ?f = "claim_columns w l b' tok t"
  let ?q = "\<lambda>x. op_actor x = a \<and> active (op_status x)"
  have only: "x = r" if "x \<in> set (ops s)" "?p x" for x
    using db_inv_same_id [OF inv that(1) r(1) that(2)] .
  show ?thesis
  proof (cases "op_actor r = a")
    case True
    have "count_where ?q (update_where ?p ?f (ops s)) \<le> count_where ?q (ops s) + count_where ?p (ops s)"
      by (rule count_where_update_le)
    moreover have "count_where ?p (ops s) \<le> 1"
      using inv by (intro count_where_key_le_1 [where key = op_id]) (simp_all add: db_inv_def)
    moreover have "int (count_where ?q (ops s)) < uint (max_active_actor policy)"
      using r(2) True by (simp add: eligible_def active_count_def)
    ultimately show ?thesis by (simp add: active_count_def)
  next
    case False
    then have "count_where ?q (update_where ?p ?f (ops s)) = count_where ?q (ops s)"
      by (intro count_where_update_same) (use only in auto)
    then show ?thesis by (simp add: active_count_def)
  qed
qed

lemma claim_active:
  assumes inv: "db_inv s" and st: "steady e"
  shows "int (active_count a (snd (claim_filtered parse e w lease b policy s)))
    \<le> max (int (active_count a s)) (uint (max_active_actor policy))"
proof -
  have "int (active_count a s') \<le> max (int (active_count a s)) (uint (max_active_actor policy))"
    if body: "claim_filtered_body parse e w lease b policy s = Inr (x, s')" for x s'
    using inv st
  proof (cases rule: claim_body_cases [where b = b and policy = policy and parse = parse
        and w = w and lease = lease])
    case (none s1)
    then have "frame works s s'" using body by (auto simp: expire_all_def intro: expire_leases_frame)
    then show ?thesis using frame_active [of s s' a] by simp
  next
    case (row s1 r)
    have "frame works s s1" using row(1) by (auto simp: expire_all_def intro: expire_leases_frame)
    then have le: "active_count a s1 \<le> active_count a s" by (rule frame_active)
    have "claim_result parse (claim_columns w (as_secs lease) b (fresh_id e)
        (clock e (claim_index e s + 1))) r s1 = Inr (x, s')"
      using row(4) body by simp
    then have "s' = s1\<lparr>ops := update_where (\<lambda>x. op_id x = op_id r)
        (claim_columns w (as_secs lease) b (fresh_id e) (clock e (claim_index e s + 1))) (ops s1)\<rparr>"
      by (auto simp: claim_result_def res_bind_Inr_iff)
    then have "int (active_count a s') \<le> max (int (active_count a s1)) (uint (max_active_actor policy))"
      using claimed_active [OF row(2) claim_selected_Some(1,2) [OF row(3)]] by simp
    also have "\<dots> \<le> max (int (active_count a s)) (uint (max_active_actor policy))"
      using le by (intro max.mono) simp_all
    finally show ?thesis .
  qed
  then show ?thesis
    by (auto simp: claim_filtered_def checked_def transaction_def split: sum.splits)
qed

section \<open>Calls within limits\<close>

record limits =
  lim_active :: int
  lim_pending :: int
  lim_pending_actor :: int

fun call_within :: "limits \<Rightarrow> queue_call \<Rightarrow> bool" where
  "call_within lims (ClaimNext _ _ _ p) \<longleftrightarrow> uint (max_active_actor p) \<le> lim_active lims"
| "call_within lims (Admit _ _ _ p _ _ _) \<longleftrightarrow>
     uint (max_pending_global p) \<le> lim_pending lims \<and> uint (max_pending_actor p) \<le> lim_pending_actor lims"
| "call_within lims _ \<longleftrightarrow> True"

inductive limited_step :: "url_parser \<Rightarrow> digester \<Rightarrow> limits \<Rightarrow> db \<Rightarrow> db \<Rightarrow> bool"
  for parse digest lims where
  call: "steady e \<Longrightarrow> call_within lims q \<Longrightarrow> limited_step parse digest lims s (run_call parse digest e q s)"

inductive_cases limited_stepE: "limited_step parse digest lims s t"

definition in_limits :: "limits \<Rightarrow> db \<Rightarrow> bool" where
  "in_limits lims s \<longleftrightarrow>
     db_inv s \<and> (\<forall>a. int (active_count a s) \<le> lim_active lims)
     \<and> int (pending_count s) \<le> lim_pending lims
     \<and> (\<forall>a. int (pending_actor_count a s) \<le> lim_pending_actor lims)"

definition limits_ok :: "limits \<Rightarrow> bool" where
  "limits_ok lims \<longleftrightarrow> 0 \<le> lim_active lims \<and> 0 \<le> lim_pending lims \<and> 0 \<le> lim_pending_actor lims"

lemma framed_within: "framed h \<Longrightarrow> in_limits lims s \<Longrightarrow> db_inv (snd (h s)) \<Longrightarrow> in_limits lims (snd (h s))"
  using frame_active [of s "snd (h s)"] frame_pending [OF frame_works_evolves, of s "snd (h s)"]
  unfolding framed_def in_limits_def by (meson of_nat_mono order_trans)

lemma admit_active:
  "ops t = ops s @ [row] \<Longrightarrow> op_status row = Queued \<Longrightarrow> active_count a t = active_count a s"
  by (simp add: active_count_def count_where_def)

lemma admit_pending:
  "ops t = ops s @ [row] \<Longrightarrow> op_status row = Queued \<Longrightarrow>
    pending_count t = pending_count s + 1
    \<and> pending_actor_count a t = pending_actor_count a s + (if op_actor row = sint a then 1 else 0)"
  by (simp add: pending_count_def pending_actor_count_def count_where_def)

lemma within_step:
  assumes "in_limits lims s" and "limited_step parse digest lims s t"
  shows "in_limits lims t"
proof -
  from assms(2) obtain e q where q: "steady e" "call_within lims q" "t = run_call parse digest e q s"
    by (auto elim: limited_stepE)
  have inv: "db_inv t" using run_call_inv [OF q(1)] assms(1) by (simp add: q(3) in_limits_def)
  show ?thesis
  proof (cases q)
    case (Admit cfg r key policy preserve now tg)
    with admit_inner_ops [of parse digest cfg e r key policy preserve now tg s] q(3)
    consider "ops t = ops s" | row where "ops t = ops s @ [row]" "op_status row = Queued"
      "op_actor row = sint (actor_id r)" "int (pending_count s) < uint (max_pending_global policy)"
      "int (pending_actor_count (actor_id r) s) < uint (max_pending_actor policy)"
      by auto
    then show ?thesis
    proof cases
      case 1
      with assms(1) inv show ?thesis
        by (simp add: in_limits_def active_count_def pending_count_def pending_actor_count_def)
    next
      case 2
      have "int (pending_actor_count a t) \<le> lim_pending_actor lims" for a
        using assms(1) admit_pending [OF 2(1,2), of a] 2(3,5) q(2)
          signed_word_eqI [of "actor_id r" a]
        by (cases "a = actor_id r") (auto simp: Admit in_limits_def split: if_splits)
      then show ?thesis
        using assms(1) inv admit_active [OF 2(1,2)] admit_pending [OF 2(1,2)] 2(4) q(2)
        by (auto simp: in_limits_def Admit)
    qed
  next
    case (ClaimNext w lease b policy)
    have "int (active_count a t) \<le> lim_active lims" for a
    proof -
      have "db_inv s" using assms(1) by (simp add: in_limits_def)
      from claim_active [OF this q(1)]
      have "int (active_count a t) \<le> max (int (active_count a s)) (uint (max_active_actor policy))"
        by (simp add: q(3) ClaimNext)
      also have "\<dots> \<le> lim_active lims"
        using assms(1) q(2) by (simp add: ClaimNext in_limits_def)
      finally show ?thesis .
    qed
    moreover have "frame evolves s t" using claim_filtered_frame by (simp add: q(3) ClaimNext)
    ultimately show ?thesis
      using assms(1) inv frame_pending [of s t] unfolding in_limits_def by (meson of_nat_mono order_trans)
  next
    case (RequestCancel actor i)
    then show ?thesis
      using framed_within [OF request_cancel_framed assms(1)] inv by (simp add: q(3))
  next
    case (OnClaim c wc)
    then show ?thesis using framed_within [OF run_worker_framed assms(1)] inv by (simp add: q(3))
  qed
qed

interpretation limited: transition_system "\<lambda>s. empty_queue s \<and> limits_ok lims"
    "limited_step parse digest lims" "in_limits lims" for parse digest lims
proof
  show "empty_queue s \<and> limits_ok lims \<Longrightarrow> in_limits lims s" for s
    by (simp add: in_limits_def empty_queue_def limits_ok_def db_inv_def active_count_def
        pending_count_def pending_actor_count_def count_where_def)
qed (rule within_step)

text \<open>C32. As long as every claim and every admission is made under the limits, no actor ever has more
  active operations than the claim limit, the queue never holds more pending operations than
  the global limit, and no actor more than the limit of an actor, whatever the order of calls.\<close>

theorem limits_hold:
  assumes "empty_queue s0" and "limits_ok lims" and "(limited_step parse digest lims)\<^sup>*\<^sup>* s0 s"
  shows "(\<forall>a. int (active_count a s) \<le> lim_active lims) \<and> int (pending_count s) \<le> lim_pending lims
    \<and> (\<forall>a. int (pending_actor_count a s) \<le> lim_pending_actor lims)"
  using limited.inv_reachable [of s0 lims] assms by (auto simp: in_limits_def)

definition example_limits :: limits where
  "example_limits = \<lparr>lim_active = 3, lim_pending = 10, lim_pending_actor = 5\<rparr>"

theorem limits_hold_witness:
  "int (active_count 42 claimed_db) \<le> 3 \<and> active_count 42 claimed_db = 1"
proof -
  have "limited_step example_parser example_digest example_limits empty_db admitted_db"
    "limited_step example_parser example_digest example_limits admitted_db claimed_db"
    unfolding admitted_db_def claimed_db_def
    by (rule limited_step.call [OF steady_example];
        simp add: example_limits_def example_policy_def claim_policy_default_def)+
  then have steps: "(limited_step example_parser example_digest example_limits)\<^sup>*\<^sup>* empty_db claimed_db"
    by (metis rtranclp.rtrancl_into_rtrancl rtranclp.rtrancl_refl)
  have ok: "limits_ok example_limits" by (simp add: limits_ok_def example_limits_def)
  have "int (active_count 42 claimed_db) \<le> lim_active example_limits"
    using limits_hold [OF empty_db_empty ok steps] by blast
  moreover have "active_count 42 claimed_db = 1"
    by (simp add: claimed_ops active_count_def count_where_def row_states)
  ultimately show ?thesis by (simp add: example_limits_def)
qed

end
