(* ===== verification/Delivery_Safety.thy ===== *)
theory Delivery_Safety
  imports Queue_Limits
begin

text \<open>
  What the delivery of a batch guarantees: its accounting in every reachable state, and exactly
  when confirming, rejecting or losing a unit takes effect and what it leaves behind.
\<close>

section \<open>Accounting\<close>

text \<open>C31. In every reachable state, an operation that is delivering has counted exactly the
  artifacts of the units its attempt has sent, every unit of the attempt is sent or being
  sent, at most one is being sent, and the units never ask for more than was planned.\<close>

theorem delivery_accounting:
  assumes "empty_queue s0" and "(queue_step parse digest)\<^sup>*\<^sup>* s0 s"
    and "r \<in> set (ops s)" and "op_status r = Delivering"
  shows "let us = attempt_units (op_id r) (op_attempt r) s in
    op_delivered r = sum_list (map u_count (filter (\<lambda>u. u_status u = Sent) us))
    \<and> (\<forall>u \<in> set us. u_status u = Sent \<or> u_status u = Sending)
    \<and> (\<forall>u \<in> set us. \<forall>v \<in> set us. u_status u = Sending \<and> u_status v = Sending \<longrightarrow> u = v)
    \<and> (case op_planned r of None \<Rightarrow> us = [] | Some p \<Rightarrow> sum_list (map u_count us) \<le> p)"
proof -
  have inv: "db_inv s" using assms(1,2) by (rule reachable_inv)
  let ?us = "attempt_units (op_id r) (op_attempt r) s"
  have b: "batch_inv r ?us"
    unfolding attempt_units_eq by (rule delivering_batch [OF db_inv_row [OF inv assms(3)] assms(4)])
  have d: "distinct (map u_ordinal ?us)" using inv by (intro distinct_ordinals) (simp add: db_inv_def)
  have "u = v" if "u \<in> set ?us" "v \<in> set ?us" "u_status u = Sending \<and> u_status v = Sending" for u v
    using b that distinct_key_eq [OF d that(1,2)] unfolding batch_inv_def by blast
  with b show ?thesis
    unfolding batch_inv_def sent_sum_def counts_sum_def Let_def by blast
qed

theorem delivery_accounting_witness:
  "op_delivered counted_row = 1
   \<and> op_delivered counted_row = sum_list (map u_count (filter (\<lambda>u. u_status u = Sent)
       (attempt_units (op_id counted_row) (op_attempt counted_row) sent_db)))"
proof -
  have r: "counted_row \<in> set (ops sent_db)" "op_status counted_row = Delivering"
    "op_delivered counted_row = 1"
    by (simp_all add: sent_ops counted_row_def row_states)
  from delivery_accounting [OF empty_db_empty example_reached(5) r(1,2)] r(3)
  show ?thesis by (simp add: Let_def)
qed

section \<open>Confirming a unit\<close>

text \<open>The operation and the unit a confirmation is about, while the lease lives.\<close>

definition unit_in_flight :: "claim \<Rightarrow> int \<Rightarrow> int \<Rightarrow> db \<Rightarrow> op_row \<Rightarrow> unit_row \<Rightarrow> bool" where
  "unit_in_flight c ordinal now s r u \<longleftrightarrow>
     r \<in> set (ops s) \<and> fenced c now r \<and> op_status r = Delivering
     \<and> u \<in> set (units s) \<and> this_unit c ordinal Sending u"

lemma unit_in_flight_delivering:
  "unit_in_flight c k t s r u \<Longrightarrow> t' \<le> t \<Longrightarrow> delivering c t' s"
  using fenced_mono [of c t r t'] by (auto simp: unit_in_flight_def delivering_def list_ex_iff)

lemma this_unit_key: "this_unit c k st u \<Longrightarrow> unit_key u = (operation_id c, sint (attempt c), k)"
  by (simp add: this_unit_def unit_key_def)

lemma unit_unique:
  "db_inv s \<Longrightarrow> u \<in> set (units s) \<Longrightarrow> v \<in> set (units s) \<Longrightarrow> unit_key u = unit_key v \<Longrightarrow> u = v"
  using distinct_key_eq [of unit_key "units s"] by (simp add: db_inv_def)

lemma sent_sum_others:
  "\<forall>u \<in> set us. u_ordinal u = k \<longrightarrow> u_status u \<noteq> Sent \<Longrightarrow>
    sent_sum (filter (\<lambda>v. u_ordinal v \<noteq> k) us) = sent_sum us"
  by (induction us) auto

lemma delivered_others:
  assumes inv: "db_inv s" and fl: "unit_in_flight c k t s r u"
    and units: "units s1 = update_where (\<lambda>x. x = u) g (units s)"
    and g: "unit_key (g u) = unit_key u"
  shows "op_delivered r = sent_sum (filter (\<lambda>v. u_ordinal v \<noteq> k)
    (attempt_units (operation_id c) (sint (attempt c)) s1))"
proof -
  let ?a = "\<lambda>s. attempt_units (operation_id c) (sint (attempt c)) s"
  have r: "r \<in> set (ops s)" "op_status r = Delivering" "operation_id c = op_id r"
    "sint (attempt c) = op_attempt r" and u: "u \<in> set (units s)" "this_unit c k Sending u"
    using fl by (auto simp: unit_in_flight_def fenced_def)
  have k: "u_ordinal u = k" "u_ordinal (g u) = k" "u_status u = Sending"
    using u(2) g by (simp_all add: this_unit_def unit_key_def)
  have "?a s1 = update_where (\<lambda>x. x = u) g (?a s)"
    unfolding attempt_units_def units
    by (rule filter_update_where_stable) (use g in \<open>auto simp: unit_key_def\<close>)
  then have "filter (\<lambda>v. u_ordinal v \<noteq> k) (?a s1) = filter (\<lambda>v. u_ordinal v \<noteq> k) (?a s)"
    using filter_update_where_other [of "\<lambda>x. x = u" "\<lambda>v. u_ordinal v \<noteq> k" g] k by auto
  moreover have "sent_sum (filter (\<lambda>v. u_ordinal v \<noteq> k) (?a s)) = sent_sum (?a s)"
  proof (rule sent_sum_others, intro ballI impI)
    fix v assume v: "v \<in> set (?a s)" "u_ordinal v = k"
    then have "v = u" using unit_unique [OF inv, of v u] u
      by (auto simp: attempt_units_def this_unit_def unit_key_def)
    then show "u_status v \<noteq> Sent" using k by simp
  qed
  moreover have "op_delivered r = sent_sum (?a s)"
    unfolding r(3,4) attempt_units_eq
    using delivering_batch [OF db_inv_row [OF inv r(1)] r(2)] unfolding batch_inv_def by blast
  ultimately show ?thesis by simp
qed

lemma update_units_one:
  assumes inv: "db_inv s" and u: "u \<in> set (units s)" "q u" and key: "\<And>x. q x \<Longrightarrow> unit_key x = unit_key u"
    and ck: "unit_checks (g u)"
  shows "update_units q g s = Inr (1, s\<lparr>units := update_where (\<lambda>x. x = u) g (units s)\<rparr>)"
proof -
  have only: "q x \<longleftrightarrow> x = u" if "x \<in> set (units s)" for x
    using unit_unique [OF inv that u(1)] key u(2) by blast
  then have "update_where q g (units s) = update_where (\<lambda>x. x = u) g (units s)"
    unfolding update_where_def by (intro map_cong) auto
  moreover have "count_where q (units s) = Suc 0"
  proof (rule count_where_one [where key = unit_key and r = u])
    show "distinct (map unit_key (units s))" using inv by (simp add: db_inv_def)
  qed (fact u key)+
  moreover have "list_all (\<lambda>x. q x \<longrightarrow> unit_checks (g x)) (units s)"
    using only ck unfolding list_all_iff by blast
  ultimately show ?thesis by (simp add: update_units_def)
qed

lemma update_ops_one:
  assumes inv: "db_inv s" and r: "r \<in> set (ops s)" "p r" and key: "\<And>x. p x \<Longrightarrow> op_id x = op_id r"
    and ops: "ops s1 = ops s" and res: "update_ops p f s1 \<noteq> Inl Database"
  shows "update_ops p f s1 = Inr (1, s1\<lparr>ops := update_where (\<lambda>x. x = r) f (ops s)\<rparr>)"
proof -
  have "update_where p f (ops s) = update_where (\<lambda>x. x = r) f (ops s)"
    unfolding update_where_def by (rule map_cong [OF refl]) (use r key db_inv_same_id [OF inv] in metis)
  moreover have "count_where p (ops s) = Suc 0"
  proof (rule count_where_one [where key = op_id and r = r])
    show "distinct (map op_id (ops s))" using inv by (simp add: db_inv_def)
  qed (fact r key)+
  moreover have "list_all (\<lambda>x. p x \<longrightarrow> op_checks (f x)) (ops s1)"
    by (rule ccontr) (use res in \<open>simp add: update_ops_def\<close>)
  ultimately show ?thesis by (simp add: update_ops_def ops)
qed

definition unit_transaction_ok :: "env \<Rightarrow> claim \<Rightarrow> u32 \<Rightarrow> bool" where
  "unit_transaction_ok e c k \<longleftrightarrow> up e \<and> steady e \<and> validate_claim c = Inr () \<and> k \<le> 99"

definition message_ids_ok :: "i64 list \<Rightarrow> bool" where
  "message_ids_ok ids \<longleftrightarrow>
     ids \<noteq> [] \<and> length ids \<le> 10 \<and> distinct ids \<and> (\<forall>i \<in> set ids. 0 < sint i \<and> sint i \<le> i32_max)"

lemma steady_le: "steady e \<Longrightarrow> clock e 0 \<le> clock e 1"
  by (simp add: steady_def mono_def)

lemma unit_call_cases:
  assumes "up e" and "fst (update_delivery_unit e unit operation s) \<noteq> Inl Database"
    and "\<And>x. unit s = Inl x \<Longrightarrow> x = Database" and "\<And>s1 x. operation s1 = Inl x \<Longrightarrow> x = Database"
  obtains "update_delivery_unit e unit operation s = (Inr False, s)"
    | s1 s2 where "unit s = Inr (1, s1)" "operation s1 = Inr (1, s2)"
      "update_delivery_unit e unit operation s = (Inr True, s2)"
proof (cases "unit s")
  case (Inl x)
  with assms show thesis by (simp add: update_delivery_unit_def transaction_def)
next
  case (Inr p)
  obtain n s1 where p: "p = (n, s1)" by (cases p)
  show thesis
  proof (cases "n = 1")
    case False
    with Inr p assms(1) show thesis
      by (intro that(1)) (simp add: update_delivery_unit_def transaction_def)
  next
    case True
    note unit = Inr [unfolded p True]
    show thesis
    proof (cases "operation s1")
      case (Inl x)
      with unit assms show thesis by (simp add: update_delivery_unit_def transaction_def)
    next
      case (Inr o')
      obtain m s2 where o': "o' = (m, s2)" by (cases o')
      show thesis
      proof (cases "m = 1")
        case True
        with unit Inr o' assms(1) show thesis
          by (intro that(2)) (simp_all add: update_delivery_unit_def transaction_def)
      next
        case False
        with unit Inr o' assms(1) show thesis
          by (intro that(1)) (simp add: update_delivery_unit_def transaction_def)
      qed
    qed
  qed
qed

lemma update_units_found:
  "update_units q g s = Inr (1, s1) \<Longrightarrow> \<exists>u \<in> set (units s). q u"
  by (auto simp: update_units_Inr count_where_def filter_empty_conv dest!: sym [of "Suc 0"])
    (metis filter_empty_conv length_0_conv nat.distinct(1))

lemma update_ops_found:
  "update_ops p f s = Inr (1, s1) \<Longrightarrow> \<exists>r \<in> set (ops s). p r"
  by (auto simp: update_ops_Inr count_where_def filter_empty_conv dest!: sym [of "Suc 0"])
    (metis filter_empty_conv length_0_conv nat.distinct(1))

lemma complete_call:
  assumes ok: "unit_transaction_ok e c k" and ids: "message_ids_ok ids"
  shows "complete_delivery_unit e c k ids = update_delivery_unit e
    (sql_complete_delivery_unit c (uint k) (map sint ids) (clock e 0))
    (sql_complete_delivery_unit_operation c (uint k) (sint (last ids)) (clock e 1))"
proof -
  have "\<not> list_ex (\<lambda>i. sint i \<le> 0 \<or> sint i > i32_max) ids"
    using ids by (auto simp: message_ids_ok_def list_ex_iff)
  moreover have "last (map sint ids) = sint (last ids)"
    using ids by (simp add: message_ids_ok_def last_map)
  ultimately show ?thesis
    using ok ids
    by (auto simp: fun_eq_iff complete_delivery_unit_def checked_def unit_transaction_ok_def
        message_ids_ok_def Let_def)
qed

lemma complete_operation_Inl:
  "sql_complete_delivery_unit_operation c k m t s = Inl x \<Longrightarrow> x = Database"
  by (auto simp: sql_complete_delivery_unit_operation_def dest: update_ops_Inl split: option.splits)

lemma complete_unit_true:
  assumes inv: "db_inv s" and ok: "unit_transaction_ok e c k" and ids: "message_ids_ok ids"
    and fl: "unit_in_flight c (uint k) (clock e 1) s r u" and n: "u_count u = int (length ids)"
  shows "complete_delivery_unit e c k ids s =
    (Inr True, s\<lparr>units := update_where (\<lambda>x. x = u)
        (\<lambda>u. u\<lparr>u_status := Sent, u_messages := Some (map sint ids), u_updated_at := clock e 0\<rparr>) (units s),
      ops := update_where (\<lambda>x. x = r) (sent_row (u_count u) (sint (last ids)) (clock e 1)) (ops s)\<rparr>)"
proof -
  let ?g = "\<lambda>u. u\<lparr>u_status := Sent, u_messages := Some (map sint ids), u_updated_at := clock e 0\<rparr>"
  let ?s1 = "s\<lparr>units := update_where (\<lambda>x. x = u) ?g (units s)\<rparr>"
  let ?t1 = "clock e 1" and ?m = "sint (last ids)" and ?k = "uint k"
  let ?unit = "sql_complete_delivery_unit c ?k (map sint ids) (clock e 0)"
  let ?oper = "sql_complete_delivery_unit_operation c ?k ?m ?t1"
  have u: "u \<in> set (units s)" "this_unit c ?k Sending u" and r: "r \<in> set (ops s)" "fenced c ?t1 r"
    "op_status r = Delivering"
    using fl by (simp_all add: unit_in_flight_def)
  have st: "clock e 0 \<le> clock e 1" "up e" using ok steady_le by (simp_all add: unit_transaction_ok_def)
  have dist: "distinct (map sint ids)" using ids by (simp add: message_ids_ok_def i64_words_distinct)
  have "list_all (\<lambda>i. \<not> (i \<le> 0 \<or> i > i32_max)) (map sint ids)"
    using ids by (auto simp: message_ids_ok_def list_all_iff)
  then have unit: "?unit s = Inr (1, ?s1)"
    unfolding sql_complete_delivery_unit_def
    using unit_in_flight_delivering [OF fl st(1)] u n dist db_inv_unit [OF inv u(1)]
    by (intro update_units_one [OF inv])
      (auto simp: this_unit_key distinct_remdups_id unit_checks_def)
  have found: "find_row (this_unit c ?k Sent) (units ?s1) = Some (?g u)"
  proof (rule find_row_key [where key = unit_key])
    have "map unit_key (units ?s1) = map unit_key (units s)"
      by (simp, rule map_update_where) (simp add: unit_key_def)
    then show "distinct (map unit_key (units ?s1))" using inv by (simp add: db_inv_def)
    show "?g u \<in> set (units ?s1)" using u(1) by (auto simp: update_where_def)
    show "this_unit c ?k Sent (?g u)" using u(2) by (simp add: this_unit_def)
    show "unit_key x = unit_key (?g u)" if "this_unit c ?k Sent x" for x
      using that u(2) by (simp add: this_unit_def unit_key_def)
  qed
  have del: "op_delivered r = sent_sum (filter (\<lambda>v. u_ordinal v \<noteq> ?k)
      (attempt_units (operation_id c) (sint (attempt c)) ?s1))"
    by (rule delivered_others [OF inv fl, where g = ?g]) (simp_all add: unit_key_def)
  have pos: "0 < ?m" using ids by (auto simp: message_ids_ok_def)
  have "fst (update_delivery_unit e ?unit ?oper s) \<noteq> Inl Database"
    by (rule keeps_no_error [OF complete_unit_keeps [OF pos] inv st(2)])
  then have res: "?oper ?s1 \<noteq> Inl Database"
    using unit st(2) by (auto simp: update_delivery_unit_def transaction_def)
  let ?p = "\<lambda>r. fenced c ?t1 r \<and> op_status r = Delivering \<and> op_delivered r
      = sent_sum (filter (\<lambda>v. u_ordinal v \<noteq> ?k) (attempt_units (operation_id c) (sint (attempt c)) ?s1))"
  have eq: "?oper ?s1 = update_ops ?p (sent_row (u_count u) ?m ?t1) ?s1"
    by (simp only: sql_complete_delivery_unit_operation_def found option.case) simp
  have "update_ops ?p (sent_row (u_count u) ?m ?t1) ?s1
      = Inr (1, ?s1\<lparr>ops := update_where (\<lambda>x. x = r) (sent_row (u_count u) ?m ?t1) (ops s)\<rparr>)"
  proof (rule update_ops_one [OF inv r(1)])
    show "?p r" using r del by blast
    show "op_id x = op_id r" if "?p x" for x using that r(2) by (simp add: fenced_def)
    show "update_ops ?p (sent_row (u_count u) ?m ?t1) ?s1 \<noteq> Inl Database" using res eq by metis
  qed simp
  with unit eq st(2) show ?thesis
    by (simp only: complete_call [OF ok ids] update_delivery_unit_def transaction_def res_bind.simps
        prod.case if_True if_False not_True_eq_False) simp
qed

lemma complete_unit_false:
  assumes inv: "db_inv s" and ok: "unit_transaction_ok e c k" and ids: "message_ids_ok ids"
    and none: "\<And>r u. unit_in_flight c (uint k) (clock e 1) s r u \<Longrightarrow> u_count u \<noteq> int (length ids)"
  shows "complete_delivery_unit e c k ids s = (Inr False, s)"
proof -
  let ?unit = "sql_complete_delivery_unit c (uint k) (map sint ids) (clock e 0)"
  let ?oper = "sql_complete_delivery_unit_operation c (uint k) (sint (last ids)) (clock e 1)"
  have up: "up e" using ok by (simp add: unit_transaction_ok_def)
  have pos: "0 < sint (last ids)" using ids by (auto simp: message_ids_ok_def)
  note fine = keeps_no_error [OF complete_unit_keeps [OF pos] inv up, of c "uint k" "map sint ids"
      "clock e 0" "clock e 1"]
  show ?thesis
    unfolding complete_call [OF ok ids]
  proof (rule unit_call_cases [OF up fine])
    fix s1 s2 assume h: "?unit s = Inr (1, s1)" "?oper s1 = Inr (1, s2)"
    from update_units_found [OF h(1) [unfolded sql_complete_delivery_unit_def]]
    obtain u where u: "u \<in> set (units s)" "this_unit c (uint k) Sending u"
      "u_count u = int (length ids)" by auto
    from h(2) obtain r where "r \<in> set (ops s1)" "fenced c (clock e 1) r" "op_status r = Delivering"
      by (auto simp: sql_complete_delivery_unit_operation_def dest!: update_ops_found [simplified]
          split: option.splits)
    moreover have "ops s1 = ops s"
      using h(1) by (auto simp: sql_complete_delivery_unit_def update_units_Inr)
    ultimately have "unit_in_flight c (uint k) (clock e 1) s r u"
      using u by (simp add: unit_in_flight_def)
    with none u(3) show "update_delivery_unit e ?unit ?oper s = (Inr False, s)" by blast
  qed (auto simp: sql_complete_delivery_unit_def dest: update_units_Inl complete_operation_Inl)
qed

text \<open>Confirming a unit with its message identifiers takes effect exactly when the claim's
  operation is delivering under a live lease and that unit is being sent with that many
  artifacts. Then the unit is recorded as sent with those identifiers, the operation has
  counted them, and it has succeeded exactly when all planned artifacts are counted, with the
  last identifier and without a lease. Otherwise the answer is false and nothing changes.\<close>

theorem complete_unit_outcome:
  assumes "empty_queue s0" and "(queue_step parse digest)\<^sup>*\<^sup>* s0 s"
    and "unit_transaction_ok e c k" and "message_ids_ok ids"
  shows "if \<exists>r u. unit_in_flight c (uint k) (clock e 1) s r u \<and> u_count u = int (length ids)
    then \<exists>t. complete_delivery_unit e c k ids s = (Inr True, t)
      \<and> (\<exists>u \<in> set (units t). unit_key u = (operation_id c, sint (attempt c), uint k)
          \<and> u_status u = Sent \<and> u_messages u = Some (map sint ids))
      \<and> (\<exists>r \<in> set (ops s). op_id r = operation_id c \<and> (\<exists>r' \<in> set (ops t). op_id r' = op_id r
          \<and> op_delivered r' = op_delivered r + int (length ids)
          \<and> (if op_planned r = Some (op_delivered r + int (length ids))
             then op_status r' = Succeeded \<and> op_message_id r' = Some (sint (last ids)) \<and> unleased r'
             else op_status r' = Delivering \<and> op_token r' = op_token r)))
    else complete_delivery_unit e c k ids s = (Inr False, s)"
proof (cases "\<exists>r u. unit_in_flight c (uint k) (clock e 1) s r u \<and> u_count u = int (length ids)")
  case True
  then obtain r u where fl: "unit_in_flight c (uint k) (clock e 1) s r u"
    "u_count u = int (length ids)" by blast
  have inv: "db_inv s" using assms(1,2) by (rule reachable_inv)
  let ?g = "\<lambda>u. u\<lparr>u_status := Sent, u_messages := Some (map sint ids), u_updated_at := clock e 0\<rparr>"
  let ?f = "sent_row (u_count u) (sint (last ids)) (clock e 1)"
  let ?t = "s\<lparr>units := update_where (\<lambda>x. x = u) ?g (units s), ops := update_where (\<lambda>x. x = r) ?f (ops s)\<rparr>"
  have call: "complete_delivery_unit e c k ids s = (Inr True, ?t)"
    by (rule complete_unit_true [OF inv assms(3,4) fl])
  have "?g u \<in> set (units ?t)" "?f r \<in> set (ops ?t)" "r \<in> set (ops s)" "op_id r = operation_id c"
    using fl by (auto simp: unit_in_flight_def update_where_def fenced_def)
  moreover have "unit_key (?g u) = (operation_id c, sint (attempt c), uint k)"
    using fl by (simp add: unit_in_flight_def this_unit_def unit_key_def)
  moreover have "op_id (?f r) = op_id r" "op_delivered (?f r) = op_delivered r + int (length ids)"
    "if op_planned r = Some (op_delivered r + int (length ids))
     then op_status (?f r) = Succeeded \<and> op_message_id (?f r) = Some (sint (last ids)) \<and> unleased (?f r)
     else op_status (?f r) = Delivering \<and> op_token (?f r) = op_token r"
    by (simp_all add: fl(2) sent_row_def Let_def unleased_def release_def)
  ultimately show ?thesis
    using True call by (simp only: if_True) (rule exI [of _ ?t], fastforce)
next
  case False
  then show ?thesis
    using complete_unit_false [OF reachable_inv [OF assms(1,2)] assms(3,4)] by auto
qed

lemma example_unit_ok: "unit_transaction_ok (example_env 5000000 9) example_claim 0"
  by (simp add: unit_transaction_ok_def worker_ok) (simp add: example_env_def)

lemma example_in_flight:
  "unit_in_flight example_claim 0 5000000 sending_db delivering_row sending_unit"
  using example_fenced(2) [of 5000000]
  by (simp add: unit_in_flight_def sending_ops this_unit_def sending_unit_def example_claim_def)
    (simp add: row_states)

theorem complete_unit_outcome_witness:
  "\<exists>t. complete_delivery_unit (example_env 5000000 9) example_claim 0 [100] sending_db = (Inr True, t)"
proof -
  have ids: "message_ids_ok [100]" by (simp add: message_ids_ok_def)
  have "\<exists>r u. unit_in_flight example_claim (uint (0 :: u32)) (clock (example_env 5000000 9) 1) sending_db r u
      \<and> u_count u = int (length [100 :: i64])"
    using example_in_flight by (intro exI [of _ delivering_row] exI [of _ sending_unit])
      (simp add: example_env_def, simp add: sending_unit_def)
  then show ?thesis
    using complete_unit_outcome [OF empty_db_empty example_reached(4) example_unit_ok ids]
    by (simp only: if_True) blast
qed

end
