(* ===== verification/Admission_Safety.thy ===== *)
theory Admission_Safety
  imports Delivery_Safety
begin

text \<open>
  Admitting twice: a request admitted under an idempotency key is admitted once, whatever
  happens to its operation in between. What a new admission writes, and how the cache key it
  stores relates to the request a worker reads back.
\<close>

section \<open>What the stored request reads as\<close>

lemma stored_request_wf:
  assumes "request_wf parse r" and "pred_option settings_wf (downloader_settings (stored_request s r))"
  shows "request_wf parse (stored_request s r)"
  using assms by (simp add: request_wf_def stored_request_def)

lemma decode_stored_request:
  assumes "request_wf parse r" and "storable r"
    and "pred_option settings_wf (downloader_settings (stored_request s r))"
  shows "decode parse (encode (stored_request s r)) = Inr (stored_request s r)"
  by (rule decode_encode_request_ok [OF stored_request_wf [OF assms(1,3)]])
    (use assms(2) in \<open>simp add: storable_def stored_request_def\<close>)

definition plain :: "download_request \<Rightarrow> download_request" where
  "plain r = r\<lparr>downloader_settings := None, force_nsfw := False\<rparr>"

lemma plain_stored: "plain (stored_request s r) = plain r"
  by (simp add: plain_def stored_request_def)

lemma plain_eq: "downloader_settings r = None \<Longrightarrow> with_force_nsfw False r = plain r"
  by (cases r) (simp add: plain_def with_force_nsfw_def)

lemma plain_cleared: "(with_force_nsfw False r)\<lparr>downloader_settings := None\<rparr> = plain r"
  by (cases r) (simp add: plain_def with_force_nsfw_def)

text \<open>The operation of an actor and a key, and the request it was admitted with.\<close>

definition admitted_as :: "url_parser \<Rightarrow> db \<Rightarrow> uuid \<Rightarrow> u64 \<Rightarrow> string \<Rightarrow> download_request \<Rightarrow> bool" where
  "admitted_as parse s i actor key r \<longleftrightarrow>
     (\<exists>row \<in> set (ops s). op_id row = i \<and> op_actor row = sint actor \<and> op_key row = key
       \<and> (\<exists>stored. decode parse (op_request row) = Inr stored \<and> plain stored = plain r))"

lemma admitted_as_extends:
  assumes "admitted_as parse s i actor key r" and "extends s t"
  shows "admitted_as parse t i actor key r"
proof -
  from assms(1) obtain row stored where row: "row \<in> set (ops s)" "op_id row = i"
    "op_actor row = sint actor" "op_key row = key" "decode parse (op_request row) = Inr stored"
    "plain stored = plain r" by (auto simp: admitted_as_def)
  obtain row' where "row' \<in> set (ops t)" "evolves row row'"
    by (rule extends_row [OF assms(2) row(1)])
  with row show ?thesis
    by (auto simp: admitted_as_def evolves_def same_identity_def intro!: bexI [of _ row'])
qed

lemma admit_existing_row:
  assumes inv: "db_inv s" and row: "row \<in> set (ops s)" "op_actor row = sint actor" "op_key row = key"
  shows "sql_admit_existing actor key s = Some row"
  unfolding sql_admit_existing_def
proof (rule find_row_key [where key = op_unique])
  show "distinct (map op_unique (ops s))" using inv by (simp add: db_inv_def)
qed (use row in \<open>simp_all add: op_unique_def\<close>)

lemma media_key_exists: "\<exists>ck. traverse_option (\<lambda>_. media_cache_key digest r) (target r) = Inr ck"
  by (cases "target r") (simp_all add: media_cache_key_def)

lemma admit_bounded_eq:
  assumes "validate_key key = Inr ()" and "validate_policy policy = Inr ()"
    and "downloader_settings r = None" and "up e"
  obtains ck where "admit_bounded parse digest cfg e r key policy s
      = (case admit_body parse cfg e (plain r) key policy False ck None None s of
           Inl x \<Rightarrow> (Inl x, s) | Inr (a, t) \<Rightarrow> (Inr a, t))"
    "traverse_option (\<lambda>_. media_cache_key digest (plain r)) (target r) = Inr ck"
proof -
  have t: "target (plain r) = target r" by (simp add: plain_def)
  obtain ck where ck: "traverse_option (\<lambda>_. media_cache_key digest (plain r)) (target r) = Inr ck"
    using media_key_exists [of digest "plain r"] by (auto simp: t)
  then show thesis
    by (intro that [OF _ ck])
      (simp add: admit_bounded_def admit_inner_def checked_def transaction_def assms plain_eq t Let_def)
qed

lemma admit_again:
  assumes inv: "db_inv s" and adm: "admitted_as parse s i (actor_id r) key r0"
    and ok: "validate_key key = Inr ()" "validate_policy policy = Inr ()"
      "downloader_settings r = None" "up e"
  shows "admit_bounded parse digest cfg e r key policy s =
    (if plain r = plain r0 then (Inr \<lparr>admitted_id = i, created = False\<rparr>, s) else (Inl Conflict, s))"
proof -
  from adm obtain row stored where row: "row \<in> set (ops s)" "op_id row = i"
    "op_actor row = sint (actor_id r)" "op_key row = key"
    "decode parse (op_request row) = Inr stored" "plain stored = plain r0"
    by (auto simp: admitted_as_def)
  have ex: "sql_admit_existing (actor_id r) key s = Some row"
    by (rule admit_existing_row [OF inv row(1,3,4)])
  obtain ck where call: "admit_bounded parse digest cfg e r key policy s
      = (case admit_body parse cfg e (plain r) key policy False ck None None s of
           Inl x \<Rightarrow> (Inl x, s) | Inr (a, t) \<Rightarrow> (Inr a, t))"
    by (rule admit_bounded_eq [OF ok])
  have "actor_id (plain r) = actor_id r" by (simp add: plain_def)
  then show ?thesis
    by (simp add: call admit_body_def ex replay_existing_def row plain_cleared)
qed

lemma admit_bounded_admits:
  assumes call: "admit_bounded parse digest cfg e r key policy s = (Inr a, t)"
    and wf: "request_wf parse r" "storable r"
  shows "admitted_as parse t (admitted_id a) (actor_id r) key r
    \<and> validate_key key = Inr () \<and> downloader_settings r = None"
proof -
  from call have ok: "validate_key key = Inr ()" "validate_policy policy = Inr ()"
    "downloader_settings r = None" "up e"
    by (auto simp: admit_bounded_def admit_inner_def checked_def transaction_def Let_def
        split: sum.splits if_splits)
  obtain ck where "admit_bounded parse digest cfg e r key policy s
      = (case admit_body parse cfg e (plain r) key policy False ck None None s of
           Inl x \<Rightarrow> (Inl x, s) | Inr (a, t) \<Rightarrow> (Inr a, t))"
    by (rule admit_bounded_eq [OF ok])
  with call have body: "admit_body parse cfg e (plain r) key policy False ck None None s = Inr (a, t)"
    by (auto split: sum.splits)
  have actor: "actor_id (plain r) = actor_id r" by (simp add: plain_def)
  have "admitted_as parse t (admitted_id a) (actor_id r) key r"
  proof (cases "sql_admit_existing (actor_id r) key s")
    case (Some row)
    then have row: "row \<in> set (ops s)" "op_actor row = sint (actor_id r)" "op_key row = key"
      using find_row_Some [of _ "ops s" row] by (auto simp: sql_admit_existing_def)
    from body Some actor obtain stored where "decode parse (op_request row) = Inr stored"
      "plain stored = plain r" "admitted_id a = op_id row" "t = s"
      by (auto simp: admit_body_def replay_existing_def res_bind_Inr_iff plain_cleared split: if_splits)
    with row show ?thesis by (auto simp: admitted_as_def intro!: bexI [of _ row])
  next
    case None
    with body actor have new: "admit_new cfg e (plain r) key policy ck None None s = Inr (a, t)"
      by (simp add: admit_body_def)
    then show ?thesis
    proof (rule admit_new_Inr)
      fix attempts row
      assume h: "row = admitted_row (fresh_id e) (actor_id (plain r)) key
          (encode (stored_request s (plain r))) (uint attempts) (int (as_secs (retry_delay policy)))
          ck (clock e 2)"
        "a = \<lparr>admitted_id = fresh_id e, created = True\<rparr>" "ops t = ops s @ [row]"
        "pred_option settings_wf (downloader_settings (stored_request s (plain r)))"
      have "request_wf parse (plain r)" "storable (plain r)"
        using wf by (simp_all add: request_wf_def plain_def storable_def)
      from decode_stored_request [OF this h(4)] have "decode parse (op_request row)
          = Inr (stored_request s (plain r))"
        by (simp add: h(1) admitted_row_def)
      moreover have "plain (stored_request s (plain r)) = plain r"
        using plain_stored [of s "plain r"] by (simp add: plain_def)
      ultimately show ?thesis
        by (auto simp: admitted_as_def h(2,3)) (auto simp: h(1) admitted_row_def actor)
    qed
  qed
  with ok show ?thesis by blast
qed

section \<open>Idempotency\<close>

text \<open>C30. A request that was admitted is admitted once: whatever calls follow, admitting under the
  same key again answers with the same operation and changes nothing when the request is the
  same, and is refused as a conflict, changing nothing, when it is another one. The limits and
  the configuration may have changed in between, and the operation may have ended.\<close>

theorem admission_idempotent:
  assumes "empty_queue s0" and "(queue_step parse digest)\<^sup>*\<^sup>* s0 s"
    and "request_wf parse r" and "storable r" and "steady e"
    and "admit_bounded parse digest cfg e r key policy s = (Inr a, t)"
    and "(queue_step parse digest)\<^sup>*\<^sup>* t u"
    and "up e'" and "validate_policy policy' = Inr ()"
    and "actor_id r' = actor_id r" and "downloader_settings r' = None"
  shows "admit_bounded parse digest cfg' e' r' key policy' u =
    (if with_force_nsfw False r' = with_force_nsfw False r
     then (Inr \<lparr>admitted_id = admitted_id a, created = False\<rparr>, u) else (Inl Conflict, u))"
proof -
  note adm = admit_bounded_admits [OF assms(6,3,4)]
  have "queue_step parse digest s t"
    using queue_step.call [OF assms(5), of parse digest s "Admit cfg r key policy False None None"]
      assms(6) by (simp add: admit_bounded_def)
  then have inv: "db_inv u" using assms(1,2,7) reachable_inv by (metis rtranclp.rtrancl_into_rtrancl rtranclp_trans)
  have "admitted_as parse u (admitted_id a) (actor_id r') key r"
    using adm admitted_as_extends [OF _ steps_extend [OF assms(7)]] assms(10) by simp
  from admit_again [OF inv this _ assms(9,11,8)] adm show ?thesis
    by (simp add: plain_eq assms(11))
qed

theorem admission_idempotent_witness:
  "admit_bounded example_parser example_digest example_config (example_env 9000000 9) example_request
     ''k'' example_policy cancelled_db
   = (Inr \<lparr>admitted_id = 7, created = False\<rparr>, cancelled_db)"
proof -
  have call: "admit_bounded example_parser example_digest example_config (example_env 1000000 7)
      example_request ''k'' example_policy empty_db = (Inr \<lparr>admitted_id = 7, created = True\<rparr>, admitted_db)"
    by (simp add: admit_bounded_def admitted_call admitted_ops)
  have st: "storable example_request" by (simp add: storable_def example_request_def)
  have v: "validate_policy example_policy = Inr ()"
    by (simp add: validate_policy_def example_policy_def duration_le_def secs_def)
  have up: "up (example_env 9000000 9)" by (simp add: example_env_def)
  have ds: "downloader_settings example_request = None" by (simp add: example_request_def)
  show ?thesis
    using admission_idempotent [OF empty_db_empty rtranclp.rtrancl_refl example_request_wf st
        steady_example call cancelled_reached(3) up v refl ds] by simp
qed

section \<open>A new admission\<close>

lemma put_deferred_marks: "put_deferred a t m mode s = Inr u \<Longrightarrow> nsfw_marks u = nsfw_marks s"
  by (auto simp: put_deferred_def Let_def split: if_splits)

lemma admit_new_marks:
  assumes "admit_new cfg e r key policy ck now tg s = Inr (a, t)"
  shows "nsfw_marks t = filter (\<lambda>m. m \<noteq> sint (actor_id r)) (nsfw_marks s)"
proof -
  have ins: "sql_admit_insert row x = Inr y \<Longrightarrow> nsfw_marks y = nsfw_marks x" for row x y
    by (auto simp: sql_admit_insert_def split: if_splits)
  have reg: "sql_register_input_cleanup i k x = Inr y \<Longrightarrow> nsfw_marks y = nsfw_marks x" for i k x y
    by (auto simp: sql_register_input_cleanup_def split: option.splits if_splits)
  have fin: "finish_telegram r i tg x = Inr y \<Longrightarrow> nsfw_marks y = nsfw_marks x" for r i x y
    by (auto simp: finish_telegram_def res_bind_Inr_iff sql_telegram_media_intent_insert_def
        dest!: put_deferred_marks split: option.splits if_splits)
  from assms obtain r1 p1 q1 where st: "admission_settings r policy (store_quota_limits cfg) s
      = Inr (r1, p1, q1)"
    by (auto simp: admit_new_def res_bind_Inr_iff)
  then have actor: "actor_id r1 = actor_id r"
    by (rule admission_settings_Inr) simp
  from assms st obtain t0 s1 s3 s4 row where h:
    "charge (actor_id r1) q1 (quota_owner_id cfg) t0 s = Inr s1"
    "sql_admit_insert row (snd (sql_nsfw_mark_consume (actor_id r1) s1)) = Inr s3"
    "sql_register_input_cleanup (fresh_id e) (clock e 3) s3 = Inr s4"
    "finish_telegram r1 (fresh_id e) tg s4 = Inr t"
    by (auto simp: admit_new_def res_bind_Inr_iff Let_def case_prod_unfold split: if_splits)
  then show ?thesis
    using charge_marks [OF h(1)] ins [OF h(2)] reg [OF h(3)] fin [OF h(4)]
    by (simp add: sql_nsfw_mark_consume_def actor)
qed

lemma admit_inner_created:
  assumes "admit_inner parse digest cfg e r key policy preserve now tg s = (Inr a, t)" and "created a"
  obtains ck where "admit_new cfg e (with_force_nsfw False r) key policy ck now tg s = Inr (a, t)"
    "traverse_option (\<lambda>_. media_cache_key digest (with_force_nsfw False r)) (target r) = Inr ck"
    "downloader_settings r = None"
proof (cases rule: admit_inner_cases [of parse digest cfg e r key policy preserve now tg s])
  case (1 x)
  with assms(1) show thesis by simp
next
  case (2 b s' ck)
  with assms(1) have body: "admit_body parse cfg e (with_force_nsfw False r) key policy preserve ck now
      tg s = Inr (a, t)" by simp
  have "admit_new cfg e (with_force_nsfw False r) key policy ck now tg s = Inr (a, t)"
    using body assms(2)
    by (auto simp: admit_body_def res_bind_Inr_iff replay_existing_def split: option.splits if_splits)
  with 2 show thesis by (intro that)
qed

text \<open>An admission that creates an operation adds exactly one row, waiting at attempt zero under
  the caller's key, with an identifier and a key no other row has, while fewer operations
  were pending than each limit of the policy allows. The stored request is the one asked for,
  classified by the actor's pending mark, which this admission uses up, and carrying the
  runtime settings in force.\<close>

theorem new_admission:
  assumes "admit_inner parse digest cfg e r key policy preserve now tg s = (Inr a, t)" and "created a"
  shows "\<exists>row. ops t = ops s @ [row] \<and> units t = units s
    \<and> op_id row = admitted_id a \<and> op_actor row = sint (actor_id r) \<and> op_key row = key
    \<and> op_status row = Queued \<and> op_attempt row = 0 \<and> unleased row
    \<and> op_id row \<notin> op_id ` set (ops s) \<and> (op_actor row, op_key row) \<notin> op_unique ` set (ops s)
    \<and> int (pending_count s) < uint (max_pending_global policy)
    \<and> int (pending_actor_count (actor_id r) s) < uint (max_pending_actor policy)
    \<and> op_request row = encode (r\<lparr>downloader_settings := downloader_settings (stored_request s r),
        force_nsfw := sint (actor_id r) \<in> set (nsfw_marks s)\<rparr>)
    \<and> nsfw_marks t = filter (\<lambda>m. m \<noteq> sint (actor_id r)) (nsfw_marks s)"
proof -
  obtain ck where new: "admit_new cfg e (with_force_nsfw False r) key policy ck now tg s = Inr (a, t)"
    by (rule admit_inner_created [OF assms])
  have r: "actor_id (with_force_nsfw False r) = actor_id r"
    "stored_request s (with_force_nsfw False r) = stored_request s r"
    by (simp_all add: with_force_nsfw_def stored_request_def)
  show ?thesis
    using new
  proof (rule admit_new_Inr)
    fix attempts row
    assume h: "row = admitted_row (fresh_id e) (actor_id (with_force_nsfw False r)) key
        (encode (stored_request s (with_force_nsfw False r))) (uint attempts)
        (int (as_secs (retry_delay policy))) ck (clock e 2)"
      "a = \<lparr>admitted_id = fresh_id e, created = True\<rparr>" "ops t = ops s @ [row]" "units t = units s"
      "op_id row \<notin> op_id ` set (ops s)" "op_unique row \<notin> op_unique ` set (ops s)"
      "int (pending_count s) < uint (max_pending_global policy)"
      "int (pending_actor_count (actor_id (with_force_nsfw False r)) s) < uint (max_pending_actor policy)"
    have "op_request row = encode (stored_request s r)" "op_id row = admitted_id a"
      "op_actor row = sint (actor_id r)" "op_key row = key" "op_status row = Queued"
      "op_attempt row = 0" "unleased row"
      by (simp_all add: h(1,2) admitted_row_def r unleased_def)
    with h(3-8) admit_new_marks [OF new] show ?thesis
      by (intro exI [of _ row]) (simp add: r op_unique_def, simp add: stored_request_def)
  qed
qed

theorem new_admission_witness:
  "\<exists>row. ops admitted_db = ops empty_db @ [row] \<and> op_status row = Queued"
proof -
  have "created \<lparr>admitted_id = 7, created = True\<rparr>" by simp
  from new_admission [OF admitted_call [folded admitted_ops] this] show ?thesis by blast
qed

section \<open>The cache key of an admission\<close>

lemma material_same_iff:
  assumes "downloader_settings r = None"
  shows "cache_material_of x (with_force_nsfw False r) = cache_material_of x (stored_request s r)
    \<longleftrightarrow> downloader_settings (stored_request s r) = None"
proof -
  define d where "d = downloader_settings (stored_request s r)"
  have r: "stored_request s r = r\<lparr>downloader_settings := d, force_nsfw := force_nsfw (stored_request s r)\<rparr>"
    by (simp add: d_def stored_request_def)
  show ?thesis
    by (subst (1 2) r, cases d)
      (simp_all add: cache_material_of_def Let_def encode_def with_force_nsfw_def assms)
qed

text \<open>C37. The cache key stored with a new operation is the key a worker computes from the request of
  its claim exactly when no runtime download limit was in force at the admission: the stored
  key is computed before the settings are put into the request, and the settings are hashed.\<close>

theorem admitted_cache_key:
  assumes "admit_inner parse digest cfg e r key policy preserve now tg s = (Inr a, t)" and "created a"
    and "request_wf parse r" and "storable r" and "target r = Some x"
    and "no_collision digest {cache_material_of x (with_force_nsfw False r),
           cache_material_of x (stored_request s r)}"
  shows "\<exists>row req k. ops t = ops s @ [row] \<and> op_cache_key row = Some k
    \<and> decode parse (op_request row) = Inr req
    \<and> downloader_settings req = downloader_settings (stored_request s r)
    \<and> (media_cache_key digest req = Inr k \<longleftrightarrow> downloader_settings req = None)"
proof -
  obtain ck where new: "admit_new cfg e (with_force_nsfw False r) key policy ck now tg s = Inr (a, t)"
    and ck: "traverse_option (\<lambda>_. media_cache_key digest (with_force_nsfw False r)) (target r) = Inr ck"
    and none: "downloader_settings r = None"
    by (rule admit_inner_created [OF assms(1,2)])
  have same: "stored_request s (with_force_nsfw False r) = stored_request s r"
    "target (with_force_nsfw False r) = Some x" "target (stored_request s r) = Some x"
    using assms(5) by (simp_all add: with_force_nsfw_def stored_request_def)
  let ?k = "''v1:'' @ digest (cache_material_of x (with_force_nsfw False r))"
  have k: "ck = Some ?k" using ck assms(5) by (auto simp: media_cache_key_def same)
  show ?thesis
    using new
  proof (rule admit_new_Inr)
    fix attempts row
    assume h: "row = admitted_row (fresh_id e) (actor_id (with_force_nsfw False r)) key
        (encode (stored_request s (with_force_nsfw False r))) (uint attempts)
        (int (as_secs (retry_delay policy))) ck (clock e 2)"
      "ops t = ops s @ [row]"
      "pred_option settings_wf (downloader_settings (stored_request s (with_force_nsfw False r)))"
    have "decode parse (op_request row) = Inr (stored_request s r)"
      using decode_stored_request [OF assms(3,4)] h(3) by (simp add: h(1) admitted_row_def same)
    moreover have "op_cache_key row = Some ?k" by (simp add: h(1) admitted_row_def k)
    moreover have "media_cache_key digest (stored_request s r) = Inr ?k
        \<longleftrightarrow> downloader_settings (stored_request s r) = None"
    proof -
      have "digest (cache_material_of x (stored_request s r))
          = digest (cache_material_of x (with_force_nsfw False r))
        \<longleftrightarrow> cache_material_of x (stored_request s r) = cache_material_of x (with_force_nsfw False r)"
        by (rule inj_on_eq_iff [OF assms(6) [unfolded no_collision_def]]) simp_all
      with material_same_iff [OF none, of x s] show ?thesis
        by (auto simp: media_cache_key_def same)
    qed
    ultimately show ?thesis
      using h(2) by (intro exI [of _ row] exI [of _ "stored_request s r"] exI [of _ ?k]) simp
  qed
qed

definition example_target :: delivery_target where
  "example_target = \<lparr>bot_id = 5, chat_id = 42, thread_id = None, reply_to_message_id = None\<rparr>"

definition targeted_request :: download_request where
  "targeted_request = example_request\<lparr>target := Some example_target\<rparr>"

definition limited_request :: download_request where
  "limited_request = targeted_request\<lparr>downloader_settings :=
     Some (downloader_settings_default\<lparr>max_file_size_mb := 1024\<rparr>)\<rparr>"

definition limited_db :: db where
  "limited_db = empty_db\<lparr>bot_settings := [(''dl.max_file_size_gb'', Some ''1'')]\<rparr>"

definition telling_digest :: digester where
  "telling_digest m =
     replicate 64 (if rd_downloader_settings (cm_request m) = None then CHR ''0'' else CHR ''1'')"

lemma targeted_wf: "request_wf example_parser targeted_request" "storable targeted_request"
proof -
  have "target_wf example_target" by (simp add: target_wf_def delivery_target_new_def example_target_def)
  moreover have "own_chat 42 example_target" by (simp add: own_chat_def example_target_def)
  ultimately show "request_wf example_parser targeted_request"
    using example_request_wf by (simp add: request_wf_def targeted_request_def)
      (simp add: example_request_def)
  show "storable targeted_request"
    by (simp add: storable_def targeted_request_def example_request_def)
qed

lemma limited_settings: "settings_of limited_db = Inr example_values"
proof -
  have "settings_key ''dl.max_file_size_gb''"
    by (simp add: settings_key_def to_ascii_lowercase_def byte_class_defs byte_def)
  then show ?thesis
    by (auto simp: settings_of_def limited_db_def example_values_def fun_eq_iff)
qed

lemma limited_stored: "stored_request limited_db targeted_request = limited_request"
  by (simp add: stored_request_def limited_settings example_settings settings_active_def)
    (simp add: example_values_def limited_request_def limited_db_def empty_db_def
      targeted_request_def example_request_def)

lemma limited_admission:
  "\<exists>t. admit_inner example_parser telling_digest example_config (example_env 1000000 7)
     targeted_request ''k'' example_policy False None None limited_db
   = (Inr \<lparr>admitted_id = 7, created = True\<rparr>, t)"
proof -
  let ?e = "example_env 1000000 7"
  let ?x = "downloader_settings_default\<lparr>max_file_size_mb := 1024\<rparr>"
  define K where "K = ''v1:'' @ telling_digest (cache_material_of example_target targeted_request)"
  let ?row = "admitted_row 7 42 ''k'' (encode limited_request) 3 0 (Some K) 1000000"
  have valid: "settings_validate ?x = Inr ?x"
    by (simp add: settings_validate_def downloader_settings_default_def rate_limit_ok_def)
  have "settings_active example_values" by (simp add: settings_active_def example_values_def)
  then have adm: "admission_settings targeted_request example_policy (store_quota_limits example_config)
      limited_db = Inr (limited_request, example_policy, quota_limits_default)"
    by (simp add: admission_settings_def limited_settings example_settings overridden_def Let_def
        with_downloader_settings_def valid)
      (simp add: example_values_def limited_request_def targeted_request_def example_request_def
        example_config_def download_params_default_def)
  have charge: "charge 42 quota_limits_default (Some 42) t s = Inr s" for t s
    by (simp add: charge_def quota_limits_validate_def quota_limits_default_def)
  have none: "pending_count limited_db = 0" "pending_actor_count a limited_db = 0"
    "sql_nsfw_mark_consume a limited_db = (False, limited_db)" "sql_admit_existing a k limited_db = None"
    for a k
    by (simp_all add: pending_count_def pending_actor_count_def count_where_def empty_db_def limited_db_def
        sql_nsfw_mark_consume_def sql_admit_existing_def find_row_def)
  have forced: "with_force_nsfw False limited_request = limited_request"
    "with_force_nsfw False targeted_request = targeted_request"
    by (simp_all add: with_force_nsfw_def limited_request_def targeted_request_def example_request_def)
  have key: "cache_key_check K"
    by (auto simp: K_def cache_key_check_def telling_digest_def list_all_iff byte_class_defs byte_def)
  have req: "actor_id targeted_request = 42" "actor_id limited_request = 42"
    "target targeted_request = Some example_target" "downloader_settings targeted_request = None"
    by (simp_all add: limited_request_def targeted_request_def example_request_def)
  have "op_checks ?row" using key by (simp add: op_checks_def admitted_row_def unleased_def)
  then have ins: "sql_admit_insert ?row limited_db = Inr (limited_db\<lparr>ops := [?row]\<rparr>)"
    by (simp add: sql_admit_insert_def limited_db_def empty_db_def)
  have reg: "sql_register_input_cleanup 7 t (limited_db\<lparr>ops := [?row]\<rparr>) = Inr (limited_db\<lparr>ops := [?row]\<rparr>)"
    for t
    by (simp add: sql_register_input_cleanup_def find_row_def admitted_row_def input_notice_def
        encode_def limited_request_def targeted_request_def example_target_def)
  have new: "admit_new example_config ?e targeted_request ''k'' example_policy (Some K) None None limited_db
      = Inr (\<lparr>admitted_id = 7, created = True\<rparr>, limited_db\<lparr>ops := [?row]\<rparr>)"
    by (simp add: admit_new_def adm charge none forced req)
      (simp add: example_policy_def example_env_def example_config_def secs_def ins reg
        charge none forced finish_telegram_def)
  have v: "validate_key ''k'' = Inr ()" "validate_policy example_policy = Inr ()"
    by (simp_all add: validate_key_def byte_def is_ascii_def is_ascii_control_def validate_policy_def
        example_policy_def duration_le_def secs_def)
  have up: "up ?e" by (simp add: example_env_def)
  show ?thesis
    by (simp add: admit_inner_def checked_def transaction_def v forced none req up admit_body_def
        media_cache_key_def K_def [symmetric, simplified] new)
qed

theorem admitted_cache_key_witness:
  "\<exists>(row :: op_row) req k. op_cache_key row = Some k \<and> decode example_parser (op_request row) = Inr req
     \<and> media_cache_key telling_digest req \<noteq> Inr k"
proof -
  obtain t where t: "admit_inner example_parser telling_digest example_config (example_env 1000000 7)
      targeted_request ''k'' example_policy False None None limited_db
    = (Inr \<lparr>admitted_id = 7, created = True\<rparr>, t)"
    using limited_admission by blast
  have c: "created \<lparr>admitted_id = 7, created = True\<rparr>" by simp
  have tg: "target targeted_request = Some example_target" by (simp add: targeted_request_def)
  have "no_collision telling_digest {cache_material_of example_target (with_force_nsfw False targeted_request),
      cache_material_of example_target (stored_request limited_db targeted_request)}"
    unfolding limited_stored no_collision_def inj_on_insert
    by (simp add: telling_digest_def cache_material_of_def Let_def encode_def limited_request_def
        targeted_request_def example_request_def with_force_nsfw_def)
  from admitted_cache_key [OF t c targeted_wf tg this]
  obtain row :: op_row and req k where "op_cache_key row = Some k" "decode example_parser (op_request row) = Inr req"
    "downloader_settings req = downloader_settings limited_request"
    "media_cache_key telling_digest req = Inr k \<longleftrightarrow> downloader_settings req = None"
    unfolding limited_stored by (elim exE conjE) (rule that; assumption)
  moreover have "downloader_settings limited_request \<noteq> None" by (simp add: limited_request_def)
  ultimately show ?thesis by (intro exI conjI) simp_all
qed

end
