(* ===== verification/Media.thy ===== *)
theory Media
  imports Json
begin

text \<open>
  Cached media and the extractor's prose of \<open>backend/crates/yoink-domain/src/cache.rs\<close> and
  \<open>content.rs\<close>, with the JSON form that \<open>serde\<close> derives for the prose.
\<close>

section \<open>Content metadata\<close>

record content_metadata =
  md_title :: string
  md_description :: string
  md_tags :: "string list"
  md_categories :: "string list"

definition metadata_valid :: "content_metadata \<Rightarrow> bool" where
  "metadata_valid m \<longleftrightarrow>
     chars_count (md_title m) \<le> 2000 \<and> chars_count (md_description m) \<le> 2000
     \<and> list_all (\<lambda>l. length l \<le> 100 \<and> list_all (\<lambda>s. chars_count s \<le> 128) l)
         [md_tags m, md_categories m]"

fun join_with :: "string \<Rightarrow> string list \<Rightarrow> string" where
  "join_with sep [] = []"
| "join_with sep [x] = x"
| "join_with sep (x # y # xs) = x @ sep @ join_with sep (y # xs)"

definition metadata_prose :: "content_metadata \<Rightarrow> string" where
  "metadata_prose m =
     md_title m @ '' '' @ md_description m @ '' '' @ join_with '' '' (md_tags m) @ '' ''
     @ join_with '' '' (md_categories m)"

text \<open>The derived \<open>Serialize\<close>, in the order of the keys of a \<open>BTreeMap\<close>, and the derived
  \<open>Deserialize\<close> with \<open>deny_unknown_fields\<close>, which also reads the fields of a sequence in order.\<close>

definition metadata_json :: "content_metadata \<Rightarrow> json" where
  "metadata_json m =
     JObject [(''categories'', JArray (map JString (md_categories m))),
              (''description'', JString (md_description m)),
              (''tags'', JArray (map JString (md_tags m))),
              (''title'', JString (md_title m))]"

definition json_strings :: "json \<Rightarrow> string list option" where
  "json_strings v =
     (case as_array v of None \<Rightarrow> None
      | Some xs \<Rightarrow> if list_all (\<lambda>x. as_str x \<noteq> None) xs then Some (map (\<lambda>x. the (as_str x)) xs)
                   else None)"

definition metadata_of_fields :: "json \<Rightarrow> json \<Rightarrow> json \<Rightarrow> json \<Rightarrow> content_metadata option" where
  "metadata_of_fields title description tags categories =
     (case (as_str title, as_str description, json_strings tags, json_strings categories) of
        (Some t, Some d, Some ts, Some cs) \<Rightarrow>
          Some \<lparr>md_title = t, md_description = d, md_tags = ts, md_categories = cs\<rparr>
      | _ \<Rightarrow> None)"

definition metadata_of_json :: "json \<Rightarrow> content_metadata option" where
  "metadata_of_json v =
     (case v of
        JArray [t, d, ts, cs] \<Rightarrow> metadata_of_fields t d ts cs
      | JObject fs \<Rightarrow>
          if list_ex (\<lambda>kv. fst kv \<notin> {''title'', ''description'', ''tags'', ''categories''}) fs then None
          else (case (map_of fs ''title'', map_of fs ''description'', map_of fs ''tags'',
                      map_of fs ''categories'') of
                  (Some t, Some d, Some ts, Some cs) \<Rightarrow> metadata_of_fields t d ts cs
                | _ \<Rightarrow> None)
      | _ \<Rightarrow> None)"

section \<open>Cached media\<close>

datatype cached_media_kind = Photo | VideoMedia | AudioMedia | Document

datatype cached_media_error = InvalidMetadata | InvalidFileId | InvalidSize

record cached_media =
  cm_kind :: cached_media_kind
  cm_file_id :: string
  cm_size_bytes :: u64
  cm_metadata :: "content_metadata option"

definition file_id_byte :: "char \<Rightarrow> bool" where
  "file_id_byte c \<longleftrightarrow> is_ascii_alphanumeric c \<or> c \<in> {CHR ''_'', CHR ''-'', CHR ''=''}"

definition cached_media_new ::
  "cached_media_kind \<Rightarrow> string \<Rightarrow> u64 \<Rightarrow> cached_media_error + cached_media" where
  "cached_media_new kind file_id size_bytes =
     (if file_id = [] \<or> length file_id > 4096 \<or> \<not> list_all file_id_byte file_id then Inl InvalidFileId
      else if size_bytes = 0 \<or> size_bytes > 2 * 1024 * 1024 * 1024 then Inl InvalidSize
      else Inr \<lparr>cm_kind = kind, cm_file_id = file_id, cm_size_bytes = size_bytes, cm_metadata = None\<rparr>)"

definition with_metadata :: "content_metadata \<Rightarrow> cached_media \<Rightarrow> cached_media_error + cached_media" where
  "with_metadata m x =
     (if \<not> metadata_valid m then Inl InvalidMetadata else Inr (x\<lparr>cm_metadata := Some m\<rparr>))"

text \<open>What the constructors establish: the only way the code makes a value.\<close>

definition media_wf :: "cached_media \<Rightarrow> bool" where
  "media_wf x \<longleftrightarrow>
     cached_media_new (cm_kind x) (cm_file_id x) (cm_size_bytes x) = Inr (x\<lparr>cm_metadata := None\<rparr>)
     \<and> pred_option metadata_valid (cm_metadata x)"

lemma cached_media_new_wf: "cached_media_new k f n = Inr x \<Longrightarrow> media_wf x"
  by (auto simp: cached_media_new_def media_wf_def split: if_splits)

lemma with_metadata_wf: "with_metadata m x = Inr y \<Longrightarrow> media_wf x \<Longrightarrow> media_wf y"
  by (auto simp: with_metadata_def media_wf_def split: if_splits)

lemma json_strings_map [simp]: "json_strings (JArray (map JString xs)) = Some xs"
  by (simp add: json_strings_def list_all_iff comp_def)

lemma metadata_json_roundtrip: "metadata_of_json (metadata_json m) = Some m"
  by (simp add: metadata_of_json_def metadata_json_def metadata_of_fields_def)

end
