(* ===== verification/Media_Cache.thy ===== *)
theory Media_Cache
  imports Admission Delivery Media
begin

text \<open>
  The media cache of \<open>backend/crates/yoink-storage/src/cache.rs\<close>: looking a request up,
  publishing what a finished operation delivered, dropping a revision, and clearing a source
  with a message watermark. A definition named \<open>sql_<file>\<close> is the statement of
  \<open>sql/<file>.sql\<close>.
\<close>

section \<open>The stored form of a batch\<close>

record cached_batch =
  batch_revision :: uuid
  batch_media :: "cached_media list"

definition max_items_json_bytes :: nat where
  "max_items_json_bytes = 512000"

fun kind_label :: "cached_media_kind \<Rightarrow> string" where
  "kind_label Photo = ''photo''" | "kind_label VideoMedia = ''video''"
| "kind_label AudioMedia = ''audio''" | "kind_label Document = ''document''"

definition kind_of_label :: "string \<Rightarrow> store_error + cached_media_kind" where
  "kind_of_label s =
     (if s = ''photo'' then Inr Photo else if s = ''video'' then Inr VideoMedia
      else if s = ''audio'' then Inr AudioMedia else if s = ''document'' then Inr Document
      else Inl InvalidStoredData)"

definition media_item :: "cached_media \<Rightarrow> json" where
  "media_item x =
     JObject [(''file_id'', JString (cm_file_id x)), (''kind'', JString (kind_label (cm_kind x))),
              (''metadata'', case cm_metadata x of None \<Rightarrow> JNull | Some m \<Rightarrow> metadata_json m),
              (''size_bytes'', JPosInt (cm_size_bytes x))]"

definition encode_media :: "cached_media list \<Rightarrow> store_error + json" where
  "encode_media media =
     (if \<not> (1 \<le> length media \<and> length media \<le> 100) then Inl InvalidInput
      else let v = JArray (map media_item media) in
        if length (json_text v) > max_items_json_bytes then Inl InvalidInput else Inr v)"

definition json_field ::
  "(string \<times> json) list \<Rightarrow> string \<Rightarrow> (json \<Rightarrow> 'a option) \<Rightarrow> store_error + 'a" where
  "json_field fs k f = ok_or InvalidStoredData (Option.bind (map_of fs k) f)"

definition decode_item :: "json \<Rightarrow> store_error + cached_media" where
  "decode_item v =
     res_bind (ok_or InvalidStoredData (as_object v)) (\<lambda>fs.
       if (length fs \<noteq> 3 \<and> length fs \<noteq> 4)
          \<or> list_ex (\<lambda>kv. fst kv \<notin> {''kind'', ''file_id'', ''size_bytes'', ''metadata''}) fs
       then Inl InvalidStoredData
       else
         res_bind (res_bind (json_field fs ''kind'' as_str) kind_of_label) (\<lambda>kind.
         res_bind (json_field fs ''file_id'' as_str) (\<lambda>file_id.
         res_bind (json_field fs ''size_bytes'' as_u64) (\<lambda>size_bytes.
         res_bind (map_err InvalidStoredData (cached_media_new kind file_id size_bytes)) (\<lambda>media.
           case map_of fs ''metadata'' of
             None \<Rightarrow> Inr media
           | Some JNull \<Rightarrow> Inr media
           | Some m \<Rightarrow>
               res_bind (ok_or InvalidStoredData (metadata_of_json m)) (\<lambda>m.
                 map_err InvalidStoredData (with_metadata m media)))))))"

definition decode_media :: "json \<Rightarrow> store_error + cached_media list" where
  "decode_media v =
     (if length (json_text v) > max_items_json_bytes then Inl InvalidStoredData
      else res_bind (ok_or InvalidStoredData (as_array v)) (\<lambda>values.
        if \<not> (1 \<le> length values \<and> length values \<le> 100) then Inl InvalidStoredData
        else traverse_list decode_item values))"

section \<open>Looking up and dropping\<close>

definition cache_at :: "int \<Rightarrow> int \<Rightarrow> string \<Rightarrow> cache_row \<Rightarrow> bool" where
  "cache_at actor b key m \<longleftrightarrow> c_actor m = actor \<and> c_bot m = b \<and> c_key m = key"

definition i64_of_u64 :: "u64 \<Rightarrow> store_error + int" where
  "i64_of_u64 n = (if n > i64_max then Inl InvalidInput else Inr (uint n))"

definition sql_lookup_media_cache :: "int \<Rightarrow> int \<Rightarrow> string \<Rightarrow> int \<Rightarrow> db \<Rightarrow> cache_row option" where
  "sql_lookup_media_cache actor b key now s =
     find_row (\<lambda>m. cache_at actor b key m \<and> now < c_expires_at m
       \<and> length (json_text (c_media m)) \<le> max_items_json_bytes) (media_cache s)"

definition lookup_media_cache ::
  "digester \<Rightarrow> env \<Rightarrow> download_request \<Rightarrow> db \<Rightarrow> store_error + cached_batch option" where
  "lookup_media_cache digest e r s =
     res_bind (ok_or InvalidInput (target r)) (\<lambda>t.
     res_bind (media_cache_key digest r) (\<lambda>key.
     res_bind (i64_of_u64 (actor_id r)) (\<lambda>actor.
       if \<not> up e then Inl Database
       else (case sql_lookup_media_cache actor (sint (bot_id t)) key (clock e 0) s of
               None \<Rightarrow> Inr None
             | Some m \<Rightarrow>
                 res_bind (decode_media (c_media m)) (\<lambda>media.
                   Inr (Some \<lparr>batch_revision = c_revision m, batch_media = media\<rparr>))))))"

text \<open>\<open>DELETE\<close> with \<open>SELECT changes()\<close>.\<close>

definition delete_cache :: "(cache_row \<Rightarrow> bool) \<Rightarrow> db \<Rightarrow> nat \<times> db" where
  "delete_cache p s =
     (count_where p (media_cache s), s\<lparr>media_cache := filter (\<lambda>m. \<not> p m) (media_cache s)\<rparr>)"

definition sql_invalidate_media_cache :: "int \<Rightarrow> int \<Rightarrow> string \<Rightarrow> uuid \<Rightarrow> db \<Rightarrow> nat \<times> db" where
  "sql_invalidate_media_cache actor b key revision =
     delete_cache (\<lambda>m. cache_at actor b key m \<and> c_revision m = revision)"

definition invalidate_media_cache ::
  "digester \<Rightarrow> env \<Rightarrow> download_request \<Rightarrow> uuid \<Rightarrow> db \<Rightarrow> bool outcome" where
  "invalidate_media_cache digest e r revision s =
     (case res_bind (ok_or InvalidInput (target r)) (\<lambda>t.
             res_bind (media_cache_key digest r) (\<lambda>key. Inr (t, key))) of
        Inl x \<Rightarrow> (Inl x, s)
      | Inr (t, key) \<Rightarrow>
          transaction e (\<lambda>s.
            res_bind (i64_of_u64 (actor_id r)) (\<lambda>actor.
              let (n, s) = sql_invalidate_media_cache actor (sint (bot_id t)) key revision s in
              Inr (n = 1, s))) s)"

section \<open>Publishing\<close>

text \<open>The guard the two statements of a publication share.\<close>

definition publishable ::
  "claim \<Rightarrow> int \<Rightarrow> int \<Rightarrow> string \<Rightarrow> int \<Rightarrow> request_data \<Rightarrow> db \<Rightarrow> op_row \<Rightarrow> bool" where
  "publishable c actor b key n data s r \<longleftrightarrow>
     op_id r = operation_id c \<and> op_attempt r = sint (attempt c) \<and> op_status r = Succeeded
     \<and> op_actor r = actor \<and> uint (rd_actor_id (op_request r)) = actor
     \<and> request_bot r = Some b \<and> op_planned r = Some n \<and> op_delivered r = n
     \<and> \<not> op_cancel_requested r \<and> 1 \<le> n \<and> n \<le> 100
     \<and> \<not> list_ex (\<lambda>u. u_status u \<noteq> Sent) (attempt_units (op_id r) (op_attempt r) s)
     \<and> sent_sum (attempt_units (op_id r) (op_attempt r) s) = n
     \<and> op_request r = data \<and> op_cache_key r = Some key"

definition sql_publish_media_cache_eligible ::
  "claim \<Rightarrow> int \<Rightarrow> int \<Rightarrow> string \<Rightarrow> int \<Rightarrow> request_data \<Rightarrow> db \<Rightarrow> bool" where
  "sql_publish_media_cache_eligible c actor b key n data s \<longleftrightarrow>
     list_ex (publishable c actor b key n data s) (ops s)"

definition sql_publish_media_cache_prune_select ::
  "int \<Rightarrow> int \<Rightarrow> string \<Rightarrow> int \<Rightarrow> db \<Rightarrow> cache_row list" where
  "sql_publish_media_cache_prune_select actor b key now s =
     order_limit c_expires_at 32
       (filter (\<lambda>m. c_expires_at m \<le> now \<and> \<not> cache_at actor b key m) (media_cache s))"

definition sql_publish_media_cache_prune_delete :: "int \<Rightarrow> int \<Rightarrow> string \<Rightarrow> int \<Rightarrow> db \<Rightarrow> db" where
  "sql_publish_media_cache_prune_delete actor b key now s =
     snd (delete_cache (\<lambda>m. cache_at actor b key m \<and> c_expires_at m \<le> now) s)"

fun prune_media_cache :: "(nat \<Rightarrow> int) \<Rightarrow> nat \<Rightarrow> cache_row list \<Rightarrow> db \<Rightarrow> db" where
  "prune_media_cache clk k [] s = s"
| "prune_media_cache clk k (m # ms) s =
     prune_media_cache clk (Suc k) ms
       (sql_publish_media_cache_prune_delete (c_actor m) (c_bot m) (c_key m) (clk k) s)"

definition cache_row_checks :: "cache_row \<Rightarrow> bool" where
  "cache_row_checks m \<longleftrightarrow>
     0 < c_actor m \<and> 0 < c_bot m \<and> cache_key_check (c_key m)
     \<and> (case as_array (c_media m) of None \<Rightarrow> False
        | Some xs \<Rightarrow> 1 \<le> length xs \<and> length xs \<le> 100)
     \<and> length (json_text (c_media m)) \<le> max_items_json_bytes"

definition sql_publish_media_cache ::
  "claim \<Rightarrow> int \<Rightarrow> int \<Rightarrow> string \<Rightarrow> int \<Rightarrow> uuid \<Rightarrow> json \<Rightarrow> nat \<Rightarrow> request_data \<Rightarrow> int \<Rightarrow> db
    \<Rightarrow> store_error + bool \<times> db" where
  "sql_publish_media_cache c actor b key n revision items ttl data now s =
     (if \<not> list_ex (publishable c actor b key n data s) (ops s) then Inr (False, s)
      else
        let row = \<lparr>c_actor = actor, c_bot = b, c_key = key, c_revision = revision,
                   c_media = items, c_expires_at = now + int ttl * 1000000\<rparr> in
        if \<not> cache_row_checks row then Inl Database
        else if find_row (cache_at actor b key) (media_cache s) = None
        then Inr (True, s\<lparr>media_cache := media_cache s @ [row]\<rparr>)
        else Inr (True, s\<lparr>media_cache :=
          update_where (cache_at actor b key)
            (\<lambda>m. m\<lparr>c_revision := revision, c_media := items,
                    c_expires_at := c_expires_at row\<rparr>) (media_cache s)\<rparr>))"

definition publication ::
  "digester \<Rightarrow> claim \<Rightarrow> cached_media list \<Rightarrow> duration
    \<Rightarrow> store_error + delivery_target \<times> int \<times> string \<times> json" where
  "publication digest c media ttl =
     res_bind (validate_claim_cache c) (\<lambda>_.
     res_bind (ok_or InvalidInput (target (request c))) (\<lambda>t.
     res_bind (i64_of_u64 (actor_id (request c))) (\<lambda>actor.
       if \<not> (1 \<le> as_secs ttl \<and> as_secs ttl \<le> 31536000) \<or> subsec_nanos ttl \<noteq> 0
          \<or> \<not> (1 \<le> length media \<and> length media \<le> 100) then Inl InvalidInput
       else res_bind (media_cache_key digest (request c)) (\<lambda>key.
         res_bind (encode_media media) (\<lambda>items. Inr (t, actor, key, items))))))"

definition publish_media_cache ::
  "digester \<Rightarrow> env \<Rightarrow> claim \<Rightarrow> cached_media list \<Rightarrow> duration \<Rightarrow> db \<Rightarrow> bool outcome" where
  "publish_media_cache digest e c media ttl s =
     (case publication digest c media ttl of
        Inl x \<Rightarrow> (Inl x, s)
      | Inr (t, actor, key, items) \<Rightarrow>
          (let b = sint (bot_id t); n = int (length media); data = encode (request c) in
           transaction e (\<lambda>s.
             if \<not> sql_publish_media_cache_eligible c actor b key n data s then Inr (False, s)
             else
               let expired = sql_publish_media_cache_prune_select actor b key (clock e 0) s;
                   s = prune_media_cache (clock e) 1 expired s in
               sql_publish_media_cache c actor b key n (fresh_id e) items (as_secs ttl) data
                 (clock e (1 + length expired)) s) s))"

section \<open>Clearing a source\<close>

definition sql_authorize_media_cache_clear :: "int \<Rightarrow> int \<Rightarrow> db \<Rightarrow> bool" where
  "sql_authorize_media_cache_clear actor now s \<longleftrightarrow>
     list_ex (\<lambda>u. usr_id u = actor \<and> usr_role u \<noteq> ''banned''
       \<and> (case usr_ban_until u of None \<Rightarrow> True | Some t \<Rightarrow> t \<le> now)) (users s)"

definition sql_advance_media_cache_clear_watermark ::
  "int \<Rightarrow> int \<Rightarrow> int \<Rightarrow> db \<Rightarrow> bool \<times> db" where
  "sql_advance_media_cache_clear_watermark actor b message s =
     (case map_of (clear_marks s) (actor, b) of
        None \<Rightarrow> (True, s\<lparr>clear_marks := clear_marks s @ [((actor, b), message)]\<rparr>)
      | Some m \<Rightarrow>
          if message > m
          then (True, s\<lparr>clear_marks := update_where (\<lambda>w. fst w = (actor, b))
                         (\<lambda>w. (fst w, message)) (clear_marks s)\<rparr>)
          else (False, s))"

definition sql_clear_media_cache :: "int \<Rightarrow> int \<Rightarrow> string \<Rightarrow> db \<Rightarrow> nat \<times> db" where
  "sql_clear_media_cache actor b source s =
     delete_cache (\<lambda>m. c_actor m = actor \<and> c_bot m = b
       \<and> list_ex (\<lambda>r. op_actor r = actor \<and> request_bot r = Some b
            \<and> rd_source_url (op_request r) = source \<and> op_cache_key r = Some (c_key m)) (ops s)) s"

definition clear_checks ::
  "url_parser \<Rightarrow> u64 \<Rightarrow> i64 \<Rightarrow> i32 \<Rightarrow> string \<Rightarrow> bool \<Rightarrow> store_error + unit" where
  "clear_checks parse actor b message source owner =
     (if actor > i64_max then Inl InvalidInput
      else if \<not> owner then Inl Unauthorized
      else if sint actor \<le> 0 \<or> sint b \<le> 0 \<or> sint message \<le> 0 \<or> source = [] \<or> length source > 4096
      then Inl InvalidInput
      else res_bind (map_err InvalidInput
          (download_request_new parse actor source Video None download_params_default)) (\<lambda>r.
        if url_text (source_url r) \<noteq> source then Inl InvalidInput else Inr ()))"

definition clear_media_cache ::
  "url_parser \<Rightarrow> env \<Rightarrow> u64 \<Rightarrow> i64 \<Rightarrow> i32 \<Rightarrow> string \<Rightarrow> bool \<Rightarrow> db \<Rightarrow> nat option outcome" where
  "clear_media_cache parse e actor b message source owner =
     checked (clear_checks parse actor b message source owner)
       (transaction e (\<lambda>s.
         if \<not> sql_authorize_media_cache_clear (sint actor) (clock e 0) s then Inl Unauthorized
         else
           let (advanced, s) =
             sql_advance_media_cache_clear_watermark (sint actor) (sint b) (sint message) s in
           if \<not> advanced then Inr (None, s)
           else let (n, s) = sql_clear_media_cache (sint actor) (sint b) source s in
             Inr (Some n, s)))"

end
