(* ===== verification/Cache_Safety.thy ===== *)
theory Cache_Safety
  imports Media_Cache Admission_Safety
begin

text \<open>
  The media cache beside the queue: the calls of the cache and of the queue, in any order, as one
  transition system. What is in the cache was delivered, a publication is read back, and a clear
  is done once.
\<close>

section \<open>The stored form\<close>

lemma kind_of_label: "kind_of_label (kind_label k) = Inr k"
  by (cases k) (simp_all add: kind_of_label_def)

interpretation kind_text: label_codec kind_label kind_of_label "\<lambda>_. True"
  by unfold_locales (auto simp: kind_of_label, auto simp: kind_of_label_def split: if_splits)

lemma decode_media_item: "media_wf x \<Longrightarrow> decode_item (media_item x) = Inr x"
proof (cases "cm_metadata x")
  case None
  then show "media_wf x \<Longrightarrow> ?thesis"
    by (simp add: decode_item_def media_item_def json_field_def kind_of_label media_wf_def)
next
  case (Some m)
  obtain fs where fs: "metadata_json m = JObject fs" by (simp add: metadata_json_def)
  have "metadata_of_json (JObject fs) = Some m" by (metis fs metadata_json_roundtrip)
  with Some fs show "media_wf x \<Longrightarrow> ?thesis"
    by (simp add: decode_item_def media_item_def json_field_def kind_of_label media_wf_def
        with_metadata_def)
qed

lemma decode_encode_media:
  assumes "list_all media_wf media" and "encode_media media = Inr v"
  shows "decode_media v = Inr media" and "as_array v = Some (map media_item media)"
    and "length (json_text v) \<le> max_items_json_bytes"
    and "1 \<le> length media \<and> length media \<le> 100"
proof -
  from assms(2) have v: "v = JArray (map media_item media)"
    and n: "1 \<le> length media \<and> length media \<le> 100"
    and l: "length (json_text v) \<le> max_items_json_bytes"
    by (auto simp: encode_media_def Let_def split: if_splits)
  have "traverse_list decode_item (map media_item media) = Inr media"
    by (rule traverse_list_all) (use assms(1) in \<open>simp add: list_all_iff decode_media_item\<close>)
  with v n l show "decode_media v = Inr media" by (simp add: decode_media_def not_less)
  from v n l show "as_array v = Some (map media_item media)"
    "length (json_text v) \<le> max_items_json_bytes" "1 \<le> length media \<and> length media \<le> 100"
    by simp_all
qed

section \<open>What the queue does to the cache\<close>

text \<open>A call of the queue publishes nothing and leaves the watermarks.\<close>

definition only_drops :: "db \<Rightarrow> db \<Rightarrow> bool" where
  "only_drops s t \<longleftrightarrow>
     clear_marks t = clear_marks s \<and> set (media_cache t) \<subseteq> set (media_cache s)"

lemma only_drops_refl [simp]: "only_drops s s"
  by (simp add: only_drops_def)

lemma only_drops_trans: "only_drops s t \<Longrightarrow> only_drops t u \<Longrightarrow> only_drops s u"
  by (auto simp: only_drops_def)

lemma update_only_drops:
  "update_ops p f s = Inr (n, t) \<Longrightarrow> only_drops s t"
  "update_units q g s = Inr (n, t) \<Longrightarrow> only_drops s t"
  by (auto simp: update_ops_Inr update_units_Inr only_drops_def)

definition dropping :: "(db \<Rightarrow> 'a outcome) \<Rightarrow> bool" where
  "dropping h \<longleftrightarrow> (\<forall>s. only_drops s (snd (h s)))"

lemma dropping_simps [simp]:
  "dropping (Pair x)" "dropping (\<lambda>s. took_effect f (h s)) = dropping h"
  "dropping (\<lambda>s. or_stale (g s)) = dropping g" "dropping (\<lambda>s. is_one (g s)) = dropping g"
  "dropping (\<lambda>s. is_some_row (g s)) = dropping g"
  by (simp_all add: dropping_def)

lemma dropping_checked: "dropping h \<Longrightarrow> dropping (checked v h)"
  by (cases v) (auto simp: dropping_def checked_def)

lemma dropping_execute:
  "(\<And>s n t. stmt s = Inr (n, t) \<Longrightarrow> only_drops s t) \<Longrightarrow> dropping (execute e stmt)"
  by (auto simp: dropping_def execute_def split: sum.splits)

lemma dropping_transaction:
  "(\<And>s a t. body s = Inr (a, t) \<Longrightarrow> only_drops s t) \<Longrightarrow> dropping (transaction e body)"
  by (auto simp: dropping_def transaction_def split: sum.splits)


lemma charge_only_drops: "charge a q owner now s = Inr t \<Longrightarrow> only_drops s t"
proof -
  have put: "only_drops s (put_windows a ws s)" for a ws and s :: db
  proof (induction ws arbitrary: s)
    case (Cons x ws)
    obtain w c l where x: "x = (w, c, l)" by (cases x)
    have "only_drops s (sql_quota_put a w (c + 1) l s)"
      by (simp add: sql_quota_put_def only_drops_def)
    with Cons.IH show ?case by (simp add: x) (blast intro: only_drops_trans)
  qed simp
  show "charge a q owner now s = Inr t \<Longrightarrow> only_drops s t"
    by (auto simp: charge_def res_bind_Inr_iff put split: if_splits)
qed

lemma put_deferred_only_drops: "put_deferred a t m mode s = Inr u \<Longrightarrow> only_drops s u"
  by (auto simp: put_deferred_def Let_def only_drops_def split: if_splits)

lemma admit_only_drops:
  "sql_nsfw_mark_consume a s = (f, t) \<Longrightarrow> only_drops s t"
  "sql_admit_insert row s = Inr t \<Longrightarrow> only_drops s t"
  "sql_register_input_cleanup i now s = Inr t \<Longrightarrow> only_drops s t"
  "finish_telegram r i tg s = Inr t \<Longrightarrow> only_drops s t"
proof -
  show "finish_telegram r i tg s = Inr t \<Longrightarrow> only_drops s t"
    by (cases tg)
      (auto simp: finish_telegram_def res_bind_Inr_iff sql_telegram_media_intent_insert_def
        split: if_splits dest!: put_deferred_only_drops simp: only_drops_def)
qed (auto simp: sql_nsfw_mark_consume_def sql_admit_insert_def sql_register_input_cleanup_def
    only_drops_def split: option.splits if_splits)

lemma admit_new_only_drops:
  assumes "admit_new cfg e r key policy ck now tg s = Inr (a, t)" shows "only_drops s t"
proof -
  from assms obtain r1 p1 q1 where st: "admission_settings r policy (store_quota_limits cfg) s
      = Inr (r1, p1, q1)"
    by (auto simp: admit_new_def res_bind_Inr_iff)
  from assms obtain s1 s3 s4 where
    h: "charge (actor_id r1) q1 (quota_owner_id cfg)
       (case now of Some t \<Rightarrow> t | None \<Rightarrow> clock e 1) s = Inr s1"
    "sql_admit_insert (admitted_row (fresh_id e) (actor_id r1) key
       (encode (with_force_nsfw (fst (sql_nsfw_mark_consume (actor_id r1) s1)) r1))
       (uint (max_attempts p1)) (int (as_secs (retry_delay p1))) ck (clock e 2))
       (snd (sql_nsfw_mark_consume (actor_id r1) s1)) = Inr s3"
    "sql_register_input_cleanup (fresh_id e) (clock e 3) s3 = Inr s4"
    "finish_telegram r1 (fresh_id e) tg s4 = Inr t"
    by (auto simp: admit_new_def st res_bind_Inr_iff Let_def case_prod_beta split: if_splits)
  have "only_drops s1 (snd (sql_nsfw_mark_consume (actor_id r1) s1))"
    by (rule admit_only_drops(1)) (rule prod.collapse [symmetric])
  with charge_only_drops [OF h(1)] admit_only_drops(2) [OF h(2)]
    admit_only_drops(3) [OF h(3)] admit_only_drops(4) [OF h(4)]
  show ?thesis by (meson only_drops_trans)
qed

lemma admit_inner_dropping: "dropping (admit_inner parse digest cfg e r key policy preserve now tg)"
  unfolding dropping_def
proof
  fix s
  show "only_drops s (snd (admit_inner parse digest cfg e r key policy preserve now tg s))"
    by (cases rule: admit_inner_cases [of parse digest cfg e r key policy preserve now tg s])
      (auto simp: admit_body_def res_bind_Inr_iff split: option.splits intro: admit_new_only_drops)
qed

lemma expire_leases_only_drops: "expire_leases clk k rs s = Inr t \<Longrightarrow> only_drops s t"
proof (induction rs arbitrary: k s)
  case (Cons r rs)
  from Cons.prems obtain n1 s1 n s2 where h:
    "sql_expire_lease_units (op_id r) (op_attempt r) (clk k) s = Inr (n1, s1)"
    "sql_expire_lease_operation (op_id r) (op_attempt r) (clk (k + 1)) s1 = Inr (n, s2)"
    "expire_leases clk (k + 2) rs s2 = Inr t"
    by (auto simp: res_bind_Inr_iff split: if_splits)
  from h(1,2) have "only_drops s s1" "only_drops s1 s2"
    by (simp_all add: sql_expire_lease_units_def sql_expire_lease_operation_def update_only_drops)
  with Cons.IH [OF h(3)] show ?case by (blast intro: only_drops_trans)
qed simp

lemma update_returning_only_drops: "update_returning p f s = Inr (row, t) \<Longrightarrow> only_drops s t"
  by (auto simp: update_returning_def res_bind_Inr_iff update_only_drops)

lemma claim_filtered_dropping: "dropping (claim_filtered parse e w lease b policy)"
  unfolding claim_filtered_def
proof (intro dropping_checked dropping_transaction)
  fix s a t
  assume "claim_filtered_body parse e w lease b policy s = Inr (a, t)"
  then obtain s1 where s1: "expire_all e s = Inr s1"
    and upd: "t = s1 \<or> (\<exists>i n row. claim_statement w (as_secs lease) b (fresh_id e) i n s1
      = Inr (row, t))"
    unfolding claim_body_eq by (auto simp: res_bind_Inr_iff split: option.splits) blast+
  from s1 have "only_drops s s1" unfolding expire_all_def by (rule expire_leases_only_drops)
  moreover from upd have "only_drops s1 t"
    by (auto simp: claim_statement_eq update_returning_only_drops)
  ultimately show "only_drops s t" by (rule only_drops_trans)
qed

lemma dropping_update_delivery_unit:
  assumes "\<And>s n t. unit s = Inr (n, t) \<Longrightarrow> only_drops s t"
    and "\<And>s n t. operation s = Inr (n, t) \<Longrightarrow> only_drops s t"
  shows "dropping (update_delivery_unit e unit operation)"
  unfolding update_delivery_unit_def
  by (rule dropping_transaction)
    (auto simp: res_bind_Inr_iff split: if_splits intro: only_drops_trans dest: assms)

lemmas worker_statements =
  sql_update_progress_def sql_complete_def sql_fail_def sql_ack_cancel_def sql_cancel_def
  sql_begin_delivery_def sql_complete_delivery_def sql_delivery_unknown_def sql_reject_delivery_def
  sql_begin_delivery_batch_def sql_complete_delivery_unit_def sql_reject_delivery_unit_def
  sql_unknown_delivery_unit_def sql_stop_delivery_batch_mark_def sql_requeue_invalid_cache_mark_def
  sql_complete_delivery_unit_operation_def sql_reject_delivery_unit_operation_def
  sql_unknown_delivery_unit_operation_def sql_stop_delivery_batch_def
  sql_requeue_invalid_cache_operation_def

lemma worker_statement_only_drops:
  "sql_update_progress c pc st now s = Inr (n, t) \<Longrightarrow> only_drops s t"
  "sql_complete c now s = Inr (n, t) \<Longrightarrow> only_drops s t"
  "sql_fail c rt code now s = Inr (n, t) \<Longrightarrow> only_drops s t"
  "sql_ack_cancel c now s = Inr (n, t) \<Longrightarrow> only_drops s t"
  "sql_cancel actor i now s = Inr (n, t) \<Longrightarrow> only_drops s t"
  "sql_begin_delivery c now s = Inr (n, t) \<Longrightarrow> only_drops s t"
  "sql_complete_delivery c m now s = Inr (n, t) \<Longrightarrow> only_drops s t"
  "sql_delivery_unknown c now s = Inr (n, t) \<Longrightarrow> only_drops s t"
  "sql_reject_delivery c now s = Inr (n, t) \<Longrightarrow> only_drops s t"
  "sql_begin_delivery_batch c p now s = Inr (n, t) \<Longrightarrow> only_drops s t"
  "sql_begin_delivery_unit c k p now s = Inr (n, t) \<Longrightarrow> only_drops s t"
  "sql_complete_delivery_unit c k ids now s = Inr (n, t) \<Longrightarrow> only_drops s t"
  "sql_reject_delivery_unit c k now s = Inr (n, t) \<Longrightarrow> only_drops s t"
  "sql_unknown_delivery_unit c k now s = Inr (n, t) \<Longrightarrow> only_drops s t"
  "sql_stop_delivery_batch_mark c reason now s = Inr (n, t) \<Longrightarrow> only_drops s t"
  "sql_requeue_invalid_cache_mark c key b now s = Inr (n, t) \<Longrightarrow> only_drops s t"
  "sql_complete_delivery_unit_operation c k m now s = Inr (n, t) \<Longrightarrow> only_drops s t"
  "sql_reject_delivery_unit_operation c k wait now s = Inr (n, t) \<Longrightarrow> only_drops s t"
  "sql_unknown_delivery_unit_operation c k now s = Inr (n, t) \<Longrightarrow> only_drops s t"
  "sql_stop_delivery_batch c reason now s = Inr (n, t) \<Longrightarrow> only_drops s t"
  "sql_requeue_invalid_cache_operation c now s = Inr (n, t) \<Longrightarrow> only_drops s t"
proof -
  show "sql_begin_delivery_unit c k p now s = Inr (n, t) \<Longrightarrow> only_drops s t"
    by (auto simp: sql_begin_delivery_unit_def Let_def only_drops_def split: if_splits)
qed (auto simp: worker_statements Let_def dest: update_only_drops split: option.splits)

lemma run_worker_dropping: "dropping (run_worker digest e c wc)"
proof (cases wc)
  case (Heartbeat lease)
  have "dropping (heartbeat_state e c lease)"
    unfolding heartbeat_state_def
    by (intro dropping_checked dropping_transaction)
      (auto simp: res_bind_Inr_iff sql_heartbeat_def update_returning_only_drops)
  then show ?thesis by (simp add: Heartbeat)
next
  case (RejectUnit k wait)
  show ?thesis
    by (cases "traverse_option retry_after_seconds wait")
      (auto simp: RejectUnit reject_delivery_unit_def
        intro!: dropping_checked dropping_update_delivery_unit dest: worker_statement_only_drops)
next
  case (StopBatch reason)
  have "dropping (stop_delivery_batch e c reason)"
    unfolding stop_delivery_batch_def
    by (intro dropping_checked dropping_transaction)
      (auto simp: res_bind_Inr_iff split: if_splits
        intro: only_drops_trans dest!: worker_statement_only_drops)
  then show ?thesis by (simp add: StopBatch)
next
  case (RequeueInvalidCache k revision)
  have evict: "only_drops t (sql_requeue_invalid_cache_evict c key revision t)" for key and t :: db
    by (auto simp: only_drops_def sql_requeue_invalid_cache_evict_def)
  show ?thesis
    unfolding dropping_def
  proof
    fix s
    have "only_drops s u" if h: "sql_requeue_invalid_cache_mark c key b (clock e 0) s = Inr (n, s1)"
      "sql_requeue_invalid_cache_operation c (clock e 1) s1 = Inr (m, s2)"
      "u = sql_requeue_invalid_cache_evict c key revision s2" for key b n s1 m s2 u
      using worker_statement_only_drops(16) [OF h(1)] worker_statement_only_drops(21) [OF h(2)] evict h(3)
      by (metis only_drops_trans)
    then show "only_drops s (snd (run_worker digest e c wc s))"
      by (auto simp: RequeueInvalidCache requeue_invalid_cache_def checked_def transaction_def
          res_bind_Inr_iff split: sum.splits if_splits)
  qed
qed (auto simp: update_progress_def complete_def fail_with_code_def acknowledge_cancel_def begin_delivery_def
    complete_delivery_def delivery_unknown_def reject_delivery_def begin_delivery_batch_def
    begin_delivery_unit_def complete_delivery_unit_def unknown_delivery_unit_def Let_def
    intro!: dropping_checked dropping_execute dropping_update_delivery_unit
    dest: worker_statement_only_drops)

lemma run_call_only_drops: "only_drops s (run_call parse digest e q s)"
proof (cases q)
  case (RequestCancel actor i)
  have "dropping (request_cancel e actor i)"
    unfolding request_cancel_def
    by (auto intro!: dropping_checked dropping_execute dest: worker_statement_only_drops)
  then show ?thesis by (simp add: RequestCancel dropping_def)
qed (use admit_inner_dropping claim_filtered_dropping run_worker_dropping in
  \<open>auto simp: dropping_def\<close>)


section \<open>The calls of the cache\<close>

lemma delete_cache_simps [simp]:
  "ops (snd (delete_cache p s)) = ops s" "units (snd (delete_cache p s)) = units s"
  "clear_marks (snd (delete_cache p s)) = clear_marks s"
  "set (media_cache (snd (delete_cache p s))) = {m \<in> set (media_cache s). \<not> p m}"
  "fst (delete_cache p s) = count_where p (media_cache s)"
  by (auto simp: delete_cache_def)

lemma prune_media_cache_simps [simp]:
  "ops (prune_media_cache clk k ms s) = ops s" "units (prune_media_cache clk k ms s) = units s"
  "clear_marks (prune_media_cache clk k ms s) = clear_marks s"
  by (induction ms arbitrary: k s) (auto simp: sql_publish_media_cache_prune_delete_def)

lemma prune_media_cache_subset:
  "set (media_cache (prune_media_cache clk k ms s)) \<subseteq> set (media_cache s)"
proof (induction ms arbitrary: k s)
  case (Cons m ms)
  have "set (media_cache (prune_media_cache clk k (m # ms) s))
      \<subseteq> set (media_cache (sql_publish_media_cache_prune_delete (c_actor m) (c_bot m) (c_key m) (clk k) s))"
    using Cons.IH by simp
  also have "\<dots> \<subseteq> set (media_cache s)" by (auto simp: sql_publish_media_cache_prune_delete_def)
  finally show ?case .
qed simp

text \<open>A publication that is refused or skipped changes nothing; one that succeeds has found the
  operation, drops what has expired, and writes the batch under the key of the claim.\<close>

definition published_row :: "env \<Rightarrow> nat \<Rightarrow> nat \<Rightarrow> uuid \<Rightarrow> int \<Rightarrow> int \<Rightarrow> string \<Rightarrow> json \<Rightarrow> cache_row" where
  "published_row e k ttl revision actor b key items =
     \<lparr>c_actor = actor, c_bot = b, c_key = key, c_revision = revision, c_media = items,
      c_expires_at = clock e k + int ttl * 1000000\<rparr>"

lemma publish_cases:
  obtains "snd (publish_media_cache digest e c media ttl s) = s"
      "fst (publish_media_cache digest e c media ttl s) \<noteq> Inr True"
  | t actor key items k s1 r where
      "target (request c) = Some t" "i64_of_u64 (actor_id (request c)) = Inr actor"
      "media_cache_key digest (request c) = Inr key" "encode_media media = Inr items"
      "r \<in> set (ops s)"
      "publishable c actor (sint (bot_id t)) key (int (length media)) (encode (request c)) s r"
      "set (media_cache s1) \<subseteq> set (media_cache s)" "ops s1 = ops s" "units s1 = units s"
      "clear_marks s1 = clear_marks s" "k \<le> 33"
      "cache_row_checks (published_row e k (as_secs ttl) (fresh_id e) actor (sint (bot_id t)) key items)"
      "publish_media_cache digest e c media ttl s
        = (Inr True, s1\<lparr>media_cache :=
            (if find_row (cache_at actor (sint (bot_id t)) key) (media_cache s1) = None
             then media_cache s1
               @ [published_row e k (as_secs ttl) (fresh_id e) actor (sint (bot_id t)) key items]
             else update_where (cache_at actor (sint (bot_id t)) key)
               (\<lambda>_. published_row e k (as_secs ttl) (fresh_id e) actor (sint (bot_id t)) key items)
               (media_cache s1))\<rparr>)"
proof -
  let ?pre = "publication digest c media ttl"
  consider (err) x where "?pre = Inl x" | (ok) t actor key items where "?pre = Inr (t, actor, key, items)"
    by (cases ?pre) (auto intro: prod_cases4)
  then show thesis
  proof cases
    case err
    then show thesis by (intro that(1)) (simp_all add: publish_media_cache_def)
  next
    case ok
    let ?b = "sint (bot_id t)" and ?n = "int (length media)" and ?d = "encode (request c)"
    let ?old = "sql_publish_media_cache_prune_select actor ?b key (clock e 0) s"
    let ?s1 = "prune_media_cache (clock e) (Suc 0) ?old s"
    let ?k = "Suc (length ?old)"
    let ?row = "published_row e ?k (as_secs ttl) (fresh_id e) actor ?b key items"
    have pre: "target (request c) = Some t" "i64_of_u64 (actor_id (request c)) = Inr actor"
      "media_cache_key digest (request c) = Inr key" "encode_media media = Inr items"
      using ok by (auto simp: publication_def res_bind_Inr_iff split: if_splits)
    have pub: "publishable c actor ?b key ?n ?d ?s1 = publishable c actor ?b key ?n ?d s"
      by (simp add: fun_eq_iff publishable_def attempt_units_def)
    have upd: "update_where (cache_at actor ?b key)
        (\<lambda>m. m\<lparr>c_revision := fresh_id e, c_media := items, c_expires_at := c_expires_at ?row\<rparr>) ms
      = update_where (cache_at actor ?b key) (\<lambda>_. ?row) ms" for ms
      by (auto simp: update_where_def cache_at_def published_row_def)
    have k: "?k \<le> 33"
      by (simp add: sql_publish_media_cache_prune_select_def order_limit_def)
    show thesis
    proof (cases "up e \<and> list_ex (publishable c actor ?b key ?n ?d s) (ops s) \<and> cache_row_checks ?row")
      case False
      then show thesis
        by (intro that(1))
          (auto simp: publish_media_cache_def ok transaction_def Let_def pub
            sql_publish_media_cache_eligible_def sql_publish_media_cache_def published_row_def
            split: sum.splits if_splits)
    next
      case True
      then obtain r where r: "r \<in> set (ops s)" "publishable c actor ?b key ?n ?d s r"
        by (auto simp: list_ex_iff)
      show thesis
      proof (rule that(2) [OF pre r prune_media_cache_subset _ _ _ k])
        show "publish_media_cache digest e c media ttl s = (Inr True, ?s1\<lparr>media_cache :=
            (if find_row (cache_at actor ?b key) (media_cache ?s1) = None
             then media_cache ?s1 @ [?row]
             else update_where (cache_at actor ?b key) (\<lambda>_. ?row) (media_cache ?s1))\<rparr>)"
          using True upd
          by (simp add: publish_media_cache_def ok transaction_def Let_def pub
              sql_publish_media_cache_eligible_def sql_publish_media_cache_def published_row_def)
      qed (use True in simp_all)
    qed
  qed
qed


section \<open>Everything in the cache was delivered\<close>

inductive cache_step :: "url_parser \<Rightarrow> digester \<Rightarrow> db \<Rightarrow> db \<Rightarrow> bool" for parse digest where
  queue_call: "queue_step parse digest s t \<Longrightarrow> cache_step parse digest s t"
| publish: "list_all media_wf media
    \<Longrightarrow> cache_step parse digest s (snd (publish_media_cache digest e c media ttl s))"
| invalidate: "cache_step parse digest s (snd (invalidate_media_cache digest e r revision s))"
| clear: "cache_step parse digest s (snd (clear_media_cache parse e actor b message source owner s))"

definition delivered_batch :: "op_row \<Rightarrow> cached_media list \<Rightarrow> bool" where
  "delivered_batch r media \<longleftrightarrow>
     op_status r = Succeeded \<and> op_delivered r = int (length media) \<and> list_all media_wf media"

definition row_delivered :: "db \<Rightarrow> cache_row \<Rightarrow> bool" where
  "row_delivered s m \<longleftrightarrow>
     (\<exists>r \<in> set (ops s). \<exists>media. op_actor r = c_actor m \<and> request_bot r = Some (c_bot m)
        \<and> op_cache_key r = Some (c_key m) \<and> delivered_batch r media
        \<and> encode_media media = Inr (c_media m))"

definition cache_inv :: "db \<Rightarrow> bool" where
  "cache_inv s \<longleftrightarrow> (\<forall>m \<in> set (media_cache s). row_delivered s m)"

lemma row_delivered_extends: "extends s t \<Longrightarrow> row_delivered s m \<Longrightarrow> row_delivered t m"
  unfolding row_delivered_def
proof (elim bexE exE conjE)
  fix r media
  assume e: "extends s t" and r: "r \<in> set (ops s)" "delivered_batch r media"
    and rest: "op_actor r = c_actor m" "request_bot r = Some (c_bot m)"
    "op_cache_key r = Some (c_key m)" "encode_media media = Inr (c_media m)"
  obtain r' where "r' \<in> set (ops t)" "evolves r r'" using extends_row [OF e r(1)] .
  moreover have "\<not> pending (op_status r)" using r(2) by (simp add: delivered_batch_def)
  ultimately have "r \<in> set (ops t)" by (simp add: evolves_def)
  with r rest show "\<exists>r\<in>set (ops t). \<exists>media. op_actor r = c_actor m \<and> request_bot r = Some (c_bot m)
      \<and> op_cache_key r = Some (c_key m) \<and> delivered_batch r media
      \<and> encode_media media = Inr (c_media m)" by blast
qed

lemma same_ops_delivered: "ops t = ops s \<Longrightarrow> row_delivered t m = row_delivered s m"
  by (simp add: row_delivered_def)

lemma cache_inv_drop:
  "cache_inv s \<Longrightarrow> extends s t \<Longrightarrow> set (media_cache t) \<subseteq> set (media_cache s) \<Longrightarrow> cache_inv t"
  unfolding cache_inv_def using row_delivered_extends by blast

lemma same_ops_extends: "ops t = ops s \<Longrightarrow> units t = units s \<Longrightarrow> extends s t"
  by (simp add: extends_frame frame_same_queue)

lemma invalidate_drops:
  "ops (snd (invalidate_media_cache digest e r revision s)) = ops s"
  "units (snd (invalidate_media_cache digest e r revision s)) = units s"
  "clear_marks (snd (invalidate_media_cache digest e r revision s)) = clear_marks s"
  "set (media_cache (snd (invalidate_media_cache digest e r revision s))) \<subseteq> set (media_cache s)"
  by (auto simp: invalidate_media_cache_def transaction_def res_bind_Inr_iff case_prod_beta Let_def
      sql_invalidate_media_cache_def split: sum.splits)

lemma advance_simps [simp]:
  "ops (snd (sql_advance_media_cache_clear_watermark a b m s)) = ops s"
  "units (snd (sql_advance_media_cache_clear_watermark a b m s)) = units s"
  "media_cache (snd (sql_advance_media_cache_clear_watermark a b m s)) = media_cache s"
  by (auto simp: sql_advance_media_cache_clear_watermark_def split: option.splits)

lemma clear_drops:
  "ops (snd (clear_media_cache parse e actor b message source owner s)) = ops s"
  "units (snd (clear_media_cache parse e actor b message source owner s)) = units s"
  "set (media_cache (snd (clear_media_cache parse e actor b message source owner s)))
     \<subseteq> set (media_cache s)"
  by (auto simp: clear_media_cache_def checked_def transaction_def case_prod_beta Let_def
      sql_clear_media_cache_def split: sum.splits if_splits)

lemma publish_keeps_inv:
  assumes "cache_inv s" and "list_all media_wf media"
  shows "cache_inv (snd (publish_media_cache digest e c media ttl s))"
proof (cases rule: publish_cases [of digest e c media ttl s])
  case (2 t actor key items k s1 r)
  let ?row = "published_row e k (as_secs ttl) (fresh_id e) actor (sint (bot_id t)) key items"
  have "row_delivered s ?row"
    using 2 assms(2) by (auto simp: row_delivered_def publishable_def delivered_batch_def published_row_def)
  moreover have "row_delivered s m" if "m \<in> set (media_cache s1)" for m
    using that 2(7) assms(1) by (auto simp: cache_inv_def)
  ultimately show ?thesis
    using 2(8) by (auto simp: 2(13) cache_inv_def row_delivered_def set_update_where split: if_splits)
qed (use assms in simp)

lemma queue_step_drops: "queue_step parse digest s t \<Longrightarrow> extends s t \<and> only_drops s t"
  by (erule queue_stepE) (simp add: run_call_extends run_call_only_drops)

interpretation cache: transition_system "\<lambda>s. media_cache s = []" "cache_step parse digest" cache_inv
  for parse digest
proof
  show "media_cache s = [] \<Longrightarrow> cache_inv s" for s by (simp add: cache_inv_def)
  show "cache_inv t" if "cache_inv s" "cache_step parse digest s t" for s t
    using that(2)
  proof cases
    case queue_call
    then have "extends s t \<and> only_drops s t" by (rule queue_step_drops)
    with that(1) show ?thesis by (simp add: cache_inv_drop only_drops_def)
  next
    case (publish media e c ttl)
    with that(1) show ?thesis by (simp add: publish_keeps_inv)
  next
    case (invalidate e r revision)
    with invalidate_drops [of digest e r revision s] that(1) show ?thesis
      by (intro cache_inv_drop [OF that(1)] same_ops_extends) simp_all
  next
    case (clear e actor b message source owner)
    with clear_drops [of parse e actor b message source owner s] that(1) show ?thesis
      by (intro cache_inv_drop [OF that(1)] same_ops_extends) simp_all
  qed
qed

text \<open>C38. Whatever queue and cache calls came before, looking a request up never fails on what is
  stored, and a batch that is found is what a succeeded operation of the same actor and bot,
  stored under the key of this request, delivered: as many items as it has confirmed.\<close>

theorem cached_batch_was_delivered:
  assumes "media_cache s0 = []" and "(cache_step parse digest)\<^sup>*\<^sup>* s0 s"
    and "up e" and "target r = Some t" and "actor_id r \<le> i64_max"
  shows "case lookup_media_cache digest e r s of
      Inl _ \<Rightarrow> False
    | Inr None \<Rightarrow> True
    | Inr (Some batch) \<Rightarrow> \<exists>row \<in> set (ops s). op_actor row = uint (actor_id r)
        \<and> request_bot row = Some (sint (bot_id t))
        \<and> (\<exists>key. media_cache_key digest r = Inr key \<and> op_cache_key row = Some key)
        \<and> delivered_batch row (batch_media batch)"
proof -
  obtain key where key: "media_cache_key digest r = Inr key"
    using assms(4) by (simp add: media_cache_key_def)
  have i: "i64_of_u64 (actor_id r) = Inr (uint (actor_id r))"
    using assms(5) by (simp add: i64_of_u64_def not_less)
  show ?thesis
  proof (cases "sql_lookup_media_cache (uint (actor_id r)) (sint (bot_id t)) key (clock e 0) s")
    case None
    then show ?thesis using assms(3,4) key i by (simp add: lookup_media_cache_def)
  next
    case (Some m)
    then have m: "m \<in> set (media_cache s)" "cache_at (uint (actor_id r)) (sint (bot_id t)) key m"
      unfolding sql_lookup_media_cache_def by (auto dest: find_row_Some)
    have "cache_inv s" by (rule cache.inv_reachable [OF assms(1,2)])
    with m(1) obtain row media where row: "row \<in> set (ops s)" "op_actor row = c_actor m"
      "request_bot row = Some (c_bot m)" "op_cache_key row = Some (c_key m)"
      "delivered_batch row media" "encode_media media = Inr (c_media m)"
      by (auto simp: cache_inv_def row_delivered_def)
    have d: "decode_media (c_media m) = Inr media"
      using row(5,6) by (intro decode_encode_media) (simp_all add: delivered_batch_def)
    from row m(2) have h: "op_actor row = uint (actor_id r)" "request_bot row = Some (sint (bot_id t))"
      "op_cache_key row = Some key" by (simp_all add: cache_at_def)
    have l: "lookup_media_cache digest e r s
        = Inr (Some \<lparr>batch_revision = c_revision m, batch_media = media\<rparr>)"
      using assms(3,4) key i Some d by (simp add: lookup_media_cache_def)
    show ?thesis
      unfolding l using row(1,5) h key by (auto intro!: bexI [of _ row])
  qed
qed


section \<open>A publication is read back\<close>

lemma filter_all_same: "\<forall>x \<in> set xs. x = r \<Longrightarrow> filter q xs = (if q r then xs else [])"
  by (induction xs) auto

text \<open>What a publication wrote is what a lookup of the same request reads, revision and items
  unchanged, until the time to live that was asked for has passed since one of the clock readings
  of the publication, and nothing from then on.\<close>

theorem publication_is_read_back:
  assumes "list_all media_wf media" and "publish_media_cache digest e c media ttl s = (Inr True, t)"
  shows "\<exists>k \<le> 33. \<forall>e'. up e' \<longrightarrow> lookup_media_cache digest e' (request c) t
    = Inr (if clock e' 0 < clock e k + int (as_secs ttl) * 1000000
           then Some \<lparr>batch_revision = fresh_id e, batch_media = media\<rparr> else None)"
proof (cases rule: publish_cases [of digest e c media ttl s])
  case 1
  with assms(2) show ?thesis by simp
next
  case (2 tgt actor key items k s1 r)
  let ?row = "published_row e k (as_secs ttl) (fresh_id e) actor (sint (bot_id tgt)) key items"
  let ?p = "cache_at actor (sint (bot_id tgt)) key"
  let ?ms = "media_cache t"
  have t: "?ms = (if find_row ?p (media_cache s1) = None then media_cache s1 @ [?row]
      else update_where ?p (\<lambda>_. ?row) (media_cache s1))"
    using 2(13) assms(2) by auto
  have at: "?p ?row" by (simp add: cache_at_def published_row_def)
  have only: "filter ?p ?ms \<noteq> [] \<and> (\<forall>m \<in> set (filter ?p ?ms). m = ?row)"
  proof (cases "find_row ?p (media_cache s1) = None")
    case True
    then have "filter ?p (media_cache s1) = []" by (simp add: find_row_def split: list.splits)
    with True at show ?thesis by (simp add: t)
  next
    case False
    then obtain m where "m \<in> set (media_cache s1)" "?p m" by (auto simp: find_row_None)
    with False at show ?thesis by (auto simp: t set_update_where filter_empty_conv)
  qed
  have enc: "decode_media items = Inr media" "length (json_text items) \<le> max_items_json_bytes"
    using decode_encode_media [OF assms(1) 2(4)] by simp_all
  have find: "sql_lookup_media_cache actor (sint (bot_id tgt)) key now t
      = (if now < c_expires_at ?row then Some ?row else None)" for now
  proof -
    let ?q = "\<lambda>m. now < c_expires_at m \<and> length (json_text (c_media m)) \<le> max_items_json_bytes"
    have "filter (\<lambda>m. ?p m \<and> ?q m) ?ms = filter ?q (filter ?p ?ms)" by (simp add: conj_commute)
    moreover have "filter ?q (filter ?p ?ms) = (if ?q ?row then filter ?p ?ms else [])"
      using only by (intro filter_all_same) blast
    moreover have "?q ?row \<longleftrightarrow> now < c_expires_at ?row" using enc by (simp add: published_row_def)
    ultimately show ?thesis
      using only unfolding sql_lookup_media_cache_def find_row_def
      by (cases "filter ?p ?ms") auto
  qed
  have look: "lookup_media_cache digest e' (request c) t
    = Inr (if clock e' 0 < c_expires_at ?row
           then Some \<lparr>batch_revision = fresh_id e, batch_media = media\<rparr> else None)" if "up e'" for e'
    using that 2(1-3) enc by (simp add: lookup_media_cache_def find)
      (simp add: published_row_def)
  show ?thesis
    by (rule exI [of _ k]) (use look 2(11) in \<open>simp add: published_row_def\<close>)
qed

section \<open>A source is cleared once\<close>

definition mark_at_least :: "u64 \<Rightarrow> i64 \<Rightarrow> i32 \<Rightarrow> db \<Rightarrow> bool" where
  "mark_at_least actor b message s \<longleftrightarrow>
     (case map_of (clear_marks s) (sint actor, sint b) of None \<Rightarrow> False
      | Some m \<Rightarrow> sint message \<le> m)"

lemma map_of_marked:
  "map_of (update_where (\<lambda>w. fst w = k) (\<lambda>w. (fst w, v)) ms) j
    = (if j = k then map_option (\<lambda>_. v) (map_of ms k) else map_of ms j)"
  by (induction ms) auto

lemma advance_marks:
  "map_of (clear_marks (snd (sql_advance_media_cache_clear_watermark a b m s))) k
    = (if k = (a, b) then Some (case map_of (clear_marks s) (a, b) of None \<Rightarrow> m | Some n \<Rightarrow> max n m)
       else map_of (clear_marks s) k)"
  by (auto simp: sql_advance_media_cache_clear_watermark_def map_of_marked map_add_def
      split: option.splits)

lemma clear_marks_grow:
  "mark_at_least actor b message s
    \<Longrightarrow> mark_at_least actor b message (snd (clear_media_cache parse e actor' b' message' source owner s))"
  by (auto simp: clear_media_cache_def checked_def transaction_def case_prod_beta Let_def
      sql_clear_media_cache_def mark_at_least_def advance_marks split: sum.splits option.splits if_splits)

lemma publish_marks: "clear_marks (snd (publish_media_cache digest e c media ttl s)) = clear_marks s"
  by (cases rule: publish_cases [of digest e c media ttl s]) simp_all

lemma steps_keep_mark:
  assumes "(cache_step parse digest)\<^sup>*\<^sup>* s t" and "mark_at_least actor b message s"
  shows "mark_at_least actor b message t"
  using assms
proof (induction rule: rtranclp_induct)
  case (step t u)
  have m: "mark_at_least actor b message t" using step by simp
  from step.hyps(2) show ?case
  proof cases
    case queue_call
    then have "only_drops t u" using queue_step_drops by blast
    with m show ?thesis by (simp add: only_drops_def mark_at_least_def)
  qed (use m in \<open>simp_all add: clear_marks_grow\<close>, simp_all add: mark_at_least_def publish_marks invalidate_drops)
qed

lemma length_split_where: "length t = length (filter (\<lambda>x. \<not> p x) t) + count_where p t"
  by (induction t) (simp_all add: count_where_def)

lemma delete_cache_length:
  "length (media_cache (snd (delete_cache p s))) + fst (delete_cache p s) = length (media_cache s)"
  unfolding delete_cache_def using length_split_where [of "media_cache s" p] by simp

lemma clear_Some:
  assumes "clear_media_cache parse e actor b message source owner s = (Inr (Some n), t)"
  shows "mark_at_least actor b message t"
    and "m \<in> set (media_cache t) \<Longrightarrow> c_actor m = sint actor \<Longrightarrow> c_bot m = sint b
      \<Longrightarrow> r \<in> set (ops t) \<Longrightarrow> op_actor r = sint actor \<Longrightarrow> request_bot r = Some (sint b)
      \<Longrightarrow> op_cache_key r = Some (c_key m) \<Longrightarrow> rd_source_url (op_request r) \<noteq> source"
    and "length (media_cache s) = length (media_cache t) + n"
proof -
  let ?adv = "sql_advance_media_cache_clear_watermark (sint actor) (sint b) (sint message) s"
  let ?del = "sql_clear_media_cache (sint actor) (sint b) source (snd ?adv)"
  from assms have "(if \<not> sql_authorize_media_cache_clear (sint actor) (clock e 0) s then Inl Unauthorized
      else if \<not> fst ?adv then Inr (None, snd ?adv) else Inr (Some (fst ?del), snd ?del))
    = (Inr (Some n, t) :: store_error + nat option \<times> db)"
    unfolding clear_media_cache_def checked_Inr transaction_Inr case_prod_beta Let_def by simp
  then have "t = snd ?del \<and> n = fst ?del" by (simp split: if_split_asm)
  then have h: "t = snd ?del" "n = fst ?del" by simp_all
  show "mark_at_least actor b message t"
    by (simp add: h sql_clear_media_cache_def mark_at_least_def advance_marks split: option.splits)
  show "m \<in> set (media_cache t) \<Longrightarrow> c_actor m = sint actor \<Longrightarrow> c_bot m = sint b
      \<Longrightarrow> r \<in> set (ops t) \<Longrightarrow> op_actor r = sint actor \<Longrightarrow> request_bot r = Some (sint b)
      \<Longrightarrow> op_cache_key r = Some (c_key m) \<Longrightarrow> rd_source_url (op_request r) \<noteq> source"
    by (auto simp: h sql_clear_media_cache_def list_ex_iff)
  show "length (media_cache s) = length (media_cache t) + n"
    unfolding h sql_clear_media_cache_def by (simp only: delete_cache_length advance_simps)
qed

text \<open>A clear that took effect leaves no cached batch of the source under any key an operation
  of the actor and bot has for it, reports how many it dropped, and is done once: whatever calls
  follow, the same message or an older one clears nothing again, even after the cache was filled.\<close>

theorem clear_is_done_once:
  assumes "clear_media_cache parse e actor b message source owner s = (Inr (Some n), t)"
  shows "length (media_cache s) = length (media_cache t) + n
    \<and> (\<forall>m \<in> set (media_cache t). \<forall>r \<in> set (ops t).
        c_actor m = sint actor \<and> c_bot m = sint b \<and> op_actor r = sint actor
        \<and> request_bot r = Some (sint b) \<and> rd_source_url (op_request r) = source
        \<longrightarrow> op_cache_key r \<noteq> Some (c_key m))
    \<and> (\<forall>u e' (message' :: i32) source' owner'. (cache_step parse digest)\<^sup>*\<^sup>* t u \<longrightarrow> sint message' \<le> sint message
        \<longrightarrow> snd (clear_media_cache parse e' actor b message' source' owner' u) = u
          \<and> (\<forall>k. fst (clear_media_cache parse e' actor b message' source' owner' u) \<noteq> Inr (Some k)))"
proof (intro conjI allI impI ballI notI)
  note c = clear_Some [OF assms]
  show "length (media_cache s) = length (media_cache t) + n" by (rule c(3))
  fix m and r :: op_row
  assume "m \<in> set (media_cache t)" "r \<in> set (ops t)" "op_cache_key r = Some (c_key m)"
    "c_actor m = sint actor \<and> c_bot m = sint b \<and> op_actor r = sint actor
        \<and> request_bot r = Some (sint b) \<and> rd_source_url (op_request r) = source"
  with c(2) [of m r] show False by simp
next
  fix u e' and message' :: i32 and source' owner'
  assume "(cache_step parse digest)\<^sup>*\<^sup>* t u" and le: "sint message' \<le> sint message"
  then have "mark_at_least actor b message u" using steps_keep_mark clear_Some(1) [OF assms] by blast
  then have old: "sql_advance_media_cache_clear_watermark (sint actor) (sint b) (sint message') u = (False, u)"
    using le by (auto simp: mark_at_least_def sql_advance_media_cache_clear_watermark_def
        split: option.splits)
  show "snd (clear_media_cache parse e' actor b message' source' owner' u) = u"
    by (simp add: clear_media_cache_def checked_def transaction_def old split: sum.splits)
  fix k
  assume "fst (clear_media_cache parse e' actor b message' source' owner' u) = Inr (Some k)"
  then show False
    by (auto simp: clear_media_cache_def checked_def transaction_def old split: sum.splits if_splits)
qed


section \<open>A run\<close>

definition done_claim :: claim where
  "done_claim = example_claim\<lparr>request := targeted_request\<rparr>"

definition done_key :: string where
  "done_key = ''v1:'' @ replicate 64 (CHR ''0'')"

definition done_row :: op_row where
  "done_row = (admitted_row 7 42 ''k'' (encode targeted_request) 3 0 (Some done_key) 1000000)
     \<lparr>op_status := Succeeded, op_attempt := 1, op_planned := Some 1, op_delivered := 1,
      op_message_id := Some 100\<rparr>"

definition done_db :: db where
  "done_db = empty_db\<lparr>ops := [done_row], units := [sent_unit],
     users := [\<lparr>usr_id = 42, usr_role = ''owner'', usr_ban_until = None\<rparr>]\<rparr>"

definition example_photo :: cached_media where
  "example_photo = \<lparr>cm_kind = Photo, cm_file_id = ''f'', cm_size_bytes = 1, cm_metadata = None\<rparr>"

definition filled_row :: cache_row where
  "filled_row = \<lparr>c_actor = 42, c_bot = 5, c_key = done_key, c_revision = 11,
     c_media = JArray [media_item example_photo], c_expires_at = 66000000\<rparr>"

definition filled_db :: db where
  "filled_db = done_db\<lparr>media_cache := [filled_row]\<rparr>"

lemma photo_wf: "list_all media_wf [example_photo]"
  by (simp add: media_wf_def example_photo_def cached_media_new_def file_id_byte_def
      is_ascii_alphanumeric_def is_ascii_lowercase_def byte_def)

lemma photo_encoded: "encode_media [example_photo] = Inr (JArray [media_item example_photo])"
  by (simp add: encode_media_def media_item_def example_photo_def json_string_def json_escape_def
      Let_def byte_def max_items_json_bytes_def show_nat_small)

lemma targeted_simps:
  "target targeted_request = Some example_target" "actor_id targeted_request = 42"
  "bot_id example_target = 5" "rd_actor_id (encode targeted_request) = 42"
  "map_option (\<lambda>t. sint (td_bot_id t)) (rd_target (encode targeted_request)) = Some 5"
  by (simp_all add: targeted_request_def example_target_def example_request_def encode_def)

lemma done_row_simps:
  "op_id done_row = 7" "op_attempt done_row = 1" "op_status done_row = Succeeded"
  "op_actor done_row = 42" "op_planned done_row = Some 1" "op_delivered done_row = 1"
  "\<not> op_cancel_requested done_row" "op_request done_row = encode targeted_request"
  "op_cache_key done_row = Some done_key"
  by (simp_all add: done_row_def admitted_row_def)

lemma published_example:
  "publish_media_cache example_digest (example_env 6000000 11) done_claim [example_photo] (secs 60)
     done_db = (Inr True, filled_db)"
proof -
  have v: "validate_claim_cache done_claim = Inr ()"
    by (simp add: validate_claim_cache_def done_claim_def example_claim_def targeted_simps
        is_ascii_def is_ascii_control_def byte_def)
  have c: "request done_claim = targeted_request" "operation_id done_claim = 7" "attempt done_claim = 1"
    by (simp_all add: done_claim_def example_claim_def)
  have p: "publication example_digest done_claim [example_photo] (secs 60)
      = Inr (example_target, 42, done_key, JArray [media_item example_photo])"
    by (simp add: publication_def v c targeted_simps i64_of_u64_def secs_def media_cache_key_def
        example_digest_def done_key_def photo_encoded)
  have "publishable done_claim 42 5 done_key 1 (encode targeted_request) done_db done_row"
    by (simp add: publishable_def c done_row_simps request_bot_def targeted_simps
        attempt_units_def done_db_def empty_db_def sent_unit_def sending_unit_def sent_sum_def)
  moreover have "cache_row_checks filled_row"
    using decode_encode_media(3) [OF photo_wf photo_encoded]
    by (simp add: cache_row_checks_def filled_row_def done_key_def cache_key_check_def
        is_ascii_digit_def byte_def list_all_iff)
  ultimately show ?thesis
    by (simp add: publish_media_cache_def p transaction_def example_env_def c Let_def targeted_simps
        sql_publish_media_cache_eligible_def sql_publish_media_cache_prune_select_def
        sql_publish_media_cache_def order_limit_def)
      (simp add: secs_def done_db_def empty_db_def filled_db_def filled_row_def find_row_def)
qed

lemma filled_reached: "(cache_step example_parser example_digest)\<^sup>*\<^sup>* done_db filled_db"
proof -
  have "cache_step example_parser example_digest done_db
      (snd (publish_media_cache example_digest (example_env 6000000 11) done_claim [example_photo]
        (secs 60) done_db))"
    by (rule cache_step.publish) (rule photo_wf)
  then show ?thesis by (simp add: published_example r_into_rtranclp)
qed


theorem cached_batch_was_delivered_witness:
  "\<exists>batch. lookup_media_cache example_digest (example_env 7000000 0) targeted_request filled_db
      = Inr (Some batch) \<and> (\<exists>row \<in> set (ops filled_db). delivered_batch row (batch_media batch))"
proof -
  have "up (example_env 7000000 0)" by (simp add: example_env_def)
  from cached_batch_was_delivered [OF _ filled_reached this targeted_simps(1)]
  have t: "case lookup_media_cache example_digest (example_env 7000000 0) targeted_request filled_db of
      Inl _ \<Rightarrow> False | Inr None \<Rightarrow> True
    | Inr (Some batch) \<Rightarrow> \<exists>row \<in> set (ops filled_db). delivered_batch row (batch_media batch)"
    by (fastforce simp: done_db_def empty_db_def targeted_simps split: sum.splits option.splits)
  have "decode_media (c_media filled_row) = Inr [example_photo]"
    using decode_encode_media(1) [OF photo_wf photo_encoded] by (simp add: filled_row_def)
  then have "lookup_media_cache example_digest (example_env 7000000 0) targeted_request filled_db
      = Inr (Some \<lparr>batch_revision = 11, batch_media = [example_photo]\<rparr>)"
    using decode_encode_media(3) [OF photo_wf photo_encoded]
    by (simp add: lookup_media_cache_def targeted_simps media_cache_key_def example_digest_def
        i64_of_u64_def example_env_def sql_lookup_media_cache_def filled_db_def find_row_def
        cache_at_def filled_row_def done_key_def)
  with t show ?thesis by simp
qed

theorem publication_is_read_back_witness:
  "\<exists>k \<le> 33. \<forall>e'. up e' \<longrightarrow> lookup_media_cache example_digest e' targeted_request filled_db
    = Inr (if clock e' 0 < clock (example_env 6000000 11) k + 60000000
           then Some \<lparr>batch_revision = 11, batch_media = [example_photo]\<rparr> else None)"
  using publication_is_read_back [OF photo_wf published_example]
  by (simp add: done_claim_def secs_def example_env_def)

lemma done_bot: "request_bot done_row = Some 5"
  unfolding request_bot_def done_row_simps by (rule targeted_simps)

lemma cleared_example:
  "\<exists>t. clear_media_cache example_parser (example_env 7000000 0) 42 5 9 (url_text example_url) True
     filled_db = (Inr (Some 1), t)"
proof -
  have src: "rd_source_url (encode targeted_request) = url_text example_url"
    by (simp add: encode_def targeted_request_def example_request_def)
  have "clear_checks example_parser 42 5 9 (url_text example_url) True = Inr ()"
    using example_request_new
    by (simp add: clear_checks_def) (simp add: example_request_def example_url_def)
  moreover have "sql_authorize_media_cache_clear 42 7000000 filled_db"
    by (simp add: sql_authorize_media_cache_clear_def filled_db_def done_db_def)
  moreover have "count_where (\<lambda>m. c_actor m = 42 \<and> c_bot m = 5 \<and> list_ex (\<lambda>r. op_actor r = 42
      \<and> request_bot r = Some 5 \<and> rd_source_url (op_request r) = url_text example_url
      \<and> op_cache_key r = Some (c_key m)) [done_row]) [filled_row] = 1"
    by (simp add: filled_row_def done_row_simps done_bot src count_where_def)
  ultimately show ?thesis
    by (simp add: clear_media_cache_def checked_def transaction_def example_env_def
        sql_advance_media_cache_clear_watermark_def filled_db_def done_db_def empty_db_def
        sql_clear_media_cache_def delete_cache_def)
qed

theorem clear_is_done_once_witness:
  "\<exists>t. clear_media_cache example_parser (example_env 7000000 0) 42 5 9 (url_text example_url) True
      filled_db = (Inr (Some 1), t)
    \<and> snd (clear_media_cache example_parser (example_env 8000000 0) 42 5 8 (url_text example_url) True t)
      = t"
proof -
  obtain t where t: "clear_media_cache example_parser (example_env 7000000 0) 42 5 9
      (url_text example_url) True filled_db = (Inr (Some 1), t)"
    using cleared_example by blast
  from clear_is_done_once [OF t, of example_digest] show ?thesis
    by (intro exI [of _ t] conjI t) (auto dest: spec [of _ t])
qed

end
