(* ===== verification/Progress.thy ===== *)
theory Progress
  imports Admission Queue
begin

text \<open>
  The notices a user sees while an operation runs, of
  \<open>backend/crates/yoink-storage/src/progress.rs\<close>: which message of the chat shows an operation,
  what was last shown in it, and when it is next due. A definition named \<open>sql_<file>\<close> is the
  statement of \<open>sql/<file>.sql\<close>.
\<close>

section \<open>Messages and notices\<close>

record progress_message =
  pm_operation_id :: uuid
  pm_actor_id :: u64
  pm_bot_id :: i64
  pm_chat_id :: i64
  pm_message_id :: i32
  pm_language :: string

record progress_notice =
  pn_message :: progress_message
  pn_last_text :: "string option"

definition pn_input_only :: "progress_notice \<Rightarrow> bool" where
  "pn_input_only n \<longleftrightarrow> pn_last_text n = Some input_only_notice"

definition progress_message_validate :: "progress_message \<Rightarrow> store_error + unit" where
  "progress_message_validate m =
     (if pm_actor_id m = 0 \<or> pm_actor_id m > i64_max \<or> sint (pm_bot_id m) \<le> 0
         \<or> pm_chat_id m = 0 \<or> sint (pm_message_id m) \<le> 0
         \<or> pm_language m \<notin> {''en'', ''ru''}
      then Inl InvalidInput else Inr ())"

section \<open>Finding an operation by a reply\<close>

definition request_chat :: "op_row \<Rightarrow> int option" where
  "request_chat r = map_option (\<lambda>t. sint (td_chat_id t)) (rd_target (op_request r))"

definition request_reply :: "op_row \<Rightarrow> int option" where
  "request_reply r =
     (case rd_target (op_request r) of None \<Rightarrow> None
      | Some t \<Rightarrow> map_option sint (td_reply_to_message_id t))"

definition shown_in :: "int \<Rightarrow> db \<Rightarrow> op_row \<Rightarrow> bool" where
  "shown_in message s r \<longleftrightarrow>
     list_ex (\<lambda>n. n_op n = op_id r \<and> n_message n = message) (notices s)
     \<or> request_reply r = Some message \<or> op_message_id r = Some message
     \<or> list_ex (\<lambda>u. u_op u = op_id r \<and> u_status u = Sent
          \<and> (case u_messages u of None \<Rightarrow> False | Some ms \<Rightarrow> message \<in> set ms)) (units s)"

definition sql_operation_by_reply :: "int \<Rightarrow> int \<Rightarrow> int \<Rightarrow> int \<Rightarrow> db \<Rightarrow> uuid option" where
  "sql_operation_by_reply actor b chat message s =
     (case order_limit (\<lambda>r. (- op_created_at r, op_id r)) 1
        (filter (\<lambda>r. op_actor r = actor \<and> request_bot r = Some b \<and> request_chat r = Some chat
           \<and> shown_in message s r) (ops s)) of
        [] \<Rightarrow> None | r # _ \<Rightarrow> Some (op_id r))"

definition operation_by_reply ::
  "env \<Rightarrow> u64 \<Rightarrow> i64 \<Rightarrow> i64 \<Rightarrow> i32 \<Rightarrow> db \<Rightarrow> store_error + uuid option" where
  "operation_by_reply e actor b chat message s =
     (if actor = 0 \<or> actor > i64_max \<or> sint b \<le> 0 \<or> chat = 0 \<or> sint message \<le> 0
      then Inl InvalidInput
      else if \<not> up e then Inl Database
      else Inr (sql_operation_by_reply (sint actor) (sint b) (sint chat) (sint message) s))"

section \<open>Registering, reading and advancing\<close>

definition replaceable :: "progress_message \<Rightarrow> notice_row \<Rightarrow> bool" where
  "replaceable m n \<longleftrightarrow>
     n_op n = pm_operation_id m \<and> n_last_text n = Some input_only_notice
     \<and> n_actor n = sint (pm_actor_id m) \<and> n_bot n = sint (pm_bot_id m)
     \<and> n_chat n = sint (pm_chat_id m) \<and> n_message n \<noteq> sint (pm_message_id m)"

definition replaced :: "progress_message \<Rightarrow> int \<Rightarrow> notice_row \<Rightarrow> notice_row" where
  "replaced m now n =
     n\<lparr>n_message := sint (pm_message_id m), n_language := pm_language m, n_last_text := None,
       n_finished := False, n_next_attempt_at := now\<rparr>"

definition sql_register_progress_notice :: "progress_message \<Rightarrow> int \<Rightarrow> db \<Rightarrow> store_error + bool \<times> db" where
  "sql_register_progress_notice m now s =
     (if \<not> list_ex (\<lambda>r. op_id r = pm_operation_id m \<and> op_actor r = sint (pm_actor_id m)
            \<and> request_bot r = Some (sint (pm_bot_id m))
            \<and> request_chat r = Some (sint (pm_chat_id m))) (ops s)
      then Inr (False, s)
      else
        let row = \<lparr>n_op = pm_operation_id m, n_actor = sint (pm_actor_id m),
                   n_bot = sint (pm_bot_id m), n_chat = sint (pm_chat_id m),
                   n_message = sint (pm_message_id m), n_language = pm_language m,
                   n_last_text = None, n_finished = False, n_next_attempt_at = now\<rparr> in
        if \<not> notice_checks row then Inl Database
        else if pm_operation_id m \<notin> n_op ` set (notices s)
        then Inr (True, s\<lparr>notices := notices s @ [row]\<rparr>)
        else Inr (list_ex (replaceable m) (notices s),
          s\<lparr>notices := update_where (replaceable m) (replaced m now) (notices s)\<rparr>))"

definition register_progress_message :: "env \<Rightarrow> progress_message \<Rightarrow> db \<Rightarrow> bool outcome" where
  "register_progress_message e m =
     checked (progress_message_validate m)
       (transaction e (sql_register_progress_notice m (clock e 0)))"

definition sql_due_progress_notice :: "int \<Rightarrow> int \<Rightarrow> db \<Rightarrow> notice_row option" where
  "sql_due_progress_notice b now s =
     (case order_limit (\<lambda>n. (n_next_attempt_at n, n_op n)) 1
        (filter (\<lambda>n. n_bot n = b \<and> \<not> n_finished n \<and> n_next_attempt_at n \<le> now) (notices s)) of
        [] \<Rightarrow> None | n # _ \<Rightarrow> Some n)"

definition notice_of_row :: "notice_row \<Rightarrow> store_error + progress_notice" where
  "notice_of_row n =
     (if n_actor n < 0 \<or> n_message n < - (2 ^ 31) \<or> i32_max < n_message n then Inl InvalidStoredData
      else
        let m = \<lparr>pm_operation_id = n_op n, pm_actor_id = of_int (n_actor n),
                 pm_bot_id = of_int (n_bot n), pm_chat_id = of_int (n_chat n),
                 pm_message_id = of_int (n_message n), pm_language = n_language n\<rparr> in
        res_bind (map_err InvalidStoredData (progress_message_validate m)) (\<lambda>_.
          Inr \<lparr>pn_message = m, pn_last_text = n_last_text n\<rparr>))"

definition due_progress_notice :: "env \<Rightarrow> i64 \<Rightarrow> db \<Rightarrow> store_error + progress_notice option" where
  "due_progress_notice e b s =
     (if sint b \<le> 0 then Inl InvalidInput
      else if \<not> up e then Inl Database
      else traverse_option notice_of_row (sql_due_progress_notice (sint b) (clock e 0) s))"

definition this_notice :: "progress_message \<Rightarrow> notice_row \<Rightarrow> bool" where
  "this_notice m n \<longleftrightarrow>
     n_op n = pm_operation_id m \<and> n_actor n = sint (pm_actor_id m) \<and> n_bot n = sint (pm_bot_id m)
     \<and> n_message n = sint (pm_message_id m) \<and> \<not> n_finished n"

definition sql_advance_progress_notice ::
  "progress_message \<Rightarrow> string option \<Rightarrow> bool \<Rightarrow> int \<Rightarrow> db \<Rightarrow> store_error + bool \<times> db" where
  "sql_advance_progress_notice m sent_text finished next_attempt_at s =
     (let f = (\<lambda>n. n\<lparr>n_last_text := (if sent_text \<noteq> None then sent_text else n_last_text n),
                      n_finished := finished, n_next_attempt_at := next_attempt_at\<rparr>) in
      if \<not> list_all (\<lambda>n. this_notice m n \<longrightarrow> notice_checks (f n)) (notices s) then Inl Database
      else Inr (list_ex (this_notice m) (notices s),
        s\<lparr>notices := update_where (this_notice m) f (notices s)\<rparr>))"

definition advance_progress_notice ::
  "env \<Rightarrow> progress_message \<Rightarrow> string option \<Rightarrow> bool \<Rightarrow> int \<Rightarrow> db \<Rightarrow> bool outcome" where
  "advance_progress_notice e m sent_text finished next_attempt_at =
     checked (progress_message_validate m)
       (checked (if pred_option (\<lambda>t. length t \<le> 4096) sent_text then Inr () else Inl InvalidInput)
         (transaction e (sql_advance_progress_notice m sent_text finished next_attempt_at)))"

end
