(* ===== verification/Progress_Safety.thy ===== *)
theory Progress_Safety
  imports Progress Cache_Safety
begin

text \<open>
  The life of a progress notice: which changes any sequence of calls can make to it, and which
  notice the updater meets first.
\<close>

section \<open>What happens to a notice\<close>

inductive notice_step :: "db \<Rightarrow> db \<Rightarrow> bool" where
  register: "notice_step s (snd (register_progress_message e m s))"
| advance: "t \<noteq> Some input_only_notice
    \<Longrightarrow> notice_step s (snd (advance_progress_notice e m t finished due s))"
| input_cleanup: "sql_register_input_cleanup i now s = Inr s' \<Longrightarrow> notice_step s s'"

definition notice_keys :: "db \<Rightarrow> bool" where
  "notice_keys s \<longleftrightarrow> distinct (map n_op (notices s))"

text \<open>How a row may change: its place is fixed, a confirmed reference is kept, and a confirmed
  notice that is finished does not change at all.\<close>

definition confirmed :: "notice_row \<Rightarrow> bool" where
  "confirmed n \<longleftrightarrow> n_last_text n \<noteq> Some input_only_notice"

definition notice_evolves :: "notice_row \<Rightarrow> notice_row \<Rightarrow> bool" where
  "notice_evolves n n' \<longleftrightarrow>
     n_op n' = n_op n \<and> n_actor n' = n_actor n \<and> n_bot n' = n_bot n \<and> n_chat n' = n_chat n
     \<and> (confirmed n \<longrightarrow> confirmed n' \<and> n_message n' = n_message n \<and> n_language n' = n_language n)
     \<and> (confirmed n \<and> n_finished n \<longrightarrow> n' = n)"

lemma notice_evolves_refl [simp]: "notice_evolves n n"
  by (simp add: notice_evolves_def)

lemma notice_evolves_trans: "notice_evolves a b \<Longrightarrow> notice_evolves b c \<Longrightarrow> notice_evolves a c"
  by (auto simp: notice_evolves_def)

definition notices_grow :: "db \<Rightarrow> db \<Rightarrow> bool" where
  "notices_grow s t \<longleftrightarrow>
     (\<forall>n \<in> set (notices s). \<exists>n' \<in> set (notices t). notice_evolves n n')"

lemma notices_grow_refl [simp]: "notices_grow s s"
  by (auto simp: notices_grow_def intro: notice_evolves_refl)

lemma notices_grow_trans: "notices_grow s t \<Longrightarrow> notices_grow t u \<Longrightarrow> notices_grow s u"
  unfolding notices_grow_def by (meson notice_evolves_trans)

lemma notices_grow_update:
  assumes "notices t = update_where p f (notices s)" and "\<And>n. p n \<Longrightarrow> notice_evolves n (f n)"
  shows "notices_grow s t"
  unfolding notices_grow_def
proof
  fix n assume "n \<in> set (notices s)"
  then have "(if p n then f n else n) \<in> set (notices t)" by (simp add: assms(1) update_where_def)
  moreover have "notice_evolves n (if p n then f n else n)" using assms(2) by simp
  ultimately show "\<exists>n' \<in> set (notices t). notice_evolves n n'" by blast
qed

lemma notices_grow_append: "notices t = notices s @ ns \<Longrightarrow> notices_grow s t"
  by (auto simp: notices_grow_def intro: notice_evolves_refl)

lemma register_grow:
  assumes "sql_register_progress_notice m now s = Inr (b, t)" shows "notices_grow s t"
proof -
  have "notices_grow s (s\<lparr>notices := update_where (replaceable m) (replaced m now) (notices s)\<rparr>)"
  proof (rule notices_grow_update)
    show "notices (s\<lparr>notices := update_where (replaceable m) (replaced m now) (notices s)\<rparr>)
        = update_where (replaceable m) (replaced m now) (notices s)" by simp
  qed (auto simp: replaceable_def replaced_def notice_evolves_def confirmed_def)
  with assms show ?thesis
    by (auto simp: sql_register_progress_notice_def Let_def notices_grow_append split: if_splits)
qed

lemma advance_grow:
  assumes "sql_advance_progress_notice m st fin due s = Inr (b, t)" and "st \<noteq> Some input_only_notice"
  shows "notices_grow s t"
proof (rule notices_grow_update)
  show "notices t = update_where (this_notice m)
      (\<lambda>n. n\<lparr>n_last_text := (if st \<noteq> None then st else n_last_text n), n_finished := fin,
        n_next_attempt_at := due\<rparr>) (notices s)"
    using assms(1) by (auto simp: sql_advance_progress_notice_def Let_def split: if_splits)
qed (use assms(2) in \<open>auto simp: notice_evolves_def confirmed_def this_notice_def\<close>)

lemma notice_step_grow: "notice_step s t \<Longrightarrow> notices_grow s t"
proof (induction rule: notice_step.induct)
  case (register s e m)
  then show ?case
    by (auto simp: register_progress_message_def checked_def transaction_def register_grow
        split: sum.splits)
next
  case (advance st s e m fin due)
  then show ?case
    by (auto simp: advance_progress_notice_def checked_def transaction_def advance_grow
        split: sum.splits)
next
  case (input_cleanup i now s s')
  then show ?case
    by (auto simp: sql_register_input_cleanup_def split: option.splits if_splits
        intro: notices_grow_append)
qed


text \<open>Whatever calls follow, a notice keeps its operation, actor, bot and chat; a confirmed message
  reference, one that is not the placeholder of an input message, is never replaced, and once a
  confirmed notice is finished nothing about it changes.\<close>

theorem notice_history:
  assumes "notice_step\<^sup>*\<^sup>* s t" and "n \<in> set (notices s)"
  shows "\<exists>n' \<in> set (notices t).
    n_op n' = n_op n \<and> n_actor n' = n_actor n \<and> n_bot n' = n_bot n \<and> n_chat n' = n_chat n
    \<and> (confirmed n \<longrightarrow> confirmed n' \<and> n_message n' = n_message n \<and> n_language n' = n_language n)
    \<and> (confirmed n \<and> n_finished n \<longrightarrow> n' = n)"
proof -
  from assms(1) have "notices_grow s t"
    by (induction rule: rtranclp_induct) (auto intro: notices_grow_trans notice_step_grow)
  with assms(2) show ?thesis unfolding notices_grow_def notice_evolves_def by blast
qed

text \<open>The notice that is due is an unfinished one of the bot, and none of the bot's unfinished
  notices was due earlier.\<close>

theorem due_notice_is_first:
  assumes "sql_due_progress_notice b now s = Some n"
  shows "n \<in> set (notices s) \<and> n_bot n = b \<and> \<not> n_finished n \<and> n_next_attempt_at n \<le> now
    \<and> (\<forall>n' \<in> set (notices s). n_bot n' = b \<and> \<not> n_finished n'
        \<longrightarrow> (n_next_attempt_at n, n_op n) \<le> (n_next_attempt_at n', n_op n'))"
proof -
  let ?p = "\<lambda>n. n_bot n = b \<and> \<not> n_finished n \<and> n_next_attempt_at n \<le> now"
  let ?k = "\<lambda>n. (n_next_attempt_at n, n_op n)"
  have o: "order_limit ?k (Suc 0) (filter ?p (notices s)) = [n]"
    by (cases rule: order_limit_1_cases [of "filter ?p (notices s)" ?k])
      (use assms in \<open>auto simp: sql_due_progress_notice_def\<close>)
  note c = order_limit_1_Cons [OF o]
  from c(1) have n: "n \<in> set (notices s)" "?p n" by auto
  have "?k n \<le> ?k n'" if "n' \<in> set (notices s)" "n_bot n' = b" "\<not> n_finished n'" for n'
  proof (cases "n_next_attempt_at n' \<le> now")
    case True
    with that show ?thesis by (intro c(2)) simp
  next
    case False
    with n(2) show ?thesis by simp
  qed
  with n show ?thesis by blast
qed

section \<open>A run\<close>

definition example_message :: progress_message where
  "example_message = \<lparr>pm_operation_id = 7, pm_actor_id = 42, pm_bot_id = 5, pm_chat_id = 42,
     pm_message_id = 12, pm_language = ''en''\<rparr>"

definition finished_notice :: "string \<Rightarrow> notice_row" where
  "finished_notice txt = \<lparr>n_op = 7, n_actor = 42, n_bot = 5, n_chat = 42, n_message = 11,
     n_language = ''en'', n_last_text = Some txt, n_finished = True, n_next_attempt_at = 0\<rparr>"

definition noticed_db :: "string \<Rightarrow> db" where
  "noticed_db txt = done_db\<lparr>notices := [finished_notice txt]\<rparr>"

lemma example_message_valid: "progress_message_validate example_message = Inr ()"
  by (simp add: progress_message_validate_def example_message_def)

lemma register_example:
  "register_progress_message (example_env 5 0) example_message (noticed_db txt)
    = (Inr (txt = input_only_notice), noticed_db txt\<lparr>notices :=
        [if txt = input_only_notice then replaced example_message 5 (finished_notice txt)
         else finished_notice txt]\<rparr>)"
proof -
  have chat: "request_chat done_row = Some 42"
    unfolding request_chat_def done_row_simps
    by (simp add: encode_def targeted_request_def example_target_def)
  then have "list_ex (\<lambda>r. op_id r = 7 \<and> op_actor r = 42 \<and> request_bot r = Some 5
      \<and> request_chat r = Some 42) (ops (noticed_db txt))"
    by (simp add: noticed_db_def done_db_def done_row_simps done_bot)
  then show ?thesis
    by (simp add: register_progress_message_def checked_def transaction_def example_message_valid
        example_env_def)
      (auto simp: sql_register_progress_notice_def example_message_def notice_checks_def Let_def
        noticed_db_def finished_notice_def replaceable_def)
qed

theorem notice_history_witness:
  "finished_notice ''done'' \<in> set (notices (snd (register_progress_message (example_env 5 0)
     example_message (noticed_db ''done''))))"
proof -
  have "notice_step\<^sup>*\<^sup>* (noticed_db ''done'') (snd (register_progress_message (example_env 5 0)
     example_message (noticed_db ''done'')))"
    by (rule r_into_rtranclp) (rule notice_step.register)
  moreover have "finished_notice ''done'' \<in> set (notices (noticed_db ''done''))"
    by (simp add: noticed_db_def)
  moreover have "confirmed (finished_notice ''done'')" "n_finished (finished_notice ''done'')"
    by (simp_all add: confirmed_def finished_notice_def input_only_notice_def)
  ultimately show ?thesis using notice_history by blast
qed

theorem due_notice_is_first_witness:
  "sql_due_progress_notice 5 10 (done_db\<lparr>notices := [(finished_notice ''a'')\<lparr>n_finished := False\<rparr>]\<rparr>)
     = Some ((finished_notice ''a'')\<lparr>n_finished := False\<rparr>)
   \<and> \<not> n_finished ((finished_notice ''a'')\<lparr>n_finished := False\<rparr>)"
proof -
  have d: "sql_due_progress_notice 5 10 (done_db\<lparr>notices := [(finished_notice ''a'')\<lparr>n_finished := False\<rparr>]\<rparr>)
     = Some ((finished_notice ''a'')\<lparr>n_finished := False\<rparr>)"
    by (simp add: sql_due_progress_notice_def finished_notice_def order_limit_def)
  with due_notice_is_first [OF d] show ?thesis by blast
qed

text \<open>A finished placeholder is reopened by a later registration: finishing is irreversible only
  for a confirmed notice.\<close>

theorem finished_placeholder_is_reopened:
  "n_finished (finished_notice input_only_notice)
   \<and> register_progress_message (example_env 5 0) example_message (noticed_db input_only_notice)
     = (Inr True, noticed_db input_only_notice\<lparr>notices :=
         [replaced example_message 5 (finished_notice input_only_notice)]\<rparr>)
   \<and> \<not> n_finished (replaced example_message 5 (finished_notice input_only_notice))"
  by (simp add: register_example) (simp add: finished_notice_def replaced_def)

end
