(* ===== verification/Dialog_Tables.thy ===== *)
theory Dialog_Tables
  imports Admission
begin

text \<open>
  The tables of the two private dialogs of the bot, choosing a quality and cutting a clip, of
  \<open>backend/crates/yoink-storage/src/quality.rs\<close> and \<open>cut.rs\<close>: one draft of each kind per actor,
  bot and chat, and the original requests a quality draft keeps for a later admission. The
  columns, constraints and statements are those of \<open>migrations-turso\<close> and \<open>sql\<close>.
\<close>

section \<open>Choices\<close>

datatype quality_choice = Best | AudioChoice | Height u32

definition listed_heights :: "(string \<times> u32) list" where
  "listed_heights =
     [(''2160'', 2160), (''1440'', 1440), (''1080'', 1080), (''720'', 720), (''480'', 480),
      (''360'', 360), (''240'', 240), (''144'', 144)]"

definition choice_parse :: "string \<Rightarrow> store_error + quality_choice" where
  "choice_parse s =
     (if s = ''best'' then Inr Best else if s = ''audio'' then Inr AudioChoice
      else (case map_of listed_heights s of
              Some h \<Rightarrow> Inr (Height h) | None \<Rightarrow> Inl InvalidInput))"

fun choice_text :: "quality_choice \<Rightarrow> string" where
  "choice_text Best = ''best''"
| "choice_text AudioChoice = ''audio''"
| "choice_text (Height h) =
     (case filter (\<lambda>(t, n). n = h) listed_heights of [] \<Rightarrow> '''' | (t, _) # _ \<Rightarrow> t)"

fun choice_max_height :: "quality_choice \<Rightarrow> u32 option" where
  "choice_max_height (Height h) = Some h" | "choice_max_height _ = None"

definition offered :: "quality_choice \<Rightarrow> bool" where
  "offered c \<longleftrightarrow> (case choice_parse (choice_text c) of Inl _ \<Rightarrow> False | Inr _ \<Rightarrow> True)"

section \<open>Numbers in text\<close>

text \<open>
  A stored request and the clips of a cut draft are columns of text. \<open>serde_json\<close> writes an
  \<open>f64\<close> with the shortest digits that tell it from every other one, so a row of the model keeps
  the value that was written. Its reader, as the workspace configures it (without the feature
  \<open>float_roundtrip\<close>), need not give that value back: \<open>read_f64\<close>, a parameter like the parser
  of the \<open>url\<close> crate, is what it reads from the text of a value, if anything.
\<close>

record text_reader =
  read_url :: url_parser
  read_f64 :: "f64 \<Rightarrow> f64 option"

definition read_pair :: "text_reader \<Rightarrow> f64 \<times> f64 \<Rightarrow> store_error + f64 \<times> f64" where
  "read_pair rd x =
     (case (read_f64 rd (fst x), read_f64 rd (snd x)) of
        (Some s, Some e) \<Rightarrow> Inr (s, e)
      | _ \<Rightarrow> Inl InvalidStoredData)"

definition read_clip_data :: "text_reader \<Rightarrow> clip_range_data \<Rightarrow> store_error + clip_range_data" where
  "read_clip_data rd d =
     res_bind (read_pair rd (cd_start_seconds d, cd_end_seconds d)) (\<lambda>(s, e).
       Inr \<lparr>cd_start_seconds = s, cd_end_seconds = e\<rparr>)"

text \<open>The structure that \<open>from_str\<close> reads: the clip bounds are its only numbers with a fraction.\<close>

definition read_data :: "text_reader \<Rightarrow> request_data \<Rightarrow> store_error + request_data" where
  "read_data rd d =
     res_bind (traverse_option (read_clip_data rd) (rd_clip_range d)) (\<lambda>range.
     res_bind (traverse_list (read_clip_data rd) (dp_clips (rd_params d))) (\<lambda>cl.
       Inr (d\<lparr>rd_clip_range := range, rd_params := (rd_params d)\<lparr>dp_clips := cl\<rparr>\<rparr>)))"

definition read_request :: "text_reader \<Rightarrow> request_data \<Rightarrow> store_error + download_request" where
  "read_request rd d = res_bind (read_data rd d) (decode (read_url rd))"

section \<open>Rows\<close>

type_synonym scope = "int \<times> int \<times> int"

record quality_row =
  qr_id :: uuid
  qr_revision :: int
  qr_stage :: string
  qr_origin :: int
  qr_last :: int
  qr_request :: request_data
  qr_selected :: "string option"
  qr_operation :: "uuid option"
  qr_cut :: "uuid option"

record cut_row =
  cr_id :: uuid
  cr_revision :: int
  cr_stage :: string
  cr_origin :: int
  cr_last :: int
  cr_url :: "string option"
  cr_begin :: "f64 option"
  cr_start :: "f64 option"
  cr_end :: "f64 option"
  cr_operation :: "uuid option"
  cr_selected :: "string option"
  cr_original :: "request_data option"
  cr_linked :: "uuid option"
  cr_clips :: "(f64 \<times> f64) list"
  cr_editing :: "int option"

record dialog_db =
  accounts :: db
  quality_rows :: "(scope \<times> quality_row) list"
  cut_rows :: "(scope \<times> cut_row) list"
  quality_intents :: "(uuid \<times> request_data) list"

type_synonym 'a dialog_outcome = "(store_error + 'a) \<times> dialog_db"

text \<open>The primary key is actor, bot and chat; an upsert replaces the row of the key.\<close>

definition put_row :: "'k \<Rightarrow> 'r \<Rightarrow> ('k \<times> 'r) list \<Rightarrow> ('k \<times> 'r) list" where
  "put_row k r t =
     (if k \<in> fst ` set t then update_where (\<lambda>x. fst x = k) (\<lambda>x. (fst x, r)) t else t @ [(k, r)])"

definition scope_checks :: "scope \<Rightarrow> bool" where
  "scope_checks k \<longleftrightarrow>
     (case k of (actor, b, chat) \<Rightarrow> 0 < actor \<and> 0 < b \<and> 0 < chat \<and> chat = actor)"

definition message_checks :: "int \<Rightarrow> int \<Rightarrow> bool" where
  "message_checks origin latest \<longleftrightarrow>
     1 \<le> origin \<and> origin \<le> i32_max \<and> origin \<le> latest \<and> latest \<le> i32_max"

definition quality_checks :: "scope \<Rightarrow> quality_row \<Rightarrow> bool" where
  "quality_checks k r \<longleftrightarrow>
     scope_checks k \<and> 0 < qr_revision r \<and> message_checks (qr_origin r) (qr_last r)
     \<and> qr_stage r \<in> {''choosing'', ''confirming'', ''submitted'', ''cancelled'', ''cutting''}
     \<and> (qr_stage r \<in> {''confirming'', ''submitted''} \<longleftrightarrow> qr_selected r \<noteq> None)
     \<and> (qr_stage r = ''submitted'' \<longleftrightarrow> qr_operation r \<noteq> None)
     \<and> pred_option (\<lambda>t. t \<in> {''best'', ''audio''} \<union> fst ` set listed_heights) (qr_selected r)
     \<and> ((qr_stage r = ''choosing'' \<and> qr_revision r = 1)
        \<or> (qr_stage r \<in> {''confirming'', ''cancelled'', ''cutting''} \<and> 2 \<le> qr_revision r)
        \<or> (qr_stage r = ''submitted'' \<and> qr_revision r = 3))
     \<and> (qr_stage r = ''cutting'' \<longleftrightarrow> qr_cut r \<noteq> None)"

definition not_negative :: "f64 option \<Rightarrow> bool" where
  "not_negative t \<longleftrightarrow> pred_option (\<lambda>x. f64_le (Fin 0) x) t"

definition cut_checks :: "scope \<Rightarrow> cut_row \<Rightarrow> bool" where
  "cut_checks k r \<longleftrightarrow>
     scope_checks k \<and> 0 < cr_revision r \<and> message_checks (cr_origin r) (cr_last r)
     \<and> cr_stage r \<in> {''start'', ''end'', ''ready'', ''quality'', ''confirming'', ''submitted'', ''cancelled''}
     \<and> (cr_stage r = ''cancelled'' \<or> cr_url r \<noteq> None)
     \<and> not_negative (cr_begin r) \<and> not_negative (cr_start r)
     \<and> (cr_stage r \<notin> {''ready'', ''quality'', ''confirming'', ''submitted''}
        \<or> (case (cr_start r, cr_end r) of (Some s, Some e) \<Rightarrow> f64_less s e | _ \<Rightarrow> False))
     \<and> ((cr_stage r = ''quality'' \<and> cr_selected r = None)
        \<or> (cr_stage r \<noteq> ''quality''
           \<and> (cr_selected r = None \<or> cr_stage r \<in> {''confirming'', ''submitted''})))
     \<and> pred_option (\<lambda>t. t \<in> {''best''} \<union> fst ` set listed_heights) (cr_selected r)
     \<and> (cr_stage r = ''submitted'' \<longleftrightarrow> cr_operation r \<noteq> None)
     \<and> pred_option (\<lambda>i. 0 \<le> i \<and> i \<le> 19) (cr_editing r)"

section \<open>Statements\<close>

definition sql_quality_get :: "scope \<Rightarrow> dialog_db \<Rightarrow> quality_row option" where
  "sql_quality_get k s = map_of (quality_rows s) k"

definition sql_cut_get :: "scope \<Rightarrow> dialog_db \<Rightarrow> cut_row option" where
  "sql_cut_get k s = map_of (cut_rows s) k"

definition sql_quality_put :: "scope \<Rightarrow> quality_row \<Rightarrow> dialog_db \<Rightarrow> store_error + dialog_db" where
  "sql_quality_put k r s =
     (if quality_checks k r then Inr (s\<lparr>quality_rows := put_row k r (quality_rows s)\<rparr>)
      else Inl Database)"

definition sql_cut_put :: "scope \<Rightarrow> cut_row \<Rightarrow> dialog_db \<Rightarrow> store_error + dialog_db" where
  "sql_cut_put k r s =
     (if cut_checks k r then Inr (s\<lparr>cut_rows := put_row k r (cut_rows s)\<rparr>) else Inl Database)"

text \<open>A cut that is not cancelled still needs the original of the quality draft it came from.\<close>

definition cut_needs :: "uuid \<Rightarrow> dialog_db \<Rightarrow> bool" where
  "cut_needs i s \<longleftrightarrow>
     list_ex (\<lambda>(_, r). cr_linked r = Some i \<and> cr_stage r \<noteq> ''cancelled'') (cut_rows s)"

definition quality_has :: "uuid \<Rightarrow> dialog_db \<Rightarrow> bool" where
  "quality_has i s \<longleftrightarrow> list_ex (\<lambda>(_, r). qr_id r = i) (quality_rows s)"

definition sql_quality_media_intent_superseded_delete :: "scope \<Rightarrow> uuid \<Rightarrow> dialog_db \<Rightarrow> dialog_db" where
  "sql_quality_media_intent_superseded_delete k i s =
     s\<lparr>quality_intents := filter (\<lambda>(j, _).
        \<not> (list_ex (\<lambda>(k', r). k' = k \<and> qr_id r \<noteq> i \<and> qr_id r = j) (quality_rows s)
           \<and> \<not> cut_needs j s)) (quality_intents s)\<rparr>"

definition sql_quality_media_intent_cut_released_delete :: "uuid \<Rightarrow> dialog_db \<Rightarrow> dialog_db" where
  "sql_quality_media_intent_cut_released_delete i s =
     s\<lparr>quality_intents := filter (\<lambda>(j, _). \<not> (j = i \<and> \<not> quality_has j s \<and> \<not> cut_needs j s))
        (quality_intents s)\<rparr>"

definition sql_quality_media_intent_put :: "uuid \<Rightarrow> request_data \<Rightarrow> dialog_db \<Rightarrow> dialog_db" where
  "sql_quality_media_intent_put i d s =
     (if i \<in> fst ` set (quality_intents s) then s
      else s\<lparr>quality_intents := quality_intents s @ [(i, d)]\<rparr>)"

definition quality_media_intent ::
  "text_reader \<Rightarrow> env \<Rightarrow> uuid \<Rightarrow> dialog_db \<Rightarrow> store_error + download_request option" where
  "quality_media_intent rd e i s =
     (if \<not> up e then Inl Database
      else traverse_option (read_request rd) (map_of (quality_intents s) i))"

section \<open>Shared steps of the two dialogs\<close>

definition authorize_dialog :: "store_config \<Rightarrow> env \<Rightarrow> u64 \<Rightarrow> dialog_db \<Rightarrow> store_error + unit" where
  "authorize_dialog cfg e actor s =
     (case dialog_authorization cfg of
        None \<Rightarrow> Inr ()
      | Some owner \<Rightarrow>
          if sql_deferred_media_authorize actor (clock e 0) (owner = Some actor) (accounts s)
          then Inr () else Inl Unauthorized)"

definition validate_scope :: "u64 \<Rightarrow> delivery_target \<Rightarrow> store_error + unit" where
  "validate_scope actor t =
     (if actor = 0 \<or> actor > i64_max \<or> sint (chat_id t) \<le> 0 \<or> chat_id t \<noteq> actor
         \<or> thread_id t \<noteq> None
      then Inl InvalidInput else Inr ())"

definition scope_of :: "u64 \<Rightarrow> delivery_target \<Rightarrow> scope" where
  "scope_of actor t = (sint actor, sint (bot_id t), sint (chat_id t))"

section \<open>Facts\<close>

lemma map_of_put_row: "map_of (put_row k r t) j = (if j = k then Some r else map_of t j)"
proof (cases "k \<in> fst ` set t")
  case True
  then have "map_of t k \<noteq> None" by (metis map_of_eq_None_iff)
  have "map_of (update_where (\<lambda>x. fst x = k) (\<lambda>x. (fst x, r)) t) j
      = (if j = k then map_option (\<lambda>_. r) (map_of t k) else map_of t j)"
    by (induction t) auto
  with True \<open>map_of t k \<noteq> None\<close> show ?thesis by (auto simp: put_row_def)
next
  case False
  then have "map_of t k = None" by (simp add: map_of_eq_None_iff)
  with False show ?thesis by (auto simp: put_row_def map_add_def split: option.splits)
qed

lemma keys_put_row: "map fst (put_row k r t) = (if k \<in> fst ` set t then map fst t else map fst t @ [k])"
proof -
  have "map fst (update_where (\<lambda>x. fst x = k) (\<lambda>x. (fst x, r)) t) = map fst t"
    by (induction t) auto
  then show ?thesis by (simp add: put_row_def)
qed

lemma distinct_put_row: "distinct (map fst t) \<Longrightarrow> distinct (map fst (put_row k r t))"
  by (simp add: keys_put_row)

text \<open>The label of a choice is read back exactly for the choices that are offered.\<close>

lemma listed_heights_text:
  assumes "(s, h) \<in> set listed_heights"
  shows "choice_text (Height h) = s" and "map_of listed_heights s = Some h" and "s \<notin> {''best'', ''audio'', []}"
  using assms unfolding listed_heights_def by (auto simp: listed_heights_def)

lemma choice_parse_text: "choice_parse s = Inr c \<Longrightarrow> choice_text c = s"
proof (cases "map_of listed_heights s")
  case (Some h)
  note t = listed_heights_text(1) [OF map_of_SomeD [OF Some]]
  show "choice_parse s = Inr c \<Longrightarrow> ?thesis"
    using Some t by (auto simp: choice_parse_def simp del: choice_text.simps(3) split: if_split_asm)
qed (auto simp: choice_parse_def split: if_splits)

lemma choice_parse_offered: "choice_parse s = Inr c \<Longrightarrow> offered c"
  by (frule choice_parse_text) (simp add: offered_def)

lemma offered_parse: "offered c \<Longrightarrow> choice_parse (choice_text c) = Inr c"
proof (cases c)
  case (Height h)
  show "offered c \<Longrightarrow> ?thesis"
  proof (cases "filter (\<lambda>(t, n). n = h) listed_heights")
    case Nil
    then have "choice_parse (choice_text c) = Inl InvalidInput"
      by (simp add: Height choice_parse_def) (simp add: listed_heights_def)
    then show "offered c \<Longrightarrow> ?thesis" by (simp add: offered_def)
  next
    case (Cons x xs)
    obtain t n where x: "x = (t, n)" by (cases x)
    have "x \<in> set (filter (\<lambda>(t, n). n = h) listed_heights)" by (simp add: Cons)
    then have m: "(t, h) \<in> set listed_heights" by (auto simp: x)
    have "choice_text c = t" using listed_heights_text(1) [OF m] by (simp add: Height)
    then show ?thesis using listed_heights_text(2,3) [OF m] by (simp add: choice_parse_def Height)
  qed
qed (simp_all add: choice_parse_def)

interpretation choice_label: label_codec choice_text choice_parse offered
  by unfold_locales (auto simp: offered_parse choice_parse_offered choice_parse_text)

end
