(* ===== verification/Cut.thy ===== *)
theory Cut
  imports Dialog_Tables
begin

text \<open>
  The cut dialog of \<open>backend/crates/yoink-storage/src/cut.rs\<close>: a draft with up to twenty clips,
  edited by callbacks that name its identifier and revision and by messages that must be newer
  than the last one, and confirmed once.
\<close>

section \<open>Stages and sessions\<close>

datatype cut_stage =
  CutStart | CutEnd | CutReady | CutQuality | CutConfirming | CutSubmitted | CutCancelled

fun cut_stage_text :: "cut_stage \<Rightarrow> string" where
  "cut_stage_text CutStart = ''start''" | "cut_stage_text CutEnd = ''end''"
| "cut_stage_text CutReady = ''ready''" | "cut_stage_text CutQuality = ''quality''"
| "cut_stage_text CutConfirming = ''confirming''" | "cut_stage_text CutSubmitted = ''submitted''"
| "cut_stage_text CutCancelled = ''cancelled''"

definition cut_stage_parse :: "string \<Rightarrow> store_error + cut_stage" where
  "cut_stage_parse s =
     (if s = ''start'' then Inr CutStart else if s = ''end'' then Inr CutEnd
      else if s = ''ready'' then Inr CutReady else if s = ''quality'' then Inr CutQuality
      else if s = ''confirming'' then Inr CutConfirming
      else if s = ''submitted'' then Inr CutSubmitted
      else if s = ''cancelled'' then Inr CutCancelled else Inl InvalidStoredData)"

interpretation cut_stage_label: label_codec cut_stage_text cut_stage_parse "\<lambda>_. True"
proof
  show "cut_stage_parse (cut_stage_text x) = Inr x" for x
    by (cases x) (simp_all add: cut_stage_parse_def)
  show "cut_stage_parse s = Inr x \<Longrightarrow> True \<and> cut_stage_text x = s" for s x
    by (auto simp: cut_stage_parse_def split: if_splits)
qed

record cut_session =
  cs_id :: uuid
  cs_revision :: i64
  cs_stage :: cut_stage
  cs_actor :: u64
  cs_target :: delivery_target
  cs_origin :: i32
  cs_last :: i32
  cs_start :: "f64 option"
  cs_end :: "f64 option"
  cs_clips :: "clip_range list"
  cs_editing :: "nat option"
  cs_operation :: "uuid option"
  cs_selected :: "quality_choice option"
  cs_begin :: "f64 option"
  cs_url :: "string option"
  cs_original :: "download_request option"
  cs_linked :: "uuid option"

definition valid_time :: "f64 \<Rightarrow> bool" where
  "valid_time v \<longleftrightarrow> f64_is_finite v \<and> f64_le (Fin 0) v"

section \<open>Reading and saving\<close>

text \<open>The original request of a draft that came from a quality draft.\<close>

definition original_ok ::
  "int \<Rightarrow> int \<Rightarrow> int \<Rightarrow> int \<Rightarrow> string option \<Rightarrow> uuid option \<Rightarrow> download_request \<Rightarrow> bool" where
  "original_ok actor b chat origin url linked r \<longleftrightarrow>
     (case target r of None \<Rightarrow> False
      | Some t \<Rightarrow>
          uint (actor_id r) = actor \<and> media_mode r = Video \<and> network r = network_none
          \<and> playlist (params r) = None \<and> clips (params r) = []
          \<and> url = Some (url_text (source_url r))
          \<and> sint (bot_id t) = b \<and> sint (chat_id t) = chat \<and> thread_id t = None
          \<and> map_option sint (reply_to_message_id t) = Some origin
          \<and> linked \<noteq> None)"

definition cut_shape_ok :: "cut_stage \<Rightarrow> clip_range list \<Rightarrow> nat option \<Rightarrow> bool" where
  "cut_shape_ok stage cl editing \<longleftrightarrow>
     pred_option (\<lambda>i. i < length cl) editing
     \<and> \<not> (stage \<in> {CutReady, CutQuality, CutConfirming, CutSubmitted} \<and> cl = [])
     \<and> \<not> (stage = CutCancelled \<and> cl \<noteq> [])
     \<and> \<not> (editing \<noteq> None \<and> stage \<notin> {CutStart, CutEnd})"

definition cut_decode :: "text_reader \<Rightarrow> scope \<times> cut_row \<Rightarrow> store_error + cut_session" where
  "cut_decode rd x =
     (case x of ((actor, b, chat), r) \<Rightarrow>
       res_bind (map_err InvalidStoredData
           (delivery_target_new (of_int b) (of_int chat) None (Some (of_int (cr_origin r))))) (\<lambda>t.
       res_bind (traverse_option choice_parse (cr_selected r)) (\<lambda>selected.
       if selected = Some AudioChoice then Inl InvalidStoredData
       else res_bind (cut_stage_parse (cr_stage r)) (\<lambda>stage.
       res_bind (traverse_option (read_request rd) (cr_original r)) (\<lambda>original.
       if \<not> pred_option (original_ok actor b chat (cr_origin r) (cr_url r) (cr_linked r)) original
          \<or> (cr_linked r \<noteq> None \<and> original = None \<and> stage \<noteq> CutCancelled)
       then Inl InvalidStoredData
       else res_bind (traverse_list (read_pair rd) (cr_clips r)) (\<lambda>stored.
       if length stored > 20 then Inl InvalidStoredData
       else res_bind (traverse_list (\<lambda>(s, e). map_err InvalidStoredData (clip_range_new s e))
           stored) (\<lambda>cl.
       res_bind (traverse_option (\<lambda>i. if i < 0 then Inl InvalidStoredData else Inr (nat i))
           (cr_editing r)) (\<lambda>editing.
       if \<not> cut_shape_ok stage cl editing \<or> actor < 0 then Inl InvalidStoredData
       else Inr \<lparr>cs_id = cr_id r, cs_revision = of_int (cr_revision r), cs_stage = stage,
                 cs_actor = of_int actor, cs_target = t, cs_origin = of_int (cr_origin r),
                 cs_last = of_int (cr_last r), cs_start = cr_start r, cs_end = cr_end r,
                 cs_clips = cl, cs_editing = editing, cs_operation = cr_operation r,
                 cs_selected = selected, cs_begin = cr_begin r, cs_url = cr_url r,
                 cs_original = original, cs_linked = cr_linked r\<rparr>))))))))"

definition cut_scope :: "cut_session \<Rightarrow> scope" where
  "cut_scope c = scope_of (cs_actor c) (cs_target c)"

definition cut_encode :: "cut_session \<Rightarrow> cut_row" where
  "cut_encode c =
     \<lparr>cr_id = cs_id c, cr_revision = sint (cs_revision c), cr_stage = cut_stage_text (cs_stage c),
      cr_origin = sint (cs_origin c), cr_last = sint (cs_last c), cr_url = cs_url c,
      cr_begin = cs_begin c, cr_start = cs_start c, cr_end = cs_end c,
      cr_operation = cs_operation c, cr_selected = map_option choice_text (cs_selected c),
      cr_original = map_option encode (cs_original c), cr_linked = cs_linked c,
      cr_clips = map (\<lambda>c. (start_seconds c, end_seconds c)) (cs_clips c),
      cr_editing = map_option int (cs_editing c)\<rparr>"

definition cut_put :: "cut_session \<Rightarrow> dialog_db \<Rightarrow> store_error + dialog_db" where
  "cut_put c s =
     (let prior = Option.bind (sql_cut_get (cut_scope c) s) cr_linked in
      res_bind (sql_cut_put (cut_scope c) (cut_encode c) s) (\<lambda>s.
        Inr (case prior of None \<Rightarrow> s
             | Some i \<Rightarrow> sql_quality_media_intent_cut_released_delete i s)))"

definition cut_current_row :: "text_reader \<Rightarrow> u64 \<Rightarrow> delivery_target \<Rightarrow> dialog_db \<Rightarrow> store_error + cut_session option" where
  "cut_current_row rd actor t s =
     traverse_option (\<lambda>r. cut_decode rd (scope_of actor t, r)) (sql_cut_get (scope_of actor t) s)"

definition cut_current ::
  "text_reader \<Rightarrow> env \<Rightarrow> u64 \<Rightarrow> delivery_target \<Rightarrow> dialog_db \<Rightarrow> store_error + cut_session option" where
  "cut_current rd e actor t s =
     res_bind (validate_scope actor t) (\<lambda>_.
       if \<not> up e then Inl Database else cut_current_row rd actor t s)"

definition cut_require ::
  "text_reader \<Rightarrow> u64 \<Rightarrow> delivery_target \<Rightarrow> uuid \<Rightarrow> i64 \<Rightarrow> dialog_db \<Rightarrow> store_error + cut_session" where
  "cut_require rd actor t i rv s =
     res_bind (validate_scope actor t) (\<lambda>_.
     res_bind (cut_current_row rd actor t s) (\<lambda>c.
     res_bind (ok_or Conflict c) (\<lambda>c.
       if cs_actor c \<noteq> actor \<or> bot_id (cs_target c) \<noteq> bot_id t
          \<or> chat_id (cs_target c) \<noteq> chat_id t \<or> cs_id c \<noteq> i \<or> cs_revision c \<noteq> rv
       then Inl Conflict else Inr c)))"

definition cut_require_choice_replay ::
  "text_reader \<Rightarrow> u64 \<Rightarrow> delivery_target \<Rightarrow> uuid \<Rightarrow> i64 \<Rightarrow> dialog_db \<Rightarrow> store_error + cut_session" where
  "cut_require_choice_replay rd actor t i rv s =
     res_bind (validate_scope actor t) (\<lambda>_.
     res_bind (cut_current_row rd actor t s) (\<lambda>c.
     res_bind (ok_or Conflict c) (\<lambda>c.
       let replay = cs_stage c \<in> {CutConfirming, CutSubmitted} \<and> rv = cs_revision c - 1 in
       if cs_id c \<noteq> i \<or> (cs_revision c \<noteq> rv \<and> \<not> replay) then Inl Conflict else Inr c)))"

section \<open>Changing a draft\<close>

text \<open>Save and commit; commit without a change; the next revision.\<close>

definition cut_save :: "cut_session \<Rightarrow> dialog_db \<Rightarrow> store_error + cut_session \<times> dialog_db" where
  "cut_save c s = res_bind (cut_put c s) (\<lambda>s. Inr (c, s))"

definition next_revision :: "cut_session \<Rightarrow> store_error + cut_session" where
  "next_revision c =
     res_bind (ok_or InvalidInput (checked_succ_i64 (cs_revision c))) (\<lambda>n.
       Inr (c\<lparr>cs_revision := n\<rparr>))"

definition first_start :: "clip_range list \<Rightarrow> f64 option" where
  "first_start cl = (case cl of [] \<Rightarrow> None | c # _ \<Rightarrow> Some (start_seconds c))"

definition first_end :: "clip_range list \<Rightarrow> f64 option" where
  "first_end cl = (case cl of [] \<Rightarrow> None | c # _ \<Rightarrow> Some (end_seconds c))"

definition cut_begin ::
  "text_reader \<Rightarrow> store_config \<Rightarrow> env \<Rightarrow> u64 \<Rightarrow> delivery_target \<Rightarrow> i32 \<Rightarrow> string \<Rightarrow> f64 option
    \<Rightarrow> dialog_db \<Rightarrow> cut_session dialog_outcome" where
  "cut_begin rd cfg e actor t message url start =
     checked (validate_scope actor t)
     (checked (if sint message \<le> 0 then Inl InvalidInput else Inr ())
     (checked (res_bind (map_err InvalidInput
           (download_request_new (read_url rd) actor url Video None download_params_default)) (\<lambda>r.
         if length (url_text (source_url r)) > 4096 then Inl InvalidInput else Inr ()))
     (checked (if pred_option valid_time start then Inr () else Inl InvalidInput)
       (transaction e (\<lambda>s.
         res_bind (authorize_dialog cfg e actor s) (\<lambda>_.
         res_bind (cut_current_row rd actor t s) (\<lambda>old.
           let fresh = (\<lambda>s.
             res_bind (map_err InvalidInput
                 (delivery_target_new (bot_id t) (chat_id t) None (Some message))) (\<lambda>rt.
               cut_save \<lparr>cs_id = fresh_id e, cs_revision = 1,
                 cs_stage = (if start \<noteq> None then CutEnd else CutStart), cs_actor = actor,
                 cs_target = rt, cs_origin = message, cs_last = message, cs_start = start,
                 cs_end = None, cs_clips = [], cs_editing = None, cs_operation = None,
                 cs_selected = None, cs_begin = start, cs_url = Some url, cs_original = None,
                 cs_linked = None\<rparr> s)) in
           case old of
             None \<Rightarrow> fresh s
           | Some c \<Rightarrow>
               if sint message \<le> sint (cs_last c) then
                 (if message = cs_origin c \<and> (cs_url c \<noteq> Some url \<or> cs_begin c \<noteq> start)
                  then Inl Conflict else Inr (c, s))
               else if cs_stage c = CutConfirming then Inl Conflict
               else fresh s)))))))"

definition cut_enter :: "f64 \<Rightarrow> bool \<Rightarrow> cut_session \<Rightarrow> store_error + cut_session" where
  "cut_enter value is_numeric c =
     (if cs_stage c = CutStart then Inr (c\<lparr>cs_start := Some value, cs_stage := CutEnd\<rparr>)
      else if cs_stage c = CutEnd then
        res_bind (ok_or InvalidStoredData (cs_start c)) (\<lambda>start.
          let fin = (if is_numeric \<and> f64_le value start then f64_add start value else value) in
          res_bind (map_err InvalidInput (clip_range_new start fin)) (\<lambda>range.
          res_bind (case cs_editing c of
              Some i \<Rightarrow> if i \<ge> length (cs_clips c) then Inl InvalidStoredData
                       else Inr ((cs_clips c)[i := range])
            | None \<Rightarrow> if length (cs_clips c) \<ge> 20 then Inl InvalidInput
                     else Inr (cs_clips c @ [range])) (\<lambda>cl.
            Inr (c\<lparr>cs_clips := cl, cs_editing := None, cs_start := first_start cl,
                   cs_end := first_end cl, cs_stage := CutReady\<rparr>))))
      else Inl InvalidInput)"

definition cut_input ::
  "text_reader \<Rightarrow> store_config \<Rightarrow> env \<Rightarrow> u64 \<Rightarrow> delivery_target \<Rightarrow> i32 \<Rightarrow> f64 \<Rightarrow> bool
    \<Rightarrow> dialog_db \<Rightarrow> cut_session option dialog_outcome" where
  "cut_input rd cfg e actor t message value is_numeric =
     checked (validate_scope actor t)
     (checked (if sint message \<le> 0 \<or> \<not> valid_time value then Inl InvalidInput else Inr ())
       (transaction e (\<lambda>s.
         res_bind (authorize_dialog cfg e actor s) (\<lambda>_.
         res_bind (cut_current_row rd actor t s) (\<lambda>old.
           case old of
             None \<Rightarrow> Inr (None, s)
           | Some c \<Rightarrow>
               if sint message \<le> sint (cs_last c) then Inr (Some c, s)
               else
                 res_bind (cut_enter value is_numeric c) (\<lambda>c'.
                 res_bind (if cs_stage c' \<noteq> cs_stage c then next_revision c' else Inr c') (\<lambda>c'.
                 res_bind (cut_put (c'\<lparr>cs_last := message\<rparr>) s) (\<lambda>s.
                   Inr (Some (c'\<lparr>cs_last := message\<rparr>), s)))))))))"

text \<open>The callbacks that name the draft by identifier and revision share their shape.\<close>

definition cut_callback ::
  "text_reader \<Rightarrow> store_config \<Rightarrow> env \<Rightarrow> u64 \<Rightarrow> delivery_target \<Rightarrow> uuid \<Rightarrow> i64
    \<Rightarrow> (cut_session \<Rightarrow> store_error + cut_session option) \<Rightarrow> dialog_db \<Rightarrow> cut_session dialog_outcome" where
  "cut_callback rd cfg e actor t i rv change =
     transaction e (\<lambda>s.
       res_bind (authorize_dialog cfg e actor s) (\<lambda>_.
       res_bind (cut_require rd actor t i rv s) (\<lambda>c.
       res_bind (change c) (\<lambda>changed.
         case changed of None \<Rightarrow> Inr (c, s) | Some c' \<Rightarrow> cut_save c' s))))"

definition editable :: "cut_session \<Rightarrow> bool" where
  "editable c \<longleftrightarrow> cs_stage c = CutReady \<or> cs_stage c = CutQuality"

definition edit_first :: "cut_session \<Rightarrow> store_error + cut_session option" where
  "edit_first c =
     (if \<not> editable c then Inl Conflict
      else res_bind (next_revision c) (\<lambda>c.
        Inr (Some (c\<lparr>cs_stage := CutStart, cs_start := None, cs_end := None,
          cs_editing := Some 0, cs_operation := None, cs_selected := None\<rparr>))))"

definition begin_segment :: "nat option \<Rightarrow> bool \<Rightarrow> cut_session \<Rightarrow> store_error + cut_session option" where
  "begin_segment index add_new c =
     (if \<not> editable c then Inl Conflict
      else if add_new \<and> length (cs_clips c) \<ge> 20 then Inl InvalidInput
      else if \<not> add_new \<and> (case index of None \<Rightarrow> True | Some i \<Rightarrow> i \<ge> length (cs_clips c))
      then Inl InvalidInput
      else res_bind (next_revision c) (\<lambda>c.
        Inr (Some (c\<lparr>cs_stage := CutStart, cs_start := None, cs_end := None,
          cs_editing := index, cs_selected := None, cs_operation := None\<rparr>))))"

definition delete_segment :: "nat \<Rightarrow> cut_session \<Rightarrow> store_error + cut_session option" where
  "delete_segment index c =
     (if \<not> editable c then Inl Conflict
      else if index \<ge> length (cs_clips c) then Inl InvalidInput
      else
        let cl = take index (cs_clips c) @ drop (Suc index) (cs_clips c) in
        res_bind (next_revision (c\<lparr>cs_clips := cl\<rparr>)) (\<lambda>c.
          let c = c\<lparr>cs_selected := None, cs_operation := None, cs_editing := None,
                    cs_start := first_start cl, cs_end := first_end cl\<rparr> in
          Inr (Some (if cl = [] then c\<lparr>cs_stage := CutStart, cs_start := None, cs_end := None\<rparr>
                     else c\<lparr>cs_stage := CutReady\<rparr>))))"

definition go_back :: "cut_session \<Rightarrow> store_error + cut_session option" where
  "go_back c =
     (if cs_stage c \<notin> {CutStart, CutEnd} \<or> cs_clips c = [] then Inl Conflict
      else res_bind (next_revision c) (\<lambda>c.
        Inr (Some (c\<lparr>cs_stage := CutReady, cs_start := first_start (cs_clips c),
          cs_end := first_end (cs_clips c), cs_editing := None, cs_selected := None\<rparr>))))"

definition cancel_draft :: "i32 option \<Rightarrow> cut_session \<Rightarrow> store_error + cut_session option" where
  "cancel_draft message c =
     (if cs_stage c = CutCancelled then Inr None
      else if cs_stage c \<notin> {CutStart, CutEnd, CutReady, CutQuality} then Inl Conflict
      else
        res_bind (case message of
            None \<Rightarrow> Inr c
          | Some m \<Rightarrow>
              if sint m \<le> 0 then Inl InvalidInput
              else if sint m \<le> sint (cs_last c) then Inl Conflict
              else Inr (c\<lparr>cs_last := m\<rparr>)) (\<lambda>c.
        res_bind (next_revision c) (\<lambda>c.
          Inr (Some (c\<lparr>cs_stage := CutCancelled, cs_start := None, cs_end := None,
            cs_selected := None, cs_clips := [], cs_editing := None, cs_original := None\<rparr>)))))"

definition claim_draft :: "cut_session \<Rightarrow> store_error + cut_session option" where
  "claim_draft c =
     (if cs_stage c = CutReady \<or> (cs_stage c = CutQuality \<and> cs_selected c \<noteq> None)
      then Inr (Some (c\<lparr>cs_stage := CutConfirming\<rparr>))
      else if cs_stage c \<in> {CutConfirming, CutSubmitted} then Inr None
      else Inl Conflict)"

definition ask_quality :: "cut_session \<Rightarrow> store_error + cut_session option" where
  "ask_quality c =
     (if cs_stage c \<noteq> CutReady then Inl Conflict
      else res_bind (next_revision (c\<lparr>cs_stage := CutQuality\<rparr>)) (\<lambda>c. Inr (Some c)))"

definition submit_draft :: "uuid \<Rightarrow> cut_session \<Rightarrow> store_error + cut_session option" where
  "submit_draft op c =
     (if cs_stage c = CutSubmitted then
        (if cs_operation c = Some op then Inr None else Inl Conflict)
      else if cs_stage c \<noteq> CutConfirming then Inl Conflict
      else Inr (Some (c\<lparr>cs_stage := CutSubmitted, cs_operation := Some op\<rparr>)))"

definition cut_edit ::
  "text_reader \<Rightarrow> store_config \<Rightarrow> env \<Rightarrow> u64 \<Rightarrow> delivery_target \<Rightarrow> uuid \<Rightarrow> i64
    \<Rightarrow> dialog_db \<Rightarrow> cut_session dialog_outcome" where
  "cut_edit rd cfg e actor t i rv = cut_callback rd cfg e actor t i rv edit_first"

definition cut_begin_segment ::
  "text_reader \<Rightarrow> store_config \<Rightarrow> env \<Rightarrow> u64 \<Rightarrow> delivery_target \<Rightarrow> uuid \<Rightarrow> i64 \<Rightarrow> nat option \<Rightarrow> bool
    \<Rightarrow> dialog_db \<Rightarrow> cut_session dialog_outcome" where
  "cut_begin_segment rd cfg e actor t i rv index add_new =
     cut_callback rd cfg e actor t i rv (begin_segment index add_new)"

definition cut_add ::
  "text_reader \<Rightarrow> store_config \<Rightarrow> env \<Rightarrow> u64 \<Rightarrow> delivery_target \<Rightarrow> uuid \<Rightarrow> i64
    \<Rightarrow> dialog_db \<Rightarrow> cut_session dialog_outcome" where
  "cut_add rd cfg e actor t i rv = cut_begin_segment rd cfg e actor t i rv None True"

definition cut_edit_segment ::
  "text_reader \<Rightarrow> store_config \<Rightarrow> env \<Rightarrow> u64 \<Rightarrow> delivery_target \<Rightarrow> uuid \<Rightarrow> i64 \<Rightarrow> nat
    \<Rightarrow> dialog_db \<Rightarrow> cut_session dialog_outcome" where
  "cut_edit_segment rd cfg e actor t i rv index =
     cut_begin_segment rd cfg e actor t i rv (Some index) False"

definition cut_delete_segment ::
  "text_reader \<Rightarrow> store_config \<Rightarrow> env \<Rightarrow> u64 \<Rightarrow> delivery_target \<Rightarrow> uuid \<Rightarrow> i64 \<Rightarrow> nat
    \<Rightarrow> dialog_db \<Rightarrow> cut_session dialog_outcome" where
  "cut_delete_segment rd cfg e actor t i rv index =
     cut_callback rd cfg e actor t i rv (delete_segment index)"

definition cut_back ::
  "text_reader \<Rightarrow> store_config \<Rightarrow> env \<Rightarrow> u64 \<Rightarrow> delivery_target \<Rightarrow> uuid \<Rightarrow> i64
    \<Rightarrow> dialog_db \<Rightarrow> cut_session dialog_outcome" where
  "cut_back rd cfg e actor t i rv = cut_callback rd cfg e actor t i rv go_back"

definition cut_cancel ::
  "text_reader \<Rightarrow> store_config \<Rightarrow> env \<Rightarrow> u64 \<Rightarrow> delivery_target \<Rightarrow> uuid \<Rightarrow> i64 \<Rightarrow> i32 option
    \<Rightarrow> dialog_db \<Rightarrow> cut_session dialog_outcome" where
  "cut_cancel rd cfg e actor t i rv message =
     cut_callback rd cfg e actor t i rv (cancel_draft message)"

definition cut_claim ::
  "text_reader \<Rightarrow> store_config \<Rightarrow> env \<Rightarrow> u64 \<Rightarrow> delivery_target \<Rightarrow> uuid \<Rightarrow> i64
    \<Rightarrow> dialog_db \<Rightarrow> cut_session dialog_outcome" where
  "cut_claim rd cfg e actor t i rv = cut_callback rd cfg e actor t i rv claim_draft"

definition cut_quality ::
  "text_reader \<Rightarrow> store_config \<Rightarrow> env \<Rightarrow> u64 \<Rightarrow> delivery_target \<Rightarrow> uuid \<Rightarrow> i64
    \<Rightarrow> dialog_db \<Rightarrow> cut_session dialog_outcome" where
  "cut_quality rd cfg e actor t i rv = cut_callback rd cfg e actor t i rv ask_quality"

definition cut_choose ::
  "text_reader \<Rightarrow> store_config \<Rightarrow> env \<Rightarrow> u64 \<Rightarrow> delivery_target \<Rightarrow> uuid \<Rightarrow> i64 \<Rightarrow> quality_choice
    \<Rightarrow> dialog_db \<Rightarrow> cut_session dialog_outcome" where
  "cut_choose rd cfg e actor t i rv choice =
     checked (if \<not> offered choice \<or> choice = AudioChoice then Inl InvalidInput else Inr ())
       (transaction e (\<lambda>s.
         res_bind (authorize_dialog cfg e actor s) (\<lambda>_.
         res_bind (cut_require_choice_replay rd actor t i rv s) (\<lambda>c.
           if cs_stage c \<in> {CutConfirming, CutSubmitted} \<and> cs_selected c = Some choice
              \<and> (rv = cs_revision c \<or> rv = cs_revision c - 1)
           then Inr (c, s)
           else if cs_stage c \<noteq> CutQuality then Inl Conflict
           else res_bind (next_revision (c\<lparr>cs_stage := CutConfirming, cs_selected := Some choice\<rparr>))
             (\<lambda>c. cut_save c s)))))"

definition cut_submitted ::
  "text_reader \<Rightarrow> store_config \<Rightarrow> env \<Rightarrow> u64 \<Rightarrow> delivery_target \<Rightarrow> uuid \<Rightarrow> i64 \<Rightarrow> uuid
    \<Rightarrow> dialog_db \<Rightarrow> cut_session dialog_outcome" where
  "cut_submitted rd cfg e actor t i rv op = cut_callback rd cfg e actor t i rv (submit_draft op)"

end
