(* ===== verification/Quality.thy ===== *)
theory Quality
  imports Cut
begin

text \<open>
  The quality dialog of \<open>backend/crates/yoink-storage/src/quality.rs\<close>: a draft of a video request
  whose quality the actor chooses, confirmed and submitted once, or handed over to a cut draft
  in one transaction.
\<close>

section \<open>Stages and sessions\<close>

datatype quality_stage = Choosing | Confirming | Submitted | QualityCancelled | Cutting

fun quality_stage_text :: "quality_stage \<Rightarrow> string" where
  "quality_stage_text Choosing = ''choosing''" | "quality_stage_text Confirming = ''confirming''"
| "quality_stage_text Submitted = ''submitted''"
| "quality_stage_text QualityCancelled = ''cancelled''" | "quality_stage_text Cutting = ''cutting''"

definition quality_stage_parse :: "string \<Rightarrow> store_error + quality_stage" where
  "quality_stage_parse s =
     (if s = ''choosing'' then Inr Choosing else if s = ''confirming'' then Inr Confirming
      else if s = ''submitted'' then Inr Submitted
      else if s = ''cancelled'' then Inr QualityCancelled
      else if s = ''cutting'' then Inr Cutting else Inl InvalidStoredData)"

interpretation quality_stage_label: label_codec quality_stage_text quality_stage_parse "\<lambda>_. True"
proof
  show "quality_stage_parse (quality_stage_text x) = Inr x" for x
    by (cases x) (simp_all add: quality_stage_parse_def)
  show "quality_stage_parse s = Inr x \<Longrightarrow> True \<and> quality_stage_text x = s" for s x
    by (auto simp: quality_stage_parse_def split: if_splits)
qed

record quality_session =
  qs_id :: uuid
  qs_revision :: i64
  qs_stage :: quality_stage
  qs_target :: delivery_target
  qs_origin :: i32
  qs_selected :: "quality_choice option"
  qs_operation :: "uuid option"
  qs_cut :: "uuid option"
  qs_request :: download_request
  qs_last :: i32

section \<open>Reading and saving\<close>

definition is_quality_draft :: "download_request \<Rightarrow> bool" where
  "is_quality_draft r \<longleftrightarrow>
     (case with_clips (clips (params r))
        (download_params_default\<lparr>engine := engine (params r), playlist := playlist (params r)\<rparr>) of
        Inl _ \<Rightarrow> False
      | Inr expected \<Rightarrow> expected = params r)
     \<and> pred_option (\<lambda>o'. o_max_height o' = None \<and> o_gallery_zip o' = None
          \<and> o_subtitle_language o' = None \<and> o_subtitle_automatic o' = None) (preference_overrides r)"

definition validate_revision :: "u64 \<Rightarrow> delivery_target \<Rightarrow> i64 \<Rightarrow> store_error + unit" where
  "validate_revision actor t rv =
     res_bind (validate_scope actor t) (\<lambda>_. if sint rv \<le> 0 then Inl InvalidInput else Inr ())"

text \<open>The target of the request is the message the draft was opened by.\<close>

definition request_at :: "i64 \<Rightarrow> i64 \<Rightarrow> i32 option \<Rightarrow> download_request \<Rightarrow> bool" where
  "request_at b chat reply r \<longleftrightarrow>
     (case target r of None \<Rightarrow> False
      | Some t \<Rightarrow> bot_id t = b \<and> chat_id t = chat \<and> thread_id t = None
          \<and> reply_to_message_id t = reply)"

definition expected_revision :: "quality_stage \<Rightarrow> i64" where
  "expected_revision st =
     (case st of Choosing \<Rightarrow> 1 | Confirming \<Rightarrow> 2 | QualityCancelled \<Rightarrow> 2 | Submitted \<Rightarrow> 3
      | Cutting \<Rightarrow> 2)"

definition quality_decode :: "text_reader \<Rightarrow> scope \<times> quality_row \<Rightarrow> store_error + quality_session" where
  "quality_decode rd x =
     (case x of ((actor, b, chat), r) \<Rightarrow>
       res_bind (map_err InvalidStoredData
           (delivery_target_new (of_int b) (of_int chat) None (Some (of_int (qr_origin r))))) (\<lambda>t.
       res_bind (read_request rd (qr_request r)) (\<lambda>req.
       if actor \<le> 0 \<or> uint (actor_id req) \<noteq> actor \<or> media_mode req \<noteq> Video
          \<or> \<not> is_quality_draft req \<or> network req \<noteq> network_none
          \<or> length (url_text (source_url req)) > 4096
          \<or> \<not> request_at (bot_id t) (chat_id t) (reply_to_message_id t) req
       then Inl InvalidStoredData
       else res_bind (quality_stage_parse (qr_stage r)) (\<lambda>stage.
       res_bind (traverse_option choice_parse (qr_selected r)) (\<lambda>selected.
       if (stage = Cutting) \<noteq> (qr_cut r \<noteq> None) then Inl InvalidStoredData
       else if of_int (qr_revision r) \<noteq> expected_revision stage
          \<or> qr_origin r \<le> 0 \<or> qr_last r < qr_origin r
          \<or> (stage \<in> {Confirming, Submitted}) \<noteq> (selected \<noteq> None)
          \<or> (stage = Submitted) \<noteq> (qr_operation r \<noteq> None)
       then Inl InvalidStoredData
       else Inr \<lparr>qs_id = qr_id r, qs_revision = of_int (qr_revision r), qs_stage = stage,
                 qs_target = t, qs_origin = of_int (qr_origin r), qs_selected = selected,
                 qs_operation = qr_operation r, qs_cut = qr_cut r, qs_request = req,
                 qs_last = of_int (qr_last r)\<rparr>)))))"

definition quality_encode :: "quality_session \<Rightarrow> quality_row" where
  "quality_encode q =
     \<lparr>qr_id = qs_id q, qr_revision = sint (qs_revision q),
      qr_stage = quality_stage_text (qs_stage q), qr_origin = sint (qs_origin q),
      qr_last = sint (qs_last q), qr_request = encode (qs_request q),
      qr_selected = map_option choice_text (qs_selected q), qr_operation = qs_operation q,
      qr_cut = qs_cut q\<rparr>"

definition quality_put :: "u64 \<Rightarrow> quality_session \<Rightarrow> dialog_db \<Rightarrow> store_error + dialog_db" where
  "quality_put actor q s =
     (let k = scope_of actor (qs_target q) in
      sql_quality_put k (quality_encode q) (sql_quality_media_intent_superseded_delete k (qs_id q) s))"

definition quality_current_row ::
  "text_reader \<Rightarrow> u64 \<Rightarrow> delivery_target \<Rightarrow> dialog_db \<Rightarrow> store_error + quality_session option" where
  "quality_current_row rd actor t s =
     traverse_option (\<lambda>r. quality_decode rd (scope_of actor t, r))
       (sql_quality_get (scope_of actor t) s)"

definition quality_current ::
  "text_reader \<Rightarrow> env \<Rightarrow> u64 \<Rightarrow> delivery_target \<Rightarrow> dialog_db \<Rightarrow> store_error + quality_session option" where
  "quality_current rd e actor t s =
     res_bind (validate_scope actor t) (\<lambda>_.
       if \<not> up e then Inl Database else quality_current_row rd actor t s)"

definition quality_get ::
  "text_reader \<Rightarrow> u64 \<Rightarrow> delivery_target \<Rightarrow> uuid \<Rightarrow> i64 \<Rightarrow> dialog_db \<Rightarrow> store_error + quality_session" where
  "quality_get rd actor t i rv s =
     res_bind (validate_revision actor t rv) (\<lambda>_.
     res_bind (ok_or NotFoundOrStale (sql_quality_get (scope_of actor t) s)) (\<lambda>r.
     res_bind (quality_decode rd (scope_of actor t, r)) (\<lambda>q.
       if qs_id q \<noteq> i
          \<or> \<not> (qs_revision q = rv
               \<or> (qs_stage q \<in> {Confirming, QualityCancelled} \<and> qs_revision q - 1 = rv))
       then Inl NotFoundOrStale else Inr q)))"

definition quality_save ::
  "u64 \<Rightarrow> quality_session \<Rightarrow> dialog_db \<Rightarrow> store_error + quality_session \<times> dialog_db" where
  "quality_save actor q s = res_bind (quality_put actor q s) (\<lambda>s. Inr (q, s))"

section \<open>Operations\<close>

definition quality_begin_media ::
  "text_reader \<Rightarrow> store_config \<Rightarrow> env \<Rightarrow> u64 \<Rightarrow> delivery_target \<Rightarrow> i32 \<Rightarrow> download_request
    \<Rightarrow> download_request option \<Rightarrow> dialog_db \<Rightarrow> quality_session dialog_outcome" where
  "quality_begin_media rd cfg e actor t message r original =
     checked (validate_scope actor t)
     (checked (if sint message \<le> 0 \<or> actor_id r \<noteq> actor \<or> length (url_text (source_url r)) > 4096
            \<or> media_mode r \<noteq> Video \<or> \<not> is_quality_draft r \<or> network r \<noteq> network_none
            \<or> \<not> request_at (bot_id t) (chat_id t) (Some message) r
          then Inl InvalidInput else Inr ())
       (transaction e (\<lambda>s.
         res_bind (authorize_dialog cfg e actor s) (\<lambda>_.
         res_bind (quality_current_row rd actor t s) (\<lambda>old.
           let fresh = (\<lambda>s.
             res_bind (map_err InvalidInput
                 (delivery_target_new (bot_id t) (chat_id t) None (Some message))) (\<lambda>rt.
             res_bind (quality_save actor \<lparr>qs_id = fresh_id e, qs_revision = 1, qs_stage = Choosing,
                 qs_target = rt, qs_origin = message, qs_selected = None, qs_operation = None,
                 qs_cut = None, qs_request = r, qs_last = message\<rparr> s) (\<lambda>(q, s).
               Inr (q, case original of None \<Rightarrow> s
                 | Some o' \<Rightarrow> sql_quality_media_intent_put (qs_id q) (encode o') s)))) in
           case old of
             None \<Rightarrow> fresh s
           | Some prior \<Rightarrow>
               if sint message \<le> sint (qs_last prior) then
                 (if message = qs_origin prior \<and> encode (qs_request prior) \<noteq> encode r
                  then Inl Conflict else Inr (prior, s))
               else if qs_stage prior = Confirming then Inl Conflict
               else fresh s)))))"

definition quality_begin ::
  "text_reader \<Rightarrow> store_config \<Rightarrow> env \<Rightarrow> u64 \<Rightarrow> delivery_target \<Rightarrow> i32 \<Rightarrow> download_request
    \<Rightarrow> dialog_db \<Rightarrow> quality_session dialog_outcome" where
  "quality_begin rd cfg e actor t message r =
     quality_begin_media rd cfg e actor t message r None"

definition quality_claim ::
  "text_reader \<Rightarrow> store_config \<Rightarrow> env \<Rightarrow> u64 \<Rightarrow> delivery_target \<Rightarrow> uuid \<Rightarrow> i64 \<Rightarrow> quality_choice
    \<Rightarrow> dialog_db \<Rightarrow> quality_session dialog_outcome" where
  "quality_claim rd cfg e actor t i rv choice =
     checked (validate_revision actor t rv)
     (checked (if \<not> offered choice then Inl InvalidInput else Inr ())
       (transaction e (\<lambda>s.
         res_bind (authorize_dialog cfg e actor s) (\<lambda>_.
         res_bind (quality_get rd actor t i rv s) (\<lambda>q.
           if qs_stage q = Confirming \<and> qs_selected q = Some choice
              \<and> (rv = qs_revision q \<or> rv = qs_revision q - 1)
           then Inr (q, s)
           else if qs_stage q \<noteq> Choosing then Inl Conflict
           else quality_save actor (q\<lparr>qs_stage := Confirming, qs_revision := qs_revision q + 1,
             qs_selected := Some choice\<rparr>) s)))))"

definition quality_cancel ::
  "text_reader \<Rightarrow> store_config \<Rightarrow> env \<Rightarrow> u64 \<Rightarrow> delivery_target \<Rightarrow> uuid \<Rightarrow> i64
    \<Rightarrow> dialog_db \<Rightarrow> quality_session dialog_outcome" where
  "quality_cancel rd cfg e actor t i rv =
     checked (validate_revision actor t rv)
       (transaction e (\<lambda>s.
         res_bind (authorize_dialog cfg e actor s) (\<lambda>_.
         res_bind (quality_get rd actor t i rv s) (\<lambda>q.
           if qs_stage q = QualityCancelled \<and> rv = qs_revision q - 1 then Inr (q, s)
           else if qs_stage q \<noteq> Choosing then Inl Conflict
           else quality_save actor
             (q\<lparr>qs_stage := QualityCancelled, qs_revision := qs_revision q + 1\<rparr>) s))))"

definition quality_submitted ::
  "text_reader \<Rightarrow> store_config \<Rightarrow> env \<Rightarrow> u64 \<Rightarrow> delivery_target \<Rightarrow> uuid \<Rightarrow> i64 \<Rightarrow> uuid
    \<Rightarrow> dialog_db \<Rightarrow> quality_session dialog_outcome" where
  "quality_submitted rd cfg e actor t i rv op =
     checked (validate_revision actor t rv)
       (transaction e (\<lambda>s.
         res_bind (authorize_dialog cfg e actor s) (\<lambda>_.
         res_bind (quality_get rd actor t i rv s) (\<lambda>q.
           if qs_stage q = Submitted \<and> qs_operation q = Some op then Inr (q, s)
           else if qs_stage q \<noteq> Confirming \<or> rv \<noteq> qs_revision q then Inl Conflict
           else quality_save actor (q\<lparr>qs_stage := Submitted, qs_revision := qs_revision q + 1,
             qs_operation := Some op\<rparr>) s))))"

section \<open>Handing over to a cut\<close>

definition handoff_cut :: "env \<Rightarrow> u64 \<Rightarrow> delivery_target \<Rightarrow> quality_session \<Rightarrow> store_error + cut_session" where
  "handoff_cut e actor t q =
     res_bind (map_err InvalidInput
         (delivery_target_new (bot_id t) (chat_id t) None (Some (qs_origin q)))) (\<lambda>rt.
       let r = qs_request q; range = clip_range r in
       Inr \<lparr>cs_id = fresh_id e, cs_revision = 1,
            cs_stage = (if range \<noteq> None then CutReady else CutStart), cs_actor = actor,
            cs_target = rt, cs_origin = qs_origin q, cs_last = qs_origin q,
            cs_start = map_option start_seconds range, cs_end = map_option end_seconds range,
            cs_clips = (case range of None \<Rightarrow> [] | Some c \<Rightarrow> [c]), cs_editing = None,
            cs_operation = None, cs_selected = None, cs_begin = map_option start_seconds range,
            cs_url = Some (url_text (source_url r)), cs_original = Some r,
            cs_linked = Some (qs_id q)\<rparr>)"

definition quality_cut ::
  "text_reader \<Rightarrow> store_config \<Rightarrow> env \<Rightarrow> u64 \<Rightarrow> delivery_target \<Rightarrow> uuid \<Rightarrow> i64
    \<Rightarrow> dialog_db \<Rightarrow> cut_session dialog_outcome" where
  "quality_cut rd cfg e actor t i rv =
     checked (validate_revision actor t rv)
       (transaction e (\<lambda>s.
         res_bind (authorize_dialog cfg e actor s) (\<lambda>_.
         res_bind (ok_or NotFoundOrStale (sql_quality_get (scope_of actor t) s)) (\<lambda>row.
         res_bind (quality_decode rd (scope_of actor t, row)) (\<lambda>q.
           if qs_id q \<noteq> i then Inl Conflict
           else if qs_stage q = Cutting then
             (if rv \<noteq> qs_revision q \<and> rv \<noteq> qs_revision q - 1 then Inl Conflict
              else res_bind (ok_or InvalidStoredData (qs_cut q)) (\<lambda>linked.
                res_bind (cut_current_row rd actor t s) (\<lambda>c.
                res_bind (ok_or Conflict c) (\<lambda>c.
                  if cs_id c \<noteq> linked \<or> cs_linked c \<noteq> Some i then Inl Conflict else Inr (c, s)))))
           else if qs_stage q \<noteq> Choosing \<or> qs_revision q \<noteq> rv then Inl Conflict
           else if playlist (params (qs_request q)) \<noteq> None \<or> clips (params (qs_request q)) \<noteq> []
           then Inl InvalidInput
           else res_bind (cut_current_row rd actor t s) (\<lambda>active.
             if (case active of None \<Rightarrow> False
                 | Some c \<Rightarrow> sint (cs_last c) \<ge> sint (qs_origin q)
                     \<or> cs_stage c \<in> {CutStart, CutEnd, CutReady, CutQuality, CutConfirming})
             then Inl Conflict
             else res_bind (handoff_cut e actor t q) (\<lambda>c.
               res_bind (ok_or InvalidInput (checked_succ_i64 (qs_revision q))) (\<lambda>n.
               res_bind (quality_put actor (q\<lparr>qs_stage := Cutting, qs_revision := n,
                   qs_cut := Some (cs_id c)\<rparr>) s) (\<lambda>s.
               res_bind (cut_put c s) (\<lambda>s. Inr (c, s)))))))))))"

end
