(* ===== verification/Dialog_Invariant.thy ===== *)
theory Dialog_Invariant
  imports Quality
begin

text \<open>
  What holds of a stored draft: the drafts of the two dialogs as typed tables. A draft that
  satisfies its invariant passes the constraints of its table; it is read back as it was saved
  but for the bounds of its clips, which are what the reader of JSON makes of them, and where
  these are no clip any more it is refused. The invariant of the whole state adds that no stored
  original is an orphan.
\<close>

text \<open>A key of three numbers is treated as one value.\<close>

declare split_paired_All [simp del] split_paired_Ex [simp del]

section \<open>Well-formed drafts\<close>

definition draft_place :: "u64 \<Rightarrow> delivery_target \<Rightarrow> i32 \<Rightarrow> i32 \<Rightarrow> bool" where
  "draft_place actor t origin latest \<longleftrightarrow>
     scope_checks (scope_of actor t) \<and> message_checks (sint origin) (sint latest)
     \<and> thread_id t = None \<and> reply_to_message_id t = Some origin"

definition cut_original_wf :: "text_reader \<Rightarrow> cut_session \<Rightarrow> bool" where
  "cut_original_wf rd c \<longleftrightarrow>
     (case cs_original c of
        None \<Rightarrow> cs_linked c = None \<or> cs_stage c = CutCancelled
      | Some r \<Rightarrow> request_wf (read_url rd) r \<and> storable r
          \<and> original_ok (sint (cs_actor c)) (sint (bot_id (cs_target c))) (sint (chat_id (cs_target c)))
              (sint (cs_origin c)) (cs_url c) (cs_linked c) r)"

definition span_ok :: "f64 option \<Rightarrow> f64 option \<Rightarrow> bool" where
  "span_ok start fin \<longleftrightarrow> (case (start, fin) of (Some s, Some e) \<Rightarrow> f64_less s e | _ \<Rightarrow> False)"

definition cut_stage_wf :: "cut_session \<Rightarrow> bool" where
  "cut_stage_wf c \<longleftrightarrow>
     (cs_stage c = CutCancelled \<or> cs_url c \<noteq> None)
     \<and> pred_option valid_time (cs_begin c) \<and> pred_option valid_time (cs_start c)
     \<and> (cs_stage c \<noteq> CutEnd \<or> cs_start c \<noteq> None)
     \<and> (cs_stage c \<notin> {CutReady, CutQuality, CutConfirming, CutSubmitted}
        \<or> span_ok (cs_start c) (cs_end c))
     \<and> (cs_selected c = None \<or> cs_stage c \<in> {CutConfirming, CutSubmitted})
     \<and> pred_option (\<lambda>q. offered q \<and> q \<noteq> AudioChoice) (cs_selected c)
     \<and> (cs_stage c = CutSubmitted \<longleftrightarrow> cs_operation c \<noteq> None)"

definition cut_wf :: "text_reader \<Rightarrow> cut_session \<Rightarrow> bool" where
  "cut_wf rd c \<longleftrightarrow>
     draft_place (cs_actor c) (cs_target c) (cs_origin c) (cs_last c) \<and> 0 < sint (cs_revision c)
     \<and> length (cs_clips c) \<le> 20 \<and> list_all clip_wf (cs_clips c)
     \<and> cut_shape_ok (cs_stage c) (cs_clips c) (cs_editing c)
     \<and> cut_original_wf rd c \<and> cut_stage_wf c"

definition quality_scope :: "quality_session \<Rightarrow> scope" where
  "quality_scope q = scope_of (actor_id (qs_request q)) (qs_target q)"

definition draft_request :: "text_reader \<Rightarrow> delivery_target \<Rightarrow> i32 \<Rightarrow> download_request \<Rightarrow> bool" where
  "draft_request rd t origin r \<longleftrightarrow>
     request_wf (read_url rd) r \<and> media_mode r = Video \<and> is_quality_draft r \<and> network r = network_none
     \<and> length (url_text (source_url r)) \<le> 4096
     \<and> request_at (bot_id t) (chat_id t) (Some origin) r"

definition quality_wf :: "text_reader \<Rightarrow> quality_session \<Rightarrow> bool" where
  "quality_wf rd q \<longleftrightarrow>
     draft_place (actor_id (qs_request q)) (qs_target q) (qs_origin q) (qs_last q)
     \<and> draft_request rd (qs_target q) (qs_origin q) (qs_request q)
     \<and> qs_revision q = expected_revision (qs_stage q)
     \<and> (qs_stage q \<in> {Confirming, Submitted} \<longleftrightarrow> qs_selected q \<noteq> None)
     \<and> pred_option offered (qs_selected q)
     \<and> (qs_stage q = Submitted \<longleftrightarrow> qs_operation q \<noteq> None)
     \<and> (qs_stage q = Cutting \<longleftrightarrow> qs_cut q \<noteq> None)"

section \<open>Drafts are read back\<close>

lemma uint_nonneg_64: "0 \<le> sint w \<Longrightarrow> uint (w :: 64 word) = sint w"
  using sint_bounds_64 [of w] by (subst uint_sint) (simp add: take_bit_int_eq_self)

lemma place_target:
  assumes "draft_place a t origin latest"
  shows "delivery_target_new (bot_id t) (chat_id t) None (Some origin) = Inr t"
  using assms
  by (auto simp: draft_place_def scope_checks_def scope_of_def message_checks_def
      delivery_target_new_def)

lemma place_origin: "draft_place a t origin latest \<Longrightarrow> 0 < sint origin \<and> sint origin \<le> sint latest"
  by (simp add: draft_place_def message_checks_def)

lemma place_scope:
  "draft_place a t origin latest \<Longrightarrow> 0 < sint a \<and> 0 < sint (bot_id t)"
  by (simp add: draft_place_def scope_checks_def scope_of_def)

lemma place_checks:
  "draft_place a t origin latest \<Longrightarrow>
    scope_checks (scope_of a t) \<and> message_checks (sint origin) (sint latest)"
  by (simp add: draft_place_def)

lemma offered_text:
  "offered q \<Longrightarrow> choice_text q \<in> {''best'', ''audio''} \<union> fst ` set listed_heights
     \<and> (q \<noteq> AudioChoice \<longrightarrow> choice_text q \<in> {''best''} \<union> fst ` set listed_heights)"
proof (cases q)
  case (Height h)
  assume "offered q"
  from offered_parse [OF this] obtain n where "map_of listed_heights (choice_text q) = Some n"
    by (auto simp: choice_parse_def Height split: if_splits option.splits)
  from map_of_SomeD [OF this] show ?thesis by force
qed simp_all

lemma traverse_choice:
  "pred_option offered x \<Longrightarrow> traverse_option choice_parse (map_option choice_text x) = Inr x"
  by (cases x) (simp_all add: offered_parse)

lemma traverse_editing:
  "traverse_option (\<lambda>i. if i < 0 then Inl InvalidStoredData else Inr (nat i)) (map_option int x) = Inr x"
  by (cases x) simp_all

section \<open>What reading does to a draft\<close>

definition reread_clip :: "text_reader \<Rightarrow> clip_range \<Rightarrow> store_error + clip_range" where
  "reread_clip rd c =
     res_bind (read_pair rd (start_seconds c, end_seconds c)) (\<lambda>(s, e).
       map_err InvalidStoredData (clip_range_new s e))"

definition with_read_clips ::
  "clip_range option \<Rightarrow> clip_range list \<Rightarrow> download_request \<Rightarrow> download_request" where
  "with_read_clips rng cl r = r\<lparr>clip_range := rng, params := (params r)\<lparr>clips := cl\<rparr>\<rparr>"

definition reread_request :: "text_reader \<Rightarrow> download_request \<Rightarrow> store_error + download_request" where
  "reread_request rd r =
     res_bind (traverse_option (reread_clip rd) (clip_range r)) (\<lambda>rng.
     res_bind (traverse_list (reread_clip rd) (clips (params r))) (\<lambda>cl.
       Inr (with_read_clips rng cl r)))"

definition reread_cut :: "text_reader \<Rightarrow> cut_session \<Rightarrow> store_error + cut_session" where
  "reread_cut rd c =
     res_bind (traverse_option (reread_request rd) (cs_original c)) (\<lambda>original.
     res_bind (traverse_list (reread_clip rd) (cs_clips c)) (\<lambda>cl.
       Inr (c\<lparr>cs_original := original, cs_clips := cl\<rparr>)))"

definition reread_quality :: "text_reader \<Rightarrow> quality_session \<Rightarrow> store_error + quality_session" where
  "reread_quality rd q =
     res_bind (reread_request rd (qs_request q)) (\<lambda>r. Inr (q\<lparr>qs_request := r\<rparr>))"

lemma reread_clip_wf: "reread_clip rd c = Inr c' \<Longrightarrow> clip_wf c'"
  by (auto simp: reread_clip_def res_bind_Inr_iff split: prod.splits dest: clip_range_newD)

lemma reread_clips_wf:
  "traverse_list (reread_clip rd) cl = Inr cl' \<Longrightarrow> list_all clip_wf cl' \<and> length cl' = length cl"
  using traverse_list_pred [of "reread_clip rd" cl cl' clip_wf] reread_clip_wf traverse_list_length by blast

lemma reread_range_wf:
  "traverse_option (reread_clip rd) x = Inr y \<Longrightarrow> pred_option clip_wf y \<and> (y = None \<longleftrightarrow> x = None)"
  by (cases x) (auto simp: res_bind_Inr_iff reread_clip_wf)

text \<open>A request stays well formed, and what it is for, whatever its clips are read as.\<close>

lemma validate_mode_clips:
  "(rng = None \<longleftrightarrow> c = None) \<Longrightarrow> (cl = [] \<longleftrightarrow> clips p = []) \<Longrightarrow>
    validate_mode (p\<lparr>clips := cl\<rparr>) m rng = validate_mode p m c"
  by (simp add: validate_mode_def)

lemma with_read_clips_simps [simp]:
  "clip_range (with_read_clips rng cl r) = rng" "clips (params (with_read_clips rng cl r)) = cl"
  "playlist (params (with_read_clips rng cl r)) = playlist (params r)"
  "actor_id (with_read_clips rng cl r) = actor_id r" "source_url (with_read_clips rng cl r) = source_url r"
  "media_mode (with_read_clips rng cl r) = media_mode r" "target (with_read_clips rng cl r) = target r"
  "network (with_read_clips rng cl r) = network r"
  "preference_overrides (with_read_clips rng cl r) = preference_overrides r"
  by (simp_all add: with_read_clips_def)

lemma reread_request_Inr:
  assumes "reread_request rd r = Inr r'"
  obtains rng cl where "r' = with_read_clips rng cl r" "pred_option clip_wf rng"
    "rng = None \<longleftrightarrow> clip_range r = None" "list_all clip_wf cl" "length cl = length (clips (params r))"
  using assms reread_range_wf reread_clips_wf
  by (fastforce simp: reread_request_def res_bind_Inr_iff)

lemma reread_request_wf:
  assumes "reread_request rd r = Inr r'" and "request_wf parse r" shows "request_wf parse r'"
proof -
  from assms(1) obtain rng cl where r': "r' = with_read_clips rng cl r" "pred_option clip_wf rng"
    "rng = None \<longleftrightarrow> clip_range r = None" "list_all clip_wf cl" "length cl = length (clips (params r))"
    by (rule reread_request_Inr)
  have "cl = [] \<longleftrightarrow> clips (params r) = []" using r'(5) by (metis length_0_conv)
  with r' assms(2) show ?thesis
    by (simp add: request_wf_def with_read_clips_def params_wf_def validate_mode_clips [OF r'(3)])
qed

lemma storable_read_clips [simp]: "storable (with_read_clips rng cl r) = storable r"
  by (simp add: storable_def)

lemma reread_request_original:
  assumes "reread_request rd r = Inr r'"
  shows "original_ok actor b chat origin url linked r' = original_ok actor b chat origin url linked r"
    and "storable r' = storable r"
  using assms by (auto elim!: reread_request_Inr simp: original_ok_def split: option.splits)

lemma reread_request_draft:
  assumes "reread_request rd r = Inr r'" and "draft_request rd t origin r" shows "draft_request rd t origin r'"
proof -
  from assms(1) obtain rng cl where r': "r' = with_read_clips rng cl r"
    "length cl = length (clips (params r))"
    by (rule reread_request_Inr)
  have "is_quality_draft r" using assms(2) by (simp add: draft_request_def)
  then have n: "length (clips (params r)) \<le> 20"
    and eq: "download_params_default\<lparr>engine := engine (params r), playlist := playlist (params r),
      clips := clips (params r)\<rparr> = params r"
    by (auto simp: is_quality_draft_def with_clips_def split: if_splits)
  from arg_cong [OF eq, of "\<lambda>p. p\<lparr>clips := cl\<rparr>"] have
    "download_params_default\<lparr>engine := engine (params r), playlist := playlist (params r), clips := cl\<rparr>
      = params r\<lparr>clips := cl\<rparr>" by simp
  with \<open>is_quality_draft r\<close> n r'(2) have "is_quality_draft r'"
    by (simp add: is_quality_draft_def with_clips_def r'(1) with_read_clips_def)
  then show ?thesis
    using assms(2) reread_request_wf [OF assms(1)]
    by (auto simp: draft_request_def request_at_def r'(1) split: option.splits)
qed

text \<open>Reading what was written is the re-reading of the clips and nothing else.\<close>

lemma read_clip_data_encode:
  "read_clip_data rd (encode_clip c) = res_bind (read_pair rd (start_seconds c, end_seconds c))
     (\<lambda>(s, e). Inr \<lparr>cd_start_seconds = s, cd_end_seconds = e\<rparr>)"
  by (simp add: read_clip_data_def encode_clip_def)

lemma reread_clip_data:
  "res_bind (read_clip_data rd (encode_clip c)) decode_clip = reread_clip rd c"
  by (cases "read_pair rd (start_seconds c, end_seconds c)")
    (auto simp: read_clip_data_encode reread_clip_def decode_clip_def split: prod.splits)

lemma reread_clip_written:
  assumes "reread_clip rd c = Inr c'" shows "read_clip_data rd (encode_clip c) = Inr (encode_clip c')"
proof -
  from assms obtain p where p: "read_pair rd (start_seconds c, end_seconds c) = Inr p"
    "(\<lambda>(s, e). map_err InvalidStoredData (clip_range_new s e)) p = Inr c'"
    by (auto simp: reread_clip_def res_bind_Inr_iff)
  then have "c' = \<lparr>start_seconds = fst p, end_seconds = snd p\<rparr>"
    by (cases p) (auto dest: clip_range_newD(1))
  with p(1) show ?thesis by (cases p) (simp add: read_clip_data_def encode_clip_def)
qed

lemma reread_clips_written:
  "traverse_list (reread_clip rd) cl = Inr cl' \<Longrightarrow>
    traverse_list (read_clip_data rd) (map encode_clip cl) = Inr (map encode_clip cl')"
  by (induction cl arbitrary: cl') (auto simp: res_bind_Inr_iff reread_clip_written)

lemma reread_range_written:
  "traverse_option (reread_clip rd) x = Inr y \<Longrightarrow>
    traverse_option (read_clip_data rd) (map_option encode_clip x) = Inr (map_option encode_clip y)"
  by (cases x) (auto simp: res_bind_Inr_iff reread_clip_written)

lemma encode_read_clips:
  "encode (with_read_clips rng cl r) = (encode r)\<lparr>rd_clip_range := map_option encode_clip rng,
     rd_params := (rd_params (encode r))\<lparr>dp_clips := map encode_clip cl\<rparr>\<rparr>"
  by (simp add: encode_def encode_params_def with_read_clips_def)

lemma encode_clip_fields:
  "rd_clip_range (encode r) = map_option encode_clip (clip_range r)"
  "dp_clips (rd_params (encode r)) = map encode_clip (clips (params r))"
  by (simp_all add: encode_def encode_params_def)

lemma read_data_encode:
  "reread_request rd r = Inr r' \<Longrightarrow> read_data rd (encode r) = Inr (encode r')"
  by (auto simp: reread_request_def res_bind_Inr_iff read_data_def encode_clip_fields
      reread_range_written reread_clips_written encode_read_clips)

lemma traverse_read_then_decode:
  "traverse_list (read_clip_data rd) (map encode_clip cl) = Inr ds \<Longrightarrow> traverse_list decode_clip ds = Inr cs
    \<Longrightarrow> traverse_list (reread_clip rd) cl = Inr cs"
  by (induction cl arbitrary: ds cs) (auto simp: res_bind_Inr_iff reread_clip_data [symmetric])

lemma read_request_sound:
  assumes "read_request rd (encode r) = Inr x" shows "\<exists>r'. reread_request rd r = Inr r'"
proof -
  from assms obtain rng cl where d:
    "traverse_option (read_clip_data rd) (map_option encode_clip (clip_range r)) = Inr rng"
    "traverse_list (read_clip_data rd) (map encode_clip (clips (params r))) = Inr cl"
    "decode (read_url rd) ((encode r)\<lparr>rd_clip_range := rng,
       rd_params := (rd_params (encode r))\<lparr>dp_clips := cl\<rparr>\<rparr>) = Inr x"
    by (auto simp: read_request_def read_data_def res_bind_Inr_iff encode_clip_fields)
  then obtain c cs where "traverse_option decode_clip rng = Inr c" "traverse_list decode_clip cl = Inr cs"
    by (auto simp: decode_def decode_params_def res_bind_Inr_iff Let_def)
  then have "traverse_option (reread_clip rd) (clip_range r) = Inr c"
    "traverse_list (reread_clip rd) (clips (params r)) = Inr cs"
    using d(1) traverse_read_then_decode [OF d(2)]
    by (cases "clip_range r"; auto simp: res_bind_Inr_iff reread_clip_data [symmetric])+
  then show ?thesis by (simp add: reread_request_def)
qed

lemma only_invalid_reading:
  "only_invalid (read_pair rd x)" "only_invalid (read_clip_data rd d)" "only_invalid (reread_clip rd c)"
  by (auto simp: read_pair_def read_clip_data_def reread_clip_def intro!: only_invalid_intros
      split: option.splits)

lemma only_invalid_requests:
  "only_invalid (read_data rd d)" "only_invalid (read_request rd d)" "only_invalid (reread_request rd r)"
proof -
  show d: "only_invalid (read_data rd d)"
    unfolding read_data_def by (intro only_invalid_intros only_invalid_traverse_list only_invalid_reading)
  show "only_invalid (read_request rd d)"
    unfolding read_request_def using d decode_error
    by (intro only_invalid_res_bind) (auto simp: only_invalid_def)
  show "only_invalid (reread_request rd r)"
    unfolding reread_request_def by (intro only_invalid_intros only_invalid_traverse_list only_invalid_reading)
qed

lemma read_request_encode:
  assumes "request_wf (read_url rd) r" and "storable r"
  shows "read_request rd (encode r) = reread_request rd r"
proof (cases "reread_request rd r")
  case (Inr r')
  then have "decode (read_url rd) (encode r') = Inr r'"
    using assms reread_request_wf [OF Inr] reread_request_original(2) [OF Inr]
    by (intro decode_encode_request_ok) simp_all
  then show ?thesis by (simp add: read_request_def read_data_encode [OF Inr] Inr)
next
  case (Inl x)
  then obtain y where y: "read_request rd (encode r) = Inl y"
    using read_request_sound [of rd r] by (cases "read_request rd (encode r)") auto
  then show ?thesis using Inl only_invalid_requests unfolding only_invalid_def by metis
qed

lemma only_invalid_eqI:
  "only_invalid x \<Longrightarrow> only_invalid y \<Longrightarrow> (\<And>a. x = Inr a \<longleftrightarrow> y = Inr a) \<Longrightarrow> x = y"
  by (cases x; cases y) (auto simp: only_invalid_def)

lemma traverse_clips:
  "res_bind (traverse_list (read_pair rd) (map (\<lambda>c. (start_seconds c, end_seconds c)) cl))
     (traverse_list (\<lambda>(s, e). map_err InvalidStoredData (clip_range_new s e)))
   = traverse_list (reread_clip rd) cl"
proof (rule only_invalid_eqI)
  let ?new = "\<lambda>(s, e). map_err InvalidStoredData (clip_range_new s e)"
  have "only_invalid (?new p)" for p by (cases p) (simp add: only_invalid_map_err)
  then show "only_invalid (res_bind (traverse_list (read_pair rd)
      (map (\<lambda>c. (start_seconds c, end_seconds c)) cl)) (traverse_list ?new))"
    by (intro only_invalid_res_bind only_invalid_traverse_list only_invalid_reading)
  show "only_invalid (traverse_list (reread_clip rd) cl)"
    by (intro only_invalid_traverse_list only_invalid_reading)
  show "res_bind (traverse_list (read_pair rd) (map (\<lambda>c. (start_seconds c, end_seconds c)) cl))
      (traverse_list ?new) = Inr ys \<longleftrightarrow> traverse_list (reread_clip rd) cl = Inr ys" for ys
  proof (induction cl arbitrary: ys)
    case (Cons c cl)
    show ?case
    proof (cases "read_pair rd (start_seconds c, end_seconds c)")
      case (Inr p)
      then have new: "reread_clip rd c = ?new p" by (simp add: reread_clip_def)
      show ?thesis
      proof (cases "?new p")
        case (Inl x)
        then show ?thesis using new Inr by (auto simp: res_bind_Inr_iff)
      next
        case (Inr d)
        note first = this
        show ?thesis
        proof (cases "traverse_list (read_pair rd) (map (\<lambda>c. (start_seconds c, end_seconds c)) cl)")
          case (Inl x)
          then have "traverse_list (reread_clip rd) cl \<noteq> Inr zs" for zs using Cons.IH [of zs] by simp
          then show ?thesis using Inl first new \<open>read_pair rd _ = _\<close> by (auto simp: res_bind_Inr_iff)
        next
          case (Inr xs)
          then have "traverse_list ?new xs = Inr zs \<longleftrightarrow> traverse_list (reread_clip rd) cl = Inr zs" for zs
            using Cons.IH [of zs] by simp
          then show ?thesis using Inr first new \<open>read_pair rd _ = _\<close> by (auto simp: res_bind_Inr_iff)
        qed
      qed
    qed (simp add: reread_clip_def)
  qed simp
qed

lemma traverse_original:
  "cut_original_wf rd c \<Longrightarrow>
    traverse_option (read_request rd) (map_option encode (cs_original c))
      = traverse_option (reread_request rd) (cs_original c)"
  by (cases "cs_original c") (simp_all add: cut_original_wf_def read_request_encode)

lemma reread_original:
  assumes "cut_original_wf rd c" and "traverse_option (reread_request rd) (cs_original c) = Inr original"
  shows "pred_option (original_ok (sint (cs_actor c)) (sint (bot_id (cs_target c)))
      (sint (chat_id (cs_target c))) (sint (cs_origin c)) (cs_url c) (cs_linked c)) original"
    and "\<not> (cs_linked c \<noteq> None \<and> original = None \<and> cs_stage c \<noteq> CutCancelled)"
    and "cut_original_wf rd (c\<lparr>cs_original := original, cs_clips := cl\<rparr>)"
  using assms
  by (auto simp: cut_original_wf_def res_bind_Inr_iff reread_request_original reread_request_wf
      split: option.splits)

lemma cut_shape_length:
  "length cl' = length cl \<Longrightarrow> cut_shape_ok st cl' i = cut_shape_ok st cl i"
  by (auto simp: cut_shape_ok_def)

lemma cut_decode_encode:
  assumes "cut_wf rd c" shows "cut_decode rd (cut_scope c, cut_encode c) = reread_cut rd c"
proof -
  have p: "draft_place (cs_actor c) (cs_target c) (cs_origin c) (cs_last c)"
    and o: "cut_original_wf rd c" and st: "cut_stage_wf c"
    using assms by (simp_all add: cut_wf_def)
  have sel: "pred_option offered (cs_selected c)" "cs_selected c \<noteq> Some AudioChoice"
    using st by (auto simp: cut_stage_wf_def pred_option_def)
  have shape: "length (cs_clips c) \<le> 20" "cut_shape_ok (cs_stage c) (cs_clips c) (cs_editing c)"
    using assms by (simp_all add: cut_wf_def)
  note dec = cut_decode_def cut_scope_def scope_of_def cut_encode_def place_target [OF p]
    cut_stage_label.parse_label traverse_original [OF o] traverse_editing traverse_choice [OF sel(1)]
  show ?thesis
  proof (cases "traverse_option (reread_request rd) (cs_original c)")
    case (Inl x)
    then show ?thesis using sel(2) by (simp add: dec reread_cut_def)
  next
    case (Inr original)
    note orig = reread_original(1,2) [OF o Inr]
    let ?pairs = "traverse_list (read_pair rd) (map (\<lambda>c. (start_seconds c, end_seconds c)) (cs_clips c))"
    show ?thesis
    proof (cases ?pairs)
      case (Inl x)
      then show ?thesis using sel(2) orig Inr by (auto simp: dec reread_cut_def traverse_clips [symmetric])
    next
      case pairs: (Inr stored)
      have n: "length stored = length (cs_clips c)" using traverse_list_length [OF pairs] by simp
      show ?thesis
      proof (cases "traverse_list (\<lambda>(s, e). map_err InvalidStoredData (clip_range_new s e)) stored")
        case (Inl x)
        then show ?thesis using sel(2) orig \<open>traverse_option (reread_request rd) (cs_original c) = Inr original\<close>
          pairs n shape(1) by (auto simp: dec reread_cut_def traverse_clips [symmetric])
      next
        case (Inr cl)
        then have "cut_shape_ok (cs_stage c) cl (cs_editing c)"
          using traverse_list_length [OF Inr] n shape(2) cut_shape_length by metis
        then show ?thesis
          using sel(2) orig Inr \<open>traverse_option (reread_request rd) (cs_original c) = Inr original\<close> pairs n shape(1)
            place_scope [OF p] by (auto simp: dec reread_cut_def traverse_clips [symmetric])
      qed
    qed
  qed
qed

lemma reread_cut_wf:
  assumes "reread_cut rd c = Inr c'" and "cut_wf rd c"
  shows "cut_wf rd c'" and "cut_scope c' = cut_scope c"
proof -
  from assms(1) obtain original cl where c': "traverse_option (reread_request rd) (cs_original c) = Inr original"
    "traverse_list (reread_clip rd) (cs_clips c) = Inr cl" "c' = c\<lparr>cs_original := original, cs_clips := cl\<rparr>"
    by (auto simp: reread_cut_def res_bind_Inr_iff)
  note cl = reread_clips_wf [OF c'(2)]
  have "cut_shape_ok (cs_stage c) cl (cs_editing c)"
    using assms(2) cut_shape_length [OF conjunct2 [OF cl]] by (simp add: cut_wf_def)
  moreover have "cut_original_wf rd c'"
    using reread_original(3) [OF _ c'(1)] assms(2) by (simp add: cut_wf_def c'(3))
  ultimately show "cut_wf rd c'"
    using assms(2) cl by (auto simp: cut_wf_def c'(3) cut_stage_wf_def)
  show "cut_scope c' = cut_scope c" by (simp add: c'(3) cut_scope_def)
qed

lemma valid_time_not_negative: "pred_option valid_time x \<Longrightarrow> not_negative x"
  by (cases x) (simp_all add: valid_time_def not_negative_def)

lemma first_bounds:
  "cl \<noteq> [] \<Longrightarrow> list_all clip_wf cl \<Longrightarrow> span_ok (first_start cl) (first_end cl)"
  by (cases cl) (auto simp: first_start_def first_end_def span_ok_def elim!: clip_wf_cases)

lemma cut_checks_encode:
  assumes "cut_wf rd c" shows "cut_checks (cut_scope c) (cut_encode c)"
proof -
  have p: "draft_place (cs_actor c) (cs_target c) (cs_origin c) (cs_last c)"
    and st: "cut_stage_wf c" and sh: "cut_shape_ok (cs_stage c) (cs_clips c) (cs_editing c)"
    and cl: "list_all clip_wf (cs_clips c)" "length (cs_clips c) \<le> 20" and rv: "0 < sint (cs_revision c)"
    using assms by (simp_all add: cut_wf_def)
  have "cs_stage c \<notin> {CutReady, CutQuality, CutConfirming, CutSubmitted}
      \<or> (case (cs_start c, cs_end c) of (Some s, Some e) \<Rightarrow> f64_less s e | _ \<Rightarrow> False)"
    using st by (auto simp: cut_stage_wf_def span_ok_def)
  moreover have "pred_option (\<lambda>t. t \<in> {''best''} \<union> fst ` set listed_heights)
      (map_option choice_text (cs_selected c))"
    using st offered_text by (cases "cs_selected c") (auto simp: cut_stage_wf_def)
  moreover have "pred_option (\<lambda>i. 0 \<le> i \<and> i \<le> 19) (map_option int (cs_editing c))"
    using sh cl(2) by (cases "cs_editing c") (auto simp: cut_shape_ok_def)
  moreover have "cs_stage c = CutCancelled \<or> cs_url c \<noteq> None" "not_negative (cs_begin c)"
    "not_negative (cs_start c)" "cs_selected c = None \<or> cs_stage c \<in> {CutConfirming, CutSubmitted}"
    "cs_stage c = CutSubmitted \<longleftrightarrow> cs_operation c \<noteq> None"
    using st unfolding cut_stage_wf_def by (blast intro: valid_time_not_negative)+
  ultimately show ?thesis
    using place_checks [OF p] rv
    by (cases "cs_stage c") (simp_all add: cut_checks_def cut_scope_def cut_encode_def)
qed

lemma quality_draft_storable: "is_quality_draft r \<Longrightarrow> storable r"
  by (cases "preference_overrides r")
    (auto simp: is_quality_draft_def storable_def override_height_ok_def)

lemma draft_request_read: "draft_request rd t origin r \<Longrightarrow> read_request rd (encode r) = reread_request rd r"
  by (simp add: draft_request_def read_request_encode quality_draft_storable)

lemma quality_decode_encode:
  assumes "quality_wf rd q" shows "quality_decode rd (quality_scope q, quality_encode q) = reread_quality rd q"
proof -
  let ?r = "qs_request q"
  have p: "draft_place (actor_id ?r) (qs_target q) (qs_origin q) (qs_last q)"
    and d: "draft_request rd (qs_target q) (qs_origin q) ?r"
    using assms by (simp_all add: quality_wf_def)
  note dec = quality_decode_def quality_scope_def scope_of_def quality_encode_def
    place_target [OF p] draft_request_read [OF d] quality_stage_label.parse_label
  show ?thesis
  proof (cases "reread_request rd ?r")
    case (Inl x)
    then show ?thesis by (simp add: dec reread_quality_def)
  next
    case (Inr r')
    have d': "draft_request rd (qs_target q) (qs_origin q) r'" by (rule reread_request_draft [OF Inr d])
    have a: "actor_id r' = actor_id ?r" using Inr by (auto elim: reread_request_Inr)
    have "uint (actor_id ?r) = sint (actor_id ?r)"
      using place_scope [OF p] by (simp add: uint_nonneg_64)
    moreover have "traverse_option choice_parse (map_option choice_text (qs_selected q)) = Inr (qs_selected q)"
      by (rule traverse_choice) (use assms in \<open>simp add: quality_wf_def\<close>)
    moreover have "qs_stage q = Confirming \<or> qs_operation q \<noteq> None \<longleftrightarrow> qs_selected q \<noteq> None"
      using assms unfolding quality_wf_def by blast
    moreover have "reply_to_message_id (qs_target q) = Some (qs_origin q)"
      using p by (simp add: draft_place_def)
    ultimately show ?thesis
      using place_scope [OF p] place_origin [OF p] assms d' a
      by (simp add: dec Inr reread_quality_def draft_request_def quality_wf_def)
  qed
qed

lemma reread_quality_wf:
  assumes "reread_quality rd q = Inr q'" and "quality_wf rd q"
  shows "quality_wf rd q'" and "quality_scope q' = quality_scope q"
proof -
  from assms(1) obtain r where r: "reread_request rd (qs_request q) = Inr r" "q' = q\<lparr>qs_request := r\<rparr>"
    by (auto simp: reread_quality_def res_bind_Inr_iff)
  have a: "actor_id r = actor_id (qs_request q)" using r(1) by (auto elim: reread_request_Inr)
  then show "quality_wf rd q'"
    using assms(2) reread_request_draft [OF r(1)] by (auto simp: quality_wf_def r(2))
  show "quality_scope q' = quality_scope q" by (simp add: quality_scope_def r(2) a)
qed

lemma quality_checks_encode:
  assumes "quality_wf rd q" shows "quality_checks (quality_scope q) (quality_encode q)"
proof -
  have p: "draft_place (actor_id (qs_request q)) (qs_target q) (qs_origin q) (qs_last q)"
    using assms by (simp add: quality_wf_def)
  have "pred_option (\<lambda>t. t \<in> {''best'', ''audio''} \<union> fst ` set listed_heights)
      (map_option choice_text (qs_selected q))"
    using assms offered_text by (cases "qs_selected q") (auto simp: quality_wf_def)
  then show ?thesis
    using assms place_checks [OF p]
    by (cases "qs_stage q")
      (simp_all add: quality_checks_def quality_scope_def quality_encode_def quality_wf_def
        expected_revision_def)
qed

section \<open>The drafts as typed tables\<close>

interpretation cut_table: coded_table "\<lambda>s k. sql_cut_get k s"
    "\<lambda>k r s. s\<lparr>cut_rows := put_row k r (cut_rows s)\<rparr>"
    cut_encode "\<lambda>k r. cut_decode rd (k, r)" "reread_cut rd" "\<lambda>k c. cut_wf rd c \<and> cut_scope c = k"
  for rd
  by unfold_locales (auto simp: sql_cut_get_def map_of_put_row cut_decode_encode reread_cut_wf)

interpretation quality_table: coded_table "\<lambda>s k. sql_quality_get k s"
    "\<lambda>k r s. s\<lparr>quality_rows := put_row k r (quality_rows s)\<rparr>"
    quality_encode "\<lambda>k r. quality_decode rd (k, r)" "reread_quality rd"
    "\<lambda>k q. quality_wf rd q \<and> quality_scope q = k"
  for rd
  by unfold_locales (auto simp: sql_quality_get_def map_of_put_row quality_decode_encode reread_quality_wf)

text \<open>An original is live while a quality draft has its identifier or a cut draft needs it.\<close>

definition live :: "uuid \<Rightarrow> dialog_db \<Rightarrow> bool" where
  "live j s \<longleftrightarrow> quality_has j s \<or> cut_needs j s"

definition ids_unique :: "dialog_db \<Rightarrow> bool" where
  "ids_unique s \<longleftrightarrow> (\<forall>k r k' r'. sql_quality_get k s = Some r \<longrightarrow> sql_quality_get k' s = Some r'
     \<longrightarrow> qr_id r = qr_id r' \<longrightarrow> k = k')"

definition keys_distinct :: "dialog_db \<Rightarrow> bool" where
  "keys_distinct s \<longleftrightarrow> distinct (map fst (quality_rows s)) \<and> distinct (map fst (cut_rows s))
     \<and> distinct (map fst (quality_intents s))"

definition dialog_inv :: "text_reader \<Rightarrow> dialog_db \<Rightarrow> bool" where
  "dialog_inv rd s \<longleftrightarrow>
     keys_distinct s \<and> cut_table.all_valid rd s \<and> quality_table.all_valid rd s
     \<and> ids_unique s \<and> (\<forall>j \<in> fst ` set (quality_intents s). live j s)"

text \<open>A change keeps exactly the originals that are live afterwards.\<close>

definition originals_kept :: "dialog_db \<Rightarrow> dialog_db \<Rightarrow> bool" where
  "originals_kept s t \<longleftrightarrow>
     (\<forall>x \<in> set (quality_intents s). x \<in> set (quality_intents t) \<longleftrightarrow> live (fst x) t)"

lemma cut_needs_iff:
  "distinct (map fst (cut_rows s)) \<Longrightarrow>
    cut_needs i s \<longleftrightarrow> (\<exists>k r. sql_cut_get k s = Some r \<and> cr_linked r = Some i \<and> cr_stage r \<noteq> ''cancelled'')"
  by (fastforce simp: cut_needs_def list_ex_iff sql_cut_get_def)

lemma quality_has_iff:
  "distinct (map fst (quality_rows s)) \<Longrightarrow>
    quality_has i s \<longleftrightarrow> (\<exists>k r. sql_quality_get k s = Some r \<and> qr_id r = i)"
  by (fastforce simp: quality_has_def list_ex_iff sql_quality_get_def)

section \<open>Drafts that cannot be read\<close>

text \<open>Two stored bounds are lost when what is read of them is no clip; the draft then is, too.\<close>

definition pair_lost :: "text_reader \<Rightarrow> f64 \<times> f64 \<Rightarrow> bool" where
  "pair_lost rd x \<longleftrightarrow>
     (case read_pair rd x of
        Inl _ \<Rightarrow> True
      | Inr (s, e) \<Rightarrow> (case clip_range_new s e of Inl _ \<Rightarrow> True | Inr _ \<Rightarrow> False))"

definition request_lost :: "text_reader \<Rightarrow> request_data \<Rightarrow> bool" where
  "request_lost rd d \<longleftrightarrow>
     list_ex (\<lambda>c. pair_lost rd (cd_start_seconds c, cd_end_seconds c))
       ((case rd_clip_range d of None \<Rightarrow> [] | Some c \<Rightarrow> [c]) @ dp_clips (rd_params d))"

definition cut_lost :: "text_reader \<Rightarrow> cut_row \<Rightarrow> bool" where
  "cut_lost rd r \<longleftrightarrow>
     list_ex (pair_lost rd) (cr_clips r)
     \<or> (case cr_original r of None \<Rightarrow> False | Some d \<Rightarrow> request_lost rd d)"

definition lost_at :: "text_reader \<Rightarrow> scope \<Rightarrow> dialog_db \<Rightarrow> bool" where
  "lost_at rd k s \<longleftrightarrow>
     (case sql_cut_get k s of None \<Rightarrow> False | Some r \<Rightarrow> cut_lost rd r)
     \<or> (case sql_quality_get k s of None \<Rightarrow> False | Some r \<Rightarrow> request_lost rd (qr_request r))"

lemma traverse_list_ok:
  "(\<exists>ys. traverse_list f xs = Inr ys) \<longleftrightarrow> list_all (\<lambda>x. \<exists>y. f x = Inr y) xs"
  by (induction xs) (auto simp: res_bind_Inr_iff)

lemma pair_lost_clip:
  "pair_lost rd (start_seconds c, end_seconds c) \<longleftrightarrow> \<not> (\<exists>c'. reread_clip rd c = Inr c')"
  by (auto simp: pair_lost_def reread_clip_def res_bind_Inr_iff split: sum.splits prod.splits)

lemma request_lost_encode: "request_lost rd (encode r) \<longleftrightarrow> \<not> (\<exists>r'. reread_request rd r = Inr r')"
proof -
  have "(\<exists>r'. reread_request rd r = Inr r') \<longleftrightarrow>
      (\<exists>x. traverse_option (reread_clip rd) (clip_range r) = Inr x)
      \<and> (\<exists>ys. traverse_list (reread_clip rd) (clips (params r)) = Inr ys)"
    by (auto simp: reread_request_def res_bind_Inr_iff)
  then show ?thesis
    unfolding request_lost_def encode_clip_fields traverse_list_ok
    by (cases "clip_range r")
      (auto simp: encode_clip_def pair_lost_clip list_ex_iff list_all_iff res_bind_Inr_iff)
qed

lemma cut_lost_encode: "cut_lost rd (cut_encode c) \<longleftrightarrow> \<not> (\<exists>c'. reread_cut rd c = Inr c')"
proof -
  have "(\<exists>c'. reread_cut rd c = Inr c') \<longleftrightarrow>
      (\<exists>x. traverse_option (reread_request rd) (cs_original c) = Inr x)
      \<and> (\<exists>ys. traverse_list (reread_clip rd) (cs_clips c) = Inr ys)"
    by (auto simp: reread_cut_def res_bind_Inr_iff)
  then show ?thesis
    unfolding cut_lost_def traverse_list_ok
    by (cases "cs_original c")
      (auto simp: cut_encode_def pair_lost_clip request_lost_encode list_ex_iff list_all_iff res_bind_Inr_iff)
qed

lemma reread_errors:
  "reread_cut rd c = Inl x \<Longrightarrow> x = InvalidStoredData"
  "reread_quality rd q = Inl x \<Longrightarrow> x = InvalidStoredData"
proof -
  have "only_invalid (reread_cut rd c)" "only_invalid (reread_quality rd q)"
    unfolding reread_cut_def reread_quality_def
    by (intro only_invalid_intros only_invalid_traverse_list only_invalid_reading only_invalid_requests)+
  then show "reread_cut rd c = Inl x \<Longrightarrow> x = InvalidStoredData"
    "reread_quality rd q = Inl x \<Longrightarrow> x = InvalidStoredData"
    by (simp_all add: only_invalid_def)
qed

lemma cut_current_cases:
  assumes "dialog_inv rd s"
  obtains (none) "cut_current_row rd a t s = Inr None" "sql_cut_get (scope_of a t) s = None"
    | (lost) "cut_current_row rd a t s = Inl InvalidStoredData" "lost_at rd (scope_of a t) s"
    | (read) c\<^sub>0 c where "cut_current_row rd a t s = Inr (Some c)" "cut_wf rd c"
        "cut_scope c = scope_of a t" "sql_cut_get (scope_of a t) s = Some (cut_encode c\<^sub>0)"
        "cut_wf rd c\<^sub>0" "reread_cut rd c\<^sub>0 = Inr c"
proof -
  have cur: "cut_table.current rd s (scope_of a t) = cut_current_row rd a t s"
    by (simp add: cut_current_row_def cut_table.current_def)
  from assms have "cut_table.all_valid rd s" by (simp add: dialog_inv_def)
  then show thesis
  proof (cases rule: cut_table.all_valid_current [where k = "scope_of a t"])
    case none
    then show thesis using that(1) by (simp add: cur)
  next
    case (unread c x)
    then have "x = InvalidStoredData" "cut_lost rd (cut_encode c)"
      using reread_errors(1) by (auto simp: cut_lost_encode)
    with unread show thesis using that(2) by (simp add: cur lost_at_def)
  next
    case (read c0 c)
    then show thesis using that(3) by (simp add: cur)
  qed
qed

lemma quality_row_cases:
  assumes "dialog_inv rd s"
  obtains (none) "sql_quality_get (scope_of a t) s = None"
    | (lost) q where "sql_quality_get (scope_of a t) s = Some (quality_encode q)"
        "quality_decode rd (scope_of a t, quality_encode q) = Inl InvalidStoredData"
        "lost_at rd (scope_of a t) s"
    | (read) q\<^sub>0 q where "sql_quality_get (scope_of a t) s = Some (quality_encode q\<^sub>0)"
        "quality_decode rd (scope_of a t, quality_encode q\<^sub>0) = Inr q" "reread_quality rd q\<^sub>0 = Inr q"
        "quality_wf rd q" "quality_scope q = scope_of a t"
proof (cases "sql_quality_get (scope_of a t) s")
  case None
  then show thesis by (rule none)
next
  case (Some r)
  with assms obtain q where q: "quality_wf rd q" "quality_scope q = scope_of a t" "r = quality_encode q"
    unfolding dialog_inv_def quality_table.all_valid_def by blast
  have d: "quality_decode rd (scope_of a t, quality_encode q) = reread_quality rd q"
    using quality_decode_encode [OF q(1)] q(2) by simp
  show thesis
  proof (cases "reread_quality rd q")
    case (Inl x)
    then have "\<not> (\<exists>r'. reread_request rd (qs_request q) = Inr r')" by (auto simp: reread_quality_def)
    then have "lost_at rd (scope_of a t) s"
      using Some by (simp add: lost_at_def q(3) quality_encode_def request_lost_encode)
    with Some q(3) d Inl reread_errors(2) [OF Inl] show thesis by (intro lost) simp_all
  next
    case (Inr q')
    with Some q d reread_quality_wf [OF Inr q(1)] show thesis by (intro read [of q q']) simp_all
  qed
qed

section \<open>Saving a draft\<close>

definition cut_written :: "cut_session \<Rightarrow> dialog_db \<Rightarrow> dialog_db \<Rightarrow> bool" where
  "cut_written c s t \<longleftrightarrow>
     cut_rows t = put_row (cut_scope c) (cut_encode c) (cut_rows s)
     \<and> quality_rows t = quality_rows s \<and> accounts t = accounts s"

definition quality_written :: "quality_session \<Rightarrow> dialog_db \<Rightarrow> dialog_db \<Rightarrow> bool" where
  "quality_written q s t \<longleftrightarrow>
     quality_rows t = put_row (quality_scope q) (quality_encode q) (quality_rows s)
     \<and> cut_rows t = cut_rows s \<and> accounts t = accounts s"

lemma cut_put_Inr:
  assumes "cut_wf rd c"
  obtains t where "cut_put c s = Inr t" "cut_written c s t"
    "quality_intents t = (case Option.bind (sql_cut_get (cut_scope c) s) cr_linked of
       None \<Rightarrow> quality_intents s
     | Some i \<Rightarrow> filter (\<lambda>(j, _). j = i \<longrightarrow> live j t) (quality_intents s))"
proof -
  let ?s = "s\<lparr>cut_rows := put_row (cut_scope c) (cut_encode c) (cut_rows s)\<rparr>"
  let ?prior = "Option.bind (sql_cut_get (cut_scope c) s) cr_linked"
  define t where "t = (case ?prior of None \<Rightarrow> ?s
    | Some i \<Rightarrow> sql_quality_media_intent_cut_released_delete i ?s)"
  have e: "cut_put c s = Inr t"
    using cut_checks_encode [OF assms] by (simp add: cut_put_def sql_cut_put_def t_def Let_def)
  have rows: "cut_rows t = cut_rows ?s" "quality_rows t = quality_rows ?s" "accounts t = accounts ?s"
    by (simp_all add: t_def sql_quality_media_intent_cut_released_delete_def split: option.splits)
  then have "live j t = live j ?s" for j
    by (simp add: live_def quality_has_def cut_needs_def)
  then have "quality_intents t = (case ?prior of None \<Rightarrow> quality_intents s
     | Some i \<Rightarrow> filter (\<lambda>(j, _). j = i \<longrightarrow> live j t) (quality_intents s))"
    by (auto simp: t_def sql_quality_media_intent_cut_released_delete_def live_def
        quality_has_def cut_needs_def intro!: filter_cong split: option.splits)
  with that [OF e] rows show thesis by (simp add: cut_written_def)
qed

lemma cut_written_get:
  assumes "cut_written c s t"
  shows "sql_cut_get k t = (if k = cut_scope c then Some (cut_encode c) else sql_cut_get k s)"
    and "sql_quality_get k t = sql_quality_get k s"
  using assms by (simp_all add: cut_written_def sql_cut_get_def sql_quality_get_def map_of_put_row)

lemma quality_written_get:
  assumes "quality_written q s t"
  shows "sql_quality_get k t = (if k = quality_scope q then Some (quality_encode q) else sql_quality_get k s)"
    and "sql_cut_get k t = sql_cut_get k s"
  using assms by (simp_all add: quality_written_def sql_cut_get_def sql_quality_get_def map_of_put_row)

lemma cut_written_live:
  assumes w: "cut_written c s t" and d: "keys_distinct s" "keys_distinct t"
    and l: "live j s" and n: "Option.bind (sql_cut_get (cut_scope c) s) cr_linked \<noteq> Some j"
  shows "live j t"
proof (cases "quality_has j s")
  case True
  then show ?thesis using w by (simp add: live_def quality_has_def cut_written_def)
next
  case False
  with l d obtain k r where r: "sql_cut_get k s = Some r" "cr_linked r = Some j"
    "cr_stage r \<noteq> ''cancelled''"
    by (auto simp: live_def cut_needs_iff keys_distinct_def)
  with n have "k \<noteq> cut_scope c" by auto
  with r have "sql_cut_get k t = Some r" by (simp add: cut_written_get [OF w])
  then have "cut_needs j t" using r(2,3) d(2) by (subst cut_needs_iff) (auto simp: keys_distinct_def)
  then show ?thesis by (simp add: live_def)
qed

lemma cut_put_ok:
  assumes inv: "dialog_inv rd s" and c: "cut_wf rd c"
  obtains t where "cut_put c s = Inr t" "dialog_inv rd t" "cut_written c s t" "originals_kept s t"
proof -
  let ?prior = "Option.bind (sql_cut_get (cut_scope c) s) cr_linked"
  from cut_put_Inr [OF c] obtain t where e: "cut_put c s = Inr t" and w: "cut_written c s t"
    and i: "quality_intents t = (case ?prior of None \<Rightarrow> quality_intents s
     | Some i \<Rightarrow> filter (\<lambda>(j, _). j = i \<longrightarrow> live j t) (quality_intents s))"
    by (rule cut_put_Inr [OF c, where s = s])
  have sub: "set (quality_intents t) \<subseteq> set (quality_intents s)"
    and dt: "distinct (map fst (quality_intents s)) \<longrightarrow> distinct (map fst (quality_intents t))"
    by (auto simp: i distinct_map_filter split: option.splits)
  have k: "keys_distinct s" "keys_distinct t"
    using inv w dt by (simp_all add: dialog_inv_def keys_distinct_def cut_written_def distinct_put_row)
  have lv: "live (fst x) s" if "x \<in> set (quality_intents s)" for x
    using inv that by (simp add: dialog_inv_def)
  have kept: "originals_kept s t"
    unfolding originals_kept_def
  proof (intro ballI)
    fix x assume x: "x \<in> set (quality_intents s)"
    show "x \<in> set (quality_intents t) \<longleftrightarrow> live (fst x) t"
    proof (cases "?prior = Some (fst x)")
      case True
      with x show ?thesis by (auto simp: i)
    next
      case False
      with x have "x \<in> set (quality_intents t)" by (auto simp: i split: option.splits)
      moreover have "live (fst x) t" by (rule cut_written_live [OF w k lv [OF x] False])
      ultimately show ?thesis by simp
    qed
  qed
  have "cut_table.all_valid rd t"
    using inv w c unfolding dialog_inv_def cut_table.all_valid_def
    by (auto simp: cut_written_get split: if_splits)
  moreover have "quality_table.all_valid rd t" "ids_unique t"
    using inv w by (auto simp: dialog_inv_def quality_table.all_valid_def ids_unique_def cut_written_get)
  moreover have "\<forall>j \<in> fst ` set (quality_intents t). live j t"
    using kept sub unfolding originals_kept_def by auto
  ultimately have "dialog_inv rd t" using k by (simp add: dialog_inv_def)
  from e this w kept show thesis by (rule that)
qed

text \<open>A quality draft that is saved has the identifier of the draft it replaces, or a fresh one.\<close>

definition id_free :: "quality_session \<Rightarrow> dialog_db \<Rightarrow> bool" where
  "id_free q s \<longleftrightarrow>
     (\<forall>k r. sql_quality_get k s = Some r \<longrightarrow> qr_id r = qs_id q \<longrightarrow> k = quality_scope q)"

lemma quality_put_Inr:
  assumes q: "quality_wf rd q" and "actor = actor_id (qs_request q)"
    and d: "distinct (map fst (quality_rows s))"
  obtains t where "quality_put actor q s = Inr t" "quality_written q s t"
    "quality_intents t = filter (\<lambda>(j, _). \<not> (j \<noteq> qs_id q
       \<and> map_option qr_id (sql_quality_get (quality_scope q) s) = Some j \<and> \<not> cut_needs j s))
       (quality_intents s)"
proof -
  have k: "scope_of actor (qs_target q) = quality_scope q"
    by (simp add: assms(2) quality_scope_def)
  have p: "list_ex (\<lambda>(k', r). k' = quality_scope q \<and> qr_id r \<noteq> qs_id q \<and> qr_id r = j) (quality_rows s)
      \<longleftrightarrow> j \<noteq> qs_id q \<and> map_option qr_id (sql_quality_get (quality_scope q) s) = Some j" for j
    using d by (auto simp: list_ex_iff sql_quality_get_def Bex_def)
  define t where "t = s\<lparr>quality_intents := filter (\<lambda>(j, _). \<not> (j \<noteq> qs_id q
       \<and> map_option qr_id (sql_quality_get (quality_scope q) s) = Some j \<and> \<not> cut_needs j s))
       (quality_intents s),
     quality_rows := put_row (quality_scope q) (quality_encode q) (quality_rows s)\<rparr>"
  have "sql_quality_media_intent_superseded_delete (quality_scope q) (qs_id q) s
      = s\<lparr>quality_intents := quality_intents t\<rparr>"
    by (simp add: sql_quality_media_intent_superseded_delete_def p t_def)
  then have "quality_put actor q s = Inr t"
    using quality_checks_encode [OF q]
    by (simp add: quality_put_def k Let_def sql_quality_put_def t_def)
  then show thesis by (rule that) (simp_all add: quality_written_def t_def)
qed

lemma quality_has_written:
  assumes w: "quality_written q s t"
    and d: "distinct (map fst (quality_rows s))" "distinct (map fst (quality_rows t))"
    and u: "ids_unique s"
  shows "quality_has j t \<longleftrightarrow> j = qs_id q
    \<or> (quality_has j s \<and> map_option qr_id (sql_quality_get (quality_scope q) s) \<noteq> Some j)"
proof -
  let ?prior = "map_option qr_id (sql_quality_get (quality_scope q) s)"
  have "quality_has j t \<longleftrightarrow> (\<exists>k r. sql_quality_get k t = Some r \<and> qr_id r = j)"
    using d(2) by (rule quality_has_iff)
  also have "\<dots> \<longleftrightarrow> j = qs_id q
      \<or> (\<exists>k r. k \<noteq> quality_scope q \<and> sql_quality_get k s = Some r \<and> qr_id r = j)"
    by (auto simp: quality_written_get [OF w] quality_encode_def)
  also have "(\<exists>k r. k \<noteq> quality_scope q \<and> sql_quality_get k s = Some r \<and> qr_id r = j)
      \<longleftrightarrow> (\<exists>k r. sql_quality_get k s = Some r \<and> qr_id r = j) \<and> ?prior \<noteq> Some j"
  proof
    assume "\<exists>k r. k \<noteq> quality_scope q \<and> sql_quality_get k s = Some r \<and> qr_id r = j"
    then obtain k r where r: "k \<noteq> quality_scope q" "sql_quality_get k s = Some r" "qr_id r = j"
      by blast
    have "?prior \<noteq> Some j"
    proof
      assume "?prior = Some j"
      then obtain r' where "sql_quality_get (quality_scope q) s = Some r'" "qr_id r' = j" by blast
      with u r(2,3) have "k = quality_scope q" unfolding ids_unique_def by metis
      with r(1) show False ..
    qed
    with r show "(\<exists>k r. sql_quality_get k s = Some r \<and> qr_id r = j) \<and> ?prior \<noteq> Some j" by blast
  next
    assume "(\<exists>k r. sql_quality_get k s = Some r \<and> qr_id r = j) \<and> ?prior \<noteq> Some j"
    then obtain k r where "sql_quality_get k s = Some r" "qr_id r = j" "?prior \<noteq> Some j" by blast
    then show "\<exists>k r. k \<noteq> quality_scope q \<and> sql_quality_get k s = Some r \<and> qr_id r = j"
      by (intro exI [of _ k] exI [of _ r]) auto
  qed
  finally show ?thesis using d(1) by (simp add: quality_has_iff)
qed

lemma quality_put_ok:
  assumes inv: "dialog_inv rd s" and q: "quality_wf rd q" and a: "actor = actor_id (qs_request q)"
    and fr: "id_free q s"
  obtains t where "quality_put actor q s = Inr t" "dialog_inv rd t" "quality_written q s t"
    "originals_kept s t"
proof -
  let ?prior = "map_option qr_id (sql_quality_get (quality_scope q) s)"
  let ?gone = "\<lambda>j. j \<noteq> qs_id q \<and> ?prior = Some j \<and> \<not> cut_needs j s"
  have ks: "keys_distinct s" using inv by (simp add: dialog_inv_def)
  then have d: "distinct (map fst (quality_rows s))" by (simp add: keys_distinct_def)
  obtain t where e: "quality_put actor q s = Inr t" and w: "quality_written q s t"
    and i: "quality_intents t = filter (\<lambda>(j, _). \<not> ?gone j) (quality_intents s)"
    by (rule quality_put_Inr [OF q a d])
  have k: "keys_distinct t"
    using ks w i by (auto simp: keys_distinct_def quality_written_def distinct_put_row distinct_map_filter)
  have cn: "cut_needs j t = cut_needs j s" for j
    using w by (simp add: cut_needs_def quality_written_def)
  have u: "ids_unique s" using inv by (simp add: dialog_inv_def)
  have uniq: "ids_unique t"
    using u fr unfolding ids_unique_def id_free_def quality_written_get [OF w]
    by (auto simp: quality_encode_def split: if_splits)
  have has: "quality_has j t \<longleftrightarrow> j = qs_id q \<or> (quality_has j s \<and> ?prior \<noteq> Some j)" for j
    by (rule quality_has_written [OF w d _ u]) (use k in \<open>simp add: keys_distinct_def\<close>)
  have lv: "live (fst x) s" if "x \<in> set (quality_intents s)" for x
    using inv that by (simp add: dialog_inv_def)
  have kept: "originals_kept s t"
    unfolding originals_kept_def
  proof (intro ballI)
    fix x assume x: "x \<in> set (quality_intents s)"
    have "x \<in> set (quality_intents t) \<longleftrightarrow> \<not> ?gone (fst x)" using x by (auto simp: i)
    also have "\<dots> \<longleftrightarrow> live (fst x) t"
      using lv [OF x] by (auto simp: live_def cn has)
    finally show "x \<in> set (quality_intents t) \<longleftrightarrow> live (fst x) t" .
  qed
  have "\<forall>j \<in> fst ` set (quality_intents t). live j t"
    using kept by (auto simp: originals_kept_def i)
  moreover have "quality_table.all_valid rd t" "cut_table.all_valid rd t"
    using inv q unfolding dialog_inv_def cut_table.all_valid_def quality_table.all_valid_def
      quality_written_get [OF w] by (auto split: if_splits)
  ultimately have "dialog_inv rd t" using k uniq by (simp add: dialog_inv_def)
  from e this w kept show thesis by (rule that)
qed

end
