(* ===== verification/Dialog_Steps.thy ===== *)
theory Dialog_Steps
  imports Dialog_Invariant
begin

text \<open>
  What one call of the two dialogs does to the stored drafts: each operation keeps the
  invariant, keeps exactly the live originals, changes at most the drafts of its own scope and
  only forwards, and fails neither because of a constraint nor because of what is stored.
\<close>

section \<open>How a draft may change\<close>

definition editing_stages :: "string set" where
  "editing_stages = {''start'', ''end'', ''ready'', ''quality''}"

text \<open>What a row holds once it was read and saved again: the clips are what the reader makes of
  them, everything else stays.\<close>

definition cut_row_read :: "text_reader \<Rightarrow> cut_row \<Rightarrow> cut_row \<Rightarrow> bool" where
  "cut_row_read rd r r' \<longleftrightarrow>
     (\<exists>cl original. traverse_list (read_pair rd) (cr_clips r) = Inr cl
        \<and> traverse_option (read_data rd) (cr_original r) = Inr original
        \<and> r' = r\<lparr>cr_clips := cl, cr_original := original\<rparr>)"

definition quality_row_read :: "text_reader \<Rightarrow> quality_row \<Rightarrow> quality_row \<Rightarrow> bool" where
  "quality_row_read rd r r' \<longleftrightarrow> (\<exists>d. read_data rd (qr_request r) = Inr d \<and> r' = r\<lparr>qr_request := d\<rparr>)"

text \<open>A draft that can be read is replaced by a newer message, moved on by an edit, or ended by its
  submission.\<close>

definition cut_after :: "text_reader \<Rightarrow> cut_row \<Rightarrow> cut_row \<Rightarrow> bool" where
  "cut_after rd r r' \<longleftrightarrow> \<not> cut_lost rd r
     \<and> ((cr_last r < cr_last r' \<and> cr_last r < cr_origin r' \<and> cr_stage r \<noteq> ''confirming'')
      \<or> (cr_id r' = cr_id r \<and> cr_origin r' = cr_origin r \<and> cr_stage r \<in> editing_stages
         \<and> cr_stage r' \<noteq> ''submitted'' \<and> cr_last r \<le> cr_last r'
         \<and> (cr_revision r' = cr_revision r + 1
            \<or> (cr_revision r' = cr_revision r \<and> (cr_last r < cr_last r' \<or> cr_stage r' = ''confirming''))))
      \<or> (cr_stage r = ''confirming''
         \<and> (\<exists>x op. cut_row_read rd r x \<and> r' = x\<lparr>cr_stage := ''submitted'', cr_operation := Some op\<rparr>)))"

definition quality_after :: "text_reader \<Rightarrow> quality_row \<Rightarrow> quality_row \<Rightarrow> bool" where
  "quality_after rd r r' \<longleftrightarrow> \<not> request_lost rd (qr_request r)
     \<and> ((qr_last r < qr_last r' \<and> qr_last r < qr_origin r' \<and> qr_stage r \<noteq> ''confirming'')
      \<or> (qr_stage r = ''choosing'' \<and> (\<exists>x. quality_row_read rd r x
         \<and> ((\<exists>c. r' = x\<lparr>qr_stage := ''confirming'', qr_revision := qr_revision r + 1, qr_selected := Some c\<rparr>)
           \<or> r' = x\<lparr>qr_stage := ''cancelled'', qr_revision := qr_revision r + 1\<rparr>
           \<or> (\<exists>c. r' = x\<lparr>qr_stage := ''cutting'', qr_revision := qr_revision r + 1, qr_cut := Some c\<rparr>))))
      \<or> (qr_stage r = ''confirming''
         \<and> (\<exists>x op. quality_row_read rd r x
             \<and> r' = x\<lparr>qr_stage := ''submitted'', qr_revision := qr_revision r + 1, qr_operation := Some op\<rparr>)))"

definition row_moves :: "('r \<Rightarrow> 'r \<Rightarrow> bool) \<Rightarrow> 'r option \<Rightarrow> 'r option \<Rightarrow> bool" where
  "row_moves after x y \<longleftrightarrow>
     (case x of None \<Rightarrow> True
      | Some r \<Rightarrow> (case y of None \<Rightarrow> False | Some r' \<Rightarrow> r' = r \<or> after r r'))"

definition drafts_move :: "text_reader \<Rightarrow> dialog_db \<Rightarrow> dialog_db \<Rightarrow> bool" where
  "drafts_move rd s t \<longleftrightarrow>
     (\<forall>k. row_moves (cut_after rd) (sql_cut_get k s) (sql_cut_get k t)
        \<and> row_moves (quality_after rd) (sql_quality_get k s) (sql_quality_get k t))"

lemma row_moves_simps [simp]:
  "row_moves after x x" "row_moves after None y"
  "row_moves after (Some r) (Some r') \<longleftrightarrow> r' = r \<or> after r r'"
  by (auto simp: row_moves_def split: option.splits)

text \<open>What a transaction of the dialogs guarantees of the state it commits.\<close>

definition commits :: "text_reader \<Rightarrow> dialog_db \<Rightarrow> dialog_db \<Rightarrow> bool" where
  "commits rd s t \<longleftrightarrow>
     dialog_inv rd t \<and> originals_kept s t \<and> drafts_move rd s t \<and> accounts t = accounts s"

lemma commits_refl: "dialog_inv rd s \<Longrightarrow> commits rd s s"
  by (auto simp: commits_def originals_kept_def drafts_move_def dialog_inv_def)

section \<open>Results\<close>

text \<open>The only failure that stored data may cause is that a clip of the draft is lost.\<close>

definition res_ok :: "bool \<Rightarrow> ('a \<Rightarrow> bool) \<Rightarrow> store_error + 'a \<Rightarrow> bool" where
  "res_ok lost P r \<longleftrightarrow>
     (case r of Inl x \<Rightarrow> x \<noteq> Database \<and> (x = InvalidStoredData \<longrightarrow> lost) | Inr a \<Rightarrow> P a)"

lemma res_ok_simps [simp]:
  "res_ok L P (Inr a) \<longleftrightarrow> P a"
  "res_ok L P (Inl x) \<longleftrightarrow> x \<noteq> Database \<and> (x = InvalidStoredData \<longrightarrow> L)"
  by (simp_all add: res_ok_def)

lemma res_ok_bind: "res_ok L Q r \<Longrightarrow> (\<And>a. r = Inr a \<Longrightarrow> Q a \<Longrightarrow> res_ok L P (f a)) \<Longrightarrow> res_ok L P (res_bind r f)"
  by (cases r) simp_all

lemma res_ok_error: "(\<And>a. r = Inr a \<Longrightarrow> res_ok L P (f a)) \<Longrightarrow> x \<noteq> InvalidStoredData \<Longrightarrow> x \<noteq> Database
  \<Longrightarrow> res_ok L P (res_bind (map_err x r) f)"
  by (cases r) simp_all

lemma res_ok_require: "(\<And>a. r = Some a \<Longrightarrow> res_ok L P (f a)) \<Longrightarrow> x \<noteq> InvalidStoredData \<Longrightarrow> x \<noteq> Database
  \<Longrightarrow> res_ok L P (res_bind (ok_or x r) f)"
  by (cases r) simp_all

lemma res_ok_mono: "res_ok L Q r \<Longrightarrow> (\<And>a. r = Inr a \<Longrightarrow> Q a \<Longrightarrow> P a) \<Longrightarrow> res_ok L P r"
  by (cases r) simp_all

lemma res_ok_authorize: "res_ok L (\<lambda>_. True) (authorize_dialog cfg e actor s)"
  by (simp add: authorize_dialog_def split: option.split)

lemma res_ok_scope: "res_ok L (\<lambda>_. validate_scope actor t = Inr ()) (validate_scope actor t)"
  by (simp add: validate_scope_def)

lemma res_ok_validate [simp]: "res_ok L (\<lambda>_. True) (validate_scope actor t)"
  by (rule res_ok_mono [OF res_ok_scope]) simp

lemma res_ok_unit [simp]: "res_ok L (\<lambda>_. True) (if b then Inl InvalidInput else Inr ())"
  by simp

text \<open>A checked transaction commits its body or leaves the state.\<close>

definition call_ok :: "text_reader \<Rightarrow> env \<Rightarrow> bool \<Rightarrow> dialog_db \<Rightarrow> 'a dialog_outcome \<Rightarrow> bool" where
  "call_ok rd e lost s o' \<longleftrightarrow>
     commits rd s (snd o')
     \<and> (case fst o' of
          Inl x \<Rightarrow> snd o' = s \<and> (up e \<longrightarrow> x \<noteq> Database \<and> (x = InvalidStoredData \<longrightarrow> lost))
        | Inr _ \<Rightarrow> up e)"

lemma call_ok_transaction:
  "dialog_inv rd s \<Longrightarrow> res_ok L (\<lambda>(_, t). commits rd s t) (body s)
    \<Longrightarrow> call_ok rd e L s (transaction e body s)"
  by (cases "body s") (auto simp: call_ok_def transaction_def commits_refl)

lemma call_ok_checked:
  "dialog_inv rd s \<Longrightarrow> res_ok L (\<lambda>_. True) v \<Longrightarrow> (v = Inr () \<Longrightarrow> call_ok rd e L s (f s))
    \<Longrightarrow> call_ok rd e L s (checked v f s)"
  by (cases v) (auto simp: call_ok_def checked_def commits_refl)

section \<open>Saving\<close>

lemma cut_put_commits:
  assumes "dialog_inv rd s" and "cut_wf rd c"
    and "row_moves (cut_after rd) (sql_cut_get (cut_scope c) s) (Some (cut_encode c))"
  shows "res_ok L (\<lambda>t. commits rd s t \<and> cut_written c s t) (cut_put c s)"
proof -
  obtain t where t: "cut_put c s = Inr t" "dialog_inv rd t" "cut_written c s t" "originals_kept s t"
    by (rule cut_put_ok [OF assms(1,2)])
  moreover have "drafts_move rd s t"
    using assms(3) by (auto simp: drafts_move_def cut_written_get [OF t(3)])
  moreover have "accounts t = accounts s" using t(3) by (simp add: cut_written_def)
  ultimately show ?thesis by (simp add: commits_def)
qed

lemma cut_save_commits:
  assumes "dialog_inv rd s" and "cut_wf rd c"
    and "row_moves (cut_after rd) (sql_cut_get (cut_scope c) s) (Some (cut_encode c))"
  shows "res_ok L (\<lambda>(_, t). commits rd s t) (cut_save c s)"
  unfolding cut_save_def by (rule res_ok_bind [OF cut_put_commits [OF assms]]) simp

lemma quality_put_commits:
  assumes "dialog_inv rd s" and "quality_wf rd q" and "actor = actor_id (qs_request q)"
    and "id_free q s"
    and "row_moves (quality_after rd) (sql_quality_get (quality_scope q) s) (Some (quality_encode q))"
  shows "res_ok L (\<lambda>t. commits rd s t \<and> quality_written q s t) (quality_put actor q s)"
proof -
  obtain t where t: "quality_put actor q s = Inr t" "dialog_inv rd t" "quality_written q s t"
    "originals_kept s t"
    by (rule quality_put_ok [OF assms(1-4)])
  moreover have "drafts_move rd s t"
    using assms(5) by (auto simp: drafts_move_def quality_written_get [OF t(3)])
  moreover have "accounts t = accounts s" using t(3) by (simp add: quality_written_def)
  ultimately show ?thesis by (simp add: commits_def)
qed

text \<open>The scope of a call, and the place of a draft it opens.\<close>

lemma fresh_place:
  assumes "validate_scope actor t = Inr ()" and "0 < sint m"
    and "delivery_target_new (bot_id t) (chat_id t) None (Some m) = Inr rt"
  shows "draft_place actor rt m m" and "scope_of actor rt = scope_of actor t"
    and "bot_id rt = bot_id t" and "chat_id rt = chat_id t"
  using assms sint_bounds_32 [of m]
  by (auto simp: validate_scope_def delivery_target_new_def draft_place_def scope_checks_def
      scope_of_def message_checks_def split: if_splits)

text \<open>The draft a call works on: what was read of the row of its scope.\<close>

definition cut_at :: "text_reader \<Rightarrow> dialog_db \<Rightarrow> cut_session \<Rightarrow> bool" where
  "cut_at rd s c \<longleftrightarrow> cut_wf rd c
     \<and> (\<exists>c\<^sub>0. sql_cut_get (cut_scope c) s = Some (cut_encode c\<^sub>0) \<and> reread_cut rd c\<^sub>0 = Inr c)"

lemma reread_cut_Inr:
  assumes "reread_cut rd c\<^sub>0 = Inr c"
  obtains original cl where "c = c\<^sub>0\<lparr>cs_original := original, cs_clips := cl\<rparr>"
  using assms by (auto simp: reread_cut_def res_bind_Inr_iff)

lemma reread_pairs:
  "traverse_list (reread_clip rd) cl = Inr cl' \<Longrightarrow>
    traverse_list (read_pair rd) (map (\<lambda>c. (start_seconds c, end_seconds c)) cl)
      = Inr (map (\<lambda>c. (start_seconds c, end_seconds c)) cl')"
proof (induction cl arbitrary: cl')
  case (Cons c cl)
  then obtain d ds where d: "reread_clip rd c = Inr d" "traverse_list (reread_clip rd) cl = Inr ds"
    "cl' = d # ds"
    by (auto simp: res_bind_Inr_iff)
  from d(1) obtain x y where "read_pair rd (start_seconds c, end_seconds c) = Inr (x, y)"
    "clip_range_new x y = Inr d"
    by (auto simp: reread_clip_def res_bind_Inr_iff split: prod.splits)
  then have "read_pair rd (start_seconds c, end_seconds c) = Inr (start_seconds d, end_seconds d)"
    using clip_range_newD(1) by fastforce
  with Cons.IH [OF d(2)] show ?case by (simp add: d(3))
qed simp

lemma reread_cut_row:
  assumes "reread_cut rd c\<^sub>0 = Inr c"
  shows "cut_row_read rd (cut_encode c\<^sub>0) (cut_encode c)" and "\<not> cut_lost rd (cut_encode c\<^sub>0)"
proof -
  from assms obtain original cl where c: "traverse_option (reread_request rd) (cs_original c\<^sub>0) = Inr original"
    "traverse_list (reread_clip rd) (cs_clips c\<^sub>0) = Inr cl" "c = c\<^sub>0\<lparr>cs_original := original, cs_clips := cl\<rparr>"
    by (auto simp: reread_cut_def res_bind_Inr_iff)
  from c(1) have "traverse_option (read_data rd) (map_option encode (cs_original c\<^sub>0))
      = Inr (map_option encode original)"
    by (cases "cs_original c\<^sub>0") (auto simp: res_bind_Inr_iff read_data_encode)
  then show "cut_row_read rd (cut_encode c\<^sub>0) (cut_encode c)"
    using reread_pairs [OF c(2)] by (simp add: cut_row_read_def cut_encode_def c(3))
  show "\<not> cut_lost rd (cut_encode c\<^sub>0)" using assms by (simp add: cut_lost_encode)
qed

lemma reread_quality_row:
  assumes "reread_quality rd q\<^sub>0 = Inr q"
  shows "quality_row_read rd (quality_encode q\<^sub>0) (quality_encode q)"
    and "\<not> request_lost rd (encode (qs_request q\<^sub>0))"
  using assms
  by (auto simp: reread_quality_def res_bind_Inr_iff quality_row_read_def quality_encode_def
      read_data_encode request_lost_encode)

lemma cut_current_ok:
  assumes "dialog_inv rd s" and "lost_at rd (scope_of a t) s \<Longrightarrow> L"
    and "sql_cut_get (scope_of a t) s = None \<Longrightarrow> res_ok L P (f None)"
    and "\<And>c. cut_at rd s c \<Longrightarrow> cut_scope c = scope_of a t \<Longrightarrow> res_ok L P (f (Some c))"
  shows "res_ok L P (res_bind (cut_current_row rd a t s) f)"
  using assms(1) by (rule cut_current_cases [where a = a and t = t])
    (use assms(2-4) in \<open>auto simp: cut_at_def\<close>)

lemma next_revision_ok:
  "res_ok L (\<lambda>c'. \<exists>n. c' = c\<lparr>cs_revision := n\<rparr> \<and> sint n = sint (cs_revision c) + 1) (next_revision c)"
proof (cases "checked_succ_i64 (cs_revision c)")
  case (Some n)
  with checked_succ_i64_Some [OF this] show ?thesis by (auto simp: next_revision_def)
qed (simp add: next_revision_def)

section \<open>The cut dialog\<close>

lemma cut_require_ok:
  assumes "dialog_inv rd s" and "lost_at rd (scope_of a t) s \<Longrightarrow> L"
  shows "res_ok L (cut_at rd s) (cut_require rd a t i rv s)"
    and "res_ok L (cut_at rd s) (cut_require_choice_replay rd a t i rv s)"
  unfolding cut_require_def cut_require_choice_replay_def
  by (rule res_ok_bind [OF res_ok_scope], rule cut_current_ok [OF assms]; simp add: Let_def)+

text \<open>An edit keeps identity, source and original of the draft and moves its revision on.\<close>

definition edit_of :: "cut_session \<Rightarrow> cut_session \<Rightarrow> bool" where
  "edit_of c c' \<longleftrightarrow>
     cs_id c' = cs_id c \<and> cs_actor c' = cs_actor c \<and> cs_target c' = cs_target c
     \<and> cs_origin c' = cs_origin c \<and> cs_begin c' = cs_begin c \<and> cs_url c' = cs_url c
     \<and> cs_linked c' = cs_linked c
     \<and> (cs_original c' = cs_original c \<or> cs_stage c' = CutCancelled \<and> cs_original c' = None)
     \<and> cs_stage c \<in> {CutStart, CutEnd, CutReady, CutQuality} \<and> cs_stage c' \<noteq> CutSubmitted
     \<and> sint (cs_last c) \<le> sint (cs_last c')
     \<and> (sint (cs_revision c') = sint (cs_revision c) + 1
        \<or> (cs_revision c' = cs_revision c
           \<and> (sint (cs_last c) < sint (cs_last c') \<or> cs_stage c' = CutConfirming)))"

lemma editing_stage_text:
  "cut_stage_text st \<in> editing_stages \<longleftrightarrow> st \<in> {CutStart, CutEnd, CutReady, CutQuality}"
  by (cases st) (simp_all add: editing_stages_def)

lemma stage_text_iff:
  "cut_stage_text st = ''submitted'' \<longleftrightarrow> st = CutSubmitted"
  "cut_stage_text st = ''confirming'' \<longleftrightarrow> st = CutConfirming"
  "cut_stage_text st = ''cancelled'' \<longleftrightarrow> st = CutCancelled"
  by (cases st; simp)+

text \<open>A change is an edit or the submission of a confirmed draft.\<close>

definition cut_next :: "cut_session \<Rightarrow> cut_session \<Rightarrow> bool" where
  "cut_next c c' \<longleftrightarrow> edit_of c c'
     \<or> (cs_stage c = CutConfirming \<and> (\<exists>op. c' = c\<lparr>cs_stage := CutSubmitted, cs_operation := Some op\<rparr>))"

lemma cut_next_after:
  assumes "reread_cut rd c\<^sub>0 = Inr c" and "cut_next c c'"
  shows "cut_scope c' = cut_scope c" and "cut_after rd (cut_encode c\<^sub>0) (cut_encode c')"
proof -
  show "cut_scope c' = cut_scope c" using assms(2) by (auto simp: cut_next_def edit_of_def cut_scope_def)
  from assms(1) obtain original cl where c: "c = c\<^sub>0\<lparr>cs_original := original, cs_clips := cl\<rparr>"
    by (rule reread_cut_Inr)
  have lost: "\<not> cut_lost rd (cut_encode c\<^sub>0)" by (rule reread_cut_row [OF assms(1)])
  from assms(2) consider "edit_of c c'"
    | op where "cs_stage c = CutConfirming" "c' = c\<lparr>cs_stage := CutSubmitted, cs_operation := Some op\<rparr>"
    by (auto simp: cut_next_def)
  then show "cut_after rd (cut_encode c\<^sub>0) (cut_encode c')"
  proof cases
    case 1
    with lost show ?thesis
      by (auto simp: c edit_of_def cut_after_def cut_encode_def editing_stage_text stage_text_iff)
  next
    case 2
    then have "cut_encode c' = (cut_encode c)\<lparr>cr_stage := ''submitted'', cr_operation := Some op\<rparr>"
      "cr_stage (cut_encode c\<^sub>0) = ''confirming''"
      by (simp_all add: cut_encode_def c)
    with lost reread_cut_row(1) [OF assms(1)] show ?thesis unfolding cut_after_def by blast
  qed
qed

lemma cut_put_next:
  assumes "dialog_inv rd s" and "cut_at rd s c" and "cut_wf rd c'" and "cut_next c c'"
  shows "res_ok L (\<lambda>t. commits rd s t \<and> cut_written c' s t) (cut_put c' s)"
    and "res_ok L (\<lambda>(_, t). commits rd s t) (cut_save c' s)"
proof -
  from assms(2) obtain c0 where c0: "sql_cut_get (cut_scope c) s = Some (cut_encode c0)"
    "reread_cut rd c0 = Inr c" by (auto simp: cut_at_def)
  have m: "row_moves (cut_after rd) (sql_cut_get (cut_scope c') s) (Some (cut_encode c'))"
    using cut_next_after [OF c0(2) assms(4)] c0(1) by simp
  show "res_ok L (\<lambda>t. commits rd s t \<and> cut_written c' s t) (cut_put c' s)"
    by (rule cut_put_commits [OF assms(1,3) m])
  show "res_ok L (\<lambda>(_, t). commits rd s t) (cut_save c' s)"
    by (rule cut_save_commits [OF assms(1,3) m])
qed

definition change_ok :: "text_reader \<Rightarrow> bool \<Rightarrow> (cut_session \<Rightarrow> store_error + cut_session option) \<Rightarrow> bool" where
  "change_ok rd lost change \<longleftrightarrow>
     (\<forall>c. cut_wf rd c \<longrightarrow>
        res_ok lost (pred_option (\<lambda>c'. cut_wf rd c' \<and> cut_next c c')) (change c))"

lemma cut_callback_ok:
  assumes "dialog_inv rd s" and "lost_at rd (scope_of actor t) s \<Longrightarrow> L" and "change_ok rd L change"
  shows "call_ok rd e L s (cut_callback rd cfg e actor t i rv change s)"
proof -
  have "res_ok L (\<lambda>(_, t). commits rd s t)
      (res_bind (change c) (\<lambda>d. case d of None \<Rightarrow> Inr (c, s) | Some c' \<Rightarrow> cut_save c' s))"
    if c: "cut_at rd s c" for c
  proof (rule res_ok_bind)
    show "res_ok L (pred_option (\<lambda>c'. cut_wf rd c' \<and> cut_next c c')) (change c)"
      using assms(3) c by (simp add: change_ok_def cut_at_def)
    show "res_ok L (\<lambda>(_, t). commits rd s t)
        (case d of None \<Rightarrow> Inr (c, s) | Some c' \<Rightarrow> cut_save c' s)"
      if "pred_option (\<lambda>c'. cut_wf rd c' \<and> cut_next c c') d" for d
      using that c cut_put_next(2) [OF assms(1) c]
      by (cases d) (auto simp: commits_refl assms(1))
  qed
  then show ?thesis
    unfolding cut_callback_def
    by (intro call_ok_transaction assms(1) res_ok_bind [OF res_ok_authorize]
        res_ok_bind [OF cut_require_ok(1) [OF assms(1,2)]])
qed

lemma edit_of_wf:
  assumes "cut_wf rd c" and "edit_of c c'" and "cut_stage_wf c'" and "length (cs_clips c') \<le> 20"
    and "list_all clip_wf (cs_clips c')" and "cut_shape_ok (cs_stage c') (cs_clips c') (cs_editing c')"
    and "sint (cs_last c') \<le> i32_max"
  shows "cut_wf rd c'"
proof -
  have "draft_place (cs_actor c') (cs_target c') (cs_origin c') (cs_last c')" "0 < sint (cs_revision c')"
    using assms by (auto simp: cut_wf_def edit_of_def draft_place_def message_checks_def)
  moreover have "cut_original_wf rd c'"
    using assms(1,2) by (auto simp: cut_wf_def edit_of_def cut_original_wf_def split: option.splits)
  ultimately show ?thesis using assms(3-6) by (simp add: cut_wf_def)
qed

lemma change_okI:
  assumes "\<And>c. cut_wf rd c \<Longrightarrow> res_ok L (pred_option (\<lambda>c'. edit_of c c' \<and> cut_stage_wf c'
      \<and> length (cs_clips c') \<le> 20 \<and> list_all clip_wf (cs_clips c')
      \<and> cut_shape_ok (cs_stage c') (cs_clips c') (cs_editing c'))) (change c)"
  shows "change_ok rd L change"
  unfolding change_ok_def
proof (intro allI impI)
  fix c assume c: "cut_wf rd c"
  show "res_ok L (pred_option (\<lambda>c'. cut_wf rd c' \<and> cut_next c c')) (change c)"
  proof (rule res_ok_mono [OF assms [OF c]])
    fix d assume "pred_option (\<lambda>c'. edit_of c c' \<and> cut_stage_wf c'
      \<and> length (cs_clips c') \<le> 20 \<and> list_all clip_wf (cs_clips c')
      \<and> cut_shape_ok (cs_stage c') (cs_clips c') (cs_editing c')) d"
    moreover have "sint (cs_last c') \<le> i32_max" for c' :: cut_session
      using sint_bounds_32 [of "cs_last c'"] by simp
    ultimately show "pred_option (\<lambda>c'. cut_wf rd c' \<and> cut_next c c') d"
      by (cases d) (simp_all add: edit_of_wf [OF c] cut_next_def)
  qed
qed

lemma first_valid:
  "list_all clip_wf cl \<Longrightarrow> pred_option valid_time (first_start cl)"
  by (cases cl) (auto simp: first_start_def valid_time_def elim!: clip_wf_cases)

text \<open>What is known of a draft in an editing stage, and of one with its clips complete.\<close>

lemma editing_facts:
  assumes "cut_wf rd c" and "cs_stage c \<in> {CutStart, CutEnd, CutReady, CutQuality}"
  shows "cs_url c \<noteq> None" and "pred_option valid_time (cs_begin c)"
    and "pred_option valid_time (cs_start c)" and "cs_selected c = None" and "cs_operation c = None"
    and "length (cs_clips c) \<le> 20" and "list_all clip_wf (cs_clips c)"
    and "pred_option (\<lambda>i. i < length (cs_clips c)) (cs_editing c)"
    and "cs_stage c = CutEnd \<longrightarrow> cs_start c \<noteq> None"
  using assms by (auto simp: cut_wf_def cut_stage_wf_def cut_shape_ok_def)

lemma editable_facts:
  assumes "cut_wf rd c" and "editable c"
  shows "cs_clips c \<noteq> []" and "cs_editing c = None" and "span_ok (cs_start c) (cs_end c)"
    and "cs_stage c \<in> {CutStart, CutEnd, CutReady, CutQuality}"
  using assms by (auto simp: editable_def cut_wf_def cut_stage_wf_def cut_shape_ok_def)

definition edit_ok :: "cut_session \<Rightarrow> cut_session \<Rightarrow> bool" where
  "edit_ok c c' \<longleftrightarrow> edit_of c c' \<and> cut_stage_wf c' \<and> length (cs_clips c') \<le> 20
     \<and> list_all clip_wf (cs_clips c') \<and> cut_shape_ok (cs_stage c') (cs_clips c') (cs_editing c')"

lemmas edit_ok_simps = edit_ok_def edit_of_def cut_stage_wf_def cut_shape_ok_def

lemma change_ok_edit:
  assumes "\<And>c. cut_wf rd c \<Longrightarrow> res_ok L (pred_option (edit_ok c)) (change c)"
  shows "change_ok rd L change"
  by (rule change_okI) (use assms in \<open>simp add: edit_ok_def [abs_def]\<close>)

lemma revise_ok:
  assumes "\<And>n. sint n = sint (cs_revision c) + 1 \<Longrightarrow> res_ok L P (f (c\<lparr>cs_revision := n\<rparr>))"
  shows "res_ok L P (res_bind (next_revision c) f)"
  by (rule res_ok_bind [OF next_revision_ok]) (use assms in blast)

lemma edit_first_ok: "change_ok rd L edit_first"
proof (rule change_ok_edit)
  fix c assume c: "cut_wf rd c"
  show "res_ok L (pred_option (edit_ok c)) (edit_first c)"
  proof (cases "editable c")
    case True
    note f = editable_facts [OF c True]
    show ?thesis using True editing_facts [OF c f(4)] f
      by (auto simp: edit_first_def edit_ok_simps intro!: revise_ok)
  qed (simp add: edit_first_def)
qed

lemma begin_segment_ok:
  assumes "(i = None) = add_new" shows "change_ok rd L (begin_segment i add_new)"
proof (rule change_ok_edit)
  fix c assume c: "cut_wf rd c"
  show "res_ok L (pred_option (edit_ok c)) (begin_segment i add_new c)"
  proof (cases "editable c")
    case True
    note f = editable_facts [OF c True]
    show ?thesis using assms True editing_facts [OF c f(4)] f
      by (auto simp: begin_segment_def edit_ok_simps intro!: revise_ok split: option.splits)
  qed (simp add: begin_segment_def)
qed

lemma go_back_ok: "change_ok rd L go_back"
proof (rule change_ok_edit)
  fix c assume c: "cut_wf rd c"
  show "res_ok L (pred_option (edit_ok c)) (go_back c)"
  proof (cases "cs_stage c \<in> {CutStart, CutEnd}")
    case True
    then have st: "cs_stage c \<in> {CutStart, CutEnd, CutReady, CutQuality}" by blast
    show ?thesis using True editing_facts [OF c st]
      by (auto simp: go_back_def edit_ok_simps first_valid first_bounds intro!: revise_ok)
  qed (simp add: go_back_def)
qed

lemma claim_draft_ok: "change_ok rd L claim_draft"
proof (rule change_ok_edit)
  fix c assume c: "cut_wf rd c"
  show "res_ok L (pred_option (edit_ok c)) (claim_draft c)"
  proof (cases "editable c")
    case True
    note f = editable_facts [OF c True]
    show ?thesis using True editing_facts [OF c f(4)] f
      by (auto simp: claim_draft_def edit_ok_simps)
  qed (auto simp: claim_draft_def editable_def)
qed

lemma ask_quality_ok: "change_ok rd L ask_quality"
proof (rule change_ok_edit)
  fix c assume c: "cut_wf rd c"
  show "res_ok L (pred_option (edit_ok c)) (ask_quality c)"
  proof (cases "editable c")
    case True
    note f = editable_facts [OF c True]
    show ?thesis using True editing_facts [OF c f(4)] f
      by (auto simp: ask_quality_def edit_ok_simps intro!: revise_ok)
  qed (auto simp: ask_quality_def editable_def)
qed

lemma deleted_clips:
  "list_all clip_wf cl \<Longrightarrow> list_all clip_wf (take i cl @ drop (Suc i) cl)"
  "length cl \<le> 20 \<Longrightarrow> length (take i cl @ drop (Suc i) cl) \<le> 20"
  by (auto simp: list_all_iff dest: in_set_takeD in_set_dropD)

lemma delete_segment_ok: "change_ok rd L (delete_segment i)"
proof (rule change_ok_edit)
  fix c assume c: "cut_wf rd c"
  show "res_ok L (pred_option (edit_ok c)) (delete_segment i c)"
  proof (cases "editable c")
    case True
    note f = editable_facts [OF c True]
    note g = editing_facts [OF c f(4)]
    define cl where "cl = take i (cs_clips c) @ drop (Suc i) (cs_clips c)"
    have "list_all clip_wf cl" "length cl \<le> 20"
      using deleted_clips g(6,7) by (simp_all add: cl_def)
    moreover have "delete_segment i c = (if i \<ge> length (cs_clips c) then Inl InvalidInput
        else res_bind (next_revision (c\<lparr>cs_clips := cl\<rparr>)) (\<lambda>c.
          let c = c\<lparr>cs_selected := None, cs_operation := None, cs_editing := None,
                    cs_start := first_start cl, cs_end := first_end cl\<rparr> in
          Inr (Some (if cl = [] then c\<lparr>cs_stage := CutStart, cs_start := None, cs_end := None\<rparr>
                     else c\<lparr>cs_stage := CutReady\<rparr>))))"
      using True by (simp only: delete_segment_def cl_def Let_def not_True_eq_False if_False)
    ultimately show ?thesis using f g
      by (auto simp: edit_ok_simps Let_def first_valid first_bounds intro!: revise_ok)
  qed (simp add: delete_segment_def)
qed

lemma cancel_draft_ok: "change_ok rd L (cancel_draft m)"
proof (rule change_ok_edit)
  fix c assume c: "cut_wf rd c"
  show "res_ok L (pred_option (edit_ok c)) (cancel_draft m c)"
  proof (cases "cs_stage c \<in> {CutStart, CutEnd, CutReady, CutQuality}")
    case True
    note g = editing_facts [OF c True]
    show ?thesis
    proof (cases m)
      case None
      with True g show ?thesis by (auto simp: cancel_draft_def edit_ok_simps intro!: revise_ok)
    next
      case (Some x)
      with True g show ?thesis by (auto simp: cancel_draft_def edit_ok_simps intro!: revise_ok)
    qed
  qed (auto simp: cancel_draft_def)
qed

lemma submit_draft_ok: "change_ok rd L (submit_draft op)"
  unfolding change_ok_def
proof (intro allI impI)
  fix c assume c: "cut_wf rd c"
  show "res_ok L (pred_option (\<lambda>c'. cut_wf rd c' \<and> cut_next c c')) (submit_draft op c)"
  proof (cases "cs_stage c = CutConfirming")
    case True
    let ?c = "c\<lparr>cs_stage := CutSubmitted, cs_operation := Some op\<rparr>"
    have "cut_original_wf rd ?c"
      using c True by (auto simp: cut_wf_def cut_original_wf_def split: option.splits)
    then have "cut_wf rd ?c"
      using c True by (simp add: cut_wf_def cut_stage_wf_def cut_shape_ok_def)
    moreover have "cut_next c ?c" using True unfolding cut_next_def by blast
    ultimately show ?thesis using True by (simp add: submit_draft_def)
  qed (simp add: submit_draft_def)
qed

lemma cut_choose_ok:
  assumes inv: "dialog_inv rd s" and lost: "lost_at rd (scope_of actor t) s \<Longrightarrow> L"
  shows "call_ok rd e L s (cut_choose rd cfg e actor t i rv choice s)"
proof -
  have body: "res_ok L (\<lambda>(_, t). commits rd s t)
      (if cs_stage c \<in> {CutConfirming, CutSubmitted} \<and> cs_selected c = Some choice
          \<and> (rv = cs_revision c \<or> rv = cs_revision c - 1)
       then Inr (c, s)
       else if cs_stage c \<noteq> CutQuality then Inl Conflict
       else res_bind (next_revision (c\<lparr>cs_stage := CutConfirming, cs_selected := Some choice\<rparr>))
         (\<lambda>c. cut_save c s))"
    if c: "cut_at rd s c" and ch: "offered choice" "choice \<noteq> AudioChoice" for c
  proof (cases "cs_stage c = CutQuality")
    case True
    then have w: "cut_wf rd c" "editable c" using c by (simp_all add: cut_at_def editable_def)
    note f = editable_facts [OF w]
    have "res_ok L (\<lambda>(_, t). commits rd s t)
        (cut_save (c\<lparr>cs_stage := CutConfirming, cs_selected := Some choice, cs_revision := n\<rparr>) s)"
      if "sint n = sint (cs_revision c) + 1" for n
    proof -
      let ?c = "c\<lparr>cs_stage := CutConfirming, cs_selected := Some choice, cs_revision := n\<rparr>"
      have e: "edit_of c ?c" using that True by (simp add: edit_of_def)
      have "cut_wf rd ?c"
        by (rule edit_of_wf [OF w(1) e]) (use editing_facts [OF w(1) f(4)] f ch
          sint_bounds_32 [of "cs_last c"] in \<open>simp_all add: cut_stage_wf_def cut_shape_ok_def\<close>)
      with e show ?thesis by (intro cut_put_next(2) [OF inv c]) (simp_all add: cut_next_def)
    qed
    then show ?thesis using True by (auto intro!: revise_ok)
  qed (simp add: commits_refl [OF inv])
  show ?thesis
    unfolding cut_choose_def
    by (intro call_ok_checked call_ok_transaction inv res_ok_bind [OF res_ok_authorize]
        res_ok_bind [OF cut_require_ok(2) [OF inv lost]]; (rule body)?; simp split: if_splits)
qed

text \<open>A message newer than a draft that can be read and is not being confirmed opens the next one.\<close>

definition replaceable :: "text_reader \<Rightarrow> scope \<Rightarrow> i32 \<Rightarrow> dialog_db \<Rightarrow> bool" where
  "replaceable rd k m s \<longleftrightarrow>
     (\<forall>r. sql_cut_get k s = Some r \<longrightarrow> \<not> cut_lost rd r \<and> cr_last r < sint m \<and> cr_stage r \<noteq> ''confirming'')"

lemma cut_fresh_ok:
  assumes inv: "dialog_inv rd s" and c: "cut_wf rd c"
    and r: "replaceable rd (cut_scope c) (cs_origin c) s"
  shows "res_ok L (\<lambda>t. commits rd s t \<and> cut_written c s t) (cut_put c s)"
proof (rule cut_put_commits [OF inv c])
  have "sint (cs_origin c) \<le> sint (cs_last c)"
    using c unfolding cut_wf_def by (blast dest: place_origin)
  then show "row_moves (cut_after rd) (sql_cut_get (cut_scope c) s) (Some (cut_encode c))"
    using r by (cases "sql_cut_get (cut_scope c) s")
      (auto simp: replaceable_def cut_after_def cut_encode_def)
qed

lemma cut_at_row:
  assumes "cut_at rd s c" and "cut_scope c = k"
  obtains r where "sql_cut_get k s = Some r" "\<not> cut_lost rd r" "cr_last r = sint (cs_last c)"
    "cr_stage r = cut_stage_text (cs_stage c)" "cr_id r = cs_id c" "cr_linked r = cs_linked c"
proof -
  from assms obtain c0 where c0: "sql_cut_get k s = Some (cut_encode c0)" "reread_cut rd c0 = Inr c"
    by (auto simp: cut_at_def)
  from c0(2) obtain original cl where "c = c0\<lparr>cs_original := original, cs_clips := cl\<rparr>"
    by (rule reread_cut_Inr)
  with that [OF c0(1) reread_cut_row(2) [OF c0(2)]] show thesis by (simp add: cut_encode_def)
qed

lemma replaceable_none: "sql_cut_get k s = None \<Longrightarrow> replaceable rd k m s"
  by (simp add: replaceable_def)

lemma replaceable_at:
  assumes "cut_at rd s c" and "cut_scope c = k" and "\<not> sint m \<le> sint (cs_last c)"
    and "cs_stage c \<noteq> CutConfirming"
  shows "replaceable rd k m s"
proof -
  from assms(1,2) obtain r where "sql_cut_get k s = Some r" "\<not> cut_lost rd r"
    "cr_last r = sint (cs_last c)" "cr_stage r = cut_stage_text (cs_stage c)"
    by (rule cut_at_row)
  with assms(3,4) show ?thesis by (simp add: replaceable_def stage_text_iff)
qed

lemma new_cut_wf:
  assumes "draft_place actor rt m m" and "pred_option valid_time start"
  shows "cut_wf rd \<lparr>cs_id = i, cs_revision = 1,
                 cs_stage = (if start \<noteq> None then CutEnd else CutStart), cs_actor = actor,
                 cs_target = rt, cs_origin = m, cs_last = m, cs_start = start,
                 cs_end = None, cs_clips = [], cs_editing = None, cs_operation = None,
                 cs_selected = None, cs_begin = start, cs_url = Some url, cs_original = None,
                 cs_linked = None\<rparr>"
  using assms by (simp add: cut_wf_def cut_shape_ok_def cut_original_wf_def cut_stage_wf_def)

lemma cut_begin_ok:
  assumes inv: "dialog_inv rd s" and lost: "lost_at rd (scope_of actor t) s \<Longrightarrow> L"
  shows "call_ok rd e L s (cut_begin rd cfg e actor t m url start s)"
proof -
  define fresh where "fresh = (\<lambda>s. res_bind (map_err InvalidInput
      (delivery_target_new (bot_id t) (chat_id t) None (Some m)))
        (\<lambda>rt. cut_save \<lparr>cs_id = fresh_id e, cs_revision = 1,
                 cs_stage = (if start \<noteq> None then CutEnd else CutStart), cs_actor = actor,
                 cs_target = rt, cs_origin = m, cs_last = m, cs_start = start,
                 cs_end = None, cs_clips = [], cs_editing = None, cs_operation = None,
                 cs_selected = None, cs_begin = start, cs_url = Some url, cs_original = None,
                 cs_linked = None\<rparr> s))"
  have fr: "res_ok L (\<lambda>(_, t). commits rd s t) (fresh s)"
    if "validate_scope actor t = Inr ()" "0 < sint m" "pred_option valid_time start"
      "replaceable rd (scope_of actor t) m s"
    unfolding fresh_def cut_save_def
  proof (intro res_ok_error res_ok_bind [OF cut_fresh_ok [OF inv]])
    fix rt assume "delivery_target_new (bot_id t) (chat_id t) None (Some m) = Inr rt"
    note p = fresh_place [OF that(1,2) this]
    show "cut_wf rd \<lparr>cs_id = fresh_id e, cs_revision = 1,
                 cs_stage = (if start \<noteq> None then CutEnd else CutStart), cs_actor = actor,
                 cs_target = rt, cs_origin = m, cs_last = m, cs_start = start,
                 cs_end = None, cs_clips = [], cs_editing = None, cs_operation = None,
                 cs_selected = None, cs_begin = start, cs_url = Some url, cs_original = None,
                 cs_linked = None\<rparr>"
      by (rule new_cut_wf [OF p(1) that(3)])
  qed (use that(4) in \<open>simp_all add: cut_scope_def fresh_place(2) [OF that(1,2)]\<close>)
  have body: "res_ok L (\<lambda>(_, t). commits rd s t)
      (res_bind (cut_current_row rd actor t s) (\<lambda>old. case old of None \<Rightarrow> fresh s
           | Some c \<Rightarrow>
               if sint m \<le> sint (cs_last c) then
                 (if m = cs_origin c \<and> (cs_url c \<noteq> Some url \<or> cs_begin c \<noteq> start)
                  then Inl Conflict else Inr (c, s))
               else if cs_stage c = CutConfirming then Inl Conflict
               else fresh s))"
    if v: "validate_scope actor t = Inr ()" "0 < sint m" "pred_option valid_time start"
  proof (rule cut_current_ok [OF inv lost])
    fix c assume c: "cut_at rd s c" "cut_scope c = scope_of actor t"
    show "res_ok L (\<lambda>(_, t). commits rd s t) (case Some c of None \<Rightarrow> fresh s
           | Some c \<Rightarrow>
               if sint m \<le> sint (cs_last c) then
                 (if m = cs_origin c \<and> (cs_url c \<noteq> Some url \<or> cs_begin c \<noteq> start)
                  then Inl Conflict else Inr (c, s))
               else if cs_stage c = CutConfirming then Inl Conflict
               else fresh s)"
      using fr [OF v replaceable_at [OF c]] by (simp add: commits_refl [OF inv])
  qed (simp_all add: fr v replaceable_def)
  show ?thesis
    unfolding cut_begin_def fresh_def [symmetric] Let_def
    by (intro call_ok_checked call_ok_transaction inv res_ok_bind [OF res_ok_authorize];
      (rule body | rule res_ok_error)?; simp split: if_splits)
qed

definition entered :: "cut_session \<Rightarrow> cut_session \<Rightarrow> bool" where
  "entered c c' \<longleftrightarrow> cs_stage c' \<noteq> cs_stage c \<and> cs_revision c' = cs_revision c
     \<and> (\<forall>n m. sint n = sint (cs_revision c) + 1 \<longrightarrow> sint (cs_last c) < sint m
          \<longrightarrow> edit_ok c (c'\<lparr>cs_revision := n, cs_last := m\<rparr>))"

lemma entered_ready:
  assumes c: "cut_wf rd c" and st: "cs_stage c = CutEnd" and r: "clip_range_new s' e' = Inr rg"
    and x: "x = (case cs_editing c of
              Some i \<Rightarrow> if i \<ge> length (cs_clips c) then Inl InvalidStoredData
                       else Inr ((cs_clips c)[i := rg])
            | None \<Rightarrow> if length (cs_clips c) \<ge> 20 then Inl InvalidInput
                     else Inr (cs_clips c @ [rg]))"
  shows "res_ok L (\<lambda>cl. entered c (c\<lparr>cs_clips := cl, cs_editing := None, cs_start := first_start cl,
            cs_end := first_end cl, cs_stage := CutReady\<rparr>)) x"
proof -
  have st4: "cs_stage c \<in> {CutStart, CutEnd, CutReady, CutQuality}" by (simp add: st)
  note g = editing_facts [OF c st4]
  have w: "clip_wf rg" using r by (rule clip_range_newD)
  have e: "entered c (c\<lparr>cs_clips := cl, cs_editing := None, cs_start := first_start cl,
            cs_end := first_end cl, cs_stage := CutReady\<rparr>)"
    if "list_all clip_wf cl" "length cl \<le> 20" "cl \<noteq> []" for cl
    using that g st by (auto simp: entered_def edit_ok_simps first_valid first_bounds)
  show ?thesis
  proof (cases "cs_editing c")
    case None
    then show ?thesis using g(6,7) w by (auto simp: x intro!: e)
  next
    case (Some i)
    then have "i < length (cs_clips c)" using g(8) by simp
    moreover have "list_all clip_wf ((cs_clips c)[i := rg])"
      using g(7) w by (auto simp: list_all_iff dest!: set_update_subset_insert [THEN subsetD])
    ultimately show ?thesis using g(6) Some by (auto simp: x intro!: e)
  qed
qed

lemma cut_enter_ok:
  assumes c: "cut_wf rd c" and v: "valid_time v"
  shows "res_ok L (entered c) (cut_enter v b c)"
proof -
  consider "cs_stage c = CutStart" | "cs_stage c = CutEnd" | "cs_stage c \<notin> {CutStart, CutEnd}" by blast
  then show ?thesis
  proof cases
    case 1
    then have "cs_stage c \<in> {CutStart, CutEnd, CutReady, CutQuality}" by simp
    from editing_facts [OF c this] 1 v show ?thesis
      by (auto simp: cut_enter_def entered_def edit_ok_simps)
  next
    case 2
    then have "cs_stage c \<in> {CutStart, CutEnd, CutReady, CutQuality}" by simp
    from editing_facts(9) [OF c this] 2 obtain start where s: "cs_start c = Some start" by auto
    show ?thesis unfolding cut_enter_def
      using 2 s by (auto simp: Let_def intro!: res_ok_error res_ok_bind [OF entered_ready [OF c 2]])
  next
    case 3
    then show ?thesis by (simp add: cut_enter_def)
  qed
qed

lemma cut_input_ok:
  assumes inv: "dialog_inv rd s" and lost: "lost_at rd (scope_of actor t) s \<Longrightarrow> L"
  shows "call_ok rd e L s (cut_input rd cfg e actor t m v b s)"
proof -
  have body: "res_ok L (\<lambda>(_, t). commits rd s t)
      (res_bind (cut_current_row rd actor t s) (\<lambda>old.
           case old of
             None \<Rightarrow> Inr (None, s)
           | Some c \<Rightarrow>
               if sint m \<le> sint (cs_last c) then Inr (Some c, s)
               else
                 res_bind (cut_enter v b c) (\<lambda>c'.
                 res_bind (if cs_stage c' \<noteq> cs_stage c then next_revision c' else Inr c') (\<lambda>c'.
                 res_bind (cut_put (c'\<lparr>cs_last := m\<rparr>) s) (\<lambda>s.
                   Inr (Some (c'\<lparr>cs_last := m\<rparr>), s))))))"
    if "valid_time v"
  proof (rule cut_current_ok [OF inv lost])
    fix c assume at: "cut_at rd s c"
    then have c: "cut_wf rd c" by (simp add: cut_at_def)
    have put: "res_ok L (\<lambda>(_, t). commits rd s t)
        (res_bind (cut_put (c'\<lparr>cs_revision := n, cs_last := m\<rparr>) s) (\<lambda>s. Inr (x, s)))"
      if "entered c c'" "sint n = sint (cs_revision c) + 1" "sint (cs_last c) < sint m" for c' n and x :: "cut_session option"
    proof -
      let ?c = "c'\<lparr>cs_revision := n, cs_last := m\<rparr>"
      have ok: "edit_ok c ?c" using that by (simp add: entered_def)
      then have e: "edit_of c ?c" by (simp add: edit_ok_def)
      have "cut_wf rd ?c"
        by (rule edit_of_wf [OF c e]) (use ok sint_bounds_32 [of m] in \<open>simp_all add: edit_ok_def\<close>)
      with e show ?thesis
        by (intro res_ok_bind [OF cut_put_next(1) [OF inv at]]) (simp_all add: cut_next_def)
    qed
    have changed: "cs_stage c' \<noteq> cs_stage c \<and> cs_revision c' = cs_revision c" if "entered c c'" for c'
      using that by (simp add: entered_def)
    show "res_ok L (\<lambda>(_, t). commits rd s t)
      (case Some c of None \<Rightarrow> Inr (None, s) | Some c \<Rightarrow>
               if sint m \<le> sint (cs_last c) then Inr (Some c, s)
               else
                 res_bind (cut_enter v b c) (\<lambda>c'.
                 res_bind (if cs_stage c' \<noteq> cs_stage c then next_revision c' else Inr c') (\<lambda>c'.
                 res_bind (cut_put (c'\<lparr>cs_last := m\<rparr>) s) (\<lambda>s.
                   Inr (Some (c'\<lparr>cs_last := m\<rparr>), s)))))"
      by (auto simp: commits_refl [OF inv] changed
          intro!: res_ok_bind [OF cut_enter_ok [OF c that]] revise_ok put)
  qed (simp_all add: commits_refl [OF inv])
  show ?thesis
    unfolding cut_input_def
    by (intro call_ok_checked call_ok_transaction inv res_ok_bind [OF res_ok_authorize];
      (rule body)?; simp split: if_splits)
qed

end
