(* ===== verification/Quality_Steps.thy ===== *)
theory Quality_Steps
  imports Dialog_Steps
begin

text \<open>
  The operations of the quality dialog on the stored drafts, the hand-over to a cut included:
  each commits a state that satisfies the invariant or leaves the state as it was.
\<close>

section \<open>Reading a draft\<close>

definition quality_at :: "text_reader \<Rightarrow> dialog_db \<Rightarrow> u64 \<Rightarrow> delivery_target \<Rightarrow> quality_session \<Rightarrow> bool" where
  "quality_at rd s actor t q \<longleftrightarrow>
     quality_wf rd q \<and> quality_scope q = scope_of actor t \<and> actor_id (qs_request q) = actor
     \<and> (\<exists>q\<^sub>0. sql_quality_get (scope_of actor t) s = Some (quality_encode q\<^sub>0) \<and> reread_quality rd q\<^sub>0 = Inr q)"

lemma scope_of_eqD:
  "scope_of a t = scope_of b u \<Longrightarrow> a = b \<and> bot_id t = bot_id u \<and> chat_id t = chat_id u"
  by (auto simp: scope_of_def intro: signed_word_eqI)

lemma reread_quality_Inr:
  assumes "reread_quality rd q\<^sub>0 = Inr q"
  obtains r where "q = q\<^sub>0\<lparr>qs_request := r\<rparr>"
  using assms by (auto simp: reread_quality_def res_bind_Inr_iff)

lemma quality_at_row:
  assumes "quality_at rd s actor t q"
  obtains r where "sql_quality_get (scope_of actor t) s = Some r" "\<not> request_lost rd (qr_request r)"
    "qr_last r = sint (qs_last q)" "qr_stage r = quality_stage_text (qs_stage q)" "qr_id r = qs_id q"
    "qr_cut r = qs_cut q"
proof -
  from assms obtain q0 where q0: "sql_quality_get (scope_of actor t) s = Some (quality_encode q0)"
    "reread_quality rd q0 = Inr q" by (auto simp: quality_at_def)
  from q0(2) obtain r where "q = q0\<lparr>qs_request := r\<rparr>" by (rule reread_quality_Inr)
  with that [OF q0(1)] reread_quality_row(2) [OF q0(2)] show thesis by (simp add: quality_encode_def)
qed

lemma quality_row_ok:
  assumes "dialog_inv rd s" and "lost_at rd (scope_of a t) s \<Longrightarrow> L"
    and "sql_quality_get (scope_of a t) s = None \<Longrightarrow> res_ok L P (f None)"
    and "\<And>r. quality_decode rd (scope_of a t, r) = Inl InvalidStoredData \<Longrightarrow> L \<Longrightarrow> res_ok L P (f (Some r))"
    and "\<And>q r. quality_at rd s a t q \<Longrightarrow> quality_decode rd (scope_of a t, r) = Inr q
      \<Longrightarrow> res_ok L P (f (Some r))"
  shows "res_ok L P (f (sql_quality_get (scope_of a t) s))"
  using assms(1)
proof (rule quality_row_cases [where a = a and t = t])
  fix q0 q assume q: "sql_quality_get (scope_of a t) s = Some (quality_encode q0)"
    "quality_decode rd (scope_of a t, quality_encode q0) = Inr q" "reread_quality rd q0 = Inr q"
    "quality_wf rd q" "quality_scope q = scope_of a t"
  then have "quality_at rd s a t q"
    using scope_of_eqD [of "actor_id (qs_request q)" "qs_target q" a t]
    by (auto simp: quality_at_def quality_scope_def)
  with q(1,2) assms(5) show ?thesis by simp
qed (use assms(2-4) in simp_all)

lemma quality_current_ok:
  assumes "dialog_inv rd s" and "lost_at rd (scope_of a t) s \<Longrightarrow> L"
    and "sql_quality_get (scope_of a t) s = None \<Longrightarrow> res_ok L P (f None)"
    and "\<And>q. quality_at rd s a t q \<Longrightarrow> res_ok L P (f (Some q))"
  shows "res_ok L P (res_bind (quality_current_row rd a t s) f)"
  unfolding quality_current_row_def
  by (rule quality_row_ok [OF assms(1,2)]) (use assms(3,4) in simp_all)

lemma quality_require_ok:
  assumes "dialog_inv rd s" and "lost_at rd (scope_of a t) s \<Longrightarrow> L"
    and "\<And>q. quality_at rd s a t q \<Longrightarrow> res_ok L P (f q)"
  shows "res_ok L P (res_bind (ok_or NotFoundOrStale (sql_quality_get (scope_of a t) s))
    (\<lambda>r. res_bind (quality_decode rd (scope_of a t, r)) f))"
  by (rule quality_row_ok [OF assms(1,2), where f = "\<lambda>x. res_bind (ok_or NotFoundOrStale x)
      (\<lambda>r. res_bind (quality_decode rd (scope_of a t, r)) f)"]) (simp_all add: assms(3))

lemma quality_get_ok:
  assumes inv: "dialog_inv rd s" and lost: "lost_at rd (scope_of a t) s \<Longrightarrow> L"
  shows "res_ok L (quality_at rd s a t) (quality_get rd a t i rv s)"
  unfolding quality_get_def validate_revision_def
  by (cases "validate_scope a t")
    (auto simp: validate_scope_def lost split: if_splits intro!: quality_require_ok [OF inv])

lemma id_free_same:
  "dialog_inv rd s \<Longrightarrow> sql_quality_get (quality_scope q) s = Some r \<Longrightarrow> qr_id r = qs_id q
    \<Longrightarrow> id_free q s"
  unfolding dialog_inv_def ids_unique_def id_free_def by metis

text \<open>A change of a draft in place.\<close>

definition quality_next :: "quality_session \<Rightarrow> quality_session \<Rightarrow> bool" where
  "quality_next q q' \<longleftrightarrow>
     (qs_stage q = Choosing
      \<and> ((\<exists>c. q' = q\<lparr>qs_stage := Confirming, qs_revision := 2, qs_selected := Some c\<rparr>)
        \<or> q' = q\<lparr>qs_stage := QualityCancelled, qs_revision := 2\<rparr>
        \<or> (\<exists>i. q' = q\<lparr>qs_stage := Cutting, qs_revision := 2, qs_cut := Some i\<rparr>)))
     \<or> (qs_stage q = Confirming
        \<and> (\<exists>op. q' = q\<lparr>qs_stage := Submitted, qs_revision := 3, qs_operation := Some op\<rparr>))"

lemma revision_step: "quality_wf rd q \<Longrightarrow> qs_revision q = expected_revision (qs_stage q)"
  by (simp add: quality_wf_def)

lemma quality_next_same:
  "quality_next q q' \<Longrightarrow> qs_id q' = qs_id q \<and> qs_request q' = qs_request q \<and> qs_target q' = qs_target q"
  by (auto simp: quality_next_def)

lemma quality_next_after:
  assumes "reread_quality rd q\<^sub>0 = Inr q" and "quality_wf rd q" and "quality_next q q'"
  shows "quality_after rd (quality_encode q\<^sub>0) (quality_encode q')"
proof -
  from assms(1) obtain r where q: "q = q\<^sub>0\<lparr>qs_request := r\<rparr>" by (rule reread_quality_Inr)
  note read = reread_quality_row [OF assms(1)]
  have row: "qr_stage (quality_encode q\<^sub>0) = quality_stage_text (qs_stage q)"
    "qr_revision (quality_encode q\<^sub>0) = sint (expected_revision (qs_stage q))"
    "qr_request (quality_encode q\<^sub>0) = encode (qs_request q\<^sub>0)"
    using revision_step [OF assms(2)] by (simp_all add: quality_encode_def q)
  note update = quality_encode_def expected_revision_def
  from assms(3) consider
      c where "qs_stage q = Choosing" "quality_encode q' = (quality_encode q)\<lparr>qr_stage := ''confirming'',
        qr_revision := sint (expected_revision Choosing) + 1, qr_selected := Some c\<rparr>"
    | "qs_stage q = Choosing" "quality_encode q' = (quality_encode q)\<lparr>qr_stage := ''cancelled'',
        qr_revision := sint (expected_revision Choosing) + 1\<rparr>"
    | i where "qs_stage q = Choosing" "quality_encode q' = (quality_encode q)\<lparr>qr_stage := ''cutting'',
        qr_revision := sint (expected_revision Choosing) + 1, qr_cut := Some i\<rparr>"
    | op where "qs_stage q = Confirming" "quality_encode q' = (quality_encode q)\<lparr>qr_stage := ''submitted'',
        qr_revision := sint (expected_revision Confirming) + 1, qr_operation := Some op\<rparr>"
    unfolding quality_next_def by (elim disjE conjE exE) (simp_all add: update)
  then show ?thesis
    unfolding quality_after_def row
    by cases (use read in \<open>auto intro!: exI [of _ "quality_encode q"]\<close>)
qed

lemma quality_edit_ok:
  assumes inv: "dialog_inv rd s" and q: "quality_at rd s a t q" and w: "quality_wf rd q'"
    and n: "quality_next q q'"
  shows "res_ok L (\<lambda>t. commits rd s t \<and> quality_written q' s t) (quality_put a q' s)"
proof (rule quality_put_commits [OF inv w])
  note same = quality_next_same [OF n]
  from q obtain q0 where q0: "sql_quality_get (scope_of a t) s = Some (quality_encode q0)"
    "reread_quality rd q0 = Inr q" and wq: "quality_wf rd q" by (auto simp: quality_at_def)
  have k: "quality_scope q' = scope_of a t" using same q by (auto simp: quality_scope_def quality_at_def)
  note g = q0(1) [folded k]
  show "a = actor_id (qs_request q')" using q same by (simp add: quality_at_def)
  show "id_free q' s"
    using q0(2) by (intro id_free_same [OF inv g]) (auto simp: quality_encode_def same elim: reread_quality_Inr)
  show "row_moves (quality_after rd) (sql_quality_get (quality_scope q') s) (Some (quality_encode q'))"
    using g quality_next_after [OF q0(2) wq n] by simp
qed

lemma quality_save_edit_ok:
  assumes "dialog_inv rd s" and "quality_at rd s a t q" and "quality_wf rd q'" and "quality_next q q'"
  shows "res_ok L (\<lambda>(_, t). commits rd s t) (quality_save a q' s)"
  unfolding quality_save_def by (rule res_ok_bind [OF quality_edit_ok [OF assms]]) simp

section \<open>Choosing, cancelling and submitting\<close>

lemma validate_revision_ok [simp]: "res_ok L (\<lambda>_. True) (validate_revision actor t rv)"
  by (simp add: validate_revision_def validate_scope_def)

lemma quality_claim_ok:
  assumes inv: "dialog_inv rd s" and lost: "lost_at rd (scope_of actor t) s \<Longrightarrow> L"
  shows "call_ok rd e L s (quality_claim rd cfg e actor t i rv choice s)"
proof -
  have edit: "res_ok L (\<lambda>(_, t). commits rd s t) (quality_save actor
      (q\<lparr>qs_stage := Confirming, qs_revision := qs_revision q + 1, qs_selected := Some choice\<rparr>) s)"
    if q: "quality_at rd s actor t q" and "qs_stage q = Choosing" "offered choice" for q
    by (rule quality_save_edit_ok [OF inv q])
      (use that in \<open>auto simp: quality_at_def quality_wf_def expected_revision_def quality_next_def\<close>)
  show ?thesis
    unfolding quality_claim_def
    by (intro call_ok_checked call_ok_transaction inv res_ok_bind [OF res_ok_authorize]
        res_ok_bind [OF quality_get_ok [OF inv lost]]; simp add: commits_refl [OF inv] edit split: if_splits)
qed

lemma quality_cancel_ok:
  assumes inv: "dialog_inv rd s" and lost: "lost_at rd (scope_of actor t) s \<Longrightarrow> L"
  shows "call_ok rd e L s (quality_cancel rd cfg e actor t i rv s)"
proof -
  have edit: "res_ok L (\<lambda>(_, t). commits rd s t) (quality_save actor
      (q\<lparr>qs_stage := QualityCancelled, qs_revision := qs_revision q + 1\<rparr>) s)"
    if q: "quality_at rd s actor t q" and "qs_stage q = Choosing" for q
    by (rule quality_save_edit_ok [OF inv q])
      (use that in \<open>auto simp: quality_at_def quality_wf_def expected_revision_def quality_next_def\<close>)
  show ?thesis
    unfolding quality_cancel_def
    by (intro call_ok_checked call_ok_transaction inv res_ok_bind [OF res_ok_authorize]
        res_ok_bind [OF quality_get_ok [OF inv lost]]; simp add: commits_refl [OF inv] edit split: if_splits)
qed

lemma quality_submitted_ok:
  assumes inv: "dialog_inv rd s" and lost: "lost_at rd (scope_of actor t) s \<Longrightarrow> L"
  shows "call_ok rd e L s (quality_submitted rd cfg e actor t i rv op s)"
proof -
  have edit: "res_ok L (\<lambda>(_, t). commits rd s t) (quality_save actor
      (q\<lparr>qs_stage := Submitted, qs_revision := qs_revision q + 1, qs_operation := Some op\<rparr>) s)"
    if q: "quality_at rd s actor t q" and "qs_stage q = Confirming" for q
    by (rule quality_save_edit_ok [OF inv q])
      (use that in \<open>auto simp: quality_at_def quality_wf_def expected_revision_def quality_next_def\<close>)
  show ?thesis
    unfolding quality_submitted_def
    by (intro call_ok_checked call_ok_transaction inv res_ok_bind [OF res_ok_authorize]
        res_ok_bind [OF quality_get_ok [OF inv lost]]; simp add: commits_refl [OF inv] edit split: if_splits)
qed

section \<open>Opening a draft\<close>

lemma live_quality_row:
  "keys_distinct s \<Longrightarrow> sql_quality_get k s = Some r \<Longrightarrow> live (qr_id r) s"
  by (auto simp: live_def quality_has_iff keys_distinct_def)

text \<open>The original of a draft just opened is stored under the identifier of the draft.\<close>

lemma commits_intent:
  assumes c: "commits rd s t" and l: "live i t"
  shows "commits rd s (sql_quality_media_intent_put i d t)"
proof (cases "i \<in> fst ` set (quality_intents t)")
  case True
  then show ?thesis using c by (simp add: sql_quality_media_intent_put_def)
next
  case False
  define u where "u = t\<lparr>quality_intents := quality_intents t @ [(i, d)]\<rparr>"
  have rows: "sql_cut_get k u = sql_cut_get k t" "sql_quality_get k u = sql_quality_get k t"
    "live j u = live j t" for j k
    by (simp_all add: u_def sql_cut_get_def sql_quality_get_def live_def quality_has_def cut_needs_def)
  have inv: "dialog_inv rd t" and kept: "originals_kept s t" and m: "drafts_move rd s t"
    using c by (simp_all add: commits_def)
  have "dialog_inv rd u"
    using inv False l unfolding dialog_inv_def cut_table.all_valid_def quality_table.all_valid_def
      ids_unique_def rows by (auto simp: u_def keys_distinct_def)
  moreover have "originals_kept s u"
    unfolding originals_kept_def rows
  proof (intro ballI)
    fix x assume x: "x \<in> set (quality_intents s)"
    then have k: "x \<in> set (quality_intents t) \<longleftrightarrow> live (fst x) t"
      using kept by (simp add: originals_kept_def)
    moreover have "x \<noteq> (i, d)" if "\<not> live (fst x) t" using that l by auto
    ultimately show "x \<in> set (quality_intents u) \<longleftrightarrow> live (fst x) t" by (auto simp: u_def)
  qed
  moreover have "drafts_move rd s u" using m by (simp add: drafts_move_def rows)
  moreover have "accounts u = accounts s" using c by (simp add: commits_def u_def)
  ultimately have "commits rd s u" by (simp add: commits_def)
  then show ?thesis using False by (simp add: sql_quality_media_intent_put_def u_def)
qed

definition fresh_for :: "uuid \<Rightarrow> dialog_db \<Rightarrow> bool" where
  "fresh_for i s \<longleftrightarrow> (\<forall>k r. sql_quality_get k s = Some r \<longrightarrow> qr_id r \<noteq> i)"

lemma quality_fresh_ok:
  assumes inv: "dialog_inv rd s" and w: "quality_wf rd q" and a: "actor = actor_id (qs_request q)"
    and f: "fresh_for (qs_id q) s"
    and old: "\<And>r. sql_quality_get (quality_scope q) s = Some r \<Longrightarrow>
      \<not> request_lost rd (qr_request r) \<and> qr_last r < sint (qs_origin q) \<and> qr_stage r \<noteq> ''confirming''"
  shows "res_ok L (\<lambda>t. commits rd s t \<and> quality_written q s t) (quality_put actor q s)"
proof (rule quality_put_commits [OF inv w a])
  show "id_free q s" using f by (auto simp: id_free_def fresh_for_def)
  have "sint (qs_origin q) \<le> sint (qs_last q)"
    using w unfolding quality_wf_def by (blast dest: place_origin)
  then show "row_moves (quality_after rd) (sql_quality_get (quality_scope q) s) (Some (quality_encode q))"
    using old by (cases "sql_quality_get (quality_scope q) s")
      (fastforce simp: quality_after_def quality_encode_def)+
qed

lemma quality_begin_media_ok:
  assumes inv: "dialog_inv rd s" and lost: "lost_at rd (scope_of actor t) s \<Longrightarrow> L"
    and r: "request_wf (read_url rd) r" and f: "fresh_for (fresh_id e) s"
  shows "call_ok rd e L s (quality_begin_media rd cfg e actor t m r original s)"
proof -
  define new where "new rt = \<lparr>qs_id = fresh_id e, qs_revision = 1, qs_stage = Choosing,
                 qs_target = rt, qs_origin = m, qs_selected = None, qs_operation = None,
                 qs_cut = None, qs_request = r, qs_last = m\<rparr>" for rt
  define fresh where "fresh = (\<lambda>s. res_bind (map_err InvalidInput
      (delivery_target_new (bot_id t) (chat_id t) None (Some m))) (\<lambda>rt.
        res_bind (quality_save actor (new rt) s) (\<lambda>(q, s).
          Inr (q, case original of None \<Rightarrow> s
            | Some o' \<Rightarrow> sql_quality_media_intent_put (qs_id q) (encode o') s))))"
  have fr: "res_ok L (\<lambda>(_, t). commits rd s t) (fresh s)"
    if v: "validate_scope actor t = Inr ()" "0 < sint m" and a: "actor_id r = actor"
      and d: "draft_request rd t m r"
      and old: "\<And>r. sql_quality_get (scope_of actor t) s = Some r \<Longrightarrow>
        \<not> request_lost rd (qr_request r) \<and> qr_last r < sint m \<and> qr_stage r \<noteq> ''confirming''"
    unfolding fresh_def
  proof (intro res_ok_error)
    fix rt assume "delivery_target_new (bot_id t) (chat_id t) None (Some m) = Inr rt"
    note p = fresh_place [OF v this]
    have w: "quality_wf rd (new rt)"
      using p d a by (simp add: quality_wf_def new_def expected_revision_def draft_request_def)
    have put: "res_ok L (\<lambda>t. commits rd s t \<and> quality_written (new rt) s t)
        (quality_put actor (new rt) s)"
      by (rule quality_fresh_ok [OF inv w])
        (use f a old p(2) in \<open>simp_all add: new_def quality_scope_def\<close>)
    show "res_ok L (\<lambda>(_, t). commits rd s t) (res_bind (quality_save actor (new rt) s) (\<lambda>(q, s).
          Inr (q, case original of None \<Rightarrow> s
            | Some o' \<Rightarrow> sql_quality_media_intent_put (qs_id q) (encode o') s)))"
    proof -
      have "commits rd s (case original of None \<Rightarrow> u
            | Some o' \<Rightarrow> sql_quality_media_intent_put (qs_id (new rt)) (encode o') u)"
        if u: "commits rd s u" "quality_written (new rt) s u" for u
      proof -
        have "keys_distinct u" using u(1) by (simp add: commits_def dialog_inv_def)
        moreover have "sql_quality_get (quality_scope (new rt)) u = Some (quality_encode (new rt))"
          by (simp add: quality_written_get [OF u(2)])
        ultimately have "live (qs_id (new rt)) u"
          using live_quality_row by (fastforce simp: quality_encode_def)
        with u(1) show ?thesis by (simp add: commits_intent split: option.split)
      qed
      then show ?thesis unfolding quality_save_def
        using put by (cases "quality_put actor (new rt) s") auto
    qed
  qed simp_all
  have body: "res_ok L (\<lambda>(_, t). commits rd s t)
      (res_bind (quality_current_row rd actor t s) (\<lambda>old. case old of
             None \<Rightarrow> fresh s
           | Some prior \<Rightarrow>
               if sint m \<le> sint (qs_last prior) then
                 (if m = qs_origin prior \<and> encode (qs_request prior) \<noteq> encode r
                  then Inl Conflict else Inr (prior, s))
               else if qs_stage prior = Confirming then Inl Conflict
               else fresh s))"
    if v: "validate_scope actor t = Inr ()" "0 < sint m" "actor_id r = actor"
      and d: "draft_request rd t m r"
  proof (rule quality_current_ok [OF inv lost])
    fix q assume q: "quality_at rd s actor t q"
    obtain row where g: "sql_quality_get (scope_of actor t) s = Some row"
      "\<not> request_lost rd (qr_request row)" "qr_last row = sint (qs_last q)"
      "qr_stage row = quality_stage_text (qs_stage q)"
      by (rule quality_at_row [OF q])
    have st: "quality_stage_text st = ''confirming'' \<longleftrightarrow> st = Confirming" for st by (cases st) simp_all
    show "res_ok L (\<lambda>(_, t). commits rd s t) (case Some q of None \<Rightarrow> fresh s
           | Some prior \<Rightarrow>
               if sint m \<le> sint (qs_last prior) then
                 (if m = qs_origin prior \<and> encode (qs_request prior) \<noteq> encode r
                  then Inl Conflict else Inr (prior, s))
               else if qs_stage prior = Confirming then Inl Conflict
               else fresh s)"
      by (auto simp: commits_refl [OF inv] g st intro!: fr v d)
  qed (auto intro!: fr v d)
  show ?thesis
    unfolding quality_begin_media_def Let_def new_def [symmetric] fresh_def [symmetric]
    by (intro call_ok_checked call_ok_transaction inv res_ok_bind [OF res_ok_authorize];
      (rule body)?; simp add: draft_request_def r split: if_splits)
qed

section \<open>Handing over to a cut\<close>

lemma handoff_wf:
  assumes q: "quality_at rd s actor t q" and st: "qs_stage q = Choosing"
    and p: "playlist (params (qs_request q)) = None" "clips (params (qs_request q)) = []"
  shows "res_ok L (\<lambda>c. cut_wf rd c \<and> cut_scope c = scope_of actor t \<and> cs_origin c = qs_origin q
      \<and> cs_linked c = Some (qs_id q) \<and> cs_original c = Some (qs_request q)) (handoff_cut e actor t q)"
  unfolding handoff_cut_def
proof (intro res_ok_error)
  let ?r = "qs_request q"
  fix rt assume rt: "delivery_target_new (bot_id t) (chat_id t) None (Some (qs_origin q)) = Inr rt"
  have t: "scope_of actor (qs_target q) = scope_of actor t" and a: "actor_id ?r = actor"
    using q by (auto simp: quality_at_def quality_scope_def)
  have pl: "draft_place actor (qs_target q) (qs_origin q) (qs_last q)"
    and d: "draft_request rd (qs_target q) (qs_origin q) ?r"
    using q by (auto simp: quality_at_def quality_wf_def)
  have rt': "bot_id rt = bot_id t" "chat_id rt = chat_id t" "thread_id rt = None"
    "reply_to_message_id rt = Some (qs_origin q)"
    using rt by (auto simp: delivery_target_new_def split: if_splits)
  have same: "bot_id (qs_target q) = bot_id t" "chat_id (qs_target q) = chat_id t"
    using scope_of_eqD [OF t] by simp_all
  have place: "draft_place actor rt (qs_origin q) (qs_origin q)"
    using pl rt' same by (simp add: draft_place_def scope_of_def message_checks_def)
  have rw: "request_wf (read_url rd) ?r" "storable ?r"
    using d by (simp_all add: draft_request_def quality_draft_storable)
  have orig: "original_ok (sint actor) (sint (bot_id t)) (sint (chat_id t)) (sint (qs_origin q))
      (Some (url_text (source_url ?r))) (Some (qs_id q)) ?r"
    using d p a same place_scope [OF pl] unfolding original_ok_def draft_request_def request_at_def
    by (auto simp: uint_nonneg_64 split: option.splits)
  show "res_ok L (\<lambda>c. cut_wf rd c \<and> cut_scope c = scope_of actor t \<and> cs_origin c = qs_origin q
      \<and> cs_linked c = Some (qs_id q) \<and> cs_original c = Some ?r)
     (let r = ?r; range = clip_range r in
       Inr \<lparr>cs_id = fresh_id e, cs_revision = 1,
            cs_stage = (if range \<noteq> None then CutReady else CutStart), cs_actor = actor,
            cs_target = rt, cs_origin = qs_origin q, cs_last = qs_origin q,
            cs_start = map_option start_seconds range, cs_end = map_option end_seconds range,
            cs_clips = (case range of None \<Rightarrow> [] | Some c \<Rightarrow> [c]), cs_editing = None,
            cs_operation = None, cs_selected = None, cs_begin = map_option start_seconds range,
            cs_url = Some (url_text (source_url r)), cs_original = Some r,
            cs_linked = Some (qs_id q)\<rparr>)"
  proof (cases "clip_range ?r")
    case None
    then show ?thesis
      using place orig rw rt' by (simp add: cut_wf_def cut_shape_ok_def cut_original_wf_def
          cut_stage_wf_def cut_scope_def scope_of_def Let_def)
  next
    case (Some cl)
    then have cl: "clip_wf cl" using rw(1) by (simp add: request_wf_def)
    then have "valid_time (start_seconds cl)"
      by (auto simp: valid_time_def elim: clip_wf_cases)
    then show ?thesis
      using Some cl place orig rw rt' first_bounds [of "[cl]"]
      by (simp add: cut_wf_def cut_shape_ok_def cut_original_wf_def
          cut_stage_wf_def cut_scope_def scope_of_def first_start_def first_end_def Let_def)
  qed
qed simp_all

text \<open>The two writes of the hand-over make one commit.\<close>

lemma cut_put_intents:
  "cut_put c s = Inr t \<Longrightarrow> set (quality_intents t) \<subseteq> set (quality_intents s)"
  by (auto simp: cut_put_def sql_cut_put_def Let_def res_bind_Inr_iff
      sql_quality_media_intent_cut_released_delete_def split: option.splits if_splits)

lemma cut_written_live_back:
  assumes w: "cut_written c m t" and d: "keys_distinct m" "keys_distinct t"
    and l: "live j t" "cs_linked c \<noteq> Some j"
  shows "live j m"
proof (cases "quality_has j t")
  case True
  then show ?thesis using w by (simp add: live_def quality_has_def cut_written_def)
next
  case False
  with l(1) d(2) obtain k r where r: "sql_cut_get k t = Some r" "cr_linked r = Some j"
    "cr_stage r \<noteq> ''cancelled''"
    by (auto simp: live_def cut_needs_iff keys_distinct_def)
  with l(2) have "k \<noteq> cut_scope c"
    by (auto simp: cut_written_get [OF w] cut_encode_def)
  with r have "sql_cut_get k m = Some r" by (simp add: cut_written_get [OF w])
  then have "cut_needs j m" using r(2,3) d(1) by (subst cut_needs_iff) (auto simp: keys_distinct_def)
  then show ?thesis by (simp add: live_def)
qed

lemma commits_handoff:
  assumes m: "commits rd s m" "quality_written q s m"
    and t: "commits rd m t" "cut_written c m t" "cut_put c m = Inr t"
    and l: "cs_linked c = Some (qs_id q)"
  shows "commits rd s t"
proof -
  have d: "keys_distinct m" "keys_distinct t"
    using m(1) t(1) by (simp_all add: commits_def dialog_inv_def)
  have lq: "live (qs_id q) m"
    using live_quality_row [OF d(1)] quality_written_get(1) [OF m(2), of "quality_scope q"]
    by (fastforce simp: quality_encode_def)
  have "originals_kept s t"
    unfolding originals_kept_def
  proof (intro ballI)
    fix x assume x: "x \<in> set (quality_intents s)"
    show "x \<in> set (quality_intents t) \<longleftrightarrow> live (fst x) t"
    proof (cases "x \<in> set (quality_intents m)")
      case True
      then show ?thesis using t(1) by (simp add: commits_def originals_kept_def)
    next
      case False
      then have nl: "\<not> live (fst x) m" using m(1) x by (simp add: commits_def originals_kept_def)
      moreover have "fst x \<noteq> qs_id q" using nl lq by auto
      ultimately have "\<not> live (fst x) t"
        using cut_written_live_back [OF t(2) d] l by auto
      then show ?thesis using False cut_put_intents [OF t(3)] by auto
    qed
  qed
  moreover have "drafts_move rd s t"
    using m t(1) unfolding commits_def drafts_move_def
    by (simp add: quality_written_get(2) [OF m(2)] cut_written_get(2) [OF t(2)])
  ultimately show ?thesis using m(1) t(1) by (simp add: commits_def)
qed

text \<open>The rows of a quality draft that was handed over to a cut: each names the other.\<close>

definition handed_over :: "dialog_db \<Rightarrow> scope \<Rightarrow> uuid \<Rightarrow> uuid \<Rightarrow> bool" where
  "handed_over s k i j \<longleftrightarrow>
     (case sql_quality_get k s of None \<Rightarrow> False
      | Some r \<Rightarrow> qr_id r = i \<and> qr_stage r = ''cutting'' \<and> qr_cut r = Some j)
     \<and> (case sql_cut_get k s of None \<Rightarrow> False | Some r \<Rightarrow> cr_id r = j \<and> cr_linked r = Some i)"

definition cutting :: "uuid \<Rightarrow> quality_session \<Rightarrow> quality_session" where
  "cutting i q = q\<lparr>qs_stage := Cutting, qs_revision := 2, qs_cut := Some i\<rparr>"

definition handoff_reply :: "scope \<Rightarrow> uuid \<Rightarrow> quality_session \<Rightarrow> cut_session \<Rightarrow> dialog_db \<Rightarrow> dialog_db \<Rightarrow> bool" where
  "handoff_reply k i q c s u \<longleftrightarrow>
     handed_over u k i (cs_id c) \<and> cs_linked c = Some i
     \<and> (qs_stage q = Cutting \<longrightarrow> u = s)"

lemma handoff_ok:
  assumes inv: "dialog_inv rd s" and q: "quality_at rd s actor t q" and st: "qs_stage q = Choosing"
    and p: "playlist (params (qs_request q)) = None" "clips (params (qs_request q)) = []"
    and old: "replaceable rd (scope_of actor t) (qs_origin q) s"
  shows "res_ok L (\<lambda>(c, u). commits rd s u \<and> handoff_reply (scope_of actor t) (qs_id q) q c s u)
    (res_bind (handoff_cut e actor t q) (\<lambda>c.
     res_bind (ok_or InvalidInput (checked_succ_i64 (qs_revision q))) (\<lambda>n.
     res_bind (quality_put actor (q\<lparr>qs_stage := Cutting, qs_revision := n,
         qs_cut := Some (cs_id c)\<rparr>) s) (\<lambda>s.
     res_bind (cut_put c s) (\<lambda>s. Inr (c, s))))))"
proof (rule res_ok_bind [OF handoff_wf [OF q st p]])
  fix c assume c: "cut_wf rd c \<and> cut_scope c = scope_of actor t \<and> cs_origin c = qs_origin q
      \<and> cs_linked c = Some (qs_id q) \<and> cs_original c = Some (qs_request q)"
  let ?q = "cutting (cs_id c) q"
  let ?P = "\<lambda>(c, u). commits rd s u \<and> handoff_reply (scope_of actor t) (qs_id q) q c s u"
  have rv: "qs_revision q = 1"
    using q st by (auto simp: quality_at_def quality_wf_def expected_revision_def)
  have w: "quality_wf rd ?q"
    using q st by (auto simp: quality_at_def quality_wf_def expected_revision_def cutting_def)
  have n: "quality_next q ?q" using st by (auto simp: quality_next_def cutting_def)
  have k: "quality_scope ?q = scope_of actor t"
    using q by (auto simp: quality_at_def quality_scope_def cutting_def)
  have "res_ok L ?P (res_bind (quality_put actor ?q s) (\<lambda>s. res_bind (cut_put c s) (\<lambda>s. Inr (c, s))))"
  proof (rule res_ok_bind [OF quality_edit_ok [OF inv q w n]])
    fix m assume m: "commits rd s m \<and> quality_written ?q s m"
    have invm: "dialog_inv rd m" using m by (simp add: commits_def)
    have "replaceable rd (cut_scope c) (cs_origin c) m"
      using old c by (simp add: replaceable_def quality_written_get(2) [OF conjunct2 [OF m]])
    note put = cut_fresh_ok [OF invm conjunct1 [OF c] this]
    show "res_ok L ?P (res_bind (cut_put c m) (\<lambda>s. Inr (c, s)))"
    proof (rule res_ok_bind [OF put])
      fix u assume e: "cut_put c m = Inr u" and u: "commits rd m u \<and> cut_written c m u"
      have "commits rd s u"
        by (rule commits_handoff [of rd s m ?q u c]) (use m u e c in \<open>simp_all add: cutting_def\<close>)
      moreover have "handoff_reply (scope_of actor t) (qs_id q) q c s u"
      proof -
        have "quality_written ?q s m" "cut_written c m u" using m u by simp_all
        from quality_written_get [OF this(1)] cut_written_get [OF this(2)] c k st
        show ?thesis
          by (simp add: handoff_reply_def handed_over_def quality_encode_def cut_encode_def cutting_def)
      qed
      ultimately show "res_ok L ?P (Inr (c, u))" by simp
    qed
  qed
  then show "res_ok L ?P
    (res_bind (ok_or InvalidInput (checked_succ_i64 (qs_revision q))) (\<lambda>n.
     res_bind (quality_put actor (q\<lparr>qs_stage := Cutting, qs_revision := n,
         qs_cut := Some (cs_id c)\<rparr>) s) (\<lambda>s.
     res_bind (cut_put c s) (\<lambda>s. Inr (c, s)))))"
    by (simp add: rv checked_succ_i64_def cutting_def)
qed

lemma quality_cut_body_ok:
  assumes inv: "dialog_inv rd s" and lost: "lost_at rd (scope_of actor t) s \<Longrightarrow> L"
    and q: "quality_at rd s actor t q"
  shows "res_ok L (\<lambda>(c, u). commits rd s u \<and> handoff_reply (scope_of actor t) i q c s u)
    (if qs_id q \<noteq> i then Inl Conflict
     else if qs_stage q = Cutting then
       (if rv \<noteq> qs_revision q \<and> rv \<noteq> qs_revision q - 1 then Inl Conflict
        else res_bind (ok_or InvalidStoredData (qs_cut q)) (\<lambda>linked.
          res_bind (cut_current_row rd actor t s) (\<lambda>c.
          res_bind (ok_or Conflict c) (\<lambda>c.
            if cs_id c \<noteq> linked \<or> cs_linked c \<noteq> Some i then Inl Conflict else Inr (c, s)))))
     else if qs_stage q \<noteq> Choosing \<or> qs_revision q \<noteq> rv then Inl Conflict
     else if playlist (params (qs_request q)) \<noteq> None \<or> clips (params (qs_request q)) \<noteq> []
     then Inl InvalidInput
     else res_bind (cut_current_row rd actor t s) (\<lambda>active.
       if (case active of None \<Rightarrow> False
           | Some c \<Rightarrow> sint (cs_last c) \<ge> sint (qs_origin q)
               \<or> cs_stage c \<in> {CutStart, CutEnd, CutReady, CutQuality, CutConfirming})
       then Inl Conflict
       else res_bind (handoff_cut e actor t q) (\<lambda>c.
         res_bind (ok_or InvalidInput (checked_succ_i64 (qs_revision q))) (\<lambda>n.
         res_bind (quality_put actor (q\<lparr>qs_stage := Cutting, qs_revision := n,
             qs_cut := Some (cs_id c)\<rparr>) s) (\<lambda>s.
         res_bind (cut_put c s) (\<lambda>s. Inr (c, s)))))))"
proof -
  let ?P = "\<lambda>(c, u). commits rd s u \<and> handoff_reply (scope_of actor t) i q c s u"
  show ?thesis
  proof (cases "qs_stage q = Cutting")
    case True
    then obtain linked where l: "qs_cut q = Some linked"
      using q by (auto simp: quality_at_def quality_wf_def)
    have "res_ok L ?P (res_bind (cut_current_row rd actor t s) (\<lambda>c.
          res_bind (ok_or Conflict c) (\<lambda>c.
            if cs_id c \<noteq> linked \<or> cs_linked c \<noteq> Some i then Inl Conflict else Inr (c, s))))"
      if i: "qs_id q = i"
    proof (rule cut_current_ok [OF inv lost])
      fix c assume c: "cut_at rd s c" "cut_scope c = scope_of actor t"
      have "handoff_reply (scope_of actor t) i q c s s" if "cs_id c = linked" "cs_linked c = Some i"
      proof -
        obtain r where r: "sql_quality_get (scope_of actor t) s = Some r"
          "qr_stage r = quality_stage_text (qs_stage q)" "qr_id r = qs_id q" "qr_cut r = qs_cut q"
          by (rule quality_at_row [OF q])
        obtain r' where "sql_cut_get (scope_of actor t) s = Some r'" "cr_id r' = cs_id c"
          "cr_linked r' = cs_linked c"
          by (rule cut_at_row [OF c])
        with r that i l True show ?thesis by (simp add: handoff_reply_def handed_over_def)
      qed
      then show "res_ok L ?P (res_bind (ok_or Conflict (Some c)) (\<lambda>c.
            if cs_id c \<noteq> linked \<or> cs_linked c \<noteq> Some i then Inl Conflict else Inr (c, s)))"
        by (simp add: commits_refl [OF inv])
    qed simp_all
    then show ?thesis using True l by auto
  next
    case False
    show ?thesis
    proof (cases "qs_id q = i \<and> qs_stage q = Choosing \<and> qs_revision q = rv
        \<and> playlist (params (qs_request q)) = None \<and> clips (params (qs_request q)) = []")
      case True
      have hand: "res_ok L ?P (res_bind (handoff_cut e actor t q) (\<lambda>c.
         res_bind (ok_or InvalidInput (checked_succ_i64 (qs_revision q))) (\<lambda>n.
         res_bind (quality_put actor (q\<lparr>qs_stage := Cutting, qs_revision := n,
             qs_cut := Some (cs_id c)\<rparr>) s) (\<lambda>s.
         res_bind (cut_put c s) (\<lambda>s. Inr (c, s))))))"
        if "replaceable rd (scope_of actor t) (qs_origin q) s"
        using handoff_ok [OF inv q _ _ _ that] True by simp
      have "res_ok L ?P (res_bind (cut_current_row rd actor t s) (\<lambda>active.
       if (case active of None \<Rightarrow> False
           | Some c \<Rightarrow> sint (cs_last c) \<ge> sint (qs_origin q)
               \<or> cs_stage c \<in> {CutStart, CutEnd, CutReady, CutQuality, CutConfirming})
       then Inl Conflict
       else res_bind (handoff_cut e actor t q) (\<lambda>c.
         res_bind (ok_or InvalidInput (checked_succ_i64 (qs_revision q))) (\<lambda>n.
         res_bind (quality_put actor (q\<lparr>qs_stage := Cutting, qs_revision := n,
             qs_cut := Some (cs_id c)\<rparr>) s) (\<lambda>s.
         res_bind (cut_put c s) (\<lambda>s. Inr (c, s)))))))"
        by (rule cut_current_ok [OF inv lost])
          (auto intro!: hand intro: replaceable_none replaceable_at)
      then show ?thesis using True False by simp
    next
      case no: False
      then show ?thesis using False by (auto simp del: de_Morgan_conj)
    qed
  qed
qed

lemma quality_cut_row_ok:
  assumes inv: "dialog_inv rd s" and lost: "lost_at rd (scope_of actor t) s \<Longrightarrow> L"
  shows "res_ok L (\<lambda>(c, u). commits rd s u
      \<and> (\<exists>q. quality_at rd s actor t q \<and> handoff_reply (scope_of actor t) i q c s u))
    (res_bind (ok_or NotFoundOrStale (sql_quality_get (scope_of actor t) s))
     (\<lambda>r. res_bind (quality_decode rd (scope_of actor t, r)) (\<lambda>q.
     if qs_id q \<noteq> i then Inl Conflict
     else if qs_stage q = Cutting then
       (if rv \<noteq> qs_revision q \<and> rv \<noteq> qs_revision q - 1 then Inl Conflict
        else res_bind (ok_or InvalidStoredData (qs_cut q)) (\<lambda>linked.
          res_bind (cut_current_row rd actor t s) (\<lambda>c.
          res_bind (ok_or Conflict c) (\<lambda>c.
            if cs_id c \<noteq> linked \<or> cs_linked c \<noteq> Some i then Inl Conflict else Inr (c, s)))))
     else if qs_stage q \<noteq> Choosing \<or> qs_revision q \<noteq> rv then Inl Conflict
     else if playlist (params (qs_request q)) \<noteq> None \<or> clips (params (qs_request q)) \<noteq> []
     then Inl InvalidInput
     else res_bind (cut_current_row rd actor t s) (\<lambda>active.
       if (case active of None \<Rightarrow> False
           | Some c \<Rightarrow> sint (cs_last c) \<ge> sint (qs_origin q)
               \<or> cs_stage c \<in> {CutStart, CutEnd, CutReady, CutQuality, CutConfirming})
       then Inl Conflict
       else res_bind (handoff_cut e actor t q) (\<lambda>c.
         res_bind (ok_or InvalidInput (checked_succ_i64 (qs_revision q))) (\<lambda>n.
         res_bind (quality_put actor (q\<lparr>qs_stage := Cutting, qs_revision := n,
             qs_cut := Some (cs_id c)\<rparr>) s) (\<lambda>s.
         res_bind (cut_put c s) (\<lambda>s. Inr (c, s)))))))))"
  by (rule quality_require_ok [OF inv lost], assumption,
      rule res_ok_mono [OF quality_cut_body_ok [OF inv lost]]) blast+

lemma quality_cut_ok:
  assumes inv: "dialog_inv rd s" and lost: "lost_at rd (scope_of actor t) s \<Longrightarrow> L"
  shows "call_ok rd e L s (quality_cut rd cfg e actor t i rv s)"
  unfolding quality_cut_def
  by (intro call_ok_checked call_ok_transaction inv res_ok_bind [OF res_ok_authorize]
      validate_revision_ok res_ok_mono [OF quality_cut_row_ok [OF inv lost]]) auto

lemma quality_cut_reply:
  assumes inv: "dialog_inv rd s" and r: "quality_cut rd cfg e actor t i rv s = (Inr c, u)"
  shows "\<exists>q. quality_at rd s actor t q \<and> handoff_reply (scope_of actor t) i q c s u"
proof -
  note row = quality_cut_row_ok [OF inv, of actor t True i rv e, simplified]
  have "validate_revision actor t rv = Inr ()" "up e" "authorize_dialog cfg e actor s = Inr ()"
    using r by (auto simp: quality_cut_def checked_Inr transaction_Inr res_bind_Inr_iff)
  with r row show ?thesis
    unfolding quality_cut_def checked_Inr transaction_Inr by simp
qed

end
