(* ===== verification/Dialog_Safety.thy ===== *)
theory Dialog_Safety
  imports Quality_Steps Queue_Example
begin

text \<open>
  The two dialogs as one transition system: every call of the bot, in any order and for any
  number of actors, interleaved with changes of the account tables by the rest of the program.
  What is stored stays readable, drafts only move forwards, an original is kept exactly as long
  as a draft needs it, and the hand-over from a quality draft to a cut can be repeated.
\<close>

section \<open>Calls\<close>

datatype cut_action =
  EditFirst | AddSegment | EditSegment nat | DeleteSegment nat | GoBack | CancelCut "i32 option"
| ClaimCut | AskQuality | ChooseQuality quality_choice | SubmitCut uuid

datatype quality_action = ClaimQuality quality_choice | CancelQuality | SubmitQuality uuid | HandOver

datatype dialog_call =
  BeginCut u64 delivery_target i32 string "f64 option"
| InputCut u64 delivery_target i32 f64 bool
| ActCut cut_action u64 delivery_target uuid i64
| BeginQuality u64 delivery_target i32 download_request "download_request option"
| ActQuality quality_action u64 delivery_target uuid i64

datatype dialog_reply = CutReply "cut_session option" | QualityReply quality_session

definition reply :: "('a \<Rightarrow> dialog_reply) \<Rightarrow> 'a dialog_outcome \<Rightarrow> dialog_reply dialog_outcome" where
  "reply f o' = (map_sum (\<lambda>x. x) f (fst o'), snd o')"

fun run_cut_action ::
  "text_reader \<Rightarrow> store_config \<Rightarrow> env \<Rightarrow> cut_action \<Rightarrow> u64 \<Rightarrow> delivery_target \<Rightarrow> uuid \<Rightarrow> i64
    \<Rightarrow> dialog_db \<Rightarrow> cut_session dialog_outcome" where
  "run_cut_action rd cfg e EditFirst a t i rv s = cut_edit rd cfg e a t i rv s"
| "run_cut_action rd cfg e AddSegment a t i rv s = cut_add rd cfg e a t i rv s"
| "run_cut_action rd cfg e (EditSegment n) a t i rv s = cut_edit_segment rd cfg e a t i rv n s"
| "run_cut_action rd cfg e (DeleteSegment n) a t i rv s = cut_delete_segment rd cfg e a t i rv n s"
| "run_cut_action rd cfg e GoBack a t i rv s = cut_back rd cfg e a t i rv s"
| "run_cut_action rd cfg e (CancelCut m) a t i rv s = cut_cancel rd cfg e a t i rv m s"
| "run_cut_action rd cfg e ClaimCut a t i rv s = cut_claim rd cfg e a t i rv s"
| "run_cut_action rd cfg e AskQuality a t i rv s = cut_quality rd cfg e a t i rv s"
| "run_cut_action rd cfg e (ChooseQuality c) a t i rv s = cut_choose rd cfg e a t i rv c s"
| "run_cut_action rd cfg e (SubmitCut op) a t i rv s = cut_submitted rd cfg e a t i rv op s"

fun run_dialog ::
  "text_reader \<Rightarrow> store_config \<Rightarrow> env \<Rightarrow> dialog_call \<Rightarrow> dialog_db \<Rightarrow> dialog_reply dialog_outcome" where
  "run_dialog rd cfg e (BeginCut a t m url start) s =
     reply (\<lambda>c. CutReply (Some c)) (cut_begin rd cfg e a t m url start s)"
| "run_dialog rd cfg e (InputCut a t m v b) s = reply CutReply (cut_input rd cfg e a t m v b s)"
| "run_dialog rd cfg e (ActCut x a t i rv) s =
     reply (\<lambda>c. CutReply (Some c)) (run_cut_action rd cfg e x a t i rv s)"
| "run_dialog rd cfg e (BeginQuality a t m r original) s =
     reply QualityReply (quality_begin_media rd cfg e a t m r original s)"
| "run_dialog rd cfg e (ActQuality (ClaimQuality c) a t i rv) s =
     reply QualityReply (quality_claim rd cfg e a t i rv c s)"
| "run_dialog rd cfg e (ActQuality CancelQuality a t i rv) s =
     reply QualityReply (quality_cancel rd cfg e a t i rv s)"
| "run_dialog rd cfg e (ActQuality (SubmitQuality op) a t i rv) s =
     reply QualityReply (quality_submitted rd cfg e a t i rv op s)"
| "run_dialog rd cfg e (ActQuality HandOver a t i rv) s =
     reply (\<lambda>c. CutReply (Some c)) (quality_cut rd cfg e a t i rv s)"

text \<open>A call works on the drafts of the actor, in the private chat with one bot. Most calls read or
  write the cut draft there.\<close>

fun call_scope :: "dialog_call \<Rightarrow> scope" where
  "call_scope (BeginCut a t m url start) = scope_of a t"
| "call_scope (InputCut a t m v b) = scope_of a t"
| "call_scope (ActCut x a t i rv) = scope_of a t"
| "call_scope (BeginQuality a t m r original) = scope_of a t"
| "call_scope (ActQuality x a t i rv) = scope_of a t"

fun about_cut :: "dialog_call \<Rightarrow> bool" where
  "about_cut (BeginQuality a t m r original) = False"
| "about_cut (ActQuality x a t i rv) = (x = HandOver)"
| "about_cut _ = True"

text \<open>The arguments are values of the domain's types, and \<open>Uuid::new_v4\<close> draws an identifier no
  stored quality draft has.\<close>

fun call_allowed :: "text_reader \<Rightarrow> env \<Rightarrow> dialog_call \<Rightarrow> dialog_db \<Rightarrow> bool" where
  "call_allowed rd e (BeginQuality a t m r original) s = (request_wf (read_url rd) r \<and> fresh_for (fresh_id e) s)"
| "call_allowed rd e _ s = True"

section \<open>The transition system\<close>

inductive dialog_step :: "text_reader \<Rightarrow> dialog_db \<Rightarrow> dialog_db \<Rightarrow> bool" for rd where
  call: "call_allowed rd e c s \<Longrightarrow> dialog_step rd s (snd (run_dialog rd cfg e c s))"
| other: "dialog_step rd s (s\<lparr>accounts := a\<rparr>)"

inductive_cases dialog_step_cases: "dialog_step rd s t"

definition no_drafts :: "dialog_db \<Rightarrow> bool" where
  "no_drafts s \<longleftrightarrow> quality_rows s = [] \<and> cut_rows s = [] \<and> quality_intents s = []"

lemma call_ok_reply: "call_ok rd e L s o' \<Longrightarrow> call_ok rd e L s (reply f o')"
  by (auto simp: call_ok_def reply_def split: sum.splits)

lemma run_cut_action_ok:
  "dialog_inv rd s \<Longrightarrow> call_ok rd e (lost_at rd (scope_of a t) s) s (run_cut_action rd cfg e x a t i rv s)"
  by (cases x)
    (simp_all add: cut_edit_def cut_add_def cut_edit_segment_def cut_begin_segment_def
      cut_delete_segment_def cut_back_def cut_cancel_def cut_claim_def cut_quality_def
      cut_submitted_def cut_callback_ok edit_first_ok begin_segment_ok delete_segment_ok go_back_ok
      cancel_draft_ok claim_draft_ok ask_quality_ok submit_draft_ok cut_choose_ok)

lemma run_dialog_ok:
  assumes "dialog_inv rd s" and "call_allowed rd e c s"
  shows "call_ok rd e (lost_at rd (call_scope c) s) s (run_dialog rd cfg e c s)"
  using assms
  by (induction rd cfg e c s rule: run_dialog.induct)
    (simp_all add: call_ok_reply run_cut_action_ok cut_begin_ok cut_input_ok quality_begin_media_ok
      quality_claim_ok quality_cancel_ok quality_submitted_ok quality_cut_ok)

lemma step_commits:
  assumes "dialog_inv rd s" and "dialog_step rd s t"
  shows "dialog_inv rd t" and "originals_kept s t" and "drafts_move rd s t"
proof -
  have "dialog_inv rd t \<and> originals_kept s t \<and> drafts_move rd s t"
    using assms(2)
  proof cases
    case (call e c cfg)
    with run_dialog_ok [OF assms(1) call(2), of cfg] show ?thesis
      by (simp add: call_ok_def commits_def)
  next
    case (other a)
    have rows: "sql_cut_get k t = sql_cut_get k s" "sql_quality_get k t = sql_quality_get k s"
      "live j t = live j s" for k j
      by (simp_all add: other sql_cut_get_def sql_quality_get_def live_def quality_has_def cut_needs_def)
    have "dialog_inv rd t"
      using assms(1) unfolding dialog_inv_def cut_table.all_valid_def quality_table.all_valid_def
        ids_unique_def keys_distinct_def rows by (simp add: other)
    moreover have "originals_kept s t"
      using assms(1) unfolding originals_kept_def rows by (auto simp: dialog_inv_def other)
    ultimately show ?thesis by (simp add: drafts_move_def rows)
  qed
  then show "dialog_inv rd t" "originals_kept s t" "drafts_move rd s t" by simp_all
qed

text \<open>The row of one scope over a step: it is kept, or moved on.\<close>

lemma step_moves_cut:
  assumes "dialog_inv rd s" and "dialog_step rd s t" and "sql_cut_get k s = Some r"
  obtains r' where "sql_cut_get k t = Some r'" "r' = r \<or> cut_after rd r r'"
proof -
  have "row_moves (cut_after rd) (Some r) (sql_cut_get k t)"
    using step_commits(3) [OF assms(1,2)] assms(3) unfolding drafts_move_def by metis
  with that show thesis by (cases "sql_cut_get k t") (auto simp: row_moves_def)
qed

lemma step_moves_quality:
  assumes "dialog_inv rd s" and "dialog_step rd s t" and "sql_quality_get k s = Some r"
  obtains r' where "sql_quality_get k t = Some r'" "r' = r \<or> quality_after rd r r'"
proof -
  have "row_moves (quality_after rd) (Some r) (sql_quality_get k t)"
    using step_commits(3) [OF assms(1,2)] assms(3) unfolding drafts_move_def by metis
  with that show thesis by (cases "sql_quality_get k t") (auto simp: row_moves_def)
qed

interpretation dialogs: transition_system no_drafts "dialog_step rd" "dialog_inv rd" for rd
proof
  show "no_drafts s \<Longrightarrow> dialog_inv rd s" for s
    unfolding no_drafts_def dialog_inv_def keys_distinct_def cut_table.all_valid_def
      quality_table.all_valid_def ids_unique_def
    by (simp add: sql_cut_get_def sql_quality_get_def)
qed (rule step_commits(1))

section \<open>How drafts develop over any sequence of calls\<close>

definition cut_rank :: "cut_row \<Rightarrow> int \<times> nat" where
  "cut_rank r = (cr_revision r, if cr_stage r = ''confirming'' then 1 else if cr_stage r = ''submitted'' then 2 else 0)"

definition cut_later :: "cut_row \<Rightarrow> cut_row \<Rightarrow> bool" where
  "cut_later r r' \<longleftrightarrow>
     r' = r \<or> cr_last r < cr_last r'
     \<or> (cr_last r' = cr_last r \<and> cr_id r' = cr_id r \<and> cr_origin r' = cr_origin r
        \<and> cr_stage r \<in> insert ''confirming'' editing_stages \<and> cut_rank r < cut_rank r')"

text \<open>A request without the bounds of its clips.\<close>

definition without_clips :: "request_data \<Rightarrow> request_data" where
  "without_clips d = d\<lparr>rd_clip_range := None, rd_params := (rd_params d)\<lparr>dp_clips := []\<rparr>\<rparr>"

definition quality_later :: "quality_row \<Rightarrow> quality_row \<Rightarrow> bool" where
  "quality_later r r' \<longleftrightarrow>
     r' = r \<or> qr_last r < qr_last r'
     \<or> (qr_last r' = qr_last r \<and> qr_id r' = qr_id r
        \<and> without_clips (qr_request r') = without_clips (qr_request r)
        \<and> qr_stage r \<in> {''choosing'', ''confirming''} \<and> qr_revision r < qr_revision r'
        \<and> (qr_stage r = ''confirming'' \<longrightarrow> qr_stage r' = ''submitted''))"

lemma editing_stages_not [simp]:
  "''confirming'' \<notin> editing_stages" "''submitted'' \<notin> editing_stages" "''cancelled'' \<notin> editing_stages"
  by (simp_all add: editing_stages_def)

lemma cut_after_later:
  assumes "cut_after rd r r'" shows "cut_later r r'"
proof -
  from assms consider "cr_last r < cr_last r'"
    | "cr_last r' = cr_last r" "cr_id r' = cr_id r" "cr_origin r' = cr_origin r" "cr_stage r \<in> editing_stages"
        "cr_revision r' = cr_revision r + 1 \<or> cr_revision r' = cr_revision r \<and> cr_stage r' = ''confirming''"
    | x op where "cr_stage r = ''confirming''" "cut_row_read rd r x"
        "r' = x\<lparr>cr_stage := ''submitted'', cr_operation := Some op\<rparr>"
    unfolding cut_after_def by (cases "cr_last r < cr_last r'") auto
  then show ?thesis
  proof cases
    case 1
    then show ?thesis by (simp add: cut_later_def)
  next
    case 2
    then show ?thesis by (auto simp: cut_later_def cut_rank_def editing_stages_def)
  next
    case 3
    then show ?thesis by (auto simp: cut_later_def cut_rank_def cut_row_read_def)
  qed
qed

lemma cut_later_trans: "cut_later r r' \<Longrightarrow> cut_later r' r'' \<Longrightarrow> cut_later r r''"
  unfolding cut_later_def by (elim disjE conjE) (auto dest: less_trans)

lemma read_data_without: "read_data rd d = Inr d' \<Longrightarrow> without_clips d' = without_clips d"
  by (auto simp: read_data_def res_bind_Inr_iff without_clips_def)

lemma quality_after_later: "quality_after rd r r' \<Longrightarrow> quality_later r r'"
  unfolding quality_after_def quality_later_def quality_row_read_def
  by (elim conjE disjE exE) (auto simp: read_data_without)

lemma quality_later_trans: "quality_later r r' \<Longrightarrow> quality_later r' r'' \<Longrightarrow> quality_later r r''"
  unfolding quality_later_def by (elim disjE conjE) auto

lemma steps_later:
  assumes "(dialog_step rd)\<^sup>*\<^sup>* s t" and "dialog_inv rd s"
  shows "sql_cut_get k s = Some r \<Longrightarrow> \<exists>r'. sql_cut_get k t = Some r' \<and> cut_later r r'"
    and "sql_quality_get k s = Some q \<Longrightarrow> \<exists>q'. sql_quality_get k t = Some q' \<and> quality_later q q'"
proof -
  show "\<exists>r'. sql_cut_get k t = Some r' \<and> cut_later r r'" if "sql_cut_get k s = Some r"
    using assms(1)
  proof (induction rule: rtranclp_induct)
    case base
    with that show ?case by (simp add: cut_later_def)
  next
    case (step t u)
    then obtain r' where r': "sql_cut_get k t = Some r'" "cut_later r r'" by blast
    obtain r'' where "sql_cut_get k u = Some r''" "r'' = r' \<or> cut_after rd r' r''"
      by (rule step_moves_cut [OF dialogs.inv_steps [OF step(1) assms(2)] step(2) r'(1)])
    with r'(2) show ?case by (blast intro: cut_later_trans cut_after_later)
  qed
  show "\<exists>q'. sql_quality_get k t = Some q' \<and> quality_later q q'" if "sql_quality_get k s = Some q"
    using assms(1)
  proof (induction rule: rtranclp_induct)
    case base
    with that show ?case by (simp add: quality_later_def)
  next
    case (step t u)
    then obtain r' where r': "sql_quality_get k t = Some r'" "quality_later q r'" by blast
    obtain r'' where "sql_quality_get k u = Some r''" "r'' = r' \<or> quality_after rd r' r''"
      by (rule step_moves_quality [OF dialogs.inv_steps [OF step(1) assms(2)] step(2) r'(1)])
    with r'(2) show ?case by (blast intro: quality_later_trans quality_after_later)
  qed
qed

text \<open>A draft that is being confirmed stays as it is until it is submitted.\<close>

definition submitted_row :: "text_reader \<Rightarrow> cut_row \<Rightarrow> cut_row \<Rightarrow> bool" where
  "submitted_row rd r r' \<longleftrightarrow>
     (\<exists>x op. cut_row_read rd r x \<and> r' = x\<lparr>cr_stage := ''submitted'', cr_operation := Some op\<rparr>)"

lemma confirming_after:
  "cut_after rd r r' \<Longrightarrow> cr_stage r = ''confirming'' \<Longrightarrow> submitted_row rd r r'"
  by (auto simp: cut_after_def submitted_row_def)

lemma confirming_kept:
  assumes "(dialog_step rd)\<^sup>*\<^sup>* s t" and "dialog_inv rd s" and "sql_cut_get k s = Some r"
    and "cr_stage r = ''confirming''"
  shows "sql_cut_get k t = Some r
    \<or> (\<exists>u r'. (dialog_step rd)\<^sup>*\<^sup>* s u \<and> (dialog_step rd)\<^sup>*\<^sup>* u t \<and> sql_cut_get k u = Some r' \<and> submitted_row rd r r')"
  using assms(1)
proof (induction rule: rtranclp_induct)
  case base
  show ?case using assms(3) by simp
next
  case (step t u)
  from step.IH show ?case
  proof (elim disjE exE conjE)
    assume r: "sql_cut_get k t = Some r"
    obtain r' where "sql_cut_get k u = Some r'" "r' = r \<or> cut_after rd r r'"
      by (rule step_moves_cut [OF dialogs.inv_steps [OF step(1) assms(2)] step(2) r])
    with confirming_after [OF _ assms(4)] rtranclp.rtrancl_into_rtrancl [OF step(1,2)] show ?case by blast
  next
    fix v r' assume "(dialog_step rd)\<^sup>*\<^sup>* s v" "(dialog_step rd)\<^sup>*\<^sup>* v t" "sql_cut_get k v = Some r'" "submitted_row rd r r'"
    moreover from this(2) step(2) have "(dialog_step rd)\<^sup>*\<^sup>* v u" by (rule rtranclp.rtrancl_into_rtrancl)
    ultimately show ?case by blast
  qed
qed

text \<open>Every call on a cut starts from what is read of its row.\<close>

lemma stuck_action:
  assumes "cut_current_row rd a t s = Inl x"
  shows "\<exists>x. run_cut_action rd cfg e y a t i rv s = (Inl x, s)"
proof -
  have r: "\<exists>x. cut_require rd a t i rv s = Inl x" "\<exists>x. cut_require_choice_replay rd a t i rv s = Inl x"
    using assms by (cases "validate_scope a t"; simp add: cut_require_def cut_require_choice_replay_def)+
  have "\<exists>x. cut_callback rd cfg e a t i rv change s = (Inl x, s)" for change
    using r(1) by (cases "authorize_dialog cfg e a s") (auto simp: cut_callback_def transaction_def)
  moreover have "\<exists>x. cut_choose rd cfg e a t i rv c s = (Inl x, s)" for c
    using r(2) by (cases "authorize_dialog cfg e a s") (auto simp: cut_choose_def checked_def transaction_def)
  ultimately show ?thesis
    by (cases y) (simp_all add: cut_edit_def cut_add_def cut_edit_segment_def cut_begin_segment_def
      cut_delete_segment_def cut_back_def cut_cancel_def cut_claim_def cut_quality_def cut_submitted_def)
qed

lemma stuck_call:
  assumes "dialog_inv rd s" and "sql_cut_get k s = Some r" and "cut_lost rd r"
    and "call_scope c = k" and "about_cut c"
  shows "\<exists>x. run_dialog rd cfg e c s = (Inl x, s)"
proof -
  have cur: "\<exists>x. cut_current_row rd a t s = Inl x" if "scope_of a t = k" for a t
    using assms(1)
  proof (rule cut_current_cases [where a = a and t = t])
    fix c0 c assume "sql_cut_get (scope_of a t) s = Some (cut_encode c0)" "reread_cut rd c0 = Inr c"
    with assms(2,3) that show ?thesis by (simp add: cut_lost_encode)
  qed (use assms(2) that in simp_all)
  show ?thesis
  proof (cases c)
    case (BeginCut a t m url start)
    with cur assms(4) obtain x where "cut_current_row rd a t s = Inl x" by auto
    then have "\<exists>x. cut_begin rd cfg e a t m url start s = (Inl x, s)"
      by (cases "authorize_dialog cfg e a s")
        (auto simp: cut_begin_def checked_def transaction_def split: sum.split)
    then show ?thesis by (auto simp: BeginCut reply_def)
  next
    case (InputCut a t m v b)
    with cur assms(4) obtain x where "cut_current_row rd a t s = Inl x" by auto
    then have "\<exists>x. cut_input rd cfg e a t m v b s = (Inl x, s)"
      by (cases "authorize_dialog cfg e a s")
        (auto simp: cut_input_def checked_def transaction_def split: sum.split)
    then show ?thesis by (auto simp: InputCut reply_def)
  next
    case (ActCut y a t i rv)
    with cur assms(4) obtain x where "cut_current_row rd a t s = Inl x" by auto
    from stuck_action [OF this, of cfg e y i rv] show ?thesis by (auto simp: ActCut reply_def)
  next
    case (BeginQuality a t m q original)
    with assms(5) show ?thesis by simp
  next
    case (ActQuality y a t i rv)
    with cur assms(4) obtain x where x: "cut_current_row rd a t s = Inl x" by auto
    have "\<nexists>p. fst (quality_cut rd cfg e a t i rv s) = Inr p"
      by (auto simp: quality_cut_def checked_def transaction_def x res_bind_Inr_iff split: sum.splits if_splits)
    then have "\<exists>x. quality_cut rd cfg e a t i rv s = (Inl x, s)"
      using quality_cut_ok [OF assms(1), of a t True e cfg i rv]
      by (cases "quality_cut rd cfg e a t i rv s") (auto simp: call_ok_def split: sum.splits)
    then show ?thesis using assms(5) by (auto simp: ActQuality reply_def)
  qed
qed

section \<open>The properties\<close>

text \<open>In every state the bot can reach, every stored draft of either dialog satisfies the constraints
  of its table. It is read back unless one of its clips is lost, and then, saved again, gives the
  same row but for what was read of the clips.\<close>

theorem stored_drafts_decode:
  assumes "no_drafts s\<^sub>0" and "(dialog_step rd)\<^sup>*\<^sup>* s\<^sub>0 s"
  shows "(\<forall>k r. sql_cut_get k s = Some r \<longrightarrow>
      cut_checks k r \<and> (cut_lost rd r \<or> (\<exists>c. cut_decode rd (k, r) = Inr c \<and> cut_row_read rd r (cut_encode c))))
    \<and> (\<forall>k r. sql_quality_get k s = Some r \<longrightarrow>
      quality_checks k r \<and> (request_lost rd (qr_request r)
        \<or> (\<exists>q. quality_decode rd (k, r) = Inr q \<and> quality_row_read rd r (quality_encode q))))"
proof -
  have "dialog_inv rd s" by (rule dialogs.inv_reachable [OF assms])
  then have v: "cut_table.all_valid rd s" "quality_table.all_valid rd s"
    by (simp_all add: dialog_inv_def)
  have "cut_checks k r \<and> (cut_lost rd r \<or> (\<exists>c. cut_decode rd (k, r) = Inr c \<and> cut_row_read rd r (cut_encode c)))"
    if "sql_cut_get k s = Some r" for k r
  proof -
    from v(1) that obtain c where c: "cut_wf rd c" "cut_scope c = k" "r = cut_encode c"
      unfolding cut_table.all_valid_def by metis
    then show ?thesis
      using cut_checks_encode [OF c(1)] cut_decode_encode [OF c(1)] reread_cut_row(1)
      by (auto simp: cut_lost_encode)
  qed
  moreover have "quality_checks k r \<and> (request_lost rd (qr_request r)
      \<or> (\<exists>q. quality_decode rd (k, r) = Inr q \<and> quality_row_read rd r (quality_encode q)))"
    if "sql_quality_get k s = Some r" for k r
  proof -
    from v(2) that obtain q where q: "quality_wf rd q" "quality_scope q = k" "r = quality_encode q"
      unfolding quality_table.all_valid_def by metis
    have "request_lost rd (qr_request r) \<or> (\<exists>q'. reread_quality rd q = Inr q')"
      by (auto simp: q(3) quality_encode_def request_lost_encode reread_quality_def)
    then show ?thesis
      using q quality_checks_encode [OF q(1)] quality_decode_encode [OF q(1)] reread_quality_row(1) by auto
  qed
  ultimately show ?thesis by blast
qed

text \<open>C39. While the database answers, no constraint ever rejects what a call of the dialogs writes, and what
  is stored makes a call fail only if a clip of a draft of its own scope is read back as no clip;
  and a call that fails, for whatever reason, leaves the state exactly as it was.\<close>

theorem dialog_calls_fail_only_by_rounding:
  assumes "no_drafts s\<^sub>0" and "(dialog_step rd)\<^sup>*\<^sup>* s\<^sub>0 s" and "call_allowed rd e c s"
    and "run_dialog rd cfg e c s = (Inl x, t)"
  shows "t = s \<and> (up e \<longrightarrow> x \<noteq> Database \<and> (x = InvalidStoredData \<longrightarrow> lost_at rd (call_scope c) s))"
  using run_dialog_ok [OF dialogs.inv_reachable [OF assms(1,2)] assms(3), of cfg]
  by (simp add: call_ok_def assms(4))

text \<open>C36. A cut draft only moves forwards, whatever calls follow: its row stays until a message newer than
  its last one; until then its identifier and origin are kept, an edit raises its revision or its
  stage, and a submitted or cancelled draft does not change at all. A draft being confirmed is not
  even replaced by a newer message: at any later time it is still the same row, or there was a
  state in which it had been submitted, as it was read.\<close>

theorem cut_draft_history:
  assumes "no_drafts s\<^sub>0" and "(dialog_step rd)\<^sup>*\<^sup>* s\<^sub>0 s" and "(dialog_step rd)\<^sup>*\<^sup>* s t"
    and "sql_cut_get k s = Some r"
  shows "\<exists>r'. sql_cut_get k t = Some r' \<and> cr_last r \<le> cr_last r'
    \<and> (cr_last r' = cr_last r \<longrightarrow>
        cr_id r' = cr_id r \<and> cr_origin r' = cr_origin r \<and> cut_rank r \<le> cut_rank r'
        \<and> (cut_rank r' = cut_rank r \<longrightarrow> r' = r)
        \<and> (cr_stage r = ''submitted'' \<or> cr_stage r = ''cancelled'' \<longrightarrow> r' = r))
    \<and> (cr_stage r = ''confirming'' \<longrightarrow>
        r' = r \<or> (\<exists>u x op. (dialog_step rd)\<^sup>*\<^sup>* s u \<and> (dialog_step rd)\<^sup>*\<^sup>* u t \<and> cut_row_read rd r x
          \<and> sql_cut_get k u = Some (x\<lparr>cr_stage := ''submitted'', cr_operation := Some op\<rparr>)))"
proof -
  have inv: "dialog_inv rd s" by (rule dialogs.inv_reachable [OF assms(1,2)])
  from steps_later(1) [OF assms(3) inv assms(4)]
  obtain r' where r': "sql_cut_get k t = Some r'" "cut_later r r'" by blast
  have "r' = r \<or> (\<exists>u x op. (dialog_step rd)\<^sup>*\<^sup>* s u \<and> (dialog_step rd)\<^sup>*\<^sup>* u t \<and> cut_row_read rd r x
      \<and> sql_cut_get k u = Some (x\<lparr>cr_stage := ''submitted'', cr_operation := Some op\<rparr>))"
    if "cr_stage r = ''confirming''"
    using confirming_kept [OF assms(3) inv assms(4) that] r'(1) unfolding submitted_row_def by auto
  with r' show ?thesis unfolding cut_later_def by (intro exI [of _ r']) auto
qed

text \<open>C6. A cut draft with a clip that is lost in reading is stuck for ever: whatever calls follow, its row
  stays as it is, and no call on the cut of its scope ever succeeds again, not even a new link or a
  cancellation.\<close>

theorem lost_cut_is_stuck:
  assumes "no_drafts s\<^sub>0" and "(dialog_step rd)\<^sup>*\<^sup>* s\<^sub>0 s" and "(dialog_step rd)\<^sup>*\<^sup>* s t"
    and "sql_cut_get k s = Some r" and "list_ex (pair_lost rd) (cr_clips r)"
  shows "sql_cut_get k t = Some r
    \<and> (\<forall>cfg e c. call_scope c = k \<and> about_cut c \<longrightarrow> (\<exists>x. run_dialog rd cfg e c t = (Inl x, t)))"
proof -
  have lost: "cut_lost rd r" using assms(5) by (simp add: cut_lost_def)
  have row: "sql_cut_get k t = Some r"
    using assms(3)
  proof (induction rule: rtranclp_induct)
    case base
    show ?case by (rule assms(4))
  next
    case (step t u)
    have "dialog_inv rd t"
      by (rule dialogs.inv_steps [OF step(1) dialogs.inv_reachable [OF assms(1,2)]])
    from this step(2,3) obtain r' where "sql_cut_get k u = Some r'" "r' = r \<or> cut_after rd r r'"
      by (rule step_moves_cut)
    with lost show ?case by (auto simp: cut_after_def)
  qed
  have inv: "dialog_inv rd t" by (rule dialogs.inv_steps [OF assms(3) dialogs.inv_reachable [OF assms(1,2)]])
  have "\<exists>x. run_dialog rd cfg e c t = (Inl x, t)" if "call_scope c = k" "about_cut c" for cfg e c
    using that stuck_call [OF inv row lost] by blast
  with row show ?thesis by blast
qed

text \<open>A quality draft only moves forwards: until a newer message opens the next one, its identifier
  is kept and its request but for what is read of its clips, a confirmed choice changes only by
  being submitted, and a draft that was submitted, cancelled or handed over does not change.\<close>

theorem quality_draft_history:
  assumes "no_drafts s\<^sub>0" and "(dialog_step rd)\<^sup>*\<^sup>* s\<^sub>0 s" and "(dialog_step rd)\<^sup>*\<^sup>* s t"
    and "sql_quality_get k s = Some r"
  shows "\<exists>r'. sql_quality_get k t = Some r' \<and> qr_last r \<le> qr_last r'
    \<and> (qr_last r' = qr_last r \<longrightarrow>
        qr_id r' = qr_id r \<and> without_clips (qr_request r') = without_clips (qr_request r)
        \<and> qr_revision r \<le> qr_revision r' \<and> (qr_revision r' = qr_revision r \<longrightarrow> r' = r)
        \<and> (qr_stage r = ''confirming'' \<longrightarrow> r' = r \<or> qr_stage r' = ''submitted'')
        \<and> (qr_stage r \<in> {''submitted'', ''cancelled'', ''cutting''} \<longrightarrow> r' = r))"
proof -
  from steps_later(2) [OF assms(3) dialogs.inv_reachable [OF assms(1,2)] assms(4)]
  obtain r' where r': "sql_quality_get k t = Some r'" "quality_later r r'" by blast
  then show ?thesis unfolding quality_later_def by (intro exI [of _ r']) auto
qed

text \<open>C35. The original request kept for a quality draft lives exactly as long as it is needed: every stored
  original belongs to a stored quality draft or to a cut that is not cancelled, and a step keeps
  an original if and only if this still holds afterwards.\<close>

theorem originals_live_exactly:
  assumes "no_drafts s\<^sub>0" and "(dialog_step rd)\<^sup>*\<^sup>* s\<^sub>0 s" and "dialog_step rd s t"
  shows "(\<forall>(j, d) \<in> set (quality_intents s). quality_has j s \<or> cut_needs j s)
    \<and> (\<forall>(j, d) \<in> set (quality_intents s).
        (j, d) \<in> set (quality_intents t) \<longleftrightarrow> quality_has j t \<or> cut_needs j t)"
proof -
  have inv: "dialog_inv rd s" by (rule dialogs.inv_reachable [OF assms(1,2)])
  with step_commits(2) [OF inv assms(3)] show ?thesis
    by (auto simp: dialog_inv_def originals_kept_def live_def)
qed

text \<open>The hand-over from a quality draft to a cut is atomic and happens once: after it answered with a
  cut, the two stored drafts name each other, and whatever call of the hand-over succeeds then
  answers with the same cut and changes nothing.\<close>

theorem handoff_happens_once:
  assumes "no_drafts s\<^sub>0" and "(dialog_step rd)\<^sup>*\<^sup>* s\<^sub>0 s"
    and "quality_cut rd cfg e actor t i rv s = (Inr c, u)"
  shows "handed_over u (scope_of actor t) i (cs_id c) \<and> cs_linked c = Some i
    \<and> (\<forall>cfg' e' rv' c' u'. quality_cut rd cfg' e' actor t i rv' u = (Inr c', u')
        \<longrightarrow> cs_id c' = cs_id c \<and> u' = u)"
proof -
  have inv: "dialog_inv rd s" by (rule dialogs.inv_reachable [OF assms(1,2)])
  have h: "handed_over u (scope_of actor t) i (cs_id c)" "cs_linked c = Some i"
    using quality_cut_reply [OF inv assms(3)] by (auto simp: handoff_reply_def)
  have invu: "dialog_inv rd u"
    using quality_cut_ok [OF inv, of actor t True e cfg i rv] assms(3) by (simp add: call_ok_def commits_def)
  have "cs_id c' = cs_id c \<and> u' = u" if "quality_cut rd cfg' e' actor t i rv' u = (Inr c', u')"
    for cfg' e' rv' c' u'
  proof -
    from quality_cut_reply [OF invu that] obtain q where q: "quality_at rd u actor t q"
      "handoff_reply (scope_of actor t) i q c' u u'" by blast
    obtain r where "sql_quality_get (scope_of actor t) u = Some r"
      "qr_stage r = quality_stage_text (qs_stage q)"
      by (rule quality_at_row [OF q(1)])
    with h(1) have "qs_stage q = Cutting" by (cases "qs_stage q") (auto simp: handed_over_def)
    with q(2) have "u' = u" "handed_over u (scope_of actor t) i (cs_id c')"
      by (auto simp: handoff_reply_def)
    with h(1) show ?thesis by (auto simp: handed_over_def split: option.splits)
  qed
  with h show ?thesis by blast
qed

section \<open>A run\<close>

definition example_reader :: text_reader where
  "example_reader = \<lparr>read_url = example_parser, read_f64 = Some\<rparr>"

definition dialog_chat :: delivery_target where
  "dialog_chat = \<lparr>bot_id = 5, chat_id = 42, thread_id = None, reply_to_message_id = None\<rparr>"

definition asked_request :: download_request where
  "asked_request = example_request\<lparr>target := Some (dialog_chat\<lparr>reply_to_message_id := Some 9\<rparr>)\<rparr>"

definition empty_dialogs :: dialog_db where
  "empty_dialogs = \<lparr>accounts = empty_db, quality_rows = [], cut_rows = [], quality_intents = []\<rparr>"

definition asked_quality :: quality_session where
  "asked_quality = \<lparr>qs_id = 7, qs_revision = 1, qs_stage = Choosing,
     qs_target = dialog_chat\<lparr>reply_to_message_id := Some 9\<rparr>, qs_origin = 9, qs_selected = None,
     qs_operation = None, qs_cut = None, qs_request = asked_request, qs_last = 9\<rparr>"

definition asked_cut :: cut_session where
  "asked_cut = \<lparr>cs_id = 8, cs_revision = 1, cs_stage = CutStart, cs_actor = 42,
     cs_target = dialog_chat\<lparr>reply_to_message_id := Some 9\<rparr>, cs_origin = 9, cs_last = 9,
     cs_start = None, cs_end = None, cs_clips = [], cs_editing = None, cs_operation = None,
     cs_selected = None, cs_begin = None, cs_url = Some (url_text example_url),
     cs_original = Some asked_request, cs_linked = Some 7\<rparr>"

definition asked_db :: dialog_db where
  "asked_db = \<lparr>accounts = empty_db, quality_rows = [((42, 5, 42), quality_encode asked_quality)],
     cut_rows = [], quality_intents = [(7, encode asked_request)]\<rparr>"

definition cutting_db :: dialog_db where
  "cutting_db = \<lparr>accounts = empty_db,
     quality_rows = [((42, 5, 42), quality_encode (cutting 8 asked_quality))],
     cut_rows = [((42, 5, 42), cut_encode asked_cut)], quality_intents = [(7, encode asked_request)]\<rparr>"

lemma chat_simps [simp]:
  "validate_scope 42 dialog_chat = Inr ()" "scope_of 42 dialog_chat = (42, 5, 42)"
  "bot_id dialog_chat = 5" "chat_id dialog_chat = 42"
  "scope_of 42 (dialog_chat\<lparr>reply_to_message_id := r\<rparr>) = (42, 5, 42)"
  "delivery_target_new 5 42 None (Some 9) = Inr (dialog_chat\<lparr>reply_to_message_id := Some 9\<rparr>)"
  by (simp_all add: validate_scope_def dialog_chat_def scope_of_def delivery_target_new_def)

lemma asked_request_simps [simp]:
  "actor_id asked_request = 42" "media_mode asked_request = Video" "source_url asked_request = example_url"
  "network asked_request = network_none" "clip_range asked_request = None"
  "params asked_request = download_params_default"
  "target asked_request = Some (dialog_chat\<lparr>reply_to_message_id := Some 9\<rparr>)"
  by (simp_all add: asked_request_def example_request_def)

lemma example_reader_url [simp]: "read_url example_reader = example_parser"
  by (simp add: example_reader_def)

lemma asked_request_wf: "request_wf example_parser asked_request"
  using example_request_wf
  by (simp add: request_wf_def asked_request_def target_wf_def own_chat_def dialog_chat_def
      delivery_target_new_def example_request_def)

lemma asked_is_draft: "is_quality_draft asked_request"
  by (simp add: is_quality_draft_def with_clips_def) (simp add: download_params_default_def
      asked_request_def example_request_def)

lemma url_short: "length (url_text example_url) \<le> 4096"
  by (simp add: example_url_def)

lemma asked_reread [simp]: "reread_request rd asked_request = Inr asked_request"
  by (simp add: reread_request_def with_read_clips_def) (simp add: asked_request_def example_request_def
      download_params_default_def)

lemma asked_draft: "draft_request example_reader (dialog_chat\<lparr>reply_to_message_id := Some 9\<rparr>) 9 asked_request"
  using asked_request_wf asked_is_draft url_short
  by (simp add: draft_request_def request_at_def) (simp add: dialog_chat_def)

lemma asked_quality_wf: "quality_wf example_reader asked_quality"
  "quality_wf example_reader (cutting 8 asked_quality)"
  using asked_draft
  by (simp_all add: quality_wf_def asked_quality_def cutting_def draft_place_def expected_revision_def
      scope_checks_def message_checks_def) (simp_all add: dialog_chat_def)

lemma asked_cut_wf: "cut_wf example_reader asked_cut"
  using asked_request_wf quality_draft_storable [OF asked_is_draft]
  by (simp add: cut_wf_def asked_cut_def draft_place_def scope_checks_def message_checks_def
      cut_shape_ok_def cut_original_wf_def cut_stage_wf_def original_ok_def)
    (simp add: dialog_chat_def download_params_default_def)

lemma asked_scopes [simp]:
  "quality_scope asked_quality = (42, 5, 42)" "quality_scope (cutting 8 asked_quality) = (42, 5, 42)"
  "cut_scope asked_cut = (42, 5, 42)"
  by (simp_all add: quality_scope_def asked_quality_def cutting_def cut_scope_def asked_cut_def)

lemma put_row_simps [simp]: "put_row k r [] = [(k, r)]" "put_row k r [(k, x)] = [(k, r)]"
  by (simp_all add: put_row_def)

lemma asked_quality_simps [simp]:
  "qs_id asked_quality = 7" "qs_target asked_quality = dialog_chat\<lparr>reply_to_message_id := Some 9\<rparr>"
  "qs_stage asked_quality = Choosing" "qs_revision asked_quality = 1" "qs_origin asked_quality = 9"
  "qs_request asked_quality = asked_request" "qs_id (cutting 8 asked_quality) = 7"
  "qs_target (cutting 8 asked_quality) = dialog_chat\<lparr>reply_to_message_id := Some 9\<rparr>"
  by (simp_all add: asked_quality_def cutting_def)

lemma ask_run:
  "quality_begin_media example_reader example_config (example_env 0 7) 42 dialog_chat 9 asked_request
     (Some asked_request) empty_dialogs = (Inr asked_quality, asked_db)"
proof -
  have "quality_put 42 asked_quality empty_dialogs
      = Inr (empty_dialogs\<lparr>quality_rows := [((42, 5, 42), quality_encode asked_quality)]\<rparr>)"
    using quality_checks_encode [OF asked_quality_wf(1)]
    by (simp add: quality_put_def sql_quality_put_def empty_dialogs_def
        sql_quality_media_intent_superseded_delete_def)
  then show ?thesis
    using asked_is_draft url_short
    by (simp add: quality_begin_media_def checked_def transaction_def example_env_def authorize_dialog_def
        example_config_def quality_current_row_def sql_quality_get_def empty_dialogs_def request_at_def
        quality_save_def asked_quality_def [symmetric])
      (simp add: dialog_chat_def asked_db_def sql_quality_media_intent_put_def asked_quality_def)
qed

lemma handoff_run:
  "quality_cut example_reader example_config (example_env 0 8) 42 dialog_chat 7 1 asked_db
     = (Inr asked_cut, cutting_db)"
proof -
  have d: "quality_decode example_reader ((42, 5, 42), quality_encode asked_quality) = Inr asked_quality"
    using quality_decode_encode [OF asked_quality_wf(1)] by (simp add: reread_quality_def)
  have q: "quality_put 42 (cutting 8 asked_quality) asked_db
      = Inr (asked_db\<lparr>quality_rows := [((42, 5, 42), quality_encode (cutting 8 asked_quality))]\<rparr>)"
    using quality_checks_encode [OF asked_quality_wf(2)]
    by (simp add: quality_put_def sql_quality_put_def asked_db_def
        sql_quality_media_intent_superseded_delete_def quality_encode_def)
  have c: "cut_put asked_cut (asked_db\<lparr>quality_rows := [((42, 5, 42), quality_encode (cutting 8 asked_quality))]\<rparr>)
      = Inr cutting_db"
    using cut_checks_encode [OF asked_cut_wf]
    by (simp add: cut_put_def sql_cut_put_def sql_cut_get_def asked_db_def cutting_db_def)
  have h: "handoff_cut (example_env 0 8) 42 dialog_chat asked_quality = Inr asked_cut"
    by (simp add: handoff_cut_def asked_cut_def example_env_def Let_def)
  have v: "validate_revision 42 dialog_chat 1 = Inr ()" by (simp add: validate_revision_def)
  have g: "sql_quality_get (42, 5, 42) asked_db = Some (quality_encode asked_quality)"
    "cut_current_row example_reader 42 dialog_chat asked_db = Inr None"
    by (simp_all add: sql_quality_get_def asked_db_def cut_current_row_def sql_cut_get_def)
  have n: "checked_succ_i64 1 = Some 2" "cs_id asked_cut = 8"
    "playlist download_params_default = None" "clips download_params_default = []"
    by (simp_all add: checked_succ_i64_def asked_cut_def download_params_default_def)
  have k: "asked_quality\<lparr>qs_stage := Cutting, qs_revision := 2, qs_cut := Some 8\<rparr> = cutting 8 asked_quality"
    by (simp add: cutting_def)
  show ?thesis
    by (simp add: quality_cut_def checked_def transaction_def v authorize_dialog_def example_config_def g d h n k q c)
      (simp add: example_env_def)
qed

lemma dialog_run:
  "no_drafts empty_dialogs" "(dialog_step example_reader)\<^sup>*\<^sup>* empty_dialogs asked_db"
  "dialog_step example_reader asked_db cutting_db" "(dialog_step example_reader)\<^sup>*\<^sup>* asked_db cutting_db"
proof -
  show "no_drafts empty_dialogs" by (simp add: no_drafts_def empty_dialogs_def)
  have "call_allowed example_reader (example_env 0 7)
      (BeginQuality 42 dialog_chat 9 asked_request (Some asked_request)) empty_dialogs"
    by (simp add: asked_request_wf fresh_for_def sql_quality_get_def empty_dialogs_def)
  from dialog_step.call [OF this, of example_config]
  have "dialog_step example_reader empty_dialogs asked_db" by (simp add: ask_run reply_def)
  then show "(dialog_step example_reader)\<^sup>*\<^sup>* empty_dialogs asked_db" by (rule r_into_rtranclp)
  have "call_allowed example_reader (example_env 0 8) (ActQuality HandOver 42 dialog_chat 7 1) asked_db"
    by simp
  from dialog_step.call [OF this, of example_config]
  show "dialog_step example_reader asked_db cutting_db" by (simp add: handoff_run reply_def)
  then show "(dialog_step example_reader)\<^sup>*\<^sup>* asked_db cutting_db" by (rule r_into_rtranclp)
qed

lemma asked_rows:
  "sql_quality_get (42, 5, 42) asked_db = Some (quality_encode asked_quality)"
  "sql_quality_get (42, 5, 42) cutting_db = Some (quality_encode (cutting 8 asked_quality))"
  "sql_cut_get (42, 5, 42) cutting_db = Some (cut_encode asked_cut)"
  by (simp_all add: sql_quality_get_def sql_cut_get_def asked_db_def cutting_db_def)

lemma cutting_reached: "(dialog_step example_reader)\<^sup>*\<^sup>* empty_dialogs cutting_db"
  by (rule rtranclp_trans [OF dialog_run(2) dialog_run(4)])

section \<open>A clip that is lost\<close>

text \<open>Two neighbouring numbers: they are written as 13436.424411240123 and 13436.424411240125. A reader
  that is off by one unit in the last place reads the first as the second.\<close>

definition clip_from :: f64 where
  "clip_from = Fin (7386752437945905 / 549755813888)"

definition clip_to :: f64 where
  "clip_to = Fin (7386752437945906 / 549755813888)"

definition lossy_reader :: text_reader where
  "lossy_reader = example_reader\<lparr>read_f64 := (\<lambda>x. Some (if x = clip_from then clip_to else x))\<rparr>"

definition timed_cut :: cut_session where
  "timed_cut = \<lparr>cs_id = 8, cs_revision = 1, cs_stage = CutEnd, cs_actor = 42,
     cs_target = dialog_chat\<lparr>reply_to_message_id := Some 9\<rparr>, cs_origin = 9, cs_last = 9,
     cs_start = Some clip_from, cs_end = None, cs_clips = [], cs_editing = None, cs_operation = None,
     cs_selected = None, cs_begin = Some clip_from, cs_url = Some (url_text example_url),
     cs_original = None, cs_linked = None\<rparr>"

definition ready_cut :: cut_session where
  "ready_cut = timed_cut\<lparr>cs_revision := 2, cs_stage := CutReady, cs_last := 10, cs_end := Some clip_to,
     cs_clips := [\<lparr>start_seconds = clip_from, end_seconds = clip_to\<rparr>]\<rparr>"

definition confirming_cut :: cut_session where
  "confirming_cut = ready_cut\<lparr>cs_stage := CutConfirming\<rparr>"

definition submitted_cut :: cut_session where
  "submitted_cut = confirming_cut\<lparr>cs_stage := CutSubmitted, cs_operation := Some 77\<rparr>"

lemmas cut_run_defs = timed_cut_def ready_cut_def confirming_cut_def submitted_cut_def

definition cut_db :: "cut_session \<Rightarrow> dialog_db" where
  "cut_db c = empty_dialogs\<lparr>cut_rows := [((42, 5, 42), cut_encode c)]\<rparr>"

lemma clip_new: "clip_range_new clip_from clip_to = Inr \<lparr>start_seconds = clip_from, end_seconds = clip_to\<rparr>"
  "clip_range_new clip_to clip_to = Inl InvalidClipRange"
  by (simp_all add: clip_range_new_def clip_from_def clip_to_def)

lemma clip_times: "valid_time clip_from" "valid_time clip_to" "span_ok (Some clip_from) (Some clip_to)"
  by (simp_all add: valid_time_def clip_from_def clip_to_def span_ok_def)

lemma cut_run_wf: "c \<in> {timed_cut, ready_cut, confirming_cut, submitted_cut} \<Longrightarrow> cut_wf rd c"
  using clip_range_newD(2) [OF clip_new(1)] clip_times
  by (auto simp: cut_run_defs cut_wf_def draft_place_def scope_checks_def message_checks_def
      cut_shape_ok_def cut_original_wf_def cut_stage_wf_def) (simp_all add: dialog_chat_def)

lemma cut_run_scope: "c \<in> {timed_cut, ready_cut, confirming_cut, submitted_cut} \<Longrightarrow> cut_scope c = (42, 5, 42)"
  by (auto simp: cut_run_defs cut_scope_def)

lemma cut_db_current:
  assumes "c \<in> {timed_cut, ready_cut, confirming_cut, submitted_cut}"
  shows "cut_current_row rd 42 dialog_chat (cut_db c) = res_bind (reread_cut rd c) (\<lambda>c. Inr (Some c))"
  using cut_decode_encode [OF cut_run_wf [OF assms, of rd]]
  by (simp add: cut_run_scope [OF assms] cut_current_row_def sql_cut_get_def cut_db_def)

lemma cut_db_put:
  assumes "c \<in> {timed_cut, ready_cut, confirming_cut, submitted_cut}"
    and "c' = c \<or> c' \<in> {timed_cut, ready_cut, confirming_cut, submitted_cut}"
  shows "cut_put c empty_dialogs = Inr (cut_db c)" and "cut_put c (cut_db c') = Inr (cut_db c)"
proof -
  have "cr_linked (cut_encode c') = None" using assms by (auto simp: cut_run_defs cut_encode_def)
  then show "cut_put c empty_dialogs = Inr (cut_db c)" "cut_put c (cut_db c') = Inr (cut_db c)"
    using cut_checks_encode [OF cut_run_wf [OF assms(1), of example_reader]] cut_run_scope [OF assms(1)]
    by (simp_all add: cut_put_def sql_cut_put_def sql_cut_get_def cut_db_def empty_dialogs_def)
qed

lemma cut_run_reread:
  "reread_cut rd timed_cut = Inr timed_cut"
  "c \<in> {ready_cut, confirming_cut, submitted_cut} \<Longrightarrow> reread_cut example_reader c = Inr c"
  "reread_cut lossy_reader ready_cut = Inl InvalidStoredData"
  by (auto simp: reread_cut_def cut_run_defs reread_clip_def read_pair_def example_reader_def
      lossy_reader_def clip_new)

lemma dialog_authorized [simp]: "authorize_dialog example_config e actor s = Inr ()"
  by (simp add: authorize_dialog_def example_config_def)

lemma example_up [simp]: "up (example_env t i)" "fresh_id (example_env t i) = i"
  by (simp_all add: example_env_def)

lemma cut_begin_run:
  assumes "read_url rd = example_parser"
  shows "cut_begin rd example_config (example_env 0 8) 42 dialog_chat 9 (url_text example_url)
     (Some clip_from) empty_dialogs = (Inr timed_cut, cut_db timed_cut)"
proof -
  have "cut_current_row rd 42 dialog_chat empty_dialogs = Inr None"
    by (simp add: cut_current_row_def sql_cut_get_def empty_dialogs_def)
  moreover have "source_url example_request = example_url" by (simp add: example_request_def)
  ultimately show ?thesis
    using example_request_new url_short clip_times cut_db_put(1) [of timed_cut timed_cut]
    by (simp add: cut_begin_def checked_def transaction_def assms cut_save_def Let_def timed_cut_def [symmetric])
qed

lemma cut_input_run:
  "cut_input rd example_config (example_env 1 0) 42 dialog_chat 10 clip_to False (cut_db timed_cut)
     = (Inr (Some ready_cut), cut_db ready_cut)"
proof -
  have cur: "cut_current_row rd 42 dialog_chat (cut_db timed_cut) = Inr (Some timed_cut)"
    by (simp add: cut_db_current cut_run_reread)
  have "cut_enter clip_to False timed_cut = Inr (timed_cut\<lparr>cs_stage := CutReady, cs_end := Some clip_to,
      cs_clips := [\<lparr>start_seconds = clip_from, end_seconds = clip_to\<rparr>]\<rparr>)"
    by (simp add: cut_enter_def timed_cut_def clip_new first_start_def first_end_def)
  moreover have "timed_cut\<lparr>cs_stage := CutReady, cs_end := Some clip_to,
      cs_clips := [\<lparr>start_seconds = clip_from, end_seconds = clip_to\<rparr>], cs_revision := 2, cs_last := 10\<rparr>
      = ready_cut"
    by (simp add: ready_cut_def)
  moreover have "cs_revision timed_cut = 1" "cs_stage timed_cut = CutEnd" "cs_last timed_cut = 9"
    by (simp_all add: timed_cut_def)
  ultimately show ?thesis
    using clip_times cut_db_put(2) [of ready_cut timed_cut]
    by (simp add: cut_input_def checked_def transaction_def cur next_revision_def checked_succ_i64_def)
qed

lemma cut_claim_run:
  "cut_claim example_reader example_config (example_env 2 0) 42 dialog_chat 8 2 (cut_db ready_cut)
     = (Inr confirming_cut, cut_db confirming_cut)"
proof -
  have "claim_draft ready_cut = Inr (Some confirming_cut)"
    by (simp add: claim_draft_def confirming_cut_def ready_cut_def)
  moreover have "cut_require example_reader 42 dialog_chat 8 2 (cut_db ready_cut) = Inr ready_cut"
    by (simp add: cut_require_def cut_db_current cut_run_reread) (simp add: ready_cut_def timed_cut_def)
  ultimately show ?thesis
    using cut_db_put(2) [of confirming_cut ready_cut]
    by (simp add: cut_claim_def cut_callback_def transaction_def cut_save_def)
qed

lemma cut_submit_run:
  "cut_submitted example_reader example_config (example_env 3 0) 42 dialog_chat 8 2 77 (cut_db confirming_cut)
     = (Inr submitted_cut, cut_db submitted_cut)"
proof -
  have "submit_draft 77 confirming_cut = Inr (Some submitted_cut)"
    by (simp add: submit_draft_def submitted_cut_def confirming_cut_def)
  moreover have "cut_require example_reader 42 dialog_chat 8 2 (cut_db confirming_cut) = Inr confirming_cut"
    by (simp add: cut_require_def cut_db_current cut_run_reread)
      (simp add: confirming_cut_def ready_cut_def timed_cut_def)
  ultimately show ?thesis
    using cut_db_put(2) [of submitted_cut confirming_cut]
    by (simp add: cut_submitted_def cut_callback_def transaction_def cut_save_def)
qed

lemma cut_run:
  "read_url rd = example_parser \<Longrightarrow> (dialog_step rd)\<^sup>*\<^sup>* empty_dialogs (cut_db ready_cut)"
  "(dialog_step example_reader)\<^sup>*\<^sup>* empty_dialogs (cut_db confirming_cut)"
  "(dialog_step example_reader)\<^sup>*\<^sup>* (cut_db confirming_cut) (cut_db submitted_cut)"
proof -
  show ready: "(dialog_step rd)\<^sup>*\<^sup>* empty_dialogs (cut_db ready_cut)" if "read_url rd = example_parser" for rd
  proof -
    have "dialog_step rd empty_dialogs (cut_db timed_cut)"
      using dialog_step.call [of rd "example_env 0 8"
          "BeginCut 42 dialog_chat 9 (url_text example_url) (Some clip_from)" empty_dialogs example_config]
      by (simp add: cut_begin_run [OF that] reply_def)
    moreover have "dialog_step rd (cut_db timed_cut) (cut_db ready_cut)"
      using dialog_step.call [of rd "example_env 1 0" "InputCut 42 dialog_chat 10 clip_to False"
          "cut_db timed_cut" example_config]
      by (simp add: cut_input_run reply_def)
    ultimately show ?thesis by (meson r_into_rtranclp rtranclp_trans)
  qed
  have "dialog_step example_reader (cut_db ready_cut) (cut_db confirming_cut)"
    using dialog_step.call [of example_reader "example_env 2 0" "ActCut ClaimCut 42 dialog_chat 8 2"
        "cut_db ready_cut" example_config]
    by (simp add: cut_claim_run reply_def)
  with ready [of example_reader] show "(dialog_step example_reader)\<^sup>*\<^sup>* empty_dialogs (cut_db confirming_cut)"
    by (simp add: rtranclp.rtrancl_into_rtrancl)
  have "dialog_step example_reader (cut_db confirming_cut) (cut_db submitted_cut)"
    using dialog_step.call [of example_reader "example_env 3 0" "ActCut (SubmitCut 77) 42 dialog_chat 8 2"
        "cut_db confirming_cut" example_config]
    by (simp add: cut_submit_run reply_def)
  then show "(dialog_step example_reader)\<^sup>*\<^sup>* (cut_db confirming_cut) (cut_db submitted_cut)"
    by (rule r_into_rtranclp)
qed

lemma cut_db_get: "sql_cut_get (42, 5, 42) (cut_db c) = Some (cut_encode c)"
  by (simp add: sql_cut_get_def cut_db_def)

section \<open>Instances\<close>

theorem stored_drafts_decode_witness:
  "cut_checks (42, 5, 42) (cut_encode asked_cut)
   \<and> quality_checks (42, 5, 42) (quality_encode (cutting 8 asked_quality))"
  using stored_drafts_decode [OF dialog_run(1) cutting_reached] asked_rows by blast

theorem dialog_calls_fail_only_by_rounding_witness:
  "run_dialog lossy_reader example_config (example_env 2 0) (ActCut ClaimCut 42 dialog_chat 8 2) (cut_db ready_cut)
     = (Inl InvalidStoredData, cut_db ready_cut)
   \<and> lost_at lossy_reader (42, 5, 42) (cut_db ready_cut)"
proof -
  have e: "run_dialog lossy_reader example_config (example_env 2 0) (ActCut ClaimCut 42 dialog_chat 8 2)
      (cut_db ready_cut) = (Inl InvalidStoredData, cut_db ready_cut)"
    by (simp add: cut_claim_def cut_callback_def transaction_def cut_require_def cut_db_current
        cut_run_reread reply_def)
  have "read_url lossy_reader = example_parser" by (simp add: lossy_reader_def)
  from dialog_calls_fail_only_by_rounding [OF dialog_run(1) cut_run(1) [OF this] _ e] e
  show ?thesis by simp
qed

theorem cut_draft_history_witness:
  "\<exists>u x op. (dialog_step example_reader)\<^sup>*\<^sup>* (cut_db confirming_cut) u
     \<and> (dialog_step example_reader)\<^sup>*\<^sup>* u (cut_db submitted_cut)
     \<and> cut_row_read example_reader (cut_encode confirming_cut) x
     \<and> sql_cut_get (42, 5, 42) u = Some (x\<lparr>cr_stage := ''submitted'', cr_operation := Some op\<rparr>)"
proof -
  have "cut_encode submitted_cut \<noteq> cut_encode confirming_cut" "cr_stage (cut_encode confirming_cut) = ''confirming''"
    by (simp_all add: cut_encode_def submitted_cut_def confirming_cut_def)
  with cut_draft_history [OF dialog_run(1) cut_run(2,3) cut_db_get] show ?thesis
    unfolding cut_db_get by auto
qed

theorem lost_cut_is_stuck_witness:
  "\<exists>x. run_dialog lossy_reader example_config (example_env 3 9)
       (BeginCut 42 dialog_chat 11 (url_text example_url) None) ((cut_db ready_cut)\<lparr>accounts := admitted_db\<rparr>)
     = (Inl x, (cut_db ready_cut)\<lparr>accounts := admitted_db\<rparr>)"
proof -
  have "read_url lossy_reader = example_parser" by (simp add: lossy_reader_def)
  note run = cut_run(1) [OF this]
  have other: "(dialog_step lossy_reader)\<^sup>*\<^sup>* (cut_db ready_cut) ((cut_db ready_cut)\<lparr>accounts := admitted_db\<rparr>)"
    using dialog_step.other by (rule r_into_rtranclp)
  have "list_ex (pair_lost lossy_reader) (cr_clips (cut_encode ready_cut))"
    by (simp add: cut_encode_def ready_cut_def pair_lost_def read_pair_def lossy_reader_def clip_new)
  note stuck = lost_cut_is_stuck [OF dialog_run(1) run other cut_db_get this]
  show ?thesis by (rule conjunct2 [OF stuck, rule_format]) simp
qed

theorem quality_draft_history_witness:
  "\<exists>r'. sql_quality_get (42, 5, 42) cutting_db = Some r' \<and> qr_last r' \<ge> 9
    \<and> (qr_last r' = 9 \<longrightarrow> qr_id r' = 7)"
  using quality_draft_history [OF dialog_run(1,2,4) asked_rows(1)]
  by (auto simp: quality_encode_def asked_quality_def)

theorem originals_live_exactly_witness:
  "(7, encode asked_request) \<in> set (quality_intents cutting_db)
   \<longleftrightarrow> quality_has 7 cutting_db \<or> cut_needs 7 cutting_db"
  using originals_live_exactly [OF dialog_run(1-3)] by (simp add: asked_db_def)

theorem handoff_happens_once_witness:
  "handed_over cutting_db (42, 5, 42) 7 8"
  using handoff_happens_once [OF dialog_run(1,2) handoff_run] by (simp add: asked_cut_def)

end
