(* ===== verification/Utf8.thy ===== *)
theory Utf8
  imports Json
begin

text \<open>
  Reading UTF-8 text character by character, as the string functions of the Rust standard
  library do: a \<open>str\<close> is its bytes, and \<open>chars\<close> yields the code points they encode. The
  white space and control characters are those of Unicode.
\<close>

section \<open>Code points\<close>

text \<open>How many bytes follow the first byte of a character, and the bits the first byte holds.\<close>

definition continuation_bytes :: "char \<Rightarrow> nat" where
  "continuation_bytes c =
     (if byte c < 128 then 0 else if byte c < 224 then 1 else if byte c < 240 then 2 else 3)"

definition leading_bits :: "char \<Rightarrow> nat" where
  "leading_bits c =
     (if byte c < 128 then byte c else byte c mod 2 ^ (6 - continuation_bytes c))"

text \<open>The bytes of each character, and the code point they encode.\<close>

fun pieces :: "string \<Rightarrow> string list" where
  "pieces [] = []"
| "pieces (c # s) = (c # take (continuation_bytes c) s) # pieces (drop (continuation_bytes c) s)"

fun code_point :: "string \<Rightarrow> nat" where
  "code_point [] = 0"
| "code_point (c # s) = foldl (\<lambda>n d. n * 64 + byte d mod 64) (leading_bits c) s"

definition chars :: "string \<Rightarrow> nat list" where
  "chars s = map code_point (pieces s)"

definition is_control :: "nat \<Rightarrow> bool" where
  "is_control n \<longleftrightarrow> n < 32 \<or> (127 \<le> n \<and> n \<le> 159)"

definition is_whitespace :: "nat \<Rightarrow> bool" where
  "is_whitespace n \<longleftrightarrow>
     (9 \<le> n \<and> n \<le> 13) \<or> n = 32 \<or> n = 0x85 \<or> n = 0xA0 \<or> n = 0x1680
     \<or> (0x2000 \<le> n \<and> n \<le> 0x200A) \<or> n = 0x2028 \<or> n = 0x2029 \<or> n = 0x202F \<or> n = 0x205F
     \<or> n = 0x3000"

text \<open>\<open>trim\<close> removes white space at both ends.\<close>

definition blank_piece :: "string \<Rightarrow> bool" where
  "blank_piece p \<longleftrightarrow> is_whitespace (code_point p)"

definition trim :: "string \<Rightarrow> string" where
  "trim s = concat (rev (dropWhile blank_piece (rev (dropWhile blank_piece (pieces s)))))"

definition is_blank :: "string \<Rightarrow> bool" where
  "is_blank s \<longleftrightarrow> trim s = []"

section \<open>Parts of a text\<close>

definition strip_prefix :: "string \<Rightarrow> string \<Rightarrow> string option" where
  "strip_prefix s p = (if starts_with s p then Some (drop (length p) s) else None)"

text \<open>\<open>split_once\<close>: what comes before and after the first occurrence of a pattern.\<close>

fun split_once :: "string \<Rightarrow> string \<Rightarrow> (string \<times> string) option" where
  "split_once p [] = (if p = [] then Some ([], []) else None)"
| "split_once p (c # s) =
     (if starts_with (c # s) p then Some ([], drop (length p) (c # s))
      else map_option (\<lambda>(a, b). (c # a, b)) (split_once p s))"

text \<open>\<open>lines\<close>: the pieces that line feeds end, without a carriage return before the line feed,
  and what follows the last line feed when it is not empty.\<close>

definition strip_return :: "string \<Rightarrow> string" where
  "strip_return l = (if l \<noteq> [] \<and> last l = CHR 0x0D then butlast l else l)"

definition lines :: "string \<Rightarrow> string list" where
  "lines s =
     (let ps = split_on CHR 0x0A s in
      map strip_return (butlast ps) @ (if last ps = [] then [] else [last ps]))"

section \<open>Facts\<close>

lemma chars_ascii: "list_all is_ascii s \<Longrightarrow> chars s = map byte s"
  by (induction s) (auto simp: chars_def continuation_bytes_def leading_bits_def is_ascii_def)

lemma concat_pieces: "concat (pieces s) = s"
  by (induction s rule: pieces.induct) simp_all

lemma byte_CHR [simp]: "byte (char_of n) = n mod 256"
  by (simp add: byte_def)

lemma strip_prefix_Some_iff: "strip_prefix s p = Some t \<longleftrightarrow> s = p @ t"
  by (auto simp: strip_prefix_def starts_with_iff)

end
