(* ===== verification/Worker_Protocol.thy ===== *)
theory Worker_Protocol
  imports Utf8 Requests Settings Media
begin

text \<open>
  The messages between the service and its isolated workers, \<open>backend/crates/
  yoink-worker-protocol/src\<close>: \<open>lib.rs\<close>, \<open>youtube_auth.rs\<close>, \<open>media_info.rs\<close>, \<open>search.rs\<close>,
  \<open>links.rs\<close>, \<open>content.rs\<close> and \<open>music.rs\<close>, with every validation. The types that mirror those
  of the domain carry the prefix \<open>wire\<close>. The parser of the \<open>url\<close> crate and the JSON that
  \<open>serde\<close> derives are parameters.
\<close>

section \<open>Errors, limits and addresses\<close>

datatype protocol_error =
  FrameTooLarge | InvalidRequest | InvalidSearchRequest | InvalidEvent | InvalidMessage | EncodeFailed

definition max_frame_bytes :: nat where "max_frame_bytes = 1024 * 1024"
definition protocol_version :: "16 word" where "protocol_version = 2"
definition max_proxy_url_bytes :: nat where "max_proxy_url_bytes = 4096"
definition max_cookie_jar_bytes :: nat where "max_cookie_jar_bytes = 512 * 1024"

definition http_source_url_parse :: "url_parser \<Rightarrow> string \<Rightarrow> protocol_error + url" where
  "http_source_url_parse parse value =
     (case parse value of
        None \<Rightarrow> Inl InvalidRequest
      | Some u \<Rightarrow>
          if \<not> (url_scheme u = ''http'' \<or> url_scheme u = ''https'') \<or> url_host u = None
             \<or> url_username u \<noteq> [] \<or> url_password u \<noteq> None
          then Inl InvalidRequest else Inr u)"

text \<open>The further parts that the check of a proxy address reads.\<close>

record proxy_parts = url +
  url_query :: "string option"
  url_fragment :: "string option"

type_synonym proxy_parser = "string \<Rightarrow> proxy_parts option"

section \<open>Download options\<close>

datatype wire_media_mode =
  WireBest | WireVideo | WireAudio | WireImage | WireSubtitles | WireFormats | WireLinks
| WireAudioLinks

datatype task_kind = Download wire_media_mode | ExtractContent

datatype wire_video_codec = WireH264 | WireH265 | WireAv1 | WireVp9 | WireAnyVideo
datatype wire_audio_codec = WireBestAudio | WireAac | WireMp3 | WireOpus
datatype wire_container = WireMp4 | WireMkv | WireWebm
datatype wire_engine =
  WireAuto | WireYtDlp | WireGallery | WireAutoYtDlpV1 | WireAutoGalleryV1 | WireAutoFallbackV1

record wire_playlist_range =
  wp_start :: i32
  wp_end :: "i32 option"

definition wire_playlist_validate :: "wire_playlist_range \<Rightarrow> protocol_error + unit" where
  "wire_playlist_validate r =
     (if wp_start r = 0 \<or> wp_end r = Some 0 \<or> (wp_end r = None \<and> sint (wp_start r) < - 100)
      then Inl InvalidRequest
      else (case wp_end r of
              None \<Rightarrow> Inr ()
            | Some e \<Rightarrow>
                let count = nat \<bar>sint e - sint (wp_start r)\<bar> + 1 in
                if ((0 < sint (wp_start r)) \<noteq> (0 < sint e)) \<or> count > 100
                then Inl InvalidRequest else Inr ()))"

record wire_clip_range =
  wc_start_seconds :: f64
  wc_end_seconds :: f64

definition wire_clip_validate :: "wire_clip_range \<Rightarrow> protocol_error + unit" where
  "wire_clip_validate c =
     (if \<not> f64_is_finite (wc_start_seconds c) \<or> \<not> f64_is_finite (wc_end_seconds c)
         \<or> f64_less (wc_start_seconds c) (Fin 0) \<or> f64_le (wc_end_seconds c) (wc_start_seconds c)
      then Inl InvalidRequest else Inr ())"

record wire_subtitle_options =
  ws_language :: string
  ws_automatic :: bool

definition wire_subtitles_validate :: "wire_subtitle_options \<Rightarrow> protocol_error + unit" where
  "wire_subtitles_validate s =
     (let parts = split_on CHR ''-'' (ws_language s) in
      if length (ws_language s) > 16 \<or> length parts > 2
         \<or> \<not> (2 \<le> length (parts ! 0) \<and> length (parts ! 0) \<le> 3)
         \<or> \<not> list_all is_ascii_lowercase (parts ! 0)
         \<or> (1 < length parts
            \<and> (\<not> (2 \<le> length (parts ! 1) \<and> length (parts ! 1) \<le> 8)
               \<or> \<not> list_all is_ascii_alphanumeric (parts ! 1)))
      then Inl InvalidRequest else Inr ())"

record wire_options =
  wo_max_height :: "u32 option"
  wo_video_codec :: wire_video_codec
  wo_audio_codec :: wire_audio_codec
  wo_container :: wire_container
  wo_engine :: wire_engine
  wo_playlist :: "wire_playlist_range option"
  wo_clips :: "wire_clip_range list"
  wo_gallery_zip :: bool
  wo_media_info :: bool
  wo_subtitles :: "wire_subtitle_options option"

definition wire_options_default :: wire_options where
  "wire_options_default =
     \<lparr>wo_max_height = None, wo_video_codec = WireH264, wo_audio_codec = WireBestAudio,
      wo_container = WireMp4, wo_engine = WireAuto, wo_playlist = None, wo_clips = [],
      wo_gallery_zip = False, wo_media_info = False, wo_subtitles = None\<rparr>"

text \<open>A loop of checks with \<open>?\<close>: the first error is the answer.\<close>

fun check_all :: "('a \<Rightarrow> 'e + unit) \<Rightarrow> 'a list \<Rightarrow> 'e + unit" where
  "check_all f [] = Inr ()"
| "check_all f (x # xs) = res_bind (f x) (\<lambda>_. check_all f xs)"

definition check_option :: "('a \<Rightarrow> 'e + unit) \<Rightarrow> 'a option \<Rightarrow> 'e + unit" where
  "check_option f o' = (case o' of None \<Rightarrow> Inr () | Some x \<Rightarrow> f x)"

definition wire_options_validate :: "wire_options \<Rightarrow> protocol_error + unit" where
  "wire_options_validate o' =
     (if wo_max_height o' = Some 0 \<or> length (wo_clips o') > 20 then Inl InvalidRequest
      else res_bind (check_option wire_playlist_validate (wo_playlist o')) (\<lambda>_.
             check_all wire_clip_validate (wo_clips o')))"

section \<open>Credentials\<close>

record youtube_oauth =
  access_token :: string
  refresh_token :: string
  oauth_expires_at :: string

definition max_oauth_content_bytes :: nat where "max_oauth_content_bytes = 64 * 1024"
definition max_oauth_token_bytes :: nat where "max_oauth_token_bytes = 16384"
definition oauth_content_prefix :: string where "oauth_content_prefix = ''__oauth2__''"

definition has_control :: "string \<Rightarrow> bool" where
  "has_control s \<longleftrightarrow> list_ex is_control (chars s)"

definition youtube_oauth_validate :: "youtube_oauth \<Rightarrow> protocol_error + unit" where
  "youtube_oauth_validate t =
     (if list_ex (\<lambda>s. s = [] \<or> length s > max_oauth_token_bytes \<or> has_control s)
           [access_token t, refresh_token t]
         \<or> oauth_expires_at t = [] \<or> length (oauth_expires_at t) > 64
         \<or> has_control (oauth_expires_at t)
      then Inl InvalidRequest else Inr ())"

definition oauth_decode_content ::
  "(string \<Rightarrow> youtube_oauth option) \<Rightarrow> string \<Rightarrow> protocol_error + youtube_oauth" where
  "oauth_decode_content from_json content =
     (if length content > max_oauth_content_bytes then Inl InvalidRequest
      else res_bind (ok_or InvalidRequest (strip_prefix content oauth_content_prefix)) (\<lambda>raw.
        res_bind (ok_or InvalidRequest (from_json raw)) (\<lambda>value.
        res_bind (youtube_oauth_validate value) (\<lambda>_. Inr value))))"

definition oauth_encode_content ::
  "(youtube_oauth \<Rightarrow> string option) \<Rightarrow> youtube_oauth \<Rightarrow> protocol_error + string" where
  "oauth_encode_content to_json t =
     res_bind (youtube_oauth_validate t) (\<lambda>_.
     res_bind (ok_or InvalidRequest (to_json t)) (\<lambda>text.
       let encoded = oauth_content_prefix @ text in
       if length encoded > max_oauth_content_bytes then Inl InvalidRequest else Inr encoded))"

record network_credentials =
  nc_proxy_url :: "string option"
  nc_cookie_jar :: "string option"
  nc_youtube_oauth :: "youtube_oauth option"

definition oauth_check :: "network_credentials \<Rightarrow> protocol_error + unit" where
  "oauth_check n =
     check_option (\<lambda>t. res_bind (youtube_oauth_validate t) (\<lambda>_.
       if nc_cookie_jar n \<noteq> None then Inl InvalidRequest else Inr ())) (nc_youtube_oauth n)"

definition proxy_check :: "proxy_parser \<Rightarrow> string \<Rightarrow> protocol_error + unit" where
  "proxy_check parse address =
     (if address = [] \<or> length address > max_proxy_url_bytes \<or> has_control address
      then Inl InvalidRequest
      else (case parse address of
              None \<Rightarrow> Inl InvalidRequest
            | Some u \<Rightarrow>
                if \<not> (url_scheme u = ''http'' \<or> url_scheme u = ''https'')
                   \<or> (case url_host u of None \<Rightarrow> True | Some host \<Rightarrow> host = [])
                   \<or> (case split_once ''://'' address of
                        None \<Rightarrow> True | Some (_, authority) \<Rightarrow> starts_with authority ''/'')
                   \<or> \<not> (url_path u = [] \<or> url_path u = ''/'')
                   \<or> url_query u \<noteq> None \<or> url_fragment u \<noteq> None
                then Inl InvalidRequest else Inr ()))"

definition cookie_line :: "string \<Rightarrow> bool" where
  "cookie_line l \<longleftrightarrow> l \<noteq> [] \<and> (\<not> starts_with l ''#'' \<or> starts_with l ''#HttpOnly_'')"

definition cookie_fields_ok :: "string \<Rightarrow> bool" where
  "cookie_fields_ok l \<longleftrightarrow>
     (let fields = split_on CHR 0x09 l in
      length fields = 7 \<and> fields ! 0 \<noteq> [] \<and> fields ! 2 \<noteq> []
      \<and> parse_unsigned (2 ^ 64) (fields ! 4) \<noteq> None \<and> fields ! 5 \<noteq> []
      \<and> fields ! 1 \<in> {''TRUE'', ''FALSE''} \<and> fields ! 3 \<in> {''TRUE'', ''FALSE''})"

definition cookie_check :: "string \<Rightarrow> protocol_error + unit" where
  "cookie_check cookies =
     (if length cookies > max_cookie_jar_bytes \<or> cookies = []
         \<or> list_ex (\<lambda>n. is_control n \<and> n \<notin> {9, 13, 10}) (chars cookies)
      then Inl InvalidRequest
      else check_all (\<lambda>l. if cookie_fields_ok l then Inr () else Inl InvalidRequest)
             (filter cookie_line (lines cookies)))"

definition credentials_validate :: "proxy_parser \<Rightarrow> network_credentials \<Rightarrow> protocol_error + unit" where
  "credentials_validate parse n =
     res_bind (oauth_check n) (\<lambda>_.
     res_bind (check_option (proxy_check parse) (nc_proxy_url n)) (\<lambda>_.
       check_option cookie_check (nc_cookie_jar n)))"

section \<open>Requests\<close>

record worker_request =
  wr_version :: "16 word"
  wr_operation_id :: uuid
  wr_attempt :: u32
  wr_source_url :: url
  wr_task :: task_kind
  wr_options :: wire_options
  wr_network :: "network_credentials option"

text \<open>The three closed sets of options of \<open>WorkerRequest::validate\<close>.\<close>

definition links_options_ok :: "task_kind \<Rightarrow> wire_options \<Rightarrow> bool" where
  "links_options_ok task o' \<longleftrightarrow>
     wo_max_height o' \<in> {None, Some 720, Some 1080, Some 480, Some 360}
     \<and> wo_video_codec o' = WireH264 \<and> wo_audio_codec o' = WireBestAudio \<and> wo_container o' = WireMp4
     \<and> wo_engine o' \<in> {WireAuto, WireYtDlp, WireAutoYtDlpV1}
     \<and> wo_playlist o' = None \<and> wo_clips o' = [] \<and> \<not> wo_gallery_zip o' \<and> wo_subtitles o' = None
     \<and> \<not> (task = Download WireAudioLinks \<and> wo_max_height o' \<noteq> None)"

definition wire_gallery_engine :: "wire_engine \<Rightarrow> bool" where
  "wire_gallery_engine e \<longleftrightarrow> e \<in> {WireGallery, WireAutoGalleryV1, WireAutoFallbackV1}"

definition formats_options_ok :: "url \<Rightarrow> wire_options \<Rightarrow> bool" where
  "formats_options_ok u o' \<longleftrightarrow>
     (url_scheme u = ''http'' \<or> url_scheme u = ''https'') \<and> wo_max_height o' = None
     \<and> wo_video_codec o' = WireH264 \<and> wo_audio_codec o' = WireBestAudio \<and> wo_container o' = WireMp4
     \<and> \<not> wire_gallery_engine (wo_engine o')
     \<and> wo_playlist o' = None \<and> wo_clips o' = [] \<and> \<not> wo_gallery_zip o' \<and> wo_subtitles o' = None"

definition subtitles_options_ok :: "wire_options \<Rightarrow> bool" where
  "subtitles_options_ok o' \<longleftrightarrow>
     wo_max_height o' = None
     \<and> wo_video_codec o' = WireH264 \<and> wo_audio_codec o' = WireBestAudio \<and> wo_container o' = WireMp4
     \<and> \<not> wire_gallery_engine (wo_engine o')
     \<and> wo_playlist o' = None \<and> wo_clips o' = [] \<and> \<not> wo_gallery_zip o'"

definition request_check :: "bool \<Rightarrow> protocol_error + unit" where
  "request_check ok = (if ok then Inr () else Inl InvalidRequest)"

definition worker_request_validate :: "proxy_parser \<Rightarrow> worker_request \<Rightarrow> protocol_error + unit" where
  "worker_request_validate parse r =
     (let o' = wr_options r in
      res_bind (request_check (wr_version r = protocol_version \<and> wr_operation_id r \<noteq> 0
          \<and> wr_attempt r \<noteq> 0)) (\<lambda>_.
      res_bind (wire_options_validate o') (\<lambda>_.
      res_bind (request_check ((wr_task r = Download WireSubtitles) = (wo_subtitles o' \<noteq> None))) (\<lambda>_.
      res_bind (request_check (wr_task r \<in> {Download WireLinks, Download WireAudioLinks}
          \<longrightarrow> links_options_ok (wr_task r) o')) (\<lambda>_.
      res_bind (request_check (wr_task r = Download WireFormats
          \<longrightarrow> formats_options_ok (wr_source_url r) o')) (\<lambda>_.
      res_bind (check_option (\<lambda>s. res_bind (wire_subtitles_validate s) (\<lambda>_.
          request_check (subtitles_options_ok o'))) (wo_subtitles o')) (\<lambda>_.
        check_option (credentials_validate parse) (wr_network r))))))))"

section \<open>Artifacts\<close>

text \<open>\<open>Path::components\<close> of a Unix path: repeated separators and inner dots vanish.\<close>

datatype path_component = RootDir | CurDir | ParentDir | Normal string

definition named_component :: "string \<Rightarrow> path_component" where
  "named_component p = (if p = ''..'' then ParentDir else Normal p)"

definition components :: "string \<Rightarrow> path_component list" where
  "components s =
     (let ps = split_on CHR ''/'' s in
      (if starts_with s ''/'' then [RootDir] else if hd ps = ''.'' then [CurDir] else [])
      @ map named_component (filter (\<lambda>p. p \<noteq> [] \<and> p \<noteq> ''.'') ps))"

fun is_normal :: "path_component \<Rightarrow> bool" where
  "is_normal (Normal _) = True" | "is_normal _ = False"

definition artifact_path_parse :: "string \<Rightarrow> protocol_error + string" where
  "artifact_path_parse value =
     (if value = [] \<or> CHR 0x5C \<in> set value \<or> has_control value \<or> starts_with value ''/''
         \<or> starts_with value ''~'' \<or> CHR '':'' \<in> set value
         \<or> list_ex (\<lambda>c. \<not> is_normal c) (components value)
         \<or> list_ex (\<lambda>p. p = [] \<or> p = ''.'' \<or> p = ''..'') (split_on CHR ''/'' value)
      then Inl InvalidEvent else Inr value)"

record media_info_stream =
  mi_kind :: string
  mi_codec :: string
  mi_width :: "u32 option"
  mi_height :: "u32 option"

record media_info_report =
  report_size_bytes :: u64
  report_streams :: "media_info_stream list"

definition media_info_valid :: "media_info_report \<Rightarrow> bool" where
  "media_info_valid r \<longleftrightarrow>
     0 < report_size_bytes r \<and> 1 \<le> length (report_streams r) \<and> length (report_streams r) \<le> 16
     \<and> list_all (\<lambda>s. mi_kind s \<in> set [''video'', ''audio'', ''subtitle'', ''other'']
          \<and> mi_codec s \<in> set [''h264'', ''hevc'', ''av1'', ''vp9'', ''vp8'', ''aac'', ''mp3'',
               ''opus'', ''vorbis'', ''flac'', ''unknown'']
          \<and> (case mi_width s of None \<Rightarrow> True | Some v \<Rightarrow> v \<le> 16384)
          \<and> (case mi_height s of None \<Rightarrow> True | Some v \<Rightarrow> v \<le> 16384)) (report_streams r)"

definition media_info_line :: "media_info_stream \<Rightarrow> string" where
  "media_info_line s =
     mi_kind s @ '': '' @ mi_codec s
     @ (case (mi_width s, mi_height s) of
          (Some w, Some h) \<Rightarrow>
            '' '' @ show_nat (unat w) @ [CHR 0xC3, CHR 0x97] @ show_nat (unat h)
        | _ \<Rightarrow> [])"

definition media_info_render :: "media_info_report \<Rightarrow> string" where
  "media_info_render r =
     join_with [CHR 0x0A]
       ((''Media info'' @ [CHR 0x0A] @ ''Size: '' @ show_nat (unat (report_size_bytes r)) @ '' bytes'')
        # map media_info_line (report_streams r))"

record artifact_descriptor =
  ad_path :: string
  ad_size_bytes :: u64
  ad_metadata :: "content_metadata option"
  ad_media_info :: "media_info_report option"
  ad_media_type :: string

definition mime_byte :: "char \<Rightarrow> bool" where
  "mime_byte c \<longleftrightarrow> is_ascii_alphanumeric c \<or> c \<in> set ''!#$&^_.+-''"

definition mime_token :: "string \<Rightarrow> bool" where
  "mime_token p \<longleftrightarrow> p \<noteq> [] \<and> length p \<le> 127 \<and> list_all mime_byte p"

definition artifact_descriptor_validate :: "artifact_descriptor \<Rightarrow> protocol_error + unit" where
  "artifact_descriptor_validate a =
     (if (case ad_media_info a of None \<Rightarrow> False
          | Some r \<Rightarrow> \<not> media_info_valid r \<or> report_size_bytes r \<noteq> ad_size_bytes a)
      then Inl InvalidEvent
      else if (case ad_metadata a of None \<Rightarrow> False | Some m \<Rightarrow> \<not> metadata_valid m)
      then Inl InvalidEvent
      else (case split_on CHR ''/'' (ad_media_type a) of
              [p, q] \<Rightarrow> if mime_token p \<and> mime_token q then Inr () else Inl InvalidEvent
            | _ \<Rightarrow> Inl InvalidEvent))"

end
