(* ===== verification/Worker_Messages.thy ===== *)
theory Worker_Messages
  imports Worker_Protocol
begin

text \<open>
  What workers answer and the tasks other than a download, of \<open>backend/crates/
  yoink-worker-protocol/src\<close>: the events of \<open>lib.rs\<close> with the frames of both directions,
  \<open>search.rs\<close>, \<open>links.rs\<close>, \<open>content.rs\<close>, \<open>full_content.rs\<close> and \<open>music.rs\<close>. A frame is encoded and decoded by the
  functions that \<open>serde_json\<close> derives, which are parameters.
\<close>

section \<open>Searching\<close>

definition max_search_query_chars :: nat where "max_search_query_chars = 256"
definition max_search_query_bytes :: nat where "max_search_query_bytes = 1024"
definition max_search_results :: nat where "max_search_results = 8"
definition max_search_frame_bytes :: nat where "max_search_frame_bytes = 32 * 1024"

record search_request =
  sr_version :: "16 word"
  sr_operation_id :: uuid
  sr_attempt :: u32
  sr_query :: string
  sr_network :: "string option option"

definition unsafe_display_char :: "nat \<Rightarrow> bool" where
  "unsafe_display_char n \<longleftrightarrow>
     is_control n \<or> n = 0x061C \<or> (0x200B \<le> n \<and> n \<le> 0x200F) \<or> (0x2028 \<le> n \<and> n \<le> 0x202E)
     \<or> (0x2060 \<le> n \<and> n \<le> 0x206F) \<or> n = 0xFEFF"

definition proxy_only :: "string option \<Rightarrow> network_credentials" where
  "proxy_only p = \<lparr>nc_proxy_url = p, nc_cookie_jar = None, nc_youtube_oauth = None\<rparr>"

definition search_request_validate :: "proxy_parser \<Rightarrow> search_request \<Rightarrow> protocol_error + unit" where
  "search_request_validate parse r =
     (let query = sr_query r; count = length (chars query) in
      if sr_version r \<noteq> protocol_version \<or> sr_operation_id r = 0 \<or> sr_attempt r = 0
         \<or> \<not> (2 \<le> count \<and> count \<le> max_search_query_chars)
         \<or> length query > max_search_query_bytes \<or> trim query \<noteq> query
         \<or> list_ex unsafe_display_char (chars query)
      then Inl InvalidSearchRequest
      else check_option (\<lambda>p. credentials_validate parse (proxy_only p)) (sr_network r))"

record search_entry =
  se_url :: string
  se_title :: string
  se_channel :: string
  se_duration_seconds :: "u32 option"
  se_view_count :: "u64 option"

definition video_id_byte :: "char \<Rightarrow> bool" where
  "video_id_byte c \<longleftrightarrow> is_ascii_alphanumeric c \<or> c = CHR ''_'' \<or> c = CHR ''-''"

definition watch_prefix :: string where
  "watch_prefix = ''https://www.youtube.com/watch?v=''"

definition search_entry_validate :: "search_entry \<Rightarrow> protocol_error + unit" where
  "search_entry_validate e =
     (case strip_prefix (se_url e) watch_prefix of
        None \<Rightarrow> Inl InvalidEvent
      | Some i \<Rightarrow>
          if length i \<noteq> 11 \<or> \<not> list_all video_id_byte i
             \<or> length (chars (se_title e)) > 120 \<or> length (chars (se_channel e)) > 100
             \<or> list_ex unsafe_display_char (chars (se_title e) @ chars (se_channel e))
             \<or> (case se_duration_seconds e of None \<Rightarrow> False | Some v \<Rightarrow> v > 31536000)
             \<or> (case se_view_count e of None \<Rightarrow> False | Some v \<Rightarrow> v > 1000000000000000)
          then Inl InvalidEvent else Inr ())"

text \<open>The loop keeps the set of the addresses seen so far.\<close>

fun validate_entries_from :: "string set \<Rightarrow> search_entry list \<Rightarrow> protocol_error + unit" where
  "validate_entries_from urls [] = Inr ()"
| "validate_entries_from urls (e # es) =
     res_bind (search_entry_validate e) (\<lambda>_.
       if se_url e \<in> urls then Inl InvalidEvent
       else validate_entries_from (insert (se_url e) urls) es)"

definition validate_entries :: "search_entry list \<Rightarrow> protocol_error + unit" where
  "validate_entries es =
     (if length es > max_search_results then Inl InvalidEvent else validate_entries_from {} es)"

section \<open>Links to streams\<close>

definition max_link_report_bytes :: nat where "max_link_report_bytes = 4096"

record stream_links =
  video_url :: "string option"
  audio_url :: "string option"

definition link_check :: "url_parser \<Rightarrow> string \<Rightarrow> protocol_error + unit" where
  "link_check parse value =
     (if length value > 1800 \<or> value = [] \<or> \<not> list_all is_ascii value
         \<or> list_ex (\<lambda>c. byte c \<le> 32 \<or> byte c = 127) value
      then Inl InvalidRequest
      else res_bind (http_source_url_parse parse value) (\<lambda>_. Inr ()))"

definition option_list :: "'a option \<Rightarrow> 'a list" where
  "option_list o' = (case o' of None \<Rightarrow> [] | Some x \<Rightarrow> [x])"

definition stream_links_validate :: "url_parser \<Rightarrow> stream_links \<Rightarrow> protocol_error + unit" where
  "stream_links_validate parse l =
     (if video_url l = None \<and> audio_url l = None then Inl InvalidRequest
      else check_all (link_check parse) (option_list (video_url l) @ option_list (audio_url l)))"

definition stream_links_decode ::
  "url_parser \<Rightarrow> (string \<Rightarrow> stream_links option) \<Rightarrow> string \<Rightarrow> protocol_error + stream_links" where
  "stream_links_decode parse from_json bytes =
     (if length bytes > max_link_report_bytes then Inl InvalidRequest
      else res_bind (ok_or InvalidRequest (from_json bytes)) (\<lambda>value.
           res_bind (stream_links_validate parse value) (\<lambda>_. Inr value)))"

section \<open>Frames\<close>

definition encode_frame :: "('a \<Rightarrow> string option) \<Rightarrow> 'a \<Rightarrow> protocol_error + string" where
  "encode_frame to_json value =
     res_bind (ok_or EncodeFailed (to_json value)) (\<lambda>frame.
       if length frame > max_frame_bytes then Inl FrameTooLarge else Inr frame)"

definition encode_request ::
  "proxy_parser \<Rightarrow> (worker_request \<Rightarrow> string option) \<Rightarrow> worker_request \<Rightarrow> protocol_error + string" where
  "encode_request parse to_json r =
     res_bind (worker_request_validate parse r) (\<lambda>_. encode_frame to_json r)"

definition decode_request_frame ::
  "proxy_parser \<Rightarrow> (string \<Rightarrow> worker_request option) \<Rightarrow> string \<Rightarrow> protocol_error + worker_request" where
  "decode_request_frame parse from_json frame =
     (if length frame > max_frame_bytes then Inl FrameTooLarge
      else res_bind (ok_or InvalidMessage (from_json frame)) (\<lambda>r.
           res_bind (worker_request_validate parse r) (\<lambda>_. Inr r)))"

definition encode_search_request ::
  "proxy_parser \<Rightarrow> (search_request \<Rightarrow> string option) \<Rightarrow> search_request \<Rightarrow> protocol_error + string" where
  "encode_search_request parse to_json r =
     res_bind (search_request_validate parse r) (\<lambda>_.
     res_bind (encode_frame to_json r) (\<lambda>frame.
       if length frame > max_search_frame_bytes then Inl FrameTooLarge else Inr frame))"

definition decode_search_request ::
  "proxy_parser \<Rightarrow> (string \<Rightarrow> search_request option) \<Rightarrow> string \<Rightarrow> protocol_error + search_request" where
  "decode_search_request parse from_json frame =
     (if length frame > min max_search_frame_bytes max_frame_bytes then Inl FrameTooLarge
      else res_bind (ok_or InvalidSearchRequest (from_json frame)) (\<lambda>r.
           res_bind (search_request_validate parse r) (\<lambda>_. Inr r)))"

section \<open>Pages\<close>

definition max_content_bytes :: nat where "max_content_bytes = 128 * 1024"

datatype content_stage =
  ContentGet url "(string \<times> string) list"
| ContentReadability string url
| ContentTrafilatura string

record content_request =
  cr_version :: "16 word"
  cr_operation_id :: uuid
  cr_attempt :: u32
  cr_task :: content_stage
  cr_proxy_url :: "string option"

record content_result =
  ct_text :: string
  ct_title :: "string option"

definition content_result_valid :: "content_result \<Rightarrow> bool" where
  "content_result_valid r \<longleftrightarrow>
     length (ct_text r) \<le> max_content_bytes
     \<and> (case ct_title r of None \<Rightarrow> True | Some s \<Rightarrow> length s \<le> 2000)"

definition content_headers_valid :: "(string \<times> string) list \<Rightarrow> bool" where
  "content_headers_valid headers \<longleftrightarrow>
     list_all (\<lambda>h. h \<in> {(''Accept'', ''text/markdown''), (''X-No-Cache'', ''true''),
       (''X-Return-Format'', ''markdown'')}) headers"

fun content_stage_ok :: "content_stage \<Rightarrow> bool" where
  "content_stage_ok (ContentGet u headers) \<longleftrightarrow>
     length (url_text u) \<le> 8192 \<and> content_headers_valid headers"
| "content_stage_ok (ContentReadability html u) \<longleftrightarrow>
     length html \<le> max_content_bytes \<and> length (url_text u) \<le> 8192"
| "content_stage_ok (ContentTrafilatura html) \<longleftrightarrow> length html \<le> max_content_bytes"

definition encode_content_request ::
  "proxy_parser \<Rightarrow> (content_request \<Rightarrow> string option) \<Rightarrow> content_request \<Rightarrow> protocol_error + string" where
  "encode_content_request parse to_json r =
     (if cr_version r \<noteq> protocol_version \<or> cr_operation_id r = 0 \<or> cr_attempt r = 0
      then Inl InvalidRequest
      else res_bind (credentials_validate parse (proxy_only (cr_proxy_url r))) (\<lambda>_.
        if \<not> content_stage_ok (cr_task r) then Inl InvalidRequest else encode_frame to_json r))"

section \<open>Music\<close>

datatype music_provider =
  Spotify | Deezer | Yandex | Ytmusic | Soundcloud | AppleMusic | Bandcamp | Qobuz | Tidal | Youtube

fun music_key :: "music_provider \<Rightarrow> string" where
  "music_key Spotify = ''spotify''" | "music_key Deezer = ''deezer''"
| "music_key Yandex = ''yandex''" | "music_key Ytmusic = ''ytmusic''"
| "music_key Soundcloud = ''soundcloud''" | "music_key AppleMusic = ''apple_music''"
| "music_key Bandcamp = ''bandcamp''" | "music_key Qobuz = ''qobuz''"
| "music_key Tidal = ''tidal''" | "music_key Youtube = ''youtube''"

record music_credentials =
  spotify_client_id :: "string option"
  spotify_client_secret :: "string option"
  tidal_client_id :: "string option"
  tidal_client_secret :: "string option"

datatype music_task =
  MusicParse music_provider url
| MusicSearch music_provider (mt_query: string) (mt_title: string) (mt_artist: string)
| MusicArtist url
| MusicAudio url (mt_title: string) (mt_artist: string) "url option"

record music_request =
  mr_version :: "16 word"
  mr_operation_id :: uuid
  mr_attempt :: u32
  mr_task :: music_task
  mr_proxy_url :: "string option"
  mr_credentials :: music_credentials
  mr_request_timeout_ms :: u32
  mr_response_max_bytes :: u32
  mr_max_requests :: "16 word"

record music_metadata =
  mm_title :: string
  mm_artist :: "string option"
  mm_thumbnail_url :: "url option"

type_synonym music_link = "music_provider \<times> string \<times> url"

record music_artist_track =
  mat_title :: string
  mat_links :: "music_link list"

datatype music_result =
  Metadata music_metadata
| Link "url option"
| Artist string "string list" "url option" "music_link list" "music_artist_track list"

definition clean_text :: "string \<Rightarrow> nat \<Rightarrow> bool" where
  "clean_text s most \<longleftrightarrow> length s \<le> most \<and> \<not> has_control s"

fun music_result_valid :: "music_result \<Rightarrow> bool" where
  "music_result_valid (Metadata m) \<longleftrightarrow>
     \<not> is_blank (mm_title m) \<and> clean_text (mm_title m) 1024
     \<and> (case mm_artist m of None \<Rightarrow> True | Some s \<Rightarrow> clean_text s 1024)"
| "music_result_valid (Link _) \<longleftrightarrow> True"
| "music_result_valid (Artist name genres _ platform_links top_tracks) \<longleftrightarrow>
     name \<noteq> [] \<and> clean_text name 1024
     \<and> length genres \<le> 20 \<and> list_all (\<lambda>s. clean_text s 256) genres
     \<and> length platform_links \<le> 10 \<and> length top_tracks \<le> 10
     \<and> list_all (\<lambda>t. clean_text (mat_title t) 1024 \<and> length (mat_links t) \<le> 10) top_tracks"

fun music_task_ok :: "music_task \<Rightarrow> bool" where
  "music_task_ok (MusicSearch _ query title artist) \<longleftrightarrow>
     \<not> (is_blank query \<or> \<not> clean_text query 2048 \<or> \<not> clean_text title 1024
        \<or> \<not> clean_text artist 1024)"
| "music_task_ok (MusicAudio _ title artist _) \<longleftrightarrow>
     \<not> (is_blank title \<or> \<not> clean_text title 1024 \<or> \<not> clean_text artist 1024)"
| "music_task_ok _ \<longleftrightarrow> True"

definition encode_music_request ::
  "proxy_parser \<Rightarrow> (music_request \<Rightarrow> string option) \<Rightarrow> music_request \<Rightarrow> protocol_error + string" where
  "encode_music_request parse to_json r =
     (if mr_version r \<noteq> protocol_version \<or> mr_operation_id r = 0 \<or> mr_attempt r = 0
         \<or> \<not> (1 \<le> mr_request_timeout_ms r \<and> mr_request_timeout_ms r \<le> 120000)
         \<or> \<not> (1024 \<le> mr_response_max_bytes r \<and> mr_response_max_bytes r \<le> 8388608)
         \<or> \<not> (1 \<le> mr_max_requests r \<and> mr_max_requests r \<le> 100)
      then Inl InvalidRequest
      else res_bind (credentials_validate parse (proxy_only (mr_proxy_url r))) (\<lambda>_.
        let k = mr_credentials r in
        if list_ex (\<lambda>s. \<not> clean_text s 4096)
             (option_list (spotify_client_id k) @ option_list (spotify_client_secret k)
              @ option_list (tidal_client_id k) @ option_list (tidal_client_secret k))
           \<or> \<not> music_task_ok (mr_task r)
        then Inl InvalidRequest else encode_frame to_json r))"

section \<open>Full pages\<close>

text \<open>The further parts of an address that a full fetch reads: its query pairs, and its port or
  the default of its scheme. \<open>alnum\<close> is \<open>char::is_alphanumeric\<close>, a table of Unicode.\<close>

record query_url = url +
  url_pairs :: "(string \<times> string) list"
  url_port :: "16 word option"

record full_content_options =
  transcript_only :: bool
  transcript_languages :: "string list"
  max_chars :: nat
  github_token :: "string option"

record full_content_request =
  fc_version :: "16 word"
  fc_operation_id :: uuid
  fc_attempt :: u32
  fc_url :: query_url
  fc_options :: full_content_options
  fc_timeout_secs :: f64
  fc_max_response_bytes :: nat
  fc_proxy_url :: "string option"

record full_content_result =
  fr_text :: string
  fr_title :: "string option"
  fr_video_id :: "string option"
  fr_video_seconds :: "i32 option"
  fr_via :: string

datatype full_content_error =
  NoContent | NoTranscript | ContentNetworkDenied | ContentTimeout | ContentTooLarge
| ContentHttpError | ContentRedirectLimit | FullContentInvalidRequest | ContentInvalidResponse

definition trim_slashes_start :: "string \<Rightarrow> string" where
  "trim_slashes_start s = dropWhile (\<lambda>c. c = CHR ''/'') s"

definition video_id_ok :: "string \<Rightarrow> bool" where
  "video_id_ok i \<longleftrightarrow> length i = 11 \<and> list_all video_id_byte i"

definition watch_path_id :: "string \<Rightarrow> string option" where
  "watch_path_id path =
     (case split_on CHR ''/'' (trim_end_matches CHR ''/'' (trim_slashes_start path)) of
        [kind, i] \<Rightarrow> if kind \<in> {''shorts'', ''embed'', ''v''} then Some i else None
      | _ \<Rightarrow> None)"

definition full_content_video_id :: "query_url \<Rightarrow> string option" where
  "full_content_video_id u =
     Option.bind (url_host u) (\<lambda>host.
     Option.bind
       (if host = ''youtu.be''
        then Some (hd (split_on CHR ''/'' (trim_slashes_start (url_path u))))
        else if host \<in> {''youtube.com'', ''www.youtube.com'', ''m.youtube.com'', ''music.youtube.com''}
        then (case find (\<lambda>(k, v). k = ''v'' \<and> v \<noteq> []) (url_pairs u) of
                Some (_, v) \<Rightarrow> Some v
              | None \<Rightarrow> watch_path_id (url_path u))
        else None) (\<lambda>i. if video_id_ok i then Some i else None))"

definition full_content_token_relevant :: "query_url \<Rightarrow> bool" where
  "full_content_token_relevant u \<longleftrightarrow>
     url_scheme u = ''https'' \<and> url_host u \<in> {Some ''github.com'', Some ''api.github.com''}
     \<and> url_port u = Some 443"

definition full_content_sources :: "string list" where
  "full_content_sources =
     [''jina'', ''curl.md'', ''readability'', ''html-main'', ''trafilatura'', ''raw-html'',
      ''llms.txt'', ''llms.txt+readability'', ''llms.txt+html-main'', ''llms.txt+trafilatura'',
      ''llms.txt+raw-html'', ''github:raw'', ''github-api:api'', ''github-api:repo'',
      ''github-api:file'', ''github-api:tree'', ''github-api:issues'', ''github-api:pull'',
      ''github-api:pulls'', ''github-api:commits'', ''github-api:commit'',
      ''github-api:releases'', ''youtube-description'']"

definition language_text :: "(nat \<Rightarrow> bool) \<Rightarrow> string \<Rightarrow> bool" where
  "language_text alnum s \<longleftrightarrow> list_all (\<lambda>n. alnum n \<or> n = 45) (chars s)"

definition full_content_result_valid :: "(nat \<Rightarrow> bool) \<Rightarrow> full_content_result \<Rightarrow> bool" where
  "full_content_result_valid alnum r \<longleftrightarrow>
     \<not> is_blank (fr_text r) \<and> length (chars (fr_text r)) \<le> 200000
     \<and> (case fr_title r of None \<Rightarrow> True | Some t \<Rightarrow> length (chars t) \<le> 500)
     \<and> (case fr_video_seconds r of None \<Rightarrow> True | Some n \<Rightarrow> 0 \<le> sint n)
     \<and> (case fr_video_id r of None \<Rightarrow> True | Some i \<Rightarrow> video_id_ok i)
     \<and> length (fr_via r) \<le> 100
     \<and> (fr_via r \<in> set full_content_sources
        \<or> (case strip_prefix (fr_via r) ''youtube-transcript:'' of
             None \<Rightarrow> False | Some l \<Rightarrow> l \<noteq> [] \<and> language_text alnum l))"

definition full_content_valid_for ::
  "(nat \<Rightarrow> bool) \<Rightarrow> full_content_result \<Rightarrow> full_content_request \<Rightarrow> bool" where
  "full_content_valid_for alnum r q \<longleftrightarrow>
     full_content_result_valid alnum r
     \<and> length (chars (fr_text r)) \<le> max_chars (fc_options q)
     \<and> fr_video_id r = full_content_video_id (fc_url q)
     \<and> (fr_video_id r \<noteq> None \<or> fr_video_seconds r = None)
     \<and> (fr_video_id r \<noteq> None) = starts_with (fr_via r) ''youtube-''
     \<and> (\<not> transcript_only (fc_options q) \<or> starts_with (fr_via r) ''youtube-transcript:'')"

definition encode_full_content_request ::
  "(nat \<Rightarrow> bool) \<Rightarrow> proxy_parser \<Rightarrow> (full_content_request \<Rightarrow> string option) \<Rightarrow> full_content_request
    \<Rightarrow> protocol_error + string" where
  "encode_full_content_request alnum parse to_json r =
     (let o' = fc_options r in
      if fc_version r \<noteq> protocol_version \<or> fc_operation_id r = 0 \<or> fc_attempt r = 0
         \<or> length (url_text (fc_url r)) > 4096
         \<or> \<not> (1 \<le> max_chars o' \<and> max_chars o' \<le> 200000)
         \<or> length (transcript_languages o') > 32
         \<or> list_ex (\<lambda>s. \<not> (1 \<le> length (chars s) \<and> length (chars s) \<le> 32)
              \<or> \<not> language_text alnum s) (transcript_languages o')
         \<or> \<not> f64_is_finite (fc_timeout_secs r) \<or> f64_le (fc_timeout_secs r) (Fin 0)
         \<or> f64_less (Fin 300) (fc_timeout_secs r)
         \<or> \<not> (1024 \<le> fc_max_response_bytes r \<and> fc_max_response_bytes r \<le> 8388608)
         \<or> (case github_token o' of
              None \<Rightarrow> False
            | Some t \<Rightarrow> \<not> full_content_token_relevant (fc_url r) \<or> t = [] \<or> length t > 4096
                \<or> \<not> list_all (\<lambda>c. 33 \<le> byte c \<and> byte c \<le> 126) t)
      then Inl InvalidRequest
      else res_bind (credentials_validate parse (proxy_only (fc_proxy_url r))) (\<lambda>_.
             encode_frame to_json r))"

section \<open>Events\<close>

datatype wire_stage = WireFetching | WireProcessing | WireWritingArtifact

datatype worker_failure =
  WorkerUnsupportedSource | WorkerSourceUnavailable | WorkerRateLimited | WorkerInvalidMedia
| WorkerProcessingFailed | WorkerResourceLimit | WorkerCookieRequired | WorkerGeoBlocked
| WorkerAgeRestricted | WorkerPrivateContent | WorkerLiveStream | WorkerNoMedia
| WorkerMediaTimeout | WorkerNetworkDenied | WorkerContentUnavailable | WorkerSourceBlocked

fun failure_code :: "worker_failure \<Rightarrow> string" where
  "failure_code WorkerUnsupportedSource = ''unsupported_source''"
| "failure_code WorkerSourceUnavailable = ''source_unavailable''"
| "failure_code WorkerRateLimited = ''rate_limited''"
| "failure_code WorkerInvalidMedia = ''invalid_media''"
| "failure_code WorkerProcessingFailed = ''processing_failed''"
| "failure_code WorkerResourceLimit = ''resource_limit''"
| "failure_code WorkerCookieRequired = ''cookie_required''"
| "failure_code WorkerGeoBlocked = ''geo_blocked''"
| "failure_code WorkerAgeRestricted = ''age_restricted''"
| "failure_code WorkerPrivateContent = ''private_content''"
| "failure_code WorkerLiveStream = ''live_stream''"
| "failure_code WorkerNoMedia = ''no_media''"
| "failure_code WorkerMediaTimeout = ''media_timeout''"
| "failure_code WorkerNetworkDenied = ''network_denied''"
| "failure_code WorkerContentUnavailable = ''content_unavailable''"
| "failure_code WorkerSourceBlocked = ''source_blocked''"

datatype worker_event_kind =
  WorkerProgressed f64 wire_stage
| WorkerCompleted "artifact_descriptor list"
| SearchCompleted "search_entry list"
| MusicCompleted music_result
| ContentCompleted content_result
| ContentDenied
| FullContentCompleted full_content_result
| FullContentFailed full_content_error
| WorkerFailed worker_failure
| CancellationAcknowledged

fun is_terminal_event :: "worker_event_kind \<Rightarrow> bool" where
  "is_terminal_event (WorkerProgressed _ _) = False" | "is_terminal_event _ = True"

record worker_event =
  we_version :: "16 word"
  we_operation_id :: uuid
  we_attempt :: u32
  we_event :: "worker_event_kind"

definition event_check :: "bool \<Rightarrow> protocol_error + unit" where
  "event_check ok = (if ok then Inr () else Inl InvalidEvent)"

fun event_kind_validate ::
  "(nat \<Rightarrow> bool) \<Rightarrow> worker_event_kind \<Rightarrow> protocol_error + unit" where
  "event_kind_validate alnum (MusicCompleted result) = event_check (music_result_valid result)"
| "event_kind_validate alnum (WorkerProgressed percent stage) =
     event_check (f64_is_finite percent \<and> f64_le (Fin 0) percent \<and> f64_le percent (Fin 100))"
| "event_kind_validate alnum (ContentCompleted result) = event_check (content_result_valid result)"
| "event_kind_validate alnum (FullContentCompleted result) = event_check (full_content_result_valid alnum result)"
| "event_kind_validate alnum (SearchCompleted entries) = validate_entries entries"
| "event_kind_validate alnum (WorkerCompleted artifacts) =
     (if artifacts = [] then Inl InvalidEvent
      else check_all artifact_descriptor_validate artifacts)"
| "event_kind_validate alnum _ = Inr ()"

definition worker_event_validate ::
  "(nat \<Rightarrow> bool) \<Rightarrow> worker_event \<Rightarrow> protocol_error + unit" where
  "worker_event_validate alnum e =
     (if we_version e \<noteq> protocol_version \<or> we_operation_id e = 0 \<or> we_attempt e = 0
      then Inl InvalidEvent else event_kind_validate alnum (we_event e))"

definition encode_event ::
  "(nat \<Rightarrow> bool) \<Rightarrow> (worker_event \<Rightarrow> string option) \<Rightarrow> worker_event \<Rightarrow> protocol_error + string" where
  "encode_event alnum to_json e =
     res_bind (worker_event_validate alnum e) (\<lambda>_. encode_frame to_json e)"

definition decode_event_frame ::
  "(nat \<Rightarrow> bool) \<Rightarrow> (string \<Rightarrow> worker_event option) \<Rightarrow> string
    \<Rightarrow> protocol_error + worker_event" where
  "decode_event_frame alnum from_json frame =
     (if length frame > max_frame_bytes then Inl FrameTooLarge
      else res_bind (ok_or InvalidMessage (from_json frame)) (\<lambda>e.
           res_bind (worker_event_validate alnum e) (\<lambda>_. Inr e)))"

end
