(* ===== verification/Download_Plan.thy ===== *)
theory Download_Plan
  imports Worker_Messages Cache_Safety
begin

text \<open>
  The decisions of \<open>backend/crates/yoink-downloads/src/lib.rs\<close> and \<open>cache.rs\<close> that need no
  state: errors and their translation, the configuration, the request sent to a worker, which
  artifacts go into one delivery unit, and what may be cached; with the limits and errors of
  \<open>backend/crates/yoink-executor/src/lib.rs\<close> that they rest on.
\<close>

section \<open>Errors\<close>

datatype download_error =
  DownloadInvalidInput | InvalidPreferences | InvalidCredentials | ProxyUnavailable
| UnsupportedAuthentication | ChangedCredentials | DownloadInvalidConfig | DownloadDenied
| PersonalCookieCapacity | DownloadCapacity | DownloadQuotaExceeded nat | DownloadConflict
| DownloadDatabase | DownloadExecutor | DownloadTask

datatype profile_error =
  ProfileUnavailable | StaleReference | SharedAccessDenied | ProfileProxyUnavailable | InvalidProxy
| InvalidCookie | ProfileUnsupportedAuthentication | ProfileDatabase | ProfileInvalidPreferences
| CandidateCapacityExceeded

fun map_profile :: "profile_error \<Rightarrow> download_error" where
  "map_profile ProfileDatabase = DownloadDatabase"
| "map_profile ProfileProxyUnavailable = ProxyUnavailable"
| "map_profile ProfileUnsupportedAuthentication = UnsupportedAuthentication"
| "map_profile ProfileInvalidPreferences = InvalidPreferences"
| "map_profile InvalidProxy = InvalidCredentials"
| "map_profile InvalidCookie = InvalidCredentials"
| "map_profile ProfileUnavailable = ChangedCredentials"
| "map_profile StaleReference = ChangedCredentials"
| "map_profile SharedAccessDenied = ChangedCredentials"
| "map_profile CandidateCapacityExceeded = ChangedCredentials"

fun map_store :: "store_error \<Rightarrow> download_error" where
  "map_store store_error.InvalidInput = DownloadInvalidInput"
| "map_store InvalidStoredData = DownloadInvalidInput"
| "map_store Unauthorized = DownloadDenied"
| "map_store Conflict = DownloadConflict"
| "map_store Capacity = DownloadCapacity"
| "map_store (QuotaExceeded n) = DownloadQuotaExceeded n"
| "map_store NotFoundOrStale = DownloadTask"
| "map_store Database = DownloadDatabase"
| "map_store Schema = DownloadDatabase"
| "map_store (Migration _ _) = DownloadDatabase"

datatype executor_error =
  ExecutorContentDenied | ExecutorFullContent full_content_error | ExecutorInvalidConfig | Spawn
| Exited "i32 option" | Protocol | Timeout | ExecutorCancelled | ExecutorResourceLimit
| UnsafeArtifact | Worker worker_failure | Io

fun retryable_executor_error :: "executor_error \<Rightarrow> bool" where
  "retryable_executor_error Timeout = True" | "retryable_executor_error Spawn = True"
| "retryable_executor_error (Exited _) = True" | "retryable_executor_error Io = True"
| "retryable_executor_error (Worker class) =
     (class \<in> {WorkerSourceUnavailable, WorkerRateLimited, WorkerProcessingFailed,
               WorkerMediaTimeout})"
| "retryable_executor_error _ = False"

fun executor_error_code :: "executor_error \<Rightarrow> string" where
  "executor_error_code (Worker class) = failure_code class"
| "executor_error_code Timeout = ''media_timeout''"
| "executor_error_code ExecutorResourceLimit = ''resource_limit''"
| "executor_error_code ExecutorContentDenied = ''network_denied''"
| "executor_error_code Spawn = ''source_unavailable''"
| "executor_error_code Io = ''source_unavailable''"
| "executor_error_code (Exited _) = ''source_unavailable''"
| "executor_error_code _ = ''processing_failed''"

section \<open>Configuration\<close>

record download_config =
  dc_admission :: admission_policy
  dc_quotas :: quota_limits
  dc_claim :: claim_policy
  dc_concurrency :: nat
  dc_lease :: duration
  dc_heartbeat_interval :: duration
  dc_poll_interval :: duration
  dc_delivery_timeout :: duration
  dc_cache_ttl :: duration

definition millis :: "nat \<Rightarrow> duration" where
  "millis n = \<lparr>as_secs = n div 1000, subsec_nanos = n mod 1000 * 1000000\<rparr>"

definition duration_is_zero :: "duration \<Rightarrow> bool" where
  "duration_is_zero d \<longleftrightarrow> as_secs d = 0 \<and> subsec_nanos d = 0"

definition duration_min :: "duration \<Rightarrow> duration \<Rightarrow> duration" where
  "duration_min a b = (if duration_le a b then a else b)"

text \<open>\<open>Duration::checked_mul\<close>: the nanoseconds carry, the seconds are 64 bits wide.\<close>

definition duration_checked_mul :: "duration \<Rightarrow> nat \<Rightarrow> duration option" where
  "duration_checked_mul d n =
     (let total = subsec_nanos d * n;
          seconds = as_secs d * n + total div 1000000000 in
      if seconds \<ge> 2 ^ 64 then None
      else Some \<lparr>as_secs = seconds, subsec_nanos = total mod 1000000000\<rparr>)"

definition download_config_default :: download_config where
  "download_config_default =
     \<lparr>dc_admission = \<lparr>max_attempts = 3, retry_delay = secs 2, max_pending_global = 50,
        max_pending_actor = 5\<rparr>,
      dc_quotas = quota_limits_default, dc_claim = claim_policy_default, dc_concurrency = 2,
      dc_lease = secs 30, dc_heartbeat_interval = secs 5, dc_poll_interval = millis 100,
      dc_delivery_timeout = secs 20, dc_cache_ttl = secs 2592000\<rparr>"

definition validate_config :: "download_config \<Rightarrow> download_error + unit" where
  "validate_config c =
     (if quota_limits_validate (dc_quotas c) \<noteq> Inr () \<or> claim_policy_validate (dc_claim c) \<noteq> Inr ()
         \<or> \<not> (1 \<le> dc_concurrency c \<and> dc_concurrency c \<le> 8)
         \<or> \<not> duration_le (secs 1) (dc_lease c) \<or> \<not> duration_le (dc_lease c) (secs 300)
         \<or> subsec_nanos (dc_lease c) \<noteq> 0
         \<or> duration_is_zero (dc_heartbeat_interval c)
         \<or> \<not> duration_le (millis 10) (dc_poll_interval c)
         \<or> duration_is_zero (dc_delivery_timeout c)
         \<or> \<not> duration_le (dc_delivery_timeout c) (dc_lease c)
         \<or> \<not> duration_le (dc_cache_ttl c) (secs 31536000)
         \<or> subsec_nanos (dc_cache_ttl c) \<noteq> 0
         \<or> (case duration_checked_mul (dc_heartbeat_interval c) 3 of
              None \<Rightarrow> True | Some least \<Rightarrow> \<not> duration_le least (dc_lease c))
         \<or> \<not> (1 \<le> max_attempts (dc_admission c) \<and> max_attempts (dc_admission c) \<le> 100)
         \<or> subsec_nanos (retry_delay (dc_admission c)) \<noteq> 0
         \<or> \<not> duration_le (retry_delay (dc_admission c)) (secs 300)
         \<or> \<not> (1 \<le> max_pending_global (dc_admission c) \<and> max_pending_global (dc_admission c) \<le> 10000)
         \<or> \<not> (1 \<le> max_pending_actor (dc_admission c) \<and> max_pending_actor (dc_admission c) \<le> 10000)
      then Inl DownloadInvalidConfig else Inr ())"

section \<open>The limits of an execution\<close>

record artifact_limits =
  max_artifact_bytes :: u64
  max_workspace_bytes :: u64
  max_artifacts :: nat

record executor =
  ex_timeout :: duration
  ex_processing_timeout :: duration
  ex_socket_timeout :: duration
  ex_limits :: artifact_limits

definition saturating_mul :: "u64 \<Rightarrow> nat \<Rightarrow> u64" where
  "saturating_mul a n = of_nat (min (unat a * n) (2 ^ 64 - 1))"

definition with_operation_limits ::
  "duration \<Rightarrow> u64 \<Rightarrow> nat \<Rightarrow> executor \<Rightarrow> executor_error + executor" where
  "with_operation_limits timeout artifact_bytes artifacts ex =
     (if duration_is_zero timeout \<or> \<not> duration_le timeout (secs 86400) \<or> subsec_nanos timeout \<noteq> 0
         \<or> artifact_bytes = 0 \<or> artifact_bytes > 2 * 1024 * 1024 * 1024
         \<or> artifacts = 0 \<or> artifacts > 500
      then Inl ExecutorInvalidConfig
      else
        let l = ex_limits ex;
            t = duration_min timeout (ex_timeout ex);
            bytes = min artifact_bytes (max_artifact_bytes l);
            n = min artifacts (max_artifacts l) in
        Inr \<lparr>ex_timeout = t,
             ex_processing_timeout = duration_min (ex_processing_timeout ex) t,
             ex_socket_timeout = duration_min (ex_socket_timeout ex) t,
             ex_limits = \<lparr>max_artifact_bytes = bytes,
                          max_workspace_bytes = min (max_workspace_bytes l) (saturating_mul bytes n),
                          max_artifacts = n\<rparr>\<rparr>)"

text \<open>The executor a claim runs with: the settings frozen in its request lower the limits.\<close>

definition claim_executor :: "executor \<Rightarrow> download_request \<Rightarrow> download_error + executor" where
  "claim_executor ex r =
     (case downloader_settings r of
        None \<Rightarrow> Inr ex
      | Some st \<Rightarrow>
          map_err DownloadInvalidInput
            (with_operation_limits (secs (unat (download_timeout st)))
              (max_file_size_mb st * 1024 * 1024) (max_artifacts (ex_limits ex)) ex))"

section \<open>The request sent to a worker\<close>

fun wire_video :: "video_codec \<Rightarrow> wire_video_codec" where
  "wire_video H264 = WireH264" | "wire_video H265 = WireH265" | "wire_video Av1 = WireAv1"
| "wire_video Vp9 = WireVp9" | "wire_video AnyVideo = WireAnyVideo"

fun wire_audio :: "audio_codec \<Rightarrow> wire_audio_codec" where
  "wire_audio BestAudio = WireBestAudio" | "wire_audio Aac = WireAac" | "wire_audio Mp3 = WireMp3"
| "wire_audio Opus = WireOpus"

fun wire_container_of :: "container \<Rightarrow> wire_container" where
  "wire_container_of Mp4 = WireMp4" | "wire_container_of Mkv = WireMkv"
| "wire_container_of Webm = WireWebm"

fun wire_engine_of :: "engine \<Rightarrow> wire_engine" where
  "wire_engine_of Auto = WireAuto" | "wire_engine_of YtDlp = WireYtDlp"
| "wire_engine_of AutoYtDlpV1 = WireAutoYtDlpV1"
| "wire_engine_of AutoGalleryV1 = WireAutoGalleryV1"
| "wire_engine_of AutoFallbackV1 = WireAutoFallbackV1" | "wire_engine_of Gallery = WireGallery"

fun wire_mode_of :: "media_mode \<Rightarrow> wire_media_mode" where
  "wire_mode_of Video = WireVideo" | "wire_mode_of Audio = WireAudio"
| "wire_mode_of Image = WireImage" | "wire_mode_of Subtitles = WireSubtitles"
| "wire_mode_of Formats = WireFormats" | "wire_mode_of Links = WireLinks"
| "wire_mode_of AudioLinks = WireAudioLinks"

definition wire_clip :: "clip_range \<Rightarrow> wire_clip_range" where
  "wire_clip r = \<lparr>wc_start_seconds = start_seconds r, wc_end_seconds = end_seconds r\<rparr>"

definition wire_options_of :: "download_request \<Rightarrow> wire_options" where
  "wire_options_of r =
     (let p = params r in
      \<lparr>wo_max_height = max_height p, wo_video_codec = wire_video (video_codec p),
       wo_audio_codec = wire_audio (audio_codec p), wo_container = wire_container_of (container p),
       wo_engine = wire_engine_of (engine p),
       wo_playlist = map_option (\<lambda>x. \<lparr>wp_start = pr_start x, wp_end = pr_end x\<rparr>) (playlist p),
       wo_clips = map wire_clip (clips p) @ option_list (map_option wire_clip (clip_range r)),
       wo_gallery_zip = gallery_zip p, wo_media_info = media_info p,
       wo_subtitles = map_option (\<lambda>x. \<lparr>ws_language = language x, ws_automatic = automatic x\<rparr>)
         (subtitles p)\<rparr>)"

definition worker_request ::
  "url_parser \<Rightarrow> claim \<Rightarrow> network_credentials \<Rightarrow> worker_request option" where
  "worker_request parse c credentials =
     (let r = request c in
      case http_source_url_parse parse (url_text (source_url r)) of
        Inl _ \<Rightarrow> None
      | Inr u \<Rightarrow>
          Some \<lparr>wr_version = protocol_version, wr_operation_id = operation_id c,
                wr_attempt = attempt c, wr_source_url = u,
                wr_task = Download (wire_mode_of (media_mode r)), wr_options = wire_options_of r,
                wr_network =
                  (if nc_proxy_url credentials \<noteq> None \<or> nc_cookie_jar credentials \<noteq> None
                      \<or> nc_youtube_oauth credentials \<noteq> None
                   then Some credentials else None)\<rparr>)"

section \<open>Artifacts\<close>

record validated_artifact =
  va_filename :: string
  va_media_type :: string
  va_size_bytes :: u64
  va_metadata :: "content_metadata option"
  va_media_info :: "media_info_report option"

datatype delivery_artifact = Upload validated_artifact | CachedArtifact cached_media

datatype media_category = VisualCategory | AudioCategory | DocumentCategory

definition upload_kind :: "string \<Rightarrow> bool \<Rightarrow> cached_media_kind" where
  "upload_kind media_type as_file =
     (if as_file then Document
      else if media_type \<in> {''image/jpeg'', ''image/png''} then Photo
      else if media_type = ''video/mp4'' then VideoMedia
      else if media_type \<in> {''audio/mpeg'', ''audio/mp4''} then AudioMedia
      else Document)"

definition upload_metadata :: "string \<Rightarrow> u64 \<Rightarrow> bool \<Rightarrow> cached_media_kind \<times> u64" where
  "upload_metadata media_type size_bytes as_file = (upload_kind media_type as_file, size_bytes)"

fun category :: "cached_media_kind \<Rightarrow> media_category" where
  "category Photo = VisualCategory" | "category VideoMedia = VisualCategory"
| "category AudioMedia = AudioCategory" | "category Document = DocumentCategory"

definition cache_metadata :: "bool \<Rightarrow> delivery_artifact \<Rightarrow> (cached_media_kind \<times> u64) option" where
  "cache_metadata as_file a =
     (case a of
        Upload v \<Rightarrow> Some (upload_metadata (va_media_type v) (va_size_bytes v) as_file)
      | CachedArtifact _ \<Rightarrow> None)"

definition artifact_category :: "bool \<Rightarrow> delivery_artifact \<Rightarrow> media_category" where
  "artifact_category as_file a =
     (case a of
        Upload v \<Rightarrow> category (upload_kind (va_media_type v) as_file)
      | CachedArtifact m \<Rightarrow> category (cm_kind m))"

definition artifact_metadata :: "delivery_artifact \<Rightarrow> content_metadata option" where
  "artifact_metadata a =
     (case a of Upload v \<Rightarrow> va_metadata v | CachedArtifact m \<Rightarrow> cm_metadata m)"

text \<open>\<open>collect::<Option<Vec<_>>>\<close>: all or nothing.\<close>

fun all_some :: "'a option list \<Rightarrow> 'a list option" where
  "all_some [] = Some []"
| "all_some (x # xs) =
     (case x of None \<Rightarrow> None | Some y \<Rightarrow> map_option (\<lambda>ys. y # ys) (all_some xs))"

section \<open>Delivery units\<close>

text \<open>The inner loop of \<open>plan_categories\<close>: where the unit that starts at \<open>start\<close> ends.\<close>

function unit_end :: "media_category list \<Rightarrow> nat \<Rightarrow> nat \<Rightarrow> nat" where
  "unit_end cs start k =
     (if k < length cs \<and> k - start < 10 \<and> cs ! k = cs ! start then unit_end cs start (k + 1) else k)"
  by auto
termination by (relation "measure (\<lambda>(cs, start, k). length cs - k)") auto

declare unit_end.simps [simp del]

lemma unit_end_ge: "k \<le> unit_end cs start k"
  by (induction cs start k rule: unit_end.induct) (subst unit_end.simps, auto)

function plan_from :: "media_category list \<Rightarrow> nat \<Rightarrow> nat list list" where
  "plan_from cs start =
     (if start < length cs
      then (let k = unit_end cs start (start + 1) in [start ..< k] # plan_from cs k)
      else [])"
  by auto
termination
proof (relation "measure (\<lambda>(cs, start). length cs - start)")
  fix cs :: "media_category list" and start x
  assume "start < length cs" and "x = unit_end cs start (start + 1)"
  then show "((cs, x), cs, start) \<in> measure (\<lambda>(cs, start). length cs - start)"
    using unit_end_ge [of "start + 1" cs start] by simp
qed simp

declare plan_from.simps [simp del]

definition plan_categories :: "media_category list \<Rightarrow> nat list list" where
  "plan_categories cs = plan_from cs 0"

definition plan_delivery_units :: "bool \<Rightarrow> delivery_artifact list \<Rightarrow> nat list list" where
  "plan_delivery_units as_file artifacts = plan_categories (map (artifact_category as_file) artifacts)"

section \<open>What may be cached\<close>

definition cache_read_enabled :: "duration \<Rightarrow> bool \<Rightarrow> bool" where
  "cache_read_enabled ttl bypassed \<longleftrightarrow> \<not> duration_is_zero ttl \<and> \<not> bypassed"

fun cached_sizes_ok :: "artifact_limits \<Rightarrow> bool \<Rightarrow> nat \<Rightarrow> cached_media list \<Rightarrow> bool" where
  "cached_sizes_ok limits as_file used [] = True"
| "cached_sizes_ok limits as_file used (m # ms) =
     (if cm_metadata m = None \<or> cm_size_bytes m > max_artifact_bytes limits
         \<or> (as_file \<and> cm_kind m \<noteq> Document)
      then False
      else
        let sum = used + unat (cm_size_bytes m) in
        if sum \<ge> 2 ^ 64 \<or> sum > unat (max_workspace_bytes limits) then False
        else cached_sizes_ok limits as_file sum ms)"

definition valid_cached_media :: "cached_media list \<Rightarrow> artifact_limits \<Rightarrow> bool \<Rightarrow> bool" where
  "valid_cached_media media limits as_file \<longleftrightarrow>
     media \<noteq> [] \<and> length media \<le> max_artifacts limits \<and> cached_sizes_ok limits as_file 0 media"

definition cached_item ::
  "(cached_media_kind \<times> u64) option \<Rightarrow> string option \<Rightarrow> cached_media option" where
  "cached_item meta file_id =
     Option.bind meta (\<lambda>(kind, size). Option.bind file_id (\<lambda>f.
       case cached_media_new kind f size of Inl _ \<Rightarrow> None | Inr x \<Rightarrow> Some x))"

definition build_cached_media ::
  "(cached_media_kind \<times> u64) option list \<Rightarrow> string option list \<Rightarrow> cached_media list option" where
  "build_cached_media metadata file_ids =
     (if metadata = [] \<or> length metadata \<noteq> length file_ids then None
      else all_some (map2 cached_item metadata file_ids))"

definition described_media :: "cached_media list \<Rightarrow> content_metadata list \<Rightarrow> cached_media list option" where
  "described_media media metadata =
     all_some (map2 (\<lambda>x m. case with_metadata m x of Inl _ \<Rightarrow> None | Inr y \<Rightarrow> Some y) media metadata)"

end
