(* ===== verification/Download_Worker.thy ===== *)
theory Download_Worker
  imports Download_Plan
begin

text \<open>
  Working on a claim: \<open>process_claim\<close>, \<open>worker_loop\<close>, the heartbeat task and the supervision of
  \<open>backend/crates/yoink-downloads/src/lib.rs\<close>, with \<open>authorize_target\<close> of \<open>chat_access.rs\<close>.

  The function runs among the rest of the program. A \<open>world\<close> is everything it meets: the
  environment of its k-th call to the store and what other tasks did to the tables before that
  call, and the answers of the identity store, the profile store, the content policy, the
  executor and the transport, each at the moment the code asks. A \<open>select!\<close> is a list of the
  events its branches took before the one that ends it. A \<open>run\<close> is what the function changes:
  the tables, and a log of what was handed to the transport, each entry with the tables of that
  moment. Metrics and trace output are left out.
\<close>

section \<open>What a worker meets\<close>

datatype moment =
  AtStart | AtExecutorError | AfterWork | BeforeBatch | BeforeUnit nat | AfterUnit nat | AtEnd
| AtPublication | AtDiagnostic

record identity_snapshot =
  id_language :: string
  id_allowed :: bool

datatype identity_answer = IdentityFault | NoIdentity | Identity identity_snapshot

datatype heartbeat_event = BeatCancelled | BeatStale | BeatDatabase

datatype polled = NoBeat | BeatsClosed | Beat heartbeat_event

record worker_progress =
  wp_percent :: f64
  wp_stage :: wire_stage

text \<open>A branch of the \<open>select!\<close> around the execution, other than its end.\<close>

datatype execution_event =
  ExecutionBeat "heartbeat_event option" | ExecutionProgress "worker_progress option"
| ProgressClosed | ExecutionShutdown

datatype delivery_error = DeliveryRejected | DeliveryInvalidFileId | DeliveryRetryAfter duration
| DeliveryErrorUnknown

record delivered_media =
  dm_message_id :: i64
  dm_file_id :: "string option"

datatype transport_end = Answered "delivery_error + delivered_media list" | Deadline

datatype content_decision = Decision (blocked: bool) (spoiler: bool)

record delivery_presentation =
  dp_actor_id :: u64
  dp_actor_label :: "string option"
  dp_source_url :: url
  dp_clips :: "clip_range list"
  dp_language :: string
  dp_first_unit :: bool

record send =
  sd_ordinal :: nat
  sd_indices :: "nat list"
  sd_media :: "delivery_artifact list"
  sd_target :: delivery_target
  sd_as_file :: bool
  sd_spoiler :: bool
  sd_presentation :: "delivery_presentation option"
  sd_db :: db

record world =
  w_env :: "nat \<Rightarrow> env"
  w_others :: "nat \<Rightarrow> db \<Rightarrow> db"
  w_shutdown :: "moment \<Rightarrow> bool"
  w_identity :: "moment \<Rightarrow> i64 \<Rightarrow> (i64 \<times> i64 option) option \<Rightarrow> identity_answer"
  w_resolve :: "moment \<Rightarrow> u64 \<Rightarrow> string \<Rightarrow> identity_snapshot \<Rightarrow> network_selection
    \<Rightarrow> profile_error + network_credentials"
  w_execution :: "executor \<Rightarrow> worker_request
    \<Rightarrow> execution_event list \<times> (executor_error + validated_artifact list)"
  w_beat :: "moment \<Rightarrow> polled"
  w_policy :: "nat \<Rightarrow> download_request \<Rightarrow> i64 \<Rightarrow> content_metadata list \<Rightarrow> content_decision option"
  w_profile :: "nat \<Rightarrow> i64 \<Rightarrow> (string option \<times> string option) option"
  w_deliver :: "nat \<Rightarrow> delivery_artifact list \<Rightarrow> heartbeat_event option list \<times> transport_end"

record run =
  r_db :: db
  r_calls :: nat
  r_sends :: "send list"
  r_diagnostics :: "(delivery_target \<times> media_info_report) list"

record service =
  sv_bot_id :: i64
  sv_groups_enabled :: bool
  sv_config :: download_config
  sv_executor :: executor

definition store_call ::
  "world \<Rightarrow> (env \<Rightarrow> db \<Rightarrow> (store_error + 'a) \<times> db) \<Rightarrow> run \<Rightarrow> (store_error + 'a) \<times> run" where
  "store_call w f s =
     (let (r, d) = f (w_env w (r_calls s)) (w_others w (r_calls s) (r_db s)) in
      (r, s\<lparr>r_db := d, r_calls := Suc (r_calls s)\<rparr>))"

text \<open>The three ways the code reads the result of a call: \<open>map_err(map_store)?\<close>, the \<open>match\<close>
  that takes a stale claim for done, and the loss of the value.\<close>

definition must :: "(store_error + 'a) \<times> run \<Rightarrow> (download_error + unit) \<times> run" where
  "must o' = (case o' of (Inl x, s) \<Rightarrow> (Inl (map_store x), s) | (Inr _, s) \<Rightarrow> (Inr (), s))"

definition unless_stale :: "(store_error + 'a) \<times> run \<Rightarrow> (download_error + unit) \<times> run" where
  "unless_stale o' =
     (case o' of (Inl x, s) \<Rightarrow> (if x = NotFoundOrStale then Inr () else Inl (map_store x), s)
      | (Inr _, s) \<Rightarrow> (Inr (), s))"

definition fail_claim :: "world \<Rightarrow> claim \<Rightarrow> run \<Rightarrow> (download_error + unit) \<times> run" where
  "fail_claim w c s = must (store_call w (\<lambda>e. fail e c False) s)"

definition release_claim :: "world \<Rightarrow> claim \<Rightarrow> run \<Rightarrow> (download_error + unit) \<times> run" where
  "release_claim w c s = unless_stale (store_call w (\<lambda>e. fail e c True) s)"

definition acknowledge :: "world \<Rightarrow> claim \<Rightarrow> run \<Rightarrow> (download_error + unit) \<times> run" where
  "acknowledge w c s = unless_stale (store_call w (\<lambda>e. acknowledge_cancel e c) s)"

definition stop_delivery ::
  "world \<Rightarrow> claim \<Rightarrow> stop_delivery_reason \<Rightarrow> run \<Rightarrow> (download_error + unit) \<times> run" where
  "stop_delivery w c reason s = unless_stale (store_call w (\<lambda>e. stop_delivery_batch e c reason) s)"

section \<open>Authorization\<close>

definition is_formats :: "download_request \<Rightarrow> bool" where
  "is_formats r \<longleftrightarrow> media_mode r \<in> {Formats, Links, AudioLinks}"

definition target_denied :: "service \<Rightarrow> u64 \<Rightarrow> delivery_target \<Rightarrow> bool" where
  "target_denied sv actor t \<longleftrightarrow>
     bot_id t \<noteq> sv_bot_id sv
     \<or> (0 < sint (chat_id t) \<and> (chat_id t \<noteq> actor \<or> thread_id t \<noteq> None))
     \<or> (sint (chat_id t) < 0 \<and> \<not> sv_groups_enabled sv)
     \<or> (case thread_id t of None \<Rightarrow> False | Some i \<Rightarrow> sint i > i32_max)"

definition authorize_target ::
  "service \<Rightarrow> (i64 \<Rightarrow> (i64 \<times> i64 option) option \<Rightarrow> identity_answer) \<Rightarrow> u64
    \<Rightarrow> delivery_target option \<Rightarrow> download_error + identity_snapshot" where
  "authorize_target sv identities actor t =
     (if actor = 0 \<or> actor > i64_max then Inl DownloadDenied
      else if (case t of None \<Rightarrow> False | Some t \<Rightarrow> target_denied sv actor t)
      then Inl DownloadDenied
      else
        let group = (case t of None \<Rightarrow> None
                     | Some t \<Rightarrow> if sint (chat_id t) < 0 then Some (chat_id t, thread_id t) else None) in
        (case identities actor group of
           IdentityFault \<Rightarrow> Inl DownloadDatabase
         | NoIdentity \<Rightarrow> Inl DownloadDenied
         | Identity i \<Rightarrow> if id_allowed i then Inr i else Inl DownloadDenied))"

definition authorize_request ::
  "service \<Rightarrow> (i64 \<Rightarrow> (i64 \<times> i64 option) option \<Rightarrow> identity_answer) \<Rightarrow> download_request
    \<Rightarrow> download_error + identity_snapshot" where
  "authorize_request sv identities r =
     (if is_formats r
         \<and> (case target r of None \<Rightarrow> True
            | Some t \<Rightarrow> bot_id t \<noteq> sv_bot_id sv \<or> chat_id t \<noteq> actor_id r \<or> thread_id t \<noteq> None)
      then Inl DownloadDenied
      else authorize_target sv identities (actor_id r) (target r))"

definition source_host :: "download_request \<Rightarrow> string" where
  "source_host r = (case url_host (source_url r) of None \<Rightarrow> [] | Some h \<Rightarrow> h)"

section \<open>Heartbeats\<close>

text \<open>One turn of the heartbeat task: what it sends, and whether it goes on, with its flag.\<close>

definition heartbeat_turn ::
  "bool \<Rightarrow> store_error + lease_heartbeat \<Rightarrow> heartbeat_event option \<times> bool option" where
  "heartbeat_turn reported answer =
     (case answer of
        Inr h \<Rightarrow>
          if heartbeat_cancel_requested h \<and> \<not> reported then (Some BeatCancelled, Some True)
          else (None, Some reported)
      | Inl x \<Rightarrow> if x = NotFoundOrStale then (Some BeatStale, None) else (Some BeatDatabase, None))"

definition finish_heartbeat_event ::
  "world \<Rightarrow> claim \<Rightarrow> heartbeat_event option \<Rightarrow> run \<Rightarrow> (download_error + unit) \<times> run" where
  "finish_heartbeat_event w c event s =
     (case event of
        Some BeatCancelled \<Rightarrow> acknowledge w c s
      | Some BeatStale \<Rightarrow> (Inr (), s)
      | None \<Rightarrow> (Inr (), s)
      | Some BeatDatabase \<Rightarrow> (Inl DownloadDatabase, s))"

section \<open>Obtaining the artifacts\<close>

text \<open>A phase either ends the work on the claim or hands on what it obtained.\<close>

datatype 'a phase = Finished "download_error + unit" | Obtained 'a

definition finished :: "(download_error + unit) \<times> run \<Rightarrow> 'a phase \<times> run" where
  "finished o' = (case o' of (r, s) \<Rightarrow> (Finished r, s))"

definition finish_executor_error ::
  "world \<Rightarrow> claim \<Rightarrow> executor_error \<Rightarrow> bool \<Rightarrow> run \<Rightarrow> (download_error + unit) \<times> run" where
  "finish_executor_error w c err global_shutdown s =
     (if err = ExecutorCancelled then
        (if global_shutdown then release_claim w c s
         else (case store_call w (\<lambda>e. acknowledge_cancel e c) s of
                 (Inr _, s) \<Rightarrow> (Inr (), s)
               | (Inl x, s) \<Rightarrow>
                   if x = NotFoundOrStale then release_claim w c s else (Inl (map_store x), s)))
      else unless_stale (store_call w
        (\<lambda>e. fail_with_code e c (retryable_executor_error err) (Some (executor_error_code err))) s))"

fun store_stage :: "wire_stage \<Rightarrow> progress_stage" where
  "store_stage WireFetching = Fetching" | "store_stage WireProcessing = Processing"
| "store_stage WireWritingArtifact = WritingArtifact"

text \<open>\<open>round\<close> (half away from zero), \<open>clamp(0.0, 100.0)\<close> and \<open>as u8\<close>, which sends NaN to 0.\<close>

definition percent_u8 :: "f64 \<Rightarrow> u8" where
  "percent_u8 p =
     (case p of
        NaN \<Rightarrow> 0
      | Inf neg \<Rightarrow> if neg then 0 else 100
      | Fin q \<Rightarrow>
          let n = (if 0 \<le> q then \<lfloor>q + 1 / 2\<rfloor> else - \<lfloor>- q + 1 / 2\<rfloor>) in
          of_int (max 0 (min 100 n)))"

fun run_execution ::
  "world \<Rightarrow> claim \<Rightarrow> executor_error + validated_artifact list \<Rightarrow> bool \<Rightarrow> execution_event list
    \<Rightarrow> run \<Rightarrow> validated_artifact list phase \<times> run" where
  "run_execution w c result progress_open [] s =
     (case result of
        Inr artifacts \<Rightarrow> (Obtained artifacts, s)
      | Inl err \<Rightarrow> finished (finish_executor_error w c err (w_shutdown w AtExecutorError) s))"
| "run_execution w c result progress_open (ExecutionBeat event # evs) s =
     finished (finish_heartbeat_event w c event s)"
| "run_execution w c result progress_open (ExecutionShutdown # evs) s =
     finished (release_claim w c s)"
| "run_execution w c result progress_open (ProgressClosed # evs) s =
     run_execution w c result False evs s"
| "run_execution w c result progress_open (ExecutionProgress p # evs) s =
     (case (progress_open, p) of
        (True, Some x) \<Rightarrow>
          (case store_call w (\<lambda>e. update_progress e c (percent_u8 (wp_percent x))
                                (store_stage (wp_stage x))) s of
             (Inr _, s) \<Rightarrow> run_execution w c result progress_open evs s
           | (Inl x, s) \<Rightarrow>
               (Finished (if x = NotFoundOrStale then Inr () else Inl (map_store x)), s))
      | _ \<Rightarrow> run_execution w c result progress_open evs s)"

definition execute_claim ::
  "url_parser \<Rightarrow> world \<Rightarrow> claim \<Rightarrow> network_credentials \<Rightarrow> executor \<Rightarrow> run
    \<Rightarrow> (delivery_artifact list \<times> uuid option) phase \<times> run" where
  "execute_claim parse w c credentials ex s =
     (case worker_request parse c credentials of
        None \<Rightarrow> finished (fail_claim w c s)
      | Some wr \<Rightarrow>
          (let (evs, result) = w_execution w ex wr in
           case run_execution w c result True evs s of
             (Finished r, s) \<Rightarrow> (Finished r, s)
           | (Obtained artifacts, s) \<Rightarrow> (Obtained (map Upload artifacts, None), s)))"

definition obtain_artifacts ::
  "url_parser \<Rightarrow> digester \<Rightarrow> service \<Rightarrow> world \<Rightarrow> claim \<Rightarrow> network_credentials \<Rightarrow> executor \<Rightarrow> run
    \<Rightarrow> (delivery_artifact list \<times> uuid option) phase \<times> run" where
  "obtain_artifacts parse digest sv w c credentials ex s =
     (let r = request c in
      if \<not> is_formats r \<and> cache_read_enabled (dc_cache_ttl (sv_config sv)) (claim_cache_bypassed c)
      then (case store_call w (\<lambda>e d. (lookup_media_cache digest e r d, d)) s of
              (Inr (Some b), s) \<Rightarrow>
                if valid_cached_media (batch_media b) (ex_limits ex) (send_as_file (params r))
                then (Obtained (map CachedArtifact (batch_media b), Some (batch_revision b)), s)
                else execute_claim parse w c credentials ex s
            | (_, s) \<Rightarrow> execute_claim parse w c credentials ex s)
      else execute_claim parse w c credentials ex s)"

end
