(* ===== verification/Download_Delivery.thy ===== *)
theory Download_Delivery
  imports Download_Worker
begin

text \<open>
  The second half of \<open>process_claim\<close> of \<open>backend/crates/yoink-downloads/src/lib.rs\<close>: the
  artifacts go out in units, each committed to the tables before the transport is called and
  settled after it answered, and what was confirmed is published to the media cache. Then the
  whole function, the loop of a worker and the supervision of the workers.
\<close>

section \<open>One unit\<close>

record batch =
  b_target :: delivery_target
  b_metadata :: "content_metadata list option"
  b_revision :: "uuid option"
  b_diagnostic :: "media_info_report option"

record loop_state =
  ls_artifacts :: "delivery_artifact option list"
  ls_cancelled :: bool
  ls_confirmed :: "string option list"
  ls_diagnosed :: bool

datatype unit_flow = Return "download_error + unit" | Break loop_state | Continue loop_state

datatype delivery_outcome =
  Delivered "delivered_media list" | OutcomeInvalidFileId | OutcomeRejected
| OutcomeRetryAfter duration | OutcomeUnknown

definition outcome_of :: "nat \<Rightarrow> delivery_error + delivered_media list \<Rightarrow> delivery_outcome" where
  "outcome_of n answer =
     (case answer of
        Inr receipts \<Rightarrow>
          if length receipts = n \<and> list_all (\<lambda>x. 0 < sint (dm_message_id x)) receipts
             \<and> distinct (map dm_message_id receipts)
          then Delivered receipts else OutcomeUnknown
      | Inl DeliveryRejected \<Rightarrow> OutcomeRejected
      | Inl DeliveryInvalidFileId \<Rightarrow> OutcomeInvalidFileId
      | Inl (DeliveryRetryAfter d) \<Rightarrow> OutcomeRetryAfter d
      | Inl DeliveryErrorUnknown \<Rightarrow> OutcomeUnknown)"

text \<open>The \<open>select!\<close> around the transport: the beats it took, then its end. The flags are
  \<open>heartbeat_closed\<close>, \<open>heartbeat_failed\<close> and \<open>cancellation_seen\<close>.\<close>

fun await_delivery ::
  "nat \<Rightarrow> transport_end \<Rightarrow> bool \<Rightarrow> bool \<Rightarrow> bool \<Rightarrow> heartbeat_event option list
    \<Rightarrow> delivery_outcome \<times> bool \<times> bool" where
  "await_delivery n stop shut failed cancelled [] =
     ((case stop of Answered r \<Rightarrow> outcome_of n r | Deadline \<Rightarrow> OutcomeUnknown), failed, cancelled)"
| "await_delivery n stop shut failed cancelled (event # evs) =
     (if shut then await_delivery n stop shut failed cancelled evs
      else (case event of
              Some BeatCancelled \<Rightarrow> await_delivery n stop shut failed True evs
            | Some BeatStale \<Rightarrow> await_delivery n stop shut True cancelled evs
            | Some BeatDatabase \<Rightarrow> await_delivery n stop shut True cancelled evs
            | None \<Rightarrow> await_delivery n stop True failed cancelled evs))"

text \<open>\<open>artifacts[index].take()\<close> for each index of a unit.\<close>

fun take_media ::
  "nat list \<Rightarrow> delivery_artifact option list \<Rightarrow> delivery_artifact list \<times> delivery_artifact option list" where
  "take_media [] artifacts = ([], artifacts)"
| "take_media (i # is) artifacts =
     (let (media, rest) = take_media is (artifacts[i := None]) in
      ((case artifacts ! i of None \<Rightarrow> media | Some a \<Rightarrow> a # media), rest))"

definition actor_label :: "string option \<times> string option \<Rightarrow> string option" where
  "actor_label names =
     (case names of (username, first_name) \<Rightarrow>
        (case username of
           Some u \<Rightarrow>
             if trim u \<noteq> [] then Some (CHR ''@'' # dropWhile (\<lambda>c. c = CHR ''@'') (trim u))
             else (case first_name of Some f \<Rightarrow> if trim f \<noteq> [] then Some f else None | None \<Rightarrow> None)
         | None \<Rightarrow>
             (case first_name of Some f \<Rightarrow> if trim f \<noteq> [] then Some f else None | None \<Rightarrow> None)))"

definition presentation_of ::
  "world \<Rightarrow> claim \<Rightarrow> delivery_target \<Rightarrow> identity_snapshot \<Rightarrow> nat \<Rightarrow> delivery_presentation option" where
  "presentation_of w c t who k =
     (let r = request c;
          label = (if k = 0 \<and> sint (chat_id t) < 0 \<and> \<not> is_formats r
                   then Option.bind (w_profile w k (actor_id r)) actor_label else None) in
      if media_mode r = Formats then None
      else Some \<lparr>dp_actor_id = actor_id r, dp_actor_label = label, dp_source_url = source_url r,
                 dp_clips = (if clips (params r) = [] then option_list (clip_range r)
                             else clips (params r)),
                 dp_language = id_language who, dp_first_unit = (k = 0)\<rparr>)"

text \<open>What is written after the transport answered: \<open>None\<close> when a stale cached batch was
  requeued, else whether the call took effect, whether the work stops, and the receipts.\<close>

definition settle_unit ::
  "digester \<Rightarrow> world \<Rightarrow> claim \<Rightarrow> nat \<Rightarrow> uuid option \<Rightarrow> delivery_outcome \<Rightarrow> bool \<Rightarrow> run
    \<Rightarrow> (store_error + bool \<times> bool \<times> delivered_media list option) option \<times> run" where
  "settle_unit digest w c k revision outcome failed s =
     (let n = of_nat k;
          ended = (\<lambda>o'. case o' of (Inl x, s) \<Rightarrow> (Some (Inl x), s)
                     | (Inr accepted, s) \<Rightarrow> (Some (Inr (accepted, True, None)), s));
          reject = (\<lambda>wait s. ended (store_call w (\<lambda>e. reject_delivery_unit e c n wait) s));
          unknown = (\<lambda>s. ended (store_call w (\<lambda>e. unknown_delivery_unit e c n) s));
          invalidate = (\<lambda>old s.
            snd (store_call w (\<lambda>e. invalidate_media_cache digest e (request c) old) s)) in
      case outcome of
        OutcomeInvalidFileId \<Rightarrow>
          if failed then unknown s
          else (case revision of
                  None \<Rightarrow> reject None s
                | Some old \<Rightarrow>
                    if k = 0
                    then (case store_call w (\<lambda>e. requeue_invalid_cache digest e c n old) s of
                            (Inr True, s) \<Rightarrow> (None, s)
                          | (Inr False, s) \<Rightarrow> reject None (invalidate old s)
                          | (Inl x, s) \<Rightarrow> (Some (Inl x), s))
                    else reject None (invalidate old s))
      | Delivered receipts \<Rightarrow>
          if failed then unknown s
          else (case store_call w (\<lambda>e. complete_delivery_unit e c n (map dm_message_id receipts)) s of
                  (Inl x, s) \<Rightarrow> (Some (Inl x), s)
                | (Inr accepted, s) \<Rightarrow> (Some (Inr (accepted, False, Some receipts)), s))
      | OutcomeRejected \<Rightarrow> if failed then unknown s else reject None s
      | OutcomeRetryAfter delay \<Rightarrow> if failed then unknown s else reject (Some delay) s
      | OutcomeUnknown \<Rightarrow> unknown s)"

text \<open>\<open>stop_delivery(...).await?\<close> and then \<open>break\<close>.\<close>

definition stop_and_break ::
  "world \<Rightarrow> claim \<Rightarrow> stop_delivery_reason \<Rightarrow> loop_state \<Rightarrow> run \<Rightarrow> unit_flow \<times> run" where
  "stop_and_break w c reason ls s =
     (case stop_delivery w c reason s of
        (Inl x, s) \<Rightarrow> (Return (Inl x), s) | (Inr _, s) \<Rightarrow> (Break ls, s))"

definition interrupted_reason :: "loop_state \<Rightarrow> stop_delivery_reason" where
  "interrupted_reason ls = (if ls_cancelled ls then StopCancel else Shutdown)"

definition after_unit ::
  "world \<Rightarrow> claim \<Rightarrow> batch \<Rightarrow> nat \<Rightarrow> loop_state
    \<Rightarrow> (store_error + bool \<times> bool \<times> delivered_media list option) option \<times> run \<Rightarrow> unit_flow \<times> run" where
  "after_unit w c b k ls settled =
     (case settled of
        (None, s) \<Rightarrow> (Return (Inr ()), s)
      | (Some (Inl x), s) \<Rightarrow>
          if x = NotFoundOrStale then (Break ls, s) else (Return (Inl (map_store x)), s)
      | (Some (Inr (accepted, stops, receipts)), s) \<Rightarrow>
          if \<not> accepted \<or> stops then (Break ls, s)
          else (case receipts of
                  None \<Rightarrow> (Break ls, s)
                | Some rs \<Rightarrow>
                    let ls = ls\<lparr>ls_diagnosed := b_diagnostic b \<noteq> None,
                                ls_confirmed := ls_confirmed ls @ map dm_file_id rs\<rparr> in
                    if w_shutdown w (AfterUnit k) \<or> ls_cancelled ls
                    then stop_and_break w c (interrupted_reason ls) ls s
                    else (Continue ls, s)))"

definition send_unit ::
  "digester \<Rightarrow> world \<Rightarrow> claim \<Rightarrow> batch \<Rightarrow> identity_snapshot \<Rightarrow> bool \<Rightarrow> nat \<Rightarrow> nat list \<Rightarrow> loop_state
    \<Rightarrow> run \<Rightarrow> unit_flow \<times> run" where
  "send_unit digest w c b who spoils k indices ls s =
     (case store_call w (\<lambda>e. begin_delivery_unit e c (of_nat k) (of_nat (length indices))) s of
        (Inl x, s) \<Rightarrow> (Return (Inl (map_store x)), s)
      | (Inr False, s) \<Rightarrow> (Break ls, s)
      | (Inr True, s) \<Rightarrow>
          let (media, rest) = take_media indices (ls_artifacts ls);
              s = s\<lparr>r_sends := r_sends s
                @ [\<lparr>sd_ordinal = k, sd_indices = indices, sd_media = media, sd_target = b_target b,
                    sd_as_file = send_as_file (params (request c)), sd_spoiler = spoils,
                    sd_presentation = presentation_of w c (b_target b) who k, sd_db = r_db s\<rparr>]\<rparr>;
              (beats, stop) = w_deliver w k media;
              (outcome, failed, cancelled) =
                await_delivery (length indices) stop False False (ls_cancelled ls) beats;
              ls = ls\<lparr>ls_artifacts := rest, ls_cancelled := cancelled\<rparr> in
          after_unit w c b k ls (settle_unit digest w c k (b_revision b) outcome failed s))"

definition unit_policy ::
  "world \<Rightarrow> claim \<Rightarrow> batch \<Rightarrow> nat \<Rightarrow> content_decision option" where
  "unit_policy w c b k =
     (if is_formats (request c) then Some (Decision False False)
      else (case b_metadata b of
              None \<Rightarrow> None
            | Some m \<Rightarrow> w_policy w k (request c) (chat_id (b_target b)) m))"

definition deliver_unit ::
  "digester \<Rightarrow> service \<Rightarrow> world \<Rightarrow> claim \<Rightarrow> batch \<Rightarrow> nat \<Rightarrow> nat list \<Rightarrow> loop_state \<Rightarrow> run
    \<Rightarrow> unit_flow \<times> run" where
  "deliver_unit digest sv w c b k indices ls s =
     (let r = request c; here = BeforeUnit k in
      if w_shutdown w here \<or> ls_cancelled ls then stop_and_break w c (interrupted_reason ls) ls s
      else (case (if is_formats r then authorize_request sv (w_identity w here) r
                  else authorize_target sv (w_identity w here) (actor_id r) (Some (b_target b))) of
              Inl DownloadDenied \<Rightarrow> stop_and_break w c Denied ls s
            | Inl x \<Rightarrow> (Return (Inl x), s)
            | Inr who \<Rightarrow>
                (case w_resolve w here (actor_id r) (source_host r) who (network r) of
                   Inl ProfileDatabase \<Rightarrow> (Return (Inl DownloadDatabase), s)
                 | Inl _ \<Rightarrow> stop_and_break w c Denied ls s
                 | Inr _ \<Rightarrow>
                     (case unit_policy w c b k of
                        None \<Rightarrow> stop_and_break w c NsfwPolicyUnavailable ls s
                      | Some d \<Rightarrow>
                          if blocked d then stop_and_break w c NsfwBlocked ls s
                          else send_unit digest w c b who (spoiler d) k indices ls s))))"

fun deliver_units ::
  "digester \<Rightarrow> service \<Rightarrow> world \<Rightarrow> claim \<Rightarrow> batch \<Rightarrow> nat \<Rightarrow> nat list list \<Rightarrow> loop_state \<Rightarrow> run
    \<Rightarrow> unit_flow \<times> run" where
  "deliver_units digest sv w c b k [] ls s = (Break ls, s)"
| "deliver_units digest sv w c b k (indices # us) ls s =
     (case deliver_unit digest sv w c b k indices ls s of
        (Continue ls, s) \<Rightarrow> deliver_units digest sv w c b (Suc k) us ls s
      | (flow, s) \<Rightarrow> (flow, s))"

section \<open>After the units\<close>

definition end_of_loop :: "polled \<Rightarrow> loop_state \<Rightarrow> loop_state" where
  "end_of_loop p ls =
     (case p of
        NoBeat \<Rightarrow> ls
      | Beat BeatCancelled \<Rightarrow> ls\<lparr>ls_cancelled := True\<rparr>
      | _ \<Rightarrow> ls\<lparr>ls_confirmed := []\<rparr>)"

definition media_to_publish ::
  "service \<Rightarrow> world \<Rightarrow> claim \<Rightarrow> batch \<Rightarrow> delivery_artifact list \<Rightarrow> loop_state \<Rightarrow> cached_media list option" where
  "media_to_publish sv w c b artifacts ls =
     (let source = map (cache_metadata (send_as_file (params (request c)))) artifacts in
      if \<not> is_formats (request c) \<and> b_revision b = None
         \<and> \<not> duration_is_zero (dc_cache_ttl (sv_config sv))
         \<and> \<not> w_shutdown w AtPublication \<and> \<not> ls_cancelled ls
         \<and> length (ls_confirmed ls) = length source
         \<and> length (ls_confirmed ls) = length (ls_artifacts ls)
      then Option.bind (build_cached_media source (ls_confirmed ls)) (\<lambda>media.
           Option.bind (b_metadata b) (\<lambda>metadata. described_media media metadata))
      else None)"

definition finish_delivery ::
  "digester \<Rightarrow> service \<Rightarrow> world \<Rightarrow> claim \<Rightarrow> batch \<Rightarrow> delivery_artifact list \<Rightarrow> loop_state \<Rightarrow> run
    \<Rightarrow> (download_error + unit) \<times> run" where
  "finish_delivery digest sv w c b artifacts ls s =
     (let ls = end_of_loop (w_beat w AtEnd) ls;
          s = (case media_to_publish sv w c b artifacts ls of
                 None \<Rightarrow> s
               | Some media \<Rightarrow>
                   snd (store_call w
                     (\<lambda>e. publish_media_cache digest e c media (dc_cache_ttl (sv_config sv))) s)) in
      if ls_diagnosed ls \<and> \<not> w_shutdown w AtDiagnostic \<and> \<not> ls_cancelled ls
      then (case b_diagnostic b of
              None \<Rightarrow> (Inr (), s)
            | Some report \<Rightarrow>
                (case authorize_target sv (w_identity w AtDiagnostic) (actor_id (request c))
                        (Some (b_target b)) of
                   Inl _ \<Rightarrow> (Inr (), s)
                 | Inr _ \<Rightarrow>
                     (Inr (), s\<lparr>r_diagnostics := r_diagnostics s @ [(b_target b, report)]\<rparr>)))
      else (Inr (), s))"

definition diagnostic_of :: "claim \<Rightarrow> delivery_artifact list \<Rightarrow> media_info_report option" where
  "diagnostic_of c artifacts =
     (let r = request c in
      if length artifacts = 1 \<and> media_info (params r)
         \<and> (case target r of None \<Rightarrow> False | Some t \<Rightarrow> chat_id t = actor_id r \<and> thread_id t = None)
      then (case artifacts ! 0 of
              Upload a \<Rightarrow>
                (case va_media_info a of
                   Some x \<Rightarrow> if media_info_valid x then Some x else None | None \<Rightarrow> None)
            | CachedArtifact _ \<Rightarrow> None)
      else None)"

definition effective_target :: "service \<Rightarrow> download_request \<Rightarrow> delivery_target option" where
  "effective_target sv r =
     (case target r of
        Some t \<Rightarrow> Some t
      | None \<Rightarrow>
          (case delivery_target_new (sv_bot_id sv) (actor_id r) None None of
             Inl _ \<Rightarrow> None | Inr t \<Rightarrow> Some t))"

definition deliver_batch ::
  "digester \<Rightarrow> service \<Rightarrow> world \<Rightarrow> claim \<Rightarrow> delivery_artifact list \<Rightarrow> uuid option \<Rightarrow> run
    \<Rightarrow> (download_error + unit) \<times> run" where
  "deliver_batch digest sv w c artifacts revision s =
     (case store_call w (\<lambda>e. begin_delivery_batch e c (of_nat (length artifacts))) s of
        (Inl x, s) \<Rightarrow> (Inl (map_store x), s)
      | (Inr False, s) \<Rightarrow> (Inr (), s)
      | (Inr True, s) \<Rightarrow>
          (case effective_target sv (request c) of
             None \<Rightarrow> (Inl DownloadInvalidInput, s)
           | Some t \<Rightarrow>
               let b = \<lparr>b_target = t, b_metadata = all_some (map artifact_metadata artifacts),
                        b_revision = revision, b_diagnostic = diagnostic_of c artifacts\<rparr>;
                   ls = \<lparr>ls_artifacts = map Some artifacts, ls_cancelled = False,
                         ls_confirmed = [], ls_diagnosed = False\<rparr>;
                   plan = plan_delivery_units (send_as_file (params (request c))) artifacts in
               (case deliver_units digest sv w c b 0 plan ls s of
                  (Return r, s) \<Rightarrow> (r, s)
                | (Break ls, s) \<Rightarrow> finish_delivery digest sv w c b artifacts ls s
                | (Continue ls, s) \<Rightarrow> finish_delivery digest sv w c b artifacts ls s)))"

definition deliver_artifacts ::
  "digester \<Rightarrow> service \<Rightarrow> world \<Rightarrow> claim \<Rightarrow> delivery_artifact list \<Rightarrow> uuid option \<Rightarrow> run
    \<Rightarrow> (download_error + unit) \<times> run" where
  "deliver_artifacts digest sv w c artifacts revision s =
     (if artifacts = [] \<or> length artifacts > 100 then fail_claim w c s
      else if w_shutdown w AfterWork then release_claim w c s
      else (case authorize_request sv (w_identity w AfterWork) (request c) of
              Inl x \<Rightarrow> if x = DownloadDenied then fail_claim w c s else (Inl x, s)
            | Inr _ \<Rightarrow>
                (case w_beat w BeforeBatch of
                   Beat event \<Rightarrow> finish_heartbeat_event w c (Some event) s
                 | BeatsClosed \<Rightarrow> finish_heartbeat_event w c None s
                 | NoBeat \<Rightarrow>
                     if w_shutdown w BeforeBatch then release_claim w c s
                     else deliver_batch digest sv w c artifacts revision s)))"

section \<open>A claim, a worker, the service\<close>

definition process_claim ::
  "url_parser \<Rightarrow> digester \<Rightarrow> service \<Rightarrow> world \<Rightarrow> claim \<Rightarrow> run \<Rightarrow> (download_error + unit) \<times> run" where
  "process_claim parse digest sv w c s =
     (let r = request c in
      if claim_cancel_requested c then acknowledge w c s
      else (case authorize_request sv (w_identity w AtStart) r of
              Inl x \<Rightarrow> if x = DownloadDenied then fail_claim w c s else (Inl x, s)
            | Inr who \<Rightarrow>
                (case w_resolve w AtStart (actor_id r) (source_host r) who (network r) of
                   Inl x \<Rightarrow>
                     if x = ProfileDatabase then (Inl DownloadDatabase, s) else fail_claim w c s
                 | Inr credentials \<Rightarrow>
                     (case claim_executor (sv_executor sv) r of
                        Inl x \<Rightarrow> (Inl x, s)
                      | Inr ex \<Rightarrow>
                          (case obtain_artifacts parse digest sv w c credentials ex s of
                             (Finished result, s) \<Rightarrow> (result, s)
                           | (Obtained (artifacts, revision), s) \<Rightarrow>
                               deliver_artifacts digest sv w c artifacts revision s)))))"

text \<open>One turn of \<open>worker_loop\<close>, when the service is not shutting down: whether it found work.\<close>

definition worker_turn ::
  "url_parser \<Rightarrow> digester \<Rightarrow> service \<Rightarrow> world \<Rightarrow> string \<Rightarrow> run \<Rightarrow> (download_error + bool) \<times> run" where
  "worker_turn parse digest sv w worker s =
     (case store_call w (\<lambda>e. claim_for_bot_bounded parse e worker (dc_lease (sv_config sv))
             (sv_bot_id sv) (dc_claim (sv_config sv))) s of
        (Inl x, s) \<Rightarrow> (Inl (map_store x), s)
      | (Inr None, s) \<Rightarrow> (Inr False, s)
      | (Inr (Some c), s) \<Rightarrow>
          (case process_claim parse digest sv w c s of
             (Inl x, s) \<Rightarrow> (Inl x, s) | (Inr _, s) \<Rightarrow> (Inr True, s)))"

text \<open>\<open>supervise_workers\<close>: the ends of the workers in order, \<open>None\<close> for one that panicked; the
  answer is the first failure, and whether the others were told to stop.\<close>

fun supervise_workers ::
  "download_error option \<Rightarrow> (download_error + unit) option list \<Rightarrow> (download_error + unit) \<times> bool" where
  "supervise_workers failure [] =
     ((case failure of None \<Rightarrow> Inr () | Some x \<Rightarrow> Inl x), failure \<noteq> None)"
| "supervise_workers failure (result # rs) =
     (case result of
        Some (Inr _) \<Rightarrow> supervise_workers failure rs
      | Some (Inl x) \<Rightarrow>
          supervise_workers (case failure of None \<Rightarrow> Some x | Some y \<Rightarrow> Some y) rs
      | None \<Rightarrow>
          supervise_workers (case failure of None \<Rightarrow> Some DownloadTask | Some y \<Rightarrow> Some y) rs)"

end
