(* ===== verification/Download_Steps.thy ===== *)
theory Download_Steps
  imports Download_Delivery
begin

text \<open>
  Working on a claim as a sequence of calls. The locale \<open>claim_calls\<close> is the contract of a
  relation between runs that every single call to the store respects, \<open>claim_work\<close> of one that
  handing a unit to the transport respects too; its lemma is that the whole of \<open>process_claim\<close>
  then respects it. A property of all calls, or of all that is sent, is proved by interpreting
  them.
\<close>

section \<open>Calls\<close>

lemma snd_must [simp]: "snd (must o') = snd o'"
  by (cases o'; cases "fst o'") (auto simp: must_def)

lemma snd_unless_stale [simp]: "snd (unless_stale o') = snd o'"
  by (cases o'; cases "fst o'") (auto simp: unless_stale_def)

lemma snd_finished [simp]: "snd (finished o') = snd o'"
  by (cases o') (simp add: finished_def)

lemma snd_store_call:
  "snd (store_call w f s)
     = s\<lparr>r_db := snd (f (w_env w (r_calls s)) (w_others w (r_calls s) (r_db s))),
         r_calls := Suc (r_calls s)\<rparr>"
  by (simp add: store_call_def split: prod.splits)

lemma store_call_took_effect:
  "snd (store_call w (\<lambda>e d. took_effect f (h e d)) s) = snd (store_call w h s)"
  by (simp add: snd_store_call)

text \<open>The calls of a worker are those of the queue's \<open>run_worker\<close>.\<close>

lemma worker_calls:
  "snd (store_call w (\<lambda>e. fail_with_code e c retryable code) s)
     = snd (store_call w (\<lambda>e. run_worker digest e c (Fail retryable code)) s)"
  "snd (store_call w (\<lambda>e. acknowledge_cancel e c) s)
     = snd (store_call w (\<lambda>e. run_worker digest e c AcknowledgeCancel) s)"
  "snd (store_call w (\<lambda>e. update_progress e c percent stage) s)
     = snd (store_call w (\<lambda>e. run_worker digest e c (UpdateProgress percent stage)) s)"
  by (simp_all add: store_call_took_effect)

section \<open>What is built for the cache\<close>

lemma all_some_Some: "all_some xs = Some ys \<Longrightarrow> xs = map Some ys"
  by (induction xs arbitrary: ys) (auto split: option.splits)

lemma all_some_map2:
  assumes "all_some (map2 f xs ys) = Some zs" and "z \<in> set zs"
  obtains x y where "(x, y) \<in> set (zip xs ys)" "f x y = Some z"
proof -
  have "Some z \<in> set (map2 f xs ys)"
    using all_some_Some [OF assms(1)] assms(2) by simp
  then show thesis by (auto intro: that)
qed

lemma described_media_wf:
  assumes "described_media media metadata = Some ys" and "list_all media_wf media"
  shows "list_all media_wf ys"
proof -
  have "media_wf y" if y: "y \<in> set ys" for y
  proof -
    obtain x m where x: "(x, m) \<in> set (zip media metadata)" "with_metadata m x = Inr y"
      by (rule all_some_map2 [OF assms(1) [unfolded described_media_def] y])
        (auto split: sum.splits)
    then have "media_wf x" using assms(2) by (auto simp: list_all_iff dest: set_zip_leftD)
    with x(2) show ?thesis by (rule with_metadata_wf)
  qed
  then show ?thesis by (simp add: list_all_iff)
qed

lemma cached_item_wf: "cached_item m f = Some y \<Longrightarrow> media_wf y"
  by (auto simp: cached_item_def bind_eq_Some_conv split: sum.splits)
    (metis cached_media_new_wf sum.exhaust)

lemma built_media_wf:
  assumes "build_cached_media metadata file_ids = Some ys"
  shows "list_all media_wf ys"
proof -
  have all: "all_some (map2 cached_item metadata file_ids) = Some ys"
    using assms by (simp add: build_cached_media_def split: if_splits)
  have "media_wf y" if y: "y \<in> set ys" for y
    by (rule all_some_map2 [OF all y]) (rule cached_item_wf)
  then show ?thesis by (simp add: list_all_iff)
qed

lemma published_media_wf:
  "media_to_publish sv w c b artifacts ls = Some media \<Longrightarrow> list_all media_wf media"
  by (auto simp: media_to_publish_def Let_def bind_eq_Some_conv
      intro: described_media_wf built_media_wf split: if_splits)

section \<open>What is handed to the transport\<close>

text \<open>At the moment of its unit, the request was authorized, its credentials were still valid and
  the content policy did not block it.\<close>

definition authorized_send :: "service \<Rightarrow> world \<Rightarrow> claim \<Rightarrow> send \<Rightarrow> bool" where
  "authorized_send sv w c x \<longleftrightarrow>
     (let r = request c; here = BeforeUnit (sd_ordinal x) in
      \<not> w_shutdown w here
      \<and> (\<exists>who credentials.
           (if is_formats r then authorize_request sv (w_identity w here) r
            else authorize_target sv (w_identity w here) (actor_id r) (Some (sd_target x))) = Inr who
           \<and> w_resolve w here (actor_id r) (source_host r) who (network r) = Inr credentials)
      \<and> (if is_formats r then \<not> sd_spoiler x
         else \<exists>m. w_policy w (sd_ordinal x) r (chat_id (sd_target x)) m
                = Some (Decision False (sd_spoiler x))))"

locale claim_calls =
  fixes digest :: digester and sv :: service and w :: world and c :: claim
    and rel :: "run \<Rightarrow> run \<Rightarrow> bool"
  assumes rel_refl: "rel s s"
    and rel_trans: "rel s t \<Longrightarrow> rel t u \<Longrightarrow> rel s u"
    and rel_worker: "rel s (snd (store_call w (\<lambda>e. run_worker digest e c wc) s))"
    and rel_invalidate:
      "rel s (snd (store_call w (\<lambda>e. invalidate_media_cache digest e (request c) old) s))"
    and rel_publish: "list_all media_wf media \<Longrightarrow>
      rel s (snd (store_call w (\<lambda>e. publish_media_cache digest e c media ttl) s))"
    and rel_read: "rel s (s\<lparr>r_db := w_others w (r_calls s) (r_db s), r_calls := Suc (r_calls s)\<rparr>)"
    and rel_diagnostic: "rel s (s\<lparr>r_diagnostics := ds\<rparr>)"
begin

lemma rel_after: "rel s (snd o') \<Longrightarrow> o' = (x, t) \<Longrightarrow> rel s t"
  by simp

lemma rel_fail_code: "rel s (snd (store_call w (\<lambda>e. fail_with_code e c retryable code) s))"
  by (simp only: worker_calls [where digest = digest] rel_worker)

lemma rel_fail: "rel s (snd (store_call w (\<lambda>e. fail e c retryable) s))"
  unfolding fail_def by (rule rel_fail_code)

lemma rel_ack: "rel s (snd (store_call w (\<lambda>e. acknowledge_cancel e c) s))"
  by (simp only: worker_calls [where digest = digest] rel_worker)

lemma rel_progress: "rel s (snd (store_call w (\<lambda>e. update_progress e c percent stage) s))"
  by (simp only: worker_calls [where digest = digest] rel_worker)

lemma rel_batch: "rel s (snd (store_call w (\<lambda>e. begin_delivery_batch e c n) s))"
  using rel_worker [of s "BeginBatch n"] by simp

lemma rel_unit: "rel s (snd (store_call w (\<lambda>e. begin_delivery_unit e c k n) s))"
  using rel_worker [of s "BeginUnit k n"] by simp

lemma rel_complete: "rel s (snd (store_call w (\<lambda>e. complete_delivery_unit e c k ids) s))"
  using rel_worker [of s "CompleteUnit k ids"] by simp

lemma rel_reject: "rel s (snd (store_call w (\<lambda>e. reject_delivery_unit e c k wait) s))"
  using rel_worker [of s "RejectUnit k wait"] by simp

lemma rel_unknown: "rel s (snd (store_call w (\<lambda>e. unknown_delivery_unit e c k) s))"
  using rel_worker [of s "UnknownUnit k"] by simp

lemma rel_stop: "rel s (snd (store_call w (\<lambda>e. stop_delivery_batch e c reason) s))"
  using rel_worker [of s "StopBatch reason"] by simp

lemma rel_requeue: "rel s (snd (store_call w (\<lambda>e. requeue_invalid_cache digest e c k old) s))"
  using rel_worker [of s "RequeueInvalidCache k old"] by simp

lemma rel_small:
  "rel s (snd (fail_claim w c s))" "rel s (snd (release_claim w c s))"
  "rel s (snd (acknowledge w c s))" "rel s (snd (stop_delivery w c reason s))"
  by (simp_all add: fail_claim_def release_claim_def acknowledge_def stop_delivery_def rel_fail
      rel_ack rel_stop)

lemma rel_heartbeat: "rel s (snd (finish_heartbeat_event w c event s))"
  by (auto simp: finish_heartbeat_event_def rel_refl rel_small split: option.splits
      heartbeat_event.splits)

lemma rel_executor_error: "rel s (snd (finish_executor_error w c err stopping s))"
proof -
  let ?a = "store_call w (\<lambda>e. acknowledge_cancel e c) s"
  obtain r t where a: "?a = (r, t)" by (cases ?a) simp
  have t: "rel s t" by (rule rel_after [OF rel_ack a])
  then have "rel s (snd (release_claim w c t))" using rel_small(2) rel_trans by blast
  with a t show ?thesis
    by (cases r) (simp_all add: finish_executor_error_def rel_small rel_fail_code)
qed

lemma rel_run_execution: "rel s (snd (run_execution w c result progress_open evs s))"
proof (induction evs arbitrary: progress_open s)
  case Nil
  then show ?case by (cases result) (simp_all add: rel_refl rel_executor_error)
next
  case (Cons event evs)
  show ?case
  proof (cases event)
    case (ExecutionProgress p)
    show ?thesis
    proof (cases "progress_open \<and> p \<noteq> None")
      case True
      then obtain x where p: "p = Some x" and po: progress_open by auto
      let ?call = "store_call w (\<lambda>e. update_progress e c (percent_u8 (wp_percent x))
        (store_stage (wp_stage x))) s"
      obtain r t where call: "?call = (r, t)" by (cases ?call) simp
      have t: "rel s t" by (rule rel_after [OF rel_progress call])
      show ?thesis
        using call t rel_trans [OF t Cons.IH] by (cases r) (simp_all add: ExecutionProgress p po)
    next
      case False
      then show ?thesis
        using Cons.IH by (cases progress_open; cases p) (simp_all add: ExecutionProgress)
    qed
  qed (simp_all add: rel_heartbeat rel_small Cons.IH)
qed

lemma rel_execute_claim: "rel s (snd (execute_claim parse w c credentials ex s))"
proof (cases "worker_request parse c credentials")
  case None
  then show ?thesis by (simp add: execute_claim_def rel_small)
next
  case (Some wr)
  obtain evs result where ex: "w_execution w ex wr = (evs, result)" by (cases "w_execution w ex wr") simp
  obtain p t where run: "run_execution w c result True evs s = (p, t)"
    by (cases "run_execution w c result True evs s") simp
  have "rel s t" by (rule rel_after [OF rel_run_execution run])
  then show ?thesis using Some ex run by (cases p) (simp_all add: execute_claim_def)
qed

lemma rel_obtain: "rel s (snd (obtain_artifacts parse digest sv w c credentials ex s))"
proof -
  let ?call = "store_call w (\<lambda>e d. (lookup_media_cache digest e (request c) d, d)) s"
  obtain r t where call: "?call = (r, t)" by (cases ?call) simp
  have t: "rel s t"
    by (rule rel_after [OF _ call]) (simp add: snd_store_call rel_read)
  have u: "rel s (snd (execute_claim parse w c credentials ex t))"
    by (rule rel_trans [OF t rel_execute_claim])
  show ?thesis
    using call t u
    by (auto simp: obtain_artifacts_def Let_def rel_execute_claim split: sum.splits option.splits)
qed

text \<open>The units.\<close>

lemma rel_stop_and_break: "rel s (snd (stop_and_break w c reason ls s))"
proof -
  obtain r t where stop: "stop_delivery w c reason s = (r, t)" by (cases "stop_delivery w c reason s") simp
  have "rel s t" by (rule rel_after [OF rel_small(4) stop])
  then show ?thesis using stop by (cases r) (simp_all add: stop_and_break_def)
qed

definition ended :: "(store_error + bool) \<times> run
    \<Rightarrow> (store_error + bool \<times> bool \<times> delivered_media list option) option \<times> run" where
  "ended o' = (case o' of (Inl x, s) \<Rightarrow> (Some (Inl x), s)
                     | (Inr accepted, s) \<Rightarrow> (Some (Inr (accepted, True, None)), s))"

lemma snd_ended [simp]: "snd (ended o') = snd o'"
  by (cases o'; cases "fst o'") (auto simp: ended_def)

lemma rel_settle: "rel s (snd (settle_unit digest w c k revision outcome failed s))"
proof -
  have inv: "rel s (snd (ended (store_call w (\<lambda>e. reject_delivery_unit e c (of_nat k) None)
      (snd (store_call w (\<lambda>e. invalidate_media_cache digest e (request c) old) s)))))" for old s
    using rel_trans [OF rel_invalidate rel_reject] by simp
  let ?req = "\<lambda>old. store_call w (\<lambda>e. requeue_invalid_cache digest e c (of_nat k) old) s"
  have req: "rel s (snd (case ?req old of (Inr True, s) \<Rightarrow> (None, s)
        | (Inr False, s) \<Rightarrow> ended (store_call w (\<lambda>e. reject_delivery_unit e c (of_nat k) None)
            (snd (store_call w (\<lambda>e. invalidate_media_cache digest e (request c) old) s)))
        | (Inl x, s) \<Rightarrow> (Some (Inl x), s)))" for old
  proof -
    obtain r t where call: "?req old = (r, t)" by (cases "?req old") simp
    have t: "rel s t" by (rule rel_after [OF rel_requeue call])
    show ?thesis using call t rel_trans [OF t inv] by (auto split: sum.splits bool.splits)
  qed
  let ?done = "\<lambda>ids. store_call w (\<lambda>e. complete_delivery_unit e c (of_nat k) ids) s"
  have "rel s (snd (case ?done ids of (Inl x, s) \<Rightarrow> (Some (Inl x), s)
      | (Inr accepted, s) \<Rightarrow> (Some (Inr (accepted, False, rs)), s)))" for ids and rs :: "delivered_media list option"
  proof -
    obtain r t where call: "?done ids = (r, t)" by (cases "?done ids") simp
    have t: "rel s t" by (rule rel_after [OF rel_complete call])
    then show ?thesis using call by (cases r) simp_all
  qed
  then show ?thesis
    using req inv
    unfolding settle_unit_def Let_def ended_def [symmetric]
    by (auto simp: rel_reject rel_unknown split: delivery_outcome.splits option.splits)
qed

lemma rel_after_unit:
  assumes "rel s (snd settled)" shows "rel s (snd (after_unit w c b k ls settled))"
proof -
  have "rel s (snd (stop_and_break w c reason ls' (snd settled)))" for reason ls'
    by (rule rel_trans [OF assms rel_stop_and_break])
  then show ?thesis
    using assms by (cases settled) (auto simp: after_unit_def Let_def split: option.splits sum.splits)
qed

lemma rel_finish_delivery: "rel s (snd (finish_delivery digest sv w c b artifacts ls s))"
proof -
  define t where "t = (case media_to_publish sv w c b artifacts (end_of_loop (w_beat w AtEnd) ls) of
      None \<Rightarrow> s
    | Some media \<Rightarrow>
        snd (store_call w (\<lambda>e. publish_media_cache digest e c media (dc_cache_ttl (sv_config sv))) s))"
  have t: "rel s t"
    by (auto simp: t_def rel_refl intro: rel_publish published_media_wf split: option.splits)
  then have "rel s (t\<lparr>r_diagnostics := ds\<rparr>)" for ds
    using rel_diagnostic rel_trans by blast
  with t show ?thesis
    unfolding finish_delivery_def Let_def t_def [symmetric]
    by (auto split: option.splits sum.splits)
qed

end

locale claim_work = claim_calls digest sv w c rel
  for digest :: digester and sv :: service and w :: world and c :: claim
    and rel :: "run \<Rightarrow> run \<Rightarrow> bool" +
  assumes rel_send: "store_call w (\<lambda>e. begin_delivery_unit e c (of_nat (sd_ordinal x))
        (of_nat (length (sd_indices x)))) s = (Inr True, t)
      \<Longrightarrow> sd_db x = r_db t \<Longrightarrow> authorized_send sv w c x
      \<Longrightarrow> rel s (t\<lparr>r_sends := r_sends t @ [x]\<rparr>)"
begin

lemma rel_send_unit:
  assumes "\<And>x. sd_ordinal x = k \<Longrightarrow> sd_target x = b_target b \<Longrightarrow> sd_spoiler x = spoils
    \<Longrightarrow> authorized_send sv w c x"
  shows "rel s (snd (send_unit digest w c b who spoils k indices ls s))"
proof -
  let ?call = "store_call w (\<lambda>e. begin_delivery_unit e c (of_nat k) (of_nat (length indices))) s"
  obtain r t where call: "?call = (r, t)" by (cases ?call) simp
  have t: "rel s t" by (rule rel_after [OF rel_unit call])
  show ?thesis
  proof (cases "r = Inr True")
    case True
    define x where "x = \<lparr>sd_ordinal = k, sd_indices = indices,
      sd_media = fst (take_media indices (ls_artifacts ls)), sd_target = b_target b,
      sd_as_file = send_as_file (params (request c)), sd_spoiler = spoils,
      sd_presentation = presentation_of w c (b_target b) who k, sd_db = r_db t\<rparr>"
    have "rel s (t\<lparr>r_sends := r_sends t @ [x]\<rparr>)"
      using call True assms by (intro rel_send) (simp_all add: x_def)
    then have "rel s (snd (settle_unit digest w c k rev' o' f' (t\<lparr>r_sends := r_sends t @ [x]\<rparr>)))"
      for rev' o' f'
      using rel_settle rel_trans by blast
    then show ?thesis
      using call True
      by (auto simp: send_unit_def Let_def x_def intro!: rel_after_unit split: prod.splits)
  next
    case False
    then show ?thesis using call t by (cases r) (auto simp: send_unit_def)
  qed
qed

lemma rel_deliver_unit: "rel s (snd (deliver_unit digest sv w c b k indices ls s))"
proof -
  let ?here = "BeforeUnit k" and ?r = "request c"
  let ?auth = "if is_formats ?r then authorize_request sv (w_identity w ?here) ?r
    else authorize_target sv (w_identity w ?here) (actor_id ?r) (Some (b_target b))"
  have "rel s (snd (send_unit digest w c b who (spoiler d) k indices ls s))"
    if "\<not> w_shutdown w ?here" "?auth = Inr who" "unit_policy w c b k = Some d" "\<not> blocked d"
      "w_resolve w ?here (actor_id ?r) (source_host ?r) who (network ?r) = Inr cr" for who d cr
    using that
    by (intro rel_send_unit)
      (cases d; auto simp: authorized_send_def unit_policy_def split: if_splits option.splits)
  then show ?thesis
    unfolding deliver_unit_def Let_def
    by (auto simp: rel_refl rel_stop_and_break split: sum.splits download_error.splits
        profile_error.splits option.splits)
qed

lemma rel_deliver_units: "rel s (snd (deliver_units digest sv w c b k us ls s))"
proof (induction us arbitrary: k ls s)
  case (Cons indices us)
  obtain f t where u: "deliver_unit digest sv w c b k indices ls s = (f, t)"
    by (cases "deliver_unit digest sv w c b k indices ls s") simp
  have t: "rel s t" by (rule rel_after [OF rel_deliver_unit u])
  show ?case using u t rel_trans [OF t Cons.IH] by (cases f) simp_all
qed (simp add: rel_refl)

lemma rel_deliver_batch: "rel s (snd (deliver_batch digest sv w c artifacts revision s))"
proof -
  let ?call = "store_call w (\<lambda>e. begin_delivery_batch e c (of_nat (length artifacts))) s"
  obtain r t where call: "?call = (r, t)" by (cases ?call) simp
  have t: "rel s t" by (rule rel_after [OF rel_batch call])
  let ?go = "\<lambda>b ls. case deliver_units digest sv w c b 0
        (plan_delivery_units (send_as_file (params (request c))) artifacts) ls t of
      (Return r, s) \<Rightarrow> (r, s)
    | (Break ls, s) \<Rightarrow> finish_delivery digest sv w c b artifacts ls s
    | (Continue ls, s) \<Rightarrow> finish_delivery digest sv w c b artifacts ls s"
  have "rel s (snd (?go b ls))" for b ls
  proof -
    let ?d = "deliver_units digest sv w c b 0
        (plan_delivery_units (send_as_file (params (request c))) artifacts) ls t"
    obtain f u where d: "?d = (f, u)" by (cases ?d) simp
    have u: "rel s u" by (rule rel_trans [OF t rel_after [OF rel_deliver_units d]])
    show ?thesis using d u rel_trans [OF u rel_finish_delivery] by (cases f) simp_all
  qed
  then show ?thesis
    using call t
    unfolding deliver_batch_def Let_def
    by (auto split: sum.splits bool.splits option.splits)
qed

lemma rel_deliver_artifacts: "rel s (snd (deliver_artifacts digest sv w c artifacts revision s))"
  by (auto simp: deliver_artifacts_def rel_small rel_refl rel_heartbeat rel_deliver_batch
      split: sum.splits polled.splits)

lemma rel_process: "rel s (snd (process_claim parse digest sv w c s))"
proof -
  let ?o = "\<lambda>cr ex. obtain_artifacts parse digest sv w c cr ex s"
  have "rel s (snd (case ?o cr ex of (Finished r, s) \<Rightarrow> (r, s)
    | (Obtained (artifacts, revision), s) \<Rightarrow> deliver_artifacts digest sv w c artifacts revision s))"
    for cr ex
  proof -
    obtain p t where o: "?o cr ex = (p, t)" by (cases "?o cr ex") simp
    have t: "rel s t" by (rule rel_after [OF rel_obtain o])
    show ?thesis
      using o t rel_trans [OF t rel_deliver_artifacts] by (cases p) (auto split: prod.splits)
  qed
  then show ?thesis
    unfolding process_claim_def Let_def
    by (auto simp: rel_small rel_refl split: sum.splits)
qed

end

end
