(* ===== verification/Download_Order.thy ===== *)
theory Download_Order
  imports Download_Steps
begin

text \<open>
  What goes to the transport and in which order: the plan of the delivery units cuts the
  artifacts into runs of one category with at most ten artifacts each, and working on a claim
  hands over a prefix of the planned units, each once, after the batch was begun.
\<close>

section \<open>The plan\<close>

abbreviation unit_grows :: "media_category list \<Rightarrow> nat \<Rightarrow> nat \<Rightarrow> bool" where
  "unit_grows cs start k \<equiv> k < length cs \<and> k - start < 10 \<and> cs ! k = cs ! start"

lemma unit_end_step: "unit_grows cs start k \<Longrightarrow> unit_end cs start k = unit_end cs start (k + 1)"
  by (rule trans [OF unit_end.simps]) (rule if_P)

lemma unit_end_stop: "\<not> unit_grows cs start k \<Longrightarrow> unit_end cs start k = k"
  by (rule trans [OF unit_end.simps]) (rule if_not_P)

lemma unit_end_bounds:
  "k \<le> length cs \<Longrightarrow> k \<le> start + 10 \<Longrightarrow> unit_end cs start k \<le> length cs \<and> unit_end cs start k \<le> start + 10"
proof (induction cs start k rule: unit_end.induct)
  case (1 cs start k)
  show ?case
  proof (cases "unit_grows cs start k")
    case True
    moreover from True have "k + 1 \<le> length cs" "k + 1 \<le> start + 10" by linarith+
    ultimately show ?thesis using 1(1) unit_end_step by metis
  next
    case False
    from unit_end_stop [OF False] 1(2,3) show ?thesis by metis
  qed
qed

lemma unit_end_same: "k \<le> i \<Longrightarrow> i < unit_end cs start k \<Longrightarrow> cs ! i = cs ! start"
proof (induction cs start k arbitrary: i rule: unit_end.induct)
  case (1 cs start k)
  show ?case
  proof (cases "unit_grows cs start k")
    case True
    with 1(1) [OF True, of i] 1(2,3) unit_end_step [OF True] show ?thesis
      by (cases "i = k") simp_all
  next
    case False
    from unit_end_stop [OF False] 1(2,3) show ?thesis by linarith
  qed
qed

lemma unit_end_stops:
  "unit_end cs start k < length cs \<Longrightarrow> unit_end cs start k - start < 10
    \<Longrightarrow> cs ! unit_end cs start k \<noteq> cs ! start"
proof (induction cs start k rule: unit_end.induct)
  case (1 cs start k)
  show ?case
  proof (cases "unit_grows cs start k")
    case True
    from 1(1) [OF True] 1(2,3) unit_end_step [OF True] show ?thesis by simp
  next
    case False
    from unit_end_stop [OF False] 1(2,3) False show ?thesis by metis
  qed
qed

text \<open>A planned unit: some consecutive artifacts of one category, at most ten, and as many as
  there are.\<close>

definition good_unit :: "media_category list \<Rightarrow> nat list \<Rightarrow> bool" where
  "good_unit cs u \<longleftrightarrow>
     (\<exists>i j. u = [i ..< j] \<and> i < j \<and> j \<le> length cs \<and> j \<le> i + 10
        \<and> (\<forall>m \<in> set u. cs ! m = cs ! i) \<and> (j < length cs \<and> j < i + 10 \<longrightarrow> cs ! j \<noteq> cs ! i))"

lemma plan_from_unit:
  assumes "start < length cs"
  obtains k where "plan_from cs start = [start ..< k] # plan_from cs k"
    "start < k" "k \<le> length cs" "good_unit cs [start ..< k]"
proof -
  let ?k = "unit_end cs start (start + 1)"
  have k: "start < ?k" using unit_end_ge [of "start + 1" cs start] by simp
  have b: "?k \<le> length cs \<and> ?k \<le> start + 10" using assms by (intro unit_end_bounds) simp_all
  have same: "cs ! i = cs ! start" if "i \<in> set [start ..< ?k]" for i
    using that unit_end_same [of "start + 1" i cs start] by (cases "i = start") simp_all
  have stop: "cs ! ?k \<noteq> cs ! start" if "?k < length cs" "?k < start + 10"
    using unit_end_stops [of cs start "start + 1"] that k by simp
  have "good_unit cs [start ..< ?k]"
    unfolding good_unit_def using k b same stop
    by (intro exI [of _ start] exI [of _ ?k] conjI impI ballI refl) blast+
  moreover have "plan_from cs start = [start ..< ?k] # plan_from cs ?k"
    using assms by (subst plan_from.simps) (simp add: Let_def)
  ultimately show thesis using that k b by blast
qed

lemma plan_from_spec:
  "start \<le> length cs \<Longrightarrow>
    concat (plan_from cs start) = [start ..< length cs] \<and> list_all (good_unit cs) (plan_from cs start)"
proof (induction "length cs - start" arbitrary: start rule: less_induct)
  case less
  show ?case
  proof (cases "start < length cs")
    case True
    then obtain k where k: "plan_from cs start = [start ..< k] # plan_from cs k"
      "start < k" "k \<le> length cs" "good_unit cs [start ..< k]"
      by (rule plan_from_unit)
    have "concat (plan_from cs k) = [k ..< length cs] \<and> list_all (good_unit cs) (plan_from cs k)"
      using k(2,3) True by (intro less.hyps) simp_all
    moreover have "[start ..< k] @ [k ..< length cs] = [start ..< length cs]"
      using k(2,3) by (metis less_imp_le upt_add_eq_append le_add_diff_inverse)
    ultimately show ?thesis using k by simp
  next
    case False
    then show ?thesis using less.prems by (subst (1 2) plan_from.simps) simp
  qed
qed

text \<open>The plan of the delivery units covers the artifacts in their order, each once, in units of
  one to ten artifacts of one category, none of which could take the artifact after it.\<close>

theorem plan_categories_spec:
  "concat (plan_categories cs) = [0 ..< length cs] \<and> list_all (good_unit cs) (plan_categories cs)"
  unfolding plan_categories_def by (rule plan_from_spec) simp

lemma good_unit_bounds:
  assumes "good_unit cs u"
  shows "u \<noteq> [] \<and> length u \<le> 10 \<and> distinct u \<and> (\<forall>i \<in> set u. i < length cs)"
proof -
  obtain i j where "u = [i ..< j]" "i < j" "j \<le> length cs" "j \<le> i + 10"
    using assms unfolding good_unit_def by blast
  then show ?thesis by auto
qed

lemma units_le_sum: "list_all (\<lambda>u. u \<noteq> []) us \<Longrightarrow> length us \<le> length (concat us)"
proof (induction us)
  case (Cons u us)
  then show ?case by (cases u) auto
qed simp

lemma plan_length: "length (plan_categories cs) \<le> length cs"
proof -
  have "list_all (good_unit cs) (plan_categories cs)" using plan_categories_spec by blast
  then have "list_all (\<lambda>u. u \<noteq> []) (plan_categories cs)"
    by (rule list.pred_mono_strong) (use good_unit_bounds in blast)
  from units_le_sum [OF this] plan_categories_spec [of cs] show ?thesis by simp
qed

section \<open>Taking the artifacts of a unit\<close>

lemma take_media_spec:
  assumes "distinct is" and "\<And>i. i \<in> set is \<Longrightarrow> i < length artifacts \<and> artifacts ! i \<noteq> None"
  shows "fst (take_media is artifacts) = map (\<lambda>i. the (artifacts ! i)) is"
    and "snd (take_media is artifacts) = map (\<lambda>i. if i \<in> set is then None else artifacts ! i)
      [0 ..< length artifacts]"
  using assms
proof (induction "is" arbitrary: artifacts)
  case Nil
  { case 1 then show ?case by simp }
  { case 2 then show ?case by (simp add: map_nth) }
next
  case (Cons i "is")
  { case 1
    have "fst (take_media is (artifacts[i := None])) = map (\<lambda>j. the (artifacts[i := None] ! j)) is"
      using 1 by (intro Cons.IH) (auto simp: nth_list_update)
    also have "\<dots> = map (\<lambda>j. the (artifacts ! j)) is"
      using 1(1) by (intro map_cong refl) (metis distinct.simps(2) nth_list_update_neq)+
    finally show ?case using 1(2) [of i] by (auto simp: Let_def case_prod_beta) }
  { case 2
    have "j < length (artifacts[i := None]) \<and> artifacts[i := None] ! j \<noteq> None" if "j \<in> set is" for j
      using 2 that by (cases "j = i") auto
    with 2 have "snd (take_media is (artifacts[i := None])) = map (\<lambda>j. if j \<in> set is then None
        else artifacts[i := None] ! j) [0 ..< length (artifacts[i := None])]"
      by (intro Cons.IH(2)) simp_all
    also have "\<dots> = map (\<lambda>j. if j \<in> set (i # is) then None else artifacts ! j)
        [0 ..< length artifacts]"
      by (simp add: nth_list_update)
    finally show ?case by (simp add: Let_def case_prod_beta) }
qed

section \<open>What a run sends\<close>

interpretation quiet: claim_calls digest sv w c "\<lambda>s t. r_sends t = r_sends s" for digest sv w c
  by unfold_locales (simp_all add: snd_store_call)

lemma deliver_unit_sends:
  assumes "deliver_unit digest sv w c b k indices ls s = (flow, t)"
  shows "r_sends t = r_sends s \<and> (\<forall>ls'. flow \<noteq> Continue ls')
    \<or> (\<exists>x. r_sends t = r_sends s @ [x] \<and> sd_ordinal x = k \<and> sd_indices x = indices
         \<and> sd_media x = fst (take_media indices (ls_artifacts ls))
         \<and> (\<forall>ls'. flow = Continue ls' \<longrightarrow> ls_artifacts ls' = snd (take_media indices (ls_artifacts ls))))"
proof -
  let ?goal = "\<lambda>flow t. r_sends t = r_sends s \<and> (\<forall>ls'. flow \<noteq> Continue ls')
    \<or> (\<exists>x. r_sends t = r_sends s @ [x] \<and> sd_ordinal x = k \<and> sd_indices x = indices
         \<and> sd_media x = fst (take_media indices (ls_artifacts ls))
         \<and> (\<forall>ls'. flow = Continue ls' \<longrightarrow> ls_artifacts ls' = snd (take_media indices (ls_artifacts ls))))"
  have no_continue: "fst (stop_and_break w c reason l u) \<noteq> Continue ls'" for reason l u ls'
    by (auto simp: stop_and_break_def split: prod.splits sum.splits)
  have stop: "?goal (fst (stop_and_break w c reason ls s)) (snd (stop_and_break w c reason ls s))" for reason
    using quiet.rel_stop_and_break no_continue by blast
  have after: "ls_artifacts ls' = ls_artifacts l" if "fst (after_unit w c b k l settled) = Continue ls'"
    for l ls' settled
    using that no_continue
    by (auto simp: after_unit_def Let_def split: prod.splits option.splits sum.splits if_splits)
  have send: "?goal (fst (send_unit digest w c b who spoils k indices ls s))
      (snd (send_unit digest w c b who spoils k indices ls s))" for who spoils
  proof -
    let ?call = "store_call w (\<lambda>e. begin_delivery_unit e c (of_nat k) (of_nat (length indices))) s"
    obtain r u where call: "?call = (r, u)" by (cases ?call) simp
    have u: "r_sends u = r_sends s"
      using quiet.rel_after [OF quiet.rel_unit call] .
    show ?thesis
    proof (cases "r = Inr True")
      case True
      define x where "x = \<lparr>sd_ordinal = k, sd_indices = indices,
        sd_media = fst (take_media indices (ls_artifacts ls)), sd_target = b_target b,
        sd_as_file = send_as_file (params (request c)), sd_spoiler = spoils,
        sd_presentation = presentation_of w c (b_target b) who k, sd_db = r_db u\<rparr>"
      obtain l settled where l: "ls_artifacts l = snd (take_media indices (ls_artifacts ls))"
        and sent: "r_sends (snd settled) = r_sends u @ [x]"
        and eq: "send_unit digest w c b who spoils k indices ls s = after_unit w c b k l settled"
        using call True
        by (auto simp: send_unit_def Let_def case_prod_beta x_def quiet.rel_settle
            intro!: that)
      have "r_sends (snd (after_unit w c b k l settled)) = r_sends s @ [x]"
        using quiet.rel_after_unit [of settled "snd settled"] sent u by simp
      then show ?thesis
        using eq l after by (auto simp: x_def intro!: exI [of _ x])
    next
      case False
      then show ?thesis using call u by (cases r) (auto simp: send_unit_def)
    qed
  qed
  have "?goal (fst (deliver_unit digest sv w c b k indices ls s))
      (snd (deliver_unit digest sv w c b k indices ls s))"
    using stop send unfolding deliver_unit_def Let_def
    by (auto split: sum.splits option.splits download_error.splits profile_error.splits)
  with assms show ?thesis by simp
qed

lemma taken_unit:
  assumes "distinct u" and "\<And>i. i \<in> set u \<Longrightarrow> i < length slots \<and> slots ! i = Some (artifacts ! i)"
  shows "fst (take_media u slots) = map (nth artifacts) u"
    and "length (snd (take_media u slots)) = length slots"
    and "i < length slots \<Longrightarrow> i \<notin> set u \<Longrightarrow> snd (take_media u slots) ! i = slots ! i"
proof -
  have h: "\<And>i. i \<in> set u \<Longrightarrow> i < length slots \<and> slots ! i \<noteq> None" using assms(2) by simp
  note spec = take_media_spec [OF assms(1) h]
  show "fst (take_media u slots) = map (nth artifacts) u"
    using spec(1) assms(2) by (simp cong: map_cong)
  show "length (snd (take_media u slots)) = length slots" using spec(2) by simp
  show "snd (take_media u slots) ! i = slots ! i" if "i < length slots" "i \<notin> set u"
    using spec(2) that by simp
qed

text \<open>The log of a batch: the first \<open>n\<close> units of the plan, in their order, each with the artifacts
  it names.\<close>

definition sends_prefix ::
  "delivery_artifact list \<Rightarrow> nat list list \<Rightarrow> nat \<Rightarrow> nat \<Rightarrow> send list \<Rightarrow> bool" where
  "sends_prefix artifacts us k n xs \<longleftrightarrow>
     n \<le> length us \<and> map sd_ordinal xs = [k ..< k + n] \<and> map sd_indices xs = take n us
     \<and> (\<forall>x \<in> set xs. sd_media x = map (nth artifacts) (sd_indices x))"

lemma sends_prefix_none: "sends_prefix artifacts us k 0 []"
  by (simp add: sends_prefix_def)

lemma deliver_units_sends:
  assumes "deliver_units digest sv w c b k us ls s = (flow, t)"
    and "distinct (concat us)" and "length (ls_artifacts ls) = length artifacts"
    and "\<And>i. i \<in> set (concat us) \<Longrightarrow> i < length artifacts \<and> ls_artifacts ls ! i = Some (artifacts ! i)"
  shows "\<exists>n xs. r_sends t = r_sends s @ xs \<and> sends_prefix artifacts us k n xs"
  using assms
proof (induction us arbitrary: k ls s)
  case Nil
  then show ?case by (auto simp: sends_prefix_def)
next
  case (Cons indices us)
  obtain f u where unit: "deliver_unit digest sv w c b k indices ls s = (f, u)"
    by (cases "deliver_unit digest sv w c b k indices ls s") simp
  have taken: "distinct indices"
    "\<And>i. i \<in> set indices \<Longrightarrow> i < length (ls_artifacts ls) \<and> ls_artifacts ls ! i = Some (artifacts ! i)"
    using Cons.prems(2-4) by auto
  note media = taken_unit [OF taken]
  from deliver_unit_sends [OF unit] show ?case
  proof (elim disjE exE conjE)
    assume "r_sends u = r_sends s" "\<forall>ls'. f \<noteq> Continue ls'"
    then show ?thesis
      using Cons.prems(1) unit sends_prefix_none
      by (intro exI [of _ 0] exI [of _ "[]"]) (cases f; auto)
  next
    fix x
    assume x: "r_sends u = r_sends s @ [x]" "sd_ordinal x = k" "sd_indices x = indices"
      "sd_media x = fst (take_media indices (ls_artifacts ls))"
      and next_ls: "\<forall>ls'. f = Continue ls' \<longrightarrow> ls_artifacts ls' = snd (take_media indices (ls_artifacts ls))"
    show ?thesis
    proof (cases f)
      case (Continue ls')
      with unit Cons.prems(1) have rest: "deliver_units digest sv w c b (Suc k) us ls' u = (flow, t)"
        by simp
      have ls': "ls_artifacts ls' = snd (take_media indices (ls_artifacts ls))"
        using next_ls Continue by simp
      have "\<exists>n xs. r_sends t = r_sends u @ xs \<and> sends_prefix artifacts us (Suc k) n xs"
      proof (rule Cons.IH [OF rest])
        show "distinct (concat us)" using Cons.prems(2) by simp
        show "length (ls_artifacts ls') = length artifacts" using ls' media(2) Cons.prems(3) by simp
        show "i < length artifacts \<and> ls_artifacts ls' ! i = Some (artifacts ! i)"
          if "i \<in> set (concat us)" for i
        proof -
          have "i \<notin> set indices" using that Cons.prems(2) by auto
          moreover have "i < length artifacts \<and> ls_artifacts ls ! i = Some (artifacts ! i)"
            using that Cons.prems(4) by simp
          ultimately show ?thesis using ls' media(3) Cons.prems(3) by simp
        qed
      qed
      then obtain n xs where xs: "r_sends t = r_sends u @ xs" "sends_prefix artifacts us (Suc k) n xs"
        by blast
      have "sends_prefix artifacts (indices # us) k (Suc n) (x # xs)"
        using xs(2) x media(1) by (simp add: sends_prefix_def upt_rec [of k])
      with xs(1) x(1) show ?thesis by (intro exI [of _ "Suc n"] exI [of _ "x # xs"]) simp
    next
      case (Return r)
      with unit Cons.prems(1) have "t = u" by simp
      with x media(1) show ?thesis
        by (intro exI [of _ "Suc 0"] exI [of _ "[x]"]) (simp add: sends_prefix_def)
    next
      case (Break r)
      with unit Cons.prems(1) have "t = u" by simp
      with x media(1) show ?thesis
        by (intro exI [of _ "Suc 0"] exI [of _ "[x]"]) (simp add: sends_prefix_def)
    qed
  qed
qed

lemma plan_ready:
  "distinct (concat (plan_delivery_units as_file artifacts))
   \<and> (\<forall>i \<in> set (concat (plan_delivery_units as_file artifacts)). i < length artifacts)"
  using plan_categories_spec [of "map (artifact_category as_file) artifacts"]
  by (simp add: plan_delivery_units_def)

lemma deliver_batch_sends:
  "\<exists>n xs. r_sends (snd (deliver_batch digest sv w c artifacts revision s)) = r_sends s @ xs
     \<and> sends_prefix artifacts (plan_delivery_units (send_as_file (params (request c))) artifacts) 0 n xs"
proof -
  let ?plan = "plan_delivery_units (send_as_file (params (request c))) artifacts"
  let ?call = "store_call w (\<lambda>e. begin_delivery_batch e c (of_nat (length artifacts))) s"
  obtain r t where call: "?call = (r, t)" by (cases ?call) simp
  have t: "r_sends t = r_sends s" by (rule quiet.rel_after [OF quiet.rel_batch call])
  have go: "\<exists>n xs. r_sends (snd (case deliver_units digest sv w c b 0 ?plan
        \<lparr>ls_artifacts = map Some artifacts, ls_cancelled = False, ls_confirmed = [],
         ls_diagnosed = False\<rparr> t of
        (Return r, s) \<Rightarrow> (r, s)
      | (Break ls, s) \<Rightarrow> finish_delivery digest sv w c b artifacts ls s
      | (Continue ls, s) \<Rightarrow> finish_delivery digest sv w c b artifacts ls s)) = r_sends s @ xs
      \<and> sends_prefix artifacts ?plan 0 n xs" for b
  proof -
    let ?ls = "\<lparr>ls_artifacts = map Some artifacts, ls_cancelled = False, ls_confirmed = [],
         ls_diagnosed = False\<rparr>"
    obtain f u where d: "deliver_units digest sv w c b 0 ?plan ?ls t = (f, u)"
      by (cases "deliver_units digest sv w c b 0 ?plan ?ls t") simp
    have "\<exists>n xs. r_sends u = r_sends t @ xs \<and> sends_prefix artifacts ?plan 0 n xs"
      by (rule deliver_units_sends [OF d]) (use plan_ready in auto)
    then show ?thesis
      using d t quiet.rel_finish_delivery by (cases f) simp_all
  qed
  have stop: "\<exists>n xs. r_sends t = r_sends s @ xs \<and> sends_prefix artifacts ?plan 0 n xs"
    using t sends_prefix_none by (intro exI [of _ 0] exI [of _ "[]"]) simp
  show ?thesis
    using call go stop unfolding deliver_batch_def Let_def
    by (auto split: sum.splits bool.splits option.splits)
qed

text \<open>Before the batch, nothing is sent; when anything is, the batch was begun.\<close>

lemma deliver_artifacts_sends:
  assumes "r_sends (snd (deliver_artifacts digest sv w c artifacts revision s)) \<noteq> r_sends s"
  shows "snd (deliver_artifacts digest sv w c artifacts revision s)
      = snd (deliver_batch digest sv w c artifacts revision s)"
    and "artifacts \<noteq> []" and "length artifacts \<le> 100"
    and "fst (store_call w (\<lambda>e. begin_delivery_batch e c (of_nat (length artifacts))) s) = Inr True"
proof -
  show eq: "snd (deliver_artifacts digest sv w c artifacts revision s)
      = snd (deliver_batch digest sv w c artifacts revision s)"
    and "artifacts \<noteq> []" and "length artifacts \<le> 100"
    using assms
    by (auto simp: deliver_artifacts_def quiet.rel_small quiet.rel_heartbeat
        split: sum.splits polled.splits if_splits)
  let ?call = "store_call w (\<lambda>e. begin_delivery_batch e c (of_nat (length artifacts))) s"
  obtain r t where call: "?call = (r, t)" by (cases ?call) simp
  have "r_sends t = r_sends s" by (rule quiet.rel_after [OF quiet.rel_batch call])
  with assms eq call show "fst ?call = Inr True"
    by (auto simp: deliver_batch_def split: sum.splits bool.splits)
qed

lemma process_claim_sends_when:
  assumes "r_sends (snd (process_claim parse digest sv w c s)) \<noteq> r_sends s"
  obtains credentials ex artifacts revision u where
    "obtain_artifacts parse digest sv w c credentials ex s = (Obtained (artifacts, revision), u)"
    "snd (process_claim parse digest sv w c s) = snd (deliver_artifacts digest sv w c artifacts revision u)"
    "r_sends u = r_sends s"
proof -
  have "\<exists>credentials ex artifacts revision u.
    obtain_artifacts parse digest sv w c credentials ex s = (Obtained (artifacts, revision), u)
    \<and> snd (process_claim parse digest sv w c s) = snd (deliver_artifacts digest sv w c artifacts revision u)"
    using assms quiet.rel_obtain
    by (auto simp: process_claim_def Let_def quiet.rel_small
        split: sum.splits if_splits prod.splits phase.splits) (metis snd_conv)+
  then show thesis using that quiet.rel_obtain by (metis snd_conv)
qed

end
