(* ===== verification/Download_Safety.thy ===== *)
theory Download_Safety
  imports Download_Order
begin

text \<open>
  What working on a claim does to the tables and hands to the transport, whatever the other
  tasks of the program do in between. \<open>orderly\<close> says what a world may do: the clock does not
  go back within a call, and the other tasks change the tables only through the calls of the
  store.
\<close>

section \<open>The store under any calls\<close>

abbreviation store_steps :: "url_parser \<Rightarrow> digester \<Rightarrow> db \<Rightarrow> db \<Rightarrow> bool" where
  "store_steps parse digest \<equiv> (cache_step parse digest)\<^sup>*\<^sup>*"

definition orderly :: "url_parser \<Rightarrow> digester \<Rightarrow> world \<Rightarrow> bool" where
  "orderly parse digest w \<longleftrightarrow>
     (\<forall>k. steady (w_env w k)) \<and> (\<forall>k d. store_steps parse digest d (w_others w k d))"

lemma db_inv_same_tables: "ops t = ops s \<Longrightarrow> units t = units s \<Longrightarrow> db_inv t = db_inv s"
  by (simp add: db_inv_def units_of_def)

lemma publish_same_tables:
  "ops (snd (publish_media_cache digest e c media ttl s)) = ops s"
  "units (snd (publish_media_cache digest e c media ttl s)) = units s"
  by (rule publish_cases [of digest e c media ttl s]; simp)+

lemma cache_step_tables:
  assumes "cache_step parse digest s t"
  shows "queue_step parse digest s t \<or> (ops t = ops s \<and> units t = units s)"
  using assms by cases (simp_all add: publish_same_tables invalidate_drops clear_drops)

lemma cache_step_extends: "cache_step parse digest s t \<Longrightarrow> extends s t"
  using cache_step_tables queue_step_drops same_ops_extends by blast

lemma store_steps_extend: "store_steps parse digest s t \<Longrightarrow> extends s t"
proof (induction rule: rtranclp_induct)
  case (step t u)
  then show ?case using cache_step_extends extends_trans by blast
qed (rule extends_refl)

interpretation store: transition_system
    "\<lambda>s. empty_queue s \<and> media_cache s = []" "cache_step parse digest" "\<lambda>s. db_inv s \<and> cache_inv s"
  for parse digest
proof
  show "db_inv s \<and> cache_inv s" if "empty_queue s \<and> media_cache s = []" for s
    using that queue.inv_initial cache.inv_initial by blast
  show "db_inv t \<and> cache_inv t" if "db_inv s \<and> cache_inv s" "cache_step parse digest s t" for s t
    using that cache_step_tables [OF that(2)] queue.inv_step cache.inv_step db_inv_same_tables
    by blast
qed

section \<open>Every call is a step of the store\<close>

definition walks :: "url_parser \<Rightarrow> digester \<Rightarrow> run \<Rightarrow> run \<Rightarrow> bool" where
  "walks parse digest s t \<longleftrightarrow> store_steps parse digest (r_db s) (r_db t)"

lemma store_call_walks:
  assumes "orderly parse digest w"
    and "\<And>e d. steady e \<Longrightarrow> store_steps parse digest d (snd (f e d))"
  shows "walks parse digest s (snd (store_call w f s))"
proof -
  let ?e = "w_env w (r_calls s)" and ?d = "w_others w (r_calls s) (r_db s)"
  have "store_steps parse digest (r_db s) ?d" "steady ?e"
    using assms(1) by (simp_all add: orderly_def)
  then have "store_steps parse digest (r_db s) (snd (f ?e ?d))"
    using assms(2) rtranclp_trans by metis
  then show ?thesis by (simp add: walks_def snd_store_call)
qed

lemma worker_call_step: "steady e \<Longrightarrow> store_steps parse digest d (snd (run_worker digest e c wc d))"
  using queue_step.call [of e parse digest d "OnClaim c wc"] by (auto intro: cache_step.queue_call)

interpretation walking: claim_work digest sv w c
    "\<lambda>s t. orderly parse digest w \<longrightarrow> walks parse digest s t" for parse digest sv w c
proof
  fix s t u wc old media ttl x ds
  let ?rel = "\<lambda>s t. orderly parse digest w \<longrightarrow> walks parse digest s t"
  show "?rel s s" by (simp add: walks_def)
  show "?rel s t \<Longrightarrow> ?rel t u \<Longrightarrow> ?rel s u" unfolding walks_def by (meson rtranclp_trans)
  show "?rel s (snd (store_call w (\<lambda>e. run_worker digest e c wc) s))"
    by (auto intro: store_call_walks worker_call_step)
  show "?rel s (snd (store_call w (\<lambda>e. invalidate_media_cache digest e (request c) old) s))"
    by (auto intro!: store_call_walks intro: cache_step.invalidate)
  show "?rel s (snd (store_call w (\<lambda>e. publish_media_cache digest e c media ttl) s))"
    if "list_all media_wf media" using that by (auto intro!: store_call_walks intro: cache_step.publish)
  show "?rel s (s\<lparr>r_db := w_others w (r_calls s) (r_db s), r_calls := Suc (r_calls s)\<rparr>)"
    by (simp add: walks_def orderly_def)
  show "?rel s (s\<lparr>r_diagnostics := ds\<rparr>)" by (simp add: walks_def)
  show "?rel s (t\<lparr>r_sends := r_sends t @ [x]\<rparr>)"
    if "store_call w (\<lambda>e. begin_delivery_unit e c (of_nat (sd_ordinal x))
      (of_nat (length (sd_indices x)))) s = (Inr True, t)"
  proof
    assume "orderly parse digest w"
    then have "walks parse digest s (snd (store_call w (\<lambda>e. run_worker digest e c
        (BeginUnit (of_nat (sd_ordinal x)) (of_nat (length (sd_indices x))))) s))"
      by (rule store_call_walks) (rule worker_call_step)
    with that show "walks parse digest s (t\<lparr>r_sends := r_sends t @ [x]\<rparr>)" by (simp add: walks_def)
  qed
qed

text \<open>Working on a claim, with whatever other tasks do in between, is a sequence of calls of the
  store.\<close>

lemma claim_walks:
  assumes "orderly parse digest w"
  shows "store_steps parse digest (r_db s) (r_db (snd (process_claim parse digest sv w c s)))"
  using walking.rel_process [of parse digest w s parse] assms by (simp add: walks_def)

section \<open>Every send is recorded before it happens\<close>

lemma begin_unit_True:
  assumes "begin_delivery_unit e c k n d = (Inr True, d')"
  shows "k \<le> 99" and "1 \<le> n" and "n \<le> 10" and "validate_claim c = Inr ()"
    and "\<exists>r \<in> set (ops d). unit_ready c (uint k) (uint n) (clock e 0) d r"
    and "d' = d\<lparr>units := units d @ [new_unit c (uint k) (uint n) (clock e 0)]\<rparr>"
  using assms
  by (auto simp: begin_delivery_unit_def checked_Inr is_one_def execute_def
      sql_begin_delivery_unit_def Let_def list_ex_iff not_less split: if_splits sum.splits prod.splits)

definition recorded_send :: "claim \<Rightarrow> send \<Rightarrow> bool" where
  "recorded_send c x \<longleftrightarrow>
     (let d = sd_db x; n = int (sd_ordinal x); a = sint (attempt c) in
      (\<exists>r \<in> set (ops d). op_id r = operation_id c \<and> op_attempt r = a \<and> op_status r = Delivering
         \<and> op_token r = Some (lease_token c) \<and> \<not> op_cancel_requested r)
      \<and> (\<exists>u \<in> set (units d). unit_key u = (operation_id c, a, n) \<and> u_status u = Sending
           \<and> u_count u = int (length (sd_indices x)))
      \<and> (\<forall>u \<in> set (units d). u_op u = operation_id c \<and> unit_key u \<noteq> (operation_id c, a, n)
           \<longrightarrow> u_status u = (if u_attempt u = a then Sent else Rejected)))"

lemma unit_ready_others:
  assumes inv: "db_inv d" and r: "r \<in> set (ops d)" "unit_ready c k n now d r"
    and u: "u \<in> set (units d)" "u_op u = operation_id c"
  shows "u_status u = (if u_attempt u = sint (attempt c) then Sent else Rejected)"
proof -
  have f: "op_id r = operation_id c" "op_attempt r = sint (attempt c)"
    using r(2) by (simp_all add: unit_ready_def fenced_def)
  have sent: "list_all (\<lambda>u. u_status u = Sent) (attempt_units (op_id r) (op_attempt r) d)"
    using r(2) unfolding unit_ready_def Let_def by blast
  have ri: "units_inv r (units_of (op_id r) d)" using db_inv_row [OF inv r(1)] by (simp add: row_inv_def)
  have "u \<in> set (units_of (op_id r) d)" using u f by (simp add: units_of_def)
  with ri have "u_attempt u \<le> op_attempt r" "u_attempt u < op_attempt r \<longrightarrow> u_status u = Rejected"
    by (simp_all add: units_inv_def)
  moreover have "u_status u = Sent" if "u_attempt u = op_attempt r"
    using that sent u f by (simp add: attempt_units_def list_all_iff)
  ultimately show ?thesis using f(2) by auto
qed

lemma begin_unit_recorded:
  assumes "db_inv d" and "begin_delivery_unit e c (of_nat (sd_ordinal x)) (of_nat (length (sd_indices x))) d
      = (Inr True, sd_db x)"
    and small: "sd_ordinal x < 2 ^ 32" "length (sd_indices x) < 2 ^ 32"
  shows "recorded_send c x"
proof -
  note b = begin_unit_True [OF assms(2)]
  have k: "uint (of_nat (sd_ordinal x) :: u32) = int (sd_ordinal x)"
    and n: "uint (of_nat (length (sd_indices x)) :: u32) = int (length (sd_indices x))"
    using small by (simp_all add: unsigned_of_nat take_bit_nat_eq_self)
  obtain r where r: "r \<in> set (ops d)"
    "unit_ready c (int (sd_ordinal x)) (int (length (sd_indices x))) (clock e 0) d r"
    using b(5) k n by auto
  have d: "sd_db x = d\<lparr>units := units d
      @ [new_unit c (int (sd_ordinal x)) (int (length (sd_indices x))) (clock e 0)]\<rparr>"
    using b(6) k n by simp
  have row: "op_id r = operation_id c" "op_attempt r = sint (attempt c)" "op_status r = Delivering"
    "op_token r = Some (lease_token c)" "\<not> op_cancel_requested r"
    using r(2) by (simp_all add: unit_ready_def fenced_def)
  show ?thesis
    using r(1) row unit_ready_others [OF assms(1) r]
    by (auto simp: recorded_send_def Let_def d new_unit_def unit_key_def)
qed

text \<open>What a run adds to the log, under the invariant of the queue.\<close>

definition small_send :: "send \<Rightarrow> bool" where
  "small_send x \<longleftrightarrow> sd_ordinal x < 2 ^ 32 \<and> length (sd_indices x) < 2 ^ 32"

definition sends_safely ::
  "url_parser \<Rightarrow> digester \<Rightarrow> claim \<Rightarrow> run \<Rightarrow> run \<Rightarrow> bool" where
  "sends_safely parse digest c s t \<longleftrightarrow>
     (db_inv (r_db s) \<longrightarrow> db_inv (r_db t))
     \<and> (\<exists>xs. r_sends t = r_sends s @ xs
          \<and> (\<forall>x \<in> set xs. store_steps parse digest (r_db s) (sd_db x)
               \<and> (db_inv (r_db s) \<longrightarrow> small_send x \<longrightarrow> recorded_send c x)))"

lemma store_steps_inv: "store_steps parse digest s t \<Longrightarrow> db_inv s \<Longrightarrow> db_inv t"
proof (induction rule: rtranclp_induct)
  case (step t u)
  then show ?case using cache_step_tables [OF step.hyps(2)] queue.inv_step db_inv_same_tables by blast
qed

lemma sends_safely_same:
  "walks parse digest s t \<Longrightarrow> r_sends t = r_sends s \<Longrightarrow> sends_safely parse digest c s t"
  by (auto simp: sends_safely_def walks_def intro: store_steps_inv)

lemma sends_safely_trans:
  assumes "walks parse digest s t" and "sends_safely parse digest c s t"
    and "sends_safely parse digest c t u"
  shows "sends_safely parse digest c s u"
proof -
  have st: "store_steps parse digest (r_db s) (r_db t)" using assms(1) by (simp add: walks_def)
  obtain xs ys where "r_sends t = r_sends s @ xs" "r_sends u = r_sends t @ ys"
    and xs: "\<forall>x \<in> set xs. store_steps parse digest (r_db s) (sd_db x)
      \<and> (db_inv (r_db s) \<longrightarrow> small_send x \<longrightarrow> recorded_send c x)"
    and ys: "\<forall>x \<in> set ys. store_steps parse digest (r_db t) (sd_db x)
      \<and> (db_inv (r_db t) \<longrightarrow> small_send x \<longrightarrow> recorded_send c x)"
    using assms(2,3) unfolding sends_safely_def by blast
  then have "r_sends u = r_sends s @ xs @ ys" by simp
  moreover have "store_steps parse digest (r_db s) (sd_db x)
      \<and> (db_inv (r_db s) \<longrightarrow> small_send x \<longrightarrow> recorded_send c x)" if "x \<in> set (xs @ ys)" for x
    using that xs ys store_steps_inv [OF st] rtranclp_trans [OF st] by auto
  moreover have "db_inv (r_db s) \<longrightarrow> db_inv (r_db u)"
    using assms(2,3) by (simp add: sends_safely_def)
  ultimately show ?thesis unfolding sends_safely_def by blast
qed

lemma same_sends_call: "r_sends (snd (store_call w f s)) = r_sends s"
  by (simp add: snd_store_call)

lemma send_recorded:
  assumes w: "orderly parse digest w"
    and call: "store_call w (\<lambda>e. begin_delivery_unit e c (of_nat (sd_ordinal x))
        (of_nat (length (sd_indices x)))) s = (Inr True, t)"
    and x: "sd_db x = r_db t"
  shows "walks parse digest s (t\<lparr>r_sends := r_sends t @ [x]\<rparr>)"
    and "sends_safely parse digest c s (t\<lparr>r_sends := r_sends t @ [x]\<rparr>)"
proof -
  let ?e = "w_env w (r_calls s)" and ?d = "w_others w (r_calls s) (r_db s)"
  have t: "r_db t = snd (begin_delivery_unit ?e c (of_nat (sd_ordinal x))
        (of_nat (length (sd_indices x))) ?d)" "r_sends t = r_sends s"
    and ok: "fst (begin_delivery_unit ?e c (of_nat (sd_ordinal x))
        (of_nat (length (sd_indices x))) ?d) = Inr True"
    using call by (auto simp: store_call_def split: prod.splits)
  have d: "store_steps parse digest (r_db s) ?d" "steady ?e" using w by (simp_all add: orderly_def)
  have "store_steps parse digest ?d (r_db t)"
    using worker_call_step [OF d(2), where digest = digest and c = c and d = ?d
        and wc = "BeginUnit (of_nat (sd_ordinal x)) (of_nat (length (sd_indices x)))"] t(1) by simp
  with d(1) have st: "store_steps parse digest (r_db s) (r_db t)" by (rule rtranclp_trans)
  then show "walks parse digest s (t\<lparr>r_sends := r_sends t @ [x]\<rparr>)" by (simp add: walks_def)
  have "recorded_send c x" if "db_inv (r_db s)" "small_send x"
  proof (rule begin_unit_recorded)
    show "db_inv ?d" using d(1) that(1) by (rule store_steps_inv)
    show "begin_delivery_unit ?e c (of_nat (sd_ordinal x)) (of_nat (length (sd_indices x))) ?d
        = (Inr True, sd_db x)"
      using ok t(1) x by (simp add: prod_eq_iff)
  qed (use that(2) in \<open>simp_all add: small_send_def\<close>)
  with st x t(2) show "sends_safely parse digest c s (t\<lparr>r_sends := r_sends t @ [x]\<rparr>)"
    by (auto simp: sends_safely_def intro: store_steps_inv)
qed

interpretation sending: claim_work digest sv w c
    "\<lambda>s t. orderly parse digest w \<longrightarrow> walks parse digest s t \<and> sends_safely parse digest c s t"
    for parse digest sv w c
proof
  fix s t u wc old media ttl x ds
  let ?rel = "\<lambda>s t. orderly parse digest w
    \<longrightarrow> walks parse digest s t \<and> sends_safely parse digest c s t"
  show "?rel s s" using walking.rel_refl sends_safely_same by blast
  show "?rel s t \<Longrightarrow> ?rel t u \<Longrightarrow> ?rel s u"
    using walking.rel_trans sends_safely_trans by blast
  show "?rel s (snd (store_call w (\<lambda>e. run_worker digest e c wc) s))"
    using walking.rel_worker sends_safely_same same_sends_call by blast
  show "?rel s (snd (store_call w (\<lambda>e. invalidate_media_cache digest e (request c) old) s))"
    using walking.rel_invalidate sends_safely_same same_sends_call by blast
  show "?rel s (snd (store_call w (\<lambda>e. publish_media_cache digest e c media ttl) s))"
    if "list_all media_wf media"
    using walking.rel_publish [OF that] sends_safely_same same_sends_call by blast
  show "?rel s (s\<lparr>r_db := w_others w (r_calls s) (r_db s), r_calls := Suc (r_calls s)\<rparr>)"
    using walking.rel_read [where w = w and s = s and parse = parse and digest = digest]
    by (simp add: sends_safely_same)
  show "?rel s (s\<lparr>r_diagnostics := ds\<rparr>)"
    by (simp add: walks_def sends_safely_same)
  show "?rel s (t\<lparr>r_sends := r_sends t @ [x]\<rparr>)"
    if "store_call w (\<lambda>e. begin_delivery_unit e c (of_nat (sd_ordinal x))
      (of_nat (length (sd_indices x)))) s = (Inr True, t)" "sd_db x = r_db t"
    using send_recorded [OF _ that] by blast
qed

interpretation authorizing: claim_work digest sv w c
    "\<lambda>s t. \<exists>xs. r_sends t = r_sends s @ xs \<and> (\<forall>x \<in> set xs. authorized_send sv w c x)"
    for digest sv w c
proof
  fix s t u :: run and x
  let ?rel = "\<lambda>s t. \<exists>xs. r_sends t = r_sends s @ xs \<and> (\<forall>x \<in> set xs. authorized_send sv w c x)"
  show "?rel t u \<Longrightarrow> ?rel s u" if "?rel s t"
    using that by (elim exE conjE) (rule exI [of _ "_ @ _"], auto)
  show "?rel s (t\<lparr>r_sends := r_sends t @ [x]\<rparr>)"
    if "store_call w (\<lambda>e. begin_delivery_unit e c (of_nat (sd_ordinal x))
      (of_nat (length (sd_indices x)))) s = (Inr True, t)" "authorized_send sv w c x"
    using that same_sends_call [of w _ s] by (metis (no_types, lifting) list.set(1) list.set_cases
        run.select_convs(3) run.surjective run.update_convs(3) set_ConsD snd_conv empty_iff)
qed (simp_all add: snd_store_call)

lemma process_claim_sends:
  assumes "orderly parse digest w"
  shows "sends_safely parse digest c s (snd (process_claim parse' digest sv w c s))"
  using sending.rel_process assms by blast

section \<open>Properties of working on a claim\<close>

text \<open>Where the artifacts of a claim come from: the executor returned them for the worker's request,
  or they are the cached batch that the first call of the claim to the store finds, where the
  cache may be read and the batch is still valid.\<close>

definition provided ::
  "url_parser \<Rightarrow> digester \<Rightarrow> service \<Rightarrow> world \<Rightarrow> claim \<Rightarrow> network_credentials \<Rightarrow> executor \<Rightarrow> run
    \<Rightarrow> delivery_artifact list \<Rightarrow> bool" where
  "provided parse digest sv w c credentials ex s artifacts \<longleftrightarrow>
     (\<exists>wr evs files. worker_request parse c credentials = Some wr
        \<and> w_execution w ex wr = (evs, Inr files) \<and> artifacts = map Upload files)
     \<or> (\<exists>b. \<not> is_formats (request c)
        \<and> cache_read_enabled (dc_cache_ttl (sv_config sv)) (claim_cache_bypassed c)
        \<and> lookup_media_cache digest (w_env w (r_calls s)) (request c)
            (w_others w (r_calls s) (r_db s)) = Inr (Some b)
        \<and> valid_cached_media (batch_media b) (ex_limits ex) (send_as_file (params (request c)))
        \<and> artifacts = map CachedArtifact (batch_media b))"

lemma run_execution_obtains:
  "run_execution w c result po evs s = (Obtained files, t) \<Longrightarrow> result = Inr files"
  by (induction w c result po evs s rule: run_execution.induct)
    (auto simp: finished_def split: sum.splits prod.splits bool.splits option.splits)

lemma execute_claim_provided:
  assumes "execute_claim parse w c credentials ex t = (Obtained (artifacts, revision), u)"
  shows "provided parse digest sv w c credentials ex s artifacts"
proof -
  from assms obtain wr evs result files where "worker_request parse c credentials = Some wr"
    "w_execution w ex wr = (evs, result)" "run_execution w c result True evs t = (Obtained files, u)"
    "artifacts = map Upload files"
    by (auto simp: execute_claim_def finished_def split: option.splits prod.splits phase.splits)
  then show ?thesis using run_execution_obtains unfolding provided_def by blast
qed

lemma obtain_artifacts_provided:
  assumes "obtain_artifacts parse digest sv w c credentials ex s = (Obtained (artifacts, revision), u)"
  shows "provided parse digest sv w c credentials ex s artifacts"
proof (cases "\<exists>t. execute_claim parse w c credentials ex t = (Obtained (artifacts, revision), u)")
  case True
  then show ?thesis using execute_claim_provided by blast
next
  case False
  with assms show ?thesis
    by (auto simp: obtain_artifacts_def Let_def store_call_def provided_def
        split: if_splits sum.splits option.splits)
qed

lemma process_claim_obtains:
  assumes "r_sends (snd (process_claim parse digest sv w c s)) \<noteq> r_sends s"
  obtains who credentials ex artifacts revision u where
    "authorize_request sv (w_identity w AtStart) (request c) = Inr who"
    "w_resolve w AtStart (actor_id (request c)) (source_host (request c)) who (network (request c))
       = Inr credentials"
    "claim_executor (sv_executor sv) (request c) = Inr ex"
    "obtain_artifacts parse digest sv w c credentials ex s = (Obtained (artifacts, revision), u)"
    "snd (process_claim parse digest sv w c s) = snd (deliver_artifacts digest sv w c artifacts revision u)"
    "r_sends u = r_sends s"
proof -
  from assms obtain who credentials ex where h:
    "authorize_request sv (w_identity w AtStart) (request c) = Inr who"
    "w_resolve w AtStart (actor_id (request c)) (source_host (request c)) who (network (request c))
       = Inr credentials"
    "claim_executor (sv_executor sv) (request c) = Inr ex" "\<not> claim_cancel_requested c"
    by (auto simp: process_claim_def Let_def quiet.rel_small split: sum.splits if_splits)
  obtain p u where o': "obtain_artifacts parse digest sv w c credentials ex s = (p, u)"
    by (cases "obtain_artifacts parse digest sv w c credentials ex s") simp
  have u: "r_sends u = r_sends s" by (rule quiet.rel_after [OF quiet.rel_obtain o'])
  with assms h o' obtain artifacts revision where p: "p = Obtained (artifacts, revision)"
    by (cases p) (auto simp: process_claim_def Let_def)
  show thesis
    using h o' u
    by (intro that [OF h(1-3), of artifacts revision u]) (simp_all add: p process_claim_def Let_def)
qed

lemma process_claim_prefix:
  assumes "r_sends (snd (process_claim parse digest sv w c s)) \<noteq> r_sends s"
  obtains who credentials ex artifacts xs where
    "authorize_request sv (w_identity w AtStart) (request c) = Inr who"
    "w_resolve w AtStart (actor_id (request c)) (source_host (request c)) who (network (request c))
       = Inr credentials"
    "claim_executor (sv_executor sv) (request c) = Inr ex"
    "provided parse digest sv w c credentials ex s artifacts" "length artifacts \<le> 100"
    "r_sends (snd (process_claim parse digest sv w c s)) = r_sends s @ xs"
    "sends_prefix artifacts (plan_delivery_units (send_as_file (params (request c))) artifacts)
       0 (length xs) xs"
proof -
  from assms obtain who credentials ex artifacts revision u where h:
    "authorize_request sv (w_identity w AtStart) (request c) = Inr who"
    "w_resolve w AtStart (actor_id (request c)) (source_host (request c)) who (network (request c))
       = Inr credentials"
    "claim_executor (sv_executor sv) (request c) = Inr ex"
    and o': "obtain_artifacts parse digest sv w c credentials ex s = (Obtained (artifacts, revision), u)"
    and d: "snd (process_claim parse digest sv w c s) = snd (deliver_artifacts digest sv w c artifacts revision u)"
    and u: "r_sends u = r_sends s"
    by (rule process_claim_obtains)
  from assms d u have "r_sends (snd (deliver_artifacts digest sv w c artifacts revision u)) \<noteq> r_sends u"
    by simp
  note sent = deliver_artifacts_sends(1,3) [OF this]
  let ?plan = "plan_delivery_units (send_as_file (params (request c))) artifacts"
  obtain n xs where xs: "r_sends (snd (deliver_batch digest sv w c artifacts revision u)) = r_sends u @ xs"
    and p: "sends_prefix artifacts ?plan 0 n xs"
    using deliver_batch_sends [of digest sv w c artifacts revision u] by blast
  have "length xs = n"
    using p unfolding sends_prefix_def by (metis length_map length_upt add_0 diff_zero)
  with xs p sent d u show thesis
    by (intro that [OF h obtain_artifacts_provided [OF o'], of xs]) simp_all
qed

lemma sends_prefix_media:
  assumes "sends_prefix artifacts (plan_delivery_units as_file artifacts) 0 n xs"
  shows "\<exists>m. concat (map sd_media xs) = take m artifacts"
proof -
  let ?us = "plan_delivery_units as_file artifacts"
  have p: "map sd_indices xs = take n ?us"
    "\<forall>x \<in> set xs. sd_media x = map (nth artifacts) (sd_indices x)"
    using assms by (simp_all add: sends_prefix_def)
  have us: "concat ?us = [0 ..< length artifacts]"
    using plan_categories_spec [of "map (artifact_category as_file) artifacts"]
    by (simp add: plan_delivery_units_def)
  have "concat (map sd_media xs) = map (nth artifacts) (concat (map sd_indices xs))"
    using p(2) by (simp add: map_concat comp_def cong: map_cong)
  also have "concat (map sd_indices xs) = take (length (concat (take n ?us))) [0 ..< length artifacts]"
    using p(1) us by (metis append_eq_conv_conj append_take_drop_id concat_append)
  finally have "concat (map sd_media xs)
      = take (length (concat (take n ?us))) (map (nth artifacts) [0 ..< length artifacts])"
    by (simp add: take_map)
  then show ?thesis by (auto simp: map_nth)
qed

text \<open>C5. Whatever working on a claim hands to the transport are artifacts that the executor returned
  for the request, or that the cache held for it, once the request was authorized and its
  credentials were resolved: a prefix of them, in their order, cut into the units of the plan.
  Each artifact goes out at most once, and never before the one in front of it.\<close>

theorem sends_follow_the_plan:
  "\<exists>xs. r_sends (snd (process_claim parse digest sv w c s)) = r_sends s @ xs
    \<and> (xs = [] \<or> (\<exists>who credentials ex artifacts m.
        authorize_request sv (w_identity w AtStart) (request c) = Inr who
        \<and> w_resolve w AtStart (actor_id (request c)) (source_host (request c)) who (network (request c))
            = Inr credentials
        \<and> claim_executor (sv_executor sv) (request c) = Inr ex
        \<and> provided parse digest sv w c credentials ex s artifacts \<and> length artifacts \<le> 100
        \<and> map sd_ordinal xs = [0 ..< length xs]
        \<and> map sd_indices xs
            = take (length xs) (plan_delivery_units (send_as_file (params (request c))) artifacts)
        \<and> map sd_media xs = map (map (nth artifacts)) (map sd_indices xs)
        \<and> concat (map sd_media xs) = take m artifacts))"
proof (cases "r_sends (snd (process_claim parse digest sv w c s)) = r_sends s")
  case True
  then show ?thesis by (intro exI [of _ "[]"]) simp
next
  case False
  then obtain who credentials ex artifacts xs where h:
    "authorize_request sv (w_identity w AtStart) (request c) = Inr who"
    "w_resolve w AtStart (actor_id (request c)) (source_host (request c)) who (network (request c))
       = Inr credentials"
    "claim_executor (sv_executor sv) (request c) = Inr ex"
    "provided parse digest sv w c credentials ex s artifacts" "length artifacts \<le> 100"
    "r_sends (snd (process_claim parse digest sv w c s)) = r_sends s @ xs"
    and p: "sends_prefix artifacts (plan_delivery_units (send_as_file (params (request c))) artifacts)
       0 (length xs) xs"
    by (rule process_claim_prefix)
  obtain m where "concat (map sd_media xs) = take m artifacts" using sends_prefix_media [OF p] by blast
  moreover have "map sd_ordinal xs = [0 ..< length xs]"
    "map sd_indices xs
       = take (length xs) (plan_delivery_units (send_as_file (params (request c))) artifacts)"
    "\<forall>x \<in> set xs. sd_media x = map (nth artifacts) (sd_indices x)"
    using p by (simp_all add: sends_prefix_def)
  moreover from this(3) have "map sd_media xs = map (map (nth artifacts)) (map sd_indices xs)" by simp
  ultimately show ?thesis using h by blast
qed

lemma prefix_small:
  assumes p: "sends_prefix artifacts (plan_delivery_units as_file artifacts) 0 n xs"
    and n: "length artifacts \<le> 100" and x: "x \<in> set xs"
  shows "small_send x"
proof -
  let ?us = "plan_delivery_units as_file artifacts"
  have "sd_ordinal x \<in> set (map sd_ordinal xs)" "sd_indices x \<in> set (map sd_indices xs)"
    using x by simp_all
  with p have o': "sd_ordinal x < n" "n \<le> length ?us" and i: "sd_indices x \<in> set ?us"
    by (auto simp: sends_prefix_def dest: in_set_takeD)
  have "length ?us \<le> length artifacts"
    using plan_length [of "map (artifact_category as_file) artifacts"]
    by (simp add: plan_delivery_units_def)
  moreover have "good_unit (map (artifact_category as_file) artifacts) (sd_indices x)"
    using plan_categories_spec [of "map (artifact_category as_file) artifacts"] i
    by (simp add: plan_delivery_units_def list_all_iff)
  ultimately show ?thesis
    using o' n good_unit_bounds by (fastforce simp: small_send_def)
qed

lemma new_send:
  assumes "orderly parse digest w"
    and "r_sends (snd (process_claim parse' digest sv w c s)) = r_sends s @ xs" and "x \<in> set xs"
  shows "store_steps parse digest (r_db s) (sd_db x)" and "db_inv (r_db s) \<Longrightarrow> recorded_send c x"
proof -
  obtain ys where "r_sends (snd (process_claim parse' digest sv w c s)) = r_sends s @ ys"
    and ys: "\<forall>x \<in> set ys. store_steps parse digest (r_db s) (sd_db x)
      \<and> (db_inv (r_db s) \<longrightarrow> small_send x \<longrightarrow> recorded_send c x)"
    using process_claim_sends [OF assms(1)] unfolding sends_safely_def by blast
  with assms(2) have "ys = xs" by simp
  with ys assms(3) have h: "store_steps parse digest (r_db s) (sd_db x)
      \<and> (db_inv (r_db s) \<longrightarrow> small_send x \<longrightarrow> recorded_send c x)" by blast
  then show "store_steps parse digest (r_db s) (sd_db x)" by simp
  have "r_sends (snd (process_claim parse' digest sv w c s)) \<noteq> r_sends s" using assms(2,3) by auto
  then obtain artifacts zs where
    "r_sends (snd (process_claim parse' digest sv w c s)) = r_sends s @ zs" "length artifacts \<le> 100"
    "sends_prefix artifacts (plan_delivery_units (send_as_file (params (request c))) artifacts)
       0 (length zs) zs"
    by (rule process_claim_prefix)
  with assms(2,3) have "small_send x" using prefix_small by fastforce
  with h show "recorded_send c x" if "db_inv (r_db s)" using that by blast
qed

text \<open>C4. Nothing reaches the transport unless, at the moment of its unit, the request was authorized
  again, its credentials were still valid and the content policy did not block it; what is sent
  carries the spoiler that the policy decided.\<close>

theorem sent_only_when_authorized:
  "\<exists>xs. r_sends (snd (process_claim parse digest sv w c s)) = r_sends s @ xs
     \<and> list_all (authorized_send sv w c) xs"
  using authorizing.rel_process by (simp add: list_all_iff)

text \<open>C2. Every unit is on record before the transport is called: at that moment the operation is being
  delivered under this claim and nobody has cancelled it, this unit is the one that is being sent,
  every other unit of the attempt is confirmed, and every unit of an earlier attempt was
  rejected.\<close>

theorem sends_are_recorded_first:
  assumes "orderly parse digest w" and "db_inv (r_db s)"
    and "r_sends (snd (process_claim parse digest sv w c s)) = r_sends s @ xs" and "x \<in> set xs"
  shows "recorded_send c x"
  by (rule new_send(2) [OF assms(1,3,4,2)])

lemma begin_batch_True:
  assumes "begin_delivery_batch e c n d = (Inr True, d')"
  shows "\<exists>r \<in> set (ops d). fenced c (clock e 0) r \<and> op_status r = Running"
proof -
  have "count_where (\<lambda>r. fenced c (clock e 0) r \<and> op_status r = Running \<and> \<not> op_cancel_requested r)
      (ops d) = 1"
    using assms
    by (auto simp: begin_delivery_batch_def checked_Inr is_one_def execute_def
        sql_begin_delivery_batch_def update_ops_Inr split: if_splits sum.splits prod.splits)
  then show ?thesis by (auto simp: count_where_def length_Suc_conv filter_eq_Cons_iff)
qed

text \<open>C1. Across attempts and restarts: once a unit of an operation was sent, or may have been, no
  worker hands anything of that operation to the transport again, whichever claim it holds.\<close>

theorem sent_operation_is_not_sent_again:
  assumes "orderly parse digest w" and "db_inv (r_db s)"
    and "u \<in> set (units (r_db s))" and "u_op u = operation_id c" and "u_status u \<in> {Sent, UnknownSend}"
  shows "r_sends (snd (process_claim parse digest sv w c s)) = r_sends s"
proof (rule ccontr)
  assume "r_sends (snd (process_claim parse digest sv w c s)) \<noteq> r_sends s"
  then obtain cr ex artifacts revision t where
    o': "obtain_artifacts parse digest sv w c cr ex s = (Obtained (artifacts, revision), t)"
    and d: "snd (process_claim parse digest sv w c s)
      = snd (deliver_artifacts digest sv w c artifacts revision t)"
    "r_sends t = r_sends s" "r_sends (snd (process_claim parse digest sv w c s)) \<noteq> r_sends s"
    using process_claim_sends_when by metis
  let ?f = "\<lambda>e. begin_delivery_batch e c (of_nat (length artifacts))"
  let ?d = "w_others w (r_calls t) (r_db t)" and ?e = "w_env w (r_calls t)"
  have "fst (store_call w ?f t) = Inr True" using d by (intro deliver_artifacts_sends(4)) simp
  then have "fst (?f ?e ?d) = Inr True" by (simp add: store_call_def split: prod.splits)
  then obtain d' where "?f ?e ?d = (Inr True, d')" by (cases "?f ?e ?d") simp
  from begin_batch_True [OF this] obtain r where r: "r \<in> set (ops ?d)"
    "fenced c (clock ?e 0) r" "op_status r = Running" by blast
  have "walks parse digest s t"
    using walking.rel_obtain [of parse digest w s parse sv c cr ex] o' assms(1) by simp
  then have st: "store_steps parse digest (r_db s) ?d"
    using assms(1) rtranclp_trans unfolding walks_def orderly_def by metis
  obtain u' where "u' \<in> set (units ?d)" "unit_evolves u u'"
    by (rule extends_unit [OF store_steps_extend [OF st] assms(3)])
  then have "u \<in> set (units ?d)" using assms(5) by (auto simp: unit_evolves_def)
  then have "u \<in> set (units_of (op_id r) ?d)"
    using assms(4) r(2) by (simp add: units_of_def fenced_def)
  moreover have "all_rejected (units_of (op_id r) ?d)"
    using db_inv_row [OF store_steps_inv [OF st assms(2)] r(1)] r(3) by (rule running_all_rejected)
  ultimately show False using assms(5) by (auto simp: all_rejected_def)
qed

end
