(* ===== verification/Worker_Facts.thy ===== *)
theory Worker_Facts
  imports Download_Plan
begin

text \<open>
  What the service and its workers can rely on across the process boundary: the requests that
  are built validate, the answers stay within what the store accepts, a path that is accepted
  stays beneath its directory, and a claim runs within the limits of its executor.
\<close>

section \<open>Lists of checks\<close>

lemma check_all_Inr: "check_all f xs = Inr () \<longleftrightarrow> (\<forall>x \<in> set xs. f x = Inr ())"
  by (induction xs) (auto simp: res_bind_Inr_iff)

lemma check_option_Inr: "check_option f o' = Inr () \<longleftrightarrow> pred_option (\<lambda>x. f x = Inr ()) o'"
  by (cases o') (simp_all add: check_option_def)

lemma request_check_Inr [simp]: "request_check b = Inr () \<longleftrightarrow> b"
  by (simp add: request_check_def)

section \<open>Requests\<close>

lemma wire_clip_ok: "clip_wf r \<Longrightarrow> wire_clip_validate (wire_clip r) = Inr ()"
  by (erule clip_wf_cases) (simp add: wire_clip_validate_def wire_clip_def)

lemma wire_playlist_ok:
  "playlist_wf r \<Longrightarrow> wire_playlist_validate \<lparr>wp_start = pr_start r, wp_end = pr_end r\<rparr> = Inr ()"
  by (auto simp: playlist_wf_def playlist_range_new_def wire_playlist_validate_def
      unsigned_distance_def Let_def split: if_splits option.splits)

lemma wire_subtitles_ok:
  "subtitles_wf s \<Longrightarrow>
    wire_subtitles_validate \<lparr>ws_language = language s, ws_automatic = automatic s\<rparr> = Inr ()"
  by (auto simp: subtitles_wf_def subtitle_options_new_def wire_subtitles_validate_def Let_def
      split: if_splits)

lemma wire_options_ok:
  assumes "request_wf parse r"
  shows "wire_options_validate (wire_options_of r) = Inr ()"
proof -
  have p: "params_wf (params r)" "pred_option clip_wf (clip_range r)"
    "clip_range r = None \<or> clips (params r) = []"
    using assms by (simp_all add: request_wf_def)
  have "\<forall>x \<in> set (wo_clips (wire_options_of r)). wire_clip_validate x = Inr ()"
    using p by (cases "clip_range r") (auto simp: wire_options_of_def Let_def params_wf_def
        list_all_iff option_list_def wire_clip_ok)
  moreover have "length (wo_clips (wire_options_of r)) \<le> 20"
    using p by (auto simp: wire_options_of_def Let_def params_wf_def option_list_def
        split: option.splits)
  moreover have "wo_max_height (wire_options_of r) \<noteq> Some 0"
    using p by (simp add: wire_options_of_def Let_def params_wf_def)
  moreover have "pred_option (\<lambda>x. wire_playlist_validate x = Inr ()) (wo_playlist (wire_options_of r))"
    using p(1) wire_playlist_ok
    by (cases "playlist (params r)") (auto simp: wire_options_of_def Let_def params_wf_def)
  ultimately show ?thesis
    by (simp add: wire_options_validate_def check_all_Inr check_option_Inr res_bind_Inr_iff)
qed

lemma wire_gallery: "wire_gallery_engine (wire_engine_of e) = gallery_engine e"
  by (cases e) (simp_all add: wire_gallery_engine_def gallery_engine_def)

lemma wire_link: "wire_engine_of e \<in> {WireAuto, WireYtDlp, WireAutoYtDlpV1} \<longleftrightarrow> link_engine e"
  by (cases e) (simp_all add: link_engine_def)

lemma wire_codes:
  "wire_video v = WireH264 \<longleftrightarrow> v = H264" "wire_audio a = WireBestAudio \<longleftrightarrow> a = BestAudio"
  "wire_container_of b = WireMp4 \<longleftrightarrow> b = Mp4"
  by (cases v, simp_all) (cases a, simp_all, cases b, simp_all)

lemma wire_links_ok:
  assumes "request_wf parse r" and "media_mode r \<in> {Links, AudioLinks}"
  shows "links_options_ok (Download (wire_mode_of (media_mode r))) (wire_options_of r)"
  using assms wire_link [of "engine (params r)"]
  by (auto simp: request_wf_def validate_mode_def links_options_ok_def wire_options_of_def Let_def
      option_list_def split: if_splits)

lemma wire_formats_ok:
  assumes "request_wf parse r" and "media_mode r = Formats"
  shows "formats_options_ok (source_url r) (wire_options_of r)"
  using assms
  by (auto simp: request_wf_def validate_mode_def formats_options_ok_def wire_options_of_def Let_def
      option_list_def wire_gallery url_acceptable_def split: if_splits)

lemma wire_subtitles_mode:
  assumes "request_wf parse r"
  shows "(media_mode r = Subtitles) = (subtitles (params r) \<noteq> None)"
    and "media_mode r = Subtitles \<Longrightarrow> subtitles_options_ok (wire_options_of r)"
  using assms
  by (auto simp: request_wf_def validate_mode_def subtitles_options_ok_def wire_options_of_def Let_def
      option_list_def wire_gallery split: if_splits)

lemma worker_request_built:
  assumes "request_wf parse (request c)"
  obtains w where "Download_Plan.worker_request parse c credentials = Some w"
    "wr_version w = protocol_version" "wr_operation_id w = operation_id c" "wr_attempt w = attempt c"
    "wr_source_url w = source_url (request c)"
    "wr_task w = Download (wire_mode_of (media_mode (request c)))"
    "wr_options w = wire_options_of (request c)"
    "wr_network w = None \<or> wr_network w = Some credentials"
proof -
  have u: "http_source_url_parse parse (url_text (source_url (request c))) = Inr (source_url (request c))"
    using assms by (auto simp: request_wf_def http_source_url_parse_def url_acceptable_def)
  then obtain w where w: "Download_Plan.worker_request parse c credentials = Some w"
    by (simp add: Download_Plan.worker_request_def Let_def)
  then show thesis
    using u by (intro that [OF w]) (auto simp: Download_Plan.worker_request_def Let_def
        split: if_splits)
qed

text \<open>C9. Every claim of a well-formed request gives a request for a worker, and the worker accepts
  it: whatever the two sides check, they agree on. The credentials are those of a resolved
  profile, which the protocol accepts, and a claim has an operation and an attempt.\<close>

theorem worker_accepts_claims:
  assumes "request_wf parse (request c)" and "validate_claim c = Inr ()" and "operation_id c \<noteq> 0"
    and "credentials_validate proxies credentials = Inr ()"
  shows "\<exists>w. Download_Plan.worker_request parse c credentials = Some w
    \<and> worker_request_validate proxies w = Inr ()"
proof -
  let ?r = "request c"
  have a: "attempt c \<noteq> 0" using assms(2) by (auto simp: validate_claim_def res_bind_Inr_iff split: if_splits)
  have s: "wo_subtitles (wire_options_of ?r)
      = map_option (\<lambda>x. \<lparr>ws_language = language x, ws_automatic = automatic x\<rparr>) (subtitles (params ?r))"
    by (simp add: wire_options_of_def Let_def)
  have subs: "pred_option subtitles_wf (subtitles (params ?r))"
    using assms(1) by (simp add: request_wf_def params_wf_def)
  have modes: "wire_mode_of m = WireSubtitles \<longleftrightarrow> m = Subtitles"
    "wire_mode_of m \<in> {WireLinks, WireAudioLinks} \<longleftrightarrow> m \<in> {Links, AudioLinks}"
    "wire_mode_of m = WireFormats \<longleftrightarrow> m = Formats" for m
    by (cases m; simp)+
  have sub: "check_option (\<lambda>x. res_bind (wire_subtitles_validate x) (\<lambda>_.
      request_check (subtitles_options_ok (wire_options_of ?r)))) (wo_subtitles (wire_options_of ?r)) = Inr ()"
    using subs wire_subtitles_ok wire_subtitles_mode [OF assms(1)]
    by (auto simp: check_option_Inr s res_bind_Inr_iff split: option.splits)
  obtain w where w: "Download_Plan.worker_request parse c credentials = Some w"
    "wr_version w = protocol_version" "wr_operation_id w = operation_id c" "wr_attempt w = attempt c"
    "wr_source_url w = source_url ?r" "wr_task w = Download (wire_mode_of (media_mode ?r))"
    "wr_options w = wire_options_of ?r" "wr_network w = None \<or> wr_network w = Some credentials"
    by (rule worker_request_built [OF assms(1)])
  have "check_option (credentials_validate proxies) (wr_network w) = Inr ()"
    using w(8) assms(4) by (auto simp: check_option_def)
  moreover have "(Download (wire_mode_of (media_mode ?r)) = Download WireSubtitles)
      = (wo_subtitles (wire_options_of ?r) \<noteq> None)"
    using modes(1) wire_subtitles_mode(1) [OF assms(1)] s by simp
  moreover have "Download (wire_mode_of (media_mode ?r)) \<in> {Download WireLinks, Download WireAudioLinks}
      \<longrightarrow> links_options_ok (Download (wire_mode_of (media_mode ?r))) (wire_options_of ?r)"
    using modes(2) [of "media_mode ?r"] wire_links_ok [OF assms(1)] by blast
  moreover have "Download (wire_mode_of (media_mode ?r)) = Download WireFormats
      \<longrightarrow> formats_options_ok (source_url ?r) (wire_options_of ?r)"
    using modes(3) [of "media_mode ?r"] wire_formats_ok [OF assms(1)] by blast
  ultimately have "worker_request_validate proxies w = Inr ()"
    unfolding worker_request_validate_def Let_def w(2-7) res_bind_Inr_iff
    using a assms(3) sub wire_options_ok [OF assms(1)] by (simp only: request_check_Inr) simp
  with w(1) show ?thesis by blast
qed

theorem worker_accepts_claims_witness:
  "\<exists>w. Download_Plan.worker_request example_parser
      \<lparr>operation_id = 7, attempt = 1, lease_token = 8, worker_id = ''w'', request = example_request,
       claim_cancel_requested = False, claim_cache_bypassed = False, lease_expires_at = 9\<rparr>
      (proxy_only None) = Some w
    \<and> worker_request_validate (\<lambda>_. None) w = Inr ()"
proof (rule worker_accepts_claims)
  show "request_wf example_parser (request \<lparr>operation_id = 7, attempt = 1, lease_token = 8,
      worker_id = ''w'', request = example_request, claim_cancel_requested = False,
      claim_cache_bypassed = False, lease_expires_at = 9\<rparr>)"
    using example_request_wf by simp
qed (simp_all add: validate_claim_def validate_worker_def byte_def is_ascii_def is_ascii_control_def
    proxy_only_def credentials_validate_def oauth_check_def check_option_def)

section \<open>Answers\<close>

text \<open>The failure codes of an execution are exactly those that the column accepts: recording a
  failure is never refused for its code, and no accepted code is out of reach.\<close>

theorem failure_codes_agree: "(\<exists>err. executor_error_code err = code) \<longleftrightarrow> code \<in> set failure_codes"
proof
  assume "\<exists>err. executor_error_code err = code"
  then obtain err where "executor_error_code err = code" by blast
  moreover have "failure_code f \<in> set failure_codes" for f
    by (cases f) (simp_all add: failure_codes_def)
  ultimately show "code \<in> set failure_codes"
    by (cases err) (auto simp: failure_codes_def)
next
  assume "code \<in> set failure_codes"
  then have "\<exists>f. failure_code f = code"
    unfolding failure_codes_def by (auto intro: failure_code.simps)
  then show "\<exists>err. executor_error_code err = code" using executor_error_code.simps(1) by metis
qed

section \<open>Artifact paths\<close>

lemma split_on_append: "split_on c (a @ c # b) = split_on c a @ split_on c b"
  by (induction a) (auto split: list.splits)


lemma split_on_hd: "starts_with s [c] \<longleftrightarrow> s \<noteq> [] \<and> hd (split_on c s) = []"
  by (cases s) (auto simp: starts_with_def split: list.splits)

definition names_file :: "string \<Rightarrow> bool" where
  "names_file p \<longleftrightarrow> p \<noteq> [] \<and> p \<noteq> ''.'' \<and> p \<noteq> ''..''"

text \<open>C10. A path that a worker may name stays beneath the directory it is joined to: the components
  of the joined path are those of the directory, then one plain name for each part of the
  path, so nothing climbs out of it and nothing replaces it.\<close>

theorem artifact_path_stays_beneath:
  assumes "artifact_path_parse v = Inr p" and "dir \<noteq> []"
  shows "components (dir @ ''/'' @ p) = components dir @ map Normal (split_on CHR ''/'' p)
    \<and> list_all names_file (split_on CHR ''/'' p)"
proof -
  let ?ps = "split_on CHR ''/'' p"
  have names: "list_all names_file ?ps"
    using assms(1)
    by (auto simp: artifact_path_parse_def names_file_def list_all_iff list_ex_iff split: if_splits)
  then have keep: "filter (\<lambda>q. q \<noteq> [] \<and> q \<noteq> ''.'') ?ps = ?ps" "map named_component ?ps = map Normal ?ps"
    by (auto simp: list_all_iff names_file_def named_component_def filter_id_conv)
  have "split_on CHR ''/'' (dir @ ''/'' @ p) = split_on CHR ''/'' dir @ ?ps"
    by (simp add: split_on_append)
  moreover have "starts_with (dir @ ''/'' @ p) ''/'' = starts_with dir ''/''"
    using assms(2) by (cases dir) (auto simp: starts_with_def)
  ultimately show ?thesis
    using names keep by (simp add: components_def Let_def)
qed

theorem artifact_path_stays_beneath_witness:
  "components ''/work/a/b.mp4'' = [RootDir, Normal ''work'', Normal ''a'', Normal ''b.mp4'']
   \<and> artifact_path_parse ''a/../../etc'' = Inl InvalidEvent"
proof -
  have ok: "artifact_path_parse ''a/b.mp4'' = Inr ''a/b.mp4''"
    by (simp add: artifact_path_parse_def has_control_def is_control_def chars_ascii is_ascii_def
        byte_def starts_with_def components_def named_component_def)
  have "components ''/work'' = [RootDir, Normal ''work'']"
    by (simp add: components_def starts_with_def named_component_def)
  moreover have "artifact_path_parse ''a/../../etc'' = Inl InvalidEvent"
    by (simp add: artifact_path_parse_def)
  ultimately show ?thesis
    using artifact_path_stays_beneath [OF ok, of "''/work''"] by simp
qed

section \<open>Limits\<close>

definition executor_ok :: "executor \<Rightarrow> bool" where
  "executor_ok ex \<longleftrightarrow>
     max_artifact_bytes (ex_limits ex) \<noteq> 0 \<and> max_workspace_bytes (ex_limits ex) \<noteq> 0
     \<and> 1 \<le> max_artifacts (ex_limits ex) \<and> max_artifacts (ex_limits ex) \<le> 500
     \<and> \<not> duration_is_zero (ex_timeout ex) \<and> \<not> duration_is_zero (ex_processing_timeout ex)
     \<and> \<not> duration_is_zero (ex_socket_timeout ex)"

lemma duration_min_le: "duration_le (duration_min a b) b"
  by (auto simp: duration_min_def duration_le_def)

lemma duration_min_zero:
  "\<not> duration_is_zero a \<Longrightarrow> \<not> duration_is_zero b \<Longrightarrow> \<not> duration_is_zero (duration_min a b)"
  by (simp add: duration_min_def)

lemma saturating_mul_pos: "a \<noteq> 0 \<Longrightarrow> 0 < n \<Longrightarrow> saturating_mul a n \<noteq> 0"
proof -
  assume "a \<noteq> 0" "0 < n"
  then have "0 < unat a * n" by (simp add: unat_gt_0)
  then have "unat (saturating_mul a n) \<noteq> 0"
    by (simp add: saturating_mul_def unsigned_of_nat take_bit_nat_eq_self)
  then show "saturating_mul a n \<noteq> 0" by auto
qed

text \<open>The settings frozen in a well-formed request always make an executor, they only lower what
  the service allows, and they leave room to run: no limit becomes zero.\<close>

theorem claim_executor_lowers:
  assumes "executor_ok ex" and "pred_option settings_wf (downloader_settings r)"
  shows "\<exists>ex'. claim_executor ex r = Inr ex' \<and> executor_ok ex'
    \<and> duration_le (ex_timeout ex') (ex_timeout ex)
    \<and> max_artifact_bytes (ex_limits ex') \<le> max_artifact_bytes (ex_limits ex)
    \<and> max_workspace_bytes (ex_limits ex') \<le> max_workspace_bytes (ex_limits ex)
    \<and> max_artifacts (ex_limits ex') \<le> max_artifacts (ex_limits ex)"
proof (cases "downloader_settings r")
  case None
  then show ?thesis using assms(1) by (simp add: claim_executor_def duration_le_def)
next
  case (Some st)
  let ?l = "ex_limits ex" and ?t = "secs (unat (download_timeout st))"
  let ?bytes = "max_file_size_mb st * 1024 * 1024"
  have "60 \<le> download_timeout st" "download_timeout st \<le> 86400" "1 \<le> max_file_size_mb st"
    "max_file_size_mb st \<le> 2048"
    using assms(2) Some by (auto simp: settings_wf_def settings_validate_def split: if_splits)
  then have st: "60 \<le> unat (download_timeout st)" "unat (download_timeout st) \<le> 86400"
    "1 \<le> unat (max_file_size_mb st)" "unat (max_file_size_mb st) \<le> 2048"
    by (simp_all add: word_le_nat_alt)
  have bytes: "unat ?bytes = unat (max_file_size_mb st) * 1048576"
    using st by (simp add: unat_word_ariths)
  have b: "?bytes \<noteq> 0" "\<not> ?bytes > 2 * 1024 * 1024 * 1024"
    using st bytes by (auto simp: word_less_nat_alt unat_eq_0 [symmetric] simp del: unat_eq_0)
  have t: "\<not> duration_is_zero ?t" "duration_le ?t (secs 86400)" "subsec_nanos ?t = 0"
    using st by (auto simp: duration_is_zero_def duration_le_def secs_def)
  have n: "max_artifacts ?l \<noteq> 0" "\<not> max_artifacts ?l > 500" using assms(1) by (auto simp: executor_ok_def)
  define ex' where "ex' = \<lparr>ex_timeout = duration_min ?t (ex_timeout ex),
    ex_processing_timeout = duration_min (ex_processing_timeout ex) (duration_min ?t (ex_timeout ex)),
    ex_socket_timeout = duration_min (ex_socket_timeout ex) (duration_min ?t (ex_timeout ex)),
    ex_limits = \<lparr>max_artifact_bytes = min ?bytes (max_artifact_bytes ?l),
      max_workspace_bytes = min (max_workspace_bytes ?l)
        (saturating_mul (min ?bytes (max_artifact_bytes ?l)) (max_artifacts ?l)),
      max_artifacts = max_artifacts ?l\<rparr>\<rparr>"
  have call: "claim_executor ex r = Inr ex'"
    using Some t b n by (simp add: claim_executor_def with_operation_limits_def Let_def ex'_def)
  have m: "min ?bytes (max_artifact_bytes ?l) \<noteq> 0"
    using b(1) assms(1) by (simp add: min_def executor_ok_def)
  have "executor_ok ex'"
    using assms(1) t(1) m saturating_mul_pos [OF m, of "max_artifacts ?l"]
    by (auto simp: executor_ok_def ex'_def duration_min_zero min_def)
  moreover have "duration_le (ex_timeout ex') (ex_timeout ex)" by (simp add: ex'_def duration_min_le)
  ultimately show ?thesis using call by (simp add: ex'_def)
qed

theorem claim_executor_lowers_witness:
  "\<exists>ex'. claim_executor \<lparr>ex_timeout = secs 600, ex_processing_timeout = secs 600,
      ex_socket_timeout = secs 30, ex_limits = \<lparr>max_artifact_bytes = 2000000000,
        max_workspace_bytes = 4000000000, max_artifacts = 10\<rparr>\<rparr>
      (example_request\<lparr>downloader_settings := Some downloader_settings_default\<rparr>) = Inr ex'
    \<and> max_artifact_bytes (ex_limits ex') \<le> 2000000000"
proof -
  let ?ex = "\<lparr>ex_timeout = secs 600, ex_processing_timeout = secs 600, ex_socket_timeout = secs 30,
    ex_limits = \<lparr>max_artifact_bytes = 2000000000, max_workspace_bytes = 4000000000,
      max_artifacts = 10\<rparr>\<rparr>"
  have "executor_ok ?ex" by (simp add: executor_ok_def duration_is_zero_def secs_def)
  moreover have "settings_wf downloader_settings_default"
    by (simp add: settings_wf_def settings_validate_def downloader_settings_default_def rate_limit_ok_def)
  ultimately show ?thesis
    using claim_executor_lowers [of ?ex
        "example_request\<lparr>downloader_settings := Some downloader_settings_default\<rparr>"] by auto
qed

end
