(* ===== verification/Download_Success.thy ===== *)
theory Download_Success
  imports Download_Safety Worker_Facts
begin

text \<open>
  That the work gets done: when nothing interferes, the lease lives, every check passes and the
  transport confirms what it is given, working on a claim ends with every artifact sent and the
  operation succeeded.
\<close>

section \<open>The tables while a batch goes out\<close>

text \<open>The claim holds the operation at least until \<open>x\<close>; \<open>m\<close> of \<open>n\<close> artifacts went out in \<open>k\<close>
  units.\<close>

definition on_batch :: "claim \<Rightarrow> int \<Rightarrow> nat \<Rightarrow> nat \<Rightarrow> nat \<Rightarrow> db \<Rightarrow> bool" where
  "on_batch c x n k m d \<longleftrightarrow>
     db_inv d
     \<and> (\<exists>r \<in> set (ops d). fenced c x r \<and> op_status r = Delivering \<and> \<not> op_cancel_requested r
          \<and> op_planned r = Some (int n) \<and> op_delivered r = int m)
     \<and> list_all (\<lambda>u. u_status u = Sent) (attempt_units (operation_id c) (sint (attempt c)) d)
     \<and> map u_ordinal (attempt_units (operation_id c) (sint (attempt c)) d) = map int [0 ..< k]"

definition delivered_all :: "claim \<Rightarrow> nat \<Rightarrow> db \<Rightarrow> bool" where
  "delivered_all c n d \<longleftrightarrow>
     (\<exists>r \<in> set (ops d). op_id r = operation_id c \<and> op_status r = Succeeded \<and> op_delivered r = int n)"

lemma next_ordinal_upt: "map u_ordinal us = map int [0 ..< k] \<Longrightarrow> next_ordinal us = int k"
proof (cases k)
  case (Suc i)
  assume h: "map u_ordinal us = map int [0 ..< k]"
  have "Max (int ` {0 ..< Suc i}) = int i"
    by (rule Max_eqI) auto
  with h Suc show ?thesis by (auto simp: next_ordinal_def simp del: upt_Suc)
qed (simp add: next_ordinal_def)

lemma uint_small: "n \<le> 100 \<Longrightarrow> uint (of_nat n :: u32) = int n"
  by (simp add: unsigned_of_nat take_bit_nat_eq_self)

lemma run_worker_inv: "db_inv d \<Longrightarrow> steady e \<Longrightarrow> db_inv (snd (run_worker digest e c wc d))"
  using store_steps_inv [OF worker_call_step] .

lemma begin_unit_goes:
  assumes b: "on_batch c x n k m d" and e: "up e" "clock e 0 \<le> x" and c: "validate_claim c = Inr ()"
    and k: "k \<le> 99" and j: "1 \<le> j" "j \<le> 10" "m + j \<le> n"
  shows "begin_delivery_unit e c (of_nat k) (of_nat j) d
    = (Inr True, d\<lparr>units := units d @ [new_unit c (int k) (int j) (clock e 0)]\<rparr>)"
proof -
  let ?us = "attempt_units (operation_id c) (sint (attempt c)) d"
  let ?u = "new_unit c (int k) (int j) (clock e 0)"
  obtain r where r: "r \<in> set (ops d)" "fenced c x r" "op_status r = Delivering"
    "\<not> op_cancel_requested r" "op_planned r = Some (int n)" "op_delivered r = int m"
    and us: "list_all (\<lambda>u. u_status u = Sent) ?us" "map u_ordinal ?us = map int [0 ..< k]"
    and inv: "db_inv d"
    using b unfolding on_batch_def by blast
  have id: "op_id r = operation_id c" "op_attempt r = sint (attempt c)"
    using r(2) by (simp_all add: fenced_def)
  have "op_delivered r = sent_sum (attempt_units (op_id r) (op_attempt r) d)"
    using delivering_batch [OF db_inv_row [OF inv r(1)] r(3)]
    unfolding batch_inv_def attempt_units_eq by blast
  then have ready: "unit_ready c (int k) (int j) (clock e 0) d r"
    using r id us j fenced_mono [OF r(2) e(2)] next_ordinal_upt [OF us(2)]
    by (simp add: unit_ready_def Let_def)
  have "unit_key ?u \<notin> set (map unit_key (units d))"
  proof
    assume "unit_key ?u \<in> set (map unit_key (units d))"
    then obtain v where "v \<in> set ?us" "u_ordinal v = int k"
      by (auto simp: new_unit_def unit_key_def attempt_units_def)
    then have "int k \<in> set (map u_ordinal ?us)" by force
    then show False by (simp only: us(2)) auto
  qed
  moreover have "unit_checks ?u"
    using db_inv_row [OF inv r(1)] r(3) id j k by (simp add: new_unit_def unit_checks_def row_inv_def)
  ultimately have "sql_begin_delivery_unit c (int k) (int j) (clock e 0) d
      = Inr (1, d\<lparr>units := units d @ [?u]\<rparr>)"
    using r(1) ready by (auto simp: sql_begin_delivery_unit_def Let_def list_ex_iff)
  moreover have "uint (of_nat k :: u32) = int k" "uint (of_nat j :: u32) = int j"
    using k j by (simp_all add: uint_small)
  moreover have "\<not> (of_nat k :: u32) > 99" "(1 :: u32) \<le> of_nat j" "(of_nat j :: u32) \<le> 10"
    using k j by (simp_all add: word_le_nat_alt word_less_nat_alt unsigned_of_nat take_bit_nat_eq_self)
  ultimately show ?thesis
    using c e(1) by (simp add: begin_delivery_unit_def checked_def is_one_def execute_def)
qed


lemma complete_unit_goes:
  assumes b: "on_batch c x n k m d" and e: "up e" "steady e" "clock e 1 \<le> x"
    and c: "validate_claim c = Inr ()" and k: "k \<le> 99" and inv1: "db_inv d1"
    and d1: "d1 = d\<lparr>units := units d @ [new_unit c (int k) (int j) t]\<rparr>"
    and ids: "message_ids_ok ids" "length ids = j" and n: "m + j \<le> n"
  obtains d2 where "complete_delivery_unit e c (of_nat k) ids d1 = (Inr True, d2)"
    "if m + j = n then delivered_all c n d2 else on_batch c x n (Suc k) (m + j) d2"
proof -
  let ?a = "attempt_units (operation_id c) (sint (attempt c))"
  let ?u = "new_unit c (int k) (int j) t"
  obtain r where r: "r \<in> set (ops d)" "fenced c x r" "op_status r = Delivering"
    "\<not> op_cancel_requested r" "op_planned r = Some (int n)" "op_delivered r = int m"
    and us: "list_all (\<lambda>u. u_status u = Sent) (?a d)" "map u_ordinal (?a d) = map int [0 ..< k]"
    using b unfolding on_batch_def by blast
  let ?g = "\<lambda>u. u\<lparr>u_status := Sent, u_messages := Some (map sint ids), u_updated_at := clock e 0\<rparr>"
  let ?f = "sent_row (int j) (sint (last ids)) (clock e 1)"
  let ?d2 = "d1\<lparr>units := update_where (\<lambda>x. x = ?u) ?g (units d1),
      ops := update_where (\<lambda>x. x = r) ?f (ops d1)\<rparr>"
  have k': "uint (of_nat k :: u32) = int k" using k by (simp add: uint_small)
  have ok: "unit_transaction_ok e c (of_nat k)"
    using e c k by (simp add: unit_transaction_ok_def word_le_nat_alt unsigned_of_nat
        take_bit_nat_eq_self)
  have "unit_in_flight c (uint (of_nat k :: u32)) (clock e 1) d1 r ?u"
    using r fenced_mono [OF r(2) e(3)] k'
    by (simp add: unit_in_flight_def d1 this_unit_def new_unit_def)
  from complete_unit_true [OF inv1 ok ids(1) this] have
    call: "complete_delivery_unit e c (of_nat k) ids d1 = (Inr True, ?d2)"
    by (simp add: new_unit_def ids(2))
  have old: "?u \<notin> set (units d)"
    using inv1 by (auto simp: db_inv_def d1)
  then have units: "units ?d2 = units d @ [?g ?u]"
    by (auto simp: d1 update_where_def intro: map_idI)
  then have a: "?a ?d2 = ?a d @ [?g ?u]" by (simp add: attempt_units_def new_unit_def)
  have row: "?f r \<in> set (ops ?d2)" using r(1) by (auto simp: d1 update_where_def)
  have "db_inv ?d2"
    using run_worker_inv [OF inv1 e(2), of _ c "CompleteUnit (of_nat k) ids"] call by simp
  moreover have "fenced c x (?f r) \<and> op_status (?f r) = Delivering \<and> \<not> op_cancel_requested (?f r)
      \<and> op_planned (?f r) = Some (int n) \<and> op_delivered (?f r) = int (m + j)" if "m + j \<noteq> n"
    using that r by (auto simp: sent_row_def Let_def fenced_def lease_live_def)
  moreover have "list_all (\<lambda>u. u_status u = Sent) (?a ?d2)"
    "map u_ordinal (?a ?d2) = map int [0 ..< Suc k]"
    unfolding a using us by (simp_all add: new_unit_def)
  ultimately have "on_batch c x n (Suc k) (m + j) ?d2" if "m + j \<noteq> n"
    using that row unfolding on_batch_def by blast
  moreover have "op_id (?f r) = operation_id c \<and> op_status (?f r) = Succeeded
      \<and> op_delivered (?f r) = int n" if "m + j = n"
    using that r by (auto simp: sent_row_def Let_def fenced_def release_def)
  then have "delivered_all c n ?d2" if "m + j = n"
    using that row unfolding delivered_all_def by blast
  ultimately show thesis using call by (intro that [of ?d2]) (simp_all split: if_split)
qed

lemma begin_batch_goes:
  assumes inv: "db_inv d" and e: "up e" "steady e" "clock e 0 \<le> x" and c: "validate_claim c = Inr ()"
    and n: "1 \<le> n" "n \<le> 100"
    and r: "r \<in> set (ops d)" "fenced c x r" "op_status r = Running" "\<not> op_cancel_requested r"
  obtains d1 where "begin_delivery_batch e c (of_nat n) d = (Inr True, d1)" "on_batch c x n 0 0 d1"
proof -
  let ?f = "\<lambda>r. r\<lparr>op_status := Delivering, op_planned := Some (int n), op_delivered := 0,
      op_delivery_started_at := Some (clock e 0), op_updated_at := clock e 0\<rparr>"
  let ?p = "\<lambda>r. fenced c (clock e 0) r \<and> op_status r = Running \<and> \<not> op_cancel_requested r"
  let ?d1 = "d\<lparr>ops := update_where (\<lambda>x. x = r) ?f (ops d)\<rparr>"
  have n': "uint (of_nat n :: u32) = int n" "(1 :: u32) \<le> of_nat n" "(of_nat n :: u32) \<le> 100"
    using n by (simp_all add: uint_small word_le_nat_alt unsigned_of_nat take_bit_nat_eq_self)
  have "op_checks (?f s)" if "s \<in> set (ops d)" "?p s" for s
    using db_inv_checks [OF inv that(1)] that(2) n by (simp add: op_checks_def leased_def)
  then have "update_ops ?p ?f d \<noteq> Inl Database" by (rule update_ops_not_database)
  then have upd: "update_ops ?p ?f d = Inr (1, ?d1)"
    by (intro update_ops_one [OF inv r(1)]) (use r fenced_mono [OF r(2) e(3)] in \<open>auto simp: fenced_def\<close>)
  then have call: "begin_delivery_batch e c (of_nat n) d = (Inr True, ?d1)"
    using c n' e(1)
    by (simp add: begin_delivery_batch_def checked_def is_one_def execute_def
        sql_begin_delivery_batch_def)
  have "this_attempt r (units_of (op_id r) d) = []"
    using db_inv_row [OF inv r(1)] r(3) by (simp add: row_inv_def)
  then have none: "attempt_units (operation_id c) (sint (attempt c)) ?d1 = []"
    using r(2) unfolding attempt_units_eq [symmetric] by (simp add: attempt_units_def fenced_def)
  have "db_inv ?d1" using run_worker_inv [OF inv e(2), of _ c "BeginBatch (of_nat n)"] call by simp
  moreover have "?f r \<in> set (ops ?d1)" using r(1) by (auto simp: update_where_def)
  moreover have "fenced c x (?f r)" using r(2) by (simp add: fenced_def lease_live_def)
  ultimately have "on_batch c x n 0 0 ?d1"
    unfolding on_batch_def none using r(4) by (intro conjI bexI [of _ "?f r"]) simp_all
  with call show thesis by (rule that)
qed


section \<open>A smooth world\<close>

definition confirms :: "delivered_media list \<Rightarrow> nat \<Rightarrow> bool" where
  "confirms rs n \<longleftrightarrow> length rs = n \<and> message_ids_ok (map dm_message_id rs)"

text \<open>Nothing interferes before \<open>x\<close>: no other task writes, no fault, no shutdown and no cancel
  request, every identity is allowed and every profile resolves, the policy blocks nothing, and
  the transport confirms what it is given.\<close>

definition smooth :: "world \<Rightarrow> claim \<Rightarrow> int \<Rightarrow> bool" where
  "smooth w c x \<longleftrightarrow>
     (\<forall>k d. w_others w k d = d)
     \<and> (\<forall>k. up (w_env w k) \<and> steady (w_env w k) \<and> (\<forall>j. clock (w_env w k) j \<le> x))
     \<and> (\<forall>m. \<not> w_shutdown w m) \<and> (\<forall>m. w_beat w m = NoBeat)
     \<and> (\<forall>m g. \<exists>i. w_identity w m (actor_id (request c)) g = Identity i \<and> id_allowed i)
     \<and> (\<forall>m who. \<exists>cr. w_resolve w m (actor_id (request c)) (source_host (request c)) who
          (network (request c)) = Inr cr)
     \<and> (\<forall>k chat ms. \<exists>p. w_policy w k (request c) chat ms = Some p \<and> \<not> blocked p)
     \<and> (\<forall>k media. length media \<in> {1 .. 10} \<longrightarrow>
          (\<exists>rs. w_deliver w k media = ([], Answered (Inr rs)) \<and> confirms rs (length media)))"

definition addressed :: "service \<Rightarrow> download_request \<Rightarrow> bool" where
  "addressed sv r \<longleftrightarrow>
     actor_id r \<noteq> 0 \<and> actor_id r \<le> 0x7FFFFFFFFFFFFFFF \<and> 0 < sint (sv_bot_id sv)
     \<and> (case target r of
          None \<Rightarrow> \<not> is_formats r
        | Some t \<Rightarrow> \<not> target_denied sv (actor_id r) t
            \<and> (is_formats r \<longrightarrow> chat_id t = actor_id r \<and> thread_id t = None))"

lemma actor_positive:
  assumes "n \<noteq> 0" and "n \<le> i64_max" shows "0 < sint (n :: u64)"
proof -
  have "uint n < 2 ^ 63" "0 < uint n"
    using assms uint_ge_0 [of n] unsigned_eq_0_iff [of n, where 'a = int]
    by (auto simp: word_le_def less_le)
  then show ?thesis by (simp add: sint_uint signed_take_bit_int_eq_self)
qed

lemma smooth_authorized:
  assumes "smooth w c x" and "addressed sv (request c)"
  shows "\<exists>who. authorize_request sv (w_identity w m) (request c) = Inr who"
    and "effective_target sv (request c) = Some t \<Longrightarrow>
      \<exists>who. authorize_target sv (w_identity w m) (actor_id (request c)) (Some t) = Inr who"
    and "\<exists>t. effective_target sv (request c) = Some t"
proof -
  let ?r = "request c"
  have id: "\<exists>i. w_identity w m (actor_id ?r) g = Identity i \<and> id_allowed i" for g
    using assms(1) unfolding smooth_def by blast
  have actor: "0 < sint (actor_id ?r)" "\<not> sint (actor_id ?r) < 0" "actor_id ?r \<noteq> 0"
    "\<not> actor_id ?r > i64_max"
    using assms(2) actor_positive [of "actor_id ?r"] by (auto simp: addressed_def)
  have ok: "\<exists>who. authorize_target sv (w_identity w m) (actor_id ?r) t = Inr who"
    if "case t of None \<Rightarrow> True | Some t \<Rightarrow> \<not> target_denied sv (actor_id ?r) t" for t
    using id [of None] id [of "Some (chat_id (the t), thread_id (the t))"] that actor
    by (auto simp: authorize_target_def Let_def split: option.splits)
  show "\<exists>who. authorize_request sv (w_identity w m) ?r = Inr who"
    using assms(2) ok [of "target ?r"]
    by (auto simp: authorize_request_def addressed_def target_denied_def split: option.splits)
  show "\<exists>t. effective_target sv ?r = Some t"
    using assms(2) actor by (auto simp: effective_target_def addressed_def delivery_target_new_def
        split: option.splits)
  show "\<exists>who. authorize_target sv (w_identity w m) (actor_id ?r) (Some t) = Inr who"
    if "effective_target sv ?r = Some t"
    by (rule ok) (use that assms(2) actor in \<open>auto simp: effective_target_def addressed_def
        delivery_target_new_def target_denied_def split: option.splits if_splits\<close>)
qed


section \<open>The units go out\<close>

lemma store_call_smooth:
  "smooth w c x \<Longrightarrow> store_call w f s
     = (let (r, d) = f (w_env w (r_calls s)) (r_db s) in (r, s\<lparr>r_db := d, r_calls := Suc (r_calls s)\<rparr>))"
  by (simp add: store_call_def smooth_def)

lemma smooth_env: "smooth w c x \<Longrightarrow> up (w_env w k) \<and> steady (w_env w k) \<and> clock (w_env w k) j \<le> x"
  by (simp add: smooth_def)

lemma confirmed_outcome: "confirms rs n \<Longrightarrow> outcome_of n (Inr rs) = Delivered rs"
  by (auto simp: outcome_of_def confirms_def message_ids_ok_def list_all_iff)

lemma send_unit_goes:
  assumes w: "smooth w c x" and c: "validate_claim c = Inr ()" and b: "on_batch c x n k m (r_db s)"
    and k: "k \<le> 99" and j: "length indices \<in> {1 .. 10}" "m + length indices \<le> n"
    and media: "length (fst (take_media indices (ls_artifacts ls))) = length indices"
    and ls: "\<not> ls_cancelled ls"
  obtains ls' s' where "send_unit digest w c bt who spoils k indices ls s = (Continue ls', s')"
    "\<not> ls_cancelled ls'" "ls_artifacts ls' = snd (take_media indices (ls_artifacts ls))"
    "length (r_sends s') = Suc (length (r_sends s))"
    "if m + length indices = n then delivered_all c n (r_db s')
     else on_batch c x n (Suc k) (m + length indices) (r_db s')"
proof -
  let ?e = "w_env w (r_calls s)" and ?e' = "w_env w (Suc (r_calls s))" and ?j = "length indices"
  let ?media = "fst (take_media indices (ls_artifacts ls))"
  obtain rs where rs: "w_deliver w k ?media = ([], Answered (Inr rs))" "confirms rs ?j"
    using w j(1) media unfolding smooth_def by metis
  let ?ids = "map dm_message_id rs"
  let ?d1 = "r_db s\<lparr>units := units (r_db s) @ [new_unit c (int k) (int ?j) (clock ?e 0)]\<rparr>"
  have begin_call: "begin_delivery_unit ?e c (of_nat k) (of_nat ?j) (r_db s) = (Inr True, ?d1)"
    by (rule begin_unit_goes [OF b]) (use smooth_env [OF w] c k j in auto)
  have "db_inv (r_db s)" using b by (simp add: on_batch_def)
  from run_worker_inv [OF this, of ?e _ c "BeginUnit (of_nat k) (of_nat ?j)"] smooth_env [OF w]
  have inv1: "db_inv ?d1" by (simp add: begin_call)
  obtain d2 where complete_call: "complete_delivery_unit ?e' c (of_nat k) ?ids ?d1 = (Inr True, d2)"
    and d2: "if m + ?j = n then delivered_all c n d2 else on_batch c x n (Suc k) (m + ?j) d2"
    by (rule complete_unit_goes [OF b _ _ _ c k inv1 refl, of ?e' ?ids])
      (use smooth_env [OF w] rs(2) j in \<open>auto simp: confirms_def\<close>)
  let ?ls' = "ls\<lparr>ls_artifacts := snd (take_media indices (ls_artifacts ls)), ls_cancelled := False,
    ls_diagnosed := b_diagnostic bt \<noteq> None, ls_confirmed := ls_confirmed ls @ map dm_file_id rs\<rparr>"
  let ?o = "send_unit digest w c bt who spoils k indices ls s"
  have quiet: "\<not> w_shutdown w mo" for mo using w by (simp add: smooth_def)
  have "fst ?o = Continue ?ls' \<and> r_db (snd ?o) = d2 \<and> length (r_sends (snd ?o)) = Suc (length (r_sends s))"
    using ls begin_call complete_call rs quiet
    by (simp add: send_unit_def store_call_smooth [OF w] Let_def case_prod_beta confirmed_outcome
        settle_unit_def after_unit_def)
  then show thesis using d2 by (intro that [of ?ls' "snd ?o"]) (simp_all add: prod_eq_iff)
qed

lemma deliver_unit_smooth:
  assumes w: "smooth w c x" and sv: "addressed sv (request c)"
    and t: "effective_target sv (request c) = Some (b_target bt)"
    and meta: "is_formats (request c) \<or> b_metadata bt \<noteq> None" and ls: "\<not> ls_cancelled ls"
  obtains who spoils where "deliver_unit digest sv w c bt k indices ls s
    = send_unit digest w c bt who spoils k indices ls s"
proof -
  let ?r = "request c"
  obtain who where who: "(if is_formats ?r then authorize_request sv (w_identity w (BeforeUnit k)) ?r
      else authorize_target sv (w_identity w (BeforeUnit k)) (actor_id ?r) (Some (b_target bt))) = Inr who"
    using smooth_authorized(1) [OF w sv] smooth_authorized(2) [OF w sv t] by (cases "is_formats ?r") auto
  obtain cr where cr: "w_resolve w (BeforeUnit k) (actor_id ?r) (source_host ?r) who (network ?r) = Inr cr"
    using w unfolding smooth_def by blast
  have "\<exists>p. unit_policy w c bt k = Some p \<and> \<not> blocked p"
  proof (cases "is_formats ?r")
    case False
    then obtain m where "b_metadata bt = Some m" using meta by auto
    then show ?thesis using w False unfolding smooth_def unit_policy_def by auto
  qed (simp add: unit_policy_def)
  then obtain p where p: "unit_policy w c bt k = Some p" "\<not> blocked p" by blast
  have "\<not> w_shutdown w (BeforeUnit k)" using w by (simp add: smooth_def)
  with who cr p ls show thesis
    by (intro that [of who "spoiler p"]) (simp add: deliver_unit_def Let_def)
qed

lemma deliver_units_goes:
  assumes w: "smooth w c x" and c: "validate_claim c = Inr ()" and sv: "addressed sv (request c)"
    and t: "effective_target sv (request c) = Some (b_target bt)"
    and meta: "is_formats (request c) \<or> b_metadata bt \<noteq> None"
  shows "\<lbrakk>on_batch c x n k m (r_db s); us \<noteq> []; k + length us \<le> 100;
      list_all (\<lambda>u. length u \<in> {1 .. 10}) us; m + length (concat us) = n; distinct (concat us);
      length (ls_artifacts ls) = length artifacts;
      \<forall>i \<in> set (concat us). i < length artifacts \<and> ls_artifacts ls ! i = Some (artifacts ! i);
      \<not> ls_cancelled ls\<rbrakk> \<Longrightarrow>
    \<exists>ls' s'. deliver_units digest sv w c bt k us ls s = (Break ls', s') \<and> \<not> ls_cancelled ls'
      \<and> length (r_sends s') = length (r_sends s) + length us \<and> delivered_all c n (r_db s')"
proof (induction us arbitrary: k m ls s)
  case (Cons u us)
  have u: "distinct u" "\<And>i. i \<in> set u \<Longrightarrow> i < length (ls_artifacts ls) \<and> ls_artifacts ls ! i = Some (artifacts ! i)"
    using Cons.prems by auto
  note taken = taken_unit [OF u]
  obtain who spoils where d: "deliver_unit digest sv w c bt k u ls s = send_unit digest w c bt who spoils k u ls s"
    by (rule deliver_unit_smooth [OF w sv t meta Cons.prems(9)])
  have small: "k \<le> 99" "length u \<in> {1 .. 10}" "m + length u \<le> n" using Cons.prems by auto
  have media: "length (fst (take_media u (ls_artifacts ls))) = length u" by (simp add: taken(1))
  obtain ls1 s1 where one: "send_unit digest w c bt who spoils k u ls s = (Continue ls1, s1)"
    "\<not> ls_cancelled ls1" "ls_artifacts ls1 = snd (take_media u (ls_artifacts ls))"
    "length (r_sends s1) = Suc (length (r_sends s))"
    "if m + length u = n then delivered_all c n (r_db s1)
     else on_batch c x n (Suc k) (m + length u) (r_db s1)"
    using send_unit_goes [OF w c Cons.prems(1) small(1,2,3) media Cons.prems(9)] by metis
  show ?case
  proof (cases "us = []")
    case True
    then show ?thesis using Cons.prems(5) one d by simp
  next
    case False
    then have more: "length (concat us) > 0" using Cons.prems(4)
      by (cases us) (auto simp: Suc_le_eq)
    have "m + length u \<noteq> n" using more Cons.prems(5) by (simp del: length_concat length_greater_0_conv)
    with one(5) have next_db: "on_batch c x n (Suc k) (m + length u) (r_db s1)" by simp
    have "\<exists>ls' s'. deliver_units digest sv w c bt (Suc k) us ls1 s1 = (Break ls', s') \<and> \<not> ls_cancelled ls'
      \<and> length (r_sends s') = length (r_sends s1) + length us \<and> delivered_all c n (r_db s')"
    proof (rule Cons.IH [OF next_db False])
      show "\<forall>i \<in> set (concat us). i < length artifacts \<and> ls_artifacts ls1 ! i = Some (artifacts ! i)"
      proof
        fix i assume "i \<in> set (concat us)"
        with Cons.prems(6,7,8) have "i \<notin> set u" "i < length artifacts" "i < length (ls_artifacts ls)"
          "ls_artifacts ls ! i = Some (artifacts ! i)" by auto
        with one(3) taken(3) show "i < length artifacts \<and> ls_artifacts ls1 ! i = Some (artifacts ! i)"
          by simp
      qed
    qed (use Cons.prems one taken(2) in auto)
    with one d show ?thesis by auto
  qed
qed simp

lemma finish_delivery_keeps:
  assumes w: "smooth w c x" and ls: "\<not> ls_cancelled ls"
  shows "fst (finish_delivery digest sv w c bt artifacts ls s) = Inr ()"
    and "ops (r_db (snd (finish_delivery digest sv w c bt artifacts ls s))) = ops (r_db s)"
    and "r_sends (snd (finish_delivery digest sv w c bt artifacts ls s)) = r_sends s"
proof -
  define t where "t = (case media_to_publish sv w c bt artifacts (end_of_loop (w_beat w AtEnd) ls) of
      None \<Rightarrow> s
    | Some media \<Rightarrow>
        snd (store_call w (\<lambda>e. publish_media_cache digest e c media (dc_cache_ttl (sv_config sv))) s))"
  have t: "ops (r_db t) = ops (r_db s)"
    by (simp add: t_def store_call_smooth [OF w] case_prod_beta publish_same_tables split: option.splits)
  then show "fst (finish_delivery digest sv w c bt artifacts ls s) = Inr ()"
    "ops (r_db (snd (finish_delivery digest sv w c bt artifacts ls s))) = ops (r_db s)"
    unfolding finish_delivery_def Let_def t_def [symmetric]
    by (auto split: option.splits sum.splits)
  show "r_sends (snd (finish_delivery digest sv w c bt artifacts ls s)) = r_sends s"
    by (rule quiet.rel_finish_delivery)
qed

lemma plan_unit_sizes:
  "list_all (\<lambda>u. length u \<in> {1 .. 10}) (plan_delivery_units as_file artifacts)
   \<and> length (concat (plan_delivery_units as_file artifacts)) = length artifacts
   \<and> length (plan_delivery_units as_file artifacts) \<le> length artifacts"
proof -
  let ?cs = "map (artifact_category as_file) artifacts"
  have "length u \<in> {1 .. 10}" if "good_unit ?cs u" for u
    using good_unit_bounds [OF that] by (cases u) auto
  then have "list_all (\<lambda>u. length u \<in> {1 .. 10}) (plan_categories ?cs)"
    using plan_categories_spec [of ?cs] unfolding list_all_iff by blast
  then show ?thesis
    using plan_categories_spec [of ?cs] plan_length [of ?cs] by (simp add: plan_delivery_units_def)
qed


lemma deliver_batch_goes:
  assumes w: "smooth w c x" and c: "validate_claim c = Inr ()" and sv: "addressed sv (request c)"
    and n: "1 \<le> length artifacts" "length artifacts \<le> 100"
    and meta: "\<forall>a \<in> set artifacts. artifact_metadata a \<noteq> None" and inv: "db_inv (r_db s)"
    and r: "r \<in> set (ops (r_db s))" "fenced c x r" "op_status r = Running" "\<not> op_cancel_requested r"
  shows "\<exists>s'. deliver_batch digest sv w c artifacts revision s = (Inr (), s')
    \<and> delivered_all c (length artifacts) (r_db s')
    \<and> length (r_sends s') = length (r_sends s)
        + length (plan_delivery_units (send_as_file (params (request c))) artifacts)"
proof -
  let ?n = "length artifacts" and ?us = "plan_delivery_units (send_as_file (params (request c))) artifacts"
  obtain t where t: "effective_target sv (request c) = Some t" using smooth_authorized(3) [OF w sv] by blast
  obtain d1 where d1: "begin_delivery_batch (w_env w (r_calls s)) c (of_nat ?n) (r_db s) = (Inr True, d1)"
    "on_batch c x ?n 0 0 d1"
    by (rule begin_batch_goes [OF inv _ _ _ c n r, of "w_env w (r_calls s)"]) (use smooth_env [OF w] in auto)
  let ?s1 = "s\<lparr>r_db := d1, r_calls := Suc (r_calls s)\<rparr>"
  let ?b = "\<lparr>b_target = t, b_metadata = all_some (map artifact_metadata artifacts),
    b_revision = revision, b_diagnostic = diagnostic_of c artifacts\<rparr>"
  let ?ls = "\<lparr>ls_artifacts = map Some artifacts, ls_cancelled = False, ls_confirmed = [],
    ls_diagnosed = False\<rparr>"
  have "all_some xs \<noteq> None" if "\<forall>y \<in> set xs. y \<noteq> None" for xs :: "content_metadata option list"
    using that by (induction xs) auto
  then have m: "is_formats (request c) \<or> b_metadata ?b \<noteq> None" using meta by simp
  have sizes: "list_all (\<lambda>u. length u \<in> {1 .. 10}) ?us" "length (concat ?us) = ?n" "length ?us \<le> ?n"
    using plan_unit_sizes by blast+
  then have "?us \<noteq> []" using n(1) by auto
  have "\<exists>ls' s'. deliver_units digest sv w c ?b 0 ?us ?ls ?s1 = (Break ls', s') \<and> \<not> ls_cancelled ls'
      \<and> length (r_sends s') = length (r_sends ?s1) + length ?us \<and> delivered_all c ?n (r_db s')"
  proof (rule deliver_units_goes [OF w c sv _ m, where artifacts = artifacts])
    show "\<forall>i \<in> set (concat ?us). i < ?n \<and> ls_artifacts ?ls ! i = Some (artifacts ! i)"
      using plan_ready [of "send_as_file (params (request c))" artifacts] by simp
    show "distinct (concat ?us)" using plan_ready by blast
  qed (use t d1 sizes \<open>?us \<noteq> []\<close> n in simp_all)
  then obtain ls' s' where go: "deliver_units digest sv w c ?b 0 ?us ?ls ?s1 = (Break ls', s')"
    "\<not> ls_cancelled ls'" "length (r_sends s') = length (r_sends s) + length ?us"
    "delivered_all c ?n (r_db s')" by auto
  have eq: "deliver_batch digest sv w c artifacts revision s = finish_delivery digest sv w c ?b artifacts ls' s'"
    using d1(1) t go(1) by (simp add: deliver_batch_def store_call_smooth [OF w] Let_def)
  note keeps = finish_delivery_keeps [OF w go(2), of digest sv ?b artifacts s']
  show ?thesis
    unfolding eq using keeps go(3,4)
    by (intro exI [of _ "snd (finish_delivery digest sv w c ?b artifacts ls' s')"])
      (simp add: prod_eq_iff delivered_all_def)
qed

lemma sends_all_media:
  assumes "sends_prefix artifacts (plan_delivery_units as_file artifacts) 0
      (length (plan_delivery_units as_file artifacts)) xs"
  shows "concat (map sd_media xs) = artifacts"
proof -
  let ?us = "plan_delivery_units as_file artifacts"
  have p: "map sd_indices xs = ?us" "\<forall>x \<in> set xs. sd_media x = map (nth artifacts) (sd_indices x)"
    using assms by (simp_all add: sends_prefix_def)
  have "concat (map sd_media xs) = map (nth artifacts) (concat (map sd_indices xs))"
    using p(2) by (simp add: map_concat comp_def cong: map_cong)
  also have "concat (map sd_indices xs) = [0 ..< length artifacts]"
    using p(1) plan_categories_spec [of "map (artifact_category as_file) artifacts"]
    by (simp add: plan_delivery_units_def)
  finally show ?thesis by (simp add: map_nth)
qed

lemma claim_goes:
  assumes "smooth w c x" and "addressed sv (request c)" and "request_wf parse (request c)"
    and "validate_claim c = Inr ()" and "\<not> claim_cancel_requested c" and "db_inv (r_db s)"
    and "r \<in> set (ops (r_db s))" and "fenced c x r" and "op_status r = Running"
    and "\<not> op_cancel_requested r" and "claim_executor (sv_executor sv) (request c) = Inr ex"
    and "\<forall>b. lookup_media_cache digest (w_env w (r_calls s)) (request c) (r_db s) \<noteq> Inr (Some b)"
    and "\<forall>wr. w_execution w ex wr = ([], Inr artifacts)"
    and "length artifacts \<in> {1 .. 100}" and "\<forall>a \<in> set artifacts. va_metadata a \<noteq> None"
  shows "\<exists>s' xs. process_claim parse digest sv w c s = (Inr (), s')
    \<and> delivered_all c (length artifacts) (r_db s') \<and> r_sends s' = r_sends s @ xs
    \<and> concat (map sd_media xs) = map Upload artifacts"
proof -
  let ?r = "request c" and ?as = "map Upload artifacts"
  note w = assms(1)
  obtain who where who: "authorize_request sv (w_identity w AtStart) ?r = Inr who"
    using smooth_authorized(1) [OF w assms(2)] by blast
  obtain who' where who': "authorize_request sv (w_identity w AfterWork) ?r = Inr who'"
    using smooth_authorized(1) [OF w assms(2)] by blast
  obtain cr where cr: "w_resolve w AtStart (actor_id ?r) (source_host ?r) who (network ?r) = Inr cr"
    using w unfolding smooth_def by blast
  obtain wr where wr: "Download_Plan.worker_request parse c cr = Some wr"
    using worker_request_built [OF assms(3)] by blast
  have run: "execute_claim parse w c cr ex t = (Obtained (?as, None), t)" for t
    using wr assms(13) by (simp add: execute_claim_def)
  obtain t where t: "obtain_artifacts parse digest sv w c cr ex s = (Obtained (?as, None), t)"
    "r_db t = r_db s" "r_sends t = r_sends s"
  proof (cases "\<not> is_formats ?r \<and> cache_read_enabled (dc_cache_ttl (sv_config sv)) (claim_cache_bypassed c)")
    case True
    then show thesis
      using assms(12) run
      by (intro that [of "s\<lparr>r_db := r_db s, r_calls := Suc (r_calls s)\<rparr>"])
        (auto simp: obtain_artifacts_def store_call_smooth [OF w] Let_def split: sum.splits option.splits)
  next
    case False
    then show thesis using run by (intro that [of s]) (auto simp: obtain_artifacts_def Let_def)
  qed
  have "\<exists>s'. deliver_batch digest sv w c ?as None t = (Inr (), s')
    \<and> delivered_all c (length ?as) (r_db s')
    \<and> length (r_sends s') = length (r_sends t)
        + length (plan_delivery_units (send_as_file (params ?r)) ?as)"
    by (rule deliver_batch_goes [OF w assms(4,2) _ _ _ _ _ assms(8)])
      (use assms t in \<open>auto simp: artifact_metadata_def\<close>)
  then obtain s' where s': "deliver_batch digest sv w c ?as None t = (Inr (), s')"
    "delivered_all c (length artifacts) (r_db s')"
    "length (r_sends s') = length (r_sends s)
        + length (plan_delivery_units (send_as_file (params ?r)) ?as)" using t(3) by auto
  have calm: "\<not> w_shutdown w mo" "w_beat w mo = NoBeat" for mo using w by (simp_all add: smooth_def)
  have "process_claim parse digest sv w c s = deliver_artifacts digest sv w c ?as None t"
    using assms(5,11) who cr t(1) by (simp add: process_claim_def Let_def)
  also have "\<dots> = deliver_batch digest sv w c ?as None t"
    using assms(14) calm who' by (auto simp: deliver_artifacts_def)
  finally have all: "process_claim parse digest sv w c s = (Inr (), s')" using s'(1) by simp
  obtain n xs where xs: "r_sends s' = r_sends s @ xs"
    "sends_prefix ?as (plan_delivery_units (send_as_file (params ?r)) ?as) 0 n xs"
    using deliver_batch_sends [of digest sv w c ?as None t] s'(1) t(3) by auto
  have n: "n = length (plan_delivery_units (send_as_file (params ?r)) ?as)"
    using xs s'(3) unfolding sends_prefix_def
    by (metis length_append add_left_cancel length_map length_upt add_0 diff_zero)
  have "concat (map sd_media xs) = ?as"
    by (rule sends_all_media [OF xs(2) [unfolded n]])
  with all s'(2) xs(1) show ?thesis by blast
qed

text \<open>C3. Nothing in the way, the work gets done: with a live lease, a transport that confirms and no
  fault, shutdown, cancel request or block, a claim on a running operation ends with success
  recorded, every artifact of the executor counted, and exactly these artifacts handed to the
  transport in their order.\<close>

theorem undisturbed_claim_succeeds:
  assumes "smooth w c x" and "addressed sv (request c)" and "request_wf parse (request c)"
    and "validate_claim c = Inr ()" and "\<not> claim_cancel_requested c" and "db_inv (r_db s)"
    and "r \<in> set (ops (r_db s))" and "fenced c x r" and "op_status r = Running"
    and "\<not> op_cancel_requested r" and "claim_executor (sv_executor sv) (request c) = Inr ex"
    and "\<forall>b. lookup_media_cache digest (w_env w (r_calls s)) (request c) (r_db s) \<noteq> Inr (Some b)"
    and "\<forall>wr. w_execution w ex wr = ([], Inr artifacts)"
    and "length artifacts \<in> {1 .. 100}" and "\<forall>a \<in> set artifacts. va_metadata a \<noteq> None"
  shows "\<exists>s' xs. process_claim parse digest sv w c s = (Inr (), s')
    \<and> delivered_all c (length artifacts) (r_db s') \<and> r_sends s' = r_sends s @ xs
    \<and> concat (map sd_media xs) = map Upload artifacts"
  using assms by (rule claim_goes)

end
