(* ===== verification/Download_Example.thy ===== *)
theory Download_Example
  imports Download_Success
begin

text \<open>
  A worker on the claim of \<open>Queue_Example\<close>: the executor produces a video and its sound, the
  first goes out, and the service shuts down before the second. The witnesses use this world.
\<close>

section \<open>A world\<close>

definition example_info :: content_metadata where
  "example_info = \<lparr>md_title = ''clip'', md_description = [], md_tags = [], md_categories = []\<rparr>"

definition example_upload :: "string \<Rightarrow> string \<Rightarrow> validated_artifact" where
  "example_upload name kind =
     \<lparr>va_filename = name, va_media_type = kind, va_size_bytes = 1000,
      va_metadata = Some example_info, va_media_info = None\<rparr>"

definition example_artifacts :: "validated_artifact list" where
  "example_artifacts = [example_upload ''a.mp4'' ''video/mp4'', example_upload ''a.mp3'' ''audio/mpeg'']"

definition example_receipts :: "nat \<Rightarrow> delivered_media list" where
  "example_receipts n = map (\<lambda>i. \<lparr>dm_message_id = i, dm_file_id = None\<rparr>)
     (take n [100, 101, 102, 103, 104, 105, 106, 107, 108, 109])"

definition example_world :: "moment set \<Rightarrow> world" where
  "example_world stops =
     \<lparr>w_env = (\<lambda>k. example_env (3000000 + 1000000 * int (min k 5)) 9), w_others = (\<lambda>k d. d),
      w_shutdown = (\<lambda>m. m \<in> stops),
      w_identity = (\<lambda>m a g. Identity \<lparr>id_language = ''en'', id_allowed = True\<rparr>),
      w_resolve = (\<lambda>m a h who n.
        Inr \<lparr>nc_proxy_url = None, nc_cookie_jar = None, nc_youtube_oauth = None\<rparr>),
      w_execution = (\<lambda>ex wr. ([], Inr example_artifacts)), w_beat = (\<lambda>m. NoBeat),
      w_policy = (\<lambda>k r chat ms. Some (Decision False False)), w_profile = (\<lambda>k a. None),
      w_deliver = (\<lambda>k media.
        ([], Answered (Inr (example_receipts (length media)))))\<rparr>"

definition example_service :: service where
  "example_service =
     \<lparr>sv_bot_id = 5, sv_groups_enabled = False,
      sv_config = download_config_default\<lparr>dc_cache_ttl := secs 0\<rparr>,
      sv_executor = \<lparr>ex_timeout = secs 600, ex_processing_timeout = secs 600,
        ex_socket_timeout = secs 30, ex_limits = \<lparr>max_artifact_bytes = 2000,
          max_workspace_bytes = 4000, max_artifacts = 10\<rparr>\<rparr>\<rparr>"

definition example_start :: run where
  "example_start = \<lparr>r_db = claimed_db, r_calls = 0, r_sends = [], r_diagnostics = []\<rparr>"

definition example_send :: send where
  "example_send =
     \<lparr>sd_ordinal = 0, sd_indices = [0], sd_media = [Upload (example_upload ''a.mp4'' ''video/mp4'')],
      sd_target = \<lparr>bot_id = 5, chat_id = 42, thread_id = None, reply_to_message_id = None\<rparr>,
      sd_as_file = False, sd_spoiler = False,
      sd_presentation = Some \<lparr>dp_actor_id = 42, dp_actor_label = None, dp_source_url = example_url,
        dp_clips = [], dp_language = ''en'', dp_first_unit = True\<rparr>,
      sd_db = sending_db\<rparr>"

section \<open>What the worker does in it\<close>

lemma example_claim_fields [simp]:
  "request example_claim = example_request" "claim_cancel_requested example_claim = False"
  by (simp_all add: example_claim_def)

lemma example_request_fields [simp]:
  "actor_id example_request = 42" "target example_request = None" "media_mode example_request = Video"
  "source_url example_request = example_url" "clip_range example_request = None"
  "params example_request = download_params_default" "downloader_settings example_request = None"
  by (simp_all add: example_request_def)

lemma example_world_fields [simp]:
  "w_env (example_world st) k = example_env (3000000 + 1000000 * int (min k 5)) 9"
  "w_others (example_world st) k d = d" "w_shutdown (example_world st) m \<longleftrightarrow> m \<in> st"
  "w_identity (example_world st) m a g = Identity \<lparr>id_language = ''en'', id_allowed = True\<rparr>"
  "w_beat (example_world st) m = NoBeat"
  "w_policy (example_world st) j r chat ms = Some (Decision False False)"
  "w_execution (example_world st) ex wr = ([], Inr example_artifacts)"
  "w_resolve (example_world st) m a' h who n
     = Inr \<lparr>nc_proxy_url = None, nc_cookie_jar = None, nc_youtube_oauth = None\<rparr>"
  "w_deliver (example_world st) j media
     = ([], Answered (Inr (example_receipts (length media))))"
  by (simp_all add: example_world_def)

lemma example_authorized [simp]:
  "authorize_request example_service (w_identity (example_world st) m) example_request
     = Inr \<lparr>id_language = ''en'', id_allowed = True\<rparr>"
  "authorize_target example_service (w_identity (example_world st) m) 42
     (Some \<lparr>bot_id = 5, chat_id = 42, thread_id = None, reply_to_message_id = None\<rparr>)
     = Inr \<lparr>id_language = ''en'', id_allowed = True\<rparr>"
  by (simp_all add: authorize_request_def authorize_target_def target_denied_def is_formats_def
      example_service_def)

lemma example_lease [simp]: "fenced example_claim 9000000 running_row"
  by (rule example_fenced) simp

lemma example_confirms: "n \<in> {1 .. 10} \<Longrightarrow> confirms (example_receipts n) n"
proof -
  let ?ids = "[100, 101, 102, 103, 104, 105, 106, 107, 108, 109] :: i64 list"
  assume n: "n \<in> {1 .. 10}"
  have "distinct (take n ?ids)" by (rule distinct_take) simp
  moreover have "\<forall>i \<in> set ?ids. 0 < sint i \<and> sint i \<le> i32_max" by simp
  then have "\<forall>i \<in> set (take n ?ids). 0 < sint i \<and> sint i \<le> i32_max" by (meson in_set_takeD)
  moreover have "map dm_message_id (example_receipts n) = take n ?ids"
    by (simp add: example_receipts_def comp_def del: take.simps)
  ultimately show ?thesis
    using n by (auto simp: confirms_def message_ids_ok_def example_receipts_def simp del: take.simps)
qed

lemma example_smooth: "smooth (example_world {}) example_claim 9000000"
  using example_confirms by (auto simp: smooth_def) (auto simp: example_env_def)

lemma example_addressed: "addressed example_service example_request"
  by (simp add: addressed_def is_formats_def example_service_def)

lemma example_inv: "db_inv claimed_db" "db_inv sent_db"
  using reachable_inv [OF empty_db_empty] example_reached by blast+

lemma example_running: "op_status running_row = Running" "\<not> op_cancel_requested running_row"
  by (simp_all add: row_states)

lemma example_inputs:
  "addressed example_service (request example_claim)" "request_wf example_parser (request example_claim)"
  "validate_claim example_claim = Inr ()" "\<not> claim_cancel_requested example_claim"
  "db_inv (r_db example_start)" "running_row \<in> set (ops (r_db example_start))"
  "claim_executor (sv_executor example_service) (request example_claim) = Inr (sv_executor example_service)"
  "\<forall>b. lookup_media_cache example_digest (w_env (example_world {}) (r_calls example_start))
      (request example_claim) (r_db example_start) \<noteq> Inr (Some b)"
  "\<forall>wr. w_execution (example_world {}) (sv_executor example_service) wr = ([], Inr example_artifacts)"
  "length example_artifacts \<in> {1 .. 100}" "\<forall>a \<in> set example_artifacts. va_metadata a \<noteq> None"
  using example_addressed example_request_wf example_inv worker_ok
  by (simp_all add: example_start_def claimed_ops example_artifacts_def example_upload_def
      claim_executor_def lookup_media_cache_def)

lemmas example_run_goes =
  example_smooth example_inputs(1-6) example_lease example_running example_inputs(7-11)

lemma example_orderly: "orderly example_parser example_digest (example_world st)"
  by (simp add: orderly_def)

section \<open>The properties at work\<close>

theorem undisturbed_claim_succeeds_witness:
  "\<exists>s' xs. process_claim example_parser example_digest example_service (example_world {})
      example_claim example_start = (Inr (), s')
    \<and> delivered_all example_claim 2 (r_db s') \<and> r_sends s' = xs
    \<and> concat (map sd_media xs) = map Upload example_artifacts"
  using undisturbed_claim_succeeds [OF example_run_goes]
  by (simp add: example_artifacts_def example_start_def numeral_2_eq_2)

lemma example_sent:
  "r_sends (snd (process_claim example_parser example_digest example_service (example_world {})
      example_claim example_start)) \<noteq> []"
  using claim_goes [OF example_run_goes] by (auto simp: example_artifacts_def)

theorem sends_are_recorded_first_witness:
  "\<exists>x \<in> set (r_sends (snd (process_claim example_parser example_digest example_service
      (example_world {}) example_claim example_start))). recorded_send example_claim x"
proof -
  let ?o = "process_claim example_parser example_digest example_service (example_world {})
      example_claim example_start"
  obtain x where x: "x \<in> set (r_sends (snd ?o))" using example_sent by (meson list.set_sel(1))
  have "r_sends (snd ?o) = r_sends example_start @ r_sends (snd ?o)" by (simp add: example_start_def)
  from sends_are_recorded_first [OF example_orderly example_inputs(5) this x] x show ?thesis by blast
qed

theorem sent_operation_is_not_sent_again_witness:
  "r_sends (snd (process_claim example_parser example_digest example_service (example_world {})
      example_claim (example_start\<lparr>r_db := sent_db\<rparr>))) = []"
proof -
  have "sent_unit \<in> set (units (r_db (example_start\<lparr>r_db := sent_db\<rparr>)))"
    "u_op sent_unit = operation_id example_claim" "u_status sent_unit \<in> {Sent, UnknownSend}"
    by (simp_all add: sent_ops sent_unit_def sending_unit_def example_claim_def)
  from sent_operation_is_not_sent_again [OF example_orderly _ this] show ?thesis
    using example_inv(2) by (simp add: example_start_def)
qed

end
