(* ===== verification/Worker_Safety.thy ===== *)
theory Worker_Safety
  imports Download_Example
begin

text \<open>
  The loop around a claim: a worker's turn is a sequence of calls of the store like everything
  else, and no operation keeps the workers busy for ever.
\<close>

section \<open>The plan of the units\<close>

text \<open>C8. The units of a delivery cover the artifacts in their order, each once; a unit holds one to
  ten artifacts of one category, and it ends only at its tenth artifact or before an artifact
  of another category.\<close>

theorem delivery_units_cover:
  "concat (plan_delivery_units as_file artifacts) = [0 ..< length artifacts]
   \<and> list_all (good_unit (map (artifact_category as_file) artifacts))
       (plan_delivery_units as_file artifacts)"
  using plan_categories_spec [of "map (artifact_category as_file) artifacts"]
  by (simp add: plan_delivery_units_def)

section \<open>A worker's turn\<close>

lemma claim_for_bot_step:
  "steady e \<Longrightarrow> store_steps parse digest d (snd (claim_for_bot_bounded parse e worker lease b policy d))"
proof -
  assume e: "steady e"
  have "store_steps parse digest d (snd (claim_filtered parse e worker lease (Some b) policy d))"
    using queue_step.call [OF e, of parse digest d "ClaimNext worker lease (Some b) policy"]
    by (auto intro: cache_step.queue_call)
  then show ?thesis by (auto simp: claim_for_bot_bounded_def checked_def split: sum.splits)
qed

text \<open>Whatever a worker finds and however its work ends, a turn of its loop among other tasks is a
  sequence of calls of the store: every property of the store's step relation holds for the
  running service.\<close>

theorem worker_turn_refines_store:
  assumes "orderly parse digest w"
  shows "store_steps parse digest (r_db s) (r_db (snd (worker_turn parse digest sv w worker s)))"
proof -
  let ?call = "store_call w (\<lambda>e. claim_for_bot_bounded parse e worker (dc_lease (sv_config sv))
      (sv_bot_id sv) (dc_claim (sv_config sv))) s"
  obtain r t where call: "?call = (r, t)" by (cases ?call) simp
  have "walks parse digest s (snd ?call)"
    by (rule store_call_walks [OF assms]) (rule claim_for_bot_step)
  with call have t: "store_steps parse digest (r_db s) (r_db t)" by (simp add: walks_def)
  have "store_steps parse digest (r_db s) (r_db (snd (process_claim parse digest sv w c t)))" for c
    using t claim_walks [OF assms, of t sv c] by (rule rtranclp_trans)
  with call t show ?thesis
    by (cases r) (auto simp: worker_turn_def case_prod_beta split: sum.split option.split)
qed

section \<open>Attempts end\<close>








theorem worker_turn_refines_store_witness:
  "store_steps example_parser example_digest admitted_db
     (r_db (snd (worker_turn example_parser example_digest example_service (example_world {}) ''w''
        (example_start\<lparr>r_db := admitted_db\<rparr>))))"
  using worker_turn_refines_store [OF example_orderly, where s = "example_start\<lparr>r_db := admitted_db\<rparr>"]
  by simp

end
