(* ===== verification/Identity_Tables.thy ===== *)
theory Identity_Tables
  imports Access Json Utf8 "HOL-Library.Product_Lexorder" "HOL-Library.List_Lexorder" "HOL-Library.Char_ord"
begin

text \<open>
  The tables the identity store of \<open>backend/crates/yoink-identity\<close> reads and writes, with the
  constraints of \<open>yoink-storage/migrations-turso\<close> (\<open>0002_application.sql\<close>,
  \<open>0014_native_membership.sql\<close>), its errors, and its transactions. A timestamp column holds
  microseconds, a text column its text: a role that cannot be parsed is an error of the code.
  \<open>identity_env\<close> is what a call meets: the clock its statements read in order, whether the
  database answers, and what the code takes from libraries it does not contain: which
  timestamps \<open>chrono\<close> can hold, the text \<open>serde_json\<close> writes and reads, and SHA-256; \<open>ie_rowid\<close> is the identifier the engine
  gives the row a call inserts.
\<close>

section \<open>Rows\<close>

record account =
  ac_id :: int
  ac_username :: "string option"
  ac_first_name :: "string option"
  ac_photo_url :: "string option"
  ac_role :: string
  ac_language :: string
  ac_theme :: string
  ac_ban_until :: "int option"
  ac_created_at :: int
  ac_updated_at :: int

record permission_row =
  pr_id :: int
  pr_user :: int
  pr_plugin :: string
  pr_feature :: string
  pr_granted_by :: int
  pr_granted_at :: int
  pr_expires_at :: "int option"
  pr_source :: "string option"

record group_row =
  gr_id :: int
  gr_title :: "string option"
  gr_enabled :: bool
  gr_auto_grant_role :: string
  gr_allow_pm :: bool
  gr_nsfw_allowed :: bool
  gr_storage_chat_id :: "int option"
  gr_storage_thread_id :: "int option"
  gr_photo_url :: "string option"
  gr_created_at :: int

record member_policy_row =
  mp_user :: int
  mp_group :: int
  mp_role_override :: "string option"
  mp_allow_pm_override :: "bool option"

record thread_row =
  th_id :: int
  th_group :: int
  th_thread :: "int option"
  th_name :: "string option"
  th_enabled :: bool

record bot_row =
  bo_source :: int
  bo_group :: int
  bo_occurred_at :: int
  bo_update_id :: int
  bo_payload :: string
  bo_present :: bool
  bo_generation :: int

record member_row =
  me_source :: int
  me_group :: int
  me_user :: int
  me_occurred_at :: int
  me_update_id :: int
  me_payload :: string
  me_present :: bool
  me_generation :: int
  me_tag :: "string option"
  me_tag_generation :: int

record byok_row =
  by_user :: int
  by_tested_at :: "int option"
  by_test_error :: "string option"

record identity_db =
  accounts :: "account list"
  permissions :: "permission_row list"
  known_groups :: "group_row list"
  member_policies :: "member_policy_row list"
  thread_policies :: "thread_row list"
  setting_rows :: "(string \<times> string option) list"
  bots :: "bot_row list"
  members :: "member_row list"
  suppressed_groups :: "int list"
  suppressed_features :: "(int \<times> string \<times> string) list"
  byok_rows :: "byok_row list"
  download_log :: "(int \<times> int) list"

section \<open>Constraints\<close>

definition role_names :: "string list" where
  "role_names = [''owner'', ''admin'', ''moderator'', ''user'', ''restricted'', ''banned'']"

definition opt_chars :: "nat \<Rightarrow> string option \<Rightarrow> bool" where
  "opt_chars n s \<longleftrightarrow> pred_option (\<lambda>s. chars_count s \<le> n) s"

definition account_checks :: "account \<Rightarrow> bool" where
  "account_checks a \<longleftrightarrow>
     opt_chars 64 (ac_username a) \<and> opt_chars 128 (ac_first_name a) \<and> ac_role a \<in> set role_names
     \<and> chars_count (ac_language a) \<le> 8 \<and> chars_count (ac_theme a) \<le> 32
     \<and> opt_chars 512 (ac_photo_url a)"

definition bot_checks :: "bot_row \<Rightarrow> bool" where
  "bot_checks b \<longleftrightarrow>
     0 < bo_source b \<and> bo_group b < 0 \<and> 0 \<le> bo_update_id b \<and> bo_update_id b \<le> 4294967295
     \<and> 0 \<le> bo_generation b"

definition member_checks :: "member_row \<Rightarrow> bool" where
  "member_checks m \<longleftrightarrow>
     0 < me_source m \<and> me_group m < 0 \<and> 0 < me_user m \<and> 0 \<le> me_update_id m
     \<and> me_update_id m \<le> 4294967295 \<and> 0 \<le> me_generation m \<and> 0 \<le> me_tag_generation m"

text \<open>\<open>groups\<close> as far as the code can write a value the constraints refuse.\<close>

definition group_checks :: "group_row \<Rightarrow> bool" where
  "group_checks g \<longleftrightarrow>
     opt_chars 256 (gr_title g) \<and> gr_auto_grant_role g \<in> set role_names
     \<and> opt_chars 512 (gr_photo_url g)"

section \<open>Errors\<close>

datatype identity_error =
  InvalidId | UnknownRole | IdentityDatabase | InvalidLanguage | LanguageConflict | LanguageDenied
| LanguageRevisionOverflow | IdentityUnauthorized | IdentityForbidden | InvalidProfile | InvalidTheme
| InvalidPolicy | InvalidMembership | MembershipConflict | InvalidMenuContact

datatype admin_error =
  AdminUnauthorized | AdminForbidden | AdminNotFound | AdminConflict | AdminInvalidInput
| AdminInvalidScope | AdminUnavailable

section \<open>What a call meets\<close>

record trusted_profile =
  tp_user_id :: i64
  tp_username :: "string option"
  tp_first_name :: "string option"
  tp_photo_url :: "string option"

datatype membership_subject = SubjectBot | SubjectUser trusted_profile

datatype member_status = Creator | Administrator | Member | RestrictedMember | Left | Kicked

datatype observed_tag = UnknownTag | KnownTag "string option"

text \<open>\<open>occurred_at\<close> is a \<open>DateTime<Utc>\<close>: nanoseconds since the epoch.\<close>

record membership_observation =
  mo_source_id :: i64
  mo_update_id :: u32
  mo_occurred_at :: int
  mo_group_id :: i64
  mo_title :: "string option"
  mo_subject :: membership_subject
  mo_status :: member_status
  mo_present :: bool
  mo_tag :: observed_tag

record contact_state =
  cs_revision :: u64
  cs_unavailable :: bool
  cs_observed :: "(i64 \<times> u32) option"

record identity_env =
  ie_clock :: "nat \<Rightarrow> int"
  ie_up :: bool
  ie_datetime :: "int \<Rightarrow> bool"
  ie_observation_text :: "membership_observation \<Rightarrow> string"
  ie_tag_map_text :: "(string \<times> string list) list \<Rightarrow> string"
  ie_tag_map_parse :: "string \<Rightarrow> (string \<times> string list) list option"
  ie_contact_text :: "contact_state \<Rightarrow> string"
  ie_contact_parse :: "string \<Rightarrow> contact_state option"
  ie_rowid :: int
  ie_sha256 :: "string \<Rightarrow> string"

record identity_store =
  owner_id :: "i64 option"
  insight_enabled :: bool

text \<open>\<open>try_get::<DateTime<Utc>, _>\<close> of an integer column.\<close>

definition get_time :: "identity_env \<Rightarrow> 'e \<Rightarrow> int \<Rightarrow> 'e + instant" where
  "get_time e fault t = (if ie_datetime e t then Inr t else Inl fault)"

text \<open>\<open>finish\<close> and \<open>finish_admin\<close>: a body that ends with an error is rolled back, and a database
  that does not answer is the error \<open>fault\<close>.\<close>

definition in_transaction ::
  "identity_env \<Rightarrow> 'e \<Rightarrow> ('s \<Rightarrow> 'e + 'a \<times> 's) \<Rightarrow> 's \<Rightarrow> ('e + 'a) \<times> 's" where
  "in_transaction e fault body s =
     (if \<not> ie_up e then (Inl fault, s)
      else (case body s of Inl x \<Rightarrow> (Inl x, s) | Inr (a, t) \<Rightarrow> (Inr a, t)))"

text \<open>A body that only reads.\<close>

definition reading ::
  "identity_env \<Rightarrow> 'e \<Rightarrow> ('s \<Rightarrow> 'e + 'a) \<Rightarrow> 's \<Rightarrow> ('e + 'a) \<times> 's" where
  "reading e fault body s = in_transaction e fault (\<lambda>s. res_bind (body s) (\<lambda>a. Inr (a, s))) s"

definition guarded :: "bool \<Rightarrow> 'e \<Rightarrow> ('s \<Rightarrow> ('e + 'a) \<times> 's) \<Rightarrow> 's \<Rightarrow> ('e + 'a) \<times> 's" where
  "guarded bad x f s = (if bad then (Inl x, s) else f s)"

lemma in_transaction_Inr:
  "in_transaction e fault body s = (Inr a, t) \<longleftrightarrow> ie_up e \<and> body s = Inr (a, t)"
  by (cases "body s") (auto simp: in_transaction_def)

lemma in_transaction_Inl:
  "in_transaction e fault body s = (Inl x, t) \<longleftrightarrow>
     t = s \<and> (\<not> ie_up e \<and> x = fault \<or> ie_up e \<and> body s = Inl x)"
  by (cases "body s") (auto simp: in_transaction_def)

lemma reading_eq:
  "reading e fault body s = (if ie_up e then body s else Inl fault, s)"
  by (cases "body s") (auto simp: reading_def in_transaction_def)

lemma guarded_Inr [simp]: "guarded bad x f s = (Inr a, t) \<longleftrightarrow> \<not> bad \<and> f s = (Inr a, t)"
  by (auto simp: guarded_def)

lemma get_time_Inr [simp]: "get_time e fault t = Inr u \<longleftrightarrow> ie_datetime e t \<and> u = t"
  by (auto simp: get_time_def)

section \<open>Statements shared by the operations\<close>

definition sql_user :: "int \<Rightarrow> identity_db \<Rightarrow> account option" where
  "sql_user user s = find_row (\<lambda>a. ac_id a = user) (accounts s)"

definition sql_setting :: "string \<Rightarrow> identity_db \<Rightarrow> string option option" where
  "sql_setting key s = map_of (setting_rows s) key"

definition sql_setting_upsert ::
  "string \<Rightarrow> string \<Rightarrow> identity_db \<Rightarrow> identity_db option" where
  "sql_setting_upsert key v s =
     (if chars_count key > 64 then None
      else if map_of (setting_rows s) key = None
      then Some (s\<lparr>setting_rows := setting_rows s @ [(key, Some v)]\<rparr>)
      else Some (s\<lparr>setting_rows :=
             update_where (\<lambda>r. fst r = key) (\<lambda>r. (fst r, Some v)) (setting_rows s)\<rparr>))"

definition group_exists :: "int \<Rightarrow> identity_db \<Rightarrow> bool" where
  "group_exists g s \<longleftrightarrow> list_ex (\<lambda>r. gr_id r = g) (known_groups s)"

definition sql_permission :: "int \<Rightarrow> string \<Rightarrow> string \<Rightarrow> identity_db \<Rightarrow> permission_row option" where
  "sql_permission user plugin feature s =
     find_row (\<lambda>p. pr_user p = user \<and> pr_plugin p = plugin \<and> pr_feature p = feature) (permissions s)"

definition sql_bot :: "int \<Rightarrow> int \<Rightarrow> identity_db \<Rightarrow> bot_row option" where
  "sql_bot source g s = find_row (\<lambda>b. bo_source b = source \<and> bo_group b = g) (bots s)"

definition sql_member :: "int \<Rightarrow> int \<Rightarrow> int \<Rightarrow> identity_db \<Rightarrow> member_row option" where
  "sql_member source g user s =
     find_row (\<lambda>m. me_source m = source \<and> me_group m = g \<and> me_user m = user) (members s)"

end
