(* ===== verification/Identity.thy ===== *)
theory Identity
  imports Identity_Tables
begin

text \<open>
  Who a user is and what it may do: \<open>backend/crates/yoink-identity/src/lib.rs\<close> (the snapshot
  and its authorization), \<open>automatic_grants\<close> of \<open>membership.rs\<close>, the tag map of \<open>admin.rs\<close> and
  \<open>language.rs\<close>. A definition named \<open>sql_<name>\<close> is a statement.
\<close>

section \<open>Registered features\<close>

definition spec_of :: "string \<Rightarrow> string \<Rightarrow> role option \<Rightarrow> feature_spec" where
  "spec_of plugin feature r =
     \<lparr>spec_plugin = plugin, spec_feature = feature, default_min_role = r\<rparr>"

definition registered_features :: "feature_spec list" where
  "registered_features =
     [spec_of ''dl'' ''inline'' (Some User),
      spec_of ''dl'' ''shared_cookies'' (Some Admin),
      spec_of ''stats'' ''stats'' (Some User),
      spec_of ''insight'' ''summary'' None,
      spec_of ''insight'' ''tldr'' None,
      spec_of ''insight'' ''search'' None,
      spec_of ''music'' ''inline'' (Some User),
      spec_of ''inbox'' ''ingest'' (Some User),
      spec_of ''inbox'' ''classify'' None,
      spec_of ''inbox'' ''share'' (Some User),
      spec_of ''inbox'' ''gh_sync'' None,
      spec_of ''inbox'' ''gh_organise'' None,
      spec_of ''inbox'' ''gh_write'' None,
      spec_of ''inbox'' ''admin'' (Some Admin)]"

definition is_spec :: "string \<Rightarrow> string \<Rightarrow> feature_spec \<Rightarrow> bool" where
  "is_spec plugin feature s \<longleftrightarrow> spec_plugin s = plugin \<and> spec_feature s = feature"

definition registered :: "string \<Rightarrow> string \<Rightarrow> bool" where
  "registered plugin feature \<longleftrightarrow> list_ex (is_spec plugin feature) registered_features"

section \<open>The tag map and automatic grants\<close>

definition feature_key_ok :: "string \<Rightarrow> bool" where
  "feature_key_ok key \<longleftrightarrow>
     (case split_once '':'' key of None \<Rightarrow> False
      | Some (plugin, feature) \<Rightarrow>
          plugin \<noteq> [] \<and> feature \<noteq> [] \<and> CHR '':'' \<notin> set feature \<and> registered plugin feature)"

definition tag_entry_ok :: "string \<times> string list \<Rightarrow> bool" where
  "tag_entry_ok entry \<longleftrightarrow>
     \<not> is_blank (fst entry) \<and> \<not> list_ex is_control (chars (fst entry))
     \<and> list_all feature_key_ok (snd entry) \<and> distinct (snd entry)"

text \<open>The result is the \<open>BTreeMap\<close>: its entries in the order of the tags.\<close>

definition validated_tag_map :: "(string \<times> string list) list \<Rightarrow> (string \<times> string list) list option" where
  "validated_tag_map entries =
     (if list_all tag_entry_ok entries \<and> distinct (map fst entries)
      then Some (sort_key fst entries) else None)"

definition decode_tag_map ::
  "identity_env \<Rightarrow> string \<Rightarrow> admin_error + (string \<times> string list) list" where
  "decode_tag_map e raw =
     (case ie_tag_map_parse e raw of None \<Rightarrow> Inl AdminUnavailable
      | Some entries \<Rightarrow> ok_or AdminUnavailable (validated_tag_map entries))"

definition stored_tag_map :: "identity_env \<Rightarrow> identity_db \<Rightarrow> (string \<times> string list) list" where
  "stored_tag_map e s =
     (case sql_setting ''tag_map'' s of
        Some (Some raw) \<Rightarrow> (case decode_tag_map e raw of Inl _ \<Rightarrow> [] | Inr entries \<Rightarrow> entries)
      | _ \<Rightarrow> [])"

definition bot_absent :: "int \<Rightarrow> identity_db \<Rightarrow> bool" where
  "bot_absent g s \<longleftrightarrow> list_ex (\<lambda>b. bo_group b = g \<and> \<not> bo_present b) (bots s)"

definition tag_active :: "int \<Rightarrow> identity_db \<Rightarrow> member_row \<Rightarrow> bool" where
  "tag_active user s m \<longleftrightarrow>
     me_user m = user \<and> me_present m \<and> me_tag m \<noteq> None
     \<and> list_ex (\<lambda>g. gr_id g = me_group m \<and> gr_enabled g) (known_groups s)
     \<and> list_ex (\<lambda>b. bo_source b = me_source m \<and> bo_group b = me_group m \<and> bo_present b
          \<and> me_generation m = bo_generation b \<and> me_tag_generation m = bo_generation b) (bots s)
     \<and> \<not> bot_absent (me_group m) s \<and> me_group m \<notin> set (suppressed_groups s)"

definition sql_membership_active_tags :: "int \<Rightarrow> identity_db \<Rightarrow> string set" where
  "sql_membership_active_tags user s =
     set (List.map_filter (\<lambda>m. if tag_active user s m then me_tag m else None) (members s))"

definition sql_suppressed :: "int \<Rightarrow> identity_db \<Rightarrow> string \<times> string \<Rightarrow> bool" where
  "sql_suppressed user s key \<longleftrightarrow> (user, key) \<in> set (suppressed_features s)"

definition granted_keys :: "identity_env \<Rightarrow> int \<Rightarrow> identity_db \<Rightarrow> (string \<times> string) list" where
  "granted_keys e user s =
     List.map_filter
       (\<lambda>key. case split_once '':'' key of None \<Rightarrow> None
          | Some k \<Rightarrow> if sql_suppressed user s k then None else Some k)
       (concat (map snd
          (filter (\<lambda>entry. fst entry \<in> sql_membership_active_tags user s) (stored_tag_map e s))))"

definition automatic_grants :: "identity_env \<Rightarrow> int \<Rightarrow> identity_db \<Rightarrow> grant list" where
  "automatic_grants e user s =
     map (\<lambda>(plugin, feature).
         \<lparr>grant_plugin = plugin, grant_feature = feature, expires_at = None\<rparr>)
       (sort (remdups (granted_keys e user s)))"

section \<open>The snapshot\<close>

record group_context =
  gc_group_id :: i64
  gc_enabled :: bool
  gc_role_override :: "role option"
  gc_auto_grant_role :: role
  gc_thread_allowed :: bool

record snapshot_record =
  sn_principal :: principal
  sn_language :: string
  sn_grants :: "grant list"
  sn_providers :: "provider_grant list"
  sn_now :: instant
  sn_group :: "group_context option"

definition parse_role :: "string \<Rightarrow> identity_error + role" where
  "parse_role v = map_err UnknownRole (role_from_str v)"

definition invalid_ids ::
  "identity_store \<Rightarrow> i64 \<Rightarrow> (i64 \<times> i64 option) option \<Rightarrow> bool" where
  "invalid_ids st user g \<longleftrightarrow>
     sint user \<le> 0 \<or> (case owner_id st of None \<Rightarrow> False | Some i \<Rightarrow> sint i \<le> 0)
     \<or> (case g of None \<Rightarrow> False
        | Some (i, thread) \<Rightarrow>
            0 \<le> sint i \<or> (case thread of None \<Rightarrow> False | Some t \<Rightarrow> sint t \<le> 0))"

definition sql_grants :: "int \<Rightarrow> identity_db \<Rightarrow> permission_row list" where
  "sql_grants user s = filter (\<lambda>p. pr_user p = user) (permissions s)"

definition grant_of_row :: "identity_env \<Rightarrow> permission_row \<Rightarrow> identity_error + grant" where
  "grant_of_row e p =
     res_bind (traverse_option (get_time e IdentityDatabase) (pr_expires_at p)) (\<lambda>t.
       Inr \<lparr>grant_plugin = pr_plugin p, grant_feature = pr_feature p, expires_at = t\<rparr>)"

definition same_grant :: "grant \<Rightarrow> grant \<Rightarrow> bool" where
  "same_grant g h \<longleftrightarrow> grant_plugin h = grant_plugin g \<and> grant_feature h = grant_feature g"

fun merge_grant :: "grant \<Rightarrow> grant list \<Rightarrow> grant list" where
  "merge_grant g [] = [g]"
| "merge_grant g (h # hs) =
     (if same_grant g h then h\<lparr>expires_at := None\<rparr> # hs else h # merge_grant g hs)"

definition byok_setting :: "identity_db \<Rightarrow> bool" where
  "byok_setting s =
     (case sql_setting ''insight_byok_enabled'' s of
        Some (Some v) \<Rightarrow> map to_ascii_lowercase v \<in> {''1'', ''true'', ''yes'', ''on''}
      | _ \<Rightarrow> False)"

definition sql_byok_ready :: "int \<Rightarrow> identity_db \<Rightarrow> bool" where
  "sql_byok_ready user s \<longleftrightarrow>
     list_ex (\<lambda>b. by_user b = user \<and> by_tested_at b \<noteq> None \<and> by_test_error b = None) (byok_rows s)"

definition providers_of :: "identity_store \<Rightarrow> int \<Rightarrow> identity_db \<Rightarrow> provider_grant list" where
  "providers_of st user s =
     (if insight_enabled st \<and> byok_setting s \<and> sql_byok_ready user s
      then [\<lparr>provider_plugin = ''insight'', provider_feature = ''tldr''\<rparr>] else [])"

text \<open>A membership that is known to have ended, or that was last seen before the bot last came
  back, switches the group off for its user; so does a bot that is known to be gone.\<close>

definition stale_member :: "identity_db \<Rightarrow> member_row \<Rightarrow> bool" where
  "stale_member s m \<longleftrightarrow>
     \<not> me_present m
     \<or> list_ex (\<lambda>b. bo_source b = me_source m \<and> bo_group b = me_group m
          \<and> me_generation m \<noteq> bo_generation b) (bots s)"

definition sql_group_enabled :: "int \<Rightarrow> group_row \<Rightarrow> identity_db \<Rightarrow> bool" where
  "sql_group_enabled user g s \<longleftrightarrow>
     gr_enabled g \<and> \<not> bot_absent (gr_id g) s
     \<and> \<not> list_ex (\<lambda>m. me_group m = gr_id g \<and> me_user m = user \<and> stale_member s m) (members s)"

definition sql_thread_allowed :: "int \<Rightarrow> int option \<Rightarrow> identity_db \<Rightarrow> bool" where
  "sql_thread_allowed g thread s =
     (case find_row (\<lambda>t. th_group t = g \<and> th_thread t = thread) (thread_policies s) of
        Some t \<Rightarrow> th_enabled t
      | None \<Rightarrow> \<not> list_ex (\<lambda>t. th_group t = g \<and> th_enabled t) (thread_policies s))"

definition read_group ::
  "i64 \<Rightarrow> i64 \<times> i64 option \<Rightarrow> identity_db \<Rightarrow> identity_error + group_context" where
  "read_group user g s =
     (case find_row (\<lambda>r. gr_id r = sint (fst g)) (known_groups s) of
        None \<Rightarrow> Inl IdentityDatabase
      | Some row \<Rightarrow>
          res_bind (parse_role (gr_auto_grant_role row)) (\<lambda>auto_role.
          res_bind
            (case find_row (\<lambda>p. mp_group p = gr_id row \<and> mp_user p = sint user) (member_policies s) of
               None \<Rightarrow> Inr None | Some p \<Rightarrow> traverse_option parse_role (mp_role_override p)) (\<lambda>over.
          Inr \<lparr>gc_group_id = fst g, gc_enabled = sql_group_enabled (sint user) row s,
               gc_role_override = over, gc_auto_grant_role = auto_role,
               gc_thread_allowed = sql_thread_allowed (sint (fst g)) (map_option sint (snd g)) s\<rparr>)))"

text \<open>The configured owner is elevated only after the ban was looked at.\<close>

definition elevated :: "identity_store \<Rightarrow> instant \<Rightarrow> principal \<Rightarrow> principal" where
  "elevated st now p =
     (if \<not> is_blocked p now \<and> owner_id st = Some (user_id p) then p\<lparr>role := Owner\<rparr> else p)"

definition read_snapshot ::
  "identity_env \<Rightarrow> identity_store \<Rightarrow> i64 \<Rightarrow> (i64 \<times> i64 option) option \<Rightarrow> identity_db
    \<Rightarrow> identity_error + snapshot_record option" where
  "read_snapshot e st user g s =
     res_bind (get_time e IdentityDatabase (ie_clock e 0)) (\<lambda>now.
       case sql_user (sint user) s of None \<Rightarrow> Inr None
       | Some a \<Rightarrow>
           res_bind (parse_role (ac_role a)) (\<lambda>r.
           res_bind (traverse_option (get_time e IdentityDatabase) (ac_ban_until a)) (\<lambda>until.
           res_bind (traverse_list (grant_of_row e) (sql_grants (sint user) s)) (\<lambda>grants.
           res_bind (traverse_option (\<lambda>g. read_group user g s) g) (\<lambda>group.
           Inr (Some
             \<lparr>sn_principal = elevated st now \<lparr>user_id = user, role = r, ban_until = until\<rparr>,
              sn_language = ac_language a,
              sn_grants = fold merge_grant (automatic_grants e (sint user) s) grants,
              sn_providers = providers_of st (sint user) s, sn_now = now, sn_group = group\<rparr>))))))"

definition snapshot ::
  "identity_env \<Rightarrow> identity_store \<Rightarrow> i64 \<Rightarrow> (i64 \<times> i64 option) option \<Rightarrow> identity_db
    \<Rightarrow> (identity_error + snapshot_record option) \<times> identity_db" where
  "snapshot e st user g =
     guarded (invalid_ids st user g) InvalidId
       (reading e IdentityDatabase (read_snapshot e st user g))"

section \<open>Authorization\<close>

record authorization =
  au_decision :: access_decision
  au_grant_source :: "grant_source option"

definition context_of :: "group_context option \<Rightarrow> access_context" where
  "context_of g =
     (case g of
        Some c \<Rightarrow> \<lparr>scope = GroupScope, group_enabled = gc_enabled c, thread_allowed = gc_thread_allowed c,
                   group_role_override = gc_role_override c,
                   group_auto_grant_role = Some (gc_auto_grant_role c)\<rparr>
      | None \<Rightarrow> \<lparr>scope = PrivateScope, group_enabled = False, thread_allowed = False,
                 group_role_override = None, group_auto_grant_role = None\<rparr>)"

definition find_spec :: "string \<Rightarrow> string \<Rightarrow> feature_spec option" where
  "find_spec plugin feature = find_row (is_spec plugin feature) registered_features"

definition authorize ::
  "snapshot_record \<Rightarrow> access_policy \<Rightarrow> (string \<times> string) option \<Rightarrow> authorization" where
  "authorize sn policy feature =
     (let d = check_access (sn_principal sn) policy (context_of (sn_group sn)) (sn_now sn) in
      if \<not> allowed d then \<lparr>au_decision = d, au_grant_source = None\<rparr>
      else (case feature of None \<Rightarrow> \<lparr>au_decision = d, au_grant_source = None\<rparr>
            | Some (plugin, feat) \<Rightarrow>
                (case find_spec plugin feat of
                   None \<Rightarrow> \<lparr>au_decision = d\<lparr>allowed := False, deny_reason := ''unknown_feature''\<rparr>,
                            au_grant_source = None\<rparr>
                 | Some spec \<Rightarrow>
                     (case effective_grant ((sn_principal sn)\<lparr>role := effective_role d\<rparr>) spec
                         (sn_grants sn) (sn_providers sn) (sn_now sn) of
                        None \<Rightarrow> \<lparr>au_decision = d\<lparr>allowed := False, deny_reason := ''feature_denied''\<rparr>,
                                 au_grant_source = None\<rparr>
                      | Some src \<Rightarrow> \<lparr>au_decision = d, au_grant_source = Some src\<rparr>))))"

section \<open>The language\<close>

record language_value =
  lp_code :: string
  lp_revision :: int

definition may_speak :: "bool \<Rightarrow> int \<Rightarrow> account \<Rightarrow> bool" where
  "may_speak owner now a \<longleftrightarrow>
     (ac_role a \<in> {''user'', ''moderator'', ''admin'', ''owner''} \<or> (owner \<and> ac_role a = ''restricted''))
     \<and> (case ac_ban_until a of None \<Rightarrow> True | Some t \<Rightarrow> t \<le> now)"

definition changes_language :: "bool \<Rightarrow> int \<Rightarrow> int \<Rightarrow> int \<Rightarrow> account \<Rightarrow> bool" where
  "changes_language owner now user revision a \<longleftrightarrow>
     ac_id a = user \<and> ac_updated_at a = revision \<and> 0 \<le> ac_updated_at a
     \<and> ac_updated_at a < 2 ^ 63 - 1 \<and> may_speak owner now a"

definition sql_language_change ::
  "string \<Rightarrow> int \<Rightarrow> int \<Rightarrow> bool \<Rightarrow> int \<Rightarrow> identity_db \<Rightarrow> identity_db" where
  "sql_language_change code user revision owner now s =
     s\<lparr>accounts := update_where (changes_language owner now user revision)
        (\<lambda>a. a\<lparr>ac_language := code, ac_updated_at := max (ac_updated_at a + 1) now\<rparr>) (accounts s)\<rparr>"

definition preference_of :: "account \<Rightarrow> language_value" where
  "preference_of a = \<lparr>lp_code = ac_language a, lp_revision = ac_updated_at a\<rparr>"

definition language_preference ::
  "identity_env \<Rightarrow> identity_store \<Rightarrow> i64 \<Rightarrow> identity_db
    \<Rightarrow> (identity_error + language_value option) \<times> identity_db" where
  "language_preference e st user =
     guarded (invalid_ids st user None) InvalidId
       (reading e IdentityDatabase (\<lambda>s. Inr (map_option preference_of (sql_user (sint user) s))))"

definition change_language_in_transaction ::
  "identity_env \<Rightarrow> identity_store \<Rightarrow> i64 \<Rightarrow> string \<Rightarrow> i64 \<Rightarrow> identity_db
    \<Rightarrow> identity_error + language_value \<times> identity_db" where
  "change_language_in_transaction e st user code revision s =
     (let owner = (owner_id st = Some user) in
      if list_ex (changes_language owner (ie_clock e 0) (sint user) (sint revision)) (accounts s)
      then let s' = sql_language_change code (sint user) (sint revision) owner (ie_clock e 0) s in
           (case sql_user (sint user) s' of
              None \<Rightarrow> Inl IdentityDatabase | Some a \<Rightarrow> Inr (preference_of a, s'))
      else (case sql_user (sint user) s of
              None \<Rightarrow> Inl LanguageDenied
            | Some a \<Rightarrow>
                if \<not> may_speak owner (ie_clock e 1) a then Inl LanguageDenied
                else if ac_updated_at a = 2 ^ 63 - 1 then Inl LanguageRevisionOverflow
                else Inl LanguageConflict))"

definition change_language ::
  "identity_env \<Rightarrow> identity_store \<Rightarrow> i64 \<Rightarrow> string \<Rightarrow> i64 \<Rightarrow> identity_db
    \<Rightarrow> (identity_error + language_value) \<times> identity_db" where
  "change_language e st user code revision =
     guarded (invalid_ids st user None) InvalidId
       (guarded (code \<notin> {''en'', ''ru''}) InvalidLanguage
         (guarded (sint revision < 0) LanguageConflict
           (in_transaction e IdentityDatabase
             (change_language_in_transaction e st user code revision))))"

end
