(* ===== verification/Identity_Profile.thy ===== *)
theory Identity_Profile
  imports Identity Settings
begin

text \<open>
  Registration and the settings of a user, \<open>backend/crates/yoink-identity/src/profile.rs\<close>: the
  profile a login vouches for is validated, a missing account is created under the access mode
  of the bot, a known one keeps what the login does not name. \<open>blocked\<close> is computed by the
  statement that reads the row. The change signal that follows a commit carries no value and
  is left out.
\<close>

section \<open>Valid profiles\<close>

definition rsplit_once :: "char \<Rightarrow> string \<Rightarrow> (string \<times> string) option" where
  "rsplit_once c s =
     (if c \<notin> set s then None
      else Some (rev (tl (dropWhile (\<lambda>d. d \<noteq> c) (rev s))), rev (takeWhile (\<lambda>d. d \<noteq> c) (rev s))))"

definition valid_port :: "string \<Rightarrow> bool" where
  "valid_port port \<longleftrightarrow> port \<noteq> [] \<and> parse_unsigned (2 ^ 16) port \<noteq> None"

definition valid_port_suffix :: "string \<Rightarrow> bool" where
  "valid_port_suffix suffix \<longleftrightarrow>
     suffix = [] \<or> (starts_with suffix '':'' \<and> valid_port (drop 1 suffix))"

definition bracketed_host_ok :: "string \<Rightarrow> bool" where
  "bracketed_host_ok b =
     (case split_once '']'' b of None \<Rightarrow> False
      | Some (host, suffix) \<Rightarrow>
          host \<noteq> [] \<and> list_all (\<lambda>c. is_ascii_hexdigit c \<or> c \<in> set '':.'') host
          \<and> valid_port_suffix suffix)"

definition host_label_ok :: "string \<Rightarrow> bool" where
  "host_label_ok l \<longleftrightarrow> l \<noteq> [] \<and> \<not> starts_with l ''-'' \<and> \<not> ends_with l ''-''"

definition plain_host_ok :: "string \<Rightarrow> bool" where
  "plain_host_ok authority =
     (let (host, port_ok) =
        (case rsplit_once CHR '':'' authority of
           Some (host, port) \<Rightarrow> if CHR '':'' \<notin> set host then (host, valid_port port) else ([], False)
         | None \<Rightarrow> (authority, True)) in
      port_ok \<and> host \<noteq> [] \<and> \<not> starts_with host ''.'' \<and> \<not> ends_with host ''.''
      \<and> list_all host_label_ok (split_on CHR ''.'' host)
      \<and> list_all (\<lambda>c. is_ascii_alphanumeric c \<or> c \<in> set ''.-'') host)"

definition valid_photo_url :: "string \<Rightarrow> bool" where
  "valid_photo_url v =
     (if length v > 512 \<or> list_ex is_whitespace (chars v) then False
      else (case (case strip_prefix v ''https://'' of
                    Some rest \<Rightarrow> Some rest | None \<Rightarrow> strip_prefix v ''http://'') of
              None \<Rightarrow> False
            | Some rest \<Rightarrow>
                let authority = takeWhile (\<lambda>c. c \<notin> set ''/?#'') rest in
                (case strip_prefix authority ''['' of
                   Some b \<Rightarrow> bracketed_host_ok b | None \<Rightarrow> plain_host_ok authority)
                \<and> CHR ''@'' \<notin> set authority \<and> CHR 0x5C \<notin> set authority
                \<and> \<not> list_ex is_control (chars v)))"

definition text_within :: "nat \<Rightarrow> string option \<Rightarrow> bool" where
  "text_within n v \<longleftrightarrow> pred_option (\<lambda>v. v \<noteq> [] \<and> length v \<le> n) v"

definition validate_profile :: "trusted_profile \<Rightarrow> identity_error + unit" where
  "validate_profile p =
     (if text_within 64 (tp_username p) \<and> text_within 128 (tp_first_name p)
         \<and> pred_option valid_photo_url (tp_photo_url p)
      then Inr () else Inl InvalidProfile)"

section \<open>Accounts as values\<close>

record user_profile =
  up_id :: int
  up_username :: "string option"
  up_first_name :: "string option"
  up_photo_url :: "string option"
  up_role :: role
  up_language :: string
  up_theme :: string
  up_ban_until :: "instant option"
  up_created_at :: instant
  up_updated_at :: instant

record user_settings =
  us_user_id :: i64
  us_language :: string
  us_theme :: string

definition decode_profile :: "identity_env \<Rightarrow> account \<Rightarrow> identity_error + user_profile" where
  "decode_profile e a =
     res_bind (parse_role (ac_role a)) (\<lambda>r.
     res_bind (traverse_option (get_time e IdentityDatabase) (ac_ban_until a)) (\<lambda>until.
     res_bind (get_time e IdentityDatabase (ac_created_at a)) (\<lambda>created.
     res_bind (get_time e IdentityDatabase (ac_updated_at a)) (\<lambda>updated.
     Inr \<lparr>up_id = ac_id a, up_username = ac_username a, up_first_name = ac_first_name a,
          up_photo_url = ac_photo_url a, up_role = r, up_language = ac_language a,
          up_theme = ac_theme a, up_ban_until = until, up_created_at = created,
          up_updated_at = updated\<rparr>))))"

definition row_blocked :: "int \<Rightarrow> account \<Rightarrow> bool" where
  "row_blocked now a \<longleftrightarrow>
     ac_role a = ''banned'' \<or> (case ac_ban_until a of None \<Rightarrow> False | Some t \<Rightarrow> t > now)"

definition ensure_row_allowed :: "int \<Rightarrow> account \<Rightarrow> identity_error + unit" where
  "ensure_row_allowed now a = (if row_blocked now a then Inl IdentityForbidden else Inr ())"

definition as_owner :: "identity_store \<Rightarrow> user_profile \<Rightarrow> user_profile" where
  "as_owner st p =
     (if map_option sint (owner_id st) = Some (up_id p) then p\<lparr>up_role := Owner\<rparr> else p)"

section \<open>Registration\<close>

definition registration_role :: "identity_db \<Rightarrow> identity_error + role" where
  "registration_role s =
     (case sql_setting ''bot_access_mode'' s of
        None \<Rightarrow> Inr User
      | Some (Some v) \<Rightarrow>
          if v = ''open'' then Inr User else if v = ''approved_only'' then Inr Restricted
          else Inl InvalidPolicy
      | Some None \<Rightarrow> Inl InvalidPolicy)"

definition or_old :: "'a option \<Rightarrow> 'a option \<Rightarrow> 'a option" where
  "or_old new old = (case new of Some x \<Rightarrow> Some x | None \<Rightarrow> old)"

definition updated_profile :: "trusted_profile \<Rightarrow> int \<Rightarrow> account \<Rightarrow> account" where
  "updated_profile p now a =
     a\<lparr>ac_username := or_old (tp_username p) (ac_username a),
       ac_first_name := or_old (tp_first_name p) (ac_first_name a),
       ac_photo_url := or_old (tp_photo_url p) (ac_photo_url a),
       ac_updated_at := max (ac_updated_at a + 1) now\<rparr>"

text \<open>An \<open>UPDATE users\<close> that breaks a constraint is an error, and so is one that finds no row.\<close>

definition sql_update_account ::
  "(account \<Rightarrow> bool) \<Rightarrow> (account \<Rightarrow> account) \<Rightarrow> identity_db \<Rightarrow> identity_db option" where
  "sql_update_account p f s =
     (if list_all (\<lambda>a. p a \<longrightarrow> account_checks (f a)) (accounts s)
      then Some (s\<lparr>accounts := update_where p f (accounts s)\<rparr>) else None)"

definition revisable :: "int \<Rightarrow> account \<Rightarrow> bool" where
  "revisable user a \<longleftrightarrow> ac_id a = user \<and> ac_updated_at a < 2 ^ 63 - 1"

definition new_account :: "trusted_profile \<Rightarrow> role \<Rightarrow> int \<Rightarrow> account" where
  "new_account p r now =
     \<lparr>ac_id = sint (tp_user_id p), ac_username = tp_username p, ac_first_name = tp_first_name p,
      ac_photo_url = tp_photo_url p, ac_role = role_to_string r, ac_language = ''en'',
      ac_theme = ''macchiato'', ac_ban_until = None, ac_created_at = now div 1000000 * 1000000,
      ac_updated_at = now div 1000000 * 1000000\<rparr>"

definition sql_profile_insert ::
  "trusted_profile \<Rightarrow> role \<Rightarrow> int \<Rightarrow> identity_db \<Rightarrow> identity_db option" where
  "sql_profile_insert p r now s =
     (if sql_user (sint (tp_user_id p)) s \<noteq> None then Some s
      else if account_checks (new_account p r now)
      then Some (s\<lparr>accounts := accounts s @ [new_account p r now]\<rparr>) else None)"

definition register_known ::
  "identity_env \<Rightarrow> identity_store \<Rightarrow> trusted_profile \<Rightarrow> account \<Rightarrow> identity_db
    \<Rightarrow> identity_error + user_profile \<times> identity_db" where
  "register_known e st p a s =
     res_bind (ensure_row_allowed (ie_clock e 0) a) (\<lambda>_.
     res_bind (decode_profile e a) (\<lambda>existing.
       if up_updated_at existing = 2 ^ 63 - 1 then Inl LanguageRevisionOverflow
       else if \<not> list_ex (revisable (sint (tp_user_id p))) (accounts s)
       then Inl LanguageRevisionOverflow
       else res_bind (ok_or IdentityDatabase
              (sql_update_account (revisable (sint (tp_user_id p))) (updated_profile p (ie_clock e 1)) s))
         (\<lambda>s'. res_bind (ok_or IdentityDatabase (sql_user (sint (tp_user_id p)) s')) (\<lambda>a'.
           res_bind (decode_profile e a') (\<lambda>profile. Inr (as_owner st profile, s'))))))"

definition register_new ::
  "identity_env \<Rightarrow> identity_store \<Rightarrow> trusted_profile \<Rightarrow> identity_db
    \<Rightarrow> identity_error + user_profile \<times> identity_db" where
  "register_new e st p s =
     res_bind (registration_role s) (\<lambda>r.
     let r = (if owner_id st = Some (tp_user_id p) then Owner else r) in
     res_bind (ok_or IdentityDatabase (sql_profile_insert p r (ie_clock e 1) s)) (\<lambda>s'.
     res_bind (ok_or IdentityDatabase (sql_user (sint (tp_user_id p)) s')) (\<lambda>a.
     res_bind (decode_profile e a) (\<lambda>profile. Inr (profile, s')))))"

definition register ::
  "identity_env \<Rightarrow> identity_store \<Rightarrow> trusted_profile \<Rightarrow> identity_db
    \<Rightarrow> (identity_error + user_profile) \<times> identity_db" where
  "register e st p =
     guarded (invalid_ids st (tp_user_id p) None) InvalidId
       (guarded (validate_profile p = Inl InvalidProfile) InvalidProfile
         (in_transaction e IdentityDatabase (\<lambda>s.
           case sql_user (sint (tp_user_id p)) s of
             Some a \<Rightarrow> register_known e st p a s
           | None \<Rightarrow> register_new e st p s)))"

section \<open>Settings of a user\<close>

definition changed_settings :: "string option \<Rightarrow> string option \<Rightarrow> int \<Rightarrow> account \<Rightarrow> account" where
  "changed_settings lang theme now a =
     a\<lparr>ac_language := (case lang of Some l \<Rightarrow> l | None \<Rightarrow> ac_language a),
       ac_theme := (case theme of Some t \<Rightarrow> t | None \<Rightarrow> ac_theme a),
       ac_updated_at := max (ac_updated_at a + 1) now\<rparr>"

definition write_settings ::
  "identity_env \<Rightarrow> i64 \<Rightarrow> string option \<Rightarrow> string option \<Rightarrow> user_profile \<Rightarrow> identity_db
    \<Rightarrow> identity_error + user_profile \<times> identity_db" where
  "write_settings e user lang theme profile s =
     (if \<not> list_ex (revisable (sint user)) (accounts s) then Inl LanguageRevisionOverflow
      else res_bind (ok_or IdentityDatabase
             (sql_update_account (revisable (sint user)) (changed_settings lang theme (ie_clock e 1)) s))
        (\<lambda>s'. res_bind (ok_or IdentityDatabase (sql_user (sint user) s')) (\<lambda>a.
          res_bind (get_time e IdentityDatabase (ac_updated_at a)) (\<lambda>updated.
          Inr (profile\<lparr>up_language := ac_language a, up_theme := ac_theme a,
                 up_updated_at := updated\<rparr>, s')))))"

definition authorized_profile_or_settings ::
  "identity_env \<Rightarrow> identity_store \<Rightarrow> i64 \<Rightarrow> bool \<Rightarrow> string option \<Rightarrow> string option \<Rightarrow> identity_db
    \<Rightarrow> (identity_error + user_profile \<times> user_settings) \<times> identity_db" where
  "authorized_profile_or_settings e st user with_settings lang theme =
     guarded (invalid_ids st user None) InvalidId
       (in_transaction e IdentityDatabase (\<lambda>s.
         res_bind (ok_or IdentityUnauthorized (sql_user (sint user) s)) (\<lambda>a.
         res_bind (ensure_row_allowed (ie_clock e 0) a) (\<lambda>_.
         res_bind (decode_profile e a) (\<lambda>profile.
         res_bind
           (if with_settings \<and> (lang \<noteq> None \<or> theme \<noteq> None)
            then write_settings e user lang theme profile s else Inr (profile, s)) (\<lambda>(profile, s').
         let profile = as_owner st profile in
         Inr ((profile, \<lparr>us_user_id = user, us_language = up_language profile,
                us_theme = up_theme profile\<rparr>), s')))))))"

definition themes :: "string list" where
  "themes = [''latte'', ''frappe'', ''macchiato'', ''mocha'']"

definition map_answer :: "('a \<Rightarrow> 'b) \<Rightarrow> ('e + 'a) \<times> 's \<Rightarrow> ('e + 'b) \<times> 's" where
  "map_answer f o' = (case o' of (Inl x, s) \<Rightarrow> (Inl x, s) | (Inr a, s) \<Rightarrow> (Inr (f a), s))"

definition current_profile ::
  "identity_env \<Rightarrow> identity_store \<Rightarrow> i64 \<Rightarrow> identity_db \<Rightarrow> (identity_error + user_profile) \<times> identity_db" where
  "current_profile e st user s =
     map_answer fst (authorized_profile_or_settings e st user False None None s)"

definition settings_of_user ::
  "identity_env \<Rightarrow> identity_store \<Rightarrow> i64 \<Rightarrow> identity_db \<Rightarrow> (identity_error + user_settings) \<times> identity_db" where
  "settings_of_user e st user s =
     map_answer snd (authorized_profile_or_settings e st user True None None s)"

definition update_settings ::
  "identity_env \<Rightarrow> identity_store \<Rightarrow> i64 \<Rightarrow> string option \<Rightarrow> string option \<Rightarrow> identity_db
    \<Rightarrow> (identity_error + user_settings) \<times> identity_db" where
  "update_settings e st user lang theme =
     guarded (\<not> pred_option (\<lambda>v. v \<in> {''en'', ''ru''}) lang) InvalidLanguage
       (guarded (\<not> pred_option (\<lambda>v. v \<in> set themes) theme) InvalidTheme
         (\<lambda>s. map_answer snd (authorized_profile_or_settings e st user True lang theme s)))"

end
