(* ===== verification/Identity_Membership.thy ===== *)
theory Identity_Membership
  imports Identity_Profile
begin

text \<open>
  Membership observations and menu contacts, \<open>membership.rs\<close> and \<open>menu_contacts.rs\<close> of
  \<open>backend/crates/yoink-identity/src\<close>. An observation carries the order the transport gives it,
  its time and its update identifier; the row of its subject keeps the greatest one applied. The
  generation of a bot in a group counts its comings and goings; the generation of a member is
  the one it was last seen in. Orders are compared as the pairs of integers the code compares.
\<close>

section \<open>Observations\<close>

definition occurred_micros :: "membership_observation \<Rightarrow> int" where
  "occurred_micros o' = mo_occurred_at o' div 1000"

definition order_key :: "membership_observation \<Rightarrow> int \<times> int" where
  "order_key o' = (occurred_micros o', uint (mo_update_id o'))"

fun status_contradicts :: "member_status \<Rightarrow> bool \<Rightarrow> bool" where
  "status_contradicts Creator present = (\<not> present)"
| "status_contradicts Administrator present = (\<not> present)"
| "status_contradicts Member present = (\<not> present)"
| "status_contradicts Left present = present"
| "status_contradicts Kicked present = present"
| "status_contradicts RestrictedMember present = False"

definition subject_error :: "membership_observation \<Rightarrow> identity_error option" where
  "subject_error o' =
     (case mo_subject o' of
        SubjectBot \<Rightarrow> if mo_tag o' \<noteq> UnknownTag then Some InvalidMembership else None
      | SubjectUser p \<Rightarrow>
          if sint (tp_user_id p) \<le> 0 \<or> tp_user_id p = mo_source_id o' then Some InvalidId
          else (case validate_profile p of Inl x \<Rightarrow> Some x | Inr _ \<Rightarrow> None))"

definition tag_invalid :: "observed_tag \<Rightarrow> bool" where
  "tag_invalid t =
     (case t of KnownTag (Some tag) \<Rightarrow> is_blank tag \<or> list_ex is_control (chars tag) | _ \<Rightarrow> False)"

definition membership_validate :: "membership_observation \<Rightarrow> identity_error + unit" where
  "membership_validate o' =
     (if sint (mo_source_id o') \<le> 0 \<or> 0 \<le> sint (mo_group_id o') then Inl InvalidId
      else if mo_occurred_at o' < 0 \<or> mo_occurred_at o' mod 1000 \<noteq> 0
         \<or> (case mo_title o' of None \<Rightarrow> False
            | Some t \<Rightarrow> length (chars t) > 256 \<or> list_ex is_control (chars t))
         \<or> status_contradicts (mo_status o') (mo_present o')
      then Inl InvalidMembership
      else (case subject_error o' of
              Some x \<Rightarrow> Inl x
            | None \<Rightarrow> if tag_invalid (mo_tag o') then Inl InvalidMembership else Inr ()))"

datatype membership_outcome = Applied | Duplicate | Stale | Suppressed | UnknownGroup

section \<open>Statements\<close>

definition sql_group_discover :: "int \<Rightarrow> string option \<Rightarrow> int \<Rightarrow> identity_db \<Rightarrow> identity_db option" where
  "sql_group_discover g title created s =
     (let row = \<lparr>gr_id = g, gr_title = title, gr_enabled = False, gr_auto_grant_role = ''user'',
                 gr_allow_pm = True, gr_nsfw_allowed = False, gr_storage_chat_id = None,
                 gr_storage_thread_id = None, gr_photo_url = None, gr_created_at = created\<rparr> in
      if group_exists g s \<or> \<not> group_checks row then None
      else Some (s\<lparr>known_groups := known_groups s @ [row]\<rparr>))"

definition sql_bot_upsert :: "bot_row \<Rightarrow> identity_db \<Rightarrow> identity_db option" where
  "sql_bot_upsert b s =
     (if \<not> bot_checks b then None
      else if sql_bot (bo_source b) (bo_group b) s = None then Some (s\<lparr>bots := bots s @ [b]\<rparr>)
      else Some (s\<lparr>bots := update_where (\<lambda>r. bo_source r = bo_source b \<and> bo_group r = bo_group b)
                  (\<lambda>_. b) (bots s)\<rparr>))"

definition merged_member :: "bool \<Rightarrow> member_row \<Rightarrow> member_row \<Rightarrow> member_row" where
  "merged_member known_tag m old =
     m\<lparr>me_tag := (if known_tag then me_tag m else me_tag old),
       me_tag_generation := (if known_tag then me_tag_generation m else me_tag_generation old)\<rparr>"

definition same_member :: "member_row \<Rightarrow> member_row \<Rightarrow> bool" where
  "same_member m r \<longleftrightarrow>
     me_source r = me_source m \<and> me_group r = me_group m \<and> me_user r = me_user m"

definition sql_member_upsert :: "member_row \<Rightarrow> bool \<Rightarrow> identity_db \<Rightarrow> identity_db option" where
  "sql_member_upsert m known_tag s =
     (if \<not> member_checks m then None
      else if sql_member (me_source m) (me_group m) (me_user m) s = None
      then Some (s\<lparr>members := members s @ [m]\<rparr>)
      else Some (s\<lparr>members := update_where (same_member m) (merged_member known_tag m) (members s)\<rparr>))"

definition ensure_membership_user ::
  "identity_env \<Rightarrow> trusted_profile \<Rightarrow> identity_db \<Rightarrow> identity_error + identity_db" where
  "ensure_membership_user e p s =
     (if sql_user (sint (tp_user_id p)) s \<noteq> None then Inr s
      else res_bind (registration_role s) (\<lambda>r.
           ok_or IdentityDatabase (sql_profile_insert p r (ie_clock e 0) s)))"

section \<open>Observing\<close>

definition stored_order :: "membership_observation \<Rightarrow> identity_db \<Rightarrow> ((int \<times> int) \<times> string) option" where
  "stored_order o' s =
     (case mo_subject o' of
        SubjectBot \<Rightarrow> map_option (\<lambda>b. ((bo_occurred_at b, bo_update_id b), bo_payload b))
          (sql_bot (sint (mo_source_id o')) (sint (mo_group_id o')) s)
      | SubjectUser p \<Rightarrow> map_option (\<lambda>m. ((me_occurred_at m, me_update_id m), me_payload m))
          (sql_member (sint (mo_source_id o')) (sint (mo_group_id o')) (sint (tp_user_id p)) s))"

text \<open>A group the bot enters is discovered, switched off.\<close>

definition discover_group :: "membership_observation \<Rightarrow> identity_db \<Rightarrow> identity_error + identity_db" where
  "discover_group o' s =
     (if \<not> group_exists (sint (mo_group_id o')) s \<and> mo_present o'
      then ok_or IdentityDatabase
             (sql_group_discover (sint (mo_group_id o')) (mo_title o') (occurred_micros o') s)
      else Inr s)"

definition observe_bot ::
  "identity_env \<Rightarrow> membership_observation \<Rightarrow> identity_db \<Rightarrow> identity_error + identity_db" where
  "observe_bot e o' s =
     (let bot = sql_bot (sint (mo_source_id o')) (sint (mo_group_id o')) s;
          generation = (case bot of None \<Rightarrow> 0 | Some b \<Rightarrow> bo_generation b) in
      res_bind
        (if map_option bo_present bot \<noteq> Some (mo_present o')
         then (if generation = 2 ^ 63 - 1 then Inl InvalidMembership else Inr (generation + 1))
         else Inr generation) (\<lambda>generation.
      ok_or IdentityDatabase (sql_bot_upsert
        \<lparr>bo_source = sint (mo_source_id o'), bo_group = sint (mo_group_id o'),
         bo_occurred_at = occurred_micros o', bo_update_id = uint (mo_update_id o'),
         bo_payload = ie_observation_text e o', bo_present = mo_present o',
         bo_generation = generation\<rparr> s)))"

definition member_generation :: "membership_observation \<Rightarrow> identity_db \<Rightarrow> int" where
  "member_generation o' s =
     (case sql_bot (sint (mo_source_id o')) (sint (mo_group_id o')) s of
        None \<Rightarrow> 0
      | Some b \<Rightarrow>
          if order_key o' < (bo_occurred_at b, bo_update_id b)
          then max (- (2 ^ 63)) (bo_generation b - 1) else bo_generation b)"

definition tag_of :: "observed_tag \<Rightarrow> bool \<times> string option" where
  "tag_of t = (case t of UnknownTag \<Rightarrow> (False, None) | KnownTag tag \<Rightarrow> (True, tag))"

definition observed_member ::
  "identity_env \<Rightarrow> membership_observation \<Rightarrow> trusted_profile \<Rightarrow> identity_db \<Rightarrow> member_row" where
  "observed_member e o' p s =
     \<lparr>me_source = sint (mo_source_id o'), me_group = sint (mo_group_id o'),
      me_user = sint (tp_user_id p), me_occurred_at = occurred_micros o',
      me_update_id = uint (mo_update_id o'), me_payload = ie_observation_text e o',
      me_present = mo_present o', me_generation = member_generation o' s,
      me_tag = snd (tag_of (mo_tag o')), me_tag_generation = member_generation o' s\<rparr>"

definition observe_user ::
  "identity_env \<Rightarrow> membership_observation \<Rightarrow> trusted_profile \<Rightarrow> identity_db
    \<Rightarrow> identity_error + identity_db" where
  "observe_user e o' p s =
     res_bind (ensure_membership_user e p s) (\<lambda>s'.
       ok_or IdentityDatabase
         (sql_member_upsert (observed_member e o' p s) (fst (tag_of (mo_tag o'))) s'))"

definition apply_observation ::
  "identity_env \<Rightarrow> membership_observation \<Rightarrow> identity_db \<Rightarrow> identity_error + identity_db" where
  "apply_observation e o' s =
     (case mo_subject o' of
        SubjectBot \<Rightarrow> res_bind (discover_group o' s) (observe_bot e o')
      | SubjectUser p \<Rightarrow> observe_user e o' p s)"

definition observe_in_transaction ::
  "identity_env \<Rightarrow> membership_observation \<Rightarrow> identity_db
    \<Rightarrow> identity_error + membership_outcome \<times> identity_db" where
  "observe_in_transaction e o' s =
     (if sint (mo_group_id o') \<in> set (suppressed_groups s) then Inr (Suppressed, s)
      else
        let fresh = (if \<not> group_exists (sint (mo_group_id o')) s \<and> mo_subject o' \<noteq> SubjectBot
                     then Inr (UnknownGroup, s)
                     else res_bind (apply_observation e o' s) (\<lambda>s'. Inr (Applied, s'))) in
        (case stored_order o' s of
           None \<Rightarrow> fresh
         | Some (key, payload) \<Rightarrow>
             if order_key o' < key then Inr (Stale, s)
             else if order_key o' = key then
               (if payload = ie_observation_text e o' then Inr (Duplicate, s)
                else Inl MembershipConflict)
             else fresh))"

section \<open>Menu contacts\<close>

record menu_contact =
  mc_source_id :: i64
  mc_chat_id :: i64
  mc_user_id :: i64

record contact_lease =
  le_contact :: menu_contact
  le_revision :: u64
  le_chat_revision :: u64

definition contact_state_default :: contact_state where
  "contact_state_default = \<lparr>cs_revision = 0, cs_unavailable = False, cs_observed = None\<rparr>"

definition menu_contact_validate :: "menu_contact \<Rightarrow> identity_error + unit" where
  "menu_contact_validate c =
     (if sint (mc_source_id c) \<le> 0 \<or> mc_chat_id c = 0 \<or> sint (mc_user_id c) < 0
         \<or> (0 < sint (mc_chat_id c) \<and> mc_user_id c \<noteq> 0)
      then Inl InvalidMenuContact else Inr ())"

definition chat_contact :: "menu_contact \<Rightarrow> menu_contact" where
  "chat_contact c = c\<lparr>mc_user_id := 0\<rparr>"

definition show_int :: "int \<Rightarrow> string" where
  "show_int n = (if n < 0 then CHR ''-'' # show_nat (nat (- n)) else show_nat (nat n))"

definition contact_key :: "menu_contact \<Rightarrow> string" where
  "contact_key c =
     ''mc:'' @ show_int (sint (mc_source_id c)) @ '':'' @ show_int (sint (mc_chat_id c)) @ '':''
     @ show_int (sint (mc_user_id c))"

definition advance :: "contact_state \<Rightarrow> identity_error + contact_state" where
  "advance c =
     (if cs_revision c = - 1 then Inl InvalidMenuContact else Inr (c\<lparr>cs_revision := cs_revision c + 1\<rparr>))"

definition read_contact ::
  "identity_env \<Rightarrow> menu_contact \<Rightarrow> identity_db \<Rightarrow> identity_error + contact_state" where
  "read_contact e c s =
     (case sql_setting (contact_key c) s of
        None \<Rightarrow> Inr contact_state_default
      | Some None \<Rightarrow> Inl IdentityDatabase
      | Some (Some v) \<Rightarrow> ok_or InvalidMenuContact (ie_contact_parse e v))"

definition write_contact ::
  "identity_env \<Rightarrow> menu_contact \<Rightarrow> contact_state \<Rightarrow> identity_db \<Rightarrow> identity_error + identity_db" where
  "write_contact e c st s =
     ok_or IdentityDatabase (sql_setting_upsert (contact_key c) (ie_contact_text e st) s)"

definition before :: "i64 \<times> u32 \<Rightarrow> i64 \<times> u32 \<Rightarrow> bool" where
  "before a b \<longleftrightarrow> (sint (fst a), uint (snd a)) \<le> (sint (fst b), uint (snd b))"

definition observe_contact ::
  "identity_env \<Rightarrow> menu_contact \<Rightarrow> i64 \<times> u32 \<Rightarrow> bool \<Rightarrow> identity_db
    \<Rightarrow> identity_error + bool \<times> identity_db" where
  "observe_contact e c seen available s =
     res_bind (read_contact e c s) (\<lambda>st.
       if (case cs_observed st of None \<Rightarrow> False | Some old \<Rightarrow> before seen old) then Inr (False, s)
       else res_bind (advance st) (\<lambda>st'.
            res_bind (write_contact e c
                (st'\<lparr>cs_unavailable := \<not> available, cs_observed := Some seen\<rparr>) s) (\<lambda>s'.
            Inr (cs_unavailable st \<and> available, s'))))"

definition observe_menu_contact ::
  "identity_env \<Rightarrow> menu_contact \<Rightarrow> i64 \<times> u32 \<Rightarrow> bool \<Rightarrow> identity_db
    \<Rightarrow> (identity_error + bool) \<times> identity_db" where
  "observe_menu_contact e c seen available =
     guarded (menu_contact_validate c \<noteq> Inr () \<or> sint (fst seen) < 0) InvalidMenuContact
       (in_transaction e IdentityDatabase (observe_contact e c seen available))"

definition restore_menu_contact ::
  "identity_env \<Rightarrow> menu_contact \<Rightarrow> i64 \<times> u32 \<Rightarrow> identity_db
    \<Rightarrow> (identity_error + bool) \<times> identity_db" where
  "restore_menu_contact e c seen = observe_menu_contact e c seen True"

definition begin_menu_contact ::
  "identity_env \<Rightarrow> menu_contact \<Rightarrow> identity_db
    \<Rightarrow> (identity_error + contact_lease option) \<times> identity_db" where
  "begin_menu_contact e c =
     guarded (menu_contact_validate c \<noteq> Inr ()) InvalidMenuContact
       (reading e IdentityDatabase (\<lambda>s.
         res_bind (read_contact e c s) (\<lambda>st.
         res_bind (if mc_user_id c = 0 then Inr contact_state_default
                   else read_contact e (chat_contact c) s) (\<lambda>chat.
         Inr (if \<not> cs_unavailable st \<and> \<not> cs_unavailable chat
              then Some \<lparr>le_contact = c, le_revision = cs_revision st,
                         le_chat_revision = cs_revision chat\<rparr>
              else None)))))"

definition reject_menu_contact ::
  "identity_env \<Rightarrow> contact_lease \<Rightarrow> bool \<Rightarrow> identity_db \<Rightarrow> (identity_error + unit) \<times> identity_db" where
  "reject_menu_contact e lease whole_chat =
     in_transaction e IdentityDatabase (\<lambda>s.
       let (c, expected) =
         (if whole_chat \<and> mc_user_id (le_contact lease) \<noteq> 0
          then (chat_contact (le_contact lease), le_chat_revision lease)
          else (le_contact lease, le_revision lease)) in
       res_bind (read_contact e c s) (\<lambda>st.
         if cs_revision st = expected
         then res_bind (advance st) (\<lambda>st'.
              res_bind (write_contact e c (st'\<lparr>cs_unavailable := True\<rparr>) s) (\<lambda>s'. Inr ((), s')))
         else Inr ((), s)))"

section \<open>The whole observation\<close>

definition observed_contact :: "membership_observation \<Rightarrow> menu_contact" where
  "observed_contact o' =
     \<lparr>mc_source_id = mo_source_id o', mc_chat_id = mo_group_id o',
      mc_user_id = (case mo_subject o' of SubjectBot \<Rightarrow> 0 | SubjectUser p \<Rightarrow> tp_user_id p)\<rparr>"

definition observe_membership ::
  "identity_env \<Rightarrow> membership_observation \<Rightarrow> identity_db
    \<Rightarrow> (identity_error + membership_outcome) \<times> identity_db" where
  "observe_membership e o' s =
     (case membership_validate o' of Inl x \<Rightarrow> (Inl x, s)
      | Inr _ \<Rightarrow>
          in_transaction e IdentityDatabase (\<lambda>s.
            res_bind (observe_in_transaction e o' s) (\<lambda>(outcome, s').
              if outcome \<in> {Applied, Suppressed, UnknownGroup}
              then res_bind (observe_contact e (observed_contact o')
                     (of_int (occurred_micros o'), mo_update_id o') (mo_present o') s') (\<lambda>(_, s'').
                   Inr (outcome, s''))
              else Inr (outcome, s'))) s)"

section \<open>Reading memberships\<close>

definition sql_membership_eligible :: "int \<Rightarrow> int \<Rightarrow> int \<Rightarrow> identity_db \<Rightarrow> bool" where
  "sql_membership_eligible source g user s \<longleftrightarrow>
     list_ex (\<lambda>r. gr_id r = g \<and> gr_enabled r) (known_groups s)
     \<and> g \<notin> set (suppressed_groups s)
     \<and> \<not> list_ex (\<lambda>b. bo_source b = source \<and> bo_group b = g \<and> \<not> bo_present b) (bots s)
     \<and> \<not> list_ex (\<lambda>m. me_source m = source \<and> me_group m = g \<and> me_user m = user
            \<and> stale_member s m) (members s)"

definition membership_eligible ::
  "identity_env \<Rightarrow> i64 \<Rightarrow> i64 \<Rightarrow> i64 \<Rightarrow> identity_db \<Rightarrow> (identity_error + bool) \<times> identity_db" where
  "membership_eligible e source g user =
     guarded (sint source \<le> 0 \<or> 0 \<le> sint g \<or> sint user \<le> 0) InvalidId
       (reading e IdentityDatabase (\<lambda>s.
         Inr (sql_membership_eligible (sint source) (sint g) (sint user) s)))"

text \<open>The three selects of the statement and their \<open>UNION\<close> in order.\<close>

definition sql_membership_cleanup_targets :: "int \<Rightarrow> identity_db \<Rightarrow> (int \<times> int) list" where
  "sql_membership_cleanup_targets source s =
     sort (remdups
       (map (\<lambda>m. (me_user m, me_group m)) (filter (\<lambda>m. me_source m = source) (members s))
        @ List.product (map ac_id (accounts s)) (suppressed_groups s)
        @ List.product (map ac_id (accounts s))
            (map bo_group (filter (\<lambda>b. bo_source b = source \<and> \<not> bo_present b) (bots s)))))"

definition membership_cleanup_targets ::
  "identity_env \<Rightarrow> i64 \<Rightarrow> identity_db \<Rightarrow> (identity_error + (int \<times> int) list) \<times> identity_db" where
  "membership_cleanup_targets e source =
     guarded (sint source \<le> 0) InvalidId
       (reading e IdentityDatabase (\<lambda>s. Inr (sql_membership_cleanup_targets (sint source) s)))"

text \<open>The pages of \<open>invalidation.rs\<close>: at most 128 groups or targets after a key.\<close>

definition access_groups_after ::
  "identity_env \<Rightarrow> int \<Rightarrow> identity_db \<Rightarrow> (identity_error + int list) \<times> identity_db" where
  "access_groups_after e after =
     reading e IdentityDatabase (\<lambda>s. Inr (take 128 (filter (\<lambda>g. g > after) (sort (remdups
       (filter (\<lambda>g. g < 0) (map gr_id (known_groups s)) @ suppressed_groups s
        @ map bo_group (bots s) @ map me_group (members s)))))))"

definition access_targets_after ::
  "identity_env \<Rightarrow> int \<times> int \<Rightarrow> identity_db \<Rightarrow> (identity_error + (int \<times> int) list) \<times> identity_db" where
  "access_targets_after e after =
     reading e IdentityDatabase (\<lambda>s.
       let known = filter (\<lambda>u. 0 < u) (map ac_id (accounts s)) in
       Inr (take 128 (filter (\<lambda>t. t > after) (sort (remdups
         (map (\<lambda>u. (u, u)) known
          @ List.product known (filter (\<lambda>g. g < 0) (map gr_id (known_groups s)))
          @ List.product known (suppressed_groups s)
          @ List.product known (map bo_group (bots s))
          @ map (\<lambda>m. (me_user m, me_group m)) (members s)))))))"

end
