(* ===== verification/Identity_Admin.thy ===== *)
theory Identity_Admin
  imports Identity_Membership
begin

text \<open>
  Administration of users and features, \<open>backend/crates/yoink-identity/src/admin.rs\<close>: every call
  authorizes its actor again inside its transaction, from the rows as they are then. An admin
  manages users below it; admins and the owner are managed by the owner alone, and nobody is
  made an owner. Listing users (a search) is not modelled. The k-th reading of the clock in a
  call is \<open>ie_clock e k\<close>.
\<close>

section \<open>Authorizing an administrator\<close>

definition admin_role :: "string \<Rightarrow> admin_error + role" where
  "admin_role v = map_err AdminUnavailable (role_from_str v)"

definition row_is_blocked :: "role \<Rightarrow> instant option \<Rightarrow> instant \<Rightarrow> bool" where
  "row_is_blocked r until now \<longleftrightarrow>
     r = Banned \<or> (case until of None \<Rightarrow> False | Some t \<Rightarrow> t > now)"

definition now_db :: "identity_env \<Rightarrow> nat \<Rightarrow> admin_error + instant" where
  "now_db e k = get_time e AdminUnavailable (ie_clock e k)"

definition admin_auth ::
  "identity_env \<Rightarrow> nat \<Rightarrow> i64 \<Rightarrow> i64 option \<Rightarrow> bool \<Rightarrow> bool \<Rightarrow> identity_db \<Rightarrow> admin_error + role" where
  "admin_auth e k actor owner admin owner_only s =
     res_bind (ok_or AdminUnauthorized (sql_user (sint actor) s)) (\<lambda>a.
     res_bind (admin_role (ac_role a)) (\<lambda>r.
     res_bind (traverse_option (get_time e AdminUnavailable) (ac_ban_until a)) (\<lambda>until.
     res_bind (now_db e k) (\<lambda>now.
       if row_is_blocked r until now then Inl AdminForbidden
       else
         let r = (if owner = Some actor then Owner else r) in
         if owner_only \<and> r \<noteq> Owner then Inl AdminForbidden
         else if admin \<and> r < Admin then Inl AdminForbidden
         else Inr r))))"

definition user_role ::
  "identity_env \<Rightarrow> nat \<Rightarrow> i64 \<Rightarrow> i64 option \<Rightarrow> identity_db \<Rightarrow> admin_error + role option" where
  "user_role e k user owner s =
     (case sql_user (sint user) s of None \<Rightarrow> Inr None
      | Some a \<Rightarrow>
          res_bind (admin_role (ac_role a)) (\<lambda>r.
          res_bind (traverse_option (get_time e AdminUnavailable) (ac_ban_until a)) (\<lambda>until.
          if owner \<noteq> Some user then Inr (Some r)
          else res_bind (now_db e k) (\<lambda>now.
            Inr (Some (if row_is_blocked r until now then r else Owner))))))"

definition valid_ids :: "i64 \<Rightarrow> i64 \<Rightarrow> bool" where
  "valid_ids a t \<longleftrightarrow> 0 < sint a \<and> 0 < sint t"

section \<open>Users\<close>

record admin_user =
  au_id :: int
  au_username :: "string option"
  au_first_name :: "string option"
  au_photo_url :: "string option"
  au_role :: role
  au_language :: string
  au_theme :: string
  au_ban_until :: "instant option"
  au_created_at :: instant
  au_updated_at :: instant
  au_dl_count :: nat
  au_dl_last_at :: "instant option"

record admin_user_patch =
  ap_role :: "role option"
  ap_language :: "string option"
  ap_ban_until :: "int option option"

definition downloads_of :: "int \<Rightarrow> identity_db \<Rightarrow> int list" where
  "downloads_of user s = map snd (filter (\<lambda>d. fst d = user) (download_log s))"

definition decode_user ::
  "identity_env \<Rightarrow> i64 option \<Rightarrow> instant \<Rightarrow> account \<Rightarrow> identity_db \<Rightarrow> admin_error + admin_user" where
  "decode_user e owner now a s =
     res_bind (admin_role (ac_role a)) (\<lambda>r.
     res_bind (traverse_option (get_time e AdminUnavailable) (ac_ban_until a)) (\<lambda>until.
     res_bind (get_time e AdminUnavailable (ac_created_at a)) (\<lambda>created.
     res_bind (get_time e AdminUnavailable (ac_updated_at a)) (\<lambda>updated.
     res_bind (case downloads_of (ac_id a) s of [] \<Rightarrow> Inr None
               | t # ts \<Rightarrow> res_bind (get_time e AdminUnavailable (foldl max t ts)) (\<lambda>t. Inr (Some t))) (\<lambda>latest.
     Inr \<lparr>au_id = ac_id a, au_username = ac_username a, au_first_name = ac_first_name a,
          au_photo_url = ac_photo_url a,
          au_role = (if map_option sint owner = Some (ac_id a) \<and> \<not> row_is_blocked r until now
                     then Owner else r),
          au_language = ac_language a, au_theme = ac_theme a, au_ban_until = until,
          au_created_at = created, au_updated_at = updated,
          au_dl_count = length (downloads_of (ac_id a) s), au_dl_last_at = latest\<rparr>)))))"

definition admin_get_user ::
  "identity_env \<Rightarrow> identity_store \<Rightarrow> i64 \<Rightarrow> i64 \<Rightarrow> identity_db \<Rightarrow> (admin_error + admin_user) \<times> identity_db" where
  "admin_get_user e st actor whom =
     guarded (\<not> valid_ids actor whom) AdminInvalidInput
       (reading e AdminUnavailable (\<lambda>s.
         res_bind (admin_auth e 0 actor (owner_id st) True False s) (\<lambda>_.
         res_bind (ok_or AdminNotFound (sql_user (sint whom) s)) (\<lambda>a.
         res_bind (now_db e 1) (\<lambda>now. decode_user e (owner_id st) now a s)))))"

definition patched_account :: "admin_user_patch \<Rightarrow> int \<Rightarrow> account \<Rightarrow> account" where
  "patched_account p now a =
     a\<lparr>ac_role := (case ap_role p of None \<Rightarrow> ac_role a | Some r \<Rightarrow> role_to_string r),
       ac_language := (case ap_language p of None \<Rightarrow> ac_language a | Some l \<Rightarrow> l),
       ac_ban_until := (case ap_ban_until p of None \<Rightarrow> ac_ban_until a | Some until \<Rightarrow> until),
       ac_updated_at := (case ap_language p of None \<Rightarrow> ac_updated_at a
         | Some l \<Rightarrow> if ac_language a \<noteq> l then max (ac_updated_at a + 1) now else ac_updated_at a)\<rparr>"

definition patchable :: "admin_user_patch \<Rightarrow> int \<Rightarrow> account \<Rightarrow> bool" where
  "patchable p user a \<longleftrightarrow>
     ac_id a = user
     \<and> (ap_language p = None \<or> ap_language p = Some (ac_language a) \<or> ac_updated_at a < 2 ^ 63 - 1)"

definition sql_admin_user_update ::
  "admin_user_patch \<Rightarrow> int \<Rightarrow> int \<Rightarrow> identity_db \<Rightarrow> identity_db option" where
  "sql_admin_user_update p user now s =
     (if \<not> list_ex (patchable p user) (accounts s) then None
      else sql_update_account (patchable p user) (patched_account p now) s)"

definition patch_refused :: "identity_store \<Rightarrow> i64 \<Rightarrow> i64 \<Rightarrow> admin_user_patch \<Rightarrow> role \<Rightarrow> role \<Rightarrow> bool" where
  "patch_refused st actor whom p actor_role target_role \<longleftrightarrow>
     target_role = Owner \<or> owner_id st = Some whom
     \<or> (actor_role \<noteq> Owner \<and> target_role = Admin)
     \<or> (actor_role \<noteq> Owner \<and> (case ap_role p of None \<Rightarrow> False | Some r \<Rightarrow> r \<ge> Admin))
     \<or> (whom = actor \<and> (case ap_role p of None \<Rightarrow> False | Some r \<Rightarrow> r > actor_role))"

definition admin_update_user ::
  "identity_env \<Rightarrow> identity_store \<Rightarrow> i64 \<Rightarrow> i64 \<Rightarrow> admin_user_patch \<Rightarrow> identity_db
    \<Rightarrow> (admin_error + admin_user) \<times> identity_db" where
  "admin_update_user e st actor whom p =
     guarded (\<not> valid_ids actor whom \<or> \<not> pred_option (\<lambda>l. l \<in> {''en'', ''ru''}) (ap_language p))
       AdminInvalidInput
     (guarded (ap_role p = Some Owner) AdminForbidden
       (in_transaction e AdminUnavailable (\<lambda>s.
         res_bind (admin_auth e 0 actor (owner_id st) True False s) (\<lambda>actor_role.
         res_bind (ok_or AdminNotFound (sql_user (sint whom) s)) (\<lambda>a.
         res_bind (res_bind (now_db e 1) (\<lambda>now. decode_user e (owner_id st) now a s)) (\<lambda>current.
           if patch_refused st actor whom p actor_role (au_role current) then Inl AdminForbidden
           else res_bind
               (if ap_role p = None \<and> ap_language p = None \<and> ap_ban_until p = None then Inr s
                else ok_or AdminUnavailable (sql_admin_user_update p (sint whom) (ie_clock e 2) s)) (\<lambda>s'.
             res_bind (ok_or AdminUnavailable (sql_user (sint whom) s')) (\<lambda>a'.
             res_bind (res_bind (now_db e 3) (\<lambda>now. decode_user e (owner_id st) now a' s')) (\<lambda>u.
             Inr (u, s'))))))))))"

section \<open>Permissions\<close>

record admin_permission =
  aq_id :: int
  aq_user :: int
  aq_plugin :: string
  aq_feature :: string
  aq_granted_by :: int
  aq_granted_at :: instant
  aq_expires_at :: "instant option"
  aq_source :: string

definition decode_permission :: "identity_env \<Rightarrow> permission_row \<Rightarrow> admin_error + admin_permission" where
  "decode_permission e p =
     res_bind (get_time e AdminUnavailable (pr_granted_at p)) (\<lambda>granted.
     res_bind (traverse_option (get_time e AdminUnavailable) (pr_expires_at p)) (\<lambda>until.
     let src = (case pr_source p of None \<Rightarrow> ''manual'' | Some v \<Rightarrow> v) in
     if src \<notin> {''manual'', ''tag''} then Inl AdminUnavailable
     else Inr \<lparr>aq_id = pr_id p, aq_user = pr_user p, aq_plugin = pr_plugin p,
            aq_feature = pr_feature p, aq_granted_by = pr_granted_by p, aq_granted_at = granted,
            aq_expires_at = until, aq_source = src\<rparr>))"

text \<open>The identifier a derived permission is shown with: eight bytes of a digest, negated.\<close>

definition be_u64 :: "string \<Rightarrow> nat" where
  "be_u64 bytes = foldl (\<lambda>n c. n * 256 + byte c) 0 (take 8 bytes)"

definition virtual_id :: "identity_env \<Rightarrow> int \<Rightarrow> grant \<Rightarrow> int" where
  "virtual_id e user g =
     - max (int (be_u64 (ie_sha256 e
           (show_int user @ '':'' @ grant_plugin g @ '':'' @ grant_feature g))) mod 2 ^ 63) 1"

definition same_permission :: "int \<Rightarrow> grant \<Rightarrow> admin_permission \<Rightarrow> bool" where
  "same_permission user g p \<longleftrightarrow>
     aq_user p = user \<and> aq_plugin p = grant_plugin g \<and> aq_feature p = grant_feature g"

definition append_automatic ::
  "identity_env \<Rightarrow> int \<Rightarrow> grant \<Rightarrow> admin_permission list \<Rightarrow> admin_permission list" where
  "append_automatic e user g out =
     (if list_ex (\<lambda>p. same_permission user g p \<and> aq_expires_at p = None) out then out
      else filter (\<lambda>p. \<not> same_permission user g p) out
        @ [\<lparr>aq_id = virtual_id e user g, aq_user = user, aq_plugin = grant_plugin g,
            aq_feature = grant_feature g, aq_granted_by = 0, aq_granted_at = 0,
            aq_expires_at = None, aq_source = ''tag''\<rparr>])"

definition append_automatic_permissions ::
  "identity_env \<Rightarrow> int \<Rightarrow> identity_db \<Rightarrow> admin_permission list \<Rightarrow> admin_permission list" where
  "append_automatic_permissions e user s out =
     fold (append_automatic e user) (automatic_grants e user s) out"

definition unexpired :: "int \<Rightarrow> permission_row \<Rightarrow> bool" where
  "unexpired now p \<longleftrightarrow> (case pr_expires_at p of None \<Rightarrow> True | Some t \<Rightarrow> t > now)"

definition sql_permissions_user :: "int \<Rightarrow> int \<Rightarrow> identity_db \<Rightarrow> permission_row list" where
  "sql_permissions_user user now s =
     sort_key (\<lambda>p. (pr_plugin p, pr_feature p))
       (filter (\<lambda>p. pr_user p = user \<and> unexpired now p) (permissions s))"

definition sql_permissions_all :: "int \<Rightarrow> identity_db \<Rightarrow> permission_row list" where
  "sql_permissions_all now s =
     sort_key (\<lambda>p. (pr_plugin p, pr_feature p, - pr_granted_at p)) (filter (unexpired now) (permissions s))"

definition permission_list ::
  "identity_env \<Rightarrow> nat \<Rightarrow> int \<Rightarrow> identity_db \<Rightarrow> admin_error + admin_permission list" where
  "permission_list e k user s =
     res_bind (traverse_list (decode_permission e) (sql_permissions_user user (ie_clock e k) s)) (\<lambda>ps.
       Inr (append_automatic_permissions e user s ps))"

definition user_exists :: "i64 \<Rightarrow> identity_env \<Rightarrow> identity_db \<Rightarrow> admin_error + unit" where
  "user_exists user e s =
     res_bind (user_role e 1 user None s) (\<lambda>r. if r = None then Inl AdminNotFound else Inr ())"

definition admin_permissions ::
  "identity_env \<Rightarrow> identity_store \<Rightarrow> i64 \<Rightarrow> i64 option \<Rightarrow> identity_db
    \<Rightarrow> (admin_error + admin_permission list) \<times> identity_db" where
  "admin_permissions e st actor whom =
     guarded (sint actor \<le> 0 \<or> (case whom of None \<Rightarrow> False | Some t \<Rightarrow> sint t \<le> 0)) AdminInvalidInput
       (reading e AdminUnavailable (\<lambda>s.
         res_bind (admin_auth e 0 actor (owner_id st) True False s) (\<lambda>_.
         res_bind (case whom of None \<Rightarrow> Inr () | Some t \<Rightarrow> user_exists t e s) (\<lambda>_.
         res_bind (traverse_list (decode_permission e)
             (case whom of Some t \<Rightarrow> sql_permissions_user (sint t) (ie_clock e 2) s
              | None \<Rightarrow> sql_permissions_all (ie_clock e 2) s)) (\<lambda>ps.
         let users = (case whom of Some t \<Rightarrow> [sint t]
                      | None \<Rightarrow> sort (filter (\<lambda>i. 0 < i) (map ac_id (accounts s)))) in
         Inr (sort_key (\<lambda>p. (aq_user p, aq_plugin p, aq_feature p))
           (fold (\<lambda>u. append_automatic_permissions e u s) users ps)))))))"

text \<open>What \<open>admin_grant_permission\<close> and \<open>admin_revoke_permission\<close> check before they write: the
  actor's role, the user's, and that a grant by a tag is only the owner's to change.\<close>

definition permission_guard ::
  "identity_env \<Rightarrow> identity_store \<Rightarrow> i64 \<Rightarrow> i64 \<Rightarrow> string \<Rightarrow> string \<Rightarrow> identity_db
    \<Rightarrow> admin_error + role" where
  "permission_guard e st actor whom plugin feature s =
     res_bind (admin_auth e 0 actor (owner_id st) True False s) (\<lambda>r.
     res_bind (res_bind (user_role e 1 whom (owner_id st) s) (ok_or AdminNotFound)) (\<lambda>target_role.
       if owner_id st = Some whom \<or> (target_role \<ge> Admin \<and> r \<noteq> Owner) then Inl AdminForbidden
       else (case sql_permission (sint whom) plugin feature s of
               None \<Rightarrow>
                 if r \<noteq> Owner \<and> list_ex (\<lambda>g. grant_plugin g = plugin \<and> grant_feature g = feature)
                      (automatic_grants e (sint whom) s)
                 then Inl AdminForbidden else Inr r
             | Some p \<Rightarrow>
                 let src = (case pr_source p of None \<Rightarrow> ''manual'' | Some v \<Rightarrow> v) in
                 if src = ''manual'' \<or> (src = ''tag'' \<and> r = Owner) then Inr r
                 else if src = ''tag'' then Inl AdminForbidden else Inl AdminUnavailable)))"

definition sql_feature_restore :: "int \<Rightarrow> string \<Rightarrow> string \<Rightarrow> identity_db \<Rightarrow> identity_db" where
  "sql_feature_restore user plugin feature s =
     s\<lparr>suppressed_features := filter (\<lambda>k. k \<noteq> (user, plugin, feature)) (suppressed_features s)\<rparr>"

definition sql_feature_suppress :: "int \<Rightarrow> string \<Rightarrow> string \<Rightarrow> identity_db \<Rightarrow> identity_db" where
  "sql_feature_suppress user plugin feature s =
     (if (user, plugin, feature) \<in> set (suppressed_features s) then s
      else s\<lparr>suppressed_features := suppressed_features s @ [(user, plugin, feature)]\<rparr>)"

definition sql_grant_upsert ::
  "int \<Rightarrow> int \<Rightarrow> string \<Rightarrow> string \<Rightarrow> int \<Rightarrow> int \<Rightarrow> int option \<Rightarrow> identity_db \<Rightarrow> identity_db option" where
  "sql_grant_upsert new_id user plugin feature actor now until s =
     (if chars_count plugin > 32 \<or> chars_count feature > 64 then None
      else if sql_permission user plugin feature s = None
      then Some (s\<lparr>permissions := permissions s @
             [\<lparr>pr_id = new_id, pr_user = user, pr_plugin = plugin, pr_feature = feature,
               pr_granted_by = actor, pr_granted_at = now, pr_expires_at = until,
               pr_source = Some ''manual''\<rparr>]\<rparr>)
      else Some (s\<lparr>permissions :=
             update_where (\<lambda>p. pr_user p = user \<and> pr_plugin p = plugin \<and> pr_feature p = feature)
               (\<lambda>p. p\<lparr>pr_granted_by := actor, pr_granted_at := now, pr_expires_at := until,
                      pr_source := Some ''manual''\<rparr>) (permissions s)\<rparr>))"

definition admin_grant_permission ::
  "identity_env \<Rightarrow> identity_store \<Rightarrow> i64 \<Rightarrow> i64 \<Rightarrow> string \<Rightarrow> string \<Rightarrow> int option \<Rightarrow> identity_db
    \<Rightarrow> (admin_error + admin_permission) \<times> identity_db" where
  "admin_grant_permission e st actor whom plugin feature until =
     guarded (\<not> valid_ids actor whom \<or> plugin = [] \<or> length plugin > 32 \<or> feature = []
         \<or> length feature > 64 \<or> \<not> registered plugin feature) AdminInvalidInput
       (in_transaction e AdminUnavailable (\<lambda>s.
         res_bind (permission_guard e st actor whom plugin feature s) (\<lambda>_.
         res_bind (ok_or AdminUnavailable
             (sql_grant_upsert (ie_rowid e) (sint whom) plugin feature (sint actor) (ie_clock e 2) until
               (sql_feature_restore (sint whom) plugin feature s))) (\<lambda>s'.
         res_bind (ok_or AdminUnavailable (sql_permission (sint whom) plugin feature s')) (\<lambda>p.
         res_bind (decode_permission e p) (\<lambda>q. Inr (q, s')))))))"

definition sql_revoke :: "int \<Rightarrow> string \<Rightarrow> string \<Rightarrow> identity_db \<Rightarrow> identity_db" where
  "sql_revoke user plugin feature s =
     s\<lparr>permissions := filter (\<lambda>p. \<not> (pr_user p = user \<and> pr_plugin p = plugin \<and> pr_feature p = feature))
        (permissions s)\<rparr>"

definition admin_revoke_permission ::
  "identity_env \<Rightarrow> identity_store \<Rightarrow> i64 \<Rightarrow> i64 \<Rightarrow> string \<Rightarrow> string \<Rightarrow> identity_db
    \<Rightarrow> (admin_error + unit) \<times> identity_db" where
  "admin_revoke_permission e st actor whom plugin feature =
     guarded (\<not> valid_ids actor whom) AdminInvalidInput
       (in_transaction e AdminUnavailable (\<lambda>s.
         res_bind (permission_guard e st actor whom plugin feature s) (\<lambda>r.
           Inr ((), sql_revoke (sint whom) plugin feature
             (if r = Owner then sql_feature_suppress (sint whom) plugin feature s else s)))))"

end
