(* ===== verification/Identity_Features.thy ===== *)
theory Identity_Features
  imports Identity_Admin
begin

text \<open>
  Features, tag maps and the settings of the bot as administrators see and change them, the rest
  of \<open>backend/crates/yoink-identity/src/admin.rs\<close> with \<open>admin/configuration.rs\<close> and
  \<open>admin/downloader.rs\<close>. A \<open>BTreeMap\<close> of settings is the list of its entries in the order of
  the keys.
\<close>

section \<open>Features\<close>

definition registered_feature_metadata :: "string \<Rightarrow> string \<Rightarrow> (string \<times> string) option" where
  "registered_feature_metadata plugin feature = map_of
     [((''dl'', ''inline''), (''Inline search'',
        ''YouTube search and URL lookup via @bot inline mode'')),
      ((''dl'', ''shared_cookies''), (''Shared admin cookies'',
        ''Fall back to admin cookies when user has none for a domain'')),
      ((''stats'', ''stats''), (''Chat Statistics'',
        ''Access to /stats command and analytics dashboard'')),
      ((''insight'', ''summary''), (''AI Summary'',
        ''Access to /summary and /about commands (YouTube transcript + Gemini)'')),
      ((''insight'', ''tldr''), (''TL;DR'',
        ''Access to /tldr command (any URL summarised via gateway LLM)'')),
      ((''insight'', ''search''), (''AI Search'',
        ''Route /summary, /about and /tldr fetch through the gateway answer engine (/v1/search). Enables web-search + smart scrape for URLs and topical questions.'')),
      ((''music'', ''inline''), (''Music Inline Search'',
        ''Search and share music links via inline queries (@bot query)'')),
      ((''inbox'', ''ingest''), (''Inbox Ingest'',
        ''Save links into the inbox (via bot, web, or REST).'')),
      ((''inbox'', ''classify''), (''AI Categorisation'',
        ''Automatically categorise saved links with an LLM.'')),
      ((''inbox'', ''share''), (''Share Categories'',
        ''Share categories with an inbox team.'')),
      ((''inbox'', ''gh_sync''), (''GitHub Stars Sync'',
        ''Sync the user's starred GitHub repositories into the inbox viewer.'')),
      ((''inbox'', ''gh_organise''), (''AI-Organise Stars'',
        ''Batch-organise starred repositories into folders with an LLM.'')),
      ((''inbox'', ''gh_write''), (''Star/Unstar From Yoink'',
        ''Star or unstar repositories from the yoink UI. Requires opt-in public_repo OAuth upgrade.'')),
      ((''inbox'', ''admin''), (''Inbox Admin'',
        ''Manage the inbox of any user.''))] (plugin, feature)"

record admin_feature =
  af_plugin :: string
  af_feature :: string
  af_label :: string
  af_description :: string
  af_default_min_role :: "role option"

definition feature_of :: "feature_spec \<Rightarrow> admin_feature option" where
  "feature_of s = map_option (\<lambda>(label, description).
       \<lparr>af_plugin = spec_plugin s, af_feature = spec_feature s, af_label = label,
        af_description = description, af_default_min_role = default_min_role s\<rparr>)
     (registered_feature_metadata (spec_plugin s) (spec_feature s))"

text \<open>\<open>expect\<close> is a panic for a feature without texts; there is none.\<close>

definition feature_rows :: "admin_feature list" where
  "feature_rows = List.map_filter feature_of registered_features"

lemma every_feature_has_texts: "length feature_rows = length registered_features"
  by (simp add: feature_rows_def feature_of_def registered_feature_metadata_def
      registered_features_def spec_of_def List.map_filter_simps)

definition admin_features ::
  "identity_env \<Rightarrow> identity_store \<Rightarrow> i64 \<Rightarrow> identity_db
    \<Rightarrow> (admin_error + admin_feature list) \<times> identity_db" where
  "admin_features e st actor =
     guarded (sint actor \<le> 0) AdminInvalidInput
       (reading e AdminUnavailable (\<lambda>s.
         res_bind (admin_auth e 0 actor (owner_id st) True False s) (\<lambda>_. Inr feature_rows)))"

definition available_key :: "admin_feature \<Rightarrow> string" where
  "available_key f = af_plugin f @ '':'' @ af_feature f"

definition admin_available_features ::
  "identity_env \<Rightarrow> identity_store \<Rightarrow> i64 \<Rightarrow> identity_db
    \<Rightarrow> (admin_error + (string \<times> admin_feature) list) \<times> identity_db" where
  "admin_available_features e st actor =
     guarded (sint actor \<le> 0) AdminInvalidInput
       (reading e AdminUnavailable (\<lambda>s.
         res_bind (admin_auth e 0 actor (owner_id st) True False s) (\<lambda>_.
           Inr (sort_key fst (map (\<lambda>f. (available_key f, f)) feature_rows)))))"

section \<open>What a user may use\<close>

record feature_access =
  fa_spec :: feature_spec
  fa_access_via_role :: bool
  fa_access_via_grant :: bool
  fa_effective :: bool
  fa_grant_expires_at :: "instant option"
  fa_grant_source :: string

definition grant_of_permission :: "admin_permission \<Rightarrow> grant" where
  "grant_of_permission p =
     \<lparr>grant_plugin = aq_plugin p, grant_feature = aq_feature p, expires_at = aq_expires_at p\<rparr>"

definition for_spec :: "feature_spec \<Rightarrow> grant \<Rightarrow> bool" where
  "for_spec s g \<longleftrightarrow> grant_plugin g = spec_plugin s \<and> grant_feature g = spec_feature s"

definition access_of ::
  "i64 \<Rightarrow> role \<Rightarrow> bool \<Rightarrow> admin_permission list \<Rightarrow> provider_grant list \<Rightarrow> instant \<Rightarrow> feature_spec
    \<Rightarrow> feature_access" where
  "access_of user r blocked ps providers now s =
     (let grants = map grant_of_permission ps; gr = find_row (for_spec s) grants in
      \<lparr>fa_spec = s,
       fa_access_via_role = (\<not> blocked \<and> (r = Owner \<or>
         (case default_min_role s of None \<Rightarrow> False | Some m \<Rightarrow> r \<ge> m))),
       fa_access_via_grant = (\<not> blocked \<and> (case gr of None \<Rightarrow> False
         | Some g \<Rightarrow> (case expires_at g of None \<Rightarrow> True | Some t \<Rightarrow> t > now))),
       fa_effective = (\<not> blocked \<and> effective_grant
         \<lparr>user_id = user, role = r, ban_until = None\<rparr> s grants providers now \<noteq> None),
       fa_grant_expires_at = (case gr of None \<Rightarrow> None | Some g \<Rightarrow> expires_at g),
       fa_grant_source = (case find_row (\<lambda>p. for_spec s (grant_of_permission p)) ps of
         None \<Rightarrow> ''manual'' | Some p \<Rightarrow> aq_source p)\<rparr>)"

text \<open>The readings of the clock that follow the first \<open>k\<close> of a call.\<close>

definition later :: "nat \<Rightarrow> identity_env \<Rightarrow> identity_env" where
  "later k e = e\<lparr>ie_clock := (\<lambda>i. ie_clock e (i + k))\<rparr>"

definition access_providers ::
  "identity_env \<Rightarrow> identity_store \<Rightarrow> i64 \<Rightarrow> identity_db \<Rightarrow> admin_error + provider_grant list" where
  "access_providers e st user s =
     (if \<not> insight_enabled st then Inr []
      else res_bind (map_err AdminUnavailable (read_snapshot e st user None s)) (\<lambda>sn.
             res_bind (ok_or AdminNotFound sn) (\<lambda>sn. Inr (sn_providers sn))))"

definition admin_feature_access ::
  "identity_env \<Rightarrow> identity_store \<Rightarrow> i64 \<Rightarrow> i64 option \<Rightarrow> identity_db
    \<Rightarrow> (admin_error + feature_access list) \<times> identity_db" where
  "admin_feature_access e st actor whom =
     guarded (sint actor \<le> 0 \<or> (case whom of None \<Rightarrow> False | Some t \<Rightarrow> sint t \<le> 0)) AdminInvalidInput
       (reading e AdminUnavailable (\<lambda>s.
         let user = (case whom of None \<Rightarrow> actor | Some t \<Rightarrow> t) in
         res_bind (admin_auth e 0 actor (owner_id st) False False s) (\<lambda>actor_role.
         if user \<noteq> actor \<and> actor_role < Admin then Inl AdminForbidden
         else
         res_bind (res_bind (user_role e 1 user (owner_id st) s) (ok_or AdminNotFound)) (\<lambda>r.
         res_bind (now_db e 2) (\<lambda>now.
         res_bind (ok_or AdminUnavailable (sql_user (sint user) s)) (\<lambda>a.
         res_bind (traverse_option (get_time e AdminUnavailable) (ac_ban_until a)) (\<lambda>until.
         res_bind (permission_list e 3 (sint user) s) (\<lambda>ps.
         res_bind (access_providers (later 4 e) st user s) (\<lambda>providers.
         Inr (map (access_of user r (row_is_blocked r until now) ps providers now)
           registered_features))))))))))"

section \<open>The tag map\<close>

definition admin_tag_map ::
  "identity_env \<Rightarrow> identity_store \<Rightarrow> i64 \<Rightarrow> identity_db
    \<Rightarrow> (admin_error + (string \<times> string list) list) \<times> identity_db" where
  "admin_tag_map e st actor =
     guarded (sint actor \<le> 0) AdminInvalidInput
       (reading e AdminUnavailable (\<lambda>s.
         res_bind (admin_auth e 0 actor (owner_id st) True False s) (\<lambda>_.
           case sql_setting ''tag_map'' s of
             None \<Rightarrow> Inr []
           | Some None \<Rightarrow> Inl AdminUnavailable
           | Some (Some raw) \<Rightarrow> decode_tag_map e raw)))"

definition admin_update_tag_map ::
  "identity_env \<Rightarrow> identity_store \<Rightarrow> i64 \<Rightarrow> (string \<times> string list) list \<Rightarrow> identity_db
    \<Rightarrow> (admin_error + (string \<times> string list) list) \<times> identity_db" where
  "admin_update_tag_map e st actor entries =
     guarded (sint actor \<le> 0 \<or> validated_tag_map entries = None) AdminInvalidInput
       (in_transaction e AdminUnavailable (\<lambda>s.
         let mapping = the (validated_tag_map entries) in
         res_bind (admin_auth e 0 actor (owner_id st) True True s) (\<lambda>r.
           if r \<noteq> Owner then Inl AdminForbidden
           else res_bind (ok_or AdminUnavailable
                  (sql_setting_upsert ''tag_map'' (ie_tag_map_text e mapping) s)) (\<lambda>s'.
                Inr (mapping, s')))))"

section \<open>The settings of the bot\<close>

definition parse_i64 :: "string \<Rightarrow> int option" where
  "parse_i64 v =
     (case v of [] \<Rightarrow> None
      | c # d \<Rightarrow>
          if c = CHR ''-'' then
            (case parse_digits d of None \<Rightarrow> None
             | Some n \<Rightarrow> if int n \<le> 2 ^ 63 then Some (- int n) else None)
          else map_option int (parse_unsigned (2 ^ 63) v))"

lemma parse_i64_show: "n < 2 ^ 63 \<Longrightarrow> parse_i64 (show_nat n) = Some (int n)"
proof -
  assume n: "n < 2 ^ 63"
  obtain c t where ct: "show_nat n = c # t" using show_nat_digits [of n] by (cases "show_nat n") auto
  have "c \<noteq> CHR ''-''" using show_nat_digits [of n] unfolding ct by (auto simp: is_ascii_digit_def byte_def)
  then show ?thesis using parse_show_nat [OF n] unfolding ct by (simp add: parse_i64_def)
qed

definition valid_chat_id :: "string \<Rightarrow> bool" where
  "valid_chat_id v \<longleftrightarrow> v = [] \<or> (case parse_i64 v of None \<Rightarrow> False | Some n \<Rightarrow> n < 0)"

definition valid_thread_id :: "string \<Rightarrow> bool" where
  "valid_thread_id v \<longleftrightarrow> v = [] \<or> (case parse_i64 v of None \<Rightarrow> False | Some n \<Rightarrow> n > 0)"

definition is_role_text :: "string \<Rightarrow> bool" where
  "is_role_text v = (case role_from_str v of Inl _ \<Rightarrow> False | Inr _ \<Rightarrow> True)"

definition setting_ok :: "string \<times> string \<Rightarrow> bool" where
  "setting_ok kv = (case kv of (k, v) \<Rightarrow>
     if k = ''bot_access_mode'' then v \<in> {''open'', ''approved_only''}
     else if k = ''browser_cookies_min_role'' then is_role_text v
     else if k = ''inline_storage_chat_id'' then valid_chat_id v
     else if k = ''inline_storage_thread_id'' then valid_thread_id v
     else False)"

text \<open>\<open>key NOT LIKE 'mc:%'\<close>: the pattern ignores the case of ASCII letters.\<close>

definition sql_admin_settings :: "identity_db \<Rightarrow> (string \<times> string option) list" where
  "sql_admin_settings s = filter (\<lambda>(k, _). map to_ascii_lowercase (take 3 k) \<noteq> ''mc:'') (setting_rows s)"

definition read_values :: "identity_db \<Rightarrow> admin_error + (string \<times> string) list" where
  "read_values s =
     traverse_list (\<lambda>(k, v). res_bind (ok_or AdminUnavailable v) (\<lambda>v. Inr (k, v))) (sql_admin_settings s)"

definition setting_defaults :: "(string \<times> string) list" where
  "setting_defaults =
     [(''browser_cookies_min_role'', ''owner''), (''bot_access_mode'', ''open''),
      (''inline_storage_chat_id'', []), (''inline_storage_thread_id'', []), (''tag_map'', ''{}'')]"

definition admin_bot_settings ::
  "identity_env \<Rightarrow> identity_store \<Rightarrow> i64 \<Rightarrow> identity_db
    \<Rightarrow> (admin_error + (string \<Rightarrow> string option)) \<times> identity_db" where
  "admin_bot_settings e st actor =
     guarded (sint actor \<le> 0) AdminInvalidInput
       (reading e AdminUnavailable (\<lambda>s.
         res_bind (admin_auth e 0 actor (owner_id st) True False s) (\<lambda>_.
         res_bind (read_values s) (\<lambda>values.
         let m = map_of setting_defaults ++ map_of values in
         if m ''bot_access_mode'' \<notin> {Some ''open'', Some ''approved_only''}
            \<or> \<not> pred_option is_role_text (m ''browser_cookies_min_role'')
         then Inl AdminUnavailable else Inr m))))"

fun upsert_settings :: "(string \<times> string) list \<Rightarrow> identity_db \<Rightarrow> identity_db option" where
  "upsert_settings [] s = Some s"
| "upsert_settings ((k, v) # kvs) s =
     (case sql_setting_upsert k v s of None \<Rightarrow> None | Some s' \<Rightarrow> upsert_settings kvs s')"

definition admin_update_bot_settings ::
  "identity_env \<Rightarrow> identity_store \<Rightarrow> i64 \<Rightarrow> (string \<times> string) list \<Rightarrow> identity_db
    \<Rightarrow> (admin_error + unit) \<times> identity_db" where
  "admin_update_bot_settings e st actor patch =
     guarded (sint actor \<le> 0 \<or> \<not> list_all setting_ok patch) AdminInvalidInput
       (in_transaction e AdminUnavailable (\<lambda>s.
         res_bind (admin_auth e 0 actor (owner_id st) True True s) (\<lambda>r.
           if r \<noteq> Owner then Inl AdminForbidden
           else res_bind (ok_or AdminUnavailable (upsert_settings patch s)) (\<lambda>s'. Inr ((), s')))))"

section \<open>A patch of the settings\<close>

definition access_mode_diagnostic :: string where
  "access_mode_diagnostic = ''bot_access_mode: expected open or approved_only''"

definition min_role_diagnostic :: string where
  "min_role_diagnostic = ''browser_cookies_min_role: expected a valid role''"

definition chat_id_diagnostic :: string where
  "chat_id_diagnostic = ''inline_storage_chat_id: expected a negative Telegram chat ID (integer or decimal string)''"

definition thread_id_diagnostic :: string where
  "thread_id_diagnostic = ''inline_storage_thread_id: expected a positive thread ID (integer or decimal string)''"

definition unknown_setting_diagnostic :: string where
  "unknown_setting_diagnostic = ''Unknown bot setting; supported keys: bot_access_mode, browser_cookies_min_role, inline_storage_chat_id, inline_storage_thread_id. Use /bot-settings/tag-map for tag maps''"

definition json_i64 :: "json \<Rightarrow> int option" where
  "json_i64 v =
     (case v of
        JString t \<Rightarrow> if t \<noteq> [] \<and> trim t = t then parse_i64 t else None
      | JPosInt n \<Rightarrow> if n \<le> i64_max then Some (uint n) else None
      | JNegInt n \<Rightarrow> Some (sint n)
      | _ \<Rightarrow> None)"

definition text_setting :: "(string \<Rightarrow> bool) \<Rightarrow> string \<Rightarrow> json \<Rightarrow> string + string" where
  "text_setting good diagnostic v =
     (case v of JString t \<Rightarrow> if good t then Inr t else Inl diagnostic | _ \<Rightarrow> Inl diagnostic)"

definition id_setting :: "(int \<Rightarrow> bool) \<Rightarrow> string \<Rightarrow> json \<Rightarrow> string + string" where
  "id_setting good diagnostic v =
     (case json_i64 v of None \<Rightarrow> Inl diagnostic
      | Some n \<Rightarrow> if good n then Inr (show_int n) else Inl diagnostic)"

definition setting_parser :: "string \<Rightarrow> (json \<Rightarrow> string + string) option" where
  "setting_parser k =
     (if k = ''bot_access_mode''
      then Some (text_setting (\<lambda>v. v \<in> {''open'', ''approved_only''}) access_mode_diagnostic)
      else if k = ''browser_cookies_min_role'' then Some (text_setting is_role_text min_role_diagnostic)
      else if k = ''inline_storage_chat_id'' then Some (id_setting (\<lambda>n. n < 0) chat_id_diagnostic)
      else if k = ''inline_storage_thread_id'' then Some (id_setting (\<lambda>n. n > 0) thread_id_diagnostic)
      else None)"

fun parse_settings :: "(string \<times> json) list \<Rightarrow> string + (string \<times> string) list" where
  "parse_settings [] = Inr []"
| "parse_settings ((k, v) # kvs) =
     (case setting_parser k of
        None \<Rightarrow> Inl unknown_setting_diagnostic
      | Some parse \<Rightarrow>
          if v = JNull then parse_settings kvs
          else res_bind (parse v) (\<lambda>text.
               res_bind (parse_settings kvs) (\<lambda>rest. Inr ((k, text) # rest))))"

text \<open>The members of an object come in the order of their keys, as \<open>serde_json\<close> keeps them.\<close>

definition bot_settings_patch_parse :: "json \<Rightarrow> string + (string \<times> string) list" where
  "bot_settings_patch_parse body =
     (case as_object body of
        None \<Rightarrow> Inl ''Expected a bot-settings object'' | Some kvs \<Rightarrow> parse_settings kvs)"

definition admin_patch_configuration ::
  "identity_env \<Rightarrow> identity_store \<Rightarrow> i64 \<Rightarrow> (string \<times> string) list \<Rightarrow> identity_db
    \<Rightarrow> (admin_error + unit) \<times> identity_db" where
  "admin_patch_configuration e st actor patch = admin_update_bot_settings e st actor patch"

definition configuration_authorized ::
  "identity_env \<Rightarrow> identity_store \<Rightarrow> i64 \<Rightarrow> bool \<Rightarrow> identity_db \<Rightarrow> (admin_error + unit) \<times> identity_db" where
  "configuration_authorized e st actor owner_only =
     guarded (sint actor \<le> 0) AdminInvalidInput
       (reading e AdminUnavailable (\<lambda>s.
         res_bind (admin_auth e 0 actor (owner_id st) True owner_only s) (\<lambda>_. Inr ())))"

section \<open>The settings of the downloader\<close>

definition downloader_admin_settings ::
  "identity_env \<Rightarrow> identity_store \<Rightarrow> i64 \<Rightarrow> identity_db
    \<Rightarrow> (admin_error + downloader_settings) \<times> identity_db" where
  "downloader_admin_settings e st actor =
     reading e AdminUnavailable (\<lambda>s.
       res_bind (admin_auth e 0 actor (owner_id st) True False s) (\<lambda>_.
       res_bind (read_values s) (\<lambda>values.
       map_err AdminUnavailable (from_settings (map_of values)))))"

definition changes_of :: "settings_patch \<Rightarrow> (string \<times> string) list" where
  "changes_of p =
     List.map_filter (\<lambda>k. map_option (\<lambda>v. (k, v)) (patch_values p k))
       [''dl.download_retries'', ''dl.download_timeout'', ''dl.max_file_size_mb'',
        ''dl.max_playlist_count'', ''dl.rate_limit_per_day'', ''dl.rate_limit_per_hour'',
        ''dl.rate_limit_per_minute'']"

definition patch_downloader_admin_settings ::
  "identity_env \<Rightarrow> identity_store \<Rightarrow> i64 \<Rightarrow> settings_patch \<Rightarrow> identity_db
    \<Rightarrow> (admin_error + downloader_settings) \<times> identity_db" where
  "patch_downloader_admin_settings e st actor p =
     in_transaction e AdminUnavailable (\<lambda>s.
       res_bind (admin_auth e 0 actor (owner_id st) True False s) (\<lambda>_.
       res_bind (read_values s) (\<lambda>values.
       res_bind (map_err AdminInvalidInput
           (from_settings (map_of values ++ patch_values p))) (\<lambda>settings.
       res_bind (ok_or AdminUnavailable (upsert_settings (changes_of p) s)) (\<lambda>s'.
       Inr (settings, s'))))))"

end
