(* ===== verification/Auth.thy ===== *)
theory Auth
  imports Identity_Features Media
begin

text \<open>
  Who a request comes from: \<open>backend/crates/yoink-auth/src/lib.rs\<close>. The data Telegram signs for a
  web application is a form whose fields are authenticated by an HMAC under a key derived from
  the token of the bot; the tokens the service issues are JSON Web Tokens with HMAC-SHA256.
  Parameters are the HMAC, base64 without padding, the JSON reader and the \<open>url\<close> crate. There is
  one error, without a value: which check fails does not show.
\<close>

section \<open>Parameters and values\<close>

record auth_env =
  av_hmac :: "string \<Rightarrow> string \<Rightarrow> string"
  av_b64_encode :: "string \<Rightarrow> string"
  av_b64_decode :: "string \<Rightarrow> string option"
  av_json :: "string \<Rightarrow> json option"
  av_url :: url_parser

datatype auth_error = AuthError

record auth_config =
  cf_bot_token :: string
  cf_jwt_secret :: string
  cf_max_age :: u64
  cf_future_skew :: u64
  cf_token_ttl :: u64

record signed_profile =
  sp_user_id :: int
  sp_username :: "string option"
  sp_first_name :: "string option"
  sp_photo_url :: "string option"

record jwt_profile =
  jp_user_id :: i64
  jp_role :: string
  jp_username :: "string option"
  jp_first_name :: "string option"

definition require :: "bool \<Rightarrow> auth_error + unit" where
  "require b = (if b then Inr () else Inl AuthError)"

definition no_control :: "string \<Rightarrow> bool" where
  "no_control s \<longleftrightarrow> \<not> list_ex is_control (chars s)"

definition auth_config_new ::
  "string \<Rightarrow> string \<Rightarrow> u64 \<Rightarrow> u64 \<Rightarrow> u64 \<Rightarrow> auth_error + auth_config" where
  "auth_config_new bot_token secret max_age skew ttl =
     (if bot_token = [] \<or> list_ex is_whitespace (chars bot_token) \<or> is_blank secret
         \<or> \<not> (1 \<le> max_age \<and> max_age \<le> 86400) \<or> skew > 300 \<or> \<not> (60 \<le> ttl \<and> ttl \<le> 604800)
      then Inl AuthError
      else Inr \<lparr>cf_bot_token = bot_token, cf_jwt_secret = secret, cf_max_age = max_age,
                cf_future_skew = skew, cf_token_ttl = ttl\<rparr>)"

section \<open>Forms\<close>

text \<open>\<open>String::from_utf8\<close>: the byte sequences that encode text.\<close>

definition is_continuation :: "char \<Rightarrow> bool" where
  "is_continuation c \<longleftrightarrow> 128 \<le> byte c \<and> byte c < 192"

definition second_byte_ok :: "char \<Rightarrow> char \<Rightarrow> bool" where
  "second_byte_ok c d \<longleftrightarrow>
     (if byte c = 0xE0 then 0xA0 \<le> byte d else if byte c = 0xED then byte d < 0xA0
      else if byte c = 0xF0 then 0x90 \<le> byte d else if byte c = 0xF4 then byte d < 0x90 else True)"

fun valid_utf8 :: "string \<Rightarrow> bool" where
  "valid_utf8 [] \<longleftrightarrow> True"
| "valid_utf8 (c # s) \<longleftrightarrow>
     (if byte c < 128 then valid_utf8 s
      else 0xC2 \<le> byte c \<and> byte c \<le> 0xF4 \<and> continuation_bytes c \<le> length s
        \<and> list_all is_continuation (take (continuation_bytes c) s) \<and> second_byte_ok c (hd s)
        \<and> valid_utf8 (drop (continuation_bytes c) s))"

definition hex_nibble :: "char \<Rightarrow> nat option" where
  "hex_nibble c =
     (let b = byte c in
      if 48 \<le> b \<and> b \<le> 57 then Some (b - 48)
      else if 97 \<le> b \<and> b \<le> 102 then Some (b - 97 + 10)
      else if 65 \<le> b \<and> b \<le> 70 then Some (b - 65 + 10) else None)"

definition hex_pair :: "char \<Rightarrow> char \<Rightarrow> char option" where
  "hex_pair a b =
     (case (hex_nibble a, hex_nibble b) of
        (Some h, Some l) \<Rightarrow> Some (char_of (h * 16 + l)) | _ \<Rightarrow> None)"

fun form_bytes :: "string \<Rightarrow> string option" where
  "form_bytes [] = Some []"
| "form_bytes (c # s) =
     (if c = CHR ''+'' then map_option (Cons CHR '' '') (form_bytes s)
      else if c = CHR ''%'' then
        (case s of
           a # b # t \<Rightarrow>
             (case hex_pair a b of None \<Rightarrow> None | Some d \<Rightarrow> map_option (Cons d) (form_bytes t))
         | _ \<Rightarrow> None)
      else map_option (Cons c) (form_bytes s))"

definition form_decode :: "string \<Rightarrow> auth_error + string" where
  "form_decode input =
     (case form_bytes input of None \<Rightarrow> Inl AuthError
      | Some d \<Rightarrow> if valid_utf8 d then Inr d else Inl AuthError)"

definition form_field :: "string \<Rightarrow> auth_error + string \<times> string" where
  "form_field pair =
     res_bind (ok_or AuthError (split_once ''='' pair)) (\<lambda>(key, v).
     res_bind (form_decode key) (\<lambda>key.
     res_bind (form_decode v) (\<lambda>v.
     res_bind (require (key \<noteq> [] \<and> CHR ''='' \<notin> set key \<and> no_control key \<and> no_control v)) (\<lambda>_.
     Inr (key, v)))))"

definition parse_form :: "string \<Rightarrow> auth_error + (string \<times> string) list" where
  "parse_form input =
     (let pairs = split_on CHR ''&'' input in
      res_bind (require (length pairs \<le> 64)) (\<lambda>_.
      res_bind (traverse_list form_field pairs) (\<lambda>form.
      res_bind (require (distinct (map fst form))) (\<lambda>_. Inr form))))"

section \<open>Signed data\<close>

fun decode_hex :: "string \<Rightarrow> auth_error + string" where
  "decode_hex (a # b # s) =
     res_bind (ok_or AuthError (hex_pair a b)) (\<lambda>d. res_bind (decode_hex s) (\<lambda>ds. Inr (d # ds)))"
| "decode_hex _ = Inr []"

definition data_check :: "(string \<times> string) list \<Rightarrow> string" where
  "data_check form =
     join_with [CHR 0x0A] (map (\<lambda>(k, v). k @ ''='' @ v)
       (sort_key fst (filter (\<lambda>f. fst f \<noteq> ''hash'') form)))"

definition signed_by_bot :: "auth_env \<Rightarrow> auth_config \<Rightarrow> (string \<times> string) list \<Rightarrow> string \<Rightarrow> bool" where
  "signed_by_bot e c form mac \<longleftrightarrow>
     av_hmac e (av_hmac e ''WebAppData'' (cf_bot_token c)) (data_check form) = mac"

fun json_depth :: "json \<Rightarrow> nat \<Rightarrow> nat" where
  "json_depth (JArray a) d =
     (case map (\<lambda>v. json_depth v (d + 1)) a of [] \<Rightarrow> d + 1 | n # ns \<Rightarrow> foldl max n ns)"
| "json_depth (JObject fs) d =
     (case map (\<lambda>kv. json_depth (snd kv) (d + 1)) fs of [] \<Rightarrow> d + 1 | n # ns \<Rightarrow> foldl max n ns)"
| "json_depth _ d = d"

definition as_i64 :: "json \<Rightarrow> int option" where
  "as_i64 v =
     (case v of
        JPosInt n \<Rightarrow> if n \<le> i64_max then Some (uint n) else None
      | JNegInt n \<Rightarrow> Some (sint n) | _ \<Rightarrow> None)"

definition optional_string ::
  "(string \<times> json) list \<Rightarrow> string \<Rightarrow> nat \<Rightarrow> auth_error + string option" where
  "optional_string object key n =
     (case map_of object key of
        None \<Rightarrow> Inr None
      | Some JNull \<Rightarrow> Inr None
      | Some (JString s) \<Rightarrow> if length s \<le> n \<and> no_control s then Inr (Some s) else Inl AuthError
      | Some _ \<Rightarrow> Inl AuthError)"

definition photo_ok :: "auth_env \<Rightarrow> string option \<Rightarrow> bool" where
  "photo_ok e photo \<longleftrightarrow>
     pred_option (\<lambda>t. case av_url e t of None \<Rightarrow> False
       | Some u \<Rightarrow> url_scheme u \<in> {''http'', ''https''} \<and> url_host u \<noteq> None
           \<and> url_username u = [] \<and> url_password u = None) photo"

definition signed_user :: "auth_env \<Rightarrow> string \<Rightarrow> auth_error + signed_profile" where
  "signed_user e text =
     res_bind (ok_or AuthError (av_json e text)) (\<lambda>user.
     res_bind (require (json_depth user 0 \<le> 8)) (\<lambda>_.
     res_bind (ok_or AuthError (as_object user)) (\<lambda>object.
     res_bind (ok_or AuthError (Option.bind (map_of object ''id'') as_i64)) (\<lambda>i.
     res_bind (require (0 < i)) (\<lambda>_.
     res_bind (optional_string object ''username'' 64) (\<lambda>username.
     res_bind (optional_string object ''first_name'' 256) (\<lambda>first_name.
     res_bind (optional_string object ''photo_url'' 2048) (\<lambda>photo.
     res_bind (require (photo_ok e photo)) (\<lambda>_.
     Inr \<lparr>sp_user_id = i, sp_username = username, sp_first_name = first_name,
          sp_photo_url = photo\<rparr>)))))))))"

definition auth_date :: "(string \<times> string) list \<Rightarrow> auth_error + int" where
  "auth_date form =
     res_bind (ok_or AuthError (map_of form ''auth_date'')) (\<lambda>text.
     res_bind (require (text \<noteq> [] \<and> list_all is_ascii_digit text)) (\<lambda>_.
     res_bind (ok_or AuthError (parse_i64 text)) (\<lambda>n.
     res_bind (require (0 < n)) (\<lambda>_. Inr n))))"

definition fresh :: "auth_config \<Rightarrow> int \<Rightarrow> int \<Rightarrow> bool" where
  "fresh c timestamp now \<longleftrightarrow>
     timestamp \<le> now + uint (cf_future_skew c) \<and> now - timestamp \<le> uint (cf_max_age c)"

definition verify_webapp :: "auth_env \<Rightarrow> auth_config \<Rightarrow> string \<Rightarrow> i64 \<Rightarrow> auth_error + signed_profile" where
  "verify_webapp e c init_data now =
     res_bind (require (init_data \<noteq> [] \<and> length init_data \<le> 16 * 1024 \<and> no_control init_data)) (\<lambda>_.
     res_bind (parse_form init_data) (\<lambda>form.
     res_bind (ok_or AuthError (map_of form ''hash'')) (\<lambda>signature.
     res_bind (require (length signature = 64 \<and> list_all is_ascii_hexdigit signature)) (\<lambda>_.
     res_bind (decode_hex signature) (\<lambda>mac.
     res_bind (require (signed_by_bot e c form mac)) (\<lambda>_.
     res_bind (auth_date form) (\<lambda>timestamp.
     res_bind (require (fresh c timestamp (sint now))) (\<lambda>_.
     res_bind (ok_or AuthError (map_of form ''user'')) (signed_user e)))))))))"

section \<open>Tokens\<close>

definition valid_claim_string :: "string option \<Rightarrow> nat \<Rightarrow> bool" where
  "valid_claim_string v n \<longleftrightarrow> pred_option (\<lambda>s. length s \<le> n \<and> no_control s) v"

definition role_text_ok :: "string \<Rightarrow> bool" where
  "role_text_ok r \<longleftrightarrow> r \<noteq> [] \<and> length r \<le> 128 \<and> no_control r"

definition json_int :: "i64 \<Rightarrow> json" where
  "json_int n = (if sint n < 0 then JNegInt n else JPosInt (ucast n))"

definition claim_field :: "string \<Rightarrow> string option \<Rightarrow> (string \<times> json) list" where
  "claim_field key v = (case v of None \<Rightarrow> [] | Some s \<Rightarrow> if s = [] then [] else [(key, JString s)])"

definition token_claims :: "jwt_profile \<Rightarrow> i64 \<Rightarrow> (string \<times> json) list" where
  "token_claims p expiry =
     [(''sub'', JString (show_nat (nat (sint (jp_user_id p))))), (''role'', JString (jp_role p)),
      (''exp'', json_int expiry)]
     @ claim_field ''username'' (jp_username p) @ claim_field ''first_name'' (jp_first_name p)"

definition header_text :: string where
  \<open>header_text = ''{"alg":"HS256","typ":"JWT"}''\<close>

definition checked_add_i64 :: "i64 \<Rightarrow> u64 \<Rightarrow> i64 option" where
  "checked_add_i64 a b =
     (if uint b < 2 ^ 63 \<and> sint a + uint b < 2 ^ 63 then Some (a + ucast b) else None)"

definition signing_input :: "string \<Rightarrow> string \<Rightarrow> string" where
  "signing_input head payload = head @ ''.'' @ payload"

definition issue_token :: "auth_env \<Rightarrow> auth_config \<Rightarrow> jwt_profile \<Rightarrow> i64 \<Rightarrow> auth_error + string" where
  "issue_token e c p now =
     res_bind (require (0 < sint (jp_user_id p) \<and> role_text_ok (jp_role p)
         \<and> valid_claim_string (jp_username p) 64 \<and> valid_claim_string (jp_first_name p) 256)) (\<lambda>_.
     res_bind (ok_or AuthError (checked_add_i64 now (cf_token_ttl c))) (\<lambda>expiry.
     let input = signing_input (av_b64_encode e header_text)
           (av_b64_encode e (json_text (JObject (token_claims p expiry)))) in
     Inr (input @ ''.'' @ av_b64_encode e (av_hmac e (cf_jwt_secret c) input))))"

definition strict_b64 :: "auth_env \<Rightarrow> string \<Rightarrow> auth_error + string" where
  "strict_b64 e v =
     res_bind (require (CHR ''='' \<notin> set v)) (\<lambda>_.
     res_bind (ok_or AuthError (av_b64_decode e v)) (\<lambda>decoded.
     res_bind (require (av_b64_encode e decoded = v)) (\<lambda>_. Inr decoded)))"

definition header_ok :: "json \<Rightarrow> bool" where
  "header_ok h =
     (case as_object h of None \<Rightarrow> False
      | Some fs \<Rightarrow> length fs = 2 \<and> Option.bind (map_of fs ''alg'') as_str = Some ''HS256''
          \<and> Option.bind (map_of fs ''typ'') as_str = Some ''JWT'')"

definition subject :: "string \<Rightarrow> auth_error + int" where
  "subject sub =
     res_bind (require (sub \<noteq> [] \<and> list_all is_ascii_digit sub
         \<and> \<not> (length sub > 1 \<and> starts_with sub ''0''))) (\<lambda>_.
     res_bind (ok_or AuthError (parse_i64 sub)) (\<lambda>user.
     res_bind (require (0 < user)) (\<lambda>_. Inr user)))"

definition verify_claims :: "(string \<times> json) list \<Rightarrow> i64 \<Rightarrow> auth_error + int" where
  "verify_claims claims now =
     res_bind (ok_or AuthError (Option.bind (map_of claims ''sub'') as_str)) (\<lambda>sub.
     res_bind (subject sub) (\<lambda>user.
     res_bind (ok_or AuthError (Option.bind (map_of claims ''role'') as_str)) (\<lambda>r.
     res_bind (require (role_text_ok r)) (\<lambda>_.
     res_bind (ok_or AuthError (Option.bind (map_of claims ''exp'') as_i64)) (\<lambda>expiry.
     res_bind (require (sint now < expiry)) (\<lambda>_.
     res_bind (optional_string claims ''username'' 64) (\<lambda>_.
     res_bind (optional_string claims ''first_name'' 256) (\<lambda>_. Inr user))))))))"

definition verify_token :: "auth_env \<Rightarrow> auth_config \<Rightarrow> string \<Rightarrow> i64 \<Rightarrow> auth_error + int" where
  "verify_token e c token now =
     res_bind (require (token \<noteq> [] \<and> length token \<le> 8192)) (\<lambda>_.
     case split_on CHR ''.'' token of
       [head, payload, signature] \<Rightarrow>
         res_bind (require (head \<noteq> [] \<and> payload \<noteq> [] \<and> signature \<noteq> [])) (\<lambda>_.
         res_bind (strict_b64 e head) (\<lambda>header.
         res_bind (ok_or AuthError (av_json e header)) (\<lambda>header.
         res_bind (require (header_ok header)) (\<lambda>_.
         res_bind (strict_b64 e signature) (\<lambda>mac.
         res_bind (require (av_hmac e (cf_jwt_secret c) (signing_input head payload) = mac)) (\<lambda>_.
         res_bind (strict_b64 e payload) (\<lambda>bytes.
         res_bind (ok_or AuthError (av_json e bytes)) (\<lambda>claims.
         res_bind (require (json_depth claims 0 \<le> 8)) (\<lambda>_.
         res_bind (ok_or AuthError (as_object claims)) (\<lambda>claims.
         verify_claims claims now))))))))))
     | _ \<Rightarrow> Inl AuthError)"

end
