(* ===== verification/Session.thy ===== *)
theory Session
  imports Auth
begin

text \<open>
  The sign-in endpoints of \<open>backend/crates/yoink-http/src/auth.rs\<close>, where \<open>yoink-auth\<close> and
  \<open>yoink-identity\<close> meet: signed data become an account and a token, a token becomes an account.
  An answer is its status and detail, or the value. \<open>now k\<close> is the second the k-th reading of
  the clock gives; a request body or query that axum does not accept is \<open>None\<close>, and a header is
  what \<open>to_str\<close> makes of it. Routing, headers of the answer and the fields of JSON are left out.
\<close>

section \<open>Answers\<close>

datatype api_error = ApiError nat string

fun of_identity_error :: "identity_error \<Rightarrow> api_error" where
  "of_identity_error IdentityUnauthorized = ApiError 401 ''Invalid identity''"
| "of_identity_error IdentityForbidden = ApiError 403 ''Access denied''"
| "of_identity_error InvalidId = ApiError 422 ''Invalid request''"
| "of_identity_error InvalidProfile = ApiError 422 ''Invalid request''"
| "of_identity_error InvalidLanguage = ApiError 422 ''Invalid request''"
| "of_identity_error InvalidTheme = ApiError 422 ''Invalid request''"
| "of_identity_error _ = ApiError 503 ''Identity service unavailable''"

fun convert_err :: "('d \<Rightarrow> 'e) \<Rightarrow> 'd + 'a \<Rightarrow> 'e + 'a" where
  "convert_err f (Inl x) = Inl (f x)"
| "convert_err f (Inr a) = Inr a"

definition unavailable :: api_error where
  "unavailable = ApiError 503 ''Authentication unavailable''"

record auth_service =
  as_identities :: identity_store
  as_crypto :: auth_config

record token_response =
  tr_access_token :: string
  tr_user_id :: int
  tr_role :: string

record session_env =
  se_auth :: auth_env
  se_identity :: identity_env
  se_now :: "nat \<Rightarrow> i64"

text \<open>A call of the identity store inside a handler.\<close>

definition calling ::
  "('s \<Rightarrow> (identity_error + 'a) \<times> 's) \<Rightarrow> 's \<Rightarrow> ('a \<Rightarrow> api_error + 'b) \<Rightarrow> (api_error + 'b) \<times> 's" where
  "calling call s f =
     (case call s of (Inl x, t) \<Rightarrow> (Inl (of_identity_error x), t) | (Inr a, t) \<Rightarrow> (f a, t))"

section \<open>Signing in\<close>

definition jwt_of :: "user_profile \<Rightarrow> jwt_profile" where
  "jwt_of user =
     \<lparr>jp_user_id = of_int (up_id user), jp_role = role_to_string (up_role user),
      jp_username = up_username user, jp_first_name = up_first_name user\<rparr>"

definition issue ::
  "session_env \<Rightarrow> nat \<Rightarrow> auth_service \<Rightarrow> user_profile \<Rightarrow> api_error + token_response" where
  "issue e k service user =
     res_bind (convert_err (\<lambda>_. unavailable)
         (issue_token (se_auth e) (as_crypto service) (jwt_of user) (se_now e k))) (\<lambda>access_token.
     Inr \<lparr>tr_access_token = access_token, tr_user_id = up_id user,
          tr_role = role_to_string (up_role user)\<rparr>)"

definition trusted_of :: "signed_profile \<Rightarrow> trusted_profile" where
  "trusted_of p =
     \<lparr>tp_user_id = of_int (sp_user_id p), tp_username = sp_username p,
      tp_first_name = sp_first_name p, tp_photo_url = sp_photo_url p\<rparr>"

definition token_handler ::
  "session_env \<Rightarrow> auth_service option \<Rightarrow> string option \<Rightarrow> identity_db
    \<Rightarrow> (api_error + token_response) \<times> identity_db" where
  "token_handler e installed body s =
     (case body of None \<Rightarrow> (Inl (ApiError 422 ''Invalid request''), s)
      | Some init_data \<Rightarrow>
          (case installed of None \<Rightarrow> (Inl unavailable, s)
           | Some service \<Rightarrow>
               (case verify_webapp (se_auth e) (as_crypto service) init_data (se_now e 0) of
                  Inl _ \<Rightarrow> (Inl (ApiError 401 ''Invalid Telegram initData''), s)
                | Inr vouched \<Rightarrow>
                    calling (register (se_identity e) (as_identities service) (trusted_of vouched)) s
                      (issue e 1 service))))"

text \<open>The role of the query is checked and then ignored.\<close>

definition dev_token_handler ::
  "session_env \<Rightarrow> bool \<Rightarrow> auth_service option \<Rightarrow> (i64 \<times> string option) option \<Rightarrow> identity_db
    \<Rightarrow> (api_error + token_response) \<times> identity_db" where
  "dev_token_handler e dev_enabled installed qu s =
     (if \<not> dev_enabled then (Inl (ApiError 404 ''Not found''), s)
      else (case qu of None \<Rightarrow> (Inl (ApiError 422 ''Invalid request''), s)
        | Some (user, r) \<Rightarrow>
            if \<not> pred_option is_role_text r then (Inl (ApiError 422 ''Invalid request''), s)
            else (case installed of None \<Rightarrow> (Inl unavailable, s)
              | Some service \<Rightarrow>
                  calling (current_profile (se_identity e) (as_identities service) user) s
                    (issue e 0 service))))"

section \<open>Signed in\<close>

definition is_ascii_whitespace :: "char \<Rightarrow> bool" where
  "is_ascii_whitespace c \<longleftrightarrow> byte c \<in> {9, 10, 12, 13, 32}"

definition invalid_token :: api_error where
  "invalid_token = ApiError 401 ''Invalid token''"

definition bearer_token :: "string option list \<Rightarrow> api_error + string" where
  "bearer_token headers =
     (case headers of
        [Some v] \<Rightarrow>
          (case split_once '' '' v of None \<Rightarrow> Inl invalid_token
           | Some (scheme, token) \<Rightarrow>
               if map to_ascii_lowercase scheme \<noteq> ''bearer'' \<or> token = []
                  \<or> list_ex is_ascii_whitespace token
               then Inl invalid_token else Inr token)
      | _ \<Rightarrow> Inl invalid_token)"

definition authenticated_id ::
  "session_env \<Rightarrow> auth_service \<Rightarrow> string option list \<Rightarrow> api_error + int" where
  "authenticated_id e service headers =
     res_bind (bearer_token headers) (\<lambda>token.
       convert_err (\<lambda>_. invalid_token)
         (verify_token (se_auth e) (as_crypto service) token (se_now e 0)))"

definition signed_in ::
  "session_env \<Rightarrow> auth_service option \<Rightarrow> string option list
    \<Rightarrow> (auth_service \<Rightarrow> i64 \<Rightarrow> identity_db \<Rightarrow> (api_error + 'a) \<times> identity_db)
    \<Rightarrow> identity_db \<Rightarrow> (api_error + 'a) \<times> identity_db" where
  "signed_in e installed headers f s =
     (case installed of None \<Rightarrow> (Inl unavailable, s)
      | Some service \<Rightarrow>
          (case authenticated_id e service headers of Inl x \<Rightarrow> (Inl x, s)
           | Inr user \<Rightarrow> f service (of_int user) s))"

definition profile_handler ::
  "session_env \<Rightarrow> auth_service option \<Rightarrow> string option list \<Rightarrow> identity_db
    \<Rightarrow> (api_error + user_profile) \<times> identity_db" where
  "profile_handler e installed headers =
     signed_in e installed headers (\<lambda>service user s.
       calling (current_profile (se_identity e) (as_identities service) user) s Inr)"

definition settings_handler ::
  "session_env \<Rightarrow> auth_service option \<Rightarrow> string option list \<Rightarrow> identity_db
    \<Rightarrow> (api_error + user_settings) \<times> identity_db" where
  "settings_handler e installed headers =
     signed_in e installed headers (\<lambda>service user s.
       calling (settings_of_user (se_identity e) (as_identities service) user) s Inr)"

definition update_settings_handler ::
  "session_env \<Rightarrow> auth_service option \<Rightarrow> string option list \<Rightarrow> (string option \<times> string option) option
    \<Rightarrow> identity_db \<Rightarrow> (api_error + user_settings) \<times> identity_db" where
  "update_settings_handler e installed headers body =
     signed_in e installed headers (\<lambda>service user s.
       case body of None \<Rightarrow> (Inl (ApiError 422 ''Invalid request''), s)
       | Some (lang, theme) \<Rightarrow>
           calling (update_settings (se_identity e) (as_identities service) user lang theme) s Inr)"

text \<open>The middleware in front of the handlers.\<close>

definition when_ready :: "bool \<Rightarrow> ('s \<Rightarrow> (api_error + 'a) \<times> 's) \<Rightarrow> 's \<Rightarrow> (api_error + 'a) \<times> 's" where
  "when_ready ready f s = (if ready then f s else (Inl unavailable, s))"

end
