(* ===== verification/Identity_Groups.thy ===== *)
theory Identity_Groups
  imports Identity_Features
begin

text \<open>
  Administration of groups, their threads and their members,
  \<open>backend/crates/yoink-identity/src/admin/groups.rs\<close>. Deleting a group deletes what its rows
  own (the foreign keys cascade), suppresses observations of it and starts a new generation of
  its bots.
\<close>

section \<open>Values\<close>

record thread_inline =
  ti_id :: int
  ti_thread_id :: "int option"
  ti_name :: "string option"
  ti_enabled :: bool

record admin_group =
  ag_id :: int
  ag_title :: "string option"
  ag_enabled :: bool
  ag_auto_grant_role :: role
  ag_allow_pm :: bool
  ag_nsfw_allowed :: bool
  ag_storage_chat_id :: "int option"
  ag_storage_thread_id :: "int option"
  ag_photo_url :: "string option"
  ag_created_at :: instant
  ag_thread_policies :: "thread_inline list"

record member_rule =
  am_user_id :: int
  am_group_id :: int
  am_role_override :: "role option"
  am_allow_pm_override :: "bool option"

record group_creation =
  cr_id :: i64
  cr_title :: "string option"
  cr_auto_grant_role :: "role option"
  cr_allow_pm :: "bool option"
  cr_nsfw_allowed :: "bool option"

record group_patch =
  gp_title :: "string option option"
  gp_enabled :: "bool option"
  gp_auto_grant_role :: "role option"
  gp_allow_pm :: "bool option"
  gp_nsfw_allowed :: "bool option"
  gp_storage_chat_id :: "i64 option option"
  gp_storage_thread_id :: "i64 option option"

record thread_patch =
  tq_thread_id :: "i64 option"
  tq_name :: "string option"
  tq_enabled :: bool

record member_patch =
  mq_role_override :: "role option"
  mq_allow_pm_override :: "bool option"

definition long_text :: "string option \<Rightarrow> bool" where
  "long_text v = (case v of None \<Rightarrow> False | Some t \<Rightarrow> length (chars t) > 256)"

definition inline_of :: "thread_row \<Rightarrow> thread_inline" where
  "inline_of t =
     \<lparr>ti_id = th_id t, ti_thread_id = th_thread t, ti_name = th_name t, ti_enabled = th_enabled t\<rparr>"

definition inline_threads :: "int \<Rightarrow> identity_db \<Rightarrow> thread_inline list" where
  "inline_threads g s =
     map inline_of (sort_key (\<lambda>t. case th_thread t of None \<Rightarrow> 0 | Some i \<Rightarrow> i)
       (filter (\<lambda>t. th_group t = g) (thread_policies s)))"

definition decode_group ::
  "identity_env \<Rightarrow> thread_inline list \<Rightarrow> group_row \<Rightarrow> admin_error + admin_group" where
  "decode_group e threads g =
     res_bind (admin_role (gr_auto_grant_role g)) (\<lambda>r.
     res_bind (get_time e AdminUnavailable (gr_created_at g)) (\<lambda>created.
     Inr \<lparr>ag_id = gr_id g, ag_title = gr_title g, ag_enabled = gr_enabled g,
          ag_auto_grant_role = r, ag_allow_pm = gr_allow_pm g, ag_nsfw_allowed = gr_nsfw_allowed g,
          ag_storage_chat_id = gr_storage_chat_id g, ag_storage_thread_id = gr_storage_thread_id g,
          ag_photo_url = gr_photo_url g, ag_created_at = created, ag_thread_policies = threads\<rparr>))"

definition decode_member :: "member_policy_row \<Rightarrow> admin_error + member_rule" where
  "decode_member m =
     res_bind (traverse_option admin_role (mp_role_override m)) (\<lambda>r.
     Inr \<lparr>am_user_id = mp_user m, am_group_id = mp_group m, am_role_override = r,
          am_allow_pm_override = mp_allow_pm_override m\<rparr>)"

definition sql_group :: "int \<Rightarrow> identity_db \<Rightarrow> group_row option" where
  "sql_group g s = find_row (\<lambda>r. gr_id r = g) (known_groups s)"

section \<open>Groups\<close>

definition group_list_op ::
  "identity_env \<Rightarrow> identity_store \<Rightarrow> i64 \<Rightarrow> i64 option \<Rightarrow> identity_db
    \<Rightarrow> (admin_error + admin_group list) \<times> identity_db" where
  "group_list_op e st actor g =
     guarded (sint actor \<le> 0 \<or> (case g of None \<Rightarrow> False | Some i \<Rightarrow> 0 \<le> sint i)) AdminInvalidInput
       (reading e AdminUnavailable (\<lambda>s.
         res_bind (admin_auth e 0 actor (owner_id st) True False s) (\<lambda>_.
           traverse_list (\<lambda>r. decode_group e (inline_threads (gr_id r) s) r)
             (case g of Some i \<Rightarrow> (case sql_group (sint i) s of None \<Rightarrow> [] | Some r \<Rightarrow> [r])
              | None \<Rightarrow> sort_key gr_id (filter (\<lambda>r. gr_id r < 0) (known_groups s))))))"

definition groups_list ::
  "identity_env \<Rightarrow> identity_store \<Rightarrow> i64 \<Rightarrow> identity_db
    \<Rightarrow> (admin_error + admin_group list) \<times> identity_db" where
  "groups_list e st actor = group_list_op e st actor None"

definition group_get ::
  "identity_env \<Rightarrow> identity_store \<Rightarrow> i64 \<Rightarrow> i64 \<Rightarrow> identity_db \<Rightarrow> (admin_error + admin_group) \<times> identity_db" where
  "group_get e st actor g =
     guarded (0 \<le> sint g) AdminInvalidInput (\<lambda>s.
       case group_list_op e st actor (Some g) s of
         (Inl x, s') \<Rightarrow> (Inl x, s')
       | (Inr [], s') \<Rightarrow> (Inl AdminNotFound, s')
       | (Inr (r # _), s') \<Rightarrow> (Inr r, s'))"

definition new_group :: "group_creation \<Rightarrow> int \<Rightarrow> group_row" where
  "new_group p now =
     \<lparr>gr_id = sint (cr_id p), gr_title = cr_title p, gr_enabled = False,
      gr_auto_grant_role = role_to_string (case cr_auto_grant_role p of None \<Rightarrow> User | Some r \<Rightarrow> r),
      gr_allow_pm = (case cr_allow_pm p of None \<Rightarrow> True | Some b \<Rightarrow> b),
      gr_nsfw_allowed = (case cr_nsfw_allowed p of None \<Rightarrow> False | Some b \<Rightarrow> b),
      gr_storage_chat_id = None, gr_storage_thread_id = None, gr_photo_url = None,
      gr_created_at = now\<rparr>"

definition sql_group_insert :: "group_row \<Rightarrow> identity_db \<Rightarrow> identity_db option" where
  "sql_group_insert g s =
     (if group_checks g then Some (s\<lparr>known_groups := known_groups s @ [g]\<rparr>) else None)"

definition sql_group_restore :: "int \<Rightarrow> identity_db \<Rightarrow> identity_db" where
  "sql_group_restore g s = s\<lparr>suppressed_groups := filter (\<lambda>i. i \<noteq> g) (suppressed_groups s)\<rparr>"

definition group_create ::
  "identity_env \<Rightarrow> identity_store \<Rightarrow> i64 \<Rightarrow> group_creation \<Rightarrow> identity_db
    \<Rightarrow> (admin_error + admin_group) \<times> identity_db" where
  "group_create e st actor p =
     guarded (0 \<le> sint (cr_id p) \<or> long_text (cr_title p)) AdminInvalidInput
       (in_transaction e AdminUnavailable (\<lambda>s.
         res_bind (admin_auth e 0 actor (owner_id st) True False s) (\<lambda>_.
         if group_exists (sint (cr_id p)) s then Inl AdminConflict
         else res_bind (ok_or AdminUnavailable (sql_group_insert (new_group p (ie_clock e 1)) s)) (\<lambda>s'.
              let s'' = sql_group_restore (sint (cr_id p)) s' in
              res_bind (ok_or AdminUnavailable (sql_group (sint (cr_id p)) s'')) (\<lambda>r.
              res_bind (decode_group e [] r) (\<lambda>g. Inr (g, s'')))))))"

definition patched_group :: "group_patch \<Rightarrow> group_row \<Rightarrow> group_row" where
  "patched_group p g =
     g\<lparr>gr_title := (case gp_title p of None \<Rightarrow> gr_title g | Some t \<Rightarrow> t),
       gr_enabled := (case gp_enabled p of None \<Rightarrow> gr_enabled g | Some b \<Rightarrow> b),
       gr_auto_grant_role := (case gp_auto_grant_role p of None \<Rightarrow> gr_auto_grant_role g
         | Some r \<Rightarrow> role_to_string r),
       gr_allow_pm := (case gp_allow_pm p of None \<Rightarrow> gr_allow_pm g | Some b \<Rightarrow> b),
       gr_nsfw_allowed := (case gp_nsfw_allowed p of None \<Rightarrow> gr_nsfw_allowed g | Some b \<Rightarrow> b),
       gr_storage_chat_id := (case gp_storage_chat_id p of None \<Rightarrow> gr_storage_chat_id g
         | Some i \<Rightarrow> map_option sint i),
       gr_storage_thread_id := (case gp_storage_thread_id p of None \<Rightarrow> gr_storage_thread_id g
         | Some i \<Rightarrow> map_option sint i)\<rparr>"

definition sql_group_update :: "group_patch \<Rightarrow> int \<Rightarrow> identity_db \<Rightarrow> identity_db option" where
  "sql_group_update p g s =
     (if list_all (\<lambda>r. gr_id r = g \<longrightarrow> group_checks (patched_group p r)) (known_groups s)
      then Some (s\<lparr>known_groups := update_where (\<lambda>r. gr_id r = g) (patched_group p) (known_groups s)\<rparr>)
      else None)"

definition group_patch_invalid :: "group_patch \<Rightarrow> bool" where
  "group_patch_invalid p \<longleftrightarrow>
     gp_storage_chat_id p = Some (Some 0)
     \<or> (case gp_storage_thread_id p of Some (Some i) \<Rightarrow> sint i \<le> 0 | _ \<Rightarrow> False)
     \<or> (case gp_title p of Some t \<Rightarrow> long_text t | None \<Rightarrow> False)"

definition group_update ::
  "identity_env \<Rightarrow> identity_store \<Rightarrow> i64 \<Rightarrow> i64 \<Rightarrow> group_patch \<Rightarrow> identity_db
    \<Rightarrow> (admin_error + admin_group) \<times> identity_db" where
  "group_update e st actor g p =
     guarded (0 \<le> sint g \<or> group_patch_invalid p) AdminInvalidInput
       (in_transaction e AdminUnavailable (\<lambda>s.
         res_bind (admin_auth e 0 actor (owner_id st) True False s) (\<lambda>_.
         if \<not> group_exists (sint g) s then Inl AdminNotFound
         else res_bind (ok_or AdminUnavailable (sql_group_update p (sint g) s)) (\<lambda>s'.
              res_bind (ok_or AdminUnavailable (sql_group (sint g) s')) (\<lambda>r.
              res_bind (decode_group e (inline_threads (sint g) s') r) (\<lambda>v. Inr (v, s')))))))"

definition sql_group_delete :: "int \<Rightarrow> identity_db \<Rightarrow> identity_db" where
  "sql_group_delete g s =
     s\<lparr>known_groups := filter (\<lambda>r. gr_id r \<noteq> g) (known_groups s),
       thread_policies := filter (\<lambda>t. th_group t \<noteq> g) (thread_policies s),
       member_policies := filter (\<lambda>m. mp_group m \<noteq> g) (member_policies s)\<rparr>"

definition sql_group_suppress :: "int \<Rightarrow> identity_db \<Rightarrow> identity_db" where
  "sql_group_suppress g s =
     (if g \<in> set (suppressed_groups s) then s
      else s\<lparr>suppressed_groups := suppressed_groups s @ [g]\<rparr>)"

text \<open>An integer column of a strict table refuses the real number an overflow would give.\<close>

definition sql_group_fence :: "int \<Rightarrow> identity_db \<Rightarrow> identity_db option" where
  "sql_group_fence g s =
     (if list_ex (\<lambda>b. bo_group b = g \<and> bo_generation b = 2 ^ 63 - 1) (bots s) then None
      else Some (s\<lparr>bots := update_where (\<lambda>b. bo_group b = g)
             (\<lambda>b. b\<lparr>bo_generation := bo_generation b + 1\<rparr>) (bots s)\<rparr>))"

definition group_delete ::
  "identity_env \<Rightarrow> identity_store \<Rightarrow> i64 \<Rightarrow> i64 \<Rightarrow> identity_db \<Rightarrow> (admin_error + unit) \<times> identity_db" where
  "group_delete e st actor g =
     guarded (0 \<le> sint g) AdminInvalidInput
       (in_transaction e AdminUnavailable (\<lambda>s.
         res_bind (admin_auth e 0 actor (owner_id st) True False s) (\<lambda>_.
         if \<not> group_exists (sint g) s then Inl AdminNotFound
         else res_bind (ok_or AdminUnavailable
                (sql_group_fence (sint g) (sql_group_suppress (sint g) (sql_group_delete (sint g) s))))
              (\<lambda>s'. Inr ((), s')))))"

section \<open>Threads\<close>

definition group_checked ::
  "identity_env \<Rightarrow> identity_store \<Rightarrow> i64 \<Rightarrow> i64 \<Rightarrow> bool \<Rightarrow> identity_db \<Rightarrow> admin_error + role" where
  "group_checked e st actor g owner_only s =
     res_bind (admin_auth e 0 actor (owner_id st) True owner_only s) (\<lambda>r.
       if group_exists (sint g) s then Inr r else Inl AdminNotFound)"

definition threads_list ::
  "identity_env \<Rightarrow> identity_store \<Rightarrow> i64 \<Rightarrow> i64 \<Rightarrow> identity_db
    \<Rightarrow> (admin_error + thread_row list) \<times> identity_db" where
  "threads_list e st actor g =
     guarded (0 \<le> sint g) AdminInvalidInput
       (reading e AdminUnavailable (\<lambda>s.
         res_bind (group_checked e st actor g False s) (\<lambda>_.
           Inr (sort_key (\<lambda>t. case th_thread t of None \<Rightarrow> - (2 ^ 63) - 1 | Some i \<Rightarrow> i)
             (filter (\<lambda>t. th_group t = sint g) (thread_policies s))))))"

definition same_thread :: "int \<Rightarrow> int option \<Rightarrow> thread_row \<Rightarrow> bool" where
  "same_thread g thread t \<longleftrightarrow> th_group t = g \<and> th_thread t = thread"

definition sql_thread_upsert ::
  "int \<Rightarrow> int \<Rightarrow> int option \<Rightarrow> string option \<Rightarrow> bool \<Rightarrow> identity_db \<Rightarrow> identity_db" where
  "sql_thread_upsert new_id g thread name on s =
     (if list_ex (same_thread g thread) (thread_policies s)
      then s\<lparr>thread_policies := update_where (same_thread g thread)
             (\<lambda>t. t\<lparr>th_name := or_old name (th_name t), th_enabled := on\<rparr>) (thread_policies s)\<rparr>
      else s\<lparr>thread_policies := thread_policies s @
             [\<lparr>th_id = new_id, th_group = g, th_thread = thread, th_name = name, th_enabled = on\<rparr>]\<rparr>)"

definition thread_upsert ::
  "identity_env \<Rightarrow> identity_store \<Rightarrow> i64 \<Rightarrow> i64 \<Rightarrow> thread_patch \<Rightarrow> identity_db
    \<Rightarrow> (admin_error + thread_row) \<times> identity_db" where
  "thread_upsert e st actor g p =
     guarded (0 \<le> sint g \<or> (case tq_thread_id p of None \<Rightarrow> False | Some i \<Rightarrow> sint i \<le> 0)
         \<or> long_text (tq_name p)) AdminInvalidInput
       (in_transaction e AdminUnavailable (\<lambda>s.
         res_bind (group_checked e st actor g False s) (\<lambda>_.
         let thread = map_option sint (tq_thread_id p);
             s' = sql_thread_upsert (ie_rowid e) (sint g) thread (tq_name p) (tq_enabled p) s in
         res_bind (ok_or AdminUnavailable
             (find_row (same_thread (sint g) thread) (thread_policies s'))) (\<lambda>t. Inr (t, s')))))"

definition sql_scan_thread :: "int \<Rightarrow> int \<Rightarrow> int \<Rightarrow> string \<Rightarrow> identity_db \<Rightarrow> identity_db" where
  "sql_scan_thread new_id g thread name s =
     (if list_ex (same_thread g (Some thread)) (thread_policies s)
      then s\<lparr>thread_policies := update_where (same_thread g (Some thread))
             (\<lambda>t. t\<lparr>th_name := Some name\<rparr>) (thread_policies s)\<rparr>
      else s\<lparr>thread_policies := thread_policies s @
             [\<lparr>th_id = new_id, th_group = g, th_thread = Some thread, th_name = Some name,
               th_enabled = True\<rparr>]\<rparr>)"

text \<open>Each new row gets the identifier after the one before.\<close>

fun scan_threads :: "int \<Rightarrow> int \<Rightarrow> (i64 \<times> string) list \<Rightarrow> identity_db \<Rightarrow> identity_db" where
  "scan_threads new_id g [] s = s"
| "scan_threads new_id g ((thread, name) # ts) s =
     scan_threads
       (if list_ex (same_thread g (Some (sint thread))) (thread_policies s) then new_id else new_id + 1)
       g ts (sql_scan_thread new_id g (sint thread) name s)"

definition scan_thread_names ::
  "identity_env \<Rightarrow> identity_store \<Rightarrow> i64 \<Rightarrow> i64 \<Rightarrow> (i64 \<times> string) list \<Rightarrow> identity_db
    \<Rightarrow> (admin_error + nat) \<times> identity_db" where
  "scan_thread_names e st actor g topics =
     guarded (0 \<le> sint g \<or> length topics > 10000
         \<or> list_ex (\<lambda>(i, name). sint i \<le> 0 \<or> long_text (Some name)) topics) AdminInvalidInput
       (in_transaction e AdminUnavailable (\<lambda>s.
         res_bind (group_checked e st actor g True s) (\<lambda>_.
           Inr (length topics, scan_threads (ie_rowid e) (sint g) topics s))))"

definition thread_delete ::
  "identity_env \<Rightarrow> identity_store \<Rightarrow> i64 \<Rightarrow> i64 \<Rightarrow> i64 \<Rightarrow> identity_db \<Rightarrow> (admin_error + unit) \<times> identity_db" where
  "thread_delete e st actor g policy =
     guarded (0 \<le> sint g \<or> sint policy \<le> 0) AdminInvalidInput
       (in_transaction e AdminUnavailable (\<lambda>s.
         res_bind (admin_auth e 0 actor (owner_id st) True False s) (\<lambda>_.
         if \<not> list_ex (\<lambda>t. th_id t = sint policy \<and> th_group t = sint g) (thread_policies s)
         then Inl AdminNotFound
         else Inr ((), s\<lparr>thread_policies := filter
                (\<lambda>t. \<not> (th_id t = sint policy \<and> th_group t = sint g)) (thread_policies s)\<rparr>))))"

section \<open>Members\<close>

definition members_list ::
  "identity_env \<Rightarrow> identity_store \<Rightarrow> i64 \<Rightarrow> i64 \<Rightarrow> identity_db
    \<Rightarrow> (admin_error + member_rule list) \<times> identity_db" where
  "members_list e st actor g =
     guarded (0 \<le> sint g) AdminInvalidInput
       (reading e AdminUnavailable (\<lambda>s.
         res_bind (group_checked e st actor g False s) (\<lambda>_.
           traverse_list decode_member
             (sort_key mp_user (filter (\<lambda>m. mp_group m = sint g) (member_policies s))))))"

definition same_policy :: "int \<Rightarrow> int \<Rightarrow> member_policy_row \<Rightarrow> bool" where
  "same_policy g user m \<longleftrightarrow> mp_group m = g \<and> mp_user m = user"

definition sql_policy_upsert :: "member_policy_row \<Rightarrow> identity_db \<Rightarrow> identity_db" where
  "sql_policy_upsert m s =
     (if list_ex (same_policy (mp_group m) (mp_user m)) (member_policies s)
      then s\<lparr>member_policies := update_where (same_policy (mp_group m) (mp_user m))
             (\<lambda>r. r\<lparr>mp_role_override := mp_role_override m,
                    mp_allow_pm_override := mp_allow_pm_override m\<rparr>) (member_policies s)\<rparr>
      else s\<lparr>member_policies := member_policies s @ [m]\<rparr>)"

definition member_upsert ::
  "identity_env \<Rightarrow> identity_store \<Rightarrow> i64 \<Rightarrow> i64 \<Rightarrow> i64 \<Rightarrow> member_patch \<Rightarrow> identity_db
    \<Rightarrow> (admin_error + member_rule) \<times> identity_db" where
  "member_upsert e st actor g user p =
     guarded (0 \<le> sint g \<or> sint user \<le> 0) AdminInvalidInput
       (in_transaction e AdminUnavailable (\<lambda>s.
         res_bind (group_checked e st actor g False s) (\<lambda>_.
         if sql_user (sint user) s = None then Inl AdminNotFound
         else
           let s' = sql_policy_upsert
                 \<lparr>mp_user = sint user, mp_group = sint g,
                  mp_role_override = map_option role_to_string (mq_role_override p),
                  mp_allow_pm_override = mq_allow_pm_override p\<rparr> s in
           res_bind (ok_or AdminUnavailable
               (find_row (same_policy (sint g) (sint user)) (member_policies s'))) (\<lambda>m.
           res_bind (decode_member m) (\<lambda>v. Inr (v, s'))))))"

definition member_delete ::
  "identity_env \<Rightarrow> identity_store \<Rightarrow> i64 \<Rightarrow> i64 \<Rightarrow> i64 \<Rightarrow> identity_db \<Rightarrow> (admin_error + unit) \<times> identity_db" where
  "member_delete e st actor g user =
     guarded (0 \<le> sint g \<or> sint user \<le> 0) AdminInvalidInput
       (in_transaction e AdminUnavailable (\<lambda>s.
         res_bind (admin_auth e 0 actor (owner_id st) True False s) (\<lambda>_.
         if \<not> list_ex (same_policy (sint g) (sint user)) (member_policies s) then Inl AdminNotFound
         else Inr ((), s\<lparr>member_policies :=
                filter (\<lambda>m. \<not> same_policy (sint g) (sint user) m) (member_policies s)\<rparr>))))"

end
