(* ===== verification/Identity_Safety.thy ===== *)
theory Identity_Safety
  imports Identity_Groups
begin

text \<open>
  What the snapshot and its authorization guarantee: a blocked account gets nothing, whoever it
  is and whatever it was granted; a group the bot or the user has left is off; a tag grants
  exactly the registered features the map names, unless they were taken back; and the screen
  that lists a user's features agrees with the decision.
\<close>

section \<open>Reading a snapshot\<close>

lemma snapshot_Some:
  assumes "snapshot e st user g s = (Inr (Some sn), t)"
  obtains a r grants group where
    "t = s" "\<not> invalid_ids st user g" "ie_up e"
    "sql_user (sint user) s = Some a" "role_from_str (ac_role a) = Inr r"
    "traverse_option (\<lambda>g. read_group user g s) g = Inr group"
    "traverse_list (grant_of_row e) (sql_grants (sint user) s) = Inr grants"
    "sn = \<lparr>sn_principal = elevated st (ie_clock e 0) \<lparr>user_id = user, role = r, ban_until = ac_ban_until a\<rparr>,
           sn_language = ac_language a,
           sn_grants = fold merge_grant (automatic_grants e (sint user) s) grants,
           sn_providers = providers_of st (sint user) s, sn_now = ie_clock e 0, sn_group = group\<rparr>"
proof -
  have *: "ie_up e" "read_snapshot e st user g s = Inr (Some sn)" "t = s" "\<not> invalid_ids st user g"
    using assms by (auto simp: snapshot_def reading_eq split: if_splits)
  then obtain a where a: "sql_user (sint user) s = Some a"
    by (auto simp: read_snapshot_def res_bind_Inr_iff split: option.splits)
  have tm: "traverse_option (get_time e IdentityDatabase) x = Inr y \<Longrightarrow> y = x" for x y
    by (cases x) (auto simp: res_bind_Inr_iff)
  from *(2) a show thesis
    by (auto simp: read_snapshot_def res_bind_Inr_iff parse_role_def dest!: tm intro!: that [OF *(3,4,1) a])
qed

lemma role_from_str_banned: "role_from_str v = Inr Banned \<longleftrightarrow> v = ''banned''"
  by (auto simp: role_from_str_def split: if_splits)

lemma elevated_blocked:
  "is_blocked (elevated st now p) now = is_blocked p now"
  by (auto simp: elevated_def is_blocked_def split: if_splits)

lemma is_blocked_row:
  "role_from_str (ac_role a) = Inr r \<Longrightarrow>
    is_blocked \<lparr>user_id = user, role = r, ban_until = ac_ban_until a\<rparr> now = row_blocked now a"
  using role_from_str_banned [of "ac_role a"] by (auto simp: is_blocked_def row_blocked_def)

lemma snapshot_blocked:
  assumes "snapshot e st user g s = (Inr (Some sn), t)" and a: "sql_user (sint user) s = Some a"
  shows "is_blocked (sn_principal sn) (sn_now sn) \<longleftrightarrow> row_blocked (ie_clock e 0) a"
  using assms(1) by (rule snapshot_Some) (simp add: a elevated_blocked is_blocked_row)

lemma denied_decision:
  assumes "\<not> allowed (check_access (sn_principal sn) policy (context_of (sn_group sn)) (sn_now sn))"
  shows "authorize sn policy feature
    = \<lparr>au_decision = check_access (sn_principal sn) policy (context_of (sn_group sn)) (sn_now sn),
       au_grant_source = None\<rparr>"
  using assms by (simp add: authorize_def Let_def)

lemma allowed_authorization:
  "allowed (au_decision (authorize sn policy feature)) \<longleftrightarrow>
     allowed (check_access (sn_principal sn) policy (context_of (sn_group sn)) (sn_now sn))
     \<and> (case feature of None \<Rightarrow> True
        | Some (plugin, feat) \<Rightarrow>
            (\<exists>spec. find_spec plugin feat = Some spec
              \<and> effective_grant ((sn_principal sn)
                  \<lparr>role := effective_role
                     (check_access (sn_principal sn) policy (context_of (sn_group sn)) (sn_now sn))\<rparr>)
                  spec (sn_grants sn) (sn_providers sn) (sn_now sn) \<noteq> None))"
  by (auto simp: authorize_def Let_def split: option.splits prod.splits)

text \<open>C11. A blocked account gets nothing: no access in any chat and no feature from any source, not
  even as the configured owner, with grants of its own or by a tag.\<close>

theorem blocked_account_gets_nothing:
  assumes "snapshot e st user g s = (Inr (Some sn), t)" and "sql_user (sint user) s = Some a"
    and "ac_role a = ''banned'' \<or> (\<exists>u. ac_ban_until a = Some u \<and> ie_clock e 0 < u)"
  shows "\<not> allowed (au_decision (authorize sn policy feature))
    \<and> deny_reason (au_decision (authorize sn policy feature)) = ''blocked''
    \<and> au_grant_source (authorize sn policy feature) = None"
proof -
  have "is_blocked (sn_principal sn) (sn_now sn)"
    unfolding snapshot_blocked [OF assms(1,2)] using assms(3) by (auto simp: row_blocked_def)
  then have *: "check_access (sn_principal sn) policy (context_of (sn_group sn)) (sn_now sn)
      = denied ''blocked'' (role (sn_principal sn))"
    by (simp add: check_access_def)
  show ?thesis unfolding authorize_def Let_def * by simp
qed

section \<open>Groups\<close>

lemma read_group_enabled:
  assumes "read_group user (g, thread) s = Inr c"
  shows "\<exists>row. find_row (\<lambda>r. gr_id r = sint g) (known_groups s) = Some row \<and> gr_id row = sint g
    \<and> (gc_enabled c \<longleftrightarrow> sql_group_enabled (sint user) row s)"
  using assms find_row_Some [of _ "known_groups s"]
  by (auto simp: read_group_def res_bind_Inr_iff split: option.splits)

text \<open>C15. Once it is known that a bot left a group, or that the user did or was last seen there before
  the bot came back, a policy that asks for an enabled group denies the user there.\<close>

theorem departed_are_denied:
  assumes "snapshot e st user (Some (g, thread)) s = (Inr (Some sn), t)"
    and "check_group_enabled policy"
    and "(\<exists>b \<in> set (bots s). bo_group b = sint g \<and> \<not> bo_present b)
      \<or> (\<exists>m \<in> set (members s). me_group m = sint g \<and> me_user m = sint user
          \<and> (\<not> me_present m
            \<or> (\<exists>b \<in> set (bots s). bo_source b = me_source m \<and> bo_group b = me_group m
                 \<and> me_generation m \<noteq> bo_generation b)))
      \<or> (\<forall>r \<in> set (known_groups s). gr_id r = sint g \<longrightarrow> \<not> gr_enabled r)"
  shows "\<not> allowed (au_decision (authorize sn policy feature))"
  using assms(1)
proof (rule snapshot_Some)
  fix a r grants group
  assume g: "traverse_option (\<lambda>g. read_group user g s) (Some (g, thread)) = Inr group"
    and sn: "sn = \<lparr>sn_principal = elevated st (ie_clock e 0) \<lparr>user_id = user, role = r, ban_until = ac_ban_until a\<rparr>,
           sn_language = ac_language a,
           sn_grants = fold merge_grant (automatic_grants e (sint user) s) grants,
           sn_providers = providers_of st (sint user) s, sn_now = ie_clock e 0, sn_group = group\<rparr>"
  from g obtain c where c: "group = Some c" "read_group user (g, thread) s = Inr c"
    by (auto simp: res_bind_Inr_iff)
  obtain row where row: "row \<in> set (known_groups s)" "gr_id row = sint g"
    "gc_enabled c \<longleftrightarrow> sql_group_enabled (sint user) row s"
    using read_group_enabled [OF c(2)] find_row_Some(1) by metis
  have "\<not> gc_enabled c"
    unfolding row(3) using assms(3) row(1,2)
    by (fastforce simp: sql_group_enabled_def bot_absent_def stale_member_def list_ex_iff)
  then show ?thesis
    unfolding allowed_authorization using assms(2)
    by (auto simp: sn c(1) context_of_def check_access_def Let_def)
qed

section \<open>What tags grant\<close>

lemma split_once_colon:
  "split_once '':'' s = Some (p, f) \<longleftrightarrow> s = p @ '':'' @ f \<and> CHR '':'' \<notin> set p"
proof (induction s arbitrary: p)
  case Nil
  then show ?case by simp
next
  case (Cons c s)
  show ?case
  proof (cases "c = CHR '':''")
    case True
    then show ?thesis by (cases p) (auto simp: starts_with_def)
  next
    case False
    then have "split_once '':'' (c # s) = map_option (\<lambda>(a, b). (c # a, b)) (split_once '':'' s)"
      by (simp add: starts_with_def)
    with False Cons.IH show ?thesis by (cases p) (auto simp: map_option_case split: option.splits)
  qed
qed

lemma set_stored_tag_map:
  assumes "(tag, keys) \<in> set (stored_tag_map e s)"
  shows "tag_entry_ok (tag, keys)"
  using assms
  by (auto simp: stored_tag_map_def decode_tag_map_def validated_tag_map_def list_all_iff
      split: option.splits sum.splits if_splits)

lemma set_automatic_grants:
  "g \<in> set (automatic_grants e user s) \<longleftrightarrow>
     expires_at g = None \<and> (grant_plugin g, grant_feature g) \<in> set (granted_keys e user s)"
  by (cases g) (force simp: automatic_grants_def)

lemma set_map_filter_iff: "y \<in> set (List.map_filter f xs) \<longleftrightarrow> (\<exists>x \<in> set xs. f x = Some y)"
  by (induction xs) (auto simp: List.map_filter_simps split: option.splits)

lemma set_granted_keys:
  "(p, f) \<in> set (granted_keys e user s) \<longleftrightarrow>
     \<not> sql_suppressed user s (p, f)
     \<and> (\<exists>tag keys. (tag, keys) \<in> set (stored_tag_map e s)
          \<and> tag \<in> sql_membership_active_tags user s
          \<and> (\<exists>key \<in> set keys. split_once '':'' key = Some (p, f)))"
proof -
  have one: "(case split_once '':'' key of None \<Rightarrow> None
        | Some k \<Rightarrow> if sql_suppressed user s k then None else Some k) = Some (p, f)
      \<longleftrightarrow> split_once '':'' key = Some (p, f) \<and> \<not> sql_suppressed user s (p, f)" for key
    by (cases "split_once '':'' key") auto
  show ?thesis
    unfolding granted_keys_def set_map_filter_iff one by force
qed

text \<open>A tag grants exactly the registered features the map lists for it, without an expiry, while
  it is active in some group and the owner has not taken the feature back.\<close>

theorem automatic_grants_iff:
  "g \<in> set (automatic_grants e user s) \<longleftrightarrow>
     expires_at g = None \<and> registered (grant_plugin g) (grant_feature g)
     \<and> (user, grant_plugin g, grant_feature g) \<notin> set (suppressed_features s)
     \<and> (\<exists>tag keys. (tag, keys) \<in> set (stored_tag_map e s)
          \<and> (\<exists>m \<in> set (members s). tag_active user s m \<and> me_tag m = Some tag)
          \<and> grant_plugin g @ '':'' @ grant_feature g \<in> set keys)"
  (is "_ \<longleftrightarrow> ?R")
proof -
  have active: "tag \<in> sql_membership_active_tags user s \<longleftrightarrow>
      (\<exists>m \<in> set (members s). tag_active user s m \<and> me_tag m = Some tag)" for tag
    by (auto simp: sql_membership_active_tags_def set_map_filter_iff)
  have key: "(\<exists>key \<in> set keys. split_once '':'' key = Some (p, f)) \<longleftrightarrow>
      registered p f \<and> p @ '':'' @ f \<in> set keys"
    if "(tag, keys) \<in> set (stored_tag_map e s)" for tag keys p f
  proof -
    have ok: "list_all feature_key_ok keys"
      using set_stored_tag_map [OF that] by (simp add: tag_entry_ok_def)
    have no_colon: "registered p f \<Longrightarrow> CHR '':'' \<notin> set p"
      by (auto simp: registered_def registered_features_def spec_of_def is_spec_def)
    show ?thesis
    proof
      assume "\<exists>key \<in> set keys. split_once '':'' key = Some (p, f)"
      then obtain key where key: "key \<in> set keys" "split_once '':'' key = Some (p, f)" by blast
      with ok have "feature_key_ok key" by (simp add: list_all_iff)
      then have "registered p f" unfolding feature_key_ok_def key(2) by simp
      with key show "registered p f \<and> p @ '':'' @ f \<in> set keys"
        by (simp add: split_once_colon)
    next
      assume r: "registered p f \<and> p @ '':'' @ f \<in> set keys"
      then have "split_once '':'' (p @ '':'' @ f) = Some (p, f)"
        unfolding split_once_colon using no_colon by blast
      with r show "\<exists>key \<in> set keys. split_once '':'' key = Some (p, f)" by blast
    qed
  qed
  show ?thesis
    unfolding set_automatic_grants set_granted_keys active sql_suppressed_def using key by blast
qed

end
