(* ===== verification/Account_Safety.thy ===== *)
theory Account_Safety
  imports Identity_Safety
begin

text \<open>
  The account a user sees of itself: a language is changed by compare and set on its revision,
  a login never changes what an account may do, and the screen of features agrees with the
  decisions of the snapshot.
\<close>

section \<open>The primary key of accounts\<close>

definition unique_accounts :: "identity_db \<Rightarrow> bool" where
  "unique_accounts s \<longleftrightarrow> distinct (map ac_id (accounts s))"

lemma sql_user_mem: "sql_user u s = Some a \<Longrightarrow> a \<in> set (accounts s) \<and> ac_id a = u"
  unfolding sql_user_def using find_row_Some by fastforce

lemma sql_user_iff:
  assumes "unique_accounts s"
  shows "sql_user u s = Some a \<longleftrightarrow> a \<in> set (accounts s) \<and> ac_id a = u"
proof
  assume a: "a \<in> set (accounts s) \<and> ac_id a = u"
  then have "sql_user u s \<noteq> None" unfolding sql_user_def find_row_None by blast
  then obtain b where b: "sql_user u s = Some b" by blast
  with a show "sql_user u s = Some a"
    using sql_user_mem [OF b] distinct_key_eq assms unfolding unique_accounts_def by metis
qed (rule sql_user_mem)

lemma sql_user_update:
  assumes "unique_accounts s" and "\<And>a. ac_id (f a) = ac_id a"
  shows "sql_user u (s\<lparr>accounts := update_where p f (accounts s)\<rparr>)
    = map_option (\<lambda>a. if p a then f a else a) (sql_user u s)"
proof -
  have u: "unique_accounts (s\<lparr>accounts := update_where p f (accounts s)\<rparr>)"
    using assms by (simp add: unique_accounts_def map_update_where)
  show ?thesis
  proof (cases "sql_user u s")
    case None
    then have "\<forall>a \<in> set (accounts s). ac_id a \<noteq> u" by (simp add: sql_user_def find_row_None)
    then have "sql_user u (s\<lparr>accounts := update_where p f (accounts s)\<rparr>) = None"
      using assms(2) by (auto simp: sql_user_def find_row_None set_update_where)
    with None show ?thesis by simp
  next
    case (Some a)
    then have "a \<in> set (accounts s)" "ac_id a = u" using sql_user_mem by blast+
    then show ?thesis
      unfolding Some option.map sql_user_iff [OF u] using assms(2) by (auto simp: set_update_where)
  qed
qed

section \<open>The language\<close>

lemma changes_language_iff:
  assumes "unique_accounts s"
  shows "list_ex (changes_language owner now user revision) (accounts s) \<longleftrightarrow>
    (\<exists>a. sql_user user s = Some a \<and> changes_language owner now user revision a)"
  by (auto simp: list_ex_iff sql_user_iff [OF assms] changes_language_def)

lemma change_language_Inr:
  assumes "unique_accounts s"
  shows "change_language e st user code revision s = (Inr p, t) \<longleftrightarrow>
    \<not> invalid_ids st user None \<and> code \<in> {''en'', ''ru''} \<and> 0 \<le> sint revision \<and> ie_up e
    \<and> (\<exists>a. sql_user (sint user) s = Some a \<and> ac_updated_at a = sint revision
         \<and> ac_updated_at a < 2 ^ 63 - 1 \<and> may_speak (owner_id st = Some user) (ie_clock e 0) a
         \<and> p = \<lparr>lp_code = code, lp_revision = max (ac_updated_at a + 1) (ie_clock e 0)\<rparr>
         \<and> t = sql_language_change code (sint user) (sint revision) (owner_id st = Some user)
                 (ie_clock e 0) s)"
proof -
  let ?own = "owner_id st = Some user" and ?now = "ie_clock e 0"
  let ?s = "sql_language_change code (sint user) (sint revision) ?own ?now s"
  have u: "sql_user (sint user) ?s = map_option (\<lambda>a. if changes_language ?own ?now (sint user) (sint revision) a
      then a\<lparr>ac_language := code, ac_updated_at := max (ac_updated_at a + 1) ?now\<rparr> else a) (sql_user (sint user) s)"
    unfolding sql_language_change_def by (rule sql_user_update [OF assms]) simp
  have b: "change_language_in_transaction e st user code revision s = Inr (p, t) \<longleftrightarrow>
    (\<exists>a. sql_user (sint user) s = Some a \<and> changes_language ?own ?now (sint user) (sint revision) a
         \<and> p = \<lparr>lp_code = code, lp_revision = max (ac_updated_at a + 1) ?now\<rparr> \<and> t = ?s)"
    unfolding change_language_in_transaction_def Let_def changes_language_iff [OF assms] u
    by (auto simp: preference_of_def split: option.splits)
  have c: "changes_language ?own ?now (sint user) (sint revision) a \<longleftrightarrow>
      ac_updated_at a = sint revision \<and> 0 \<le> sint revision \<and> ac_updated_at a < 2 ^ 63 - 1
      \<and> may_speak ?own ?now a" if "sql_user (sint user) s = Some a" for a
    using sql_user_mem [OF that] by (auto simp: changes_language_def)
  show ?thesis
    unfolding change_language_def guarded_Inr in_transaction_Inr b using c by force
qed

text \<open>A change of language is compare and set: it succeeds exactly at the stored revision, for an
  account that may speak; the next reading gives what it returned, the revision has grown, and
  a second change prepared for the old revision fails whoever makes it.\<close>

theorem language_is_compare_and_set:
  assumes "unique_accounts s" and "change_language e st user code revision s = (Inr p, t)"
  shows "(\<exists>a. sql_user (sint user) s = Some a \<and> ac_updated_at a = sint revision
        \<and> may_speak (owner_id st = Some user) (ie_clock e 0) a)
    \<and> lp_code p = code \<and> sint revision < lp_revision p
    \<and> (ie_up e' \<longrightarrow> language_preference e' st user t = (Inr (Some p), t))
    \<and> (\<forall>q. fst (change_language e' st' user code' revision t) \<noteq> Inr q)
    \<and> (\<forall>v. v \<noteq> sint user \<longrightarrow> sql_user v t = sql_user v s)"
proof -
  from assms(2) obtain a where a: "\<not> invalid_ids st user None" "sql_user (sint user) s = Some a"
    "ac_updated_at a = sint revision" "may_speak (owner_id st = Some user) (ie_clock e 0) a"
    "ac_updated_at a < 2 ^ 63 - 1" "0 \<le> sint revision"
    "p = \<lparr>lp_code = code, lp_revision = max (ac_updated_at a + 1) (ie_clock e 0)\<rparr>"
    "t = sql_language_change code (sint user) (sint revision) (owner_id st = Some user) (ie_clock e 0) s"
    unfolding change_language_Inr [OF assms(1)] by blast
  let ?f = "\<lambda>a. a\<lparr>ac_language := code, ac_updated_at := max (ac_updated_at a + 1) (ie_clock e 0)\<rparr>"
  have t: "sql_user v t = map_option (\<lambda>a. if changes_language (owner_id st = Some user) (ie_clock e 0)
      (sint user) (sint revision) a then ?f a else a) (sql_user v s)" for v
    unfolding a(8) sql_language_change_def by (rule sql_user_update [OF assms(1)]) simp
  have ut: "unique_accounts t"
    using assms(1) by (simp add: a(8) sql_language_change_def unique_accounts_def map_update_where)
  have "changes_language (owner_id st = Some user) (ie_clock e 0) (sint user) (sint revision) a"
    using a sql_user_mem [OF a(2)] by (simp add: changes_language_def)
  then have new: "sql_user (sint user) t = Some (?f a)" using t a(2) by simp
  have "sql_user v t = sql_user v s" if "v \<noteq> sint user" for v
    unfolding t using sql_user_mem [of v s] that
    by (cases "sql_user v s") (auto simp: changes_language_def)
  moreover have "fst (change_language e' st' user code' revision t) \<noteq> Inr q" for q
  proof
    assume "fst (change_language e' st' user code' revision t) = Inr q"
    then obtain t' where "change_language e' st' user code' revision t = (Inr q, t')"
      by (metis prod.collapse)
    then have "ac_updated_at (?f a) = sint revision"
      unfolding change_language_Inr [OF ut] using new by force
    with a(3) show False by simp
  qed
  moreover have "ie_up e' \<longrightarrow> language_preference e' st user t = (Inr (Some p), t)"
    using a(1) new by (simp add: language_preference_def guarded_def reading_eq preference_of_def a(7))
  ultimately show ?thesis using a(2,3,4,7) by simp
qed

section \<open>Logins\<close>

definition authority :: "account \<Rightarrow> int \<times> string \<times> int option \<times> string \<times> string" where
  "authority a = (ac_id a, ac_role a, ac_ban_until a, ac_language a, ac_theme a)"

text \<open>What a login writes to the account it names: its name and picture and its revision.\<close>

text \<open>C14. A login leaves every account but the one it names exactly as it was, and of that one it
  changes no role, ban, language or theme: only name, picture and revision are written, in a
  place of its own. The only account it can add is the one it names, with the role the access
  mode gives, or, when the configuration names it, with the role of the owner (which is then
  stored); and a blocked account cannot log in.\<close>

theorem login_keeps_authority:
  assumes "register e st p s = (Inr q, t)"
  shows "t = s\<lparr>accounts := accounts t\<rparr>
    \<and> (list_all2 (\<lambda>a b. authority b = authority a \<and> ac_created_at b = ac_created_at a
          \<and> (ac_id a \<noteq> sint (tp_user_id p) \<longrightarrow> b = a)) (accounts s) (accounts t)
        \<and> (\<exists>a. sql_user (sint (tp_user_id p)) s = Some a \<and> \<not> row_blocked (ie_clock e 0) a)
      \<or> sql_user (sint (tp_user_id p)) s = None
        \<and> (\<exists>r. accounts t = accounts s @ [new_account p r (ie_clock e 1)]
             \<and> (if owner_id st = Some (tp_user_id p) then r = Owner else registration_role s = Inr r)))"
proof (cases "sql_user (sint (tp_user_id p)) s")
  case None
  with assms have "register_new e st p s = Inr (q, t)"
    by (simp add: register_def in_transaction_Inr)
  then show ?thesis
    using None
    by (auto simp: register_new_def res_bind_Inr_iff Let_def sql_profile_insert_def split: if_splits)
next
  case (Some a)
  with assms have k: "register_known e st p a s = Inr (q, t)"
    by (simp add: register_def in_transaction_Inr)
  then have "\<not> row_blocked (ie_clock e 0) a"
    and "sql_update_account (revisable (sint (tp_user_id p))) (updated_profile p (ie_clock e 1)) s = Some t"
    by (auto simp: register_known_def res_bind_Inr_iff ensure_row_allowed_def split: if_splits)
  then have t: "t = s\<lparr>accounts := update_where (revisable (sint (tp_user_id p)))
      (updated_profile p (ie_clock e 1)) (accounts s)\<rparr>"
    by (auto simp: sql_update_account_def split: if_splits)
  have "list_all2 (\<lambda>a b. authority b = authority a \<and> ac_created_at b = ac_created_at a
      \<and> (ac_id a \<noteq> sint (tp_user_id p) \<longrightarrow> b = a)) (accounts s) (accounts t)"
    unfolding t by (simp, rule list_all2_update_where) (simp_all add: authority_def updated_profile_def revisable_def)
  with Some t \<open>\<not> row_blocked (ie_clock e 0) a\<close> show ?thesis by simp
qed

section \<open>The screen of features\<close>

lemma merge_grant_matches:
  assumes "expires_at g = None"
  shows "list_ex (grant_matches spec now) (merge_grant g hs) \<longleftrightarrow>
    grant_matches spec now g \<or> list_ex (grant_matches spec now) hs"
  using assms by (induction hs) (auto simp: grant_matches_def same_grant_def)

lemma fold_merge_matches:
  assumes "\<forall>g \<in> set gs. expires_at g = None"
  shows "list_ex (grant_matches spec now) (fold merge_grant gs hs) \<longleftrightarrow>
    list_ex (grant_matches spec now) gs \<or> list_ex (grant_matches spec now) hs"
  using assms by (induction gs arbitrary: hs) (auto simp: merge_grant_matches)

definition permission_matches :: "feature_spec \<Rightarrow> instant \<Rightarrow> admin_permission \<Rightarrow> bool" where
  "permission_matches spec now p \<longleftrightarrow> grant_matches spec now (grant_of_permission p)"

lemma append_automatic_matches:
  assumes "expires_at g = None"
  shows "list_ex (permission_matches spec now) (append_automatic e user g ps) \<longleftrightarrow>
    grant_matches spec now g \<or> list_ex (permission_matches spec now) ps"
  using assms
  by (auto simp: append_automatic_def list_ex_iff permission_matches_def grant_matches_def
      same_permission_def grant_of_permission_def)

lemma fold_append_matches:
  assumes "\<forall>g \<in> set gs. expires_at g = None"
  shows "list_ex (permission_matches spec now) (fold (append_automatic e user) gs ps) \<longleftrightarrow>
    list_ex (grant_matches spec now) gs \<or> list_ex (permission_matches spec now) ps"
  using assms by (induction gs arbitrary: ps) (auto simp: append_automatic_matches)

definition row_matches :: "feature_spec \<Rightarrow> instant \<Rightarrow> permission_row \<Rightarrow> bool" where
  "row_matches spec now p \<longleftrightarrow>
     pr_plugin p = spec_plugin spec \<and> pr_feature p = spec_feature spec \<and> unexpired now p"

lemma traverse_list_ex:
  assumes "traverse_list f xs = Inr ys" and "\<And>x y. x \<in> set xs \<Longrightarrow> f x = Inr y \<Longrightarrow> Q y \<longleftrightarrow> P x"
  shows "list_ex Q ys \<longleftrightarrow> list_ex P xs"
  using assms
proof (induction xs arbitrary: ys)
  case Nil
  then show ?case by simp
next
  case (Cons x xs)
  then obtain z zs where "ys = z # zs" "f x = Inr z" "traverse_list f xs = Inr zs"
    by (auto simp: res_bind_Inr_iff)
  moreover from this have "Q z \<longleftrightarrow> P x" using Cons.prems(2) by (meson list.set_intros(1))
  moreover have "list_ex Q zs \<longleftrightarrow> list_ex P xs"
    using Cons.IH [of zs] Cons.prems(2) calculation(3) by (meson list.set_intros(2))
  ultimately show ?case by simp
qed

lemma traverse_time: "traverse_option (get_time e fault) x = Inr y \<Longrightarrow> y = x"
  by (cases x) (auto simp: res_bind_Inr_iff)

lemma grant_row_matches:
  "grant_of_row e p = Inr g \<Longrightarrow> grant_matches spec now g \<longleftrightarrow> row_matches spec now p"
  by (auto simp: grant_of_row_def res_bind_Inr_iff grant_matches_def row_matches_def unexpired_def
      dest!: traverse_time)

lemma permission_row_matches:
  "decode_permission e p = Inr q \<Longrightarrow> permission_matches spec now q \<longleftrightarrow> row_matches spec now p"
  by (auto simp: decode_permission_def res_bind_Inr_iff Let_def permission_matches_def
      grant_of_permission_def grant_matches_def row_matches_def unexpired_def
      dest!: traverse_time split: if_splits)

lemma list_ex_filter: "list_ex P (filter Q xs) \<longleftrightarrow> list_ex (\<lambda>x. Q x \<and> P x) xs"
  by (induction xs) auto

lemma automatic_indefinite: "\<forall>g \<in> set (automatic_grants e user s). expires_at g = None"
  by (simp add: set_automatic_grants)

lemma snapshot_grant_matches:
  assumes "traverse_list (grant_of_row e) (sql_grants user s) = Inr grants"
  shows "list_ex (grant_matches spec now) (fold merge_grant (automatic_grants e user s) grants) \<longleftrightarrow>
    list_ex (grant_matches spec now) (automatic_grants e user s)
    \<or> list_ex (\<lambda>p. pr_user p = user \<and> row_matches spec now p) (permissions s)"
  unfolding fold_merge_matches [OF automatic_indefinite]
  using traverse_list_ex [OF assms grant_row_matches] by (simp add: sql_grants_def list_ex_filter)

lemma permission_list_matches:
  assumes "permission_list e k user s = Inr ps" and "ie_clock e k = now"
  shows "list_ex (permission_matches spec now) ps \<longleftrightarrow>
    list_ex (grant_matches spec now) (automatic_grants e user s)
    \<or> list_ex (\<lambda>p. pr_user p = user \<and> row_matches spec now p) (permissions s)"
proof -
  from assms obtain qs where qs: "traverse_list (decode_permission e) (sql_permissions_user user now s) = Inr qs"
    "ps = fold (append_automatic e user) (automatic_grants e user s) qs"
    by (auto simp: permission_list_def res_bind_Inr_iff append_automatic_permissions_def)
  have "list_ex (row_matches spec now) (sql_permissions_user user now s) \<longleftrightarrow>
      list_ex (\<lambda>p. pr_user p = user \<and> row_matches spec now p) (permissions s)"
    by (auto simp: sql_permissions_user_def list_ex_iff row_matches_def)
  then show ?thesis
    unfolding qs(2) fold_append_matches [OF automatic_indefinite]
    using traverse_list_ex [OF qs(1) permission_row_matches] by simp
qed

lemma find_spec_registered:
  assumes "spec \<in> set registered_features"
  shows "find_spec (spec_plugin spec) (spec_feature spec) = Some spec"
proof -
  have "list_all (\<lambda>spec. find_spec (spec_plugin spec) (spec_feature spec) = Some spec) registered_features"
    by code_simp
  with assms show ?thesis by (simp add: list_all_iff)
qed

definition anyone_in_private :: access_policy where
  "anyone_in_private =
     \<lparr>min_role = Banned, scopes = [PrivateScope], check_group_enabled = False,
      check_thread_policy = False\<rparr>"

lemma anyone_in_private_allowed:
  "check_access p anyone_in_private (context_of None) now =
     (if sint (user_id p) \<le> 0 \<or> is_blocked p now then denied ''blocked'' (role p)
      else \<lparr>allowed = True, deny_reason = '''', effective_role = role p\<rparr>)"
  by (auto simp: check_access_def context_of_def anyone_in_private_def local_role_def Let_def
      less_role_def)

lemma effective_grant_cong:
  assumes "user_id p = user_id q" "role p = role q" "is_blocked p now = is_blocked q now"
    and "list_ex (grant_matches spec now) gs = list_ex (grant_matches spec now) hs"
  shows "effective_grant p spec gs providers now = effective_grant q spec hs providers now"
  using assms by (cases "default_min_role spec") (simp_all add: effective_grant_def)

text \<open>C13. With a clock that stands still, the screen lists a feature as effective exactly when the
  snapshot of the user grants it to anyone who is not blocked; both read the same tables by
  different paths.\<close>

theorem feature_screen_agrees:
  assumes "\<And>k. ie_clock e k = now" and "user = (case whom of None \<Rightarrow> actor | Some u \<Rightarrow> u)"
    and "admin_feature_access e st actor whom s = (Inr xs, t)"
    and "snapshot e st user None s = (Inr (Some sn), t')"
  shows "map fa_spec xs = registered_features
    \<and> (\<forall>x \<in> set xs. fa_effective x \<longleftrightarrow>
        allowed (au_decision (authorize sn anyone_in_private
          (Some (spec_plugin (fa_spec x), spec_feature (fa_spec x))))))"
  using assms(4)
proof (rule snapshot_Some)
  fix a r grants group
  assume ids: "\<not> invalid_ids st user None"
    and a: "sql_user (sint user) s = Some a" and r: "role_from_str (ac_role a) = Inr r"
    and g: "traverse_list (grant_of_row e) (sql_grants (sint user) s) = Inr grants"
    and "traverse_option (\<lambda>g. read_group user g s) None = Inr group"
    and sn': "sn = \<lparr>sn_principal = elevated st (ie_clock e 0)
              \<lparr>user_id = user, role = r, ban_until = ac_ban_until a\<rparr>,
           sn_language = ac_language a,
           sn_grants = fold merge_grant (automatic_grants e (sint user) s) grants,
           sn_providers = providers_of st (sint user) s, sn_now = ie_clock e 0, sn_group = group\<rparr>"
  then have sn: "sn_principal sn = elevated st now \<lparr>user_id = user, role = r, ban_until = ac_ban_until a\<rparr>"
    "sn_grants sn = fold merge_grant (automatic_grants e (sint user) s) grants"
    "sn_providers sn = providers_of st (sint user) s" "sn_now sn = now" "sn_group sn = None"
    using assms(1) by simp_all
  let ?p = "\<lparr>user_id = user, role = r, ban_until = ac_ban_until a\<rparr> :: principal"
  let ?blocked = "row_is_blocked r (ac_ban_until a) now"
  have blocked: "is_blocked ?p now = ?blocked"
    by (simp add: is_blocked_def row_is_blocked_def)
  from assms(3) obtain rr ps providers where
    rr: "user_role e 1 user (owner_id st) s = Inr (Some rr)"
    and ps: "permission_list e 3 (sint user) s = Inr ps"
    and providers: "access_providers (later 4 e) st user s = Inr providers"
    and xs: "xs = map (access_of user rr (row_is_blocked rr (ac_ban_until a) now) ps providers now)
      registered_features"
    using a assms(1)
    by (auto simp: admin_feature_access_def guarded_def reading_eq res_bind_Inr_iff now_db_def Let_def
        assms(2) [symmetric] split: if_splits dest!: traverse_time)
  have rr': "rr = role (sn_principal sn)"
    using rr a r assms(1)
    by (auto simp: user_role_def res_bind_Inr_iff admin_role_def now_db_def sn(1) elevated_def blocked
        dest!: traverse_time split: if_splits)
  have blocked': "row_is_blocked rr (ac_ban_until a) now = ?blocked"
    using elevated_blocked [of st now ?p]
    by (auto simp: rr' sn(1) elevated_def is_blocked_def row_is_blocked_def split: if_splits)
  have pr: "providers = providers_of st (sint user) s"
  proof (cases "insight_enabled st")
    case True
    with providers obtain sn2 where "read_snapshot (later 4 e) st user None s = Inr (Some sn2)"
      "providers = sn_providers sn2"
      by (auto simp: access_providers_def res_bind_Inr_iff)
    then show ?thesis by (auto simp: read_snapshot_def res_bind_Inr_iff split: option.splits)
  next
    case False
    with providers show ?thesis by (simp add: access_providers_def providers_of_def)
  qed
  have pos: "0 < sint user" using ids by (simp add: invalid_ids_def)
  have grants: "list_ex (grant_matches spec now) (map grant_of_permission ps)
      = list_ex (grant_matches spec now) (sn_grants sn)" for spec
    using permission_list_matches [OF ps assms(1), of spec] snapshot_grant_matches [OF g, of spec now]
    by (simp add: sn(2) list_ex_iff permission_matches_def)
  have each: "fa_effective (access_of user rr ?blocked ps providers now spec) \<longleftrightarrow>
      allowed (au_decision (authorize sn anyone_in_private (Some (spec_plugin spec, spec_feature spec))))"
    if spec: "spec \<in> set registered_features" for spec
  proof (cases ?blocked)
    case True
    then show ?thesis
      unfolding allowed_authorization sn(5) anyone_in_private_allowed sn(4)
      by (simp add: access_of_def Let_def sn(1) elevated_blocked blocked)
  next
    case False
    then have "\<not> is_blocked (sn_principal sn) now" by (simp add: sn(1) elevated_blocked blocked)
    moreover have "user_id (sn_principal sn) = user" by (simp add: sn(1) elevated_def)
    moreover have "effective_grant \<lparr>user_id = user, role = rr, ban_until = None\<rparr> spec
        (map grant_of_permission ps) providers now
      = effective_grant (sn_principal sn) spec (sn_grants sn) (sn_providers sn) now"
      unfolding pr sn(3) using calculation rr' False blocked'
      by (intro effective_grant_cong grants)
        (auto simp: is_blocked_def row_is_blocked_def)
    ultimately show ?thesis
      unfolding allowed_authorization sn(5) anyone_in_private_allowed sn(4)
      using False pos
      by (simp add: access_of_def Let_def find_spec_registered [OF spec])
  qed
  show ?thesis
    using each unfolding xs blocked' by (auto simp: access_of_def Let_def comp_def intro: map_idI)
qed

end
