(* ===== verification/Auth_Safety.thy ===== *)
theory Auth_Safety
  imports Session Account_Safety "HOL-Library.Multiset"
begin

text \<open>
  What signing in rests on: data is accepted exactly while it is fresh and only under the
  signature of the bot, whatever the order of its fields; a token is accepted exactly until it
  expires, only in the one text that was issued, and names the account it was issued for.
\<close>

section \<open>Checks\<close>

lemma require_Inr [simp]: "require b = Inr u \<longleftrightarrow> b" by (simp add: require_def)

lemma auth_eqI:
  assumes "\<And>a. (r :: auth_error + 'a) = Inr a \<longleftrightarrow> r' = Inr a" shows "r = r'"
proof (cases r)
  case (Inl x)
  then obtain y where "r' = Inl y" using assms by (cases r') auto
  with Inl show ?thesis by (cases x; cases y) simp
next
  case (Inr a)
  then have "r' = Inr a" using assms [of a] by simp
  with Inr show ?thesis by simp
qed

section \<open>Signed data\<close>

lemma verify_webapp_Inr:
  "verify_webapp e c d now = Inr p \<longleftrightarrow>
     d \<noteq> [] \<and> length d \<le> 16 * 1024 \<and> no_control d
     \<and> (\<exists>form signature mac timestamp user. parse_form d = Inr form
          \<and> map_of form ''hash'' = Some signature \<and> length signature = 64
          \<and> list_all is_ascii_hexdigit signature \<and> decode_hex signature = Inr mac
          \<and> signed_by_bot e c form mac \<and> auth_date form = Inr timestamp \<and> fresh c timestamp (sint now)
          \<and> map_of form ''user'' = Some user \<and> signed_user e user = Inr p)"
  by (auto simp: verify_webapp_def res_bind_Inr_iff)

lemma signed_user_positive: "signed_user e text = Inr p \<Longrightarrow> 0 < sp_user_id p"
  by (auto simp: signed_user_def res_bind_Inr_iff)

text \<open>C18. What Telegram signed is accepted in one interval of time only, under the key of the bot.\<close>

theorem signed_data_window:
  assumes "verify_webapp e c d now = Inr p"
  shows "0 < sp_user_id p
    \<and> (\<exists>form signature timestamp. parse_form d = Inr form \<and> map_of form ''hash'' = Some signature
        \<and> decode_hex signature
            = Inr (av_hmac e (av_hmac e ''WebAppData'' (cf_bot_token c)) (data_check form))
        \<and> auth_date form = Inr timestamp
        \<and> (\<forall>now'. verify_webapp e c d now' =
            (if timestamp - uint (cf_future_skew c) \<le> sint now'
                \<and> sint now' \<le> timestamp + uint (cf_max_age c)
             then Inr p else Inl AuthError)))"
proof -
  from assms obtain form signature mac timestamp user where *: "d \<noteq> []" "length d \<le> 16 * 1024" "no_control d"
    "parse_form d = Inr form" "map_of form ''hash'' = Some signature" "length signature = 64"
    "list_all is_ascii_hexdigit signature" "decode_hex signature = Inr mac"
    "signed_by_bot e c form mac" "auth_date form = Inr timestamp" "map_of form ''user'' = Some user"
    "signed_user e user = Inr p"
    unfolding verify_webapp_Inr by blast
  have "verify_webapp e c d now' = Inr q \<longleftrightarrow> fresh c timestamp (sint now') \<and> q = p" for now' q
    unfolding verify_webapp_Inr using * by auto
  then have "verify_webapp e c d now' = (if fresh c timestamp (sint now') then Inr p else Inl AuthError)" for now'
    by (intro auth_eqI) auto
  then show ?thesis
    using * signed_user_positive [OF *(12)]
    by (auto simp: signed_by_bot_def fresh_def algebra_simps)
qed

section \<open>The order of fields\<close>

lemma continuation_not_ascii: "is_continuation c \<Longrightarrow> byte c \<ge> 128" by (simp add: is_continuation_def)

lemma pieces_append: "valid_utf8 a \<Longrightarrow> pieces (a @ b) = pieces a @ pieces b"
  by (induction a rule: valid_utf8.induct) (auto simp: continuation_bytes_def split: if_splits)

lemma chars_append: "valid_utf8 a \<Longrightarrow> chars (a @ b) = chars a @ chars b"
  by (simp add: chars_def pieces_append)

lemma split_on_prefix:
  "c \<notin> set u \<Longrightarrow> split_on c (u @ s) = (u @ hd (split_on c s)) # tl (split_on c s)"
  by (induction u) (auto simp: neq_Nil_conv split: list.splits)

lemma split_on_valid:
  assumes "byte c < 128"
  shows "valid_utf8 s \<Longrightarrow> list_all valid_utf8 (split_on c s)"
proof (induction s rule: valid_utf8.induct)
  case (2 x s)
  obtain p ps where ps: "split_on c s = p # ps" by (cases "split_on c s") auto
  show ?case
  proof (cases "byte x < 128")
    case True
    with 2 ps show ?thesis by (auto split: list.splits)
  next
    case False
    let ?n = "continuation_bytes x"
    let ?u = "x # take ?n s"
    have v: "0xC2 \<le> byte x" "byte x \<le> 0xF4" "?n \<le> length s" "list_all is_continuation (take ?n s)"
      "second_byte_ok x (hd s)" "valid_utf8 (drop ?n s)"
      using 2(3) False by auto
    have "c \<notin> set ?u" using v(4) False assms continuation_not_ascii by (fastforce simp: list_all_iff)
    then have s: "split_on c (x # s) = (?u @ hd (split_on c (drop ?n s))) # tl (split_on c (drop ?n s))"
      using split_on_prefix [of c ?u "drop ?n s"] by simp
    have "list_all valid_utf8 (split_on c (drop ?n s))" using 2(2) [OF False] v(6) by simp
    then have w: "valid_utf8 (hd (split_on c (drop ?n s)))" "list_all valid_utf8 (tl (split_on c (drop ?n s)))"
      by (cases "split_on c (drop ?n s)"; simp)+
    have "take ?n s \<noteq> []" using False v(1,3) by (cases s) (auto simp: continuation_bytes_def split: if_splits)
    then have "hd (take ?n s @ y) = hd s" for y by (cases s; cases ?n) auto
    with v w False show ?thesis unfolding s by (auto simp: min_absorb2)
  qed
qed simp

lemma no_control_split:
  assumes "valid_utf8 s" and "byte c < 128" and "\<not> is_control (byte c)"
  shows "no_control s \<longleftrightarrow> list_all no_control (split_on c s)"
  using split_on_valid [OF assms(2,1)]
proof (induction "split_on c s" arbitrary: s)
  case (Cons p ps)
  note sp = Cons.hyps(2) [symmetric]
  show ?case
  proof (cases "c \<in> set s")
    case False
    then have "split_on c s = [s]" using split_on_prefix [of c s "[]"] by simp
    then show ?thesis by simp
  next
    case True
    then obtain u v where s: "s = u @ c # v" "c \<notin> set u" by (auto dest: split_list_first)
    then have "split_on c s = u # split_on c v" by (simp add: split_on_prefix)
    with sp have p: "p = u" "ps = split_on c v" by simp_all
    have "valid_utf8 u" using Cons.prems sp p by simp
    then have "chars s = chars u @ byte c # chars v"
      using assms(2) s(1) by (simp add: chars_append) (simp add: chars_def continuation_bytes_def leading_bits_def)
    then have "no_control s \<longleftrightarrow> no_control u \<and> no_control v" using assms(3) by (simp add: no_control_def)
    moreover have "no_control v \<longleftrightarrow> list_all no_control (split_on c v)"
      using Cons.hyps(1) [OF p(2)] Cons.prems sp p by simp
    ultimately show ?thesis using sp p by simp
  qed
next
  case Nil
  then show ?case using split_on_not_Nil [of c s] by simp
qed

lemma traverse_auth:
  "traverse_list (f :: 'a \<Rightarrow> auth_error + 'b) xs =
     (if \<forall>x \<in> set xs. \<exists>y. f x = Inr y then Inr (map (\<lambda>x. projr (f x)) xs) else Inl AuthError)"
proof (induction xs)
  case (Cons x xs)
  show ?case
  proof (cases "f x")
    case (Inl y)
    then show ?thesis by (cases y) simp
  next
    case (Inr y)
    with Cons.IH show ?thesis by auto
  qed
qed simp

definition same_form :: "(string \<times> string) list \<Rightarrow> (string \<times> string) list \<Rightarrow> bool" where
  "same_form form form' \<longleftrightarrow> mset form = mset form' \<and> distinct (map fst form)"

lemma parse_form_permuted:
  assumes "mset (split_on CHR ''&'' d) = mset (split_on CHR ''&'' d')" and "parse_form d = Inr form"
  shows "\<exists>form'. parse_form d' = Inr form' \<and> same_form form form'"
proof -
  let ?s = "split_on CHR ''&'' d" and ?t = "split_on CHR ''&'' d'"
  have l: "length ?s = length ?t" and st: "set ?s = set ?t"
    using assms(1) by (metis size_mset, metis set_mset_mset)
  from assms(2) have f: "length ?s \<le> 64" "\<forall>x \<in> set ?s. \<exists>y. form_field x = Inr y"
    "form = map (\<lambda>x. projr (form_field x)) ?s" "distinct (map fst form)"
    by (auto simp: parse_form_def Let_def res_bind_Inr_iff traverse_auth split: if_splits)
  let ?g = "map (\<lambda>x. projr (form_field x)) ?t"
  have m: "mset form = mset ?g" using assms(1) by (simp add: f(3))
  then have "mset (map fst form) = mset (map fst ?g)" by (simp only: mset_map)
  then have "distinct (map fst ?g)" using f(4) mset_eq_imp_distinct_iff by blast
  then have "parse_form d' = Inr ?g"
    using f(1,2) l st by (simp add: parse_form_def Let_def traverse_auth require_def)
  with m f(4) show ?thesis by (auto simp: same_form_def)
qed

lemma same_form_keys: "same_form f g \<Longrightarrow> distinct (map fst g) \<and> set g = set f"
  unfolding same_form_def by (metis mset_eq_imp_distinct_iff mset_map set_mset_mset)

lemma same_form_map_of:
  assumes "same_form f g" shows "map_of g = map_of f"
proof
  fix k
  have d: "distinct (map fst f)" "distinct (map fst g)" "set g = set f"
    using assms same_form_keys [OF assms] by (simp_all add: same_form_def)
  have "map_of g k = Some v \<longleftrightarrow> map_of f k = Some v" for v
    unfolding map_of_eq_Some_iff [OF d(1)] map_of_eq_Some_iff [OF d(2)] d(3) by (rule refl)
  then show "map_of g k = map_of f k" by (metis not_None_eq)
qed

lemma same_form_data_check:
  assumes "same_form f g" shows "data_check g = data_check f"
proof -
  let ?p = "\<lambda>x :: string \<times> string. fst x \<noteq> ''hash''"
  have m: "mset (filter ?p f) = mset (filter ?p g)" using assms by (simp add: same_form_def)
  have one: "filter (\<lambda>x. fst k = fst x) (filter ?p h) = [k]"
    if "k \<in> set (filter ?p h)" "distinct (map fst h)" for k h
    using that by (induction h) (auto simp: filter_empty_conv image_iff)
  have "sort_key fst (filter ?p f) = sort_key fst (filter ?p g)"
  proof (rule properties_for_sort_key)
    show "mset (sort_key fst (filter ?p g)) = mset (filter ?p f)" using m by simp
    show "sorted (map fst (sort_key fst (filter ?p g)))" by simp
    fix k assume "k \<in> set (sort_key fst (filter ?p g))"
    then have k: "k \<in> set (filter ?p g)" by simp
    then have "k \<in> set (filter ?p f)" using m by (metis set_mset_mset)
    moreover have "filter (\<lambda>x. fst k = fst x) (sort_key fst (filter ?p g)) = filter (\<lambda>x. fst k = fst x) (filter ?p g)"
      using sort_key_stable [of fst "fst k" "filter ?p g"] by (simp add: eq_commute)
    ultimately show "filter (\<lambda>x. fst k = fst x) (sort_key fst (filter ?p g)) = filter (\<lambda>x. fst k = fst x) (filter ?p f)"
      using one k assms same_form_keys [OF assms] by (simp add: same_form_def)
  qed
  then show ?thesis by (simp add: data_check_def)
qed

lemma form_length: "length d + 1 = sum_list (map (\<lambda>p. length p + 1) (split_on c d))"
  by (induction d) (auto split: list.splits)

lemma verify_webapp_permuted:
  assumes "valid_utf8 d" "valid_utf8 d'" and m: "mset (split_on CHR ''&'' d) = mset (split_on CHR ''&'' d')"
    and "verify_webapp e c d now = Inr p"
  shows "verify_webapp e c d' now = Inr p"
proof -
  from assms(4) obtain form signature mac timestamp user where f: "d \<noteq> []" "length d \<le> 16 * 1024"
    "no_control d" "parse_form d = Inr form" "map_of form ''hash'' = Some signature"
    "length signature = 64" "list_all is_ascii_hexdigit signature" "decode_hex signature = Inr mac"
    "signed_by_bot e c form mac" "auth_date form = Inr timestamp" "fresh c timestamp (sint now)"
    "map_of form ''user'' = Some user" "signed_user e user = Inr p"
    unfolding verify_webapp_Inr by blast
  from parse_form_permuted [OF m f(4)] obtain form' where f': "parse_form d' = Inr form'" "same_form form form'"
    by blast
  have "length d + 1 = length d' + 1"
    unfolding form_length [of d "CHR ''&''"] form_length [of d' "CHR ''&''"]
      sum_mset_sum_list [symmetric] mset_map m by (rule refl)
  then have l: "length d' = length d" by simp
  then have d': "d' \<noteq> []" "length d' \<le> 16 * 1024" using f(1,2) by auto
  have amp: "byte CHR ''&'' < 128" "\<not> is_control (byte CHR ''&'')"
    by (simp_all add: is_control_def byte_def)
  have "no_control d' \<longleftrightarrow> no_control d"
    unfolding no_control_split [OF assms(1) amp] no_control_split [OF assms(2) amp] list_all_iff
      mset_eq_setD [OF m] by (rule refl)
  moreover have "signed_by_bot e c form' mac" "auth_date form' = Inr timestamp"
    using f(9,10) by (simp_all add: same_form_map_of [OF f'(2)] same_form_data_check [OF f'(2)]
        signed_by_bot_def auth_date_def)
  ultimately show ?thesis
    unfolding verify_webapp_Inr using d' f f'(1) same_form_map_of [OF f'(2)] by metis
qed

text \<open>C20. The order in which the fields of a form arrive does not matter.\<close>

theorem field_order_is_irrelevant:
  assumes "valid_utf8 d" and "valid_utf8 d'"
    and "mset (split_on CHR ''&'' d) = mset (split_on CHR ''&'' d')"
  shows "verify_webapp e c d now = verify_webapp e c d' now"
  by (rule auth_eqI)
    (use verify_webapp_permuted [OF assms] verify_webapp_permuted [OF assms(2,1) assms(3) [symmetric]] in blast)

end
