(* ===== verification/Token_Safety.thy ===== *)
theory Token_Safety
  imports Auth_Safety
begin

text \<open>
  Tokens: what is accepted was issued with the secret and is not expired, what is issued is
  accepted until it expires, and signing in gives a token for the account that signed in.
\<close>

section \<open>What is accepted\<close>

lemma join_split_on: "join_with [c] (split_on c s) = s"
proof (induction s)
  case (Cons x s)
  obtain p ps where ps: "split_on c s = p # ps" by (cases "split_on c s") auto
  with Cons.IH show ?case by (cases ps) auto
qed simp

lemma split_on_three:
  assumes "split_on c s = [a, b, d]" shows "s = a @ [c] @ b @ [c] @ d"
  using join_split_on [of c s] assms by simp

lemma strict_b64_Inr:
  "strict_b64 e v = Inr d \<longleftrightarrow>
     CHR ''='' \<notin> set v \<and> av_b64_decode e v = Some d \<and> av_b64_encode e d = v"
  by (auto simp: strict_b64_def res_bind_Inr_iff)

lemma verify_token_Inr:
  "verify_token e c tok now = Inr u \<longleftrightarrow> length tok \<le> 8192 \<and>
     (\<exists>head payload signature header mac bytes h claims. split_on CHR ''.'' tok = [head, payload, signature]
       \<and> head \<noteq> [] \<and> payload \<noteq> [] \<and> signature \<noteq> []
       \<and> strict_b64 e head = Inr header \<and> av_json e header = Some h \<and> header_ok h
       \<and> strict_b64 e signature = Inr mac
       \<and> av_hmac e (cf_jwt_secret c) (signing_input head payload) = mac
       \<and> strict_b64 e payload = Inr bytes \<and> av_json e bytes = Some (JObject claims)
       \<and> json_depth (JObject claims) 0 \<le> 8 \<and> verify_claims claims now = Inr u)"
proof -
  have obj: "as_object v = Some cs \<longleftrightarrow> v = JObject cs" for v cs by (cases v) auto
  show ?thesis
  proof (cases "\<exists>a b d. split_on CHR ''.'' tok = [a, b, d]")
    case True
    then obtain a b d where s: "split_on CHR ''.'' tok = [a, b, d]" by blast
    then have "tok \<noteq> []" by auto
    then show ?thesis unfolding verify_token_def s by (auto simp: res_bind_Inr_iff obj)
  next
    case False
    then have "verify_token e c tok now \<noteq> Inr u"
      by (auto simp: verify_token_def res_bind_Inr_iff split: list.splits)
    with False show ?thesis by blast
  qed
qed

lemma verify_claims_Inr:
  "verify_claims claims now = Inr u \<longleftrightarrow>
     (\<exists>sub r expiry. map_of claims ''sub'' = Some (JString sub) \<and> subject sub = Inr u
       \<and> map_of claims ''role'' = Some (JString r) \<and> role_text_ok r
       \<and> Option.bind (map_of claims ''exp'') as_i64 = Some expiry \<and> sint now < expiry
       \<and> (\<exists>x. optional_string claims ''username'' 64 = Inr x)
       \<and> (\<exists>x. optional_string claims ''first_name'' 256 = Inr x))"
proof -
  have str: "Option.bind (map_of claims k) as_str = Some v \<longleftrightarrow> map_of claims k = Some (JString v)" for k v
    by (cases "map_of claims k") (auto elim!: as_str.elims)
  show ?thesis by (auto simp: verify_claims_def res_bind_Inr_iff str)
qed

lemma subject_Inr: "subject sub = Inr u \<longleftrightarrow> sub \<noteq> [] \<and> list_all is_ascii_digit sub
    \<and> \<not> (length sub > 1 \<and> starts_with sub ''0'') \<and> parse_i64 sub = Some u \<and> 0 < u"
  by (auto simp: subject_def res_bind_Inr_iff)

text \<open>C17. An accepted token carries the MAC of its own text under the secret, in the one encoding of it,
  says HS256, and names a positive account and a moment still to come.\<close>

theorem accepted_token_is_authentic:
  assumes "verify_token e c tok now = Inr u"
  shows "\<exists>head payload. tok = signing_input head payload @ ''.''
        @ av_b64_encode e (av_hmac e (cf_jwt_secret c) (signing_input head payload))
    \<and> (\<exists>header. av_b64_decode e head = Some header
         \<and> (\<exists>fs. av_json e header = Some (JObject fs) \<and> map_of fs ''alg'' = Some (JString ''HS256'')))
    \<and> (\<exists>bytes claims sub expiry. av_b64_decode e payload = Some bytes
         \<and> av_json e bytes = Some (JObject claims)
         \<and> map_of claims ''sub'' = Some (JString sub) \<and> parse_i64 sub = Some u \<and> 0 < u
         \<and> Option.bind (map_of claims ''exp'') as_i64 = Some expiry \<and> sint now < expiry
         \<and> (\<forall>t. verify_token e c tok t = (if sint t < expiry then Inr u else Inl AuthError)))"
proof -
  from assms obtain head payload signature header mac bytes h claims where
    *: "split_on CHR ''.'' tok = [head, payload, signature]" "head \<noteq> []" "payload \<noteq> []" "signature \<noteq> []"
    "strict_b64 e head = Inr header" "av_json e header = Some h" "header_ok h"
    "strict_b64 e signature = Inr mac" "av_hmac e (cf_jwt_secret c) (signing_input head payload) = mac"
    "strict_b64 e payload = Inr bytes" "av_json e bytes = Some (JObject claims)"
    "json_depth (JObject claims) 0 \<le> 8" "verify_claims claims now = Inr u" "length tok \<le> 8192"
    unfolding verify_token_Inr by blast
  from *(13) obtain sub r expiry where cl: "map_of claims ''sub'' = Some (JString sub)" "subject sub = Inr u"
    "Option.bind (map_of claims ''exp'') as_i64 = Some expiry" "sint now < expiry"
    "map_of claims ''role'' = Some (JString r)" "role_text_ok r"
    "\<exists>x. optional_string claims ''username'' 64 = Inr x" "\<exists>x. optional_string claims ''first_name'' 256 = Inr x"
    unfolding verify_claims_Inr by blast
  have claims: "verify_claims claims t = Inr v \<longleftrightarrow> sint t < expiry \<and> v = u" for t v
    unfolding verify_claims_Inr using cl by auto
  have "verify_token e c tok t = Inr v \<longleftrightarrow> sint t < expiry \<and> v = u" for t v
    unfolding verify_token_Inr using * by (auto simp: claims)
  then have window: "verify_token e c tok t = (if sint t < expiry then Inr u else Inl AuthError)" for t
    by (intro auth_eqI) auto
  have "tok = signing_input head payload @ ''.'' @ signature"
    using split_on_three [OF *(1)] by (simp add: signing_input_def)
  moreover have "signature = av_b64_encode e (av_hmac e (cf_jwt_secret c) (signing_input head payload))"
    using *(8,9) by (simp add: strict_b64_Inr)
  ultimately have tok: "tok = signing_input head payload @ ''.''
      @ av_b64_encode e (av_hmac e (cf_jwt_secret c) (signing_input head payload))" by simp
  have "\<exists>fs. h = JObject fs \<and> map_of fs ''alg'' = Some (JString ''HS256'')"
    using *(7) by (cases h) (auto simp: header_ok_def bind_eq_Some_conv elim!: as_str.elims)
  then have head: "\<exists>header. av_b64_decode e head = Some header
      \<and> (\<exists>fs. av_json e header = Some (JObject fs) \<and> map_of fs ''alg'' = Some (JString ''HS256''))"
    using *(5,6) by (auto simp: strict_b64_Inr)
  have "av_b64_decode e payload = Some bytes" "parse_i64 sub = Some u" "0 < u"
    using *(10) cl(2) by (simp_all add: strict_b64_Inr subject_Inr)
  with tok head *(11) cl(1,3,4) window show ?thesis by blast
qed

section \<open>What is issued\<close>

text \<open>What the code relies on: base64 without padding is inverted by its reader, uses its alphabet
  and grows a text at most twofold; the MAC has thirty-two bytes.\<close>

definition b64_char :: "char \<Rightarrow> bool" where
  "b64_char c \<longleftrightarrow> is_ascii_alphanumeric c \<or> c = CHR ''-'' \<or> c = CHR ''_''"

definition codec_laws :: "auth_env \<Rightarrow> bool" where
  "codec_laws e \<longleftrightarrow>
     (\<forall>x. av_b64_decode e (av_b64_encode e x) = Some x \<and> list_all b64_char (av_b64_encode e x)
        \<and> length (av_b64_encode e x) \<le> 2 * length x \<and> (av_b64_encode e x = [] \<longrightarrow> x = []))
     \<and> (\<forall>k m. length (av_hmac e k m) = 32)"

lemma b64_char_not: "list_all b64_char s \<Longrightarrow> CHR ''='' \<notin> set s \<and> CHR ''.'' \<notin> set s"
  by (auto simp: b64_char_def list_all_iff is_ascii_alphanumeric_def is_ascii_digit_def
      is_ascii_lowercase_def is_ascii_uppercase_def byte_def)

lemma strict_b64_encode: "codec_laws e \<Longrightarrow> strict_b64 e (av_b64_encode e x) = Inr x"
  using b64_char_not by (auto simp: codec_laws_def strict_b64_Inr)

lemma length_show_nat: "n < 10 ^ k \<Longrightarrow> 0 < k \<Longrightarrow> length (show_nat n) \<le> k"
proof (induction k arbitrary: n)
  case (Suc k)
  show ?case
  proof (cases "n < 10")
    case True
    then show ?thesis by (simp add: show_nat_small)
  next
    case False
    then have "n div 10 < 10 ^ k" "0 < k" using Suc.prems by (cases k; simp)+
    then have "length (show_nat (n div 10)) \<le> k" using Suc.IH by simp
    with False show ?thesis by (simp add: show_nat_large)
  qed
qed simp

lemma length_json_string: "length (json_string s) \<le> 6 * length s + 2"
  by (induction s) (auto simp: json_string_def json_escape_def Let_def)

lemma length_json_fields:
  "length (json_fields fs) \<le> sum_list (map (\<lambda>(k, v). length (json_string k) + length (json_text v) + 2) fs)"
proof (induction fs)
  case (Cons f fs)
  then show ?case by (cases f; cases fs) auto
qed simp

lemma length_json_int: "length (json_text (json_int n)) \<le> 20"
proof -
  have b: "- (2 ^ 63) \<le> sint n" "sint n < 2 ^ 63" using sint_bounds_64 [of n] by simp_all
  show ?thesis
  proof (cases "sint n < 0")
    case True
    then have "nat (- sint n) < 10 ^ 19" using b by simp
    then have "length (show_nat (nat (- sint n))) \<le> 19" by (intro length_show_nat) simp_all
    with True show ?thesis by (simp add: json_int_def)
  next
    case False
    have "unat (ucast n :: u64) < 10 ^ 20" using unsigned_less [of "ucast n :: u64", where 'a = nat] by simp
    then have "length (show_nat (unat (ucast n :: u64))) \<le> 20" by (intro length_show_nat) simp_all
    with False show ?thesis by (simp add: json_int_def)
  qed
qed

lemma length_claim_field:
  assumes "valid_claim_string v n" "length k = m"
  shows "sum_list (map (\<lambda>(k, v). length (json_string k) + length (json_text v) + 2) (claim_field k v))
    \<le> 6 * m + 6 * n + 6"
proof (cases v)
  case (Some s)
  then have "length s \<le> n" using assms(1) by (simp add: valid_claim_string_def)
  with Some show ?thesis
    using length_json_string [of k] length_json_string [of s] assms(2) by (simp add: claim_field_def)
qed (simp add: claim_field_def)

lemma length_claims:
  assumes "role_text_ok (jp_role p)" "valid_claim_string (jp_username p) 64"
    "valid_claim_string (jp_first_name p) 256"
  shows "length (json_text (JObject (token_claims p expiry))) \<le> 3200"
proof -
  have r: "length (jp_role p) \<le> 128" using assms(1) by (simp add: role_text_ok_def)
  have "nat (sint (jp_user_id p)) < 10 ^ 19" using sint_bounds_64 [of "jp_user_id p"] by simp
  then have "length (show_nat (nat (sint (jp_user_id p)))) \<le> 19" by (intro length_show_nat) simp_all
  then have sub: "length (json_string (show_nat (nat (sint (jp_user_id p))))) \<le> 116"
    using length_json_string [of "show_nat (nat (sint (jp_user_id p)))"] by simp
  have role: "length (json_string (jp_role p)) \<le> 770" using length_json_string [of "jp_role p"] r by simp
  have keys: "length (json_string ''sub'') \<le> 20" "length (json_string ''role'') \<le> 26" "length (json_string ''exp'') \<le> 20"
    using length_json_string [of "''sub''"] length_json_string [of "''role''"] length_json_string [of "''exp''"]
    by simp_all
  show ?thesis
    using length_json_fields [of "token_claims p expiry"] sub role keys length_json_int [of expiry]
      length_claim_field [OF assms(2), of "''username''" 8] length_claim_field [OF assms(3), of "''first_name''" 10]
    by (simp add: token_claims_def)
qed

lemma sint_checked_add: "checked_add_i64 a b = Some n \<Longrightarrow> sint n = sint a + uint b"
proof -
  assume *: "checked_add_i64 a b = Some n"
  then have b: "uint b < 2 ^ 63" "sint a + uint b < 2 ^ 63" "n = a + ucast b"
    by (auto simp: checked_add_i64_def split: if_splits)
  have "signed_take_bit 63 (uint b) = uint b"
    by (rule signed_take_bit_int_eq_self) (use b(1) in \<open>auto intro: order.trans [of _ 0]\<close>)
  then have "sint (ucast b :: i64) = uint b" by (simp add: sint_uint)
  moreover have "0 \<le> uint b" by simp
  then have "- (2 ^ 63) \<le> sint a + uint b" "sint a + uint b < 2 ^ 63"
    using sint_bounds_64 [of a] b(2) by linarith+
  ultimately show ?thesis
    by (simp add: b(3) sint_word_ariths signed_take_bit_int_eq_self)
qed

lemma as_i64_json_int: "as_i64 (json_int n) = Some (sint n)"
proof (cases "sint n < 0")
  case False
  then have u: "uint n = sint n"
    using sint_bounds_64 [of n] by (simp add: uint_sint take_bit_int_eq_self)
  then have "n \<le> i64_max" using sint_bounds_64 [of n] by (simp add: word_le_def)
  with False u show ?thesis by (simp add: json_int_def as_i64_def)
qed (simp add: json_int_def as_i64_def)

lemma show_nat_no_zero: "0 < m \<Longrightarrow> \<not> starts_with (show_nat m) ''0''"
proof (induction m rule: show_nat.induct)
  case (1 m)
  show ?case
  proof (cases "m < 10")
    case True
    then have "byte (char_of (48 + m)) \<noteq> byte CHR ''0''" using 1(2) by (simp add: byte_def)
    then have "char_of (48 + m) \<noteq> CHR ''0''" by metis
    with True show ?thesis by (auto simp: show_nat_small starts_with_def)
  next
    case False
    then have "\<not> starts_with (show_nat (m div 10)) ''0''" using 1(1) by simp
    moreover have "show_nat (m div 10) \<noteq> []" using show_nat_digits by simp
    ultimately show ?thesis
      unfolding show_nat_large [OF False] by (cases "show_nat (m div 10)") (auto simp: starts_with_def)
  qed
qed

lemma subject_of_user:
  assumes "0 < sint (u :: i64)" shows "subject (show_nat (nat (sint u))) = Inr (sint u)"
proof -
  have n: "0 < nat (sint u)" "nat (sint u) < 2 ^ 63" using assms sint_bounds_64 [of u] by simp_all
  have "int (nat (sint u)) = sint u" using assms by simp
  then show ?thesis
    unfolding subject_Inr using show_nat_digits [of "nat (sint u)"] show_nat_no_zero [OF n(1)]
      parse_i64_show [OF n(2)] assms by simp
qed

lemma claim_keys: "distinct (map fst (token_claims p expiry))"
  by (auto simp: token_claims_def claim_field_def split: option.splits)

lemma map_of_sort_key: "distinct (map fst fs) \<Longrightarrow> map_of (sort_key fst fs) = map_of fs"
proof
  fix k
  assume d: "distinct (map fst fs)"
  have s: "distinct (map fst (sort_key fst fs))"
    using d by (metis mset_eq_imp_distinct_iff mset_map mset_sort)
  have "map_of (sort_key fst fs) k = Some v \<longleftrightarrow> map_of fs k = Some v" for v
    unfolding map_of_eq_Some_iff [OF d] map_of_eq_Some_iff [OF s] by simp
  then show "map_of (sort_key fst fs) k = map_of fs k" by (metis not_None_eq)
qed

lemma optional_string_claim:
  assumes "valid_claim_string v n" and "map_of claims k = map_of (claim_field k v) k"
  shows "\<exists>x. optional_string claims k n = Inr x"
  using assms by (cases v) (auto simp: optional_string_def claim_field_def valid_claim_string_def)

lemma verify_issued_claims:
  assumes "0 < sint (jp_user_id p)" "role_text_ok (jp_role p)" "valid_claim_string (jp_username p) 64"
    "valid_claim_string (jp_first_name p) 256" "map_of claims = map_of (token_claims p expiry)"
  shows "verify_claims claims t = Inr u \<longleftrightarrow> u = sint (jp_user_id p) \<and> sint t < sint expiry"
proof -
  have m: "map_of claims ''sub'' = Some (JString (show_nat (nat (sint (jp_user_id p)))))"
    "map_of claims ''role'' = Some (JString (jp_role p))" "map_of claims ''exp'' = Some (json_int expiry)"
    "map_of claims ''username'' = map_of (claim_field ''username'' (jp_username p)) ''username''"
    "map_of claims ''first_name'' = map_of (claim_field ''first_name'' (jp_first_name p)) ''first_name''"
    unfolding assms(5) by (auto simp: token_claims_def claim_field_def split: option.splits)
  show ?thesis
    unfolding verify_claims_Inr m(1-3)
    using optional_string_claim [OF assms(3) m(4)] optional_string_claim [OF assms(4) m(5)]
      subject_of_user [OF assms(1)] assms(2) by (auto simp: as_i64_json_int)
qed

lemma json_depth_claims: "json_depth (JObject (sort_key fst (token_claims p expiry))) 0 \<le> 8"
proof -
  have flat: "json_depth (snd kv) 1 = 1" if "kv \<in> set (token_claims p expiry)" for kv
    using that by (auto simp: token_claims_def claim_field_def json_int_def split: option.splits if_splits)
  have m: "foldl max n ns \<le> m" if "n \<le> m" "\<forall>x \<in> set ns. x \<le> m" for n m :: nat and ns
    using that by (induction ns arbitrary: n) auto
  have le: "(case xs of [] \<Rightarrow> 0 + 1 | n # ns \<Rightarrow> foldl max n ns) \<le> 8" if "\<forall>x \<in> set xs. x \<le> 8" for xs :: "nat list"
    using that by (cases xs) (auto intro: m)
  show ?thesis unfolding json_depth.simps by (rule le) (use flat in auto)
qed

lemma issued_token_verifies:
  assumes "codec_laws e" and "issue_token e c p now = Inr tok"
    and "av_json e header_text = Some (JObject [(''alg'', JString ''HS256''), (''typ'', JString ''JWT'')])"
    and "\<And>expiry. checked_add_i64 now (cf_token_ttl c) = Some expiry \<Longrightarrow>
      av_json e (json_text (JObject (token_claims p expiry)))
        = Some (JObject (sort_key fst (token_claims p expiry)))"
  shows "verify_token e c tok t = (if sint t < sint now + uint (cf_token_ttl c)
      then Inr (sint (jp_user_id p)) else Inl AuthError)"
proof -
  from assms(2) obtain expiry where p: "0 < sint (jp_user_id p)" "role_text_ok (jp_role p)"
    "valid_claim_string (jp_username p) 64" "valid_claim_string (jp_first_name p) 256"
    and x: "checked_add_i64 now (cf_token_ttl c) = Some expiry"
    by (auto simp: issue_token_def res_bind_Inr_iff)
  let ?text = "json_text (JObject (token_claims p expiry))"
  let ?head = "av_b64_encode e header_text" and ?payload = "av_b64_encode e ?text"
  let ?mac = "av_hmac e (cf_jwt_secret c) (signing_input ?head ?payload)"
  let ?sig = "av_b64_encode e ?mac"
  have tok: "tok = signing_input ?head ?payload @ ''.'' @ ?sig"
    using assms(2) x by (auto simp: issue_token_def res_bind_Inr_iff Let_def)
  have laws: "list_all b64_char (av_b64_encode e y)" "length (av_b64_encode e y) \<le> 2 * length y"
    "av_b64_encode e y = [] \<Longrightarrow> y = []" for y
    using assms(1) by (auto simp: codec_laws_def)
  have dot: "CHR ''.'' \<notin> set (av_b64_encode e y)" for y using b64_char_not [OF laws(1)] by blast
  have mac: "length ?mac = 32" using assms(1) by (simp add: codec_laws_def)
  have "split_on CHR ''.'' (?head @ ''.'' @ ?payload @ ''.'' @ ?sig) = [?head, ?payload, ?sig]"
    using split_on_prefix [OF dot, of header_text] split_on_prefix [OF dot, of ?text]
      split_on_prefix [OF dot, of ?mac "[]"] by simp
  then have s: "split_on CHR ''.'' tok = [?head, ?payload, ?sig]" by (simp add: tok signing_input_def)
  have "?mac \<noteq> []" using mac by auto
  then have ne: "?head \<noteq> []" "?payload \<noteq> []" "?sig \<noteq> []"
    using laws(3) [of header_text] laws(3) [of ?text] laws(3) [of ?mac] by (auto simp: header_text_def)
  have "length header_text = 27" by (simp add: header_text_def)
  then have len: "length tok \<le> 8192"
    using laws(2) [of header_text] laws(2) [of ?text] laws(2) [of ?mac] mac length_claims [OF p(2-4), of expiry]
    by (simp add: tok signing_input_def)
  have "map_of (sort_key fst (token_claims p expiry)) = map_of (token_claims p expiry)"
    using claim_keys by (rule map_of_sort_key)
  then have cl: "verify_claims (sort_key fst (token_claims p expiry)) t = Inr u
      \<longleftrightarrow> u = sint (jp_user_id p) \<and> sint t < sint now + uint (cf_token_ttl c)" for u
    using verify_issued_claims [OF p] sint_checked_add [OF x] by simp
  have "verify_token e c tok t = Inr u
      \<longleftrightarrow> verify_claims (sort_key fst (token_claims p expiry)) t = Inr u" for u
    unfolding verify_token_Inr s using ne len assms(3) assms(4) [OF x] json_depth_claims [of p expiry]
    by (simp add: strict_b64_encode [OF assms(1)] header_ok_def)
  then have "verify_token e c tok t = Inr u \<longleftrightarrow> sint t < sint now + uint (cf_token_ttl c) \<and> u = sint (jp_user_id p)" for u
    unfolding cl by blast
  then show ?thesis by (intro auth_eqI) auto
qed

text \<open>C19. An issued token is accepted until it expires, as the account it was issued for, and then no
  more. The readers need only read the two texts of the token.\<close>

theorem issued_token_is_accepted:
  assumes "codec_laws e" and "issue_token e c p now = Inr tok"
    and "av_json e header_text = Some (JObject [(''alg'', JString ''HS256''), (''typ'', JString ''JWT'')])"
    and "\<And>expiry. checked_add_i64 now (cf_token_ttl c) = Some expiry \<Longrightarrow>
      av_json e (json_text (JObject (token_claims p expiry)))
        = Some (JObject (sort_key fst (token_claims p expiry)))"
  shows "verify_token e c tok t = (if sint t < sint now + uint (cf_token_ttl c)
      then Inr (sint (jp_user_id p)) else Inl AuthError)"
  using assms by (rule issued_token_verifies)

section \<open>Signing in\<close>

lemma convert_err_Inr [simp]: "convert_err f r = Inr a \<longleftrightarrow> r = Inr a" by (cases r) simp_all

lemma register_profile:
  assumes "register e st p s = (Inr q, t)"
  shows "up_id q = sint (tp_user_id p)"
    "sql_user (sint (tp_user_id p)) s = Some a \<Longrightarrow> \<not> row_blocked (ie_clock e 0) a"
proof -
  have id: "decode_profile e b = Inr v \<Longrightarrow> up_id v = ac_id b" for b v
    by (auto simp: decode_profile_def res_bind_Inr_iff)
  have mem: "sql_user i u = Some b \<Longrightarrow> ac_id b = i" for i u b
    unfolding sql_user_def by (rule find_row_Some(2))
  have o': "up_id (as_owner st v) = up_id v" for v by (simp add: as_owner_def)
  show "up_id q = sint (tp_user_id p)"
  proof (cases "sql_user (sint (tp_user_id p)) s")
    case None
    with assms have "register_new e st p s = Inr (q, t)" by (simp add: register_def in_transaction_Inr)
    then show ?thesis by (auto simp: register_new_def res_bind_Inr_iff Let_def dest!: id mem)
  next
    case (Some b)
    with assms have "register_known e st p b s = Inr (q, t)" by (simp add: register_def in_transaction_Inr)
    then show ?thesis by (auto simp: register_known_def res_bind_Inr_iff o' dest!: id mem split: if_splits)
  qed
  assume "sql_user (sint (tp_user_id p)) s = Some a"
  with assms have "register_known e st p a s = Inr (q, t)" by (simp add: register_def in_transaction_Inr)
  then show "\<not> row_blocked (ie_clock e 0) a"
    by (auto simp: register_known_def res_bind_Inr_iff ensure_row_allowed_def split: if_splits)
qed

lemma signed_user_range:
  assumes "signed_user e text = Inr p" shows "sint (of_int (sp_user_id p) :: i64) = sp_user_id p"
proof -
  from assms obtain v where v: "as_i64 v = Some (sp_user_id p)"
    by (auto simp: signed_user_def res_bind_Inr_iff bind_eq_Some_conv)
  have "- (2 ^ 63) \<le> sp_user_id p \<and> sp_user_id p < 2 ^ 63"
  proof (cases v)
    case (JPosInt n)
    with v have "n \<le> i64_max" "sp_user_id p = uint n" by (auto simp: as_i64_def split: if_splits)
    then show ?thesis by (simp add: word_le_def order.trans [of _ 0])
  next
    case (JNegInt n)
    with v have "sp_user_id p = sint n" by (simp add: as_i64_def)
    then show ?thesis using sint_bounds_64 [of n] by simp
  qed (use v in \<open>simp_all add: as_i64_def\<close>)
  then show ?thesis by (simp add: signed_of_int signed_take_bit_int_eq_self)
qed

lemma issued_token_shape:
  assumes "issue_token e c p now = Inr tok"
  shows "\<exists>x y z. tok = av_b64_encode e x @ ''.'' @ av_b64_encode e y @ ''.'' @ av_b64_encode e z"
proof -
  from assms obtain y z where "tok = signing_input (av_b64_encode e header_text) (av_b64_encode e y) @ ''.''
      @ av_b64_encode e z"
    by (simp only: issue_token_def res_bind_Inr_iff Let_def sum.inject) metis
  then show ?thesis unfolding signing_input_def append_assoc by blast
qed

lemma bearer_token_of:
  assumes "list_all (\<lambda>c. b64_char c \<or> c = CHR ''.'') tok" and "tok \<noteq> []"
  shows "bearer_token [Some (''Bearer '' @ tok)] = Inr tok"
proof -
  have "\<not> is_ascii_whitespace c" if "b64_char c \<or> c = CHR ''.''" for c
    using that by (auto simp: b64_char_def is_ascii_alphanumeric_def is_ascii_digit_def
        is_ascii_lowercase_def is_ascii_uppercase_def is_ascii_whitespace_def byte_def)
  then have "\<not> list_ex is_ascii_whitespace tok" using assms(1) by (auto simp: list_all_iff list_ex_iff)
  moreover have "split_once '' '' (''Bearer '' @ tok) = Some (''Bearer'', tok)"
    by (simp add: starts_with_def)
  moreover have "map to_ascii_lowercase ''Bearer'' = ''bearer''" by code_simp
  ultimately show ?thesis using assms(2) by (simp add: bearer_token_def)
qed

text \<open>C16. Who signs in with data of Telegram gets a token for its own account, which is not blocked, and
  until it expires the token in a bearer header is that account.\<close>

theorem sign_in_gives_own_token:
  assumes "codec_laws (se_auth e)"
    and "av_json (se_auth e) header_text
      = Some (JObject [(''alg'', JString ''HS256''), (''typ'', JString ''JWT'')])"
    and "verify_webapp (se_auth e) (as_crypto service) init (se_now e 0) = Inr p"
    and "register (se_identity e) (as_identities service) (trusted_of p) s = (Inr q, u)"
    and "\<And>expiry. checked_add_i64 (se_now e 1) (cf_token_ttl (as_crypto service)) = Some expiry \<Longrightarrow>
      av_json (se_auth e) (json_text (JObject (token_claims (jwt_of q) expiry)))
        = Some (JObject (sort_key fst (token_claims (jwt_of q) expiry)))"
    and "token_handler e (Some service) (Some init) s = (Inr r, t)"
    and "se_auth e' = se_auth e"
  shows "t = u \<and> tr_user_id r = sp_user_id p
    \<and> (\<forall>a. sql_user (sp_user_id p) s = Some a \<longrightarrow> \<not> row_blocked (ie_clock (se_identity e) 0) a)
    \<and> authenticated_id e' service [Some (''Bearer '' @ tr_access_token r)]
        = (if sint (se_now e' 0) < sint (se_now e 1) + uint (cf_token_ttl (as_crypto service))
           then Inr (sp_user_id p) else Inl invalid_token)"
proof -
  let ?c = "as_crypto service" and ?tok = "tr_access_token r"
  obtain user where user: "signed_user (se_auth e) user = Inr p"
    using assms(3) unfolding verify_webapp_Inr by blast
  note range = signed_user_range [OF user]
  from assms(3,4,6) have i: "issue e 1 service q = Inr r" and t: "t = u"
    by (simp_all add: token_handler_def calling_def)
  then have tok: "issue_token (se_auth e) ?c (jwt_of q) (se_now e 1) = Inr ?tok" and id: "tr_user_id r = up_id q"
    by (auto simp: issue_def res_bind_Inr_iff)
  have q: "up_id q = sp_user_id p"
    using register_profile(1) [OF assms(4)] by (simp add: trusted_of_def range)
  have u: "sint (jp_user_id (jwt_of q)) = sp_user_id p" by (simp add: jwt_of_def q range)
  have ok: "verify_token (se_auth e) ?c ?tok now = (if sint now < sint (se_now e 1) + uint (cf_token_ttl ?c)
      then Inr (sp_user_id p) else Inl AuthError)" for now
    using issued_token_verifies [OF assms(1) tok assms(2,5)] by (simp add: u)
  have "list_all b64_char (av_b64_encode (se_auth e) x)" for x using assms(1) by (simp add: codec_laws_def)
  moreover obtain x y z where "?tok = av_b64_encode (se_auth e) x @ ''.'' @ av_b64_encode (se_auth e) y
      @ ''.'' @ av_b64_encode (se_auth e) z"
    using issued_token_shape [OF tok] by blast
  ultimately have "list_all (\<lambda>c. b64_char c \<or> c = CHR ''.'') ?tok \<and> ?tok \<noteq> []"
    by (auto simp: list_all_iff)
  then have b: "bearer_token [Some (''Bearer '' @ ?tok)] = Inr ?tok" by (intro bearer_token_of) simp_all
  have "authenticated_id e' service [Some (''Bearer '' @ ?tok)]
        = (if sint (se_now e' 0) < sint (se_now e 1) + uint (cf_token_ttl ?c)
           then Inr (sp_user_id p) else Inl invalid_token)"
    unfolding authenticated_id_def b assms(7) res_bind.simps ok by simp
  with t id q show ?thesis
    using register_profile(2) [OF assms(4)] by (simp add: trusted_of_def range)
qed

end
