(* ===== verification/Membership_Safety.thy ===== *)
theory Membership_Safety
  imports Account_Safety
begin

text \<open>
  Observations arrive late, twice and out of order. The contract \<open>latest_wins\<close> says what a
  register that keeps the greatest observation promises, and its client lemma that the order
  of arrival does not matter; the rows of bots and of members are such registers.
\<close>

section \<open>Registers that keep the latest observation\<close>

fun latest :: "('k :: linorder \<times> 'v) option \<Rightarrow> ('k \<times> 'v) list \<Rightarrow> ('k \<times> 'v) option" where
  "latest a [] = a"
| "latest a (x # xs) =
     latest (case a of None \<Rightarrow> Some x | Some y \<Rightarrow> if fst y < fst x then Some x else Some y) xs"

lemma latest_mem:
  "latest a xs = Some z \<Longrightarrow> z \<in> set_option a \<union> set xs"
proof (induction xs arbitrary: a)
  case (Cons x xs)
  let ?a = "case a of None \<Rightarrow> Some x | Some y \<Rightarrow> if fst y < fst x then Some x else Some y"
  have "z \<in> set_option ?a \<union> set xs" using Cons.IH [of ?a] Cons.prems by simp
  then show ?case by (auto split: option.splits if_splits)
qed simp

lemma latest_upper:
  "latest a xs = Some z \<Longrightarrow> y \<in> set_option a \<union> set xs \<Longrightarrow> fst y \<le> fst z"
proof (induction xs arbitrary: a y)
  case Nil
  then show ?case by auto
next
  case (Cons x xs)
  let ?a = "case a of None \<Rightarrow> Some x | Some y \<Rightarrow> if fst y < fst x then Some x else Some y"
  have up: "fst w \<le> fst z" if "w \<in> set_option ?a \<union> set xs" for w
    using Cons.IH [of ?a w] Cons.prems(1) that by simp
  have "?a \<noteq> None" by (simp split: option.splits)
  then obtain w where w: "?a = Some w" by blast
  then have wz: "fst w \<le> fst z" using up by simp
  consider "a = Some y" | "y = x" | "y \<in> set xs" using Cons.prems(2) by auto
  then show ?case
  proof cases
    case 1
    then have "fst y \<le> fst w" using w by (auto split: if_splits)
    with wz show ?thesis by simp
  next
    case 2
    then have "fst y \<le> fst w" using w by (auto simp: not_less split: option.splits if_splits)
    with wz show ?thesis by simp
  next
    case 3
    then show ?thesis using up by simp
  qed
qed

lemma latest_None: "latest a xs = None \<longleftrightarrow> a = None \<and> xs = []"
proof (induction xs arbitrary: a)
  case (Cons x xs)
  then show ?case by (auto split: option.splits)
qed simp

lemma latest_set_cong:
  assumes "set xs = set ys"
    and "\<And>x y. x \<in> set_option a \<union> set xs \<Longrightarrow> y \<in> set_option a \<union> set xs \<Longrightarrow> fst x = fst y \<Longrightarrow> x = y"
  shows "latest a xs = latest a ys"
proof (cases "latest a xs")
  case None
  then have "a = None" "xs = []" by (simp_all add: latest_None)
  with assms(1) show ?thesis by simp
next
  case (Some x)
  then have "a \<noteq> None \<or> xs \<noteq> []" using latest_None [of a xs] by auto
  then have "latest a ys \<noteq> None" using assms(1) latest_None [of a ys] by auto
  then obtain y where y: "latest a ys = Some y" by blast
  have "x \<in> set_option a \<union> set xs" "y \<in> set_option a \<union> set xs"
    using latest_mem [OF Some] latest_mem [OF y] assms(1) by auto
  moreover from this have "fst x = fst y"
    using latest_upper [OF Some, of y] latest_upper [OF y, of x] assms(1) by (simp add: antisym)
  ultimately show ?thesis using assms(2) Some y by simp
qed

text \<open>A sequence of steps, each for one observation.\<close>

fun takes_all :: "('o \<Rightarrow> 's \<Rightarrow> 's \<Rightarrow> bool) \<Rightarrow> 'o list \<Rightarrow> 's \<Rightarrow> 's \<Rightarrow> bool" where
  "takes_all step [] s t = (t = s)"
| "takes_all step (x # xs) s t = (\<exists>u. step x s u \<and> takes_all step xs u t)"

locale latest_wins =
  fixes order :: "'o \<Rightarrow> 'k :: linorder"
    and value_of :: "'o \<Rightarrow> 'v"
    and seen :: "'s \<Rightarrow> ('k \<times> 'v) option"
    and takes :: "'o \<Rightarrow> 's \<Rightarrow> 's \<Rightarrow> bool"
  assumes newer: "takes x s t \<Longrightarrow> (\<And>k v. seen s = Some (k, v) \<Longrightarrow> k < order x)
      \<Longrightarrow> seen t = Some (order x, value_of x)"
    and older: "takes x s t \<Longrightarrow> seen s = Some (k, v) \<Longrightarrow> order x \<le> k \<Longrightarrow> seen t = Some (k, v)"
begin

lemma takes_latest:
  assumes "takes x s t"
  shows "seen t = latest (seen s) [(order x, value_of x)]"
proof (cases "seen s")
  case None
  with newer [OF assms] show ?thesis by simp
next
  case (Some kv)
  obtain k v where kv: "kv = (k, v)" by (cases kv)
  show ?thesis
  proof (cases "k < order x")
    case True
    then have "seen t = Some (order x, value_of x)" using newer [OF assms] Some kv by simp
    with True Some kv show ?thesis by simp
  next
    case False
    then have "seen t = Some (k, v)" using older [OF assms, of k v] Some kv by simp
    with False Some kv show ?thesis by simp
  qed
qed

lemma takes_all_latest:
  "takes_all takes xs s t \<Longrightarrow> seen t = latest (seen s) (map (\<lambda>x. (order x, value_of x)) xs)"
  by (induction xs arbitrary: s) (auto dest!: takes_latest)

lemma converges:
  assumes "takes_all takes xs s t" and "takes_all takes ys s t'" and "set xs = set ys"
    and "\<And>x y. x \<in> set xs \<Longrightarrow> y \<in> set xs \<Longrightarrow> order x = order y \<Longrightarrow> value_of x = value_of y"
    and "\<And>x k v. x \<in> set xs \<Longrightarrow> seen s = Some (k, v) \<Longrightarrow> order x = k \<Longrightarrow> value_of x = v"
  shows "seen t = seen t'"
proof -
  let ?ps = "\<lambda>zs. map (\<lambda>x. (order x, value_of x)) zs"
  have one: "v = v'"
    if "(k, v) \<in> set_option (seen s) \<union> set (?ps xs)" "(k, v') \<in> set_option (seen s) \<union> set (?ps xs)"
    for k v v'
  proof -
    have p: "seen s = Some (k, w) \<or> (\<exists>x \<in> set xs. order x = k \<and> value_of x = w)"
      if "(k, w) \<in> set_option (seen s) \<union> set (?ps xs)" for w
      using that by (auto simp: elem_set)
    from p [OF that(1)] p [OF that(2)] show ?thesis
      using assms(4,5) by (metis option.inject prod.inject)
  qed
  have "latest (seen s) (?ps xs) = latest (seen s) (?ps ys)"
  proof (rule latest_set_cong)
    show "set (?ps xs) = set (?ps ys)" using assms(3) by simp
    fix x y
    assume "x \<in> set_option (seen s) \<union> set (?ps xs)" "y \<in> set_option (seen s) \<union> set (?ps xs)"
      "fst x = fst y"
    moreover obtain k v k' v' where "x = (k, v)" "y = (k', v')" by (cases x; cases y)
    ultimately show "x = y" using one [of k v v'] by simp
  qed
  then show ?thesis using takes_all_latest assms(1,2) by metis
qed

lemma ends_with_latest:
  assumes "takes_all takes xs s t" and "x \<in> set xs"
  shows "\<exists>k v. seen t = Some (k, v) \<and> order x \<le> k \<and> (\<forall>k' v'. seen s = Some (k', v') \<longrightarrow> k' \<le> k)
    \<and> (seen s = Some (k, v) \<or> (\<exists>y \<in> set xs. k = order y \<and> v = value_of y))"
proof -
  let ?ps = "map (\<lambda>x. (order x, value_of x)) xs"
  have t: "seen t = latest (seen s) ?ps" by (rule takes_all_latest [OF assms(1)])
  have "latest (seen s) ?ps \<noteq> None" using assms(2) by (auto simp: latest_None)
  then obtain k v where kv: "latest (seen s) ?ps = Some (k, v)" by (cases "latest (seen s) ?ps") auto
  have "order x \<le> k" using latest_upper [OF kv, of "(order x, value_of x)"] assms(2) by simp
  moreover have "k' \<le> k" if "seen s = Some (k', v')" for k' v'
    using latest_upper [OF kv, of "(k', v')"] that by simp
  moreover have "seen s = Some (k, v) \<or> (\<exists>y \<in> set xs. k = order y \<and> v = value_of y)"
    using latest_mem [OF kv] by (auto simp: elem_set)
  ultimately show ?thesis using t kv by auto
qed

end

section \<open>What an observation does to its row\<close>

lemma find_row_update_where:
  assumes "\<And>r. p r \<Longrightarrow> q (f r)" and "\<And>r. q r = p r"
  shows "find_row q (update_where p f xs) = map_option f (find_row p xs)"
proof -
  have "filter q (update_where p f xs) = map f (filter p xs)"
    using assms by (induction xs) auto
  then show ?thesis by (auto simp: find_row_def split: list.splits)
qed

lemma find_row_single: "find_row p [r] = (if p r then Some r else None)"
  by (simp add: find_row_def)

lemma bot_upsert_bot:
  assumes "sql_bot_upsert b s = Some t"
  shows "sql_bot (bo_source b) (bo_group b) t = Some b"
proof (cases "sql_bot (bo_source b) (bo_group b) s")
  case None
  with assms show ?thesis
    by (auto simp: sql_bot_upsert_def sql_bot_def find_row_append find_row_single split: if_splits)
next
  case (Some old)
  with assms show ?thesis
    by (auto simp: sql_bot_upsert_def sql_bot_def find_row_update_where split: if_splits)
qed

lemma member_upsert_member:
  assumes "sql_member_upsert m k s = Some t"
  shows "\<exists>r. sql_member (me_source m) (me_group m) (me_user m) t = Some r
    \<and> me_occurred_at r = me_occurred_at m \<and> me_update_id r = me_update_id m
    \<and> me_present r = me_present m \<and> me_payload r = me_payload m \<and> me_generation r = me_generation m"
proof (cases "sql_member (me_source m) (me_group m) (me_user m) s")
  case None
  with assms show ?thesis
    by (auto simp: sql_member_upsert_def sql_member_def find_row_append find_row_single split: if_splits)
next
  case (Some old)
  with assms have t: "t = s\<lparr>members := update_where (same_member m) (merged_member k m) (members s)\<rparr>"
    by (auto simp: sql_member_upsert_def split: if_splits)
  have "find_row (same_member m) (update_where (same_member m) (merged_member k m) (members s))
      = map_option (merged_member k m) (find_row (same_member m) (members s))"
    by (rule find_row_update_where) (simp_all add: same_member_def merged_member_def)
  then have "sql_member (me_source m) (me_group m) (me_user m) t = Some (merged_member k m old)"
    using Some by (simp add: t sql_member_def same_member_def [abs_def])
  then show ?thesis by (simp add: merged_member_def)
qed

lemma write_contact_frame:
  assumes "write_contact e c st s = Inr t"
  shows "bots t = bots s \<and> members t = members s \<and> accounts t = accounts s
    \<and> known_groups t = known_groups s \<and> suppressed_groups t = suppressed_groups s"
  using assms by (auto simp: write_contact_def sql_setting_upsert_def split: if_splits)

lemma observe_contact_cases:
  assumes "observe_contact e c seen av s = Inr (b, t)"
  shows "t = s \<or> (\<exists>st. write_contact e c st s = Inr t)"
proof -
  from assms obtain st where "read_contact e c s = Inr st" by (auto simp: observe_contact_def res_bind_Inr_iff)
  with assms show ?thesis
    by (cases "advance st"; cases "cs_observed st")
      (auto simp: observe_contact_def res_bind_Inr_iff split: if_splits)
qed

lemma contact_frame:
  assumes "observe_contact e c seen av s = Inr (b, t)"
  shows "bots t = bots s" "members t = members s" "accounts t = accounts s"
    "known_groups t = known_groups s" "suppressed_groups t = suppressed_groups s"
  using observe_contact_cases [OF assms] write_contact_frame by fastforce+

lemma observe_membership_Inr:
  assumes "observe_membership e x s = (Inr outcome, t)"
  obtains u where "membership_validate x = Inr ()" "ie_up e"
    "observe_in_transaction e x s = Inr (outcome, u)" "bots t = bots u" "members t = members u"
    "accounts t = accounts u" "known_groups t = known_groups u"
    "suppressed_groups t = suppressed_groups u"
    "outcome \<in> {Stale, Duplicate} \<Longrightarrow> t = u"
proof -
  have v: "membership_validate x = Inr ()" and up: "ie_up e"
    using assms by (auto simp: observe_membership_def in_transaction_Inr split: sum.splits)
  from assms obtain u where u: "observe_in_transaction e x s = Inr (outcome, u)"
    "if outcome \<in> {Applied, Suppressed, UnknownGroup}
     then \<exists>b. observe_contact e (observed_contact x) (of_int (occurred_micros x), mo_update_id x)
       (mo_present x) u = Inr (b, t)
     else t = u"
    by (fastforce simp: observe_membership_def in_transaction_Inr res_bind_Inr_iff
        split: sum.splits prod.splits if_splits)
  show thesis
  proof (cases "outcome \<in> {Applied, Suppressed, UnknownGroup}")
    case True
    with u(2) obtain b where "observe_contact e (observed_contact x)
        (of_int (occurred_micros x), mo_update_id x) (mo_present x) u = Inr (b, t)" by auto
    with True show thesis by (intro that [OF v up u(1)] contact_frame) auto
  next
    case False
    with u(2) show thesis by (intro that [OF v up u(1)]) auto
  qed
qed

lemma observed_applied:
  assumes "observe_in_transaction e x s = Inr (Applied, u)"
  shows "apply_observation e x s = Inr u"
    "stored_order x s = Some (key, payload) \<Longrightarrow> key < order_key x"
    "sint (mo_group_id x) \<notin> set (suppressed_groups s)"
proof -
  let ?fresh = "if \<not> group_exists (sint (mo_group_id x)) s \<and> mo_subject x \<noteq> SubjectBot
    then Inr (UnknownGroup, s) else res_bind (apply_observation e x s) (\<lambda>s'. Inr (Applied, s'))"
  show ns: "sint (mo_group_id x) \<notin> set (suppressed_groups s)"
    using assms by (auto simp: observe_in_transaction_def)
  have "?fresh = Inr (Applied, u) \<and>
      (\<forall>key payload. stored_order x s = Some (key, payload) \<longrightarrow> key < order_key x)"
  proof (cases "stored_order x s")
    case None
    with assms ns show ?thesis by (simp add: observe_in_transaction_def Let_def)
  next
    case (Some kp)
    obtain k p where kp: "kp = (k, p)" by (cases kp)
    have le: "\<not> order_key x < k" and ne: "order_key x \<noteq> k"
      using assms ns Some kp by (auto simp: observe_in_transaction_def Let_def split: if_splits)
    then have "k < order_key x" by simp
    with assms ns Some kp le ne show ?thesis
      by (simp add: observe_in_transaction_def Let_def)
  qed
  then show "apply_observation e x s = Inr u"
    and "stored_order x s = Some (key, payload) \<Longrightarrow> key < order_key x"
    by (auto simp: res_bind_Inr_iff split: if_splits)
qed

lemma observed_ignored:
  assumes "observe_in_transaction e x s = Inr (outcome, u)" and "outcome \<in> {Stale, Duplicate}"
  shows "u = s" and "\<exists>key payload. stored_order x s = Some (key, payload) \<and> order_key x \<le> key"
proof -
  let ?fresh = "if \<not> group_exists (sint (mo_group_id x)) s \<and> mo_subject x \<noteq> SubjectBot
    then Inr (UnknownGroup, s) else res_bind (apply_observation e x s) (\<lambda>s'. Inr (Applied, s'))"
  have ns: "sint (mo_group_id x) \<notin> set (suppressed_groups s)"
    using assms by (auto simp: observe_in_transaction_def)
  have nf: "?fresh \<noteq> Inr (outcome, u)" using assms(2) by (auto simp: res_bind_Inr_iff)
  then obtain k p where kp: "stored_order x s = Some (k, p)"
    using assms(1) ns by (cases "stored_order x s") (auto simp: observe_in_transaction_def Let_def)
  have "order_key x \<le> k \<and> u = s"
    using assms(1) ns kp nf
    by (cases "order_key x < k"; cases "order_key x = k")
      (auto simp: observe_in_transaction_def Let_def split: if_splits)
  with kp show "u = s" and "\<exists>key payload. stored_order x s = Some (key, payload) \<and> order_key x \<le> key"
    by blast+
qed

section \<open>Rows of bots\<close>

lemma observe_bot_Inr:
  assumes "observe_bot e x s = Inr t"
  shows "\<exists>g. sql_bot_upsert
      \<lparr>bo_source = sint (mo_source_id x), bo_group = sint (mo_group_id x),
       bo_occurred_at = occurred_micros x, bo_update_id = uint (mo_update_id x),
       bo_payload = ie_observation_text e x, bo_present = mo_present x, bo_generation = g\<rparr> s = Some t
    \<and> g = (case sql_bot (sint (mo_source_id x)) (sint (mo_group_id x)) s of None \<Rightarrow> 1
           | Some b \<Rightarrow> if bo_present b = mo_present x then bo_generation b else bo_generation b + 1)"
  using assms
  by (cases "sql_bot (sint (mo_source_id x)) (sint (mo_group_id x)) s")
    (auto simp: observe_bot_def Let_def res_bind_Inr_iff split: if_splits)

lemma discover_frame:
  "discover_group x s = Inr u \<Longrightarrow> bots u = bots s \<and> members u = members s \<and> accounts u = accounts s
    \<and> suppressed_groups u = suppressed_groups s"
  by (auto simp: discover_group_def sql_group_discover_def Let_def split: if_splits)

lemma applied_bot:
  assumes "apply_observation e x s = Inr t" and "mo_subject x = SubjectBot"
  shows "\<exists>b. sql_bot (sint (mo_source_id x)) (sint (mo_group_id x)) t = Some b
    \<and> (bo_occurred_at b, bo_update_id b) = order_key x \<and> bo_present b = mo_present x
    \<and> bo_payload b = ie_observation_text e x
    \<and> bo_generation b = (case sql_bot (sint (mo_source_id x)) (sint (mo_group_id x)) s of None \<Rightarrow> 1
        | Some b \<Rightarrow> if bo_present b = mo_present x then bo_generation b else bo_generation b + 1)
    \<and> members t = members s"
proof -
  from assms obtain u where u: "discover_group x s = Inr u" "observe_bot e x u = Inr t"
    by (auto simp: apply_observation_def res_bind_Inr_iff)
  have f: "sql_bot a b u = sql_bot a b s" for a b
    using discover_frame [OF u(1)] by (simp add: sql_bot_def)
  have m: "members t = members u"
    using observe_bot_Inr [OF u(2)] by (auto simp: sql_bot_upsert_def split: if_splits)
  show ?thesis
    using observe_bot_Inr [OF u(2)] bot_upsert_bot discover_frame [OF u(1)] m
    by (fastforce simp: f order_key_def)
qed

text \<open>What a row says of the latest observation: its time and number, the presence it reports, and
  its stored text. \<open>texts\<close> is the text serde writes for an observation, the same in every call.\<close>

type_synonym sighted = "((int \<times> int) \<times> bool \<times> string) option"

definition bot_seen :: "int \<Rightarrow> int \<Rightarrow> identity_db \<Rightarrow> sighted" where
  "bot_seen source g s =
     map_option (\<lambda>b. ((bo_occurred_at b, bo_update_id b), bo_present b, bo_payload b)) (sql_bot source g s)"

definition takes_bot ::
  "(membership_observation \<Rightarrow> string) \<Rightarrow> int \<Rightarrow> int \<Rightarrow> membership_observation \<Rightarrow> identity_db
    \<Rightarrow> identity_db \<Rightarrow> bool" where
  "takes_bot texts source g x s t \<longleftrightarrow>
     mo_subject x = SubjectBot \<and> sint (mo_source_id x) = source \<and> sint (mo_group_id x) = g
     \<and> (\<exists>e outcome. ie_observation_text e = texts \<and> outcome \<in> {Applied, Stale, Duplicate}
          \<and> observe_membership e x s = (Inr outcome, t))"

lemma takes_bot_cases:
  assumes "takes_bot texts source g x s t"
  obtains (applied) e u where "apply_observation e x s = Inr u" "ie_observation_text e = texts" "bots t = bots u"
      "\<And>k v. bot_seen source g s = Some (k, v) \<Longrightarrow> k < order_key x"
    | (ignored) k v where "bots t = bots s" "bot_seen source g s = Some (k, v)" "order_key x \<le> k"
proof -
  from assms obtain e outcome where x: "mo_subject x = SubjectBot" "sint (mo_source_id x) = source"
    "sint (mo_group_id x) = g" "outcome \<in> {Applied, Stale, Duplicate}"
    "observe_membership e x s = (Inr outcome, t)" and texts: "ie_observation_text e = texts"
    by (auto simp: takes_bot_def)
  have so: "stored_order x s = map_option (\<lambda>b. ((bo_occurred_at b, bo_update_id b), bo_payload b)) (sql_bot source g s)"
    using x by (simp add: stored_order_def)
  from x(5) obtain u where u: "observe_in_transaction e x s = Inr (outcome, u)" "bots t = bots u"
    by (rule observe_membership_Inr)
  show thesis
  proof (cases "outcome = Applied")
    case True
    with u(1) have o': "observe_in_transaction e x s = Inr (Applied, u)" by simp
    show thesis
      using applied [OF observed_applied(1) [OF o'] texts u(2)] observed_applied(2) [OF o']
      by (auto simp: so bot_seen_def)
  next
    case False
    with x(4) have o': "outcome \<in> {Stale, Duplicate}" by simp
    show thesis
      using ignored observed_ignored [OF u(1) o'] u(2) by (auto simp: so bot_seen_def)
  qed
qed

interpretation bot_row: latest_wins order_key "\<lambda>x. (mo_present x, texts x)" "bot_seen source g" "takes_bot texts source g"
  for texts
proof unfold_locales
  fix x s t
  assume t: "takes_bot texts source g x s t" and "\<And>k v. bot_seen source g s = Some (k, v) \<Longrightarrow> k < order_key x"
  then show "bot_seen source g t = Some (order_key x, mo_present x, texts x)"
  proof (cases rule: takes_bot_cases)
    case (applied e u)
    then show ?thesis
      using applied_bot [OF applied(1)] t by (auto simp: bot_seen_def takes_bot_def sql_bot_def)
  next
    case (ignored k v)
    then show ?thesis using \<open>\<And>k v. bot_seen source g s = Some (k, v) \<Longrightarrow> k < order_key x\<close> [OF ignored(2)] by simp
  qed
next
  fix x s t k v
  assume t: "takes_bot texts source g x s t" "bot_seen source g s = Some (k, v)" "order_key x \<le> k"
  from t(1) show "bot_seen source g t = Some (k, v)"
  proof (cases rule: takes_bot_cases)
    case (applied e u)
    with t show ?thesis by (auto dest: applied(4))
  next
    case (ignored k' v')
    with t show ?thesis by (simp add: bot_seen_def sql_bot_def)
  qed
qed

section \<open>Rows of members\<close>

lemma ensure_frame:
  "ensure_membership_user e p s = Inr u \<Longrightarrow> bots u = bots s \<and> members u = members s
    \<and> known_groups u = known_groups s \<and> suppressed_groups u = suppressed_groups s"
  by (auto simp: ensure_membership_user_def res_bind_Inr_iff sql_profile_insert_def split: if_splits)

lemma applied_member:
  assumes "apply_observation e x s = Inr t" and "mo_subject x = SubjectUser p"
  shows "bots t = bots s"
    "\<exists>m. sql_member (sint (mo_source_id x)) (sint (mo_group_id x)) (sint (tp_user_id p)) t = Some m
      \<and> (me_occurred_at m, me_update_id m) = order_key x \<and> me_present m = mo_present x
      \<and> me_payload m = ie_observation_text e x \<and> me_generation m = member_generation x s"
proof -
  from assms obtain u where u: "ensure_membership_user e p s = Inr u"
    "sql_member_upsert (observed_member e x p s) (fst (tag_of (mo_tag x))) u = Some t"
    by (auto simp: apply_observation_def observe_user_def res_bind_Inr_iff)
  show "bots t = bots s"
    using u(2) ensure_frame [OF u(1)] by (auto simp: sql_member_upsert_def split: if_splits)
  show "\<exists>m. sql_member (sint (mo_source_id x)) (sint (mo_group_id x)) (sint (tp_user_id p)) t = Some m
      \<and> (me_occurred_at m, me_update_id m) = order_key x \<and> me_present m = mo_present x
      \<and> me_payload m = ie_observation_text e x \<and> me_generation m = member_generation x s"
    using member_upsert_member [OF u(2)] by (auto simp: observed_member_def order_key_def)
qed

definition member_seen :: "int \<Rightarrow> int \<Rightarrow> int \<Rightarrow> identity_db \<Rightarrow> sighted" where
  "member_seen source g user s =
     map_option (\<lambda>m. ((me_occurred_at m, me_update_id m), me_present m, me_payload m)) (sql_member source g user s)"

definition takes_member ::
  "(membership_observation \<Rightarrow> string) \<Rightarrow> int \<Rightarrow> int \<Rightarrow> int \<Rightarrow> membership_observation \<Rightarrow> identity_db \<Rightarrow> identity_db \<Rightarrow> bool" where
  "takes_member texts source g user x s t \<longleftrightarrow>
     (\<exists>p. mo_subject x = SubjectUser p \<and> sint (tp_user_id p) = user)
     \<and> sint (mo_source_id x) = source \<and> sint (mo_group_id x) = g
     \<and> (\<exists>e outcome. ie_observation_text e = texts \<and> outcome \<in> {Applied, Stale, Duplicate}
          \<and> observe_membership e x s = (Inr outcome, t))"

lemma takes_member_cases:
  assumes "takes_member texts source g user x s t"
  obtains (applied) e p u where "apply_observation e x s = Inr u" "mo_subject x = SubjectUser p"
      "ie_observation_text e = texts"
      "members t = members u" "\<And>k v. member_seen source g user s = Some (k, v) \<Longrightarrow> k < order_key x"
    | (ignored) k v where "members t = members s" "member_seen source g user s = Some (k, v)"
      "order_key x \<le> k"
proof -
  from assms obtain e p outcome where x: "mo_subject x = SubjectUser p" "sint (tp_user_id p) = user"
    "sint (mo_source_id x) = source" "sint (mo_group_id x) = g" "outcome \<in> {Applied, Stale, Duplicate}"
    "observe_membership e x s = (Inr outcome, t)" and texts: "ie_observation_text e = texts"
    by (auto simp: takes_member_def)
  have so: "stored_order x s
      = map_option (\<lambda>m. ((me_occurred_at m, me_update_id m), me_payload m)) (sql_member source g user s)"
    using x by (simp add: stored_order_def)
  from x(6) obtain u where u: "observe_in_transaction e x s = Inr (outcome, u)" "members t = members u"
    by (rule observe_membership_Inr)
  show thesis
  proof (cases "outcome = Applied")
    case True
    with u(1) have o': "observe_in_transaction e x s = Inr (Applied, u)" by simp
    show thesis
      using applied [OF observed_applied(1) [OF o'] x(1) texts u(2)] observed_applied(2) [OF o']
      by (auto simp: so member_seen_def)
  next
    case False
    with x(5) have o': "outcome \<in> {Stale, Duplicate}" by simp
    show thesis
      using ignored observed_ignored [OF u(1) o'] u(2) by (auto simp: so member_seen_def)
  qed
qed

interpretation member_row: latest_wins order_key "\<lambda>x. (mo_present x, texts x)"
  "member_seen source g user" "takes_member texts source g user"
  for texts
proof unfold_locales
  fix x s t
  assume t: "takes_member texts source g user x s t"
    and new: "\<And>k v. member_seen source g user s = Some (k, v) \<Longrightarrow> k < order_key x"
  from t show "member_seen source g user t = Some (order_key x, mo_present x, texts x)"
  proof (cases rule: takes_member_cases)
    case (applied e p u)
    then show ?thesis
      using applied_member(2) [OF applied(1,2)] t
      by (auto simp: member_seen_def takes_member_def sql_member_def)
  next
    case (ignored k v)
    then show ?thesis using new [OF ignored(2)] by simp
  qed
next
  fix x s t k v
  assume t: "takes_member texts source g user x s t" "member_seen source g user s = Some (k, v)" "order_key x \<le> k"
  from t(1) show "member_seen source g user t = Some (k, v)"
  proof (cases rule: takes_member_cases)
    case (applied e p u)
    with t show ?thesis by (auto dest: applied(5))
  next
    case (ignored k' v')
    with t show ?thesis by (simp add: member_seen_def sql_member_def)
  qed
qed

section \<open>The order of arrival\<close>

text \<open>A row is that of a bot in a group, or that of a user there.\<close>

definition row_seen :: "int \<Rightarrow> int \<Rightarrow> int option \<Rightarrow> identity_db \<Rightarrow> sighted" where
  "row_seen source g who = (case who of None \<Rightarrow> bot_seen source g | Some user \<Rightarrow> member_seen source g user)"

definition takes_row ::
  "(membership_observation \<Rightarrow> string) \<Rightarrow> int \<Rightarrow> int \<Rightarrow> int option \<Rightarrow> membership_observation \<Rightarrow> identity_db
    \<Rightarrow> identity_db \<Rightarrow> bool" where
  "takes_row texts source g who =
     (case who of None \<Rightarrow> takes_bot texts source g | Some user \<Rightarrow> takes_member texts source g user)"

text \<open>C12. Whatever order the observations of a bot or of a member arrive in, and however often each is
  repeated, the row ends with the same time, number, presence and stored text, and they are
  those of the latest: of one of the observations, or of the row before, and none of them is
  later. (The generation, and the tag, depend on the order of arrival and are not compared.)\<close>

theorem observations_converge:
  assumes "takes_all (takes_row texts source g who) xs s t" and "takes_all (takes_row texts source g who) ys s t'"
    and "set xs = set ys"
    and "\<And>x y. x \<in> set xs \<Longrightarrow> y \<in> set xs \<Longrightarrow> order_key x = order_key y
      \<Longrightarrow> mo_present x = mo_present y \<and> texts x = texts y"
    and "\<And>x k v. x \<in> set xs \<Longrightarrow> row_seen source g who s = Some (k, v) \<Longrightarrow> order_key x = k
      \<Longrightarrow> (mo_present x, texts x) = v"
  shows "row_seen source g who t = row_seen source g who t'
    \<and> (\<forall>x \<in> set xs. \<exists>k present stored. row_seen source g who t = Some (k, present, stored)
        \<and> order_key x \<le> k \<and> (\<forall>k' v. row_seen source g who s = Some (k', v) \<longrightarrow> k' \<le> k)
        \<and> (row_seen source g who s = Some (k, present, stored)
            \<or> (\<exists>y \<in> set xs. k = order_key y \<and> present = mo_present y \<and> stored = texts y)))"
proof (cases who)
  case None
  have row: "row_seen source g who = bot_seen source g" "takes_row texts source g who = takes_bot texts source g"
    by (simp_all add: None row_seen_def takes_row_def)
  note h = assms [unfolded row]
  show ?thesis
    unfolding row
  proof (intro conjI ballI)
    show "bot_seen source g t = bot_seen source g t'"
    proof (rule bot_row.converges [OF h(1-3)])
      show "(mo_present x, texts x) = (mo_present y, texts y)"
        if "x \<in> set xs" "y \<in> set xs" "order_key x = order_key y" for x y
        using h(4) [OF that] by simp
    qed (rule h(5))
    show "\<exists>k present stored. bot_seen source g t = Some (k, present, stored)
        \<and> order_key x \<le> k \<and> (\<forall>k' v. bot_seen source g s = Some (k', v) \<longrightarrow> k' \<le> k)
        \<and> (bot_seen source g s = Some (k, present, stored)
            \<or> (\<exists>y \<in> set xs. k = order_key y \<and> present = mo_present y \<and> stored = texts y))"
      if "x \<in> set xs" for x
      using bot_row.ends_with_latest [OF h(1) that] by simp
  qed
next
  case (Some user)
  have row: "row_seen source g who = member_seen source g user"
    "takes_row texts source g who = takes_member texts source g user"
    by (simp_all add: Some row_seen_def takes_row_def)
  note h = assms [unfolded row]
  show ?thesis
    unfolding row
  proof (intro conjI ballI)
    show "member_seen source g user t = member_seen source g user t'"
    proof (rule member_row.converges [OF h(1-3)])
      show "(mo_present x, texts x) = (mo_present y, texts y)"
        if "x \<in> set xs" "y \<in> set xs" "order_key x = order_key y" for x y
        using h(4) [OF that] by simp
    qed (rule h(5))
    show "\<exists>k present stored. member_seen source g user t = Some (k, present, stored)
        \<and> order_key x \<le> k \<and> (\<forall>k' v. member_seen source g user s = Some (k', v) \<longrightarrow> k' \<le> k)
        \<and> (member_seen source g user s = Some (k, present, stored)
            \<or> (\<exists>y \<in> set xs. k = order_key y \<and> present = mo_present y \<and> stored = texts y))"
      if "x \<in> set xs" for x
      using member_row.ends_with_latest [OF h(1) that] by simp
  qed
qed

end
