(* ===== verification/Identity_Example.thy ===== *)
theory Identity_Example
  imports Membership_Safety
begin

text \<open>
  A small installation: a configured owner, an administrator, a user with a tag in a group, a
  banned one, and the observations of a bot that comes, goes and is seen again. The witnesses
  of the properties of \<open>yoink-identity\<close> evaluate the model on it.
\<close>

section \<open>Tables\<close>

definition person :: "int \<Rightarrow> string \<Rightarrow> account" where
  "person i r =
     \<lparr>ac_id = i, ac_username = None, ac_first_name = Some ''Ann'', ac_photo_url = None, ac_role = r,
      ac_language = ''en'', ac_theme = ''mocha'', ac_ban_until = None, ac_created_at = 10,
      ac_updated_at = 20\<rparr>"

definition example_group :: group_row where
  "example_group =
     \<lparr>gr_id = -100, gr_title = Some ''club'', gr_enabled = True, gr_auto_grant_role = ''user'',
      gr_allow_pm = True, gr_nsfw_allowed = False, gr_storage_chat_id = None,
      gr_storage_thread_id = None, gr_photo_url = None, gr_created_at = 10\<rparr>"

definition example_bot :: "bool \<Rightarrow> int \<Rightarrow> bot_row" where
  "example_bot present n =
     \<lparr>bo_source = 9, bo_group = -100, bo_occurred_at = 30, bo_update_id = 1, bo_payload = ''b'',
      bo_present = present, bo_generation = n\<rparr>"

definition example_member :: member_row where
  "example_member =
     \<lparr>me_source = 9, me_group = -100, me_user = 3, me_occurred_at = 31, me_update_id = 2,
      me_payload = ''m'', me_present = True, me_generation = 1, me_tag = Some ''vip'',
      me_tag_generation = 1\<rparr>"

definition example_permission :: "int \<Rightarrow> permission_row" where
  "example_permission user =
     \<lparr>pr_id = 1, pr_user = user, pr_plugin = ''inbox'', pr_feature = ''classify'', pr_granted_by = 1,
      pr_granted_at = 15, pr_expires_at = None, pr_source = None\<rparr>"

definition identity_tables :: "int \<Rightarrow> identity_db" where
  "identity_tables n =
     \<lparr>accounts = [person 1 ''user'', person 2 ''admin'', person 3 ''user'', person 4 ''banned''],
      permissions = [example_permission 4], known_groups = [example_group], member_policies = [],
      thread_policies = [], setting_rows = [(''tag_map'', Some ''m'')],
      bots = [example_bot True n], members = [example_member], suppressed_groups = [],
      suppressed_features = [], byok_rows = [], download_log = []\<rparr>"

definition example_call :: identity_env where
  "example_call =
     \<lparr>ie_clock = (\<lambda>_. 100), ie_up = True, ie_datetime = (\<lambda>_. True),
      ie_observation_text = (\<lambda>x. if mo_present x then ''in'' else ''out''),
      ie_tag_map_text = (\<lambda>_. ''m''),
      ie_tag_map_parse = (\<lambda>v. if v = ''m'' then Some [(''vip'', [''insight:tldr''])] else None),
      ie_contact_text = (\<lambda>c. if cs_unavailable c then ''0'' else ''1''),
      ie_contact_parse = (\<lambda>v. Some (contact_state_default\<lparr>cs_unavailable := (v = ''0'')\<rparr>)),
      ie_rowid = 7, ie_sha256 = (\<lambda>_. replicate 32 CHR ''h'')\<rparr>"

definition example_store :: identity_store where
  "example_store = \<lparr>owner_id = Some 1, insight_enabled = True\<rparr>"

definition example_policy :: access_policy where
  "example_policy = \<lparr>min_role = User, scopes = [PrivateScope, GroupScope],
     check_group_enabled = True, check_thread_policy = True\<rparr>"

section \<open>Authorization\<close>

definition snapshot_of :: "i64 \<Rightarrow> (i64 \<times> i64 option) option \<Rightarrow> identity_db \<Rightarrow> snapshot_record" where
  "snapshot_of user g s = the (projr (fst (snapshot example_call example_store user g s)))"

lemmas example_tables = identity_tables_def person_def example_group_def example_bot_def
  example_member_def example_permission_def example_call_def example_store_def

lemmas snapshot_eval = snapshot_of_def snapshot_def guarded_def invalid_ids_def reading_eq
  example_tables read_snapshot_def get_time_def sql_user_def find_row_def parse_role_def
  role_from_str_def sql_grants_def grant_of_row_def automatic_grants_def granted_keys_def
  stored_tag_map_def sql_setting_def decode_tag_map_def validated_tag_map_def tag_entry_ok_def
  providers_of_def byok_setting_def elevated_def is_blocked_def

lemma banned_snapshot:
  "snapshot example_call example_store 4 None (identity_tables 1)
     = (Inr (Some (snapshot_of 4 None (identity_tables 1))), identity_tables 1)"
  by (simp add: snapshot_eval)

lemma blocked_account_gets_nothing_witness:
  "snapshot example_call example_store 4 None (identity_tables 1)
       = (Inr (Some (snapshot_of 4 None (identity_tables 1))), identity_tables 1)
    \<and> sn_grants (snapshot_of 4 None (identity_tables 1)) \<noteq> []
    \<and> au_grant_source (authorize (snapshot_of 4 None (identity_tables 1)) example_policy
         (Some (''inbox'', ''classify''))) = None"
proof (intro conjI)
  show "sn_grants (snapshot_of 4 None (identity_tables 1)) \<noteq> []" by (simp add: snapshot_eval)
  show "au_grant_source (authorize (snapshot_of 4 None (identity_tables 1)) example_policy
         (Some (''inbox'', ''classify''))) = None"
    using blocked_account_gets_nothing [OF banned_snapshot, of "person 4 ''banned''"]
    by (simp add: example_tables sql_user_def find_row_def)
qed (rule banned_snapshot)

lemma departed_snapshot:
  "snapshot example_call example_store 3 (Some (-100, None)) (identity_tables 2)
     = (Inr (Some (snapshot_of 3 (Some (-100, None)) (identity_tables 2))), identity_tables 2)"
  by (simp add: snapshot_eval read_group_def sql_group_enabled_def bot_absent_def stale_member_def
      sql_thread_allowed_def)

lemma departed_are_denied_witness:
  "\<not> allowed (au_decision
       (authorize (snapshot_of 3 (Some (-100, None)) (identity_tables 2)) example_policy None))"
  by (rule departed_are_denied [OF departed_snapshot])
    (simp_all add: example_policy_def example_tables)

section \<open>Accounts\<close>

lemma language_is_compare_and_set_witness:
  "\<exists>t p. change_language example_call example_store 3 ''ru'' 20 (identity_tables 1) = (Inr p, t)
    \<and> lp_code p = ''ru'' \<and> 20 < lp_revision p
    \<and> (\<forall>q. fst (change_language example_call example_store 3 ''en'' 20 t) \<noteq> Inr q)"
proof -
  have "unique_accounts (identity_tables 1)" by (simp add: unique_accounts_def example_tables)
  moreover obtain p t where
    "change_language example_call example_store 3 ''ru'' 20 (identity_tables 1) = (Inr p, t)"
    by (simp add: change_language_def in_transaction_def change_language_in_transaction_def
        changes_language_def may_speak_def sql_language_change_def guarded_def invalid_ids_def
        example_tables sql_user_def find_row_def)
  ultimately show ?thesis
    using language_is_compare_and_set [of "identity_tables 1" example_call example_store 3 "''ru''" 20]
    by auto
qed

definition example_login :: trusted_profile where
  "example_login = \<lparr>tp_user_id = 3, tp_username = None, tp_first_name = Some ''Eve'', tp_photo_url = None\<rparr>"

lemma login_checks: "account_checks (updated_profile example_login 100 (person 3 ''user''))"
proof -
  have "chars_count s \<le> n" if "length s \<le> n" for s n using that chars_count_le le_trans by blast
  then show ?thesis
    by (simp add: account_checks_def updated_profile_def example_login_def person_def opt_chars_def
        role_names_def or_old_def)
qed

lemma login_update:
  "sql_update_account (revisable 3) (updated_profile example_login 100) (identity_tables 1)
     = Some ((identity_tables 1)\<lparr>accounts := [person 1 ''user'', person 2 ''admin'',
         updated_profile example_login 100 (person 3 ''user''), person 4 ''banned'']\<rparr>)"
  using login_checks
  by (simp add: sql_update_account_def identity_tables_def revisable_def person_def)

definition login_profile :: user_profile where
  "login_profile =
    \<lparr>up_id = 3, up_username = None, up_first_name = Some ''Eve'', up_photo_url = None, up_role = User,
     up_language = ''en'', up_theme = ''mocha'', up_ban_until = None, up_created_at = 10,
     up_updated_at = 100\<rparr>"

lemma example_person: "decode_profile example_call (person 3 ''user'') = Inr
    (login_profile\<lparr>up_first_name := Some ''Ann'', up_updated_at := 20\<rparr>)"
  by (simp add: decode_profile_def parse_role_def role_from_str_def person_def get_time_def
      example_call_def login_profile_def)

lemma example_user: "sql_user 3 (identity_tables 1) = Some (person 3 ''user'')"
  by (simp add: identity_tables_def person_def sql_user_def find_row_def)

lemma login_registered:
  "\<exists>t. register example_call example_store example_login (identity_tables 1) = (Inr login_profile, t)"
proof -
  have "\<exists>t. register_known example_call example_store example_login (person 3 ''user'')
      (identity_tables 1) = Inr (login_profile, t)"
    using login_update
    by (simp add: register_known_def example_person ensure_row_allowed_def row_blocked_def person_def
        identity_tables_def revisable_def example_login_def example_call_def sql_user_def find_row_def
        updated_profile_def decode_profile_def parse_role_def role_from_str_def get_time_def
        login_profile_def or_old_def as_owner_def example_store_def)
  then obtain t where "register_known example_call example_store example_login (person 3 ''user'')
      (identity_tables 1) = Inr (login_profile, t)" by blast
  then have "register example_call example_store example_login (identity_tables 1) = (Inr login_profile, t)"
    by (simp add: register_def in_transaction_def example_user validate_profile_def text_within_def
        example_login_def guarded_def invalid_ids_def example_store_def)
      (simp add: example_call_def)
  then show ?thesis by blast
qed

lemma login_keeps_authority_witness:
  "\<exists>q t. register example_call example_store example_login (identity_tables 1) = (Inr q, t)
    \<and> list_all2 (\<lambda>a b. authority b = authority a \<and> ac_created_at b = ac_created_at a
        \<and> (ac_id a \<noteq> sint (tp_user_id example_login) \<longrightarrow> b = a))
        (accounts (identity_tables 1)) (accounts t)"
proof -
  obtain q t where r: "register example_call example_store example_login (identity_tables 1) = (Inr q, t)"
    using login_registered by blast
  have "sql_user (sint (tp_user_id example_login)) (identity_tables 1) \<noteq> None"
    using example_user by (simp add: example_login_def)
  with login_keeps_authority [OF r] r show ?thesis by blast
qed

section \<open>The screen of features\<close>

lemma feature_screen:
  "\<exists>xs. admin_feature_access example_call example_store 2 (Some 4) (identity_tables 1)
     = (Inr xs, identity_tables 1)"
proof -
  have a: "sql_user 2 (identity_tables 1) = Some (person 2 ''admin'')"
    "sql_user 4 (identity_tables 1) = Some (person 4 ''banned'')"
    by (simp_all add: identity_tables_def person_def sql_user_def find_row_def)
  have auth: "admin_auth example_call 0 2 (Some 1) False False (identity_tables 1) = Inr Admin"
    by (simp add: admin_auth_def a admin_role_def role_from_str_def person_def now_db_def get_time_def
        example_call_def row_is_blocked_def)
  have who: "user_role example_call 1 4 (Some 1) (identity_tables 1) = Inr (Some Banned)"
    by (simp add: user_role_def a admin_role_def role_from_str_def person_def)
  have ps: "\<exists>ps. permission_list example_call 3 4 (identity_tables 1) = Inr ps"
    by (simp add: permission_list_def sql_permissions_user_def unexpired_def identity_tables_def
        example_permission_def decode_permission_def get_time_def example_call_def)
  have pr: "access_providers (later 4 example_call) example_store 4 (identity_tables 1) = Inr []"
    by (simp add: access_providers_def snapshot_eval later_def)
  from ps obtain ps where ps: "permission_list example_call 3 4 (identity_tables 1) = Inr ps" by blast
  show ?thesis
    by (simp add: admin_feature_access_def guarded_def reading_eq example_store_def auth who [unfolded One_nat_def] ps a
        pr [unfolded example_store_def] now_db_def get_time_def Let_def)
      (simp add: example_call_def person_def)
qed

lemma feature_screen_agrees_witness:
  "\<exists>xs. admin_feature_access example_call example_store 2 (Some 4) (identity_tables 1)
       = (Inr xs, identity_tables 1)
    \<and> map fa_spec xs = registered_features
    \<and> (\<forall>x \<in> set xs. fa_effective x \<longleftrightarrow> allowed (au_decision
        (authorize (snapshot_of 4 None (identity_tables 1)) anyone_in_private
          (Some (spec_plugin (fa_spec x), spec_feature (fa_spec x))))))"
proof -
  obtain xs where xs: "admin_feature_access example_call example_store 2 (Some 4) (identity_tables 1)
      = (Inr xs, identity_tables 1)" using feature_screen by blast
  then show ?thesis
    using feature_screen_agrees [OF _ _ xs banned_snapshot, of 100] by (auto simp: example_call_def)
qed

section \<open>Observations\<close>

definition sighting :: "int \<Rightarrow> u32 \<Rightarrow> bool \<Rightarrow> membership_observation" where
  "sighting t n present =
     \<lparr>mo_source_id = 9, mo_update_id = n, mo_occurred_at = t * 1000, mo_group_id = -100,
      mo_title = None, mo_subject = SubjectBot, mo_status = (if present then Member else Left),
      mo_present = present, mo_tag = UnknownTag\<rparr>"

lemma sighting_valid: "0 \<le> t \<Longrightarrow> membership_validate (sighting t n p) = Inr ()"
  by (simp add: membership_validate_def sighting_def subject_error_def tag_invalid_def)

lemma sighting_select:
  "mo_source_id (sighting t n p) = 9" "mo_update_id (sighting t n p) = n"
  "mo_group_id (sighting t n p) = -100" "mo_subject (sighting t n p) = SubjectBot"
  "mo_present (sighting t n p) = p" "order_key (sighting t n p) = (t, uint n)"
  "occurred_micros (sighting t n p) = t"
  by (simp_all add: sighting_def order_key_def occurred_micros_def)

definition tables :: "bot_row \<Rightarrow> string option \<Rightarrow> identity_db" where
  "tables b contact = (identity_tables 1)\<lparr>bots := [b], setting_rows :=
     (case contact of None \<Rightarrow> []
      | Some v \<Rightarrow> [(contact_key \<lparr>mc_source_id = 9, mc_chat_id = -100, mc_user_id = 0\<rparr>, Some v)])\<rparr>"

lemma tables_select:
  "bots (tables b c) = [b]" "suppressed_groups (tables b c) = []" "group_exists (-100) (tables b c)"
  "tables b c\<lparr>bots := [b']\<rparr> = tables b' c"
  by (simp_all add: tables_def identity_tables_def group_exists_def example_group_def)

lemma key_short: "chars_count (contact_key \<lparr>mc_source_id = 9, mc_chat_id = -100, mc_user_id = 0\<rparr>) \<le> 64"
  by (rule order.trans [OF chars_count_le]) (simp add: contact_key_def show_int_def show_nat.simps)

lemma sighting_contact:
  "\<exists>v. observe_contact example_call (observed_contact (sighting t n p)) k q (tables b c)
     = Inr (v, tables b (Some (if q then ''1'' else ''0'')))"
  using key_short
  by (cases c) (auto simp: observe_contact_def observed_contact_def sighting_select read_contact_def
      write_contact_def sql_setting_def sql_setting_upsert_def advance_def tables_def example_call_def
      contact_state_default_def identity_tables_def not_less)

lemma fresh_sighting:
  assumes b: "bo_source b = 9" "bo_group b = -100" "0 \<le> bo_generation b" "bo_generation b < 100"
    and k: "(bo_occurred_at b, bo_update_id b) < (t, uint n)" and t: "0 \<le> t"
  shows "\<exists>b' c'. observe_membership example_call (sighting t n p) (tables b c)
      = (Inr Applied, tables b' c') \<and> bo_source b' = 9 \<and> bo_group b' = -100
    \<and> 0 \<le> bo_generation b' \<and> bo_generation b' \<le> bo_generation b + 1
    \<and> bo_occurred_at b' = t \<and> bo_update_id b' = uint n \<and> bo_present b' = p"
proof -
  have old: "sql_bot 9 (-100) (tables b c) = Some b"
    using b by (simp add: sql_bot_def tables_select find_row_def)
  have n: "uint n \<le> 4294967295" using uint_lt2p [of n] by simp
  obtain b' where b': "observe_bot example_call (sighting t n p) (tables b c) = Inr (tables b' c)"
    "bo_source b' = 9" "bo_group b' = -100" "0 \<le> bo_generation b'"
    "bo_generation b' \<le> bo_generation b + 1" "bo_occurred_at b' = t" "bo_update_id b' = uint n"
    "bo_present b' = p"
    using b n old by (cases "bo_present b = p")
      (simp_all add: observe_bot_def sighting_select sql_bot_upsert_def bot_checks_def tables_select)
  have "\<not> (t, uint n) < (bo_occurred_at b, bo_update_id b)" "(t, uint n) \<noteq> (bo_occurred_at b, bo_update_id b)"
    using k by auto
  then have o': "observe_in_transaction example_call (sighting t n p) (tables b c) = Inr (Applied, tables b' c)"
    by (simp add: observe_in_transaction_def sighting_select tables_select stored_order_def old
        apply_observation_def discover_group_def b'(1) Let_def)
  obtain v where "observe_contact example_call (observed_contact (sighting t n p)) (of_int t, n) p (tables b' c)
      = Inr (v, tables b' (Some (if p then ''1'' else ''0'')))"
    using sighting_contact by blast
  then have "observe_membership example_call (sighting t n p) (tables b c)
      = (Inr Applied, tables b' (Some (if p then ''1'' else ''0'')))"
    by (simp add: observe_membership_def sighting_valid [OF t] in_transaction_def o' sighting_select)
      (simp add: example_call_def)
  with b' show ?thesis by blast
qed

lemma late_sighting:
  assumes b: "bo_source b = 9" "bo_group b = -100" and t: "0 \<le> t"
    and k: "(t, uint n) < (bo_occurred_at b, bo_update_id b)"
  shows "observe_membership example_call (sighting t n p) (tables b c) = (Inr Stale, tables b c)"
proof -
  have old: "sql_bot 9 (-100) (tables b c) = Some b"
    using b by (simp add: sql_bot_def tables_select find_row_def)
  have "observe_in_transaction example_call (sighting t n p) (tables b c) = Inr (Stale, tables b c)"
    using k by (simp add: observe_in_transaction_def sighting_select tables_select stored_order_def old Let_def)
  then show ?thesis
    by (simp add: observe_membership_def sighting_valid [OF t] in_transaction_def)
      (simp add: example_call_def)
qed

lemma observations_converge_witness:
  "\<exists>t t'. takes_all (takes_row (ie_observation_text example_call) 9 (-100) None) [sighting 40 5 True, sighting 50 6 False]
        (tables (example_bot True 1) None) t
    \<and> takes_all (takes_row (ie_observation_text example_call) 9 (-100) None) [sighting 50 6 False, sighting 40 5 True]
        (tables (example_bot True 1) None) t'
    \<and> row_seen 9 (-100) None t = row_seen 9 (-100) None t'
    \<and> (\<exists>k. row_seen 9 (-100) None t = Some (k, False, ''out''))"
proof -
  let ?s = "tables (example_bot True 1) None"
  have step: "takes_row (ie_observation_text example_call) 9 (-100) None (sighting t n p) s u"
    if "observe_membership example_call (sighting t n p) s = (Inr outcome, u)"
      "outcome \<in> {Applied, Stale, Duplicate}" for t n p s u outcome
    using that by (auto simp: takes_row_def takes_bot_def sighting_select)
  obtain b c where one: "observe_membership example_call (sighting 40 5 True) ?s = (Inr Applied, tables b c)"
    "bo_source b = 9" "bo_group b = -100" "0 \<le> bo_generation b" "bo_generation b < 100"
    "bo_occurred_at b = 40" "bo_update_id b = 5"
    using fresh_sighting [of "example_bot True 1" 40 5 True None] by (auto simp: example_bot_def)
  obtain b' c' where two: "observe_membership example_call (sighting 50 6 False) (tables b c)
      = (Inr Applied, tables b' c')"
    using fresh_sighting [of b 50 6 False c] one by auto
  obtain d k where other: "observe_membership example_call (sighting 50 6 False) ?s = (Inr Applied, tables d k)"
    "bo_source d = 9" "bo_group d = -100" "bo_occurred_at d = 50" "bo_update_id d = 6"
    using fresh_sighting [of "example_bot True 1" 50 6 False None] by (auto simp: example_bot_def)
  have late: "observe_membership example_call (sighting 40 5 True) (tables d k) = (Inr Stale, tables d k)"
    using other by (intro late_sighting) simp_all
  have xs: "takes_all (takes_row (ie_observation_text example_call) 9 (-100) None) [sighting 40 5 True, sighting 50 6 False] ?s (tables b' c')"
    using step [OF one(1)] step [OF two] by auto
  have ys: "takes_all (takes_row (ie_observation_text example_call) 9 (-100) None) [sighting 50 6 False, sighting 40 5 True] ?s (tables d k)"
    using step [OF other(1)] step [OF late] by auto
  have seen: "row_seen 9 (-100) None ?s = Some ((30, 1), True, bo_payload (example_bot True 1))"
    by (simp add: row_seen_def bot_seen_def sql_bot_def tables_select find_row_def example_bot_def)
  have set: "x = sighting 40 5 True \<or> x = sighting 50 6 False"
    if "x \<in> set [sighting 40 5 True, sighting 50 6 False]" for x using that by simp
  have same: "mo_present x = mo_present y \<and> ie_observation_text example_call x = ie_observation_text example_call y"
    if "x \<in> set [sighting 40 5 True, sighting 50 6 False]"
      "y \<in> set [sighting 40 5 True, sighting 50 6 False]" "order_key x = order_key y" for x y
    using set [OF that(1)] set [OF that(2)] that(3) by (elim disjE) (simp_all add: sighting_select)
  have new: "(mo_present x, ie_observation_text example_call x) = v"
    if "x \<in> set [sighting 40 5 True, sighting 50 6 False]" "row_seen 9 (-100) None ?s = Some (k, v)"
      "order_key x = k" for x k v
    using set [OF that(1)] that(2,3) by (elim disjE) (auto simp: seen sighting_select)
  have perm: "set [sighting 40 5 True, sighting 50 6 False] = set [sighting 50 6 False, sighting 40 5 True]"
    by (simp add: insert_commute)
  have ends: "row_seen 9 (-100) None (tables b' c') = row_seen 9 (-100) None (tables d k)
    \<and> (\<forall>x \<in> set [sighting 40 5 True, sighting 50 6 False]. \<exists>k present stored.
        row_seen 9 (-100) None (tables b' c') = Some (k, present, stored) \<and> order_key x \<le> k
        \<and> (\<forall>k' v. row_seen 9 (-100) None ?s = Some (k', v) \<longrightarrow> k' \<le> k)
        \<and> (row_seen 9 (-100) None ?s = Some (k, present, stored)
            \<or> (\<exists>y \<in> set [sighting 40 5 True, sighting 50 6 False]. k = order_key y
                \<and> present = mo_present y \<and> stored = ie_observation_text example_call y)))"
    by (rule observations_converge [OF xs ys perm]) (erule (2) same, erule (2) new)
  have "sighting 50 6 False \<in> set [sighting 40 5 True, sighting 50 6 False]" by simp
  from bspec [OF conjunct2 [OF ends] this] obtain k present stored where
    "row_seen 9 (-100) None (tables b' c') = Some (k, present, stored)" "(50, 6) \<le> k"
    "row_seen 9 (-100) None ?s = Some (k, present, stored)
      \<or> (\<exists>y \<in> set [sighting 40 5 True, sighting 50 6 False]. k = order_key y
          \<and> present = mo_present y \<and> stored = ie_observation_text example_call y)"
    unfolding sighting_select by (elim exE conjE) simp
  then have "\<exists>k. row_seen 9 (-100) None (tables b' c') = Some (k, False, ''out'')"
    by (auto simp: seen sighting_select example_call_def)
  with ends xs ys show ?thesis by blast
qed

end
