(* ===== verification/Auth_Example.thy ===== *)
theory Auth_Example
  imports Token_Safety Identity_Example
begin

text \<open>
  A sign-in on the installation of \<open>Identity_Example\<close>. The encoder writes hexadecimal, the MAC is
  constant and the reader knows the three texts that occur: what \<open>codec_laws\<close> asks for holds.
\<close>

section \<open>Parameters\<close>

definition hex_text :: "string \<Rightarrow> string" where
  "hex_text s = concat (map (\<lambda>c. [hex_digit (byte c div 16), hex_digit (byte c mod 16)]) s)"

definition hex_read :: "string \<Rightarrow> string option" where
  "hex_read s = (case decode_hex s of Inl _ \<Rightarrow> None | Inr d \<Rightarrow> Some d)"

definition bot_mac :: string where
  "bot_mac = replicate 32 CHR ''h''"

definition example_jwt :: jwt_profile where
  "example_jwt = \<lparr>jp_user_id = 3, jp_role = ''user'', jp_username = None, jp_first_name = Some ''Eve''\<rparr>"

definition example_claims :: "(string \<times> json) list" where
  "example_claims = token_claims example_jwt 3700"

definition user_text :: string where
  \<open>user_text = ''{"id":3,"first_name":"Eve"}''\<close>

definition read_text :: "string \<Rightarrow> json option" where
  "read_text s =
     (if s = header_text then Some (JObject [(''alg'', JString ''HS256''), (''typ'', JString ''JWT'')])
      else if s = json_text (JObject example_claims) then Some (JObject (sort_key fst example_claims))
      else if s = user_text then Some (JObject [(''first_name'', JString ''Eve''), (''id'', JPosInt 3)])
      else None)"

definition example_auth :: auth_env where
  "example_auth =
     \<lparr>av_hmac = (\<lambda>_ _. bot_mac), av_b64_encode = hex_text, av_b64_decode = hex_read,
      av_json = read_text, av_url = (\<lambda>_. None)\<rparr>"

definition example_crypto :: auth_config where
  "example_crypto =
     \<lparr>cf_bot_token = ''bot'', cf_jwt_secret = ''secret'', cf_max_age = 3600, cf_future_skew = 60,
      cf_token_ttl = 3600\<rparr>"

definition example_session :: session_env where
  "example_session = \<lparr>se_auth = example_auth, se_identity = example_call, se_now = (\<lambda>_. 100)\<rparr>"

definition example_service :: auth_service where
  "example_service = \<lparr>as_identities = example_store, as_crypto = example_crypto\<rparr>"

lemma hex_digits: "n < 16 \<Longrightarrow> hex_nibble (hex_digit n) = Some n \<and> b64_char (hex_digit n)"
  by (auto simp: hex_nibble_def hex_digit_def b64_char_def byte_class_defs byte_char_of)

lemma hex_read_text: "hex_read (hex_text s) = Some s"
proof -
  have "decode_hex (hex_text s) = Inr s"
  proof (induction s)
    case (Cons c s)
    have "byte c < 256" by (simp add: byte_def)
    then have "hex_pair (hex_digit (byte c div 16)) (hex_digit (byte c mod 16)) = Some c"
      using hex_digits [of "byte c div 16"] hex_digits [of "byte c mod 16"]
      by (simp add: hex_pair_def less_mult_imp_div_less byte_def)
    with Cons.IH show ?case by (simp add: hex_text_def)
  qed (simp add: hex_text_def)
  then show ?thesis by (simp add: hex_read_def)
qed

lemma example_codec: "codec_laws example_auth"
proof -
  have "byte c div 16 < 16" "byte c mod 16 < 16" for c by (simp_all add: byte_def less_mult_imp_div_less)
  then have "list_all b64_char (hex_text s) \<and> length (hex_text s) = 2 * length s" for s
    by (induction s) (simp_all add: hex_text_def hex_digits)
  moreover have "hex_text s = [] \<Longrightarrow> s = []" for s by (cases s) (simp_all add: hex_text_def)
  ultimately show ?thesis by (simp add: codec_laws_def example_auth_def hex_read_text bot_mac_def)
qed

section \<open>Signed data\<close>

definition hex_mac :: string where
  "hex_mac = concat (replicate 32 ''68'')"

definition init_data :: string where
  "init_data = ''auth_date=90&user='' @ user_text @ ''&hash='' @ hex_mac"

definition shuffled_data :: string where
  "shuffled_data = ''hash='' @ hex_mac @ ''&auth_date=90&user='' @ user_text"

definition eve :: signed_profile where
  "eve = \<lparr>sp_user_id = 3, sp_username = None, sp_first_name = Some ''Eve'', sp_photo_url = None\<rparr>"

lemma split_hex: "split_on c (concat (replicate n ''68'')) = [concat (replicate n ''68'')]" if "c \<notin> set ''68''"
  using that by (induction n) auto

lemma init_fields:
  "split_on CHR ''&'' init_data = [''auth_date=90'', ''user='' @ user_text, ''hash='' @ hex_mac]"
  "split_on CHR ''&'' shuffled_data = [''hash='' @ hex_mac, ''auth_date=90'', ''user='' @ user_text]"
  by (simp_all add: init_data_def shuffled_data_def user_text_def hex_mac_def numeral_eq_Suc)

lemma printable_ascii: "list_all (\<lambda>c. 32 \<le> byte c \<and> byte c < 127) s \<Longrightarrow> no_control s \<and> valid_utf8 s"
proof (induction s)
  case (Cons c s)
  then have "continuation_bytes c = 0" by (simp add: continuation_bytes_def)
  then have "chars (c # s) = byte c # chars s" using Cons.prems by (simp add: chars_def leading_bits_def)
  with Cons show ?case by (simp add: no_control_def is_control_def)
qed (simp add: no_control_def chars_def)

lemma user_read: "signed_user example_auth user_text = Inr eve"
proof -
  have "read_text user_text = Some (JObject [(''first_name'', JString ''Eve''), (''id'', JPosInt 3)])"
    by (simp add: read_text_def user_text_def header_text_def example_claims_def token_claims_def
        json_string_def json_escape_def byte_def)
  moreover have "no_control ''Eve''" by (simp add: printable_ascii byte_def)
  ultimately show ?thesis
    by (simp add: signed_user_def example_auth_def as_i64_def require_def optional_string_def
        photo_ok_def eve_def)
qed

lemma hex_mac_read: "length hex_mac = 64" "list_all is_ascii_hexdigit hex_mac" "decode_hex hex_mac = Inr bot_mac"
  "list_all (\<lambda>c. 32 \<le> byte c \<and> byte c < 127 \<and> c \<notin> set ''+%'') hex_mac"
proof -
  have "length (concat (replicate n ''68'')) = 2 * n
    \<and> list_all is_ascii_hexdigit (concat (replicate n ''68''))
    \<and> decode_hex (concat (replicate n ''68'')) = Inr (replicate n CHR ''h'')
    \<and> list_all (\<lambda>c. 32 \<le> byte c \<and> byte c < 127 \<and> c \<notin> set ''+%'') (concat (replicate n ''68''))" for n
    by (induction n) (auto simp: byte_class_defs byte_def hex_pair_def hex_nibble_def char_of_eq_iff take_bit_eq_mod)
  then show "length hex_mac = 64" "list_all is_ascii_hexdigit hex_mac" "decode_hex hex_mac = Inr bot_mac"
    "list_all (\<lambda>c. 32 \<le> byte c \<and> byte c < 127 \<and> c \<notin> set ''+%'') hex_mac"
    by (simp_all add: hex_mac_def bot_mac_def)
qed

lemma plain_form: "list_all (\<lambda>c. 32 \<le> byte c \<and> byte c < 127 \<and> c \<notin> set ''+%'') s \<Longrightarrow>
    form_decode s = Inr s \<and> no_control s"
proof -
  assume s: "list_all (\<lambda>c. 32 \<le> byte c \<and> byte c < 127 \<and> c \<notin> set ''+%'') s"
  then have "form_bytes s = Some s" by (induction s) auto
  moreover have "no_control s \<and> valid_utf8 s" using s by (intro printable_ascii) (simp add: list_all_iff)
  ultimately show ?thesis by (simp add: form_decode_def)
qed

lemma init_form:
  "parse_form init_data = Inr [(''auth_date'', ''90''), (''user'', user_text), (''hash'', hex_mac)]"
proof -
  have "form_field ''auth_date=90'' = Inr (''auth_date'', ''90'')"
    "form_field (''user='' @ user_text) = Inr (''user'', user_text)"
    "form_field (''hash='' @ hex_mac) = Inr (''hash'', hex_mac)"
    using plain_form [of hex_mac] plain_form [of user_text] hex_mac_read(4)
    by (simp_all add: form_field_def starts_with_def plain_form byte_def user_text_def require_def)
  then show ?thesis by (simp add: parse_form_def init_fields Let_def require_def)
qed

lemma init_printable: "list_all (\<lambda>c. 32 \<le> byte c \<and> byte c < 127) init_data"
  "list_all (\<lambda>c. 32 \<le> byte c \<and> byte c < 127) shuffled_data"
  using hex_mac_read(4) by (simp_all add: init_data_def shuffled_data_def list_all_iff byte_def user_text_def)

lemma init_verified: "verify_webapp example_auth example_crypto init_data 100 = Inr eve"
proof -
  have "auth_date [(''auth_date'', ''90''), (''user'', user_text), (''hash'', hex_mac)] = Inr 90"
    by (simp add: auth_date_def parse_i64_def parse_unsigned_def parse_digits_def byte_class_defs byte_def digit_value_def require_def)
  moreover have "signed_by_bot example_auth example_crypto form bot_mac" for form
    by (simp add: signed_by_bot_def example_auth_def)
  ultimately show ?thesis
    unfolding verify_webapp_Inr using printable_ascii [OF init_printable(1)] hex_mac_read user_read
    by (simp add: init_form fresh_def example_crypto_def)
      (simp add: init_data_def user_text_def hex_mac_read)
qed

lemma signed_data_window_witness:
  "verify_webapp example_auth example_crypto init_data 100 = Inr eve
    \<and> (\<exists>timestamp. \<forall>now'. verify_webapp example_auth example_crypto init_data now' =
          (if timestamp - 60 \<le> sint now' \<and> sint now' \<le> timestamp + 3600 then Inr eve else Inl AuthError))"
  using signed_data_window [OF init_verified] init_verified by (auto simp: example_crypto_def)

lemma field_order_is_irrelevant_witness:
  "init_data \<noteq> shuffled_data
    \<and> verify_webapp example_auth example_crypto init_data 100 = verify_webapp example_auth example_crypto shuffled_data 100"
  using field_order_is_irrelevant [of init_data shuffled_data] printable_ascii [OF init_printable(1)]
    printable_ascii [OF init_printable(2)]
  by (simp add: init_fields) (simp add: init_data_def shuffled_data_def)

section \<open>Tokens\<close>

lemma example_readers:
  "av_json example_auth header_text = Some (JObject [(''alg'', JString ''HS256''), (''typ'', JString ''JWT'')])"
  "checked_add_i64 100 (cf_token_ttl example_crypto) = Some expiry \<Longrightarrow>
    av_json example_auth (json_text (JObject (token_claims example_jwt expiry)))
      = Some (JObject (sort_key fst (token_claims example_jwt expiry)))"
proof -
  show "av_json example_auth header_text
      = Some (JObject [(''alg'', JString ''HS256''), (''typ'', JString ''JWT'')])"
    by (simp add: example_auth_def read_text_def)
  assume "checked_add_i64 100 (cf_token_ttl example_crypto) = Some expiry"
  then have "expiry = 3700" by (simp add: checked_add_i64_def example_crypto_def split: if_splits)
  then show "av_json example_auth (json_text (JObject (token_claims example_jwt expiry)))
      = Some (JObject (sort_key fst (token_claims example_jwt expiry)))"
    by (simp add: example_auth_def read_text_def example_claims_def [symmetric] del: json_text.simps)
      (simp add: header_text_def example_claims_def token_claims_def json_string_def json_escape_def byte_def)
qed

lemma example_issued: "\<exists>tok. issue_token example_auth example_crypto example_jwt 100 = Inr tok"
proof -
  have "no_control ''user''" "no_control ''Eve''" by (simp_all add: printable_ascii byte_def)
  then show ?thesis
    by (simp add: issue_token_def require_def role_text_ok_def valid_claim_string_def example_jwt_def
        checked_add_i64_def example_crypto_def Let_def)
qed

lemma issued_token_is_accepted_witness:
  "\<exists>tok. issue_token example_auth example_crypto example_jwt 100 = Inr tok
    \<and> verify_token example_auth example_crypto tok 3699 = Inr 3
    \<and> verify_token example_auth example_crypto tok 3700 = Inl AuthError"
proof -
  obtain tok where tok: "issue_token example_auth example_crypto example_jwt 100 = Inr tok"
    using example_issued by blast
  show ?thesis
    using issued_token_is_accepted [OF example_codec tok example_readers] tok
    by (simp add: example_crypto_def example_jwt_def)
qed

lemma accepted_token_is_authentic_witness:
  "\<exists>tok head payload. verify_token example_auth example_crypto tok 100 = Inr 3
    \<and> tok = signing_input head payload @ ''.'' @ hex_text bot_mac"
proof -
  obtain tok where tok: "issue_token example_auth example_crypto example_jwt 100 = Inr tok"
    using example_issued by blast
  have v: "verify_token example_auth example_crypto tok 100 = Inr 3"
    using issued_token_verifies [OF example_codec tok example_readers]
    by (simp add: example_crypto_def example_jwt_def)
  then show ?thesis using accepted_token_is_authentic [OF v] by (auto simp: example_auth_def)
qed

section \<open>Signing in\<close>

lemma sign_in_gives_own_token_witness:
  "\<exists>r t. token_handler example_session (Some example_service) (Some init_data) (identity_tables 1) = (Inr r, t)
    \<and> tr_user_id r = 3
    \<and> authenticated_id example_session example_service [Some (''Bearer '' @ tr_access_token r)] = Inr 3"
proof -
  have e: "se_auth example_session = example_auth" "as_crypto example_service = example_crypto"
    "se_identity example_session = example_call" "as_identities example_service = example_store"
    "se_now example_session k = 100" for k by (simp_all add: example_session_def example_service_def)
  have j: "jwt_of login_profile = example_jwt" and eve: "trusted_of eve = example_login"
    by (simp_all add: jwt_of_def login_profile_def example_jwt_def trusted_of_def
        eve_def example_login_def)
  obtain u where u: "register example_call example_store example_login (identity_tables 1) = (Inr login_profile, u)"
    using login_registered by blast
  obtain tok where "issue_token example_auth example_crypto example_jwt 100 = Inr tok"
    using example_issued by blast
  then obtain r t where r: "token_handler example_session (Some example_service) (Some init_data)
      (identity_tables 1) = (Inr r, t)"
    by (simp add: token_handler_def e init_verified calling_def eve u issue_def j)
  have "tr_user_id r = 3 \<and> authenticated_id example_session example_service
      [Some (''Bearer '' @ tr_access_token r)] = Inr 3"
    using sign_in_gives_own_token [of example_session example_service init_data eve "identity_tables 1"
        login_profile u r t example_session, unfolded e eve j] u r example_codec example_readers init_verified
    by (simp add: eve_def example_crypto_def)
  with r show ?thesis by blast
qed

end
