(* ===== verification/Api_Keys.thy ===== *)
theory Api_Keys
  imports Identity_Features
begin

text \<open>
  Keys for machines: \<open>backend/crates/yoink-identity/src/admin/api_keys.rs\<close> and \<open>m2m.rs\<close>. A key is
  stored as the digest of its text; whoever shows the text is admitted while the row is neither
  revoked nor expired. The tables are those of the identities beside \<open>api_keys\<close> and \<open>events\<close>.
  Parameters are the generator of the operating system (\<open>None\<close> when it fails), base64, and the
  JSON reader; the JSON a call writes is \<open>json_text\<close>.
\<close>

section \<open>Tables\<close>

record key_row =
  kr_id :: int
  kr_name :: string
  kr_hash :: string
  kr_prefix :: string
  kr_scopes :: string
  kr_created_by :: int
  kr_last_used_at :: "int option"
  kr_expires_at :: "int option"
  kr_revoked :: bool
  kr_created_at :: int

record event_row =
  ev_id :: int
  ev_plugin :: string
  ev_type :: string
  ev_user :: "int option"
  ev_group :: "int option"
  ev_thread :: "int option"
  ev_payload :: "string option"
  ev_created_at :: int

record key_db =
  kd_identity :: identity_db
  key_rows :: "key_row list"
  event_rows :: "event_row list"

record key_env =
  ke_identity :: identity_env
  ke_random :: "string option"
  ke_base64 :: "string \<Rightarrow> string"
  ke_scopes :: "string \<Rightarrow> string list option"
  ke_json :: "string \<Rightarrow> json option"

definition int32 :: "int \<Rightarrow> bool" where
  "int32 n \<longleftrightarrow> - 2147483648 \<le> n \<and> n \<le> 2147483647"

definition key_checks :: "key_row \<Rightarrow> bool" where
  "key_checks r \<longleftrightarrow>
     int32 (kr_id r) \<and> chars_count (kr_name r) \<le> 128 \<and> chars_count (kr_hash r) \<le> 64
     \<and> chars_count (kr_prefix r) \<le> 12"

definition event_checks :: "event_row \<Rightarrow> bool" where
  "event_checks r \<longleftrightarrow>
     int32 (ev_id r) \<and> chars_count (ev_plugin r) \<le> 32 \<and> chars_count (ev_type r) \<le> 64"

definition sql_key :: "string \<Rightarrow> key_db \<Rightarrow> key_row option" where
  "sql_key digest s = find_row (\<lambda>r. kr_hash r = digest) (key_rows s)"

section \<open>Keys\<close>

definition api_key_scopes :: "string list" where
  "api_key_scopes =
     [''users:read'', ''users:write'', ''groups:read'', ''groups:write'', ''downloads:read'',
      ''settings:read'', ''settings:write'', ''events:read'', ''events:write'', ''health:read'']"

definition valid_scope :: "string \<Rightarrow> bool" where
  "valid_scope v \<longleftrightarrow> v = ''*'' \<or> ends_with v '':*'' \<or> v \<in> set api_key_scopes"

record key_request =
  kc_name :: string
  kc_scopes :: "string list option"
  kc_expires_at :: "int option"

record api_key =
  ak_id :: int
  ak_name :: string
  ak_prefix :: string
  ak_scopes :: "string list"
  ak_created_by :: int
  ak_last_used_at :: "instant option"
  ak_expires_at :: "instant option"
  ak_revoked :: bool
  ak_created_at :: instant

record created_api_key =
  ck_id :: int
  ck_name :: string
  ck_key :: string
  ck_prefix :: string
  ck_scopes :: "string list"
  ck_expires_at :: "instant option"
  ck_created_at :: instant

definition decode_api_key :: "key_env \<Rightarrow> key_row \<Rightarrow> admin_error + api_key" where
  "decode_api_key e r =
     res_bind (ok_or AdminUnavailable (ke_scopes e (kr_scopes r))) (\<lambda>held.
       if list_ex (\<lambda>v. \<not> valid_scope v) held then Inl AdminUnavailable
       else
         res_bind (traverse_option (get_time (ke_identity e) AdminUnavailable) (kr_last_used_at r)) (\<lambda>used.
         res_bind (traverse_option (get_time (ke_identity e) AdminUnavailable) (kr_expires_at r)) (\<lambda>until.
         res_bind (get_time (ke_identity e) AdminUnavailable (kr_created_at r)) (\<lambda>created.
         Inr \<lparr>ak_id = kr_id r, ak_name = kr_name r, ak_prefix = kr_prefix r, ak_scopes = held,
              ak_created_by = kr_created_by r, ak_last_used_at = used, ak_expires_at = until,
              ak_revoked = kr_revoked r, ak_created_at = created\<rparr>))))"

text \<open>Every call on keys authorizes an administrator first.\<close>

definition key_admin :: "key_env \<Rightarrow> identity_store \<Rightarrow> i64 \<Rightarrow> key_db \<Rightarrow> admin_error + role" where
  "key_admin e st actor s = admin_auth (ke_identity e) 0 actor (owner_id st) True False (kd_identity s)"

definition api_keys_authorized ::
  "key_env \<Rightarrow> identity_store \<Rightarrow> i64 \<Rightarrow> key_db \<Rightarrow> (admin_error + unit) \<times> key_db" where
  "api_keys_authorized e st actor =
     guarded (sint actor \<le> 0) AdminInvalidInput
       (reading (ke_identity e) AdminUnavailable (\<lambda>s. res_bind (key_admin e st actor s) (\<lambda>_. Inr ())))"

definition api_keys_list ::
  "key_env \<Rightarrow> identity_store \<Rightarrow> i64 \<Rightarrow> key_db \<Rightarrow> (admin_error + api_key list) \<times> key_db" where
  "api_keys_list e st actor =
     guarded (sint actor \<le> 0) AdminInvalidInput
       (reading (ke_identity e) AdminUnavailable (\<lambda>s. res_bind (key_admin e st actor s) (\<lambda>_.
         traverse_list (decode_api_key e) (sort_key (\<lambda>r. - kr_created_at r) (key_rows s)))))"

definition lower_hex :: "string \<Rightarrow> string" where
  "lower_hex bytes = concat (map (\<lambda>c. [hex_digit (byte c div 16), hex_digit (byte c mod 16)]) bytes)"

definition key_digest :: "key_env \<Rightarrow> string \<Rightarrow> string" where
  "key_digest e raw = lower_hex (ie_sha256 (ke_identity e) raw)"

definition new_key :: "key_env \<Rightarrow> i64 \<Rightarrow> key_request \<Rightarrow> string list \<Rightarrow> string \<Rightarrow> key_row" where
  "new_key e actor input held raw =
     \<lparr>kr_id = ie_rowid (ke_identity e), kr_name = kc_name input, kr_hash = key_digest e raw,
      kr_prefix = concat (take 8 (pieces raw)), kr_scopes = json_text (JArray (map JString held)),
      kr_created_by = sint actor, kr_last_used_at = None, kr_expires_at = kc_expires_at input,
      kr_revoked = False, kr_created_at = ie_clock (ke_identity e) 1\<rparr>"

definition sql_key_insert :: "key_row \<Rightarrow> key_db \<Rightarrow> key_db option" where
  "sql_key_insert r s =
     (if \<not> key_checks r \<or> sql_key (kr_hash r) s \<noteq> None then None
      else Some (s\<lparr>key_rows := key_rows s @ [r]\<rparr>))"

definition raw_key :: "key_env \<Rightarrow> string \<Rightarrow> string" where
  "raw_key e random = ''yoink_'' @ ke_base64 e random"

definition api_key_create ::
  "key_env \<Rightarrow> identity_store \<Rightarrow> i64 \<Rightarrow> key_request \<Rightarrow> key_db
    \<Rightarrow> (admin_error + created_api_key) \<times> key_db" where
  "api_key_create e st actor input =
     guarded (sint actor \<le> 0 \<or> chars_count (kc_name input) > 128) AdminInvalidInput
       (in_transaction (ke_identity e) AdminUnavailable (\<lambda>s.
         res_bind (key_admin e st actor s) (\<lambda>_.
         let held = (case kc_scopes input of None \<Rightarrow> [''*''] | Some l \<Rightarrow> l) in
         if list_ex (\<lambda>v. \<not> valid_scope v) held then Inl AdminInvalidScope
         else
           res_bind (ok_or AdminUnavailable (ke_random e)) (\<lambda>random.
           let row = new_key e actor input held (raw_key e random) in
           res_bind (ok_or AdminUnavailable (sql_key_insert row s)) (\<lambda>s'.
           res_bind (ok_or AdminUnavailable (sql_key (kr_hash row) s')) (\<lambda>r.
           res_bind (decode_api_key e r) (\<lambda>k.
           Inr (\<lparr>ck_id = ak_id k, ck_name = ak_name k, ck_key = raw_key e random,
                  ck_prefix = ak_prefix k, ck_scopes = ak_scopes k, ck_expires_at = ak_expires_at k,
                  ck_created_at = ak_created_at k\<rparr>, s'))))))))"

definition sql_key_revoke :: "int \<Rightarrow> key_db \<Rightarrow> key_db" where
  "sql_key_revoke i s =
     s\<lparr>key_rows := update_where (\<lambda>r. kr_id r = i) (\<lambda>r. r\<lparr>kr_revoked := True\<rparr>) (key_rows s)\<rparr>"

definition api_key_revoke ::
  "key_env \<Rightarrow> identity_store \<Rightarrow> i64 \<Rightarrow> i64 \<Rightarrow> key_db \<Rightarrow> (admin_error + unit) \<times> key_db" where
  "api_key_revoke e st actor key_id =
     guarded (sint actor \<le> 0 \<or> sint key_id \<le> 0) AdminInvalidInput
       (in_transaction (ke_identity e) AdminUnavailable (\<lambda>s.
         res_bind (key_admin e st actor s) (\<lambda>_.
           if list_ex (\<lambda>r. kr_id r = sint key_id) (key_rows s)
           then Inr ((), sql_key_revoke (sint key_id) s) else Inl AdminNotFound)))"

section \<open>Machines\<close>

record m2m_key =
  mk_scopes :: "string list"

record m2m_user =
  mu_id :: int
  mu_username :: "string option"
  mu_first_name :: "string option"
  mu_role :: string
  mu_language :: string
  mu_blocked :: bool
  mu_created_at :: instant

record m2m_group =
  mg_id :: int
  mg_title :: "string option"
  mg_enabled :: bool
  mg_auto_grant_role :: string
  mg_created_at :: instant

record m2m_event =
  mv_id :: int
  mv_plugin :: string
  mv_type :: string
  mv_user :: "int option"
  mv_group :: "int option"
  mv_payload :: "json option"
  mv_created_at :: instant

record m2m_counts =
  mc_users :: nat
  mc_groups :: nat
  mc_active_groups :: nat

record event_request =
  er_plugin :: string
  er_event_type :: string
  er_user_id :: "i64 option"
  er_group_id :: "i64 option"
  er_thread_id :: "i64 option"
  er_payload_value :: "json option"

definition m2m_role :: "string \<Rightarrow> admin_error + string" where
  "m2m_role v = (if v \<in> set role_names then Inr v else Inl AdminUnavailable)"

definition decode_m2m_user :: "key_env \<Rightarrow> instant \<Rightarrow> account \<Rightarrow> admin_error + m2m_user" where
  "decode_m2m_user e now a =
     res_bind (traverse_option (get_time (ke_identity e) AdminUnavailable) (ac_ban_until a)) (\<lambda>until.
     res_bind (m2m_role (ac_role a)) (\<lambda>r.
     res_bind (get_time (ke_identity e) AdminUnavailable (ac_created_at a)) (\<lambda>created.
     Inr \<lparr>mu_id = ac_id a, mu_username = ac_username a, mu_first_name = ac_first_name a, mu_role = r,
          mu_language = ac_language a,
          mu_blocked = (ac_role a = ''banned'' \<or> (case until of None \<Rightarrow> False | Some t \<Rightarrow> t > now)),
          mu_created_at = created\<rparr>)))"

definition decode_event :: "key_env \<Rightarrow> event_row \<Rightarrow> admin_error + m2m_event" where
  "decode_event e r =
     res_bind (traverse_option (\<lambda>t. ok_or AdminUnavailable (ke_json e t)) (ev_payload r)) (\<lambda>payload.
     let payload = (if payload = Some JNull then None else payload) in
     if \<not> pred_option (\<lambda>v. as_object v \<noteq> None) payload then Inl AdminUnavailable
     else res_bind (get_time (ke_identity e) AdminUnavailable (ev_created_at r)) (\<lambda>created.
       Inr \<lparr>mv_id = ev_id r, mv_plugin = ev_plugin r, mv_type = ev_type r, mv_user = ev_user r,
            mv_group = ev_group r, mv_payload = payload, mv_created_at = created\<rparr>))"

definition key_expired :: "instant \<Rightarrow> instant option \<Rightarrow> bool" where
  "key_expired now until \<longleftrightarrow> (case until of None \<Rightarrow> False | Some t \<Rightarrow> t \<le> now)"

definition sql_last_used :: "instant \<Rightarrow> string \<Rightarrow> key_db \<Rightarrow> key_db" where
  "sql_last_used now digest s =
     s\<lparr>key_rows := update_where (\<lambda>r. kr_hash r = digest) (\<lambda>r. r\<lparr>kr_last_used_at := Some now\<rparr>) (key_rows s)\<rparr>"

text \<open>The code compares the digest it read with the one it asked for: the row was found by it.\<close>

definition m2m_authenticate ::
  "key_env \<Rightarrow> string \<Rightarrow> key_db \<Rightarrow> (admin_error + m2m_key option) \<times> key_db" where
  "m2m_authenticate e raw s =
     (if raw = [] then (Inr None, s)
      else in_transaction (ke_identity e) AdminUnavailable (\<lambda>s.
        case sql_key (key_digest e raw) s of
          None \<Rightarrow> Inr (None, s)
        | Some r \<Rightarrow>
            res_bind (ok_or AdminUnavailable (ke_scopes e (kr_scopes r))) (\<lambda>held.
            res_bind (traverse_option (get_time (ke_identity e) AdminUnavailable) (kr_expires_at r)) (\<lambda>until.
            res_bind (now_db (ke_identity e) 0) (\<lambda>now.
              if kr_revoked r \<or> key_expired now until then Inr (None, s)
              else Inr (Some \<lparr>mk_scopes = held\<rparr>, sql_last_used now (key_digest e raw) s))))) s)"

definition m2m_counts_of :: "key_env \<Rightarrow> key_db \<Rightarrow> (admin_error + m2m_counts) \<times> key_db" where
  "m2m_counts_of e =
     reading (ke_identity e) AdminUnavailable (\<lambda>s.
       Inr \<lparr>mc_users = length (accounts (kd_identity s)),
            mc_groups = length (known_groups (kd_identity s)),
            mc_active_groups = length (filter gr_enabled (known_groups (kd_identity s)))\<rparr>)"

definition page :: "i64 \<Rightarrow> i64 \<Rightarrow> 'a list \<Rightarrow> 'a list" where
  "page offset limit rows = take (nat (sint limit)) (drop (nat (sint offset)) rows)"

definition bad_page :: "i64 \<Rightarrow> i64 \<Rightarrow> bool" where
  "bad_page offset limit \<longleftrightarrow> sint offset < 0 \<or> \<not> (1 \<le> sint limit \<and> sint limit \<le> 200)"

definition m2m_users ::
  "key_env \<Rightarrow> string option \<Rightarrow> i64 \<Rightarrow> i64 \<Rightarrow> key_db \<Rightarrow> (admin_error + m2m_user list) \<times> key_db" where
  "m2m_users e role_filter offset limit =
     guarded (bad_page offset limit) AdminInvalidInput
       (reading (ke_identity e) AdminUnavailable (\<lambda>s.
         res_bind (now_db (ke_identity e) 0) (\<lambda>now.
         traverse_list (decode_m2m_user e now)
           (page offset limit (sort_key (\<lambda>a. - ac_created_at a)
             (filter (\<lambda>a. pred_option (\<lambda>r. ac_role a = r) role_filter) (accounts (kd_identity s))))))))"

definition m2m_user_of ::
  "key_env \<Rightarrow> i64 \<Rightarrow> key_db \<Rightarrow> (admin_error + m2m_user option) \<times> key_db" where
  "m2m_user_of e user =
     guarded (sint user \<le> 0) AdminInvalidInput
       (reading (ke_identity e) AdminUnavailable (\<lambda>s.
         res_bind (now_db (ke_identity e) 0) (\<lambda>now.
         traverse_option (decode_m2m_user e now) (sql_user (sint user) (kd_identity s)))))"

definition decode_m2m_group :: "key_env \<Rightarrow> group_row \<Rightarrow> admin_error + m2m_group" where
  "decode_m2m_group e g =
     res_bind (m2m_role (gr_auto_grant_role g)) (\<lambda>r.
     res_bind (get_time (ke_identity e) AdminUnavailable (gr_created_at g)) (\<lambda>created.
     Inr \<lparr>mg_id = gr_id g, mg_title = gr_title g, mg_enabled = gr_enabled g, mg_auto_grant_role = r,
          mg_created_at = created\<rparr>))"

definition m2m_groups :: "key_env \<Rightarrow> bool \<Rightarrow> key_db \<Rightarrow> (admin_error + m2m_group list) \<times> key_db" where
  "m2m_groups e enabled_only =
     reading (ke_identity e) AdminUnavailable (\<lambda>s.
       traverse_list (decode_m2m_group e)
         (sort_key gr_id (filter (\<lambda>g. \<not> enabled_only \<or> gr_enabled g) (known_groups (kd_identity s)))))"

definition new_event :: "key_env \<Rightarrow> instant \<Rightarrow> event_request \<Rightarrow> event_row" where
  "new_event e now event =
     \<lparr>ev_id = ie_rowid (ke_identity e), ev_plugin = er_plugin event, ev_type = er_event_type event,
      ev_user = map_option sint (er_user_id event), ev_group = map_option sint (er_group_id event),
      ev_thread = map_option sint (er_thread_id event),
      ev_payload = map_option json_text (er_payload_value event), ev_created_at = now\<rparr>"

definition m2m_event_create ::
  "key_env \<Rightarrow> event_request \<Rightarrow> key_db \<Rightarrow> (admin_error + m2m_event) \<times> key_db" where
  "m2m_event_create e event =
     guarded (chars_count (er_plugin event) > 32 \<or> chars_count (er_event_type event) > 64
         \<or> \<not> pred_option (\<lambda>v. as_object v \<noteq> None) (er_payload_value event)) AdminInvalidInput
       (in_transaction (ke_identity e) AdminUnavailable (\<lambda>s.
         res_bind (now_db (ke_identity e) 0) (\<lambda>now.
         let r = new_event e now event in
         if \<not> event_checks r then Inl AdminUnavailable
         else res_bind (decode_event e r) (\<lambda>v. Inr (v, s\<lparr>event_rows := event_rows s @ [r]\<rparr>)))))"

definition m2m_events ::
  "key_env \<Rightarrow> string option \<Rightarrow> string option \<Rightarrow> i64 \<Rightarrow> i64 \<Rightarrow> key_db
    \<Rightarrow> (admin_error + m2m_event list) \<times> key_db" where
  "m2m_events e plugin event_type offset limit =
     guarded (bad_page offset limit) AdminInvalidInput
       (reading (ke_identity e) AdminUnavailable (\<lambda>s.
         traverse_list (decode_event e)
           (page offset limit (sort_key (\<lambda>r. - ev_created_at r)
             (filter (\<lambda>r. pred_option (\<lambda>p. ev_plugin r = p) plugin
               \<and> pred_option (\<lambda>t. ev_type r = t) event_type) (event_rows s))))))"

end
