(* ===== verification/M2m.thy ===== *)
theory M2m
  imports Api_Keys
begin

text \<open>
  The endpoints for machines, \<open>backend/crates/yoink-http/src/m2m.rs\<close>: every one asks for a key
  with its scope before it looks at the request. A query or body axum does not accept is
  \<open>None\<close>; the flag of an error says that the answer names the scheme of the key. The parts of
  the status that come from the running process are left out.
\<close>

section \<open>Answers\<close>

datatype m2m_error = M2mError nat string bool

fun of_admin_error :: "admin_error \<Rightarrow> m2m_error" where
  "of_admin_error AdminInvalidInput = M2mError 422 ''Invalid request'' False"
| "of_admin_error AdminNotFound = M2mError 404 ''Not found'' False"
| "of_admin_error _ = M2mError 503 ''Identity service unavailable'' False"

definition no_identities :: m2m_error where
  "no_identities = M2mError 503 ''Identity service unavailable'' False"

definition bad_request :: m2m_error where
  "bad_request = M2mError 422 ''Invalid request'' False"

section \<open>Keys\<close>

definition has_scope :: "string list \<Rightarrow> string \<Rightarrow> bool" where
  "has_scope held required \<longleftrightarrow>
     list_ex (\<lambda>v. v = ''*'' \<or> v = required
       \<or> (case split_once '':'' required of None \<Rightarrow> False
          | Some (space, _) \<Rightarrow> v = space @ '':*'')) held"

definition key_gate ::
  "key_env \<Rightarrow> identity_store option \<Rightarrow> string option \<Rightarrow> string \<Rightarrow> key_db
    \<Rightarrow> (m2m_error + m2m_key) \<times> key_db" where
  "key_gate e installed header required s =
     (case header of
        None \<Rightarrow> (Inl (M2mError 401 ''Missing X-Api-Key header'' True), s)
      | Some raw \<Rightarrow>
          if raw = [] then (Inl (M2mError 401 ''Missing X-Api-Key header'' True), s)
          else (case installed of None \<Rightarrow> (Inl no_identities, s)
            | Some _ \<Rightarrow>
                (case m2m_authenticate e raw s of
                   (Inl _, t) \<Rightarrow> (Inl no_identities, t)
                 | (Inr None, t) \<Rightarrow> (Inl (M2mError 401 ''Invalid API key'' True), t)
                 | (Inr (Some k), t) \<Rightarrow>
                     if has_scope (mk_scopes k) required then (Inr k, t)
                     else (Inl (M2mError 403 ''API key missing required scope'' False), t))))"

text \<open>A handler: the gate, the checks on the request, and a call of the store. The environment of
  the call is its own.\<close>

definition behind_key ::
  "key_env \<Rightarrow> identity_store option \<Rightarrow> string option \<Rightarrow> string
    \<Rightarrow> m2m_error + (key_db \<Rightarrow> (admin_error + 'a) \<times> key_db) \<Rightarrow> key_db \<Rightarrow> (m2m_error + 'a) \<times> key_db" where
  "behind_key e installed header required call s =
     (case key_gate e installed header required s of
        (Inl x, t) \<Rightarrow> (Inl x, t)
      | (Inr _, t) \<Rightarrow>
          (case call of Inl x \<Rightarrow> (Inl x, t)
           | Inr f \<Rightarrow> (case f t of (Inl x, u) \<Rightarrow> (Inl (of_admin_error x), u) | (Inr a, u) \<Rightarrow> (Inr a, u))))"

section \<open>Endpoints\<close>

definition status_handler ::
  "key_env \<Rightarrow> key_env \<Rightarrow> identity_store option \<Rightarrow> string option \<Rightarrow> key_db
    \<Rightarrow> (m2m_error + m2m_counts) \<times> key_db" where
  "status_handler e e' installed header =
     behind_key e installed header ''health:read'' (Inr (m2m_counts_of e'))"

definition or_default :: "'a \<Rightarrow> 'a option \<Rightarrow> 'a" where
  "or_default d v = (case v of None \<Rightarrow> d | Some x \<Rightarrow> x)"

record page_query =
  pq_offset :: "i64 option"
  pq_limit :: "i64 option"

text \<open>A role the query names that is none is no filter.\<close>

definition users_handler ::
  "key_env \<Rightarrow> key_env \<Rightarrow> identity_store option \<Rightarrow> string option \<Rightarrow> (page_query \<times> string option) option
    \<Rightarrow> key_db \<Rightarrow> (m2m_error + m2m_user list) \<times> key_db" where
  "users_handler e e' installed header qu =
     behind_key e installed header ''users:read''
       (case qu of None \<Rightarrow> Inl bad_request
        | Some (p, r) \<Rightarrow>
            let offset = or_default 0 (pq_offset p); limit = or_default 50 (pq_limit p) in
            if bad_page offset limit then Inl bad_request
            else Inr (m2m_users e' (Option.bind r (\<lambda>v. if v \<in> set role_names then Some v else None))
              offset limit))"

text \<open>An unknown user is an answer of the handler, not of the store.\<close>

definition user_handler ::
  "key_env \<Rightarrow> key_env \<Rightarrow> identity_store option \<Rightarrow> string option \<Rightarrow> i64 option \<Rightarrow> key_db
    \<Rightarrow> (m2m_error + m2m_user) \<times> key_db" where
  "user_handler e e' installed header path s =
     (case behind_key e installed header ''users:read''
         (case path of None \<Rightarrow> Inl bad_request | Some i \<Rightarrow> Inr (m2m_user_of e' i)) s of
        (Inl x, t) \<Rightarrow> (Inl x, t)
      | (Inr None, t) \<Rightarrow> (Inl (M2mError 404 ''User not found'' False), t)
      | (Inr (Some u), t) \<Rightarrow> (Inr u, t))"

definition legacy_bool :: "string \<Rightarrow> bool option" where
  "legacy_bool text =
     (let v = map to_ascii_lowercase text in
      if v \<in> {''true'', ''1'', ''yes'', ''on'', ''y'', ''t''} then Some True
      else if v \<in> {''false'', ''0'', ''no'', ''off'', ''n'', ''f''} then Some False else None)"

definition groups_handler ::
  "key_env \<Rightarrow> key_env \<Rightarrow> identity_store option \<Rightarrow> string option \<Rightarrow> string option option \<Rightarrow> key_db
    \<Rightarrow> (m2m_error + m2m_group list) \<times> key_db" where
  "groups_handler e e' installed header qu =
     behind_key e installed header ''groups:read''
       (case qu of None \<Rightarrow> Inl bad_request
        | Some None \<Rightarrow> Inr (m2m_groups e' False)
        | Some (Some text) \<Rightarrow>
            (case legacy_bool text of None \<Rightarrow> Inl bad_request | Some b \<Rightarrow> Inr (m2m_groups e' b)))"

definition not_empty :: "string option \<Rightarrow> string option" where
  "not_empty v = Option.bind v (\<lambda>t. if t = [] then None else Some t)"

definition events_handler ::
  "key_env \<Rightarrow> key_env \<Rightarrow> identity_store option \<Rightarrow> string option
    \<Rightarrow> (page_query \<times> string option \<times> string option) option \<Rightarrow> key_db
    \<Rightarrow> (m2m_error + m2m_event list) \<times> key_db" where
  "events_handler e e' installed header qu =
     behind_key e installed header ''events:read''
       (case qu of None \<Rightarrow> Inl bad_request
        | Some (p, plugin, event_type) \<Rightarrow>
            let offset = or_default 0 (pq_offset p); limit = or_default 50 (pq_limit p) in
            if bad_page offset limit then Inl bad_request
            else Inr (m2m_events e' (not_empty plugin) (not_empty event_type) offset limit))"

definition create_event_handler ::
  "key_env \<Rightarrow> key_env \<Rightarrow> identity_store option \<Rightarrow> string option \<Rightarrow> event_request option \<Rightarrow> key_db
    \<Rightarrow> (m2m_error + m2m_event) \<times> key_db" where
  "create_event_handler e e' installed header body =
     behind_key e installed header ''events:write''
       (case body of None \<Rightarrow> Inl bad_request
        | Some event \<Rightarrow>
            if \<not> pred_option (\<lambda>v. as_object v \<noteq> None) (er_payload_value event) then Inl bad_request
            else Inr (m2m_event_create e' event))"

end
