(* ===== verification/Key_Safety.thy ===== *)
theory Key_Safety
  imports M2m
begin

text \<open>
  Keys for machines: a key opens exactly its scopes until it expires or is revoked, and no
  sequence of calls brings a revoked key back.
\<close>

section \<open>Steps\<close>

lemma find_row_update_stable:
  assumes "\<And>r. p r \<Longrightarrow> q (f r) = q r"
  shows "find_row q (update_where p f xs) = map_option (\<lambda>r. if p r then f r else r) (find_row q xs)"
  using assms by (auto simp: find_row_def filter_update_where_stable split: list.splits)

text \<open>The calls on keys and events, and whatever else happens to the identities meanwhile.\<close>

inductive key_step :: "key_db \<Rightarrow> key_db \<Rightarrow> bool" where
  create: "api_key_create e st actor input s = (r, t) \<Longrightarrow> key_step s t"
| revoke: "api_key_revoke e st actor i s = (r', t) \<Longrightarrow> key_step s t"
| authenticate: "m2m_authenticate e raw s = (r'', t) \<Longrightarrow> key_step s t"
| record_event: "m2m_event_create e event s = (r''', t) \<Longrightarrow> key_step s t"
| identities: "key_step s (s\<lparr>kd_identity := d\<rparr>)"

text \<open>What a step makes of the table of keys.\<close>

inductive keys_become :: "key_row list \<Rightarrow> key_row list \<Rightarrow> bool" where
  same: "keys_become ks ks"
| added: "\<not> kr_revoked r \<Longrightarrow> kr_hash r \<notin> kr_hash ` set ks \<Longrightarrow> keys_become ks (ks @ [r])"
| revoked: "keys_become ks (update_where (\<lambda>r. kr_id r = i) (\<lambda>r. r\<lparr>kr_revoked := True\<rparr>) ks)"
| used: "keys_become ks (update_where (\<lambda>r. kr_hash r = d) (\<lambda>r. r\<lparr>kr_last_used_at := Some now\<rparr>) ks)"

lemma sql_key_insert_Some:
  "sql_key_insert r s = Some t \<longleftrightarrow> key_checks r \<and> sql_key (kr_hash r) s = None
     \<and> t = s\<lparr>key_rows := key_rows s @ [r]\<rparr>"
  by (auto simp: sql_key_insert_def)

lemma sql_key_inserted:
  "sql_key (kr_hash r) s = None \<Longrightarrow> sql_key (kr_hash r) (s\<lparr>key_rows := key_rows s @ [r]\<rparr>) = Some r"
  by (simp add: sql_key_def find_row_append) (simp add: find_row_def)

lemma traverse_time_Inr: "traverse_option (get_time e x) v = Inr w \<Longrightarrow> w = v"
  by (cases v) (auto simp: res_bind_Inr_iff)

lemma decode_api_key_Inr:
  "decode_api_key e r = Inr k \<Longrightarrow> ke_scopes e (kr_scopes r) = Some (ak_scopes k)
     \<and> list_all valid_scope (ak_scopes k) \<and> ak_expires_at k = kr_expires_at r"
  by (auto simp: decode_api_key_def res_bind_Inr_iff list_ex_iff list_all_iff dest!: traverse_time_Inr
      split: if_splits)

lemma new_key_select [simp]:
  "kr_hash (new_key e actor input held raw) = key_digest e raw"
  "kr_revoked (new_key e actor input held raw) = False"
  by (simp_all add: new_key_def)

lemma api_key_create_Inr:
  assumes "api_key_create e st actor input s = (Inr c, t)"
  shows "\<exists>r row. key_admin e st actor s = Inr r \<and> ck_key c \<noteq> [] \<and> kr_hash row = key_digest e (ck_key c)
     \<and> \<not> kr_revoked row \<and> ke_scopes e (kr_scopes row) = Some (ck_scopes c)
     \<and> kr_expires_at row = ck_expires_at c \<and> sql_key (kr_hash row) s = None
     \<and> t = s\<lparr>key_rows := key_rows s @ [row]\<rparr>"
proof -
  from assms obtain r random held k row' where *: "key_admin e st actor s = Inr r"
    "sql_key_insert (new_key e actor input held (raw_key e random)) s = Some t"
    "sql_key (key_digest e (raw_key e random)) t = Some row'" "decode_api_key e row' = Inr k"
    "ck_key c = raw_key e random" "ck_scopes c = ak_scopes k" "ck_expires_at c = ak_expires_at k"
    by (auto simp: api_key_create_def in_transaction_Inr res_bind_Inr_iff Let_def split: if_splits)
  let ?row = "new_key e actor input held (raw_key e random)"
  from *(2) have i: "sql_key (kr_hash ?row) s = None" "t = s\<lparr>key_rows := key_rows s @ [?row]\<rparr>"
    by (simp_all add: sql_key_insert_Some)
  then have "sql_key (kr_hash ?row) t = Some ?row" by (simp only: sql_key_inserted)
  with *(3) have "row' = ?row" by simp
  with * i decode_api_key_Inr [OF *(4)] show ?thesis
    by (intro exI [of _ r] exI [of _ ?row]) (simp add: raw_key_def)
qed

lemma keys_become_kept:
  assumes "keys_become ks ls" and "find_row (\<lambda>r. kr_hash r = d) ks = Some r"
  shows "\<exists>r'. find_row (\<lambda>r. kr_hash r = d) ls = Some r' \<and> kr_id r' = kr_id r \<and> kr_scopes r' = kr_scopes r
    \<and> kr_expires_at r' = kr_expires_at r \<and> (kr_revoked r \<longrightarrow> kr_revoked r')"
  using assms by cases (simp_all add: find_row_append find_row_update_stable)

lemma key_step_rows: "key_step s t \<Longrightarrow> keys_become (key_rows s) (key_rows t)"
proof (induction rule: key_step.induct)
  case (create e st actor input s r t)
  show ?case
  proof (cases r)
    case (Inr c)
    with create obtain row where "\<not> kr_revoked row" "sql_key (kr_hash row) s = None"
      "t = s\<lparr>key_rows := key_rows s @ [row]\<rparr>"
      using api_key_create_Inr by blast
    then show ?thesis by (auto simp: sql_key_def find_row_None intro!: keys_become.added)
  next
    case (Inl x)
    with create have "t = s" by (auto simp: api_key_create_def guarded_def in_transaction_Inl split: if_splits)
    then show ?thesis by (simp add: keys_become.same)
  qed
next
  case (revoke e st actor i s r t)
  then have "t = s \<or> t = sql_key_revoke (sint i) s"
    by (cases r) (auto simp: api_key_revoke_def guarded_def in_transaction_Inl in_transaction_Inr
        res_bind_Inr_iff split: if_splits)
  then show ?case by (auto simp: sql_key_revoke_def keys_become.same keys_become.revoked)
next
  case (authenticate e raw s r t)
  then have "t = s \<or> (\<exists>now. t = sql_last_used now (key_digest e raw) s)"
    by (cases r) (auto simp: m2m_authenticate_def in_transaction_Inl in_transaction_Inr
        res_bind_Inr_iff split: if_splits option.splits)
  then show ?case by (auto simp: sql_last_used_def keys_become.same keys_become.used)
next
  case (record_event e event s r t)
  then have "key_rows t = key_rows s"
    by (cases r) (auto simp: m2m_event_create_def guarded_def in_transaction_Inl in_transaction_Inr
        res_bind_Inr_iff Let_def split: if_splits)
  then show ?case by (simp add: keys_become.same)
qed (simp add: keys_become.same)

text \<open>What every history keeps of a key. The contract of a transition system gives it.\<close>

definition key_kept :: "key_row \<Rightarrow> key_db \<Rightarrow> bool" where
  "key_kept r s \<longleftrightarrow> (\<exists>r'. sql_key (kr_hash r) s = Some r' \<and> kr_id r' = kr_id r \<and> kr_scopes r' = kr_scopes r
    \<and> kr_expires_at r' = kr_expires_at r \<and> (kr_revoked r \<longrightarrow> kr_revoked r'))"

interpretation keys: transition_system "\<lambda>s. sql_key (kr_hash r) s = Some r" key_step "key_kept r" for r
proof
  show "sql_key (kr_hash r) s = Some r \<Longrightarrow> key_kept r s" for s by (simp add: key_kept_def)
  show "key_kept r s \<Longrightarrow> key_step s t \<Longrightarrow> key_kept r t" for s t
    using keys_become_kept [OF key_step_rows, of s t "kr_hash r"] by (fastforce simp: key_kept_def sql_key_def)
qed

section \<open>The gate\<close>

lemma key_gate_answer:
  assumes "sql_key (key_digest e raw) s = Some r" "raw \<noteq> []" "ie_up (ke_identity e)"
    "ke_scopes e (kr_scopes r) = Some held"
    "pred_option (ie_datetime (ke_identity e)) (kr_expires_at r)" "ie_datetime (ke_identity e) (ie_clock (ke_identity e) 0)"
  shows "fst (key_gate e (Some st) (Some raw) required s) =
    (if kr_revoked r \<or> key_expired (ie_clock (ke_identity e) 0) (kr_expires_at r)
     then Inl (M2mError 401 ''Invalid API key'' True)
     else if has_scope held required then Inr \<lparr>mk_scopes = held\<rparr>
     else Inl (M2mError 403 ''API key missing required scope'' False))"
proof -
  have "traverse_option (get_time (ke_identity e) AdminUnavailable) (kr_expires_at r) = Inr (kr_expires_at r)"
    using assms(5) by (cases "kr_expires_at r") (simp_all add: get_time_def)
  then show ?thesis
    using assms by (simp add: key_gate_def m2m_authenticate_def in_transaction_def now_db_def get_time_def)
qed

text \<open>C22. A key that was created opens exactly its scopes after any further calls, until it expires or
  is revoked; and only an administrator made it.\<close>

theorem created_key_opens_its_scopes:
  assumes "api_key_create e st actor input s = (Inr c, t)" and "key_step\<^sup>*\<^sup>* t u"
    and "key_digest e' (ck_key c) = key_digest e (ck_key c)" "ke_scopes e' = ke_scopes e"
    and "ie_up (ke_identity e')" "pred_option (ie_datetime (ke_identity e')) (ck_expires_at c)"
      "ie_datetime (ke_identity e') (ie_clock (ke_identity e') 0)"
  shows "(\<exists>r. key_admin e st actor s = Inr r)
    \<and> (\<exists>r. sql_key (key_digest e (ck_key c)) u = Some r \<and> (t = u \<longrightarrow> \<not> kr_revoked r)
      \<and> fst (key_gate e' (Some st') (Some (ck_key c)) required u) =
        (if kr_revoked r \<or> key_expired (ie_clock (ke_identity e') 0) (ck_expires_at c)
         then Inl (M2mError 401 ''Invalid API key'' True)
         else if has_scope (ck_scopes c) required then Inr \<lparr>mk_scopes = ck_scopes c\<rparr>
         else Inl (M2mError 403 ''API key missing required scope'' False)))"
proof -
  from api_key_create_Inr [OF assms(1)] obtain r row where row: "key_admin e st actor s = Inr r" "ck_key c \<noteq> []"
    "kr_hash row = key_digest e (ck_key c)" "\<not> kr_revoked row" "ke_scopes e (kr_scopes row) = Some (ck_scopes c)"
    "kr_expires_at row = ck_expires_at c" "sql_key (kr_hash row) s = None"
    "t = s\<lparr>key_rows := key_rows s @ [row]\<rparr>"
    by blast
  have t: "sql_key (kr_hash row) t = Some row" using sql_key_inserted [OF row(7)] unfolding row(8) .
  with assms(2) have "key_kept row u" using keys.inv_reachable by blast
  then obtain r' where r': "sql_key (kr_hash row) u = Some r'" "kr_scopes r' = kr_scopes row"
    "kr_expires_at r' = kr_expires_at row"
    unfolding key_kept_def by blast
  moreover have "t = u \<Longrightarrow> \<not> kr_revoked r'" using t r'(1) row(4) by simp
  ultimately show ?thesis
    using row key_gate_answer [of e' "ck_key c" u r' "ck_scopes c" st' required] assms(3-7)
    by (intro conjI exI [of _ r] exI [of _ r']) simp_all
qed

text \<open>C21. No further calls bring a revoked key back.\<close>

theorem revoked_key_is_dead:
  assumes "api_key_revoke e st actor i s = (Inr (), t)" and "key_step\<^sup>*\<^sup>* t u"
    and "sql_key (key_digest e' raw) s = Some r" "kr_id r = sint i"
  shows "fst (m2m_authenticate e' raw u) \<noteq> Inr (Some k)
    \<and> fst (key_gate e' installed (Some raw) required u) \<noteq> Inr k"
proof -
  have h: "kr_hash r = key_digest e' raw" using assms(3) unfolding sql_key_def by (rule find_row_Some(2))
  from assms(1) have "t = sql_key_revoke (sint i) s"
    by (auto simp: api_key_revoke_def in_transaction_Inr res_bind_Inr_iff split: if_splits)
  then have "sql_key (kr_hash (r\<lparr>kr_revoked := True\<rparr>)) t = Some (r\<lparr>kr_revoked := True\<rparr>)"
    using assms(3,4) h by (simp add: sql_key_revoke_def sql_key_def find_row_update_stable)
  with assms(2) have "key_kept (r\<lparr>kr_revoked := True\<rparr>) u" using keys.inv_reachable by blast
  then obtain r' where "sql_key (key_digest e' raw) u = Some r'" "kr_revoked r'"
    by (auto simp: key_kept_def h)
  then have "fst (m2m_authenticate e' raw u) \<noteq> Inr (Some k)" for k
    by (auto simp: m2m_authenticate_def in_transaction_Inr res_bind_Inr_iff prod_eq_iff [symmetric]
        in_transaction_def split: if_splits sum.splits)
  then show ?thesis
    by (auto simp: key_gate_def split: option.splits sum.splits prod.splits if_splits) (metis fst_conv)+
qed

end
