(* ===== verification/Nsfw.thy ===== *)
theory Nsfw
  imports Identity_Features Media
begin

text \<open>
  The rules for adult content, \<open>backend/crates/yoink-identity/src/nsfw.rs\<close>: domains and keywords
  that moderators keep, and the decision over a source and its metadata. Parameters are the
  \<open>url\<close> crate, Unicode's lower case and letters, and the \<open>regex\<close> crate: how a character is
  escaped, whether a pattern compiles within its limit of size, and which parts of a text it
  finds. A compiled pattern is its text. The tables are those of the identities beside the two
  of the rules and the blur of \<open>dl_user_settings\<close>.
\<close>

section \<open>Parameters and tables\<close>

record rule_url = url +
  ru_query :: "string option"
  ru_fragment :: "string option"
  ru_port :: "16 word option"
  ru_host_text :: string

record rule_env =
  ne_identity :: identity_env
  ne_url :: "string \<Rightarrow> rule_url option"
  ne_lower :: "string \<Rightarrow> string"
  ne_alnum :: "nat \<Rightarrow> bool"
  ne_escape :: "string \<Rightarrow> string"
  ne_compiles :: "string \<Rightarrow> bool"
  ne_find :: "string \<Rightarrow> string \<Rightarrow> (nat \<times> nat) list"
  ne_rowid :: "nat \<Rightarrow> int"

record rule_row =
  rr_id :: int
  rr_value :: string
  rr_note :: "string option"
  rr_created_at :: int

record rule_db =
  rd_identity :: identity_db
  rd_domains :: "rule_row list"
  rd_keywords :: "rule_row list"
  rd_blur :: "(int \<times> bool) list"

datatype rule_kind = RuleDomain | RuleKeyword

record nsfw_rule =
  nr_id :: int
  nr_domain :: "string option"
  nr_keyword :: "string option"
  nr_note :: "string option"
  nr_created_at :: instant

record rule_input =
  ri_domain :: "string option"
  ri_keyword :: "string option"
  ri_note :: "string option"

record nsfw_check =
  nc_url :: string
  nc_is_nsfw :: bool
  nc_matched_domain :: "string option"
  nc_matched_keyword :: "string option"
  nc_matched_keywords :: "string list"

record nsfw_decision =
  cd_blocked :: bool
  cd_spoiler :: bool

text \<open>A keyword with its pattern for addresses and its pattern for prose.\<close>

record compiled_rules =
  cr_domains :: "string list"
  cr_keywords :: "(string \<times> string \<times> string) list"

section \<open>Values\<close>

definition value_limit :: "rule_kind \<Rightarrow> nat" where
  "value_limit kind = (case kind of RuleDomain \<Rightarrow> 253 | RuleKeyword \<Rightarrow> 128)"

definition plain_site :: "rule_url \<Rightarrow> bool" where
  "plain_site u \<longleftrightarrow>
     url_host u \<noteq> None \<and> url_username u = [] \<and> url_password u = None \<and> url_path u = ''/''
     \<and> ru_query u = None \<and> ru_fragment u = None"

definition site_label_ok :: "string \<Rightarrow> bool" where
  "site_label_ok p \<longleftrightarrow>
     p \<noteq> [] \<and> length p \<le> 63 \<and> \<not> starts_with p ''-'' \<and> \<not> ends_with p ''-''"

definition port_suffix :: "string \<Rightarrow> string" where
  "port_suffix v =
     (if starts_with v ''['' then (case split_once '']'' v of None \<Rightarrow> [] | Some (_, tail) \<Rightarrow> tail)
      else (case rsplit_once CHR '':'' v of None \<Rightarrow> [] | Some (_, port) \<Rightarrow> CHR '':'' # port))"

definition port_suffix_ok :: "string \<Rightarrow> bool" where
  "port_suffix_ok suffix \<longleftrightarrow>
     suffix = []
     \<or> (case strip_prefix suffix '':'' of None \<Rightarrow> False | Some p \<Rightarrow> parse_unsigned (2 ^ 16) p \<noteq> None)"

definition normalize_site :: "rule_env \<Rightarrow> string \<Rightarrow> admin_error + string" where
  "normalize_site e v =
     (case ne_url e (''https://'' @ v @ ''/'') of
        None \<Rightarrow> Inl AdminInvalidInput
      | Some u \<Rightarrow>
          if \<not> plain_site u
             \<or> (\<not> starts_with (ru_host_text u) ''[''
                \<and> \<not> list_all site_label_ok (split_on CHR ''.'' (ru_host_text u)))
             \<or> \<not> port_suffix_ok (port_suffix v)
          then Inl AdminInvalidInput else Inr (ru_host_text u @ port_suffix v))"

definition normalize_value :: "rule_env \<Rightarrow> rule_kind \<Rightarrow> string \<Rightarrow> admin_error + string" where
  "normalize_value e kind raw =
     (let v = ne_lower e raw;
          v = (if kind = RuleDomain
               then (case strip_prefix v ''www.'' of Some rest \<Rightarrow> rest | None \<Rightarrow> v) else v) in
      if (kind = RuleDomain \<and> trim v \<noteq> v) \<or> v = [] \<or> list_ex is_control (chars v)
         \<or> chars_count v > value_limit kind
      then Inl AdminInvalidInput
      else if kind = RuleDomain then normalize_site e v else Inr v)"

section \<open>Patterns\<close>

definition dotted_capital_i :: string where
  "dotted_capital_i = [CHR 0xC4, CHR 0xB0]"

definition dotless_i :: string where
  "dotless_i = [CHR 0xC4, CHR 0xB1]"

definition escaped_keyword :: "rule_env \<Rightarrow> string \<Rightarrow> string" where
  "escaped_keyword e v =
     concat (map (\<lambda>p. if p = ''i'' then ''[iI'' @ dotted_capital_i @ dotless_i @ '']'' else ne_escape e p)
       (pieces v))"

fun blank_separated :: "string list \<Rightarrow> string list" where
  "blank_separated [] = [[]]"
| "blank_separated (p # ps) =
     (if blank_piece p then [] # blank_separated ps
      else (case blank_separated ps of [] \<Rightarrow> [p] | w # ws \<Rightarrow> (p @ w) # ws))"

definition split_whitespace :: "string \<Rightarrow> string list" where
  "split_whitespace v = filter (\<lambda>w. w \<noteq> []) (blank_separated (pieces v))"

definition url_pattern :: "rule_env \<Rightarrow> string \<Rightarrow> string" where
  "url_pattern e v =
     (case map (escaped_keyword e) (split_whitespace v) of
        [] \<Rightarrow> []
      | p # ps \<Rightarrow>
          p @ concat (map (\<lambda>q. ''[^A-Za-z0-9'' @ dotted_capital_i @ dotless_i @ '']+'' @ q) ps))"

definition word_char :: "rule_env \<Rightarrow> nat \<Rightarrow> bool" where
  "word_char e n \<longleftrightarrow> ne_alnum e n \<or> n = 95"

definition ascii_word :: "nat \<Rightarrow> bool" where
  "ascii_word n \<longleftrightarrow>
     (48 \<le> n \<and> n \<le> 57) \<or> (65 \<le> n \<and> n \<le> 90) \<or> (97 \<le> n \<and> n \<le> 122)
     \<or> n \<in> {0x130, 0x131, 0x17F, 0x212A}"

definition first_is :: "(nat \<Rightarrow> bool) \<Rightarrow> string \<Rightarrow> bool" where
  "first_is p s = (case chars s of [] \<Rightarrow> False | n # _ \<Rightarrow> p n)"

definition last_is :: "(nat \<Rightarrow> bool) \<Rightarrow> string \<Rightarrow> bool" where
  "last_is p s = (case rev (chars s) of [] \<Rightarrow> False | n # _ \<Rightarrow> p n)"

definition boundary_match :: "rule_env \<Rightarrow> string \<Rightarrow> string \<Rightarrow> bool \<Rightarrow> bool" where
  "boundary_match e pattern text ascii \<longleftrightarrow>
     list_ex (\<lambda>(i, j).
       let before = take i text; found = take (j - i) (drop i text); after = drop j text in
       if ascii then \<not> last_is ascii_word before \<and> \<not> first_is ascii_word after
       else last_is (word_char e) before \<noteq> first_is (word_char e) found
         \<and> first_is (word_char e) after \<noteq> last_is (word_char e) found)
       (ne_find e pattern text)"

definition compile_keyword :: "rule_env \<Rightarrow> string \<Rightarrow> admin_error + string \<times> string \<times> string" where
  "compile_keyword e raw =
     (case normalize_value e RuleKeyword raw of
        Inl _ \<Rightarrow> Inl AdminUnavailable
      | Inr v \<Rightarrow>
          if url_pattern e v = [] \<or> \<not> ne_compiles e (url_pattern e v)
             \<or> \<not> ne_compiles e (escaped_keyword e v)
          then Inl AdminUnavailable else Inr (v, url_pattern e v, escaped_keyword e v))"

definition compile_domain :: "rule_env \<Rightarrow> string \<Rightarrow> admin_error + string" where
  "compile_domain e raw =
     (case normalize_value e RuleDomain raw of Inl _ \<Rightarrow> Inl AdminUnavailable | Inr v \<Rightarrow> Inr v)"

definition compile_rules ::
  "rule_env \<Rightarrow> string list \<Rightarrow> string list \<Rightarrow> admin_error + compiled_rules" where
  "compile_rules e domains keywords =
     res_bind (traverse_list (compile_domain e) domains) (\<lambda>ds.
     res_bind (traverse_list (compile_keyword e) keywords) (\<lambda>ks.
     Inr \<lparr>cr_domains = ds, cr_keywords = ks\<rparr>))"

section \<open>The decision\<close>

definition checkable :: "string \<Rightarrow> rule_url \<Rightarrow> bool" where
  "checkable src u \<longleftrightarrow>
     url_scheme u \<in> {''http'', ''https''} \<and> url_host u \<noteq> None \<and> length src \<le> 4096
     \<and> url_username u = [] \<and> url_password u = None"

definition site_matches :: "rule_env \<Rightarrow> rule_url \<Rightarrow> string \<Rightarrow> bool" where
  "site_matches e u d \<longleftrightarrow>
     (let host = ne_lower e (case url_host u of None \<Rightarrow> [] | Some h \<Rightarrow> h) in
      host = d \<or> ends_with host (''.'' @ d)
      \<or> (case ru_port u of None \<Rightarrow> False
         | Some port \<Rightarrow>
             let authority = host @ '':'' @ show_nat (unat port) in
             authority = d \<or> ends_with authority (''.'' @ d)))"

definition keyword_matches ::
  "rule_env \<Rightarrow> string \<Rightarrow> content_metadata list \<Rightarrow> string \<times> string \<times> string \<Rightarrow> bool" where
  "keyword_matches e src metadata k \<longleftrightarrow>
     boundary_match e (fst (snd k)) src True
     \<or> list_ex (\<lambda>m. boundary_match e (snd (snd k)) (metadata_prose m) False) metadata"

definition check_content ::
  "rule_env \<Rightarrow> compiled_rules \<Rightarrow> string \<Rightarrow> content_metadata list \<Rightarrow> admin_error + nsfw_check" where
  "check_content e rules src metadata =
     (case ne_url e src of
        None \<Rightarrow> Inl AdminInvalidInput
      | Some u \<Rightarrow>
          if \<not> checkable src u then Inl AdminInvalidInput
          else if \<not> list_all metadata_valid metadata then Inl AdminUnavailable
          else
            let domain = find_row (site_matches e u) (cr_domains rules);
                found = map fst (filter (keyword_matches e src metadata) (cr_keywords rules)) in
            Inr \<lparr>nc_url = src, nc_is_nsfw = (domain \<noteq> None \<or> found \<noteq> []),
                 nc_matched_domain = domain,
                 nc_matched_keyword = (case found of [] \<Rightarrow> None | k # _ \<Rightarrow> Some k),
                 nc_matched_keywords = found\<rparr>)"

section \<open>Reading the tables\<close>

definition rule_rows :: "rule_kind \<Rightarrow> rule_db \<Rightarrow> rule_row list" where
  "rule_rows kind s = (case kind of RuleDomain \<Rightarrow> rd_domains s | RuleKeyword \<Rightarrow> rd_keywords s)"

definition decode_rule :: "rule_env \<Rightarrow> rule_kind \<Rightarrow> rule_row \<Rightarrow> admin_error + nsfw_rule" where
  "decode_rule e kind r =
     res_bind (get_time (ne_identity e) AdminUnavailable (rr_created_at r)) (\<lambda>created.
       Inr \<lparr>nr_id = rr_id r,
            nr_domain = (if kind = RuleDomain then Some (rr_value r) else None),
            nr_keyword = (if kind = RuleKeyword then Some (rr_value r) else None),
            nr_note = rr_note r, nr_created_at = created\<rparr>)"

definition load_rules :: "rule_env \<Rightarrow> rule_kind \<Rightarrow> rule_db \<Rightarrow> admin_error + nsfw_rule list" where
  "load_rules e kind s =
     (let rows = take 10001 (sort_key rr_value (rule_rows kind s)) in
      if length rows > 10000 then Inl AdminUnavailable else traverse_list (decode_rule e kind) rows)"

definition rules_of :: "rule_env \<Rightarrow> rule_db \<Rightarrow> admin_error + compiled_rules" where
  "rules_of e s =
     res_bind (load_rules e RuleDomain s) (\<lambda>ds.
     res_bind (load_rules e RuleKeyword s) (\<lambda>ks.
     compile_rules e (List.map_filter nr_domain ds) (List.map_filter nr_keyword ks)))"

definition revision_key :: string where
  "revision_key = ''nsfw_rules_revision''"

definition rule_revision :: "rule_db \<Rightarrow> admin_error + int" where
  "rule_revision s =
     (let v = (case sql_setting revision_key (rd_identity s) of Some (Some v) \<Rightarrow> v | _ \<Rightarrow> ''0'') in
      case parse_i64 v of
        None \<Rightarrow> Inl AdminUnavailable
      | Some n \<Rightarrow>
          if n < 0 \<or> n = 2 ^ 63 - 1 \<or> show_int n \<noteq> v then Inl AdminUnavailable else Inr n)"

definition rule_moderator :: "rule_env \<Rightarrow> identity_store \<Rightarrow> i64 \<Rightarrow> rule_db \<Rightarrow> admin_error + unit" where
  "rule_moderator e st actor s =
     res_bind (admin_auth (ne_identity e) 0 actor (owner_id st) False False (rd_identity s)) (\<lambda>r.
       if r < Moderator then Inl AdminForbidden else Inr ())"

text \<open>\<open>nsfw_policy.sql\<close>: who has no setting gets blurred previews, and a group nobody has seen has
  no policy.\<close>

definition sql_blur :: "int \<Rightarrow> rule_db \<Rightarrow> bool" where
  "sql_blur user s = (case map_of (rd_blur s) user of None \<Rightarrow> True | Some b \<Rightarrow> b)"

definition sql_nsfw_allowed :: "int \<Rightarrow> rule_db \<Rightarrow> bool option" where
  "sql_nsfw_allowed chat s =
     map_option gr_nsfw_allowed (find_row (\<lambda>g. gr_id g = chat) (known_groups (rd_identity s)))"

definition content_policy_for_request ::
  "rule_env \<Rightarrow> i64 \<Rightarrow> i64 \<Rightarrow> string \<Rightarrow> content_metadata list \<Rightarrow> bool \<Rightarrow> rule_db
    \<Rightarrow> (admin_error + nsfw_decision) \<times> rule_db" where
  "content_policy_for_request e actor chat src metadata force =
     reading (ne_identity e) AdminUnavailable (\<lambda>s.
       res_bind (rules_of e s) (\<lambda>rules.
       res_bind (check_content e rules src metadata) (\<lambda>c.
       let classified = nc_is_nsfw c \<or> force; allowed = sql_nsfw_allowed (sint chat) s in
       if (sint chat < 0 \<and> allowed = None) \<or> (sint chat > 0 \<and> chat \<noteq> actor) \<or> chat = 0
       then Inl AdminUnavailable
       else Inr \<lparr>cd_blocked = (classified \<and> sint chat < 0 \<and> allowed \<noteq> Some True),
                 cd_spoiler = (classified \<and> sint chat > 0 \<and> sql_blur (sint actor) s)\<rparr>)))"

definition content_policy ::
  "rule_env \<Rightarrow> i64 \<Rightarrow> i64 \<Rightarrow> string \<Rightarrow> content_metadata list \<Rightarrow> rule_db
    \<Rightarrow> (admin_error + nsfw_decision) \<times> rule_db" where
  "content_policy e actor chat src metadata =
     content_policy_for_request e actor chat src metadata False"

definition nsfw_list ::
  "rule_env \<Rightarrow> identity_store \<Rightarrow> i64 \<Rightarrow> rule_kind \<Rightarrow> rule_db
    \<Rightarrow> (admin_error + nsfw_rule list \<times> int) \<times> rule_db" where
  "nsfw_list e st actor kind =
     reading (ne_identity e) AdminUnavailable (\<lambda>s.
       res_bind (rule_moderator e st actor s) (\<lambda>_.
       res_bind (load_rules e kind s) (\<lambda>rs. res_bind (rule_revision s) (\<lambda>n. Inr (rs, n)))))"

definition nsfw_export ::
  "rule_env \<Rightarrow> identity_store \<Rightarrow> i64 \<Rightarrow> rule_db
    \<Rightarrow> (admin_error + nsfw_rule list \<times> nsfw_rule list \<times> int) \<times> rule_db" where
  "nsfw_export e st actor =
     reading (ne_identity e) AdminUnavailable (\<lambda>s.
       res_bind (rule_moderator e st actor s) (\<lambda>_.
       res_bind (load_rules e RuleDomain s) (\<lambda>ds.
       res_bind (load_rules e RuleKeyword s) (\<lambda>ks.
       res_bind (rule_revision s) (\<lambda>n. Inr (ds, ks, n))))))"

definition nsfw_check_source ::
  "rule_env \<Rightarrow> identity_store \<Rightarrow> i64 \<Rightarrow> string \<Rightarrow> rule_db \<Rightarrow> (admin_error + nsfw_check) \<times> rule_db" where
  "nsfw_check_source e st actor src =
     reading (ne_identity e) AdminUnavailable (\<lambda>s.
       res_bind (rule_moderator e st actor s) (\<lambda>_.
       res_bind (rules_of e s) (\<lambda>rules. check_content e rules src [])))"

section \<open>Changing the rules\<close>

definition rule_checks :: "rule_kind \<Rightarrow> rule_row \<Rightarrow> bool" where
  "rule_checks kind r \<longleftrightarrow>
     - 2147483648 \<le> rr_id r \<and> rr_id r \<le> 2147483647
     \<and> chars_count (rr_value r) \<le> value_limit kind \<and> opt_chars 256 (rr_note r)"

definition set_rules :: "rule_kind \<Rightarrow> rule_row list \<Rightarrow> rule_db \<Rightarrow> rule_db" where
  "set_rules kind rows s =
     (case kind of RuleDomain \<Rightarrow> s\<lparr>rd_domains := rows\<rparr> | RuleKeyword \<Rightarrow> s\<lparr>rd_keywords := rows\<rparr>)"

definition value_taken :: "rule_kind \<Rightarrow> string \<Rightarrow> rule_db \<Rightarrow> bool" where
  "value_taken kind v s \<longleftrightarrow> list_ex (\<lambda>r. rr_value r = v) (rule_rows kind s)"

definition new_rule :: "rule_env \<Rightarrow> nat \<Rightarrow> string \<Rightarrow> string option \<Rightarrow> rule_row" where
  "new_rule e k v note =
     \<lparr>rr_id = ne_rowid e k, rr_value = v, rr_note = note,
      rr_created_at = ie_clock (ne_identity e) (Suc k)\<rparr>"

text \<open>The inserting statements; \<open>None\<close> is a constraint that refuses the row.\<close>

definition sql_rule_insert ::
  "rule_env \<Rightarrow> rule_kind \<Rightarrow> string \<Rightarrow> string option \<Rightarrow> rule_db \<Rightarrow> rule_db option" where
  "sql_rule_insert e kind v note s =
     (let r = new_rule e 0 v note in
      if value_taken kind v s \<or> \<not> rule_checks kind r then None
      else Some (set_rules kind (rule_rows kind s @ [r]) s))"

definition sql_rule_import ::
  "rule_env \<Rightarrow> rule_kind \<Rightarrow> nat \<Rightarrow> string \<Rightarrow> string option \<Rightarrow> rule_db \<Rightarrow> (nat \<times> rule_db) option" where
  "sql_rule_import e kind k v note s =
     (let r = new_rule e k v note in
      if \<not> rule_checks kind r then None
      else if value_taken kind v s then Some (0, s)
      else Some (1, set_rules kind (rule_rows kind s @ [r]) s))"

definition sql_rule_update ::
  "rule_kind \<Rightarrow> int \<Rightarrow> string \<Rightarrow> string option \<Rightarrow> rule_db \<Rightarrow> rule_db option" where
  "sql_rule_update kind i v note s =
     (let new = (\<lambda>r. r\<lparr>rr_value := v, rr_note := note\<rparr>) in
      if list_ex (\<lambda>r. rr_id r = i \<and> \<not> rule_checks kind (new r)) (rule_rows kind s)
         \<or> list_ex (\<lambda>r. rr_id r \<noteq> i \<and> rr_value r = v) (rule_rows kind s)
      then None
      else Some (set_rules kind (update_where (\<lambda>r. rr_id r = i) new (rule_rows kind s)) s))"

definition sql_rule_delete :: "rule_kind \<Rightarrow> int \<Rightarrow> rule_db \<Rightarrow> rule_db" where
  "sql_rule_delete kind i s = set_rules kind (filter (\<lambda>r. rr_id r \<noteq> i) (rule_rows kind s)) s"

text \<open>\<open>CAST\<close> of a text that \<open>revision\<close> has read before; a null value stays null.\<close>

definition advanced_revision :: "string \<Rightarrow> string" where
  "advanced_revision v = show_int ((case parse_i64 v of None \<Rightarrow> 0 | Some n \<Rightarrow> n) + 1)"

definition sql_revision_advance :: "rule_db \<Rightarrow> rule_db" where
  "sql_revision_advance s =
     (let rows = setting_rows (rd_identity s) in
      s\<lparr>rd_identity := (rd_identity s)\<lparr>setting_rows :=
          (if map_of rows revision_key = None then rows @ [(revision_key, Some ''1'')]
           else update_where (\<lambda>r. fst r = revision_key)
                  (\<lambda>r. (fst r, map_option advanced_revision (snd r))) rows)\<rparr>\<rparr>)"

definition revision_matches :: "int option \<Rightarrow> rule_db \<Rightarrow> admin_error + unit" where
  "revision_matches expect s =
     res_bind (rule_revision s) (\<lambda>n.
       case expect of None \<Rightarrow> Inr ()
       | Some v \<Rightarrow> if v < 0 \<or> v \<noteq> n then Inl AdminConflict else Inr ())"

definition bad_note :: "string option \<Rightarrow> bool" where
  "bad_note note \<longleftrightarrow>
     \<not> pred_option (\<lambda>t. chars_count t \<le> 256 \<and> \<not> list_ex is_control (chars t)) note"

definition input_value :: "rule_kind \<Rightarrow> rule_input \<Rightarrow> string option" where
  "input_value kind input = (case kind of RuleDomain \<Rightarrow> ri_domain input | RuleKeyword \<Rightarrow> ri_keyword input)"

definition other_value :: "rule_kind \<Rightarrow> rule_input \<Rightarrow> string option" where
  "other_value kind input = (case kind of RuleDomain \<Rightarrow> ri_keyword input | RuleKeyword \<Rightarrow> ri_domain input)"

definition rule_value :: "rule_kind \<Rightarrow> nsfw_rule \<Rightarrow> string option" where
  "rule_value kind r = (case kind of RuleDomain \<Rightarrow> nr_domain r | RuleKeyword \<Rightarrow> nr_keyword r)"

definition write_rule ::
  "rule_env \<Rightarrow> rule_kind \<Rightarrow> i64 option \<Rightarrow> rule_input \<Rightarrow> nsfw_rule option \<Rightarrow> rule_db
    \<Rightarrow> admin_error + nsfw_rule option \<times> rule_db" where
  "write_rule e kind i input old s =
     res_bind (ok_or AdminInvalidInput (or_old (input_value kind input) (Option.bind old (rule_value kind)))) (\<lambda>raw.
       if other_value kind input \<noteq> None \<or> bad_note (ri_note input) then Inl AdminInvalidInput
       else res_bind (normalize_value e kind raw) (\<lambda>v.
         let note = (case ri_note input of
                       Some t \<Rightarrow> if t = [] then None else Some t
                     | None \<Rightarrow> Option.bind old nr_note);
             changed = (case i of None \<Rightarrow> ne_rowid e 0 | Some j \<Rightarrow> sint j) in
         res_bind (ok_or AdminConflict
             (case i of None \<Rightarrow> sql_rule_insert e kind v note s
              | Some j \<Rightarrow> sql_rule_update kind (sint j) v note s)) (\<lambda>s'.
         res_bind (load_rules e kind s') (\<lambda>rs.
         res_bind (ok_or AdminUnavailable (find_row (\<lambda>r. nr_id r = changed) rs)) (\<lambda>r.
         Inr (Some r, s'))))))"

definition nsfw_mutate ::
  "rule_env \<Rightarrow> identity_store \<Rightarrow> i64 \<Rightarrow> rule_kind \<Rightarrow> i64 option \<Rightarrow> rule_input option \<Rightarrow> int option
    \<Rightarrow> rule_db \<Rightarrow> (admin_error + nsfw_rule option) \<times> rule_db" where
  "nsfw_mutate e st actor kind i input expect =
     in_transaction (ne_identity e) AdminUnavailable (\<lambda>s.
       res_bind (rule_moderator e st actor s) (\<lambda>_.
       res_bind (revision_matches expect s) (\<lambda>_.
       res_bind (case i of None \<Rightarrow> Inr None
                 | Some j \<Rightarrow> res_bind (load_rules e kind s) (\<lambda>rs.
                     res_bind (ok_or AdminNotFound (find_row (\<lambda>r. nr_id r = sint j) rs)) (\<lambda>r. Inr (Some r)))) (\<lambda>old.
       res_bind (case input of
                   Some inp \<Rightarrow> write_rule e kind i inp old s
                 | None \<Rightarrow> res_bind (ok_or AdminInvalidInput i) (\<lambda>j.
                     Inr (None, sql_rule_delete kind (sint j) s))) (\<lambda>(result, s').
       res_bind (rules_of e s') (\<lambda>_. Inr (result, sql_revision_advance s')))))))"

text \<open>The rows of an import, with the number of statements before them.\<close>

fun import_rules ::
  "rule_env \<Rightarrow> rule_kind \<Rightarrow> nat \<Rightarrow> rule_input list \<Rightarrow> rule_db \<Rightarrow> admin_error + nat \<times> rule_db" where
  "import_rules e kind k [] s = Inr (0, s)"
| "import_rules e kind k (item # items) s =
     res_bind (ok_or AdminInvalidInput (input_value kind item)) (\<lambda>raw.
       if bad_note (ri_note item) \<or> other_value kind item \<noteq> None then Inl AdminInvalidInput
       else res_bind (normalize_value e kind raw) (\<lambda>v.
         res_bind (ok_or AdminUnavailable (sql_rule_import e kind k v (ri_note item) s)) (\<lambda>(n, s').
         res_bind (import_rules e kind (Suc k) items s') (\<lambda>(m, t). Inr (n + m, t)))))"

definition nsfw_import ::
  "rule_env \<Rightarrow> identity_store \<Rightarrow> i64 \<Rightarrow> rule_input list \<Rightarrow> rule_input list \<Rightarrow> int option \<Rightarrow> rule_db
    \<Rightarrow> (admin_error + nat \<times> nat) \<times> rule_db" where
  "nsfw_import e st actor domains keywords expect =
     guarded (length domains + length keywords > 10000) AdminInvalidInput
       (in_transaction (ne_identity e) AdminUnavailable (\<lambda>s.
         res_bind (rule_moderator e st actor s) (\<lambda>_.
         res_bind (revision_matches expect s) (\<lambda>_.
         res_bind (import_rules e RuleDomain 0 domains s) (\<lambda>(n, s').
         res_bind (import_rules e RuleKeyword (length domains) keywords s') (\<lambda>(m, s'').
         res_bind (rules_of e s'') (\<lambda>_. Inr ((n, m), sql_revision_advance s''))))))))"

end
