(* ===== verification/Nsfw_Safety.thy ===== *)
theory Nsfw_Safety
  imports Nsfw
begin

text \<open>
  What the rules for adult content guarantee: whatever moderators commit can be read again, an
  import only tightens, and two moderators do not overwrite each other.
\<close>

section \<open>Reading the rules\<close>

lemma traverse_set: "traverse_list f xs = Inr ys \<Longrightarrow> set ys = {y. \<exists>x \<in> set xs. f x = Inr y}"
  by (induction xs arbitrary: ys) (auto simp: res_bind_Inr_iff)

lemma traverse_map_Inr:
  assumes "traverse_list f xs = Inr ys" and "\<And>x y. f x = Inr y \<Longrightarrow> g y = h x"
  shows "map g ys = map h xs"
  using assms by (induction xs arbitrary: ys) (auto simp: res_bind_Inr_iff)

lemma rule_value_select: "nr_domain = rule_value RuleDomain" "nr_keyword = rule_value RuleKeyword"
  by (simp_all add: rule_value_def fun_eq_iff)

lemma map_filter_Some: "map f xs = map Some ys \<Longrightarrow> List.map_filter f xs = ys"
  by (induction xs arbitrary: ys) (auto simp: map_filter_def)

lemma load_rules_values:
  assumes "load_rules e kind s = Inr rs"
  shows "set (List.map_filter (rule_value kind) rs) = rr_value ` set (rule_rows kind s)"
proof -
  let ?rows = "sort_key rr_value (rule_rows kind s)"
  from assms have "length (take 10001 ?rows) \<le> 10000" "traverse_list (decode_rule e kind) (take 10001 ?rows) = Inr rs"
    by (simp_all add: load_rules_def Let_def split: if_splits)
  then have t: "traverse_list (decode_rule e kind) ?rows = Inr rs" by (cases "length ?rows \<le> 10000") simp_all
  then have "map (rule_value kind) rs = map (\<lambda>r. Some (rr_value r)) ?rows"
    by (rule traverse_map_Inr) (cases kind; auto simp: decode_rule_def res_bind_Inr_iff rule_value_def)
  then have "map (rule_value kind) rs = map Some (map rr_value ?rows)" by (simp add: comp_def)
  then have "List.map_filter (rule_value kind) rs = map rr_value ?rows" by (rule map_filter_Some)
  then show ?thesis by simp
qed

lemma rules_of_sets:
  assumes "rules_of e s = Inr rules"
  shows "set (cr_domains rules) = {v. \<exists>r \<in> set (rd_domains s). compile_domain e (rr_value r) = Inr v}"
    "set (cr_keywords rules) = {k. \<exists>r \<in> set (rd_keywords s). compile_keyword e (rr_value r) = Inr k}"
proof -
  from assms obtain ds ks where l: "load_rules e RuleDomain s = Inr ds" "load_rules e RuleKeyword s = Inr ks"
    and t: "traverse_list (compile_domain e) (List.map_filter nr_domain ds) = Inr (cr_domains rules)"
      "traverse_list (compile_keyword e) (List.map_filter nr_keyword ks) = Inr (cr_keywords rules)"
    by (auto simp: rules_of_def compile_rules_def res_bind_Inr_iff)
  show "set (cr_domains rules) = {v. \<exists>r \<in> set (rd_domains s). compile_domain e (rr_value r) = Inr v}"
    using load_rules_values [OF l(1)] traverse_set [OF t(1)] by (simp add: rule_value_select rule_rows_def)
  show "set (cr_keywords rules) = {k. \<exists>r \<in> set (rd_keywords s). compile_keyword e (rr_value r) = Inr k}"
    using load_rules_values [OF l(2)] traverse_set [OF t(2)] by (simp add: rule_value_select rule_rows_def)
qed

definition flagged :: "rule_env \<Rightarrow> string \<Rightarrow> content_metadata list \<Rightarrow> rule_db \<Rightarrow> bool" where
  "flagged e src metadata s \<longleftrightarrow>
     (\<exists>u v. ne_url e src = Some u \<and> site_matches e u v
        \<and> (\<exists>r \<in> set (rd_domains s). compile_domain e (rr_value r) = Inr v))
     \<or> (\<exists>k. keyword_matches e src metadata k
        \<and> (\<exists>r \<in> set (rd_keywords s). compile_keyword e (rr_value r) = Inr k))"

lemma check_flagged:
  assumes "rules_of e s = Inr rules" and "check_content e rules src metadata = Inr c"
  shows "nc_is_nsfw c \<longleftrightarrow> flagged e src metadata s"
proof -
  from assms(2) obtain u where u: "ne_url e src = Some u"
    and c: "nc_is_nsfw c \<longleftrightarrow> find_row (site_matches e u) (cr_domains rules) \<noteq> None
      \<or> map fst (filter (keyword_matches e src metadata) (cr_keywords rules)) \<noteq> []"
    by (auto simp: check_content_def Let_def split: option.splits if_splits)
  have "nc_is_nsfw c \<longleftrightarrow> (\<exists>v \<in> set (cr_domains rules). site_matches e u v)
      \<or> (\<exists>k \<in> set (cr_keywords rules). keyword_matches e src metadata k)"
    unfolding c find_row_None by (auto simp: filter_empty_conv)
  then show ?thesis unfolding rules_of_sets [OF assms(1)] flagged_def u by blast
qed

lemma content_policy_Inr:
  "content_policy_for_request e actor chat src metadata force s = (Inr d, t) \<longleftrightarrow>
     t = s \<and> ie_up (ne_identity e)
     \<and> (\<exists>rules c. rules_of e s = Inr rules \<and> check_content e rules src metadata = Inr c)
     \<and> (sint chat < 0 \<longrightarrow> sql_nsfw_allowed (sint chat) s \<noteq> None) \<and> (sint chat > 0 \<longrightarrow> chat = actor) \<and> chat \<noteq> 0
     \<and> d = \<lparr>cd_blocked = ((flagged e src metadata s \<or> force) \<and> sint chat < 0
              \<and> sql_nsfw_allowed (sint chat) s \<noteq> Some True),
            cd_spoiler = ((flagged e src metadata s \<or> force) \<and> sint chat > 0 \<and> sql_blur (sint actor) s)\<rparr>"
  using check_flagged
  by (auto simp: content_policy_for_request_def reading_eq res_bind_Inr_iff Let_def split: if_splits)

section \<open>An import\<close>

lemma sql_rule_import_grows:
  assumes "sql_rule_import e kind k v note s = Some (n, t)"
  shows "set (rd_domains s) \<subseteq> set (rd_domains t)" "set (rd_keywords s) \<subseteq> set (rd_keywords t)"
    "rd_identity t = rd_identity s" "rd_blur t = rd_blur s"
  using assms by (cases kind; auto simp: sql_rule_import_def Let_def set_rules_def rule_rows_def split: if_splits)+

lemma import_rules_grows:
  assumes "import_rules e kind k items s = Inr (n, t)"
  shows "set (rd_domains s) \<subseteq> set (rd_domains t) \<and> set (rd_keywords s) \<subseteq> set (rd_keywords t)
    \<and> rd_identity t = rd_identity s \<and> rd_blur t = rd_blur s"
  using assms
proof (induction items arbitrary: k s n)
  case (Cons item items)
  then obtain v m u n' where "sql_rule_import e kind k v (ri_note item) s = Some (m, u)"
    "import_rules e kind (Suc k) items u = Inr (n', t)"
    by (auto simp: res_bind_Inr_iff split: if_splits)
  then show ?case using Cons.IH sql_rule_import_grows by (metis subset_trans)
qed simp

lemma advance_select:
  "rd_domains (sql_revision_advance s) = rd_domains s" "rd_keywords (sql_revision_advance s) = rd_keywords s"
  "rd_blur (sql_revision_advance s) = rd_blur s" "sql_nsfw_allowed chat (sql_revision_advance s) = sql_nsfw_allowed chat s"
  by (simp_all add: sql_revision_advance_def Let_def sql_nsfw_allowed_def)

lemma rules_of_advance: "rules_of e (sql_revision_advance s) = rules_of e s"
proof -
  have "rule_rows kind (sql_revision_advance s) = rule_rows kind s" for kind
    by (cases kind) (simp_all add: rule_rows_def advance_select)
  then show ?thesis by (simp add: rules_of_def load_rules_def)
qed

lemma nsfw_import_Inr:
  assumes "nsfw_import e st actor domains keywords expect s = (Inr counts, t)"
  shows "\<exists>u rules. t = sql_revision_advance u \<and> rules_of e u = Inr rules \<and> set (rd_domains s) \<subseteq> set (rd_domains u)
    \<and> set (rd_keywords s) \<subseteq> set (rd_keywords u) \<and> rd_identity u = rd_identity s \<and> rd_blur u = rd_blur s"
proof -
  from assms obtain n u' m u rules where i: "import_rules e RuleDomain 0 domains s = Inr (n, u')"
    "import_rules e RuleKeyword (length domains) keywords u' = Inr (m, u)" and r: "rules_of e u = Inr rules"
    "t = sql_revision_advance u"
    by (auto simp: nsfw_import_def in_transaction_Inr res_bind_Inr_iff)
  show ?thesis
    using import_rules_grows [OF i(1)] import_rules_grows [OF i(2)] r by (intro exI [of _ u] exI [of _ rules]) auto
qed

text \<open>C24. An import never opens what was closed: whatever was blocked or hidden before it still is.\<close>

theorem import_only_tightens:
  assumes "nsfw_import e st actor domains keywords expect s = (Inr counts, t)"
    and "content_policy_for_request e user chat src metadata force s = (Inr d, s)"
  shows "\<exists>d'. content_policy_for_request e user chat src metadata force t = (Inr d', t)
    \<and> (cd_blocked d \<longrightarrow> cd_blocked d') \<and> (cd_spoiler d \<longrightarrow> cd_spoiler d')"
proof -
  from nsfw_import_Inr [OF assms(1)] obtain u rules where u: "t = sql_revision_advance u" "rules_of e u = Inr rules"
    "set (rd_domains s) \<subseteq> set (rd_domains u)" "set (rd_keywords s) \<subseteq> set (rd_keywords u)"
    "rd_identity u = rd_identity s" "rd_blur u = rd_blur s" by blast
  then have t: "set (rd_domains s) \<subseteq> set (rd_domains t)" "set (rd_keywords s) \<subseteq> set (rd_keywords t)"
    "rules_of e t = Inr rules" by (simp_all add: advance_select rules_of_advance)
  have same: "sql_nsfw_allowed (sint chat) t = sql_nsfw_allowed (sint chat) s" "sql_blur (sint user) t = sql_blur (sint user) s"
    using u by (simp_all add: advance_select sql_blur_def) (simp add: sql_nsfw_allowed_def)
  have "flagged e src metadata s \<Longrightarrow> flagged e src metadata t" using t(1,2) unfolding flagged_def by blast
  moreover have "\<exists>c. check_content e rules src metadata = Inr c"
    using assms(2) unfolding content_policy_Inr
    by (auto simp: check_content_def Let_def split: option.splits if_splits)
  ultimately show ?thesis using assms(2) t(3) unfolding content_policy_Inr same by auto
qed

section \<open>Changes\<close>

text \<open>Environments that read texts alike: only the clock, the database and the new identifiers differ.\<close>

definition reads_alike :: "rule_env \<Rightarrow> rule_env \<Rightarrow> bool" where
  "reads_alike e e' \<longleftrightarrow>
     (\<exists>clock up row rows. e' = e\<lparr>ne_rowid := rows,
        ne_identity := (ne_identity e)\<lparr>ie_clock := clock, ie_up := up, ie_rowid := row\<rparr>\<rparr>)"

lemma rules_of_alike:
  assumes "reads_alike e e'" shows "rules_of e' s = rules_of e s"
proof -
  from assms obtain clock up row rows where e': "e' = e\<lparr>ne_rowid := rows,
      ne_identity := (ne_identity e)\<lparr>ie_clock := clock, ie_up := up, ie_rowid := row\<rparr>\<rparr>"
    unfolding reads_alike_def by blast
  have d: "decode_rule e' = decode_rule e" by (simp add: fun_eq_iff decode_rule_def get_time_def e')
  have n: "normalize_value e' = normalize_value e"
    by (simp add: fun_eq_iff normalize_value_def normalize_site_def Let_def e')
  have c: "ne_escape e' = ne_escape e" "ne_compiles e' = ne_compiles e" by (simp_all add: e')
  have k: "escaped_keyword e' = escaped_keyword e" by (rule ext) (simp only: escaped_keyword_def c)
  have u: "url_pattern e' = url_pattern e" by (rule ext) (simp only: url_pattern_def k)
  have "load_rules e' = load_rules e" by (intro ext) (simp only: load_rules_def d)
  moreover have "compile_domain e' = compile_domain e" by (rule ext) (simp only: compile_domain_def n)
  moreover have "compile_keyword e' = compile_keyword e" by (rule ext) (simp only: compile_keyword_def n k u c)
  ultimately show ?thesis by (simp add: rules_of_def compile_rules_def)
qed

lemma set_rules_identity: "rd_identity (set_rules kind rows s) = rd_identity s"
  by (cases kind) (simp_all add: set_rules_def)

lemma sql_rule_identity:
  "sql_rule_insert e kind v note s = Some t \<Longrightarrow> rd_identity t = rd_identity s"
  "sql_rule_update kind j v note s = Some t \<Longrightarrow> rd_identity t = rd_identity s"
  "rd_identity (sql_rule_delete kind j s) = rd_identity s"
  by (auto simp: sql_rule_insert_def sql_rule_update_def sql_rule_delete_def Let_def set_rules_identity
      split: if_splits)

lemma write_rule_identity:
  assumes "write_rule e kind i input old s = Inr (r, t)"
  shows "rd_identity t = rd_identity s"
proof -
  from assms obtain v n where
    "(case i of None \<Rightarrow> sql_rule_insert e kind v n s | Some j \<Rightarrow> sql_rule_update kind (sint j) v n s) = Some t"
    by (auto simp: write_rule_def res_bind_Inr_iff Let_def split: if_splits)
  then show ?thesis using sql_rule_identity by (cases i) auto
qed

lemma nsfw_mutate_Inr:
  assumes "nsfw_mutate e st actor kind i input expect s = (Inr r, t)"
  shows "\<exists>u rules. t = sql_revision_advance u \<and> rules_of e u = Inr rules \<and> rd_identity u = rd_identity s
    \<and> revision_matches expect s = Inr ()"
proof -
  from assms obtain old u rules where *: "revision_matches expect s = Inr ()" "rules_of e u = Inr rules"
    "t = sql_revision_advance u"
    and w: "(case input of Some inp \<Rightarrow> write_rule e kind i inp old s
       | None \<Rightarrow> res_bind (ok_or AdminInvalidInput i) (\<lambda>j. Inr (None, sql_rule_delete kind (sint j) s))) = Inr (r, u)"
    by (auto simp: nsfw_mutate_def in_transaction_Inr res_bind_Inr_iff)
  from w have "rd_identity u = rd_identity s"
    using write_rule_identity sql_rule_identity(3)
    by (cases input) (auto simp: res_bind_Inr_iff)
  with * show ?thesis by blast
qed

text \<open>The calls on the rules, and whatever else happens to the tables beside them.\<close>

inductive rule_step :: "rule_env \<Rightarrow> rule_db \<Rightarrow> rule_db \<Rightarrow> bool" for e where
  mutate: "reads_alike e e' \<Longrightarrow> nsfw_mutate e' st actor kind i input expect s = (r, t) \<Longrightarrow> rule_step e s t"
| import_all: "reads_alike e e' \<Longrightarrow> nsfw_import e' st actor domains keywords expect s = (r', t) \<Longrightarrow> rule_step e s t"
| elsewhere: "rule_step e s (s\<lparr>rd_identity := d, rd_blur := b\<rparr>)"

definition rules_readable :: "rule_env \<Rightarrow> rule_db \<Rightarrow> bool" where
  "rules_readable e s \<longleftrightarrow> (\<exists>rules. rules_of e s = Inr rules)"

lemma rules_of_rows:
  "rd_domains t = rd_domains s \<Longrightarrow> rd_keywords t = rd_keywords s \<Longrightarrow> rules_of e t = rules_of e s"
proof -
  assume "rd_domains t = rd_domains s" "rd_keywords t = rd_keywords s"
  then have "rule_rows kind t = rule_rows kind s" for kind by (cases kind) (simp_all add: rule_rows_def)
  then show ?thesis by (simp add: rules_of_def load_rules_def)
qed

interpretation rules: transition_system "\<lambda>s. rd_domains s = [] \<and> rd_keywords s = []" "rule_step e" "rules_readable e" for e
proof
  show "rd_domains s = [] \<and> rd_keywords s = [] \<Longrightarrow> rules_readable e s" for s
    by (simp add: rules_readable_def rules_of_def load_rules_def rule_rows_def Let_def compile_rules_def map_filter_def)
  fix s t assume r: "rules_readable e s" and "rule_step e s t"
  from this(2) show "rules_readable e t"
  proof cases
    case (mutate e' st actor kind i input expect x)
    show ?thesis
    proof (cases x)
      case (Inr y)
      with mutate(2) obtain u rules where "t = sql_revision_advance u" "rules_of e' u = Inr rules"
        using nsfw_mutate_Inr by blast
      then show ?thesis using mutate(1) by (simp add: rules_readable_def rules_of_advance rules_of_alike)
    qed (use mutate(2) r in \<open>simp add: nsfw_mutate_def in_transaction_Inl\<close>)
  next
    case (import_all e' st actor ds ks expect x)
    show ?thesis
    proof (cases x)
      case (Inr y)
      with import_all(2) obtain u rules where "t = sql_revision_advance u" "rules_of e' u = Inr rules"
        using nsfw_import_Inr by blast
      then show ?thesis using import_all(1) by (simp add: rules_readable_def rules_of_advance rules_of_alike)
    qed (use import_all(2) r in \<open>auto simp: nsfw_import_def guarded_def in_transaction_Inl split: if_splits\<close>)
  next
    case (elsewhere d b)
    then show ?thesis using r rules_of_rows [of t s e] by (simp add: rules_readable_def)
  qed
qed

text \<open>C23. Whatever moderators do, the policy answers: in private for every address it can check, and in
  a group it knows exactly according to the policy of the group.\<close>

theorem policy_stays_available:
  assumes "(rule_step e)\<^sup>*\<^sup>* s t" and "rd_domains s = []" "rd_keywords s = []" and "ie_up (ne_identity e)"
    and "ne_url e src = Some u" "checkable src u" "list_all metadata_valid metadata"
  shows "(0 < sint user \<longrightarrow> (\<exists>d. content_policy_for_request e user user src metadata force t = (Inr d, t) \<and> \<not> cd_blocked d))
    \<and> (sint chat < 0 \<longrightarrow> (\<forall>allowed. sql_nsfw_allowed (sint chat) t = Some allowed \<longrightarrow>
        (\<exists>d. content_policy_for_request e user chat src metadata force t = (Inr d, t)
          \<and> (cd_blocked d \<longleftrightarrow> (flagged e src metadata t \<or> force) \<and> \<not> allowed))))"
proof -
  obtain rules where r: "rules_of e t = Inr rules"
    using rules.inv_reachable [OF _ assms(1)] assms(2,3) unfolding rules_readable_def by blast
  moreover have "\<exists>c. check_content e rules src metadata = Inr c"
    using assms(5-7) by (simp add: check_content_def Let_def)
  moreover have "chat \<noteq> 0" if "sint chat < 0" using that by auto
  moreover have "user \<noteq> 0" if "0 < sint user" using that by auto
  ultimately show ?thesis unfolding content_policy_Inr using assms(4) by auto
qed

section \<open>Revisions\<close>

lemma parse_i64_bound: "parse_i64 v = Some n \<Longrightarrow> n < 2 ^ 63"
  by (auto simp: parse_i64_def parse_unsigned_def Let_def split: list.splits option.splits if_splits)

lemma revision_advances:
  assumes "rule_revision s = Inr n" and "sql_setting revision_key (rd_identity s) \<noteq> Some None"
  shows "rule_revision (sql_revision_advance s) = (if n + 1 = 2 ^ 63 - 1 then Inl AdminUnavailable else Inr (n + 1))"
proof -
  let ?rows = "setting_rows (rd_identity s)"
  from assms(1) have n: "0 \<le> n" "n \<noteq> 2 ^ 63 - 1"
    and p: "parse_i64 (case map_of ?rows revision_key of Some (Some v) \<Rightarrow> v | _ \<Rightarrow> ''0'') = Some n"
    by (simp_all add: rule_revision_def sql_setting_def Let_def split: option.splits if_splits)
  note n = n parse_i64_bound [OF p] p
  have up: "map_of (update_where (\<lambda>r. fst r = k) (\<lambda>r. (fst r, f (snd r))) rows) k = map_option f (map_of rows k)"
    for k and f :: "string option \<Rightarrow> string option" and rows by (induction rows) auto
  have "map_of (setting_rows (rd_identity (sql_revision_advance s))) revision_key = Some (Some (show_int (n + 1)))"
  proof (cases "map_of ?rows revision_key")
    case None
    with p have "n = 0" by (simp add: parse_i64_def parse_unsigned_def parse_digits_def digit_value_def
        is_ascii_digit_def byte_def)
    moreover have "char_of (49 :: nat) = CHR ''1''" by (simp add: char_of_eq_iff take_bit_eq_mod)
    ultimately show ?thesis using None by (simp add: sql_revision_advance_def Let_def map_add_def show_int_def show_nat.simps)
  next
    case (Some v)
    with assms(2) obtain w where "v = Some w" by (auto simp: sql_setting_def)
    with Some p show ?thesis by (simp add: sql_revision_advance_def Let_def up advanced_revision_def)
  qed
  moreover have "parse_i64 (show_int (n + 1)) = Some (n + 1)"
    using parse_i64_show [of "nat (n + 1)"] n by (simp add: show_int_def)
  ultimately show ?thesis using n by (simp add: rule_revision_def sql_setting_def Let_def)
qed

text \<open>C25. A change that names the revision it read takes effect at most once: it needs the revision to be
  current, moves it, and no later change can name it again.\<close>

theorem rule_edit_is_compare_and_set:
  assumes "nsfw_mutate e st actor kind i input (Some n) s = (Inr r, t)"
    and "sql_setting revision_key (rd_identity s) \<noteq> Some None"
  shows "rule_revision s = Inr n
    \<and> rule_revision t = (if n + 1 = 2 ^ 63 - 1 then Inl AdminUnavailable else Inr (n + 1))
    \<and> fst (nsfw_mutate e' st' actor' kind' i' input' (Some n) t) \<noteq> Inr q
    \<and> fst (nsfw_import e' st' actor' domains keywords (Some n) t) \<noteq> Inr counts"
proof -
  from nsfw_mutate_Inr [OF assms(1)] obtain u where u: "t = sql_revision_advance u" "rd_identity u = rd_identity s"
    "revision_matches (Some n) s = Inr ()" by blast
  then have n: "rule_revision s = Inr n" by (auto simp: revision_matches_def res_bind_Inr_iff split: if_splits)
  have "rule_revision u = rule_revision s" by (simp add: rule_revision_def u)
  then have t: "rule_revision t = (if n + 1 = 2 ^ 63 - 1 then Inl AdminUnavailable else Inr (n + 1))"
    using revision_advances [of u n] n assms(2) u by simp
  then have "revision_matches (Some n) t \<noteq> Inr ()"
    by (auto simp: revision_matches_def res_bind_Inr_iff)
  then have "nsfw_mutate e' st' actor' kind' i' input' (Some n) t \<noteq> (Inr q, w)"
    "nsfw_import e' st' actor' domains keywords (Some n) t \<noteq> (Inr counts, w)" for w
    by (auto simp: nsfw_mutate_def nsfw_import_def in_transaction_Inr res_bind_Inr_iff)
  then show ?thesis using n t by (metis prod.collapse)
qed

end
