(* ===== verification/User_Search.thy ===== *)
theory User_Search
  imports Identity_Admin "HOL-Library.Option_ord" "HOL-Library.Multiset"
begin

text \<open>
  The search of users, \<open>admin_list_users\<close> of \<open>backend/crates/yoink-identity/src/admin.rs\<close> with its
  twelve statements, which differ in their order only; and that its pages visit every account
  that matches exactly once.
\<close>

section \<open>Matching\<close>

text \<open>\<open>LIKE\<close> over characters: \<open>%\<close> is any text, \<open>_\<close> any character, ASCII letters without case.\<close>

fun like_pieces :: "string list \<Rightarrow> string list \<Rightarrow> bool" where
  "like_pieces [] t \<longleftrightarrow> t = []"
| "like_pieces (p # ps) t \<longleftrightarrow>
     (if p = ''%'' then like_pieces ps t \<or> (case t of [] \<Rightarrow> False | _ # u \<Rightarrow> like_pieces (p # ps) u)
      else (case t of [] \<Rightarrow> False
        | c # u \<Rightarrow> (p = ''_'' \<or> map to_ascii_lowercase p = map to_ascii_lowercase c) \<and> like_pieces ps u))"

definition contains_text :: "string \<Rightarrow> string \<Rightarrow> bool" where
  "contains_text v pattern \<longleftrightarrow>
     like_pieces (pieces (''%'' @ map to_ascii_lowercase pattern @ ''%''))
       (pieces (map to_ascii_lowercase v))"

record users_query =
  uq_offset :: i64
  uq_limit :: i64
  uq_search :: "string option"
  uq_role :: "string option"
  uq_status :: "string option"
  uq_sort :: string
  uq_direction :: string
  uq_period :: "string option"

record user_page =
  pg_items :: "admin_user list"
  pg_total :: nat
  pg_offset :: i64
  pg_limit :: i64
  pg_has_more :: bool

definition text_or :: "string \<Rightarrow> string option \<Rightarrow> string" where
  "text_or d v = (case v of None \<Rightarrow> d | Some t \<Rightarrow> t)"

definition search_matches :: "string \<Rightarrow> account \<Rightarrow> bool" where
  "search_matches v a \<longleftrightarrow>
     v = [] \<or> contains_text (text_or [] (ac_username a)) (dropWhile (\<lambda>c. c = CHR ''@'') v)
     \<or> contains_text (text_or [] (ac_first_name a)) v"

definition banned_now :: "int \<Rightarrow> account \<Rightarrow> bool" where
  "banned_now now a \<longleftrightarrow> (case ac_ban_until a of None \<Rightarrow> False | Some t \<Rightarrow> t > now)"

definition status_matches :: "string \<Rightarrow> int \<Rightarrow> account \<Rightarrow> bool" where
  "status_matches v now a \<longleftrightarrow>
     v = ''all''
     \<or> (v = ''active'' \<and> ac_role a \<notin> {''restricted'', ''banned''} \<and> \<not> banned_now now a)
     \<or> (v = ''restricted'' \<and> ac_role a = ''restricted'')
     \<or> (v = ''banned'' \<and> (ac_role a = ''banned'' \<or> banned_now now a))"

definition user_matches :: "users_query \<Rightarrow> int \<Rightarrow> account \<Rightarrow> bool" where
  "user_matches q now a \<longleftrightarrow>
     search_matches (text_or [] (uq_search q)) a
     \<and> (text_or ''all'' (uq_role q) = ''all'' \<or> ac_role a = text_or ''all'' (uq_role q))
     \<and> status_matches (text_or ''all'' (uq_status q)) now a"

section \<open>The statements\<close>

text \<open>A row of the answer: the account, how many downloads it has in the period, and the latest.\<close>

type_synonym found_row = "account \<times> nat \<times> int option"

definition period_days :: "string \<Rightarrow> int" where
  "period_days v = (if v = ''7'' then 7 else if v = ''30'' then 30 else if v = ''90'' then 90 else 0)"

definition downloads_since :: "string \<Rightarrow> int \<Rightarrow> int \<Rightarrow> identity_db \<Rightarrow> int list" where
  "downloads_since period now user s =
     filter (\<lambda>t. period = ''0'' \<or> now - period_days period * 86400000000 \<le> t) (downloads_of user s)"

definition found_user :: "users_query \<Rightarrow> int \<Rightarrow> identity_db \<Rightarrow> account \<Rightarrow> found_row" where
  "found_user q now s a =
     (let ts = downloads_since (text_or ''0'' (uq_period q)) now (ac_id a) s in
      (a, length ts, (case ts of [] \<Rightarrow> None | t # ts \<Rightarrow> Some (foldl max t ts))))"

definition ranked_users :: "string \<Rightarrow> found_row list \<Rightarrow> found_row list" where
  "ranked_users by rows =
     (if by = ''created_at'' then sort_key (\<lambda>(a, _). (ac_created_at a, ac_id a)) rows
      else if by = ''updated_at'' then sort_key (\<lambda>(a, _). (ac_updated_at a, ac_id a)) rows
      else if by = ''name'' then sort_key (\<lambda>(a, _). (ac_first_name a, ac_id a)) rows
      else if by = ''role'' then sort_key (\<lambda>(a, _). (ac_role a, ac_id a)) rows
      else if by = ''dl_count'' then sort_key (\<lambda>(a, n, _). (n, ac_id a)) rows
      else sort_key (\<lambda>(a, _, t). (t, ac_id a)) rows)"

definition sql_users :: "users_query \<Rightarrow> int \<Rightarrow> identity_db \<Rightarrow> found_row list" where
  "sql_users q now s =
     (let rows = ranked_users (uq_sort q)
        (map (found_user q now s) (filter (user_matches q now) (accounts s))) in
      if uq_direction q = ''asc'' then rows else rev rows)"

definition sql_users_page :: "users_query \<Rightarrow> int \<Rightarrow> identity_db \<Rightarrow> found_row list" where
  "sql_users_page q now s = take (nat (sint (uq_limit q))) (drop (nat (sint (uq_offset q))) (sql_users q now s))"

section \<open>The call\<close>

definition decode_found ::
  "identity_env \<Rightarrow> i64 option \<Rightarrow> found_row \<Rightarrow> admin_error + admin_user" where
  "decode_found e owner row =
     (case row of (a, n, latest) \<Rightarrow>
       res_bind (admin_role (ac_role a)) (\<lambda>r.
       res_bind (traverse_option (get_time e AdminUnavailable) (ac_ban_until a)) (\<lambda>until.
       res_bind (get_time e AdminUnavailable (ac_created_at a)) (\<lambda>created.
       res_bind (get_time e AdminUnavailable (ac_updated_at a)) (\<lambda>updated.
       res_bind (traverse_option (get_time e AdminUnavailable) latest) (\<lambda>last.
       res_bind (if map_option sint owner = Some (ac_id a)
                 then res_bind (now_db e 3) (\<lambda>now. Inr (if row_is_blocked r until now then r else Owner))
                 else Inr r) (\<lambda>r.
       Inr \<lparr>au_id = ac_id a, au_username = ac_username a, au_first_name = ac_first_name a,
            au_photo_url = ac_photo_url a, au_role = r, au_language = ac_language a,
            au_theme = ac_theme a, au_ban_until = until, au_created_at = created,
            au_updated_at = updated, au_dl_count = n, au_dl_last_at = last\<rparr>)))))))"

definition bad_query :: "users_query \<Rightarrow> bool" where
  "bad_query q \<longleftrightarrow>
     sint (uq_offset q) < 0 \<or> \<not> (1 \<le> sint (uq_limit q) \<and> sint (uq_limit q) \<le> 200)
     \<or> \<not> pred_option (\<lambda>v. length v \<le> 256) (uq_search q)
     \<or> \<not> pred_option (\<lambda>v. v = ''all'' \<or> (\<exists>r. role_from_str v = Inr r)) (uq_role q)
     \<or> \<not> pred_option (\<lambda>v. v \<in> {''all'', ''active'', ''restricted'', ''banned''}) (uq_status q)
     \<or> \<not> pred_option (\<lambda>v. v \<in> {''7'', ''30'', ''90''}) (uq_period q)
     \<or> uq_sort q \<notin> {''created_at'', ''updated_at'', ''name'', ''role'', ''dl_count'', ''dl_last_at''}
     \<or> uq_direction q \<notin> {''asc'', ''desc''}"

definition admin_list_users ::
  "identity_env \<Rightarrow> identity_store \<Rightarrow> i64 \<Rightarrow> users_query \<Rightarrow> identity_db
    \<Rightarrow> (admin_error + user_page) \<times> identity_db" where
  "admin_list_users e st actor q =
     guarded (sint actor \<le> 0 \<or> bad_query q) AdminInvalidInput
       (reading e AdminUnavailable (\<lambda>s.
         res_bind (admin_auth e 0 actor (owner_id st) True False s) (\<lambda>_.
         let total = length (filter (user_matches q (ie_clock e 1)) (accounts s)) in
         res_bind (traverse_list (decode_found e (owner_id st)) (sql_users_page q (ie_clock e 2) s)) (\<lambda>items.
         Inr \<lparr>pg_items = items, pg_total = total, pg_offset = uq_offset q, pg_limit = uq_limit q,
              pg_has_more = (min (sint (uq_offset q) + int (length items)) (2 ^ 63 - 1) < int total)\<rparr>))))"

section \<open>Pages\<close>

lemma mset_ranked: "mset (ranked_users by rows) = mset rows"
  by (simp add: ranked_users_def)

lemma mset_sql_users:
  "mset (map (\<lambda>r. ac_id (fst r)) (sql_users q now s)) = mset (map ac_id (filter (user_matches q now) (accounts s)))"
proof -
  have "mset (sql_users q now s) = mset (map (found_user q now s) (filter (user_matches q now) (accounts s)))"
    by (simp add: sql_users_def Let_def mset_ranked)
  then have "mset (map (\<lambda>r. ac_id (fst r)) (sql_users q now s))
      = mset (map (\<lambda>r. ac_id (fst r)) (map (found_user q now s) (filter (user_matches q now) (accounts s))))"
    by (simp only: mset_map)
  also have "map (\<lambda>r. ac_id (fst r)) (map (found_user q now s) xs) = map ac_id xs" for xs
    by (simp add: found_user_def Let_def)
  finally show ?thesis .
qed

lemma length_sql_users: "length (sql_users q now s) = length (filter (user_matches q now) (accounts s))"
  using mset_eq_length [OF mset_sql_users, of q now s] by simp

lemma decode_found_id: "decode_found e owner r = Inr u \<Longrightarrow> au_id u = ac_id (fst r)"
  by (auto simp: decode_found_def res_bind_Inr_iff split: prod.splits if_splits)

lemma traverse_list_map:
  "traverse_list f xs = Inr ys \<Longrightarrow> (\<And>x y. f x = Inr y \<Longrightarrow> g y = h x) \<Longrightarrow> map g ys = map h xs"
  by (induction xs arbitrary: ys) (auto simp: res_bind_Inr_iff)

lemma admin_list_users_Inr:
  assumes "admin_list_users e st actor q s = (Inr page, t)" and "\<And>k. ie_clock e k = now"
  shows "map au_id (pg_items page) = map (\<lambda>r. ac_id (fst r)) (sql_users_page q now s)
    \<and> pg_total page = length (sql_users q now s) \<and> \<not> bad_query q
    \<and> (pg_has_more page \<longleftrightarrow> min (sint (uq_offset q) + int (length (pg_items page))) (2 ^ 63 - 1) < int (pg_total page))"
proof -
  from assms(1) obtain items where i: "traverse_list (decode_found e (owner_id st)) (sql_users_page q now s) = Inr items"
    "page = \<lparr>pg_items = items, pg_total = length (filter (user_matches q now) (accounts s)), pg_offset = uq_offset q,
       pg_limit = uq_limit q, pg_has_more = (min (sint (uq_offset q) + int (length items)) (2 ^ 63 - 1)
         < int (length (filter (user_matches q now) (accounts s))))\<rparr>" "\<not> bad_query q"
    by (auto simp: admin_list_users_def reading_eq res_bind_Inr_iff Let_def assms(2) split: if_splits)
  then show ?thesis using traverse_list_map [OF i(1) decode_found_id] by (simp add: length_sql_users)
qed

lemma concat_pages: "concat (map (\<lambda>k. take l (drop (k * l) xs)) [0..<n]) = take (n * l) xs"
  by (induction n) (simp_all add: take_add [symmetric] add.commute [of l])

lemma queries_alike:
  assumes "q' = q\<lparr>uq_offset := off, uq_limit := l\<rparr>"
  shows "sql_users q' now s = sql_users q now s" "user_matches q' = user_matches q"
proof -
  show m: "user_matches q' = user_matches q" by (simp add: fun_eq_iff user_matches_def assms)
  have "found_user q' now s = found_user q now s" by (simp add: fun_eq_iff found_user_def assms)
  with m show "sql_users q' now s = sql_users q now s" by (simp add: sql_users_def assms)
qed

text \<open>C26. Who follows the pages until there are no more sees every account that matches exactly once.\<close>

theorem pages_visit_everyone_once:
  assumes "\<And>k. k < n \<Longrightarrow> admin_list_users e st actor (q\<lparr>uq_offset := off k, uq_limit := l\<rparr>) s = (Inr (page k), s)"
    and "\<And>k. k < n \<Longrightarrow> sint (off k) = int k * sint l"
    and "0 < n" "\<not> pg_has_more (page (n - 1))"
    and "distinct (map ac_id (accounts s))" "\<And>k. ie_clock e k = now"
  shows "distinct (concat (map (\<lambda>k. map au_id (pg_items (page k))) [0..<n]))
    \<and> set (concat (map (\<lambda>k. map au_id (pg_items (page k))) [0..<n]))
        = ac_id ` {a \<in> set (accounts s). user_matches q now a}"
proof -
  let ?all = "map (\<lambda>r. ac_id (fst r)) (sql_users q now s)" and ?l = "nat (sint l)"
  have q: "sql_users (q\<lparr>uq_offset := x, uq_limit := y\<rparr>) now s = sql_users q now s" for x y
    by (rule queries_alike) (rule refl)
  note ans = admin_list_users_Inr [OF assms(1) assms(6)]
  have l: "1 \<le> sint l" using ans [of 0] assms(3) by (simp add: bad_query_def)
  have items: "map au_id (pg_items (page k)) = take ?l (drop (k * ?l) ?all)" if "k < n" for k
    using ans [OF that] assms(2) [OF that] l
    by (simp add: sql_users_page_def q take_map drop_map nat_mult_distrib)
  have "length ?all \<le> n * ?l"
  proof (rule ccontr)
    assume *: "\<not> length ?all \<le> n * ?l"
    have n: "n - 1 < n" "n * ?l = (n - 1) * ?l + ?l" using assms(3) by (cases n; simp)+
    then have "?l \<le> length ?all - (n - 1) * ?l" using * by linarith
    then have len: "length (pg_items (page (n - 1))) = ?l"
      using arg_cong [OF items [OF n(1)], of length] by simp
    have off: "sint (off (n - 1)) + int ?l = int (n * ?l)" using assms(2) [OF n(1)] l n(2) by simp
    have "pg_has_more (page (n - 1)) \<longleftrightarrow> min (int (n * ?l)) (2 ^ 63 - 1) < int (length ?all)"
      using ans [OF n(1)] unfolding off [symmetric] len q by simp
    moreover have "int (n * ?l) < int (length ?all)" using * by linarith
    ultimately have "pg_has_more (page (n - 1))" by (simp only: min_less_iff_disj simp_thms)
    with assms(4) show False ..
  qed
  moreover have "concat (map (\<lambda>k. map au_id (pg_items (page k))) [0..<n]) = take (n * ?l) ?all"
    unfolding concat_pages [symmetric] by (intro arg_cong [where f = concat] map_cong refl) (simp add: items)
  ultimately have all: "concat (map (\<lambda>k. map au_id (pg_items (page k))) [0..<n]) = ?all" by simp
  have "distinct (map ac_id (filter (user_matches q now) (accounts s)))" using assms(5) by (rule distinct_map_filter)
  then have "distinct ?all" using mset_eq_imp_distinct_iff [OF mset_sql_users] by blast
  moreover have "set ?all = set (map ac_id (filter (user_matches q now) (accounts s)))"
    using mset_eq_setD [OF mset_sql_users] .
  ultimately show ?thesis unfolding all by auto
qed

end
