(* ===== verification/Admin_Example.thy ===== *)
theory Admin_Example
  imports Key_Safety Nsfw_Safety User_Search Identity_Example
begin

text \<open>
  What the administrator of \<open>Identity_Example\<close> does: make and revoke a key for machines, and put a
  site on the list for adult content, in a group where that is not allowed.
\<close>

section \<open>A key\<close>

definition key_call :: key_env where
  "key_call =
     \<lparr>ke_identity = example_call, ke_random = Some ''r'', ke_base64 = (\<lambda>s. s),
      ke_scopes = (\<lambda>_. Some [''users:read'']), ke_json = (\<lambda>_. None)\<rparr>"

definition example_key :: key_row where
  "example_key = new_key key_call 2 \<lparr>kc_name = ''n'', kc_scopes = Some [''users:read''], kc_expires_at = None\<rparr>
     [''users:read''] (raw_key key_call ''r'')"

definition key_tables :: "key_row list \<Rightarrow> key_db" where
  "key_tables rows = \<lparr>kd_identity = identity_tables 1, key_rows = rows, event_rows = []\<rparr>"

lemma key_actor: "key_admin key_call example_store 2 (key_tables rows) = Inr Admin"
proof -
  have "sql_user 2 (identity_tables 1) = Some (person 2 ''admin'')"
    by (simp add: identity_tables_def person_def sql_user_def find_row_def)
  then show ?thesis
    by (simp add: key_admin_def key_call_def key_tables_def admin_auth_def admin_role_def role_from_str_def
        person_def now_db_def get_time_def example_call_def example_store_def row_is_blocked_def)
qed

lemma example_key_select: "kr_id example_key = 7" "kr_expires_at example_key = None"
  "kr_hash example_key = key_digest key_call (raw_key key_call ''r'')"
  by (simp_all add: example_key_def) (simp_all add: new_key_def key_call_def example_call_def)

lemma example_key_checks: "key_checks example_key"
proof -
  have "length (lower_hex v) = 2 * length v" for v by (induction v) (simp_all add: lower_hex_def)
  then have "length (key_digest key_call v) = 64" for v
    by (simp add: key_digest_def key_call_def example_call_def)
  then have "chars_count (kr_hash example_key) \<le> 64"
    using chars_count_le [of "kr_hash example_key"] by (simp add: example_key_select)
  moreover have "chars_count (kr_prefix example_key) \<le> 12"
    by (rule order.trans [OF chars_count_le])
      (simp add: example_key_def new_key_def raw_key_def key_call_def continuation_bytes_def byte_def)
  moreover have "chars_count (kr_name example_key) \<le> 128"
    by (rule order.trans [OF chars_count_le]) (simp add: example_key_def new_key_def)
  ultimately show ?thesis by (simp add: key_checks_def example_key_select int32_def)
qed

lemma example_created:
  "\<exists>c. api_key_create key_call example_store 2
       \<lparr>kc_name = ''n'', kc_scopes = Some [''users:read''], kc_expires_at = None\<rparr> (key_tables [])
     = (Inr c, key_tables [example_key]) \<and> ck_scopes c = [''users:read''] \<and> ck_expires_at c = None"
proof -
  have n: "chars_count ''n'' \<le> 128" by (rule order.trans [OF chars_count_le]) simp
  have v: "valid_scope ''users:read''" by (simp add: valid_scope_def api_key_scopes_def)
  have d: "decode_api_key key_call example_key = Inr k \<Longrightarrow> ak_scopes k = [''users:read''] \<and> ak_expires_at k = None"
    for k using decode_api_key_Inr [of key_call example_key k] by (simp add: key_call_def example_key_select)
  have "\<exists>k. decode_api_key key_call example_key = Inr k"
    by (simp add: decode_api_key_def key_call_def v get_time_def example_call_def)
      (simp add: example_key_def new_key_def)
  then obtain k where k: "decode_api_key key_call example_key = Inr k" by blast
  have "sql_key_insert example_key (key_tables []) = Some (key_tables [example_key])"
    by (simp add: sql_key_insert_Some example_key_checks) (simp add: key_tables_def sql_key_def find_row_def)
  moreover have "sql_key (key_digest key_call (raw_key key_call ''r'')) (key_tables [example_key]) = Some example_key"
    by (simp add: key_tables_def sql_key_def find_row_def example_key_select)
  moreover have "ke_random key_call = Some ''r''" "ie_up (ke_identity key_call)"
    by (simp_all add: key_call_def example_call_def)
  ultimately show ?thesis
    using n v k d [OF k]
    by (simp add: api_key_create_def guarded_def in_transaction_def key_actor Let_def example_key_def [symmetric])
qed

lemma created_key_opens_its_scopes_witness:
  "\<exists>c t. api_key_create key_call example_store 2
       \<lparr>kc_name = ''n'', kc_scopes = Some [''users:read''], kc_expires_at = None\<rparr> (key_tables []) = (Inr c, t)
    \<and> fst (key_gate key_call (Some example_store) (Some (ck_key c)) ''users:read'' t)
        = Inr \<lparr>mk_scopes = [''users:read'']\<rparr>
    \<and> fst (key_gate key_call (Some example_store) (Some (ck_key c)) ''users:write'' t)
        = Inl (M2mError 403 ''API key missing required scope'' False)"
proof -
  obtain c where c: "api_key_create key_call example_store 2
       \<lparr>kc_name = ''n'', kc_scopes = Some [''users:read''], kc_expires_at = None\<rparr> (key_tables [])
     = (Inr c, key_tables [example_key])" "ck_scopes c = [''users:read'']" "ck_expires_at c = None"
    using example_created by blast
  have e: "ie_up (ke_identity key_call)" "ie_datetime (ke_identity key_call) t" for t
    by (simp_all add: key_call_def example_call_def)
  have s: "has_scope [''users:read''] ''users:read''" "\<not> has_scope [''users:read''] ''users:write''"
    by (simp_all add: has_scope_def starts_with_def)
  show ?thesis
    using created_key_opens_its_scopes [OF c(1) rtranclp.rtrancl_refl refl refl e(1), of example_store "''users:read''"]
      created_key_opens_its_scopes [OF c(1) rtranclp.rtrancl_refl refl refl e(1), of example_store "''users:write''"]
      c s e by (auto simp: key_expired_def)
qed

lemma revoked_key_is_dead_witness:
  "\<exists>t. api_key_revoke key_call example_store 2 7 (key_tables [example_key]) = (Inr (), t)
    \<and> fst (key_gate key_call (Some example_store) (Some (raw_key key_call ''r'')) ''users:read'' t)
        \<noteq> Inr \<lparr>mk_scopes = [''users:read'']\<rparr>"
proof -
  have "list_ex (\<lambda>r. kr_id r = 7) (key_rows (key_tables [example_key]))"
    by (simp add: key_tables_def example_key_select)
  then have "\<exists>t. api_key_revoke key_call example_store 2 7 (key_tables [example_key]) = (Inr (), t)"
    by (simp add: api_key_revoke_def guarded_def in_transaction_def key_actor)
      (simp add: key_call_def example_call_def)
  moreover have "sql_key (key_digest key_call (raw_key key_call ''r'')) (key_tables [example_key]) = Some example_key"
    by (simp add: key_tables_def sql_key_def find_row_def example_key_select)
  ultimately show ?thesis
    using revoked_key_is_dead [of key_call example_store 2 7 "key_tables [example_key]"]
    by (fastforce simp: example_key_select)
qed

section \<open>A site\<close>

definition bad_site :: rule_url where
  "bad_site =
     \<lparr>url_text = ''https://bad.com/'', url_scheme = ''https'', url_host = Some ''bad.com'', url_username = [],
      url_password = None, url_path = ''/'', ru_query = None, ru_fragment = None, ru_port = Some 443,
      ru_host_text = ''bad.com''\<rparr>"

definition rule_call :: rule_env where
  "rule_call =
     \<lparr>ne_identity = example_call, ne_url = (\<lambda>t. if t = ''https://bad.com/'' then Some bad_site else None),
      ne_lower = (\<lambda>s. s), ne_alnum = (\<lambda>n. 97 \<le> n \<and> n \<le> 122), ne_escape = (\<lambda>s. s),
      ne_compiles = (\<lambda>_. True), ne_find = (\<lambda>_ _. []), ne_rowid = (\<lambda>k. 1 + int k)\<rparr>"

definition rule_tables :: "rule_row list \<Rightarrow> rule_db" where
  "rule_tables ds = \<lparr>rd_identity = identity_tables 1, rd_domains = ds, rd_keywords = [], rd_blur = []\<rparr>"

definition bad_input :: rule_input where
  "bad_input = \<lparr>ri_domain = Some ''bad.com'', ri_keyword = None, ri_note = None\<rparr>"

lemma rule_actor: "rule_moderator rule_call example_store 2 (rule_tables ds) = Inr ()"
proof -
  have "sql_user 2 (identity_tables 1) = Some (person 2 ''admin'')"
    by (simp add: identity_tables_def person_def sql_user_def find_row_def)
  then show ?thesis
    by (simp add: rule_moderator_def rule_call_def rule_tables_def admin_auth_def admin_role_def role_from_str_def
        person_def now_db_def get_time_def example_call_def example_store_def row_is_blocked_def less_role_def)
qed

lemma first_revision: "rule_revision (rule_tables ds) = Inr 0"
  by (simp add: rule_revision_def rule_tables_def identity_tables_def sql_setting_def revision_key_def
      parse_i64_def parse_unsigned_def parse_digits_def digit_value_def is_ascii_digit_def byte_def
      show_int_def show_nat.simps char_of_eq_iff take_bit_eq_mod)

lemma bad_value: "normalize_value rule_call RuleDomain ''bad.com'' = Inr ''bad.com''"
proof -
  have p: "pieces ''bad.com'' = map (\<lambda>c. [c]) ''bad.com''" by (simp add: continuation_bytes_def byte_def)
  have "code_point [c] = byte c" if "byte c < 128" for c using that by (simp add: leading_bits_def)
  then have c: "chars ''bad.com'' = map byte ''bad.com''" unfolding chars_def p by (simp add: byte_def)
  have "trim ''bad.com'' = ''bad.com''"
    unfolding trim_def p by (simp add: blank_piece_def leading_bits_def is_whitespace_def byte_def)
  moreover have "\<not> list_ex is_control (chars ''bad.com'')" unfolding c by (simp add: is_control_def byte_def)
  moreover have "chars_count ''bad.com'' \<le> 253" by (rule order.trans [OF chars_count_le]) simp
  moreover have "normalize_site rule_call ''bad.com'' = Inr ''bad.com''"
    by (simp add: normalize_site_def rule_call_def bad_site_def plain_site_def starts_with_def ends_with_def
        site_label_ok_def port_suffix_def rsplit_once_def port_suffix_ok_def)
  ultimately show ?thesis
    by (simp add: normalize_value_def rule_call_def strip_prefix_def starts_with_def value_limit_def Let_def)
qed

definition bad_row :: rule_row where
  "bad_row = \<lparr>rr_id = 1, rr_value = ''bad.com'', rr_note = None, rr_created_at = 100\<rparr>"

lemma bad_row_new: "new_rule rule_call 0 ''bad.com'' None = bad_row" "rule_checks RuleDomain bad_row"
proof -
  have "chars_count ''bad.com'' \<le> 253" by (rule order.trans [OF chars_count_le]) simp
  then show "rule_checks RuleDomain bad_row" by (simp add: rule_checks_def bad_row_def value_limit_def opt_chars_def)
qed (simp add: new_rule_def bad_row_def rule_call_def example_call_def)

lemma bad_rules: "rules_of rule_call (rule_tables [bad_row]) = Inr \<lparr>cr_domains = [''bad.com''], cr_keywords = []\<rparr>"
  "rules_of rule_call (rule_tables []) = Inr \<lparr>cr_domains = [], cr_keywords = []\<rparr>"
proof -
  have "compile_domain rule_call ''bad.com'' = Inr ''bad.com''" by (simp add: compile_domain_def bad_value)
  then show "rules_of rule_call (rule_tables [bad_row]) = Inr \<lparr>cr_domains = [''bad.com''], cr_keywords = []\<rparr>"
    by (simp add: rules_of_def load_rules_def rule_rows_def rule_tables_def decode_rule_def bad_row_def
        compile_rules_def map_filter_def rule_call_def example_call_def get_time_def)
qed (simp add: rules_of_def load_rules_def rule_rows_def rule_tables_def compile_rules_def map_filter_def)

lemma bad_imported:
  "nsfw_import rule_call example_store 2 [bad_input] [] None (rule_tables [])
     = (Inr (1, 0), sql_revision_advance (rule_tables [bad_row]))"
proof -
  have "import_rules rule_call RuleDomain 0 [bad_input] (rule_tables []) = Inr (1, rule_tables [bad_row])"
    using bad_row_new by (simp add: input_value_def other_value_def bad_input_def bad_note_def bad_value
        sql_rule_import_def Let_def value_taken_def rule_rows_def set_rules_def) (simp add: rule_tables_def)
  moreover have "ie_up (ne_identity rule_call)" by (simp add: rule_call_def example_call_def)
  ultimately show ?thesis
    by (simp add: nsfw_import_def guarded_def in_transaction_def rule_actor revision_matches_def first_revision
        bad_rules)
qed

lemma group_known: "sql_nsfw_allowed (- 100) (rule_tables ds) = Some False"
  by (simp add: sql_nsfw_allowed_def rule_tables_def identity_tables_def example_group_def find_row_def)

lemma rule_select: "ie_up (ne_identity rule_call)" "ne_url rule_call ''https://bad.com/'' = Some bad_site"
  "checkable ''https://bad.com/'' bad_site"
  by (simp_all add: rule_call_def example_call_def) (simp add: bad_site_def checkable_def)

lemma forced_policy:
  "content_policy_for_request rule_call 3 (- 100) ''https://bad.com/'' [] True (rule_tables [])
     = (Inr \<lparr>cd_blocked = True, cd_spoiler = False\<rparr>, rule_tables [])"
  unfolding content_policy_Inr
  by (simp add: bad_rules group_known check_content_def Let_def rule_select)

lemma import_only_tightens_witness:
  "\<exists>t d. nsfw_import rule_call example_store 2 [bad_input] [] None (rule_tables []) = (Inr (1, 0), t)
    \<and> content_policy_for_request rule_call 3 (- 100) ''https://bad.com/'' [] True t = (Inr d, t) \<and> cd_blocked d"
  using bad_imported import_only_tightens [OF bad_imported forced_policy] by auto

lemma bad_edit:
  "\<exists>r. nsfw_mutate rule_call example_store 2 RuleDomain None (Some bad_input) (Some 0) (rule_tables [])
     = (Inr r, sql_revision_advance (rule_tables [bad_row]))"
proof -
  have i: "sql_rule_insert rule_call RuleDomain ''bad.com'' None (rule_tables []) = Some (rule_tables [bad_row])"
    using bad_row_new by (simp add: sql_rule_insert_def Let_def value_taken_def rule_rows_def set_rules_def)
      (simp add: rule_tables_def)
  have d: "decode_rule rule_call RuleDomain bad_row = Inr \<lparr>nr_id = 1, nr_domain = Some ''bad.com'',
      nr_keyword = None, nr_note = None, nr_created_at = 100\<rparr>"
    by (simp add: decode_rule_def get_time_def rule_call_def example_call_def bad_row_def)
  have "rule_rows RuleDomain (rule_tables [bad_row]) = [bad_row]" by (simp add: rule_rows_def rule_tables_def)
  then have l: "load_rules rule_call RuleDomain (rule_tables [bad_row]) = Inr [\<lparr>nr_id = 1, nr_domain = Some ''bad.com'',
      nr_keyword = None, nr_note = None, nr_created_at = 100\<rparr>]"
    by (simp add: load_rules_def Let_def d)
  have "ne_rowid rule_call 0 = 1" by (simp add: rule_call_def)
  then have "\<exists>r. write_rule rule_call RuleDomain None bad_input None (rule_tables []) = Inr (r, rule_tables [bad_row])"
    by (simp add: write_rule_def input_value_def other_value_def bad_input_def bad_note_def bad_value or_old_def
        Let_def i l find_row_def)
  moreover have "ie_up (ne_identity rule_call)" by (simp add: rule_call_def example_call_def)
  ultimately show ?thesis
    by (auto simp: nsfw_mutate_def in_transaction_def rule_actor revision_matches_def first_revision bad_rules)
qed

lemma rule_edit_is_compare_and_set_witness:
  "\<exists>r t. nsfw_mutate rule_call example_store 2 RuleDomain None (Some bad_input) (Some 0) (rule_tables []) = (Inr r, t)
    \<and> rule_revision t = Inr 1
    \<and> (\<forall>q. fst (nsfw_mutate rule_call example_store 2 RuleDomain None (Some bad_input) (Some 0) t) \<noteq> Inr q)"
proof -
  obtain r where r: "nsfw_mutate rule_call example_store 2 RuleDomain None (Some bad_input) (Some 0) (rule_tables [])
     = (Inr r, sql_revision_advance (rule_tables [bad_row]))" using bad_edit by blast
  have "sql_setting revision_key (rd_identity (rule_tables [])) \<noteq> Some None"
    by (simp add: sql_setting_def revision_key_def rule_tables_def identity_tables_def)
  then show ?thesis using r rule_edit_is_compare_and_set [OF r] by auto
qed

lemma policy_stays_available_witness:
  "\<exists>d. content_policy_for_request rule_call 3 (- 100) ''https://bad.com/'' [] False
        (sql_revision_advance (rule_tables [bad_row]))
      = (Inr d, sql_revision_advance (rule_tables [bad_row]))
    \<and> (cd_blocked d \<longleftrightarrow> flagged rule_call ''https://bad.com/'' [] (sql_revision_advance (rule_tables [bad_row])))"
proof -
  have "reads_alike rule_call rule_call"
    unfolding reads_alike_def by (intro exI [of _ "ie_clock example_call"] exI [of _ True] exI [of _ 7]
        exI [of _ "\<lambda>k. 1 + int k"]) (simp add: rule_call_def example_call_def)
  then have s: "(rule_step rule_call)\<^sup>*\<^sup>* (rule_tables []) (sql_revision_advance (rule_tables [bad_row]))"
    using rule_step.import_all [OF _ bad_imported] by blast
  have "rd_domains (rule_tables []) = []" "rd_keywords (rule_tables []) = []" by (simp_all add: rule_tables_def)
  moreover have "sql_nsfw_allowed (- 100) (sql_revision_advance (rule_tables [bad_row])) = Some False"
    by (simp add: advance_select group_known)
  ultimately show ?thesis
    using rule_select policy_stays_available [OF s, of "''https://bad.com/''" bad_site "[]" 3 False "- 100"] by auto
qed

section \<open>The users, two to a page\<close>

definition all_users :: users_query where
  "all_users =
     \<lparr>uq_offset = 0, uq_limit = 2, uq_search = None, uq_role = None, uq_status = None,
      uq_sort = ''created_at'', uq_direction = ''asc'', uq_period = None\<rparr>"

lemma all_found: "sql_users all_users 100 (identity_tables 1)
    = map (\<lambda>a. (a, 0, None)) [person 1 ''user'', person 2 ''admin'', person 3 ''user'', person 4 ''banned'']"
  by (simp add: sql_users_def all_users_def identity_tables_def ranked_users_def user_matches_def text_or_def
      search_matches_def status_matches_def found_user_def downloads_since_def downloads_of_def person_def)

lemma user_pages:
  assumes "rows = (if k = 0 then [person 1 ''user'', person 2 ''admin''] else [person 3 ''user'', person 4 ''banned''])"
    and "k < (2 :: nat)"
  shows "\<exists>page. admin_list_users example_call example_store 2 (all_users\<lparr>uq_offset := 2 * of_nat k, uq_limit := 2\<rparr>)
       (identity_tables 1) = (Inr page, identity_tables 1) \<and> (pg_has_more page \<longleftrightarrow> k = 0)"
proof -
  let ?q = "all_users\<lparr>uq_offset := 2 * of_nat k, uq_limit := 2\<rparr>"
  have k: "k = 0 \<or> k = 1" using assms(2) by auto
  have a: "sql_user 2 (identity_tables 1) = Some (person 2 ''admin'')"
    by (simp add: identity_tables_def person_def sql_user_def find_row_def)
  have auth: "admin_auth example_call 0 2 (Some 1) True False (identity_tables 1) = Inr Admin"
    by (simp add: admin_auth_def a admin_role_def role_from_str_def person_def now_db_def get_time_def
        example_call_def row_is_blocked_def)
  have d: "\<exists>u. decode_found example_call (Some 1) (person i r, 0, None) = Inr u" if "r \<in> set role_names" for i r
    using that by (auto simp: decode_found_def person_def admin_role_def role_from_str_def role_names_def now_db_def
        get_time_def example_call_def)
  have rows: "rows = [person (if k = 0 then 1 else 3) ''user'', person (if k = 0 then 2 else 4) (if k = 0 then ''admin'' else ''banned'')]"
    using k assms(1) by auto
  obtain u v where "decode_found example_call (Some 1) (hd rows, 0, None) = Inr u"
      "decode_found example_call (Some 1) (hd (tl rows), 0, None) = Inr v"
    unfolding rows using d by (fastforce simp: role_names_def)
  then have "traverse_list (decode_found example_call (Some 1)) (map (\<lambda>a. (a, 0, None)) rows) = Inr [u, v]"
    unfolding rows by simp
  moreover have "sql_users_page ?q 100 (identity_tables 1) = map (\<lambda>a. (a, 0, None)) rows"
    using k assms(1) by (auto simp: sql_users_page_def queries_alike(1) [OF refl] all_found)
  moreover have "length (filter (user_matches ?q 100) (accounts (identity_tables 1))) = 4"
    unfolding length_sql_users [symmetric] queries_alike(1) [OF refl] all_found by simp
  moreover have "\<not> bad_query ?q" using k by (auto simp: bad_query_def all_users_def)
  moreover have "ie_up example_call" "ie_clock example_call j = 100" "owner_id example_store = Some 1" for j
    by (simp_all add: example_call_def example_store_def)
  ultimately show ?thesis
    using k by (auto simp: admin_list_users_def guarded_def reading_eq auth Let_def)
qed

lemma pages_visit_everyone_once_witness:
  "\<exists>page. (\<forall>k < 2. admin_list_users example_call example_store 2
        (all_users\<lparr>uq_offset := 2 * of_nat k, uq_limit := 2\<rparr>) (identity_tables 1) = (Inr (page k), identity_tables 1))
    \<and> distinct (concat (map (\<lambda>k. map au_id (pg_items (page k))) [0..<2]))
    \<and> set (concat (map (\<lambda>k. map au_id (pg_items (page k))) [0..<2]))
        = ac_id ` {a \<in> set (accounts (identity_tables 1)). user_matches all_users 100 a}"
proof -
  obtain page where p: "\<And>k. k < 2 \<Longrightarrow> admin_list_users example_call example_store 2
      (all_users\<lparr>uq_offset := 2 * of_nat k, uq_limit := 2\<rparr>) (identity_tables 1) = (Inr (page k), identity_tables 1)"
    "\<And>k. k < (2 :: nat) \<Longrightarrow> pg_has_more (page k) \<longleftrightarrow> k = 0"
    using user_pages [OF refl] by metis
  have off: "sint (2 * of_nat k :: i64) = int k * sint (2 :: i64)" if "k < 2" for k
  proof -
    from that have "k = 0 \<or> k = 1" by auto
    then show ?thesis by auto
  qed
  have "distinct (map ac_id (accounts (identity_tables 1)))" "ie_clock example_call k = 100" for k
    by (simp_all add: identity_tables_def person_def example_call_def)
  with p off show ?thesis
    using pages_visit_everyone_once [where n = 2 and e = example_call and st = example_store and actor = 2
        and q = all_users and off = "\<lambda>k. 2 * of_nat k" and l = 2 and s = "identity_tables 1" and page = page
        and now = 100] by (intro exI [of _ page]) auto
qed

end
